(* ===== verification/Prelude.thy ===== *)
theory Prelude
  imports Main "HOL-Library.Char_ord" "HOL-Library.List_Lexorder" "HOL-Library.Sublist"
begin

text \<open>
  What every theory of the development shares: the named theorem collections, the error monad,
  Python's operations on text, and the lemmas about them.

  Text is Isabelle's \<open>string\<close>, a list of 8-bit characters, so it stands for Python strings whose
  code points are below 256 (Latin-1). Lower-casing, whitespace and digits follow Python on that
  range. UUIDs are their canonical lower-case text, so \<open>str(uuid)\<close> is the identity and sorting by
  \<open>key=str\<close> is the lexicographic order of strings. Instants are integers: microseconds since the
  epoch, in UTC.
\<close>

section \<open>Collections and types\<close>

named_theorems py_simps "evaluation of Python text operations"
named_theorems op_defs "definitions of the modelled operations"
named_theorems inv_intros "preservation of component invariants"

type_synonym uuid = string
type_synonym datetime = int

abbreviation newline :: char where "newline \<equiv> CHR 0x0A"

section \<open>The error monad\<close>

text \<open>A computation that may raise: \<open>Inl\<close> is the exception, \<open>Inr\<close> the returned value.\<close>

definition bindE :: "'e + 'a \<Rightarrow> ('a \<Rightarrow> 'e + 'b) \<Rightarrow> 'e + 'b" where
  "bindE m k = (case m of Inl e \<Rightarrow> Inl e | Inr x \<Rightarrow> k x)"

lemma bindE_simps [simp]:
  "bindE (Inl e) k = Inl e"
  "bindE (Inr x) k = k x"
  by (simp_all add: bindE_def)

lemma bindE_eq_Inr: "bindE m k = Inr y \<longleftrightarrow> (\<exists>x. m = Inr x \<and> k x = Inr y)"
  by (cases m) auto

lemma bindE_eq_Inl: "bindE m k = Inl e \<longleftrightarrow> m = Inl e \<or> (\<exists>x. m = Inr x \<and> k x = Inl e)"
  by (cases m) auto

lemma bindE_split:
  "P (bindE m k) \<longleftrightarrow> (\<forall>e. m = Inl e \<longrightarrow> P (Inl e)) \<and> (\<forall>x. m = Inr x \<longrightarrow> P (k x))"
  by (cases m) auto

text \<open>
  Python's \<open>all\<close> and \<open>any\<close> over a generator whose elements may raise: they stop at the first
  element that decides the result, so a later element that would raise is never evaluated.
\<close>

fun allE :: "('e + bool) list \<Rightarrow> 'e + bool" where
  "allE [] = Inr True"
| "allE (m # ms) = bindE m (\<lambda>b. if b then allE ms else Inr False)"

fun anyE :: "('e + bool) list \<Rightarrow> 'e + bool" where
  "anyE [] = Inr False"
| "anyE (m # ms) = bindE m (\<lambda>b. if b then Inr True else anyE ms)"

lemma allE_total: "\<forall>m \<in> set ms. \<exists>b. m = Inr b \<Longrightarrow> allE ms = Inr (\<forall>m \<in> set ms. m = Inr True)"
  by (induction ms) auto

lemma anyE_total: "\<forall>m \<in> set ms. \<exists>b. m = Inr b \<Longrightarrow> anyE ms = Inr (\<exists>m \<in> set ms. m = Inr True)"
  by (induction ms) auto

lemma allE_map_Inr [simp]: "allE (map (\<lambda>x. Inr (p x)) xs) = Inr (list_all p xs)"
  by (induction xs) auto

lemma anyE_map_Inr [simp]: "anyE (map (\<lambda>x. Inr (p x)) xs) = Inr (list_ex p xs)"
  by (induction xs) auto

lemma allE_True_iff: "allE ms = Inr True \<longleftrightarrow> (\<forall>m \<in> set ms. m = Inr True)"
  by (induction ms) (auto simp: bindE_eq_Inr split: if_splits)

lemma anyE_TrueD: "anyE ms = Inr True \<Longrightarrow> \<exists>m \<in> set ms. m = Inr True"
  by (induction ms) (auto simp: bindE_eq_Inr split: if_splits)

text \<open>\<open>if not b: raise e\<close>\<close>

definition requireE :: "bool \<Rightarrow> 'e \<Rightarrow> 'e + unit" where
  "requireE b e = (if b then Inr () else Inl e)"

lemma requireE_eq [simp]:
  "requireE b e = Inr u \<longleftrightarrow> b"
  "requireE b e = Inl d \<longleftrightarrow> \<not> b \<and> d = e"
  by (auto simp: requireE_def)

lemma requireE_bool [simp]:
  "requireE True e = Inr ()"
  "requireE False e = Inl e"
  by (simp_all add: requireE_def)

section \<open>Characters and text\<close>

text \<open>Text between single quotes.\<close>

definition squote :: "string \<Rightarrow> string" where
  "squote s = [CHR 0x27] @ s @ [CHR 0x27]"

definition code_of :: "char \<Rightarrow> nat" where
  "code_of c = of_char c"

definition in_range :: "nat \<Rightarrow> nat \<Rightarrow> char \<Rightarrow> bool" where
  "in_range lo hi c \<longleftrightarrow> lo \<le> code_of c \<and> code_of c \<le> hi"

definition is_ascii_upper :: "char \<Rightarrow> bool" where "is_ascii_upper = in_range 65 90"
definition is_ascii_lower :: "char \<Rightarrow> bool" where "is_ascii_lower = in_range 97 122"
definition is_digit :: "char \<Rightarrow> bool" where "is_digit = in_range 48 57"

text \<open>\<open>str.isspace\<close> on Latin-1: tab to carriage return, the four separators, space, NEL, NBSP.\<close>

definition is_space :: "char \<Rightarrow> bool" where
  "is_space c \<longleftrightarrow> in_range 9 13 c \<or> in_range 28 32 c \<or> code_of c = 133 \<or> code_of c = 160"

text \<open>\<open>str.lower\<close> on Latin-1: A to Z, and the accented capitals except the multiplication sign.\<close>

definition lower_char :: "char \<Rightarrow> char" where
  "lower_char c =
     (if in_range 65 90 c \<or> (in_range 192 222 c \<and> code_of c \<noteq> 215)
      then char_of (code_of c + 32) else c)"

definition py_lower :: "string \<Rightarrow> string" where
  "py_lower = map lower_char"

text \<open>
  \<open>str.upper\<close>, used only to compare with ASCII words: \<open>a\<close> to \<open>z\<close> and the accented small letters
  with a Latin-1 capital; sharp s becomes two letters.
\<close>

definition upper_char :: "char \<Rightarrow> string" where
  "upper_char c =
     (if in_range 97 122 c \<or> (in_range 224 254 c \<and> code_of c \<noteq> 247)
      then [char_of (code_of c - 32)]
      else if code_of c = 223 then ''SS'' else [c])"

definition py_upper :: "string \<Rightarrow> string" where
  "py_upper s = concat (map upper_char s)"

definition py_strip :: "string \<Rightarrow> string" where
  "py_strip s = rev (dropWhile is_space (rev (dropWhile is_space s)))"

definition py_startswith :: "string \<Rightarrow> string \<Rightarrow> bool" where
  "py_startswith s p \<longleftrightarrow> take (length p) s = p"

definition py_endswith :: "string \<Rightarrow> string \<Rightarrow> bool" where
  "py_endswith s p \<longleftrightarrow> py_startswith (rev s) (rev p)"

lemma py_startswith_iff: "py_startswith s p \<longleftrightarrow> prefix p s"
  by (auto simp: py_startswith_def prefix_def) (metis append_take_drop_id)

lemma py_endswith_iff: "py_endswith s p \<longleftrightarrow> suffix p s"
  by (simp add: py_endswith_def py_startswith_iff suffix_to_prefix)

lemma length_py_lower [simp]: "length (py_lower s) = length s"
  by (simp add: py_lower_def)

lemma py_lower_Nil [simp]: "py_lower s = [] \<longleftrightarrow> s = []"
  by (simp add: py_lower_def)

lemma code_of_less [simp]: "code_of c < 256"
  by (simp add: code_of_def)

lemma code_of_char_of [simp]: "n < 256 \<Longrightarrow> code_of (char_of n) = n"
  by (simp add: code_of_def)

lemma lower_char_idem [simp]: "lower_char (lower_char c) = lower_char c"
proof (cases "in_range 65 90 c \<or> (in_range 192 222 c \<and> code_of c \<noteq> 215)")
  case True
  then have "code_of (lower_char c) = code_of c + 32"
    by (simp add: lower_char_def) (auto simp: in_range_def)
  with True have "\<not> (in_range 65 90 (lower_char c) \<or> in_range 192 222 (lower_char c))"
    by (auto simp: in_range_def)
  then show ?thesis by (simp add: lower_char_def [of "lower_char c"])
next
  case False
  then have "lower_char c = c" by (simp only: lower_char_def if_False)
  then show ?thesis by simp
qed

lemma py_lower_idem [simp]: "py_lower (py_lower s) = py_lower s"
  by (simp add: py_lower_def comp_def)

lemma dropWhile_idem': "dropWhile P (rev (dropWhile P (rev (dropWhile P s)))) = rev (dropWhile P (rev (dropWhile P s)))"
proof (cases "dropWhile P s")
  case (Cons x xs)
  then have x: "\<not> P x" by (metis hd_dropWhile list.distinct(1) list.sel(1))
  then have "\<exists>ys. rev (dropWhile P (rev (x # xs))) = x # ys"
    by (simp add: dropWhile_append split: if_splits)
      (metis rev.simps(2) rev_rev_ident rev_append append_Cons append_Nil rev_is_Nil_conv)
  then obtain ys where "rev (dropWhile P (rev (x # xs))) = x # ys" ..
  with x show ?thesis by (simp only: Cons) simp
next
  case Nil
  then show ?thesis by (simp only:) simp
qed

lemma py_strip_idem [simp]: "py_strip (py_strip s) = py_strip s"
proof -
  let ?d = "dropWhile is_space"
  have "py_strip (py_strip s) = rev (?d (rev (?d (rev (?d (rev (?d s)))))))"
    by (simp add: py_strip_def)
  also have "?d (rev (?d (rev (?d s)))) = rev (?d (rev (?d s)))"
    by (rule dropWhile_idem')
  also have "rev (?d (rev (rev (?d (rev (?d s)))))) = rev (?d (rev (?d s)))"
    by simp
  finally show ?thesis by (simp add: py_strip_def)
qed

lemma set_py_strip: "set (py_strip s) \<subseteq> set s"
  by (auto simp: py_strip_def dest!: set_dropWhileD)

lemma set_py_strip_lower: "set (py_strip (py_lower s)) \<subseteq> lower_char ` set s"
  using set_py_strip [of "py_lower s"] by (auto simp: py_lower_def)

lemma py_strip_last: "py_strip s \<noteq> [] \<Longrightarrow> \<not> is_space (last (py_strip s))"
proof -
  assume ne: "py_strip s \<noteq> []"
  let ?r = "dropWhile is_space (rev (dropWhile is_space s))"
  from ne have "?r \<noteq> []" by (simp add: py_strip_def)
  then have "\<not> is_space (hd ?r)" by (rule hd_dropWhile)
  with \<open>?r \<noteq> []\<close> show ?thesis by (simp add: py_strip_def last_rev)
qed

lemma dropWhile_hd: "s = [] \<or> \<not> P (hd s) \<Longrightarrow> dropWhile P s = s"
  by (cases s) auto

lemma py_strip_id:
  assumes "s = [] \<or> (\<not> is_space (hd s) \<and> \<not> is_space (last s))"
  shows "py_strip s = s"
proof -
  have "dropWhile is_space s = s" using assms by (auto intro: dropWhile_hd)
  moreover have "dropWhile is_space (rev s) = rev s"
    using assms by (cases "s = []") (auto simp: hd_rev intro!: dropWhile_hd)
  ultimately show ?thesis by (simp add: py_strip_def)
qed

lemma py_strip_ne_space: "\<forall>c \<in> set s. \<not> is_space c \<Longrightarrow> py_strip s = s"
  by (rule py_strip_id) (cases "s = []"; simp)

section \<open>Splitting text\<close>

text \<open>\<open>s.split(c)\<close>: always at least one part.\<close>

fun split_on :: "'a \<Rightarrow> 'a list \<Rightarrow> 'a list list" where
  "split_on c [] = [[]]"
| "split_on c (x # xs) =
     (if x = c then [] # split_on c xs
      else (case split_on c xs of [] \<Rightarrow> [[x]] | p # ps \<Rightarrow> (x # p) # ps))"

text \<open>\<open>s.split(c, 1)\<close> and \<open>s.rsplit(c, 1)\<close> for a text that contains \<open>c\<close>, as the pair of parts.\<close>

definition split_first :: "'a \<Rightarrow> 'a list \<Rightarrow> 'a list \<times> 'a list" where
  "split_first c s = (takeWhile (\<lambda>x. x \<noteq> c) s, drop 1 (dropWhile (\<lambda>x. x \<noteq> c) s))"

definition split_last :: "'a \<Rightarrow> 'a list \<Rightarrow> 'a list \<times> 'a list" where
  "split_last c s =
     (rev (drop 1 (dropWhile (\<lambda>x. x \<noteq> c) (rev s))), rev (takeWhile (\<lambda>x. x \<noteq> c) (rev s)))"

lemma split_on_not_Nil [simp]: "split_on c s \<noteq> []"
  by (induction s) (auto split: list.splits)

lemma split_on_no_sep: "c \<notin> set s \<Longrightarrow> split_on c s = [s]"
  by (induction s) auto

lemma split_on_append: "c \<notin> set a \<Longrightarrow> split_on c (a @ c # b) = a # split_on c b"
  by (induction a) auto

lemma split_on_parts: "p \<in> set (split_on c s) \<Longrightarrow> c \<notin> set p"
proof (induction s arbitrary: p)
  case (Cons x xs)
  then show ?case by (cases "split_on c xs") (auto split: if_splits)
qed simp

lemma split_on_subset: "p \<in> set (split_on c s) \<Longrightarrow> set p \<subseteq> set s"
proof (induction s arbitrary: p)
  case (Cons x xs)
  show ?case
  proof (cases "split_on c xs")
    case (Cons q qs)
    with Cons.prems Cons.IH [of q] Cons.IH [of p] \<open>split_on c xs = q # qs\<close> show ?thesis
      by (auto split: if_splits)
  qed (simp add: Cons.prems)
qed simp

text \<open>\<open>sep.join(parts)\<close>\<close>

fun join_with :: "'a list \<Rightarrow> 'a list list \<Rightarrow> 'a list" where
  "join_with sep [] = []"
| "join_with sep [p] = p"
| "join_with sep (p # q # ps) = p @ sep @ join_with sep (q # ps)"

lemma join_split: "join_with [c] (split_on c s) = s"
proof (induction s)
  case (Cons x xs)
  show ?case
  proof (cases "split_on c xs")
    case (Cons p ps)
    with Cons.IH show ?thesis by (cases ps) auto
  qed simp
qed simp

lemma split_on_one: "split_on c s = [p] \<longleftrightarrow> s = p \<and> c \<notin> set p"
proof
  assume one: "split_on c s = [p]"
  then have "c \<notin> set p" using split_on_parts [of p c s] by simp
  moreover have "s = p" using one join_split [of c s] by simp
  ultimately show "s = p \<and> c \<notin> set p" by simp
qed (simp add: split_on_no_sep)

lemma split_on_two: "split_on c s = [a, b] \<longleftrightarrow> s = a @ c # b \<and> c \<notin> set a \<and> c \<notin> set b"
proof
  assume two: "split_on c s = [a, b]"
  then have "c \<notin> set a" "c \<notin> set b"
    using split_on_parts [of a c s] split_on_parts [of b c s] by simp_all
  moreover have "s = a @ c # b" using two join_split [of c s] by simp
  ultimately show "s = a @ c # b \<and> c \<notin> set a \<and> c \<notin> set b" by simp
qed (simp add: split_on_append split_on_no_sep)

lemma split_first_append [simp]: "c \<notin> set a \<Longrightarrow> split_first c (a @ c # b) = (a, b)"
  by (auto simp: split_first_def takeWhile_append dropWhile_append)

lemma split_first_eq: "c \<in> set s \<Longrightarrow> split_first c s = (a, b) \<longleftrightarrow> s = a @ c # b \<and> c \<notin> set a"
proof -
  assume "c \<in> set s"
  then obtain p q where s: "s = p @ c # q" and p: "c \<notin> set p"
    by (meson split_list_first)
  have "split_first c s = (p, q)" using p by (simp add: s)
  moreover have "p @ c # q = a @ c # b \<and> c \<notin> set a \<longleftrightarrow> (p, q) = (a, b)"
    using p by (auto simp: append_eq_append_conv2 Cons_eq_append_conv append_eq_Cons_conv)
  ultimately show ?thesis by (simp add: s)
qed

lemma split_last_append [simp]: "c \<notin> set b \<Longrightarrow> split_last c (a @ c # b) = (a, b)"
  by (auto simp: split_last_def takeWhile_append dropWhile_append)

lemma split_last_eq: "c \<in> set s \<Longrightarrow> split_last c s = (a, b) \<longleftrightarrow> s = a @ c # b \<and> c \<notin> set b"
proof -
  assume "c \<in> set s"
  then obtain p q where s: "s = p @ c # q" and q: "c \<notin> set q"
    by (meson split_list_last)
  have "split_last c s = (p, q)" using q by (simp add: s)
  moreover have "p @ c # q = a @ c # b \<and> c \<notin> set b \<longleftrightarrow> (p, q) = (a, b)"
    using q by (auto simp: append_eq_append_conv2 Cons_eq_append_conv append_eq_Cons_conv)
  ultimately show ?thesis by (simp add: s)
qed

section \<open>Decimal numbers\<close>

text \<open>\<open>str(n)\<close> for an integer.\<close>

fun show_nat :: "nat \<Rightarrow> string" where
  "show_nat n = (if n < 10 then [char_of (48 + n)] else show_nat (n div 10) @ [char_of (48 + n mod 10)])"

declare show_nat.simps [simp del]

definition show_int :: "int \<Rightarrow> string" where
  "show_int i = (if i < 0 then CHR ''-'' # show_nat (nat (- i)) else show_nat (nat i))"

definition digit_val :: "char \<Rightarrow> nat" where
  "digit_val c = code_of c - 48"

definition digits_val :: "string \<Rightarrow> nat" where
  "digits_val = foldl (\<lambda>n c. 10 * n + digit_val c) 0"

text \<open>The digits of an integer literal: single underscores may separate digits.\<close>

fun int_digits :: "string \<Rightarrow> string option" where
  "int_digits [] = None"
| "int_digits [c] = (if is_digit c then Some [c] else None)"
| "int_digits (c # d # s) =
     (if \<not> is_digit c then None
      else map_option (Cons c) (if d = CHR ''_'' then int_digits s else int_digits (d # s)))"

text \<open>
  \<open>int(s)\<close> for text in base ten: surrounding whitespace, an optional sign, digits; \<open>None\<close> stands for
  \<open>ValueError\<close>. Python refuses more than 4300 digits with the same exception.
\<close>

definition int_max_str_digits :: nat where "int_max_str_digits = 4300"

definition py_int :: "string \<Rightarrow> int option" where
  "py_int s =
     (let t = py_strip s;
          neg = (case t of c # _ \<Rightarrow> c = CHR ''-'' | [] \<Rightarrow> False);
          sgd = (case t of c # _ \<Rightarrow> c = CHR ''-'' \<or> c = CHR ''+'' | [] \<Rightarrow> False)
      in case int_digits (if sgd then tl t else t) of
           None \<Rightarrow> None
         | Some ds \<Rightarrow> if int_max_str_digits < length ds then None
                      else Some (if neg then - int (digits_val ds) else int (digits_val ds)))"

lemma is_digit_char_of [simp]: "(n::nat) < 10 \<Longrightarrow> is_digit (char_of (48 + n))"
  by (simp add: is_digit_def in_range_def)

lemma digit_val_char_of [simp]: "(n::nat) < 10 \<Longrightarrow> digit_val (char_of (48 + n)) = n"
  by (simp add: digit_val_def)

lemma show_nat_digits: "\<forall>c \<in> set (show_nat n). is_digit c"
proof (induction n rule: show_nat.induct)
  case (1 n)
  then show ?case by (subst show_nat.simps) auto
qed

lemma show_nat_not_Nil [simp]: "show_nat n \<noteq> []"
  by (subst show_nat.simps) simp

lemma digits_val_snoc: "digits_val (s @ [c]) = 10 * digits_val s + digit_val c"
  by (simp add: digits_val_def)

lemma digits_val_show [simp]: "digits_val (show_nat n) = n"
proof (induction n rule: show_nat.induct)
  case (1 n)
  show ?case
  proof (cases "n < 10")
    case True
    then show ?thesis by (subst show_nat.simps) (simp add: digits_val_def)
  next
    case False
    with 1 show ?thesis by (subst show_nat.simps) (simp add: digits_val_snoc)
  qed
qed

lemma is_digit_not [simp]:
  "is_digit c \<Longrightarrow> c \<noteq> CHR ''_''" "is_digit c \<Longrightarrow> c \<noteq> CHR ''-''" "is_digit c \<Longrightarrow> c \<noteq> CHR ''+''"
  by (auto simp: is_digit_def in_range_def code_of_def)

lemma is_digit_not_space [simp]: "is_digit c \<Longrightarrow> \<not> is_space c"
  by (auto simp: is_digit_def is_space_def in_range_def)

lemma int_digits_all: "s \<noteq> [] \<Longrightarrow> \<forall>c \<in> set s. is_digit c \<Longrightarrow> int_digits s = Some s"
  by (induction s rule: int_digits.induct) auto

text \<open>Printing an integer and reading it back gives the integer.\<close>

lemma py_int_show_int:
  assumes "length (show_int i) \<le> int_max_str_digits"
  shows "py_int (show_int i) = Some i"
proof -
  define ds where "ds = show_nat (nat \<bar>i\<bar>)"
  have ds: "ds \<noteq> []" "\<forall>c \<in> set ds. is_digit c" "digits_val ds = nat \<bar>i\<bar>"
    by (simp_all add: ds_def show_nat_digits)
  have sh: "show_int i = (if i < 0 then CHR ''-'' # ds else ds)"
    by (simp add: show_int_def ds_def)
  have minus: "\<not> is_space (CHR ''-'')"
    by (simp add: is_space_def in_range_def code_of_def)
  have strip: "py_strip (show_int i) = show_int i"
    by (rule py_strip_ne_space) (use ds(2) minus in \<open>auto simp: sh\<close>)
  have len: "length ds \<le> int_max_str_digits"
    using assms by (auto simp: sh split: if_splits)
  show ?thesis
  proof (cases "i < 0")
    case True
    with ds len show ?thesis
      by (simp add: py_int_def strip) (simp add: sh int_digits_all)
  next
    case False
    obtain d r where dr: "ds = d # r" using ds(1) by (cases ds) auto
    with ds(2) have "is_digit d" by simp
    with False ds len dr show ?thesis
      by (simp add: py_int_def strip) (simp add: sh int_digits_all)
  qed
qed

end
