(* ===== verification/PyValue.thy ===== *)
theory PyValue
  imports Prelude Complex_Main
begin

text \<open>
  The Python values that attribute contexts, stored conditions and error details are made of, with
  Python's equality, truth value, hashability and comparison on them.

  A finite float is the rational number it denotes, so comparing an integer with a float is exact,
  as in Python. Dictionaries have text keys and are association lists (the first binding of a key
  counts); object identity, which only matters for a NaN inside a container, is not modelled. A
  datetime is its microsecond count, with or without a time zone.
\<close>

section \<open>Values\<close>

datatype pyfloat = Fin rat | PosInf | NegInf | NaN

datatype pydatetime = Naive int | Aware int

datatype pyval =
    PNone
  | PBool bool
  | PInt int
  | PFloat pyfloat
  | PStr string
  | PList "pyval list"
  | PTuple "pyval list"
  | is_PSet: PSet "pyval list"
  | PDict "(string \<times> pyval) list"
  | PDatetime pydatetime

text \<open>The exceptions of Python and its libraries (\<open>re.error\<close>, SQLAlchemy's \<open>IntegrityError\<close>) that the
  modelled code raises or handles.\<close>

datatype pyerr = ValueError | TypeError | KeyError | OverflowError | RuntimeError | RegexError | IntegrityError
  | MultipleResultsFound

text \<open>
  The parts of the run-time library that stay parameters: rendering a value that is not text
  (\<open>str\<close>, \<open>repr\<close>), reading a float, JSON, regular expressions (a compiled pattern is its \<open>match\<close>
  test; \<open>None\<close> is \<open>re.error\<close>) and the third-party date parser with the exception it raises.
\<close>

record pyrt =
  rt_str :: "pyval \<Rightarrow> string"
  rt_repr :: "pyval \<Rightarrow> string"
  rt_float :: "string \<Rightarrow> pyfloat option"
  rt_loads :: "string \<Rightarrow> pyval option"
  rt_dumps :: "pyval \<Rightarrow> string"
  rt_re :: "string \<Rightarrow> (string \<Rightarrow> bool) option"
  rt_date :: "string \<Rightarrow> pyerr + pydatetime"

section \<open>Numbers\<close>

fun flt_lt :: "pyfloat \<Rightarrow> pyfloat \<Rightarrow> bool" where
  "flt_lt (Fin a) (Fin b) \<longleftrightarrow> a < b"
| "flt_lt (Fin a) PosInf \<longleftrightarrow> True"
| "flt_lt NegInf (Fin b) \<longleftrightarrow> True"
| "flt_lt NegInf PosInf \<longleftrightarrow> True"
| "flt_lt _ _ \<longleftrightarrow> False"

fun flt_eq :: "pyfloat \<Rightarrow> pyfloat \<Rightarrow> bool" where
  "flt_eq NaN _ \<longleftrightarrow> False"
| "flt_eq _ NaN \<longleftrightarrow> False"
| "flt_eq a b \<longleftrightarrow> a = b"

definition flt_le :: "pyfloat \<Rightarrow> pyfloat \<Rightarrow> bool" where
  "flt_le a b \<longleftrightarrow> flt_lt a b \<or> flt_eq a b"

text \<open>The number a value is: booleans are integers.\<close>

fun num_of :: "pyval \<Rightarrow> pyfloat option" where
  "num_of (PBool b) = Some (Fin (if b then 1 else 0))"
| "num_of (PInt i) = Some (Fin (of_int i))"
| "num_of (PFloat f) = Some f"
| "num_of _ = None"

lemma flt_lt_irrefl [simp]: "\<not> flt_lt a a"
  by (cases a) auto

lemma flt_lt_asym: "flt_lt a b \<Longrightarrow> \<not> flt_lt b a"
  by (cases a; cases b) auto

lemma flt_trichotomy: "a \<noteq> NaN \<Longrightarrow> b \<noteq> NaN \<Longrightarrow> flt_lt a b \<or> flt_eq a b \<or> flt_lt b a"
  by (cases a; cases b) auto

lemma flt_eq_not_lt: "flt_eq a b \<Longrightarrow> \<not> flt_lt a b"
  by (cases a; cases b) auto

definition num_eq :: "pyfloat option \<Rightarrow> pyfloat option \<Rightarrow> bool" where
  "num_eq a b \<longleftrightarrow> (case (a, b) of (Some x, Some y) \<Rightarrow> flt_eq x y | _ \<Rightarrow> False)"

section \<open>Equality, truth, hashing\<close>

lemma size_snd_list:
  "size_list (\<lambda>p. size (snd p)) (xs :: (string \<times> pyval) list) \<le> size_list (size_prod (\<lambda>_. 0) size) xs"
  by (induction xs) auto

function py_eq :: "pyval \<Rightarrow> pyval \<Rightarrow> bool"
  and py_eqs :: "pyval list \<Rightarrow> pyval list \<Rightarrow> bool"
  and py_subset :: "pyval list \<Rightarrow> pyval list \<Rightarrow> bool"
  and py_mem :: "pyval \<Rightarrow> pyval list \<Rightarrow> bool"
  and py_subdict :: "(string \<times> pyval) list \<Rightarrow> (string \<times> pyval) list \<Rightarrow> bool"
  and py_bound :: "string \<Rightarrow> pyval \<Rightarrow> (string \<times> pyval) list \<Rightarrow> bool" where
  "py_eq PNone b \<longleftrightarrow> b = PNone"
| "py_eq (PStr s) b \<longleftrightarrow> (case b of PStr t \<Rightarrow> s = t | _ \<Rightarrow> False)"
| "py_eq (PList xs) b \<longleftrightarrow> (case b of PList ys \<Rightarrow> py_eqs xs ys | _ \<Rightarrow> False)"
| "py_eq (PTuple xs) b \<longleftrightarrow> (case b of PTuple ys \<Rightarrow> py_eqs xs ys | _ \<Rightarrow> False)"
| "py_eq (PSet xs) b \<longleftrightarrow>
     (case b of PSet ys \<Rightarrow> length xs = length ys \<and> py_subset xs ys | _ \<Rightarrow> False)"
| "py_eq (PDict xs) b \<longleftrightarrow>
     (case b of PDict ys \<Rightarrow> length xs = length ys \<and> py_subdict xs ys | _ \<Rightarrow> False)"
| "py_eq (PDatetime d) b \<longleftrightarrow> (case b of PDatetime d' \<Rightarrow> d = d' | _ \<Rightarrow> False)"
| "py_eq (PBool x) b \<longleftrightarrow> num_eq (num_of (PBool x)) (num_of b)"
| "py_eq (PInt x) b \<longleftrightarrow> num_eq (num_of (PInt x)) (num_of b)"
| "py_eq (PFloat x) b \<longleftrightarrow> num_eq (num_of (PFloat x)) (num_of b)"
| "py_eqs [] [] \<longleftrightarrow> True"
| "py_eqs (x # xs) (y # ys) \<longleftrightarrow> py_eq x y \<and> py_eqs xs ys"
| "py_eqs [] (_ # _) \<longleftrightarrow> False"
| "py_eqs (_ # _) [] \<longleftrightarrow> False"
| "py_subset [] ys \<longleftrightarrow> True"
| "py_subset (x # xs) ys \<longleftrightarrow> py_mem x ys \<and> py_subset xs ys"
| "py_mem x [] \<longleftrightarrow> False"
| "py_mem x (y # ys) \<longleftrightarrow> py_eq y x \<or> py_mem x ys"
| "py_subdict [] ys \<longleftrightarrow> True"
| "py_subdict ((k, v) # xs) ys \<longleftrightarrow> py_bound k v ys \<and> py_subdict xs ys"
| "py_bound k v [] \<longleftrightarrow> False"
| "py_bound k v ((k', w) # ys) \<longleftrightarrow> (if k = k' then py_eq v w else py_bound k v ys)"
  by pat_completeness auto
termination
  by (relation "measure (\<lambda>x. case x of
        Inl (Inl (a, b)) \<Rightarrow> size a + size b
      | Inl (Inr (Inl (xs, ys))) \<Rightarrow> size_list size xs + size_list size ys
      | Inl (Inr (Inr (xs, ys))) \<Rightarrow> size_list size xs + size_list size ys
      | Inr (Inl (a, ys)) \<Rightarrow> size a + size_list size ys
      | Inr (Inr (Inl (xs, ys))) \<Rightarrow> size_list (\<lambda>p. size (snd p)) xs + size_list (\<lambda>p. size (snd p)) ys
      | Inr (Inr (Inr (k, v, ys))) \<Rightarrow> size v + size_list (\<lambda>p. size (snd p)) ys)")
    (auto intro: add_mono [OF size_snd_list size_snd_list, THEN le_imp_less_Suc, THEN less_SucI])

text \<open>\<open>bool(v)\<close>\<close>

fun py_truthy :: "pyval \<Rightarrow> bool" where
  "py_truthy PNone \<longleftrightarrow> False"
| "py_truthy (PBool b) \<longleftrightarrow> b"
| "py_truthy (PInt i) \<longleftrightarrow> i \<noteq> 0"
| "py_truthy (PFloat f) \<longleftrightarrow> f \<noteq> Fin 0"
| "py_truthy (PStr s) \<longleftrightarrow> s \<noteq> []"
| "py_truthy (PList xs) \<longleftrightarrow> xs \<noteq> []"
| "py_truthy (PTuple xs) \<longleftrightarrow> xs \<noteq> []"
| "py_truthy (PSet xs) \<longleftrightarrow> xs \<noteq> []"
| "py_truthy (PDict xs) \<longleftrightarrow> xs \<noteq> []"
| "py_truthy (PDatetime _) \<longleftrightarrow> True"

fun py_hashable :: "pyval \<Rightarrow> bool" where
  "py_hashable (PList _) \<longleftrightarrow> False"
| "py_hashable (PDict _) \<longleftrightarrow> False"
| "py_hashable (PSet _) \<longleftrightarrow> False"
| "py_hashable (PTuple xs) \<longleftrightarrow> list_all py_hashable xs"
| "py_hashable _ \<longleftrightarrow> True"

text \<open>
  \<open>x in c\<close>. A set hashes \<open>x\<close> first, so an unhashable \<open>x\<close> is a \<open>TypeError\<close> (a set is looked up as a
  frozen set).
\<close>

fun py_contains :: "pyval \<Rightarrow> pyval \<Rightarrow> pyerr + bool" where
  "py_contains (PList ys) x = Inr (py_mem x ys)"
| "py_contains (PTuple ys) x = Inr (py_mem x ys)"
| "py_contains (PSet ys) x =
     (if py_hashable x \<or> is_PSet x then Inr (py_mem x ys) else Inl TypeError)"
| "py_contains _ x = Inl TypeError"

text \<open>\<open>str(v)\<close>: the text itself for text.\<close>

definition py_str :: "pyrt \<Rightarrow> pyval \<Rightarrow> string" where
  "py_str rt v = (case v of PStr s \<Rightarrow> s | _ \<Rightarrow> rt_str rt v)"

lemma py_str_PStr [simp]: "py_str rt (PStr s) = s"
  by (simp add: py_str_def)

text \<open>\<open><\<close> on datetimes: comparing one with a time zone and one without is a \<open>TypeError\<close>.\<close>

fun dt_lt :: "pydatetime \<Rightarrow> pydatetime \<Rightarrow> pyerr + bool" where
  "dt_lt (Naive a) (Naive b) = Inr (a < b)"
| "dt_lt (Aware a) (Aware b) = Inr (a < b)"
| "dt_lt _ _ = Inl TypeError"

lemma py_mem_iff: "py_mem x ys \<longleftrightarrow> (\<exists>y \<in> set ys. py_eq y x)"
  by (induction ys) auto

lemma py_eq_PStr_left: "py_eq (PStr s) v \<longleftrightarrow> v = PStr s"
  by (cases v) auto

lemma py_eq_PStr_right: "py_eq v (PStr s) \<longleftrightarrow> v = PStr s"
  by (cases v) (auto simp: num_eq_def split: option.splits)

lemma py_mem_PStr: "py_mem (PStr s) ys \<longleftrightarrow> PStr s \<in> set ys"
  by (auto simp: py_mem_iff py_eq_PStr_right)

lemma py_eq_PInt [simp]: "py_eq (PInt i) (PInt j) \<longleftrightarrow> i = j"
  by (auto simp: num_eq_def)

end
