(* ===== verification/Errors.thy ===== *)
theory Errors
  imports PyValue
begin

text \<open>
  The exception hierarchy of \<open>outlabs_auth/core/exceptions.py\<close>: one constructor per class, its parent,
  its machine-readable code and its HTTP status (inherited unless the class sets one), and the
  response body built from an exception. An exception value carries its class, message and details.
\<close>

section \<open>Classes\<close>

datatype exn_class =
    OutlabsAuthException
  | AuthenticationError
  | InvalidCredentialsError
  | TokenExpiredError
  | TokenInvalidError
  | RefreshTokenInvalidError
  | APIKeyInvalidError
  | APIKeyExpiredError
  | APIKeyLockedError
  | AuthenticationInfrastructureError
  | AccountLockedError
  | AccountInactiveError
  | AuthorizationError
  | PermissionDeniedError
  | RoleNotFoundError
  | PermissionNotFoundError
  | InsufficientPermissionsError
  | EntityError
  | EntityNotFoundError
  | CircularHierarchyError
  | InvalidParentEntityError
  | MaxDepthExceededError
  | EntityTypeNotAllowedError
  | InvalidEntityClassError
  | MembershipError
  | MembershipNotFoundError
  | MembershipAlreadyExistsError
  | MaxMembersExceededError
  | UserError
  | UserNotFoundError
  | UserAlreadyExistsError
  | InvalidPasswordError
  | EmailNotVerifiedError
  | ValidationError
  | InvalidInputError
  | MissingRequiredFieldError
  | EntityMoveCarriesAccessError
  | RateLimitError
  | ConfigurationError
  | DatabaseError
  | RedisError

text \<open>The class each class extends; the root extends Python's own \<open>Exception\<close>.\<close>

primrec exn_parent :: "exn_class \<Rightarrow> exn_class option" where
  "exn_parent OutlabsAuthException = None"
| "exn_parent AuthenticationError = Some OutlabsAuthException"
| "exn_parent InvalidCredentialsError = Some AuthenticationError"
| "exn_parent TokenExpiredError = Some AuthenticationError"
| "exn_parent TokenInvalidError = Some AuthenticationError"
| "exn_parent RefreshTokenInvalidError = Some AuthenticationError"
| "exn_parent APIKeyInvalidError = Some AuthenticationError"
| "exn_parent APIKeyExpiredError = Some AuthenticationError"
| "exn_parent APIKeyLockedError = Some AuthenticationError"
| "exn_parent AuthenticationInfrastructureError = Some OutlabsAuthException"
| "exn_parent AccountLockedError = Some AuthenticationError"
| "exn_parent AccountInactiveError = Some AuthenticationError"
| "exn_parent AuthorizationError = Some OutlabsAuthException"
| "exn_parent PermissionDeniedError = Some AuthorizationError"
| "exn_parent RoleNotFoundError = Some AuthorizationError"
| "exn_parent PermissionNotFoundError = Some AuthorizationError"
| "exn_parent InsufficientPermissionsError = Some AuthorizationError"
| "exn_parent EntityError = Some OutlabsAuthException"
| "exn_parent EntityNotFoundError = Some EntityError"
| "exn_parent CircularHierarchyError = Some EntityError"
| "exn_parent InvalidParentEntityError = Some EntityError"
| "exn_parent MaxDepthExceededError = Some EntityError"
| "exn_parent EntityTypeNotAllowedError = Some EntityError"
| "exn_parent InvalidEntityClassError = Some EntityError"
| "exn_parent MembershipError = Some OutlabsAuthException"
| "exn_parent MembershipNotFoundError = Some MembershipError"
| "exn_parent MembershipAlreadyExistsError = Some MembershipError"
| "exn_parent MaxMembersExceededError = Some MembershipError"
| "exn_parent UserError = Some OutlabsAuthException"
| "exn_parent UserNotFoundError = Some UserError"
| "exn_parent UserAlreadyExistsError = Some UserError"
| "exn_parent InvalidPasswordError = Some UserError"
| "exn_parent EmailNotVerifiedError = Some UserError"
| "exn_parent ValidationError = Some OutlabsAuthException"
| "exn_parent InvalidInputError = Some ValidationError"
| "exn_parent MissingRequiredFieldError = Some ValidationError"
| "exn_parent EntityMoveCarriesAccessError = Some InvalidInputError"
| "exn_parent RateLimitError = Some OutlabsAuthException"
| "exn_parent ConfigurationError = Some OutlabsAuthException"
| "exn_parent DatabaseError = Some OutlabsAuthException"
| "exn_parent RedisError = Some OutlabsAuthException"

text \<open>\<open>error_code\<close>, set by every class.\<close>

primrec error_code :: "exn_class \<Rightarrow> string" where
  "error_code OutlabsAuthException = ''AUTH_ERROR''"
| "error_code AuthenticationError = ''AUTHENTICATION_ERROR''"
| "error_code InvalidCredentialsError = ''INVALID_CREDENTIALS''"
| "error_code TokenExpiredError = ''TOKEN_EXPIRED''"
| "error_code TokenInvalidError = ''TOKEN_INVALID''"
| "error_code RefreshTokenInvalidError = ''REFRESH_TOKEN_INVALID''"
| "error_code APIKeyInvalidError = ''API_KEY_INVALID''"
| "error_code APIKeyExpiredError = ''API_KEY_EXPIRED''"
| "error_code APIKeyLockedError = ''API_KEY_LOCKED''"
| "error_code AuthenticationInfrastructureError = ''AUTH_INFRASTRUCTURE_UNAVAILABLE''"
| "error_code AccountLockedError = ''ACCOUNT_LOCKED''"
| "error_code AccountInactiveError = ''ACCOUNT_INACTIVE''"
| "error_code AuthorizationError = ''AUTHORIZATION_ERROR''"
| "error_code PermissionDeniedError = ''PERMISSION_DENIED''"
| "error_code RoleNotFoundError = ''ROLE_NOT_FOUND''"
| "error_code PermissionNotFoundError = ''PERMISSION_NOT_FOUND''"
| "error_code InsufficientPermissionsError = ''INSUFFICIENT_PERMISSIONS''"
| "error_code EntityError = ''ENTITY_ERROR''"
| "error_code EntityNotFoundError = ''ENTITY_NOT_FOUND''"
| "error_code CircularHierarchyError = ''CIRCULAR_HIERARCHY''"
| "error_code InvalidParentEntityError = ''INVALID_PARENT''"
| "error_code MaxDepthExceededError = ''MAX_DEPTH_EXCEEDED''"
| "error_code EntityTypeNotAllowedError = ''ENTITY_TYPE_NOT_ALLOWED''"
| "error_code InvalidEntityClassError = ''INVALID_ENTITY_CLASS''"
| "error_code MembershipError = ''MEMBERSHIP_ERROR''"
| "error_code MembershipNotFoundError = ''MEMBERSHIP_NOT_FOUND''"
| "error_code MembershipAlreadyExistsError = ''MEMBERSHIP_ALREADY_EXISTS''"
| "error_code MaxMembersExceededError = ''MAX_MEMBERS_EXCEEDED''"
| "error_code UserError = ''USER_ERROR''"
| "error_code UserNotFoundError = ''USER_NOT_FOUND''"
| "error_code UserAlreadyExistsError = ''USER_ALREADY_EXISTS''"
| "error_code InvalidPasswordError = ''INVALID_PASSWORD''"
| "error_code EmailNotVerifiedError = ''EMAIL_NOT_VERIFIED''"
| "error_code ValidationError = ''VALIDATION_ERROR''"
| "error_code InvalidInputError = ''INVALID_INPUT''"
| "error_code MissingRequiredFieldError = ''MISSING_REQUIRED_FIELD''"
| "error_code EntityMoveCarriesAccessError = ''ENTITY_MOVE_CARRIES_ACCESS''"
| "error_code RateLimitError = ''RATE_LIMIT_EXCEEDED''"
| "error_code ConfigurationError = ''CONFIGURATION_ERROR''"
| "error_code DatabaseError = ''DATABASE_ERROR''"
| "error_code RedisError = ''REDIS_ERROR''"

text \<open>\<open>status_code\<close>, where the class body sets it.\<close>

primrec own_status :: "exn_class \<Rightarrow> nat option" where
  "own_status OutlabsAuthException = Some 500"
| "own_status AuthenticationError = Some 401"
| "own_status InvalidCredentialsError = None"
| "own_status TokenExpiredError = None"
| "own_status TokenInvalidError = None"
| "own_status RefreshTokenInvalidError = None"
| "own_status APIKeyInvalidError = None"
| "own_status APIKeyExpiredError = None"
| "own_status APIKeyLockedError = None"
| "own_status AuthenticationInfrastructureError = Some 503"
| "own_status AccountLockedError = None"
| "own_status AccountInactiveError = None"
| "own_status AuthorizationError = Some 403"
| "own_status PermissionDeniedError = None"
| "own_status RoleNotFoundError = Some 404"
| "own_status PermissionNotFoundError = Some 404"
| "own_status InsufficientPermissionsError = None"
| "own_status EntityError = Some 400"
| "own_status EntityNotFoundError = Some 404"
| "own_status CircularHierarchyError = None"
| "own_status InvalidParentEntityError = None"
| "own_status MaxDepthExceededError = None"
| "own_status EntityTypeNotAllowedError = None"
| "own_status InvalidEntityClassError = None"
| "own_status MembershipError = Some 400"
| "own_status MembershipNotFoundError = Some 404"
| "own_status MembershipAlreadyExistsError = Some 409"
| "own_status MaxMembersExceededError = None"
| "own_status UserError = Some 400"
| "own_status UserNotFoundError = Some 404"
| "own_status UserAlreadyExistsError = Some 409"
| "own_status InvalidPasswordError = None"
| "own_status EmailNotVerifiedError = None"
| "own_status ValidationError = Some 422"
| "own_status InvalidInputError = None"
| "own_status MissingRequiredFieldError = None"
| "own_status EntityMoveCarriesAccessError = None"
| "own_status RateLimitError = Some 429"
| "own_status ConfigurationError = Some 500"
| "own_status DatabaseError = Some 500"
| "own_status RedisError = Some 500"

definition exn_classes :: "exn_class list" where
  "exn_classes =
    [OutlabsAuthException, AuthenticationError, InvalidCredentialsError,
     TokenExpiredError, TokenInvalidError, RefreshTokenInvalidError,
     APIKeyInvalidError, APIKeyExpiredError, APIKeyLockedError,
     AuthenticationInfrastructureError, AccountLockedError, AccountInactiveError,
     AuthorizationError, PermissionDeniedError, RoleNotFoundError,
     PermissionNotFoundError, InsufficientPermissionsError, EntityError,
     EntityNotFoundError, CircularHierarchyError, InvalidParentEntityError,
     MaxDepthExceededError, EntityTypeNotAllowedError, InvalidEntityClassError,
     MembershipError, MembershipNotFoundError, MembershipAlreadyExistsError,
     MaxMembersExceededError, UserError, UserNotFoundError,
     UserAlreadyExistsError, InvalidPasswordError, EmailNotVerifiedError,
     ValidationError, InvalidInputError, MissingRequiredFieldError,
     EntityMoveCarriesAccessError, RateLimitError, ConfigurationError,
     DatabaseError, RedisError]"

text \<open>The depth of a class below the root, which bounds attribute lookup along the parents.\<close>

fun exn_ancestors :: "nat \<Rightarrow> exn_class \<Rightarrow> exn_class list" where
  "exn_ancestors 0 c = []"
| "exn_ancestors (Suc n) c = c # (case exn_parent c of None \<Rightarrow> [] | Some p \<Rightarrow> exn_ancestors n p)"

text \<open>The method resolution order (no class is more than three steps below the root).\<close>

definition exn_mro :: "exn_class \<Rightarrow> exn_class list" where
  "exn_mro c = exn_ancestors 4 c"

definition is_subclass :: "exn_class \<Rightarrow> exn_class \<Rightarrow> bool" where
  "is_subclass c d \<longleftrightarrow> d \<in> set (exn_mro c)"

text \<open>Attribute lookup: the first class of the resolution order that sets the status.\<close>

definition status_code :: "exn_class \<Rightarrow> nat" where
  "status_code c = the (hd (filter (\<lambda>s. s \<noteq> None) (map own_status (exn_mro c))))"

section \<open>Exception values\<close>

type_synonym details = "(string \<times> pyval) list"

text \<open>
  What a modelled operation raises: a library exception, a built-in one, or a \<open>FrontendResolutionError\<close>
  (\<open>frontend/errors.py\<close>), whose reason names its subclass.
\<close>

datatype err = Auth exn_class string details | Builtin pyerr | Resolution string string details

text \<open>\<open>OutlabsAuthException.to_dict\<close>\<close>

fun exn_to_dict :: "exn_class \<Rightarrow> string \<Rightarrow> details \<Rightarrow> pyval" where
  "exn_to_dict c msg ds =
     PDict [(''error'', PStr (error_code c)), (''message'', PStr msg), (''details'', PDict ds)]"

definition invalid_input :: "string \<Rightarrow> details \<Rightarrow> err" where
  "invalid_input msg ds = Auth InvalidInputError msg ds"

lemma invalid_input_inject [simp]:
  "invalid_input m d = invalid_input m' d' \<longleftrightarrow> m = m' \<and> d = d'"
  "invalid_input m d \<noteq> Builtin b" "Builtin b \<noteq> invalid_input m d"
  by (auto simp: invalid_input_def)

section \<open>The hierarchy\<close>

lemma exn_classes_complete: "c \<in> set exn_classes"
  by (cases c) (simp_all add: exn_classes_def)

lemma exn_mro_root: "last (exn_mro c) = OutlabsAuthException"
  by (cases c) (simp_all add: exn_mro_def eval_nat_numeral)

lemma error_codes_distinct: "distinct (map error_code exn_classes)"
  by (simp add: exn_classes_def)

lemma error_code_inject: "error_code c = error_code d \<longleftrightarrow> c = d"
  using error_codes_distinct exn_classes_complete
  by (auto simp: distinct_map dest: inj_onD)

text \<open>
  The error code of a response identifies the exception class: no two classes share a code, every
  class is a subclass of \<open>OutlabsAuthException\<close>, and its status is an HTTP error status.
\<close>

theorem error_response_identifies_class:
  "(error_code c = error_code d \<longleftrightarrow> c = d) \<and> is_subclass c OutlabsAuthException
     \<and> 400 \<le> status_code c \<and> status_code c < 600"
proof (intro conjI)
  show "error_code c = error_code d \<longleftrightarrow> c = d" by (rule error_code_inject)
  show "is_subclass c OutlabsAuthException"
    by (cases c) (simp_all add: is_subclass_def exn_mro_def eval_nat_numeral)
  show "400 \<le> status_code c" and "status_code c < 600"
    by (cases c; simp add: status_code_def exn_mro_def eval_nat_numeral)+
qed

lemma status_code_authentication:
  "is_subclass c AuthenticationError \<Longrightarrow> status_code c = 401"
  by (cases c) (simp_all add: is_subclass_def status_code_def exn_mro_def eval_nat_numeral)

lemma status_code_validation:
  "is_subclass c ValidationError \<Longrightarrow> status_code c = 422"
  by (cases c) (simp_all add: is_subclass_def status_code_def exn_mro_def eval_nat_numeral)

end
