(* ===== verification/Enums.thy ===== *)
theory Enums
  imports Errors
begin

text \<open>
  The enumerations of \<open>outlabs_auth/models/sql/enums.py\<close> that the modelled services use. Each is a
  \<open>str\<close> enumeration: \<open>..._value\<close> is a member's text and \<open>..._of\<close> the member of a text, with Python's
  \<open>ValueError\<close> (\<open>None\<close> here) for any other text.
\<close>

section \<open>Lookup by value\<close>

definition enum_of :: "('a \<Rightarrow> string) \<Rightarrow> 'a list \<Rightarrow> string \<Rightarrow> 'a option" where
  "enum_of val members s = List.find (\<lambda>m. val m = s) members"

lemma enum_of_value:
  assumes "m \<in> set members" and "distinct (map val members)"
  shows "enum_of val members (val m) = Some m"
  using assms
proof (induction members)
  case (Cons x xs)
  then show ?case by (auto simp: enum_of_def)
qed simp

lemma enum_of_SomeD: "enum_of val members s = Some m \<Longrightarrow> m \<in> set members \<and> val m = s"
  by (auto simp: enum_of_def find_Some_iff)

section \<open>Membership status\<close>

datatype membership_status =
  MActive | MSuspended | MRevoked | MExpired | MPending | MRejected

fun membership_status_value :: "membership_status \<Rightarrow> string" where
  "membership_status_value MActive = ''active''"
| "membership_status_value MSuspended = ''suspended''"
| "membership_status_value MRevoked = ''revoked''"
| "membership_status_value MExpired = ''expired''"
| "membership_status_value MPending = ''pending''"
| "membership_status_value MRejected = ''rejected''"

definition membership_statuses :: "membership_status list" where
  "membership_statuses = [MActive, MSuspended, MRevoked, MExpired, MPending, MRejected]"

definition membership_status_grants :: "membership_status \<Rightarrow> bool" where
  "membership_status_grants s \<longleftrightarrow> s = MActive"

definition membership_status_inactive :: "membership_status \<Rightarrow> bool" where
  "membership_status_inactive s \<longleftrightarrow> \<not> membership_status_grants s"

definition active_states :: "membership_status list" where
  "active_states = [MActive]"

definition inactive_states :: "membership_status list" where
  "inactive_states = [MSuspended, MRevoked, MExpired, MPending, MRejected]"

lemma active_inactive_partition:
  "membership_status_grants s \<longleftrightarrow> s \<in> set active_states"
  "membership_status_inactive s \<longleftrightarrow> s \<in> set inactive_states"
  by (cases s; simp add: membership_status_grants_def membership_status_inactive_def
      active_states_def inactive_states_def)+

section \<open>Definition status\<close>

datatype definition_status = DActive | DInactive | DArchived

fun definition_status_value :: "definition_status \<Rightarrow> string" where
  "definition_status_value DActive = ''active''"
| "definition_status_value DInactive = ''inactive''"
| "definition_status_value DArchived = ''archived''"

definition definition_statuses :: "definition_status list" where
  "definition_statuses = [DActive, DInactive, DArchived]"

definition definition_status_of :: "string \<Rightarrow> definition_status option" where
  "definition_status_of = enum_of definition_status_value definition_statuses"

definition definition_status_grants :: "definition_status \<Rightarrow> bool" where
  "definition_status_grants s \<longleftrightarrow> s = DActive"

lemma definition_status_of_value [simp]:
  "definition_status_of (definition_status_value s) = Some s"
  unfolding definition_status_of_def
  by (rule enum_of_value; cases s) (simp_all add: definition_statuses_def)

section \<open>Role scope\<close>

datatype role_scope = EntityOnly | Hierarchy

fun role_scope_value :: "role_scope \<Rightarrow> string" where
  "role_scope_value EntityOnly = ''entity_only''"
| "role_scope_value Hierarchy = ''hierarchy''"

section \<open>Entities, accounts, keys and principals\<close>

datatype entity_class = Structural | AccessGroup

fun entity_class_value :: "entity_class \<Rightarrow> string" where
  "entity_class_value Structural = ''structural''"
| "entity_class_value AccessGroup = ''access_group''"

text \<open>A user's status is kept as its text, the form the column holds and the services compare.\<close>

definition user_statuses :: "string list" where
  "user_statuses = [''active'', ''invited'', ''suspended'', ''banned'', ''deleted'']"

datatype challenge_type = MagicLink | AccessCode | WhatsappOtp | SmsOtp | PhoneVerify

fun challenge_type_value :: "challenge_type \<Rightarrow> string" where
  "challenge_type_value MagicLink = ''magic_link''"
| "challenge_type_value AccessCode = ''access_code''"
| "challenge_type_value WhatsappOtp = ''whatsapp_otp''"
| "challenge_type_value SmsOtp = ''sms_otp''"
| "challenge_type_value PhoneVerify = ''phone_verify''"

datatype key_status = KActive | KSuspended | KRevoked | KExpired

fun key_status_value :: "key_status \<Rightarrow> string" where
  "key_status_value KActive = ''active''"
| "key_status_value KSuspended = ''suspended''"
| "key_status_value KRevoked = ''revoked''"
| "key_status_value KExpired = ''expired''"

datatype key_kind = Personal | SystemIntegration

fun key_kind_value :: "key_kind \<Rightarrow> string" where
  "key_kind_value Personal = ''personal''"
| "key_kind_value SystemIntegration = ''system_integration''"

datatype principal_status = PActive | PInactive | PArchived

fun principal_status_value :: "principal_status \<Rightarrow> string" where
  "principal_status_value PActive = ''active''"
| "principal_status_value PInactive = ''inactive''"
| "principal_status_value PArchived = ''archived''"

datatype principal_scope = EntityScope | PlatformGlobal

fun principal_scope_value :: "principal_scope \<Rightarrow> string" where
  "principal_scope_value EntityScope = ''entity''"
| "principal_scope_value PlatformGlobal = ''platform_global''"

section \<open>Condition operators\<close>

datatype condition_operator =
    EQUALS | NOT_EQUALS
  | LESS_THAN | LESS_THAN_OR_EQUAL | GREATER_THAN | GREATER_THAN_OR_EQUAL
  | IN_LIST | NOT_IN_LIST | CONTAINS | NOT_CONTAINS
  | STARTS_WITH | ENDS_WITH | MATCHES
  | EXISTS | NOT_EXISTS
  | IS_TRUE | IS_FALSE
  | BEFORE | AFTER

fun operator_value :: "condition_operator \<Rightarrow> string" where
  "operator_value EQUALS = ''equals''"
| "operator_value NOT_EQUALS = ''not_equals''"
| "operator_value LESS_THAN = ''less_than''"
| "operator_value LESS_THAN_OR_EQUAL = ''less_than_or_equal''"
| "operator_value GREATER_THAN = ''greater_than''"
| "operator_value GREATER_THAN_OR_EQUAL = ''greater_than_or_equal''"
| "operator_value IN_LIST = ''in''"
| "operator_value NOT_IN_LIST = ''not_in''"
| "operator_value CONTAINS = ''contains''"
| "operator_value NOT_CONTAINS = ''not_contains''"
| "operator_value STARTS_WITH = ''starts_with''"
| "operator_value ENDS_WITH = ''ends_with''"
| "operator_value MATCHES = ''matches''"
| "operator_value EXISTS = ''exists''"
| "operator_value NOT_EXISTS = ''not_exists''"
| "operator_value IS_TRUE = ''is_true''"
| "operator_value IS_FALSE = ''is_false''"
| "operator_value BEFORE = ''before''"
| "operator_value AFTER = ''after''"

definition condition_operators :: "condition_operator list" where
  "condition_operators =
    [EQUALS, NOT_EQUALS, LESS_THAN, LESS_THAN_OR_EQUAL, GREATER_THAN, GREATER_THAN_OR_EQUAL,
     IN_LIST, NOT_IN_LIST, CONTAINS, NOT_CONTAINS, STARTS_WITH, ENDS_WITH, MATCHES,
     EXISTS, NOT_EXISTS, IS_TRUE, IS_FALSE, BEFORE, AFTER]"

definition operator_of :: "string \<Rightarrow> condition_operator option" where
  "operator_of = enum_of operator_value condition_operators"

lemma operator_of_value [simp]: "operator_of (operator_value m) = Some m"
  unfolding operator_of_def
proof (rule enum_of_value)
  show "m \<in> set condition_operators" by (cases m) (simp_all add: condition_operators_def)
  show "distinct (map operator_value condition_operators)"
    by (simp add: condition_operators_def)
qed

lemma operator_of_SomeD: "operator_of s = Some m \<Longrightarrow> s = operator_value m"
  by (auto simp: operator_of_def dest: enum_of_SomeD)

end
