(* ===== verification/Policy.thy ===== *)
theory Policy
  imports Enums
begin

text \<open>
  The attribute-based policy engine: \<open>outlabs_auth/services/policy_engine.py\<close> with the condition
  models of \<open>outlabs_auth/models/sql/condition.py\<close>.

  A context is a dictionary value. A stored condition is a row of \<open>role_conditions\<close> or
  \<open>permission_conditions\<close> (the two tables have the same columns). An evaluation returns a truth
  value or the built-in exception Python raises. Regular expressions, the date parser, float parsing,
  JSON and the rendering of values that are not text are the fields of the run-time parameter \<open>rt\<close>.
\<close>

section \<open>Data\<close>

record condition =
  attribute :: string
  operator :: condition_operator
  cvalue :: pyval
  description :: "string option"

record condition_group =
  conditions :: "condition list"
  group_operator :: string
  group_description :: "string option"

text \<open>A row: the operator and the value are stored as text, the value with the name of its type.\<close>

record stored_condition =
  sc_id :: uuid
  sc_group :: "uuid option"
  sc_attribute :: string
  sc_operator :: string
  sc_value :: "string option"
  sc_value_type :: string
  sc_description :: "string option"

subsection \<open>Construction of a condition\<close>

definition valid_contexts :: "string list" where
  "valid_contexts = [''resource'', ''user'', ''env'', ''time'', ''request'']"

text \<open>\<open>min_length=3\<close> and the field validator of \<open>attribute\<close>.\<close>

definition validate_attribute :: "string \<Rightarrow> bool" where
  "validate_attribute v \<longleftrightarrow>
     3 \<le> length v \<and> py_strip v \<noteq> [] \<and>
     (let parts = split_on (CHR ''.'') v in 2 \<le> length parts \<and> hd parts \<in> set valid_contexts)"

definition no_value_operators :: "condition_operator list" where
  "no_value_operators = [EXISTS, NOT_EXISTS, IS_TRUE, IS_FALSE]"

definition list_operators :: "condition_operator list" where
  "list_operators = [IN_LIST, NOT_IN_LIST]"

text \<open>
  The type of \<open>value\<close> (text, number, truth value, list or nothing; a tuple or set is read as a list)
  and its validator. \<open>None\<close> is pydantic's \<open>ValidationError\<close>.
\<close>

fun value_type_ok :: "pyval \<Rightarrow> pyval option" where
  "value_type_ok (PTuple xs) = Some (PList xs)"
| "value_type_ok (PSet xs) = Some (PList xs)"
| "value_type_ok (PDict _) = None"
| "value_type_ok (PDatetime _) = None"
| "value_type_ok v = Some v"

definition is_list :: "pyval \<Rightarrow> bool" where
  "is_list v \<longleftrightarrow> (case v of PList _ \<Rightarrow> True | _ \<Rightarrow> False)"

definition validate_value :: "condition_operator \<Rightarrow> pyval \<Rightarrow> pyval option" where
  "validate_value op v =
     (if op \<in> set no_value_operators then Some PNone
      else if op \<in> set list_operators \<and> v \<noteq> PNone \<and> \<not> is_list v then None
      else Some v)"

text \<open>\<open>Condition(...)\<close>: pydantic's \<open>ValidationError\<close> is a \<open>ValueError\<close>.\<close>

definition make_condition ::
  "string \<Rightarrow> string \<Rightarrow> pyval \<Rightarrow> string option \<Rightarrow> pyerr + condition" where
  "make_condition attr op v desc =
     (if \<not> validate_attribute attr then Inl ValueError
      else case operator_of op of
        None \<Rightarrow> Inl ValueError
      | Some m \<Rightarrow>
         (case Option.bind (value_type_ok v) (validate_value m) of
            None \<Rightarrow> Inl ValueError
          | Some w \<Rightarrow> Inr \<lparr>attribute = attr, operator = m, cvalue = w, description = desc\<rparr>))"

text \<open>\<open>ConditionGroup(...)\<close>: at least one condition, and the operator in upper case.\<close>

definition make_condition_group ::
  "condition list \<Rightarrow> string \<Rightarrow> string option \<Rightarrow> pyerr + condition_group" where
  "make_condition_group cs op desc =
     (if cs = [] then Inl ValueError
      else if py_upper op \<noteq> ''AND'' \<and> py_upper op \<noteq> ''OR'' then Inl ValueError
      else Inr \<lparr>conditions = cs, group_operator = py_upper op, group_description = desc\<rparr>)"

section \<open>Evaluation of one condition\<close>

fun get_path :: "string list \<Rightarrow> pyval \<Rightarrow> pyval" where
  "get_path [] cur = cur"
| "get_path (p # ps) cur =
     (case cur of
        PDict kvs \<Rightarrow>
          (case map_of kvs p of
             None \<Rightarrow> PNone
           | Some v \<Rightarrow> if v = PNone then PNone else get_path ps v)
      | _ \<Rightarrow> PNone)"

definition get_attribute_value :: "string \<Rightarrow> pyval \<Rightarrow> pyval" where
  "get_attribute_value path ctx = get_path (split_on (CHR ''.'') path) ctx"

text \<open>\<open>float(v)\<close> for a value that is no number: text is parsed, anything else is a \<open>TypeError\<close>.\<close>

definition to_numeric :: "pyrt \<Rightarrow> pyval \<Rightarrow> pyerr + pyfloat" where
  "to_numeric rt v =
     (case num_of v of
        Some f \<Rightarrow> Inr f
      | None \<Rightarrow> (case v of
          PStr s \<Rightarrow> (case rt_float rt s of None \<Rightarrow> Inl ValueError | Some f \<Rightarrow> Inr f)
        | _ \<Rightarrow> Inl TypeError))"

text \<open>\<open>try: ... except (ValueError, TypeError): return False\<close>\<close>

definition value_or_type_error :: "pyerr \<Rightarrow> bool" where
  "value_or_type_error e \<longleftrightarrow> e = ValueError \<or> e = TypeError"

definition false_on_error :: "pyerr + bool \<Rightarrow> pyerr + bool" where
  "false_on_error m =
     (case m of Inr b \<Rightarrow> Inr b | Inl e \<Rightarrow> if value_or_type_error e then Inr False else Inl e)"

definition compare_numeric ::
  "pyrt \<Rightarrow> pyval \<Rightarrow> pyval \<Rightarrow> (pyfloat \<Rightarrow> pyfloat \<Rightarrow> bool) \<Rightarrow> pyerr + bool" where
  "compare_numeric rt a b cmp =
     false_on_error
       (bindE (to_numeric rt a) (\<lambda>x. bindE (to_numeric rt b) (\<lambda>y. Inr (cmp x y))))"

definition to_datetime :: "pyrt \<Rightarrow> pyval \<Rightarrow> pyerr + pydatetime" where
  "to_datetime rt v = (case v of PDatetime d \<Rightarrow> Inr d | _ \<Rightarrow> rt_date rt (py_str rt v))"

definition compare_datetime ::
  "pyrt \<Rightarrow> pyval \<Rightarrow> pyval \<Rightarrow> (pydatetime \<Rightarrow> pydatetime \<Rightarrow> pyerr + bool) \<Rightarrow> pyerr + bool" where
  "compare_datetime rt a b cmp =
     false_on_error (bindE (to_datetime rt a) (\<lambda>x. bindE (to_datetime rt b) (cmp x)))"

definition is_collection :: "pyval \<Rightarrow> bool" where
  "is_collection v \<longleftrightarrow> (case v of PList _ \<Rightarrow> True | PTuple _ \<Rightarrow> True | PSet _ \<Rightarrow> True | _ \<Rightarrow> False)"

fun evaluate_operator ::
  "pyrt \<Rightarrow> pyval \<Rightarrow> condition_operator \<Rightarrow> pyval \<Rightarrow> pyerr + bool" where
  "evaluate_operator rt a EQUALS e = Inr (py_eq a e)"
| "evaluate_operator rt a NOT_EQUALS e = Inr (\<not> py_eq a e)"
| "evaluate_operator rt a LESS_THAN e = compare_numeric rt a e flt_lt"
| "evaluate_operator rt a LESS_THAN_OR_EQUAL e = compare_numeric rt a e flt_le"
| "evaluate_operator rt a GREATER_THAN e = compare_numeric rt a e (\<lambda>x y. flt_lt y x)"
| "evaluate_operator rt a GREATER_THAN_OR_EQUAL e = compare_numeric rt a e (\<lambda>x y. flt_le y x)"
| "evaluate_operator rt a IN_LIST e = (if is_list e then py_contains e a else Inr False)"
| "evaluate_operator rt a NOT_IN_LIST e =
     (if is_list e then bindE (py_contains e a) (\<lambda>b. Inr (\<not> b)) else Inr False)"
| "evaluate_operator rt a CONTAINS e = (if is_collection a then py_contains a e else Inr False)"
| "evaluate_operator rt a NOT_CONTAINS e =
     (if is_collection a then bindE (py_contains a e) (\<lambda>b. Inr (\<not> b)) else Inr False)"
| "evaluate_operator rt a STARTS_WITH e = Inr (py_startswith (py_str rt a) (py_str rt e))"
| "evaluate_operator rt a ENDS_WITH e = Inr (py_endswith (py_str rt a) (py_str rt e))"
| "evaluate_operator rt a MATCHES e =
     (case rt_re rt (py_str rt e) of None \<Rightarrow> Inr False | Some m \<Rightarrow> Inr (m (py_str rt a)))"
| "evaluate_operator rt a BEFORE e = compare_datetime rt a e dt_lt"
| "evaluate_operator rt a AFTER e = compare_datetime rt a e (\<lambda>x y. dt_lt y x)"
| "evaluate_operator rt a _ e = Inl ValueError"

definition evaluate_condition :: "pyrt \<Rightarrow> condition \<Rightarrow> pyval \<Rightarrow> pyerr + bool" where
  "evaluate_condition rt c ctx =
     (let a = get_attribute_value (attribute c) ctx in
      if operator c = EXISTS then Inr (a \<noteq> PNone)
      else if operator c = NOT_EXISTS then Inr (a = PNone)
      else if operator c = IS_TRUE then Inr (a \<noteq> PNone \<and> py_truthy a)
      else if operator c = IS_FALSE then Inr (a \<noteq> PNone \<and> \<not> py_truthy a)
      else if a = PNone then Inr False
      else evaluate_operator rt a (operator c) (cvalue c))"

definition evaluate_conditions :: "pyrt \<Rightarrow> condition list \<Rightarrow> pyval \<Rightarrow> pyerr + bool" where
  "evaluate_conditions rt cs ctx =
     (if cs = [] then Inr True else allE (map (\<lambda>c. evaluate_condition rt c ctx) cs))"

definition evaluate_condition_group :: "pyrt \<Rightarrow> condition_group \<Rightarrow> pyval \<Rightarrow> pyerr + bool" where
  "evaluate_condition_group rt g ctx =
     (if conditions g = [] then Inr True
      else let op = group_operator g; evaluations = map (\<lambda>c. evaluate_condition rt c ctx) (conditions g)
      in if op \<noteq> ''AND'' \<and> op \<noteq> ''OR'' then Inl ValueError
         else if op = ''AND'' then allE evaluations else anyE evaluations)"

section \<open>Stored conditions\<close>

definition true_words :: "string list" where
  "true_words = [''1'', ''true'', ''yes'', ''y'', ''on'']"

text \<open>
  \<open>_parse_value\<close> on a column value, which is text or null: \<open>None\<close> and the unknown type name leave it
  as it is.
\<close>

definition parse_value :: "pyrt \<Rightarrow> string option \<Rightarrow> string \<Rightarrow> pyerr + pyval" where
  "parse_value rt raw0 value_type =
     (case raw0 of
        None \<Rightarrow> Inr PNone
      | Some raw \<Rightarrow>
          let vt = py_lower (if value_type = [] then ''string'' else value_type) in
          if vt = ''string'' then Inr (PStr raw)
          else if vt = ''integer'' then
            (case py_int raw of None \<Rightarrow> Inl ValueError | Some i \<Rightarrow> Inr (PInt i))
          else if vt = ''float'' then
            (case rt_float rt raw of None \<Rightarrow> Inl ValueError | Some f \<Rightarrow> Inr (PFloat f))
          else if vt = ''boolean'' then Inr (PBool (py_lower raw \<in> set true_words))
          else if vt = ''list'' then
            (case rt_loads rt raw of
               None \<Rightarrow> Inr (PList [PStr raw])
             | Some v \<Rightarrow> Inr (if is_list v then v else PList [v]))
          else Inr (PStr raw))"

definition evaluate_stored_condition :: "pyrt \<Rightarrow> stored_condition \<Rightarrow> pyval \<Rightarrow> pyerr + bool" where
  "evaluate_stored_condition rt c ctx =
     false_on_error
       (bindE (parse_value rt (sc_value c) (sc_value_type c)) (\<lambda>v.
        bindE (make_condition (sc_attribute c) (sc_operator c) v None) (\<lambda>cond.
        evaluate_condition rt cond ctx)))"

text \<open>\<open>grouped.setdefault(key, []).append(cond)\<close>: groups in the order their first condition appears.\<close>

fun add_group :: "'k \<Rightarrow> 'c \<Rightarrow> ('k \<times> 'c list) list \<Rightarrow> ('k \<times> 'c list) list" where
  "add_group k c [] = [(k, [c])]"
| "add_group k c ((k', cs) # r) =
     (if k = k' then (k', cs @ [c]) # r else (k', cs) # add_group k c r)"

definition grouped :: "stored_condition list \<Rightarrow> (uuid option \<times> stored_condition list) list" where
  "grouped cs = foldl (\<lambda>g c. add_group (sc_group c) c g) [] cs"

definition group_op :: "(uuid \<rightharpoonup> string) \<Rightarrow> uuid option \<Rightarrow> string" where
  "group_op ops k =
     py_upper (case Option.bind k ops of None \<Rightarrow> ''AND'' | Some s \<Rightarrow> if s = [] then ''AND'' else s)"

fun evaluate_groups ::
  "(stored_condition \<Rightarrow> pyerr + bool) \<Rightarrow> (uuid \<rightharpoonup> string)
     \<Rightarrow> (uuid option \<times> stored_condition list) list \<Rightarrow> pyerr + bool" where
  "evaluate_groups ev ops [] = Inr True"
| "evaluate_groups ev ops ((k, cs) # r) =
     (let op = group_op ops k in
      if op \<noteq> ''AND'' \<and> op \<noteq> ''OR'' then Inl ValueError
      else bindE (if op = ''AND'' then allE (map ev cs) else anyE (map ev cs))
             (\<lambda>b. if b then evaluate_groups ev ops r else Inr False))"

definition evaluate_sql_conditions ::
  "pyrt \<Rightarrow> stored_condition list \<Rightarrow> (uuid \<rightharpoonup> string) \<Rightarrow> pyval \<Rightarrow> pyerr + bool" where
  "evaluate_sql_conditions rt cs ops ctx =
     (if cs = [] then Inr True
      else let g = grouped cs; ev = (\<lambda>c. evaluate_stored_condition rt c ctx) in
        bindE (allE (map ev (case map_of g None of None \<Rightarrow> [] | Some us \<Rightarrow> us)))
          (\<lambda>b. if \<not> b then Inr False
               else evaluate_groups ev ops (filter (\<lambda>(k, _). k \<noteq> None) g)))"


section \<open>Contexts\<close>

text \<open>Assignment to a key of a dictionary, and \<open>{**d, **e}\<close>.\<close>

fun dict_set :: "string \<Rightarrow> pyval \<Rightarrow> (string \<times> pyval) list \<Rightarrow> (string \<times> pyval) list" where
  "dict_set k v [] = [(k, v)]"
| "dict_set k v ((k', w) # r) = (if k = k' then (k, v) # r else (k', w) # dict_set k v r)"

definition dict_merge :: "(string \<times> pyval) list \<Rightarrow> (string \<times> pyval) list \<Rightarrow> (string \<times> pyval) list" where
  "dict_merge d e = foldl (\<lambda>acc (k, v). dict_set k v acc) d e"

lemma map_of_dict_set [simp]: "map_of (dict_set k v d) = (map_of d)(k \<mapsto> v)"
  by (induction d) auto

lemma map_of_dict_merge: "map_of (dict_merge d e) k = map_of (rev e @ d) k"
proof -
  have "map_of (foldl (\<lambda>acc (k, v). dict_set k v acc) d e) = map_of (rev e @ d)"
    by (induction e arbitrary: d) (auto simp: map_add_def fun_eq_iff split: option.splits prod.splits)
  then show ?thesis by (simp add: dict_merge_def)
qed

text \<open>
  The calendar fields of a UTC instant (in microseconds). Days are numbered from 1970-01-01, a
  Thursday; the civil date is computed in years that start in March.
\<close>

definition day_number :: "datetime \<Rightarrow> int" where
  "day_number t = t div 86400000000"

definition hour_of :: "datetime \<Rightarrow> int" where
  "hour_of t = (t div 3600000000) mod 24"

definition minute_of :: "datetime \<Rightarrow> int" where
  "minute_of t = (t div 60000000) mod 60"

definition weekday_of :: "datetime \<Rightarrow> int" where
  "weekday_of t = (day_number t + 3) mod 7"

definition weekday_names :: "string list" where
  "weekday_names =
    [''monday'', ''tuesday'', ''wednesday'', ''thursday'', ''friday'', ''saturday'', ''sunday'']"

definition civil_from_days :: "int \<Rightarrow> int \<times> int \<times> int" where
  "civil_from_days z =
     (let z' = z + 719468; era = z' div 146097; doe = z' mod 146097;
          yoe = (doe - doe div 1460 + doe div 36524 - doe div 146096) div 365;
          doy = doe - (365 * yoe + yoe div 4 - yoe div 100);
          mp = (5 * doy + 2) div 153;
          d = doy - (153 * mp + 2) div 5 + 1;
          m = (if mp < 10 then mp + 3 else mp - 9)
      in (yoe + era * 400 + (if m \<le> 2 then 1 else 0), m, d))"

text \<open>The attributes \<open>create_context\<close> generates; \<open>isoformat\<close> is the rendering of an aware datetime.\<close>

definition time_attributes :: "(pydatetime \<Rightarrow> string) \<Rightarrow> datetime \<Rightarrow> (string \<times> pyval) list" where
  "time_attributes isoformat now =
     (case civil_from_days (day_number now) of (year, month, day) \<Rightarrow>
      [(''hour'', PInt (hour_of now)),
       (''minute'', PInt (minute_of now)),
       (''day_of_week'', PStr (weekday_names ! nat (weekday_of now))),
       (''day_of_month'', PInt day),
       (''month'', PInt month),
       (''year'', PInt year),
       (''is_business_hours'', PBool (9 \<le> hour_of now \<and> hour_of now < 17)),
       (''is_weekend'', PBool (5 \<le> weekday_of now)),
       (''timestamp'', PStr (isoformat (Aware now)))])"

definition opt_entry :: "string \<Rightarrow> (string \<times> pyval) list option \<Rightarrow> (string \<times> pyval) list" where
  "opt_entry k d = (case d of None \<Rightarrow> [] | Some kvs \<Rightarrow> [(k, PDict kvs)])"

definition create_context ::
  "(pydatetime \<Rightarrow> string) \<Rightarrow> datetime \<Rightarrow> (string \<times> pyval) list option \<Rightarrow> (string \<times> pyval) list option
     \<Rightarrow> (string \<times> pyval) list option \<Rightarrow> (string \<times> pyval) list option \<Rightarrow> (string \<times> pyval) list" where
  "create_context isoformat now user resource env time_attrs =
     opt_entry ''user'' user @ opt_entry ''resource'' resource @ opt_entry ''env'' env
       @ [(''time'', PDict (case time_attrs of None \<Rightarrow> time_attributes isoformat now | Some t \<Rightarrow> t))]"

definition add_user_context ::
  "(string \<times> pyval) list \<Rightarrow> string \<Rightarrow> (string \<times> pyval) list \<Rightarrow> (string \<times> pyval) list" where
  "add_user_context ctx user_id attrs =
     dict_set ''user'' (PDict (dict_merge [(''id'', PStr user_id)] attrs)) ctx"

definition add_resource_context ::
  "(string \<times> pyval) list \<Rightarrow> string \<Rightarrow> string \<Rightarrow> (string \<times> pyval) list \<Rightarrow> (string \<times> pyval) list" where
  "add_resource_context ctx rid rtype attrs =
     dict_set ''resource''
       (PDict (dict_merge [(''id'', PStr rid), (''type'', PStr rtype)] attrs)) ctx"

lemma weekday_of_range: "0 \<le> weekday_of t" "weekday_of t < 7"
  by (simp_all add: weekday_of_def)

lemma hour_of_range: "0 \<le> hour_of t" "hour_of t < 24"
  by (simp_all add: hour_of_def)

section \<open>Grouping\<close>

lemma map_of_add_group:
  "map_of (add_group k c g) k' =
     (if k' = k then Some (case map_of g k of None \<Rightarrow> [c] | Some cs \<Rightarrow> cs @ [c]) else map_of g k')"
  by (induction g) auto

lemma keys_add_group: "fst ` set (add_group k c g) = insert k (fst ` set g)"
  by (induction k c g rule: add_group.induct) (simp_all add: insert_commute)

lemma distinct_add_group: "distinct (map fst g) \<Longrightarrow> distinct (map fst (add_group k c g))"
proof (induction g)
  case (Cons x g)
  have "fst x \<notin> fst ` set (add_group k c g) \<longleftrightarrow> fst x \<noteq> k \<and> fst x \<notin> fst ` set g"
    by (auto simp: keys_add_group)
  with Cons show ?case by (cases x) auto
qed simp

definition members_of :: "stored_condition list \<Rightarrow> uuid option \<Rightarrow> stored_condition list" where
  "members_of cs k = filter (\<lambda>c. sc_group c = k) cs"

lemma grouped_spec:
  "distinct (map fst (grouped cs))
   \<and> map_of (grouped cs) k = (if members_of cs k = [] then None else Some (members_of cs k))"
proof (induction cs rule: rev_induct)
  case (snoc c cs)
  then show ?case
    by (auto simp: grouped_def members_of_def distinct_add_group map_of_add_group)
qed (simp add: grouped_def members_of_def)

lemma grouped_entry: "(k, xs) \<in> set (grouped cs) \<longleftrightarrow> xs = members_of cs k \<and> members_of cs k \<noteq> []"
  using grouped_spec [of cs k] by (auto simp: map_of_eq_Some_iff split: if_splits)

section \<open>Meaning of a set of stored conditions\<close>

text \<open>
  What the documentation promises: every ungrouped condition holds, and every group holds under its
  own operator.
\<close>

definition group_holds :: "(stored_condition \<Rightarrow> bool) \<Rightarrow> string \<Rightarrow> stored_condition list \<Rightarrow> bool" where
  "group_holds sat op cs \<longleftrightarrow>
     (if op = ''AND'' then \<forall>c \<in> set cs. sat c else op = ''OR'' \<and> (\<exists>c \<in> set cs. sat c))"

definition conditions_hold ::
  "(stored_condition \<Rightarrow> bool) \<Rightarrow> (uuid \<rightharpoonup> string) \<Rightarrow> stored_condition list \<Rightarrow> bool" where
  "conditions_hold sat ops cs \<longleftrightarrow>
     (\<forall>c \<in> set cs. sc_group c = None \<longrightarrow> sat c) \<and>
     (\<forall>c \<in> set cs. \<forall>g. sc_group c = Some g \<longrightarrow>
        group_holds sat (group_op ops (Some g)) (members_of cs (Some g)))"

lemma evaluate_groups_True:
  "evaluate_groups ev ops gs = Inr True \<longleftrightarrow>
     (\<forall>(k, cs) \<in> set gs.
        (group_op ops k = ''AND'' \<and> allE (map ev cs) = Inr True)
        \<or> (group_op ops k = ''OR'' \<and> anyE (map ev cs) = Inr True))"
  by (induction ev ops gs rule: evaluate_groups.induct)
    (auto simp: Let_def bindE_eq_Inr split: if_splits)

lemma ungrouped_members:
  "(case map_of (grouped cs) None of None \<Rightarrow> [] | Some us \<Rightarrow> us) = members_of cs None"
  using grouped_spec [of cs None] by simp

definition group_passes ::
  "(stored_condition \<Rightarrow> pyerr + bool) \<Rightarrow> string \<Rightarrow> stored_condition list \<Rightarrow> bool" where
  "group_passes ev op cs \<longleftrightarrow>
     (op = ''AND'' \<and> allE (map ev cs) = Inr True) \<or> (op = ''OR'' \<and> anyE (map ev cs) = Inr True)"

lemma evaluate_sql_True:
  "evaluate_sql_conditions rt cs ops ctx = Inr True \<longleftrightarrow>
     (let ev = (\<lambda>c. evaluate_stored_condition rt c ctx) in
      allE (map ev (members_of cs None)) = Inr True \<and>
      (\<forall>g. members_of cs (Some g) \<noteq> [] \<longrightarrow>
         group_passes ev (group_op ops (Some g)) (members_of cs (Some g))))"
proof (cases "cs = []")
  case True
  then show ?thesis by (simp add: evaluate_sql_conditions_def members_of_def)
next
  case False
  define ev where "ev = (\<lambda>c. evaluate_stored_condition rt c ctx)"
  define gs where "gs = filter (\<lambda>(k, _). k \<noteq> None) (grouped cs)"
  have "evaluate_groups ev ops gs = Inr True \<longleftrightarrow>
      (\<forall>(k, xs) \<in> set gs. group_passes ev (group_op ops k) xs)"
    by (simp add: evaluate_groups_True group_passes_def)
  also have "\<dots> \<longleftrightarrow> (\<forall>g. members_of cs (Some g) \<noteq> [] \<longrightarrow>
      group_passes ev (group_op ops (Some g)) (members_of cs (Some g)))"
    by (auto simp: gs_def grouped_entry)
  finally have "evaluate_groups ev ops gs = Inr True \<longleftrightarrow> \<dots>" .
  moreover have "evaluate_sql_conditions rt cs ops ctx =
      bindE (allE (map ev (members_of cs None)))
        (\<lambda>b. if \<not> b then Inr False else evaluate_groups ev ops gs)"
    unfolding evaluate_sql_conditions_def Let_def ungrouped_members ev_def gs_def
    using False by (simp only: if_False)
  ultimately show ?thesis
    unfolding Let_def ev_def [symmetric]
    by (auto simp: bindE_eq_Inr split: if_splits)
qed

lemma members_nonempty: "c \<in> set cs \<Longrightarrow> sc_group c = k \<Longrightarrow> members_of cs k \<noteq> []"
  by (auto simp: members_of_def filter_empty_conv)

lemma group_passes_holds:
  "group_passes ev op cs \<Longrightarrow> group_holds (\<lambda>c. ev c = Inr True) op cs"
  unfolding group_passes_def
proof (elim disjE conjE)
  assume "op = ''OR''" and "anyE (map ev cs) = Inr True"
  then show "group_holds (\<lambda>c. ev c = Inr True) op cs"
    using anyE_TrueD [of "map ev cs"] unfolding group_holds_def by (simp, metis imageE)
qed (simp add: group_holds_def allE_True_iff)

lemma evaluate_sql_sound:
  assumes "evaluate_sql_conditions rt cs ops ctx = Inr True"
  shows "conditions_hold (\<lambda>c. evaluate_stored_condition rt c ctx = Inr True) ops cs"
  unfolding conditions_hold_def
proof (intro conjI ballI allI impI)
  fix c assume "c \<in> set cs" "sc_group c = None"
  then show "evaluate_stored_condition rt c ctx = Inr True"
    using assms by (auto simp: evaluate_sql_True Let_def allE_True_iff members_of_def)
next
  fix c g assume "c \<in> set cs" "sc_group c = Some g"
  then have "members_of cs (Some g) \<noteq> []" by (rule members_nonempty)
  with assms show "group_holds (\<lambda>c. evaluate_stored_condition rt c ctx = Inr True)
      (group_op ops (Some g)) (members_of cs (Some g))"
    by (simp add: evaluate_sql_True Let_def group_passes_holds)
qed

text \<open>Where no condition raises and the operators are known, the result is the meaning.\<close>

lemma evaluate_groups_total:
  assumes "\<And>k xs c. (k, xs) \<in> set gs \<Longrightarrow> c \<in> set xs \<Longrightarrow> \<exists>b. ev c = Inr b"
    and "\<And>k xs. (k, xs) \<in> set gs \<Longrightarrow> group_op ops k = ''AND'' \<or> group_op ops k = ''OR''"
  shows "evaluate_groups ev ops gs =
     Inr (\<forall>(k, xs) \<in> set gs. group_holds (\<lambda>c. ev c = Inr True) (group_op ops k) xs)"
  using assms
proof (induction gs)
  case (Cons g gs)
  obtain k xs where g: "g = (k, xs)" by (cases g)
  have ok: "\<forall>m \<in> set (map ev xs). \<exists>b. m = Inr b" using Cons.prems(1) [of k xs] g by auto
  have op: "group_op ops k = ''AND'' \<or> group_op ops k = ''OR''" using Cons.prems(2) [of k xs] g by simp
  have rest: "evaluate_groups ev ops gs =
      Inr (\<forall>(k, xs) \<in> set gs. group_holds (\<lambda>c. ev c = Inr True) (group_op ops k) xs)"
    using Cons.prems by (intro Cons.IH) (blast intro: list.set_intros(2))+
  have "(if group_op ops k = ''AND'' then allE (map ev xs) else anyE (map ev xs)) =
      Inr (group_holds (\<lambda>c. ev c = Inr True) (group_op ops k) xs)"
    using op unfolding group_holds_def allE_total [OF ok] anyE_total [OF ok]
    by (auto simp: image_iff dest!: sym [of _ "Inr True"])
  then show ?case using op unfolding g by (simp only: evaluate_groups.simps Let_def rest) auto
qed simp

lemma evaluate_sql_total:
  assumes "\<forall>c \<in> set cs. \<exists>b. evaluate_stored_condition rt c ctx = Inr b"
    and "\<forall>c \<in> set cs. group_op ops (sc_group c) = ''AND'' \<or> group_op ops (sc_group c) = ''OR''"
  shows "evaluate_sql_conditions rt cs ops ctx =
     Inr (conditions_hold (\<lambda>c. evaluate_stored_condition rt c ctx = Inr True) ops cs)"
proof (cases "cs = []")
  case True
  then show ?thesis by (simp add: evaluate_sql_conditions_def conditions_hold_def)
next
  case False
  define ev where "ev = (\<lambda>c. evaluate_stored_condition rt c ctx)"
  define gs where "gs = filter (\<lambda>(k, _). k \<noteq> None) (grouped cs)"
  have groups: "evaluate_groups ev ops gs =
      Inr (\<forall>(k, xs) \<in> set gs. group_holds (\<lambda>c. ev c = Inr True) (group_op ops k) xs)"
  proof (rule evaluate_groups_total)
    fix k xs c assume "(k, xs) \<in> set gs" "c \<in> set xs"
    then show "\<exists>b. ev c = Inr b"
      using assms(1) by (auto simp: gs_def grouped_entry members_of_def ev_def)
  next
    fix k xs assume "(k, xs) \<in> set gs"
    then obtain c where "c \<in> set cs" "sc_group c = k"
      by (auto simp: gs_def grouped_entry members_of_def filter_empty_conv)
    with assms(2) show "group_op ops k = ''AND'' \<or> group_op ops k = ''OR''" by blast
  qed
  have entries: "(\<forall>(k, xs) \<in> set gs. Q k xs) \<longleftrightarrow>
      (\<forall>c \<in> set cs. \<forall>g. sc_group c = Some g \<longrightarrow> Q (Some g) (members_of cs (Some g)))" for Q
    by (auto simp: gs_def grouped_entry members_of_def filter_empty_conv)
  have ungrouped: "allE (map ev (members_of cs None)) =
      Inr (\<forall>c \<in> set cs. sc_group c = None \<longrightarrow> ev c = Inr True)"
    using assms(1) by (subst allE_total) (auto simp: ev_def members_of_def)
  have "evaluate_sql_conditions rt cs ops ctx =
      bindE (allE (map ev (members_of cs None)))
        (\<lambda>b. if \<not> b then Inr False else evaluate_groups ev ops gs)"
    unfolding evaluate_sql_conditions_def Let_def ungrouped_members ev_def gs_def
    using False by (simp only: if_False)
  also have "\<dots> = Inr (conditions_hold (\<lambda>c. ev c = Inr True) ops cs)"
    unfolding ungrouped groups entries conditions_hold_def
    by (cases "\<forall>c \<in> set cs. sc_group c = None \<longrightarrow> ev c = Inr True") simp_all
  finally show ?thesis unfolding ev_def .
qed

section \<open>Exceptions of a stored condition\<close>

lemma false_on_error_Inl: "false_on_error m = Inl e \<longleftrightarrow> m = Inl e \<and> \<not> value_or_type_error e"
  by (auto simp: false_on_error_def split: sum.splits)

lemma false_on_error_True: "false_on_error m = Inr True \<longleftrightarrow> m = Inr True"
  by (auto simp: false_on_error_def split: sum.splits)

lemma caught [simp]: "value_or_type_error ValueError" "value_or_type_error TypeError"
  "\<not> value_or_type_error OverflowError" "\<not> value_or_type_error RuntimeError"
  by (simp_all add: value_or_type_error_def)

lemma parse_value_raises: "parse_value rt raw vt = Inl e \<Longrightarrow> e = ValueError"
  by (auto simp: parse_value_def Let_def split: option.splits if_splits)

lemma make_condition_raises: "make_condition a op v d = Inl e \<Longrightarrow> e = ValueError"
  by (auto simp: make_condition_def split: option.splits if_splits)

lemma to_numeric_raises: "to_numeric rt v = Inl e \<Longrightarrow> value_or_type_error e"
  by (auto simp: to_numeric_def split: option.splits pyval.splits)

lemma py_contains_raises: "py_contains c x = Inl e \<Longrightarrow> e = TypeError"
  by (cases c) (auto split: if_splits)

lemma to_datetime_raises: "to_datetime rt v = Inl e \<Longrightarrow> \<exists>s. rt_date rt s = Inl e"
  by (cases v) (auto simp: to_datetime_def)

lemma dt_lt_raises: "dt_lt x y = Inl e \<Longrightarrow> e = TypeError"
  by (cases x; cases y) auto

lemma compare_datetime_raises:
  assumes "compare_datetime rt a b cmp = Inl e" and "\<And>x y e. cmp x y = Inl e \<Longrightarrow> e = TypeError"
  shows "\<not> value_or_type_error e \<and> (\<exists>s. rt_date rt s = Inl e)"
  using assms(1)
  by (auto simp: compare_datetime_def false_on_error_Inl bindE_eq_Inl
      dest: to_datetime_raises dest!: assms(2))

lemma evaluate_operator_raises:
  assumes "evaluate_operator rt a m v = Inl e" and "\<not> value_or_type_error e"
  shows "(m = BEFORE \<or> m = AFTER) \<and> (\<exists>s. rt_date rt s = Inl e)"
  using assms
  by (cases m)
    (auto simp: compare_numeric_def false_on_error_Inl bindE_eq_Inl
      dest: to_numeric_raises py_contains_raises compare_datetime_raises dt_lt_raises
      split: if_splits option.splits)

lemma evaluate_stored_raises:
  assumes "evaluate_stored_condition rt c ctx = Inl e"
  shows "\<not> value_or_type_error e
     \<and> (sc_operator c = operator_value BEFORE \<or> sc_operator c = operator_value AFTER)
     \<and> (\<exists>s. rt_date rt s = Inl e)"
proof -
  from assms have ne: "\<not> value_or_type_error e"
    by (simp add: evaluate_stored_condition_def false_on_error_Inl)
  from assms obtain v cond where
    cond: "make_condition (sc_attribute c) (sc_operator c) v None = Inr cond"
    and ev: "evaluate_condition rt cond ctx = Inl e"
    by (auto simp: evaluate_stored_condition_def false_on_error_Inl bindE_eq_Inl
        dest!: parse_value_raises make_condition_raises)
  from cond have "operator_of (sc_operator c) = Some (operator cond)"
    by (auto simp: make_condition_def split: if_splits option.splits)
  then have op: "sc_operator c = operator_value (operator cond)" by (rule operator_of_SomeD)
  from ev have "\<exists>a. evaluate_operator rt a (operator cond) (cvalue cond) = Inl e"
    by (auto simp: evaluate_condition_def Let_def split: if_splits)
  then show ?thesis using evaluate_operator_raises [OF _ ne] ne op by metis
qed

section \<open>Properties\<close>

text \<open>
  A grant is sound and fails closed: when the stored conditions of a role or permission evaluate
  to true, every ungrouped condition was itself evaluated to true, and every group has the meaning of
  its operator (all of its conditions, or at least one). No condition that raised, was malformed or
  was left out can be behind a grant.
\<close>

theorem sql_conditions_sound:
  assumes "evaluate_sql_conditions rt cs ops ctx = Inr True"
  shows "conditions_hold (\<lambda>c. evaluate_stored_condition rt c ctx = Inr True) ops cs"
  using assms by (rule evaluate_sql_sound)

text \<open>
  C35. Where the conditions evaluate and the group operators are \<open>AND\<close> or \<open>OR\<close> (in any case, or
  missing), the result of the grouped, short-circuiting evaluation is the meaning of the rows,
  whatever their order.
\<close>

theorem sql_conditions_exact:
  assumes "\<forall>c \<in> set cs. \<exists>b. evaluate_stored_condition rt c ctx = Inr b"
    and "\<forall>c \<in> set cs. group_op ops (sc_group c) \<in> {''AND'', ''OR''}"
  shows "evaluate_sql_conditions rt cs ops ctx =
     Inr (conditions_hold (\<lambda>c. evaluate_stored_condition rt c ctx = Inr True) ops cs)"
  using assms by (intro evaluate_sql_total) auto


text \<open>
  A missing attribute (any step of the dotted path absent, null or not a dictionary) satisfies no
  operator but \<open>not_exists\<close>, and never raises.
\<close>

theorem missing_attribute_fails_closed:
  assumes "get_attribute_value (attribute c) ctx = PNone"
  shows "evaluate_condition rt c ctx = Inr (operator c = NOT_EXISTS)"
  using assms by (simp add: evaluate_condition_def)

subsection \<open>Instances\<close>

text \<open>A run time for the instances: no text is a float, a date or JSON.\<close>

definition plain_rt :: pyrt where
  "plain_rt = \<lparr>rt_str = (\<lambda>_. []), rt_repr = (\<lambda>_. []), rt_float = (\<lambda>_. None), rt_loads = (\<lambda>_. None),
     rt_dumps = (\<lambda>_. []), rt_re = (\<lambda>_. None), rt_date = (\<lambda>_. Inl OverflowError)\<rparr>"

definition sample_ctx :: pyval where
  "sample_ctx = PDict [(''user'', PDict [(''level'', PInt 3), (''dept'', PStr ''ops'')])]"

definition row :: "uuid option \<Rightarrow> string \<Rightarrow> string \<Rightarrow> string \<Rightarrow> string \<Rightarrow> stored_condition" where
  "row g a op v ty = \<lparr>sc_id = ''c'', sc_group = g, sc_attribute = a, sc_operator = op,
     sc_value = Some v, sc_value_type = ty, sc_description = None\<rparr>"

definition sample_rows :: "stored_condition list" where
  "sample_rows =
    [row (Some ''g'') ''user.dept'' ''equals'' ''hr'' ''string'',
     row None ''user.level'' ''greater_than'' ''2'' ''integer'',
     row (Some ''g'') ''user.dept'' ''starts_with'' ''op'' ''string'']"

definition sample_ops :: "uuid \<rightharpoonup> string" where
  "sample_ops = [''g'' \<mapsto> ''or'']"

lemma sample_rows_evaluate:
  "evaluate_stored_condition plain_rt (sample_rows ! 0) sample_ctx = Inr False"
  "evaluate_stored_condition plain_rt (sample_rows ! 1) sample_ctx = Inr True"
  "evaluate_stored_condition plain_rt (sample_rows ! 2) sample_ctx = Inr True"
  by code_simp+

theorem sql_conditions_sound_witness:
  "evaluate_sql_conditions plain_rt sample_rows sample_ops sample_ctx = Inr True
   \<and> conditions_hold (\<lambda>c. evaluate_stored_condition plain_rt c sample_ctx = Inr True) sample_ops sample_rows"
proof -
  have "evaluate_sql_conditions plain_rt sample_rows sample_ops sample_ctx = Inr True" by code_simp
  with sql_conditions_sound [OF this] show ?thesis by blast
qed

theorem sql_conditions_exact_witness:
  "evaluate_sql_conditions plain_rt sample_rows (\<lambda>_. None) sample_ctx =
     Inr (conditions_hold (\<lambda>c. evaluate_stored_condition plain_rt c sample_ctx = Inr True) (\<lambda>_. None) sample_rows)"
proof (rule sql_conditions_exact)
  have "set sample_rows = {sample_rows ! 0, sample_rows ! 1, sample_rows ! 2}"
    by (simp add: sample_rows_def)
  then show "\<forall>c \<in> set sample_rows. \<exists>b. evaluate_stored_condition plain_rt c sample_ctx = Inr b"
    using sample_rows_evaluate by (simp only: ball_simps) blast
  show "\<forall>c \<in> set sample_rows. group_op (\<lambda>_. None) (sc_group c) \<in> {''AND'', ''OR''}"
    by (simp add: sample_rows_def row_def) code_simp
qed

definition sample_date_row :: stored_condition where
  "sample_date_row = row None ''user.dept'' ''before'' ''99999'' ''string''"


theorem missing_attribute_fails_closed_witness:
  "evaluate_condition plain_rt
     \<lparr>attribute = ''user.role'', operator = NOT_EQUALS, cvalue = PStr ''guest'', description = None\<rparr>
     sample_ctx = Inr False"
  by (subst missing_attribute_fails_closed) code_simp+

end
