(* ===== verification/Validation.thy ===== *)
theory Validation
  imports Enums
begin

text \<open>
  Input validation: \<open>outlabs_auth/utils/validation.py\<close> and the strength rules of
  \<open>outlabs_auth/utils/password.py\<close>. Each validator returns the normalised value or raises
  \<open>InvalidInputError\<close>; the length limits are the code's own defaults, passed as arguments.

  The regular expressions of this file are fixed, so they are translated: a pattern \<open>^[class]+$\<close>
  used with \<open>re.match\<close> also accepts one newline after the last character, because \<open>$\<close> matches
  before a final newline.
\<close>

section \<open>The fixed patterns\<close>

text \<open>\<open>$\<close>: the end of the text, or a newline that ends it.\<close>

definition at_dollar :: "string \<Rightarrow> bool" where
  "at_dollar rest \<longleftrightarrow> rest = [] \<or> rest = [newline]"

text \<open>\<open>^[p]+$\<close>, greedy: the longest run of \<open>p\<close>, backing off over a newline that \<open>p\<close> accepts itself.\<close>

definition re_class_plus :: "(char \<Rightarrow> bool) \<Rightarrow> string \<Rightarrow> bool" where
  "re_class_plus p s \<longleftrightarrow>
     s \<noteq> [] \<and> takeWhile p s \<noteq> [] \<and> at_dollar (dropWhile p s)"

definition slug_char :: "char \<Rightarrow> bool" where
  "slug_char c \<longleftrightarrow> is_ascii_lower c \<or> is_digit c \<or> c = CHR ''_'' \<or> c = CHR ''-''"

definition is_ascii_alpha :: "char \<Rightarrow> bool" where
  "is_ascii_alpha c \<longleftrightarrow> is_ascii_upper c \<or> is_ascii_lower c"

definition email_local_char :: "char \<Rightarrow> bool" where
  "email_local_char c \<longleftrightarrow> is_ascii_alpha c \<or> is_digit c \<or> c \<in> set ''._%+-''"

definition email_domain_char :: "char \<Rightarrow> bool" where
  "email_domain_char c \<longleftrightarrow> is_ascii_alpha c \<or> is_digit c \<or> c \<in> set ''.-''"

text \<open>
  \<open>[a-zA-Z0-9.-]+\.[a-zA-Z]{2,}$\<close> on what follows the at sign: the last dot that leaves at least two
  letters and the end of the text after it and at least one domain character before it.
\<close>

definition email_tld :: "string \<Rightarrow> bool" where
  "email_tld s \<longleftrightarrow>
     2 \<le> length (takeWhile is_ascii_alpha s) \<and> at_dollar (dropWhile is_ascii_alpha s)"

fun email_domain :: "string \<Rightarrow> bool" where
  "email_domain (a # d # s) \<longleftrightarrow>
     email_domain_char a \<and> ((d = CHR ''.'' \<and> email_tld s) \<or> email_domain (d # s))"
| "email_domain _ \<longleftrightarrow> False"

definition re_email :: "string \<Rightarrow> bool" where
  "re_email s \<longleftrightarrow>
     (let l = takeWhile email_local_char s; r = dropWhile email_local_char s
      in l \<noteq> [] \<and> (case r of c # d \<Rightarrow> c = CHR ''@'' \<and> email_domain d | [] \<Rightarrow> False))"

text \<open>\<open>^\+[1-9]\d{6,14}$\<close>\<close>

definition re_phone :: "string \<Rightarrow> bool" where
  "re_phone s \<longleftrightarrow>
     (case s of p # d # r \<Rightarrow>
        p = CHR ''+'' \<and> in_range 49 57 d \<and>
        (let n = length (takeWhile is_digit r) in 6 \<le> n \<and> n \<le> 14) \<and> at_dollar (dropWhile is_digit r)
      | _ \<Rightarrow> False)"

section \<open>utils/validation.py\<close>

definition field_details :: "string \<Rightarrow> details" where
  "field_details f = [(''field'', PStr f)]"

definition validate_email :: "string \<Rightarrow> err + string" where
  "validate_email email0 =
     (if email0 = [] then Inl (invalid_input ''Email is required'' (field_details ''email''))
      else let email = py_strip (py_lower email0)
           in if \<not> re_email email
              then Inl (invalid_input ''Invalid email format''
                     [(''field'', PStr ''email''), (''value'', PStr email)])
              else Inr email)"

definition validate_phone :: "string \<Rightarrow> string \<Rightarrow> err + string" where
  "validate_phone phone field_name =
     (if phone = []
      then Inl (invalid_input (field_name @ '' is required'') (field_details field_name))
      else let normalized = filter (\<lambda>c. c \<noteq> CHR '' '') (py_strip phone)
           in if \<not> re_phone normalized
              then Inl (invalid_input ''Phone must be E.164 format (e.g. +15551234567)''
                     [(''field'', PStr field_name), (''value'', PStr phone)])
              else Inr normalized)"

definition validate_name :: "string \<Rightarrow> string \<Rightarrow> int \<Rightarrow> int \<Rightarrow> err + string" where
  "validate_name name0 field_name min_length max_length =
     (if name0 = []
      then Inl (invalid_input (field_name @ '' is required'') (field_details field_name))
      else let name = py_strip name0
           in if int (length name) < min_length
              then Inl (invalid_input
                     (field_name @ '' must be at least '' @ show_int min_length @ '' characters'')
                     [(''field'', PStr field_name), (''min_length'', PInt min_length)])
              else if int (length name) > max_length
              then Inl (invalid_input
                     (field_name @ '' cannot exceed '' @ show_int max_length @ '' characters'')
                     [(''field'', PStr field_name), (''max_length'', PInt max_length)])
              else Inr name)"

definition validate_slug :: "string \<Rightarrow> string \<Rightarrow> err + string" where
  "validate_slug slug0 field_name =
     (if slug0 = []
      then Inl (invalid_input (field_name @ '' is required'') (field_details field_name))
      else let slug = py_strip (py_lower slug0)
           in if \<not> re_class_plus slug_char slug
              then Inl (invalid_input
                     (field_name @ '' can only contain lowercase letters, numbers, hyphens, and underscores'')
                     [(''field'', PStr field_name), (''value'', PStr slug)])
              else if length slug < 2
              then Inl (invalid_input (field_name @ '' must be at least 2 characters'')
                     (field_details field_name))
              else if length slug > 100
              then Inl (invalid_input (field_name @ '' cannot exceed 100 characters'')
                     (field_details field_name))
              else Inr slug)"

definition permission_details :: "string \<Rightarrow> details" where
  "permission_details p = [(''field'', PStr ''permission''), (''value'', PStr p)]"

definition permission_part_details :: "string \<Rightarrow> string \<Rightarrow> details" where
  "permission_part_details part v =
     [(''field'', PStr ''permission''), (''part'', PStr part), (''value'', PStr v)]"

definition validate_permission_name :: "string \<Rightarrow> err + string" where
  "validate_permission_name permission0 =
     (if permission0 = []
      then Inl (invalid_input ''Permission name is required'' (field_details ''permission''))
      else let permission = py_strip (py_lower permission0)
           in if CHR '':'' \<notin> set permission
              then Inl (invalid_input
                     ''Permission must follow 'resource:action' format (e.g., 'user:create')''
                     (permission_details permission))
              else (case split_on (CHR '':'') permission of
                [resource, action] \<Rightarrow>
                  if resource = [] \<or> action = []
                  then Inl (invalid_input ''Both resource and action must be non-empty''
                         (permission_details permission))
                  else if resource \<noteq> ''*'' \<and> \<not> re_class_plus slug_char resource
                  then Inl (invalid_input
                         ''Resource must contain only letters, numbers, underscores, hyphens, or asterisk''
                         (permission_part_details ''resource'' resource))
                  else if action \<noteq> ''*'' \<and> \<not> re_class_plus slug_char action
                  then Inl (invalid_input
                         ''Action must contain only letters, numbers, underscores, hyphens, or asterisk''
                         (permission_part_details ''action'' action))
                  else Inr permission
              | _ \<Rightarrow> Inl (invalid_input
                         ''Permission must have exactly one colon separating resource and action''
                         (permission_details permission))))"

definition sanitize_string :: "pyrt \<Rightarrow> pyval \<Rightarrow> int option \<Rightarrow> string" where
  "sanitize_string rt v max_length =
     (case v of
        PStr s \<Rightarrow>
          let t = py_strip s
          in (case max_length of
                Some n \<Rightarrow>
                  if n \<noteq> 0 \<and> int (length t) > n
                  then (if 0 \<le> n then take (nat n) t else take (nat (int (length t) + n)) t) else t
              | None \<Rightarrow> t)
      | _ \<Rightarrow> py_str rt v)"

definition validate_positive_integer :: "pyval \<Rightarrow> string \<Rightarrow> int \<Rightarrow> err + pyval" where
  "validate_positive_integer v field_name min_value =
     (case (case v of PInt i \<Rightarrow> Some i | PBool b \<Rightarrow> Some (if b then 1 else 0) | _ \<Rightarrow> None) of
        None \<Rightarrow> Inl (invalid_input (field_name @ '' must be an integer'')
                 [(''field'', PStr field_name), (''value'', v)])
      | Some i \<Rightarrow>
          if i < min_value
          then Inl (invalid_input (field_name @ '' must be at least '' @ show_int min_value)
                 [(''field'', PStr field_name), (''value'', v), (''min_value'', PInt min_value)])
          else Inr v)"


section \<open>What the validators accept\<close>

lemma newline_classes [simp]:
  "\<not> slug_char newline" "\<not> is_digit newline" "\<not> is_ascii_alpha newline" "is_space newline"
  by (simp_all add: slug_char_def is_ascii_alpha_def is_ascii_upper_def is_ascii_lower_def
      is_digit_def is_space_def in_range_def code_of_def)

lemma slug_char_not_space: "slug_char c \<Longrightarrow> \<not> is_space c"
  by (auto simp: slug_char_def is_ascii_lower_def is_digit_def is_space_def in_range_def code_of_def)

lemma slug_char_facts [simp]: "\<not> slug_char (CHR '':'')" "\<not> slug_char (CHR ''*'')"
  by (simp_all add: slug_char_def is_ascii_lower_def is_digit_def in_range_def code_of_def)

lemma takeWhile_dollar:
  assumes "\<not> p newline"
  shows "at_dollar (dropWhile p s) \<longleftrightarrow> (\<exists>t. (s = t \<or> s = t @ [newline]) \<and> list_all p t \<and> takeWhile p s = t)"
proof
  assume *: "at_dollar (dropWhile p s)"
  have "s = takeWhile p s @ dropWhile p s" by simp
  moreover have "list_all p (takeWhile p s)" by (auto simp: list_all_iff dest: set_takeWhileD)
  ultimately show "\<exists>t. (s = t \<or> s = t @ [newline]) \<and> list_all p t \<and> takeWhile p s = t"
    using * by (metis append.right_neutral at_dollar_def)
next
  assume "\<exists>t. (s = t \<or> s = t @ [newline]) \<and> list_all p t \<and> takeWhile p s = t"
  then obtain t where t: "s = t \<or> s = t @ [newline]" "list_all p t" by auto
  then have "dropWhile p t = []" by (auto simp: list_all_iff)
  moreover have "dropWhile p (t @ [newline]) = [newline]"
    using t(2) assms by (induction t) auto
  ultimately show "at_dollar (dropWhile p s)" using t(1) by (auto simp: at_dollar_def)
qed

lemma re_class_plus_iff:
  assumes "\<not> p newline"
  shows "re_class_plus p s \<longleftrightarrow> (\<exists>t. t \<noteq> [] \<and> (s = t \<or> s = t @ [newline]) \<and> list_all p t)"
proof -
  have "takeWhile p (t @ [newline]) = t \<and> takeWhile p t = t" if "list_all p t" for t
    using that assms by (induction t) auto
  then show ?thesis
    unfolding re_class_plus_def takeWhile_dollar [where p = p, OF assms] by fastforce
qed

lemma re_class_plus_stripped:
  assumes "\<not> p newline" "s = [] \<or> \<not> is_space (last s)"
  shows "re_class_plus p s \<longleftrightarrow> s \<noteq> [] \<and> list_all p s"
  using assms by (auto simp: re_class_plus_iff)

lemma py_lower_fixed: "set s \<subseteq> lower_char ` A \<Longrightarrow> py_lower s = s"
  by (induction s) (auto simp: py_lower_def)

lemma py_lower_strip_lower [simp]: "py_lower (py_strip (py_lower s)) = py_strip (py_lower s)"
  by (rule py_lower_fixed) (rule set_py_strip_lower)

lemma strip_last_cases: "py_strip s = [] \<or> \<not> is_space (last (py_strip s))"
  using py_strip_last by blast

text \<open>One part of a permission name: \<open>*\<close>, or slug characters with at most one final newline.\<close>

definition permission_part :: "string \<Rightarrow> bool" where
  "permission_part s \<longleftrightarrow> s = ''*'' \<or> re_class_plus slug_char s"

lemma permission_part_not_Nil: "permission_part s \<Longrightarrow> s \<noteq> []"
  by (auto simp: permission_part_def re_class_plus_def)

lemma permission_part_no_colon: "permission_part s \<Longrightarrow> CHR '':'' \<notin> set s"
  by (auto simp: permission_part_def re_class_plus_iff list_all_iff dest: bspec [where x = "CHR '':''"])

text \<open>The last part cannot end in a newline, because the whole name was stripped.\<close>

lemma validate_permission_name_iff:
  "validate_permission_name p = Inr q \<longleftrightarrow>
     q = py_strip (py_lower p) \<and>
     (\<exists>r a. q = r @ CHR '':'' # a \<and> permission_part r \<and> permission_part a)"
proof
  assume ok: "validate_permission_name p = Inr q"
  let ?n = "py_strip (py_lower p)"
  from ok have q: "q = ?n" and colon: "CHR '':'' \<in> set ?n"
    by (auto simp: validate_permission_name_def Let_def split: if_splits list.splits)
  from ok colon obtain r a where parts: "split_on (CHR '':'') ?n = [r, a]"
    by (auto simp: validate_permission_name_def Let_def split: if_splits list.splits)
  with ok have "permission_part r" "permission_part a"
    by (auto simp: validate_permission_name_def Let_def permission_part_def split: if_splits)
  moreover from parts have "?n = r @ CHR '':'' # a" by (simp add: split_on_two)
  ultimately show "q = ?n \<and> (\<exists>r a. q = r @ CHR '':'' # a \<and> permission_part r \<and> permission_part a)"
    using q by blast
next
  assume "q = py_strip (py_lower p) \<and> (\<exists>r a. q = r @ CHR '':'' # a \<and> permission_part r \<and> permission_part a)"
  then obtain r a where q: "py_strip (py_lower p) = q" "q = r @ CHR '':'' # a"
    and parts: "permission_part r" "permission_part a" by blast
  then have split: "split_on (CHR '':'') q = [r, a]"
    by (simp add: split_on_two permission_part_no_colon)
  from q have "p \<noteq> []" by (auto simp: py_strip_def py_lower_def)
  moreover have "CHR '':'' \<in> set q" using q by simp
  ultimately show "validate_permission_name p = Inr q"
    using q(1) parts split permission_part_not_Nil [OF parts(1)] permission_part_not_Nil [OF parts(2)]
    by (simp add: validate_permission_name_def Let_def) (auto simp: permission_part_def)
qed

lemma validate_permission_name_out: "validate_permission_name p = Inr q \<Longrightarrow> validate_permission_name q = Inr q"
  by (auto simp: validate_permission_name_iff)

lemma validate_email_out:
  assumes "validate_email e = Inr q"
  shows "validate_email q = Inr q"
proof -
  from assms have q: "q = py_strip (py_lower e)" "re_email q"
    by (auto simp: validate_email_def Let_def split: if_splits)
  then have "q \<noteq> []" by (auto simp: re_email_def Let_def)
  with q show ?thesis by (simp add: validate_email_def)
qed

lemma py_strip_lower_Nil: "py_strip (py_lower []) = []"
  by (simp add: py_strip_def py_lower_def)

lemma validate_slug_iff:
  "validate_slug s f = Inr q \<longleftrightarrow>
     q = py_strip (py_lower s) \<and> list_all slug_char q \<and> 2 \<le> length q \<and> length q \<le> 100"
proof (cases "s = []")
  case True
  then show ?thesis by (auto simp: validate_slug_def py_strip_lower_Nil)
next
  case False
  define n where "n = py_strip (py_lower s)"
  have "re_class_plus slug_char n \<longleftrightarrow> n \<noteq> [] \<and> list_all slug_char n"
    unfolding n_def by (rule re_class_plus_stripped) (use strip_last_cases in auto)
  with False show ?thesis
    by (auto simp: validate_slug_def Let_def simp flip: n_def)
qed

lemma validate_slug_out: "validate_slug s f = Inr q \<Longrightarrow> validate_slug q f = Inr q"
  by (auto simp: validate_slug_iff)

lemma validate_name_out:
  assumes "validate_name s f lo hi = Inr q" and "0 < lo"
  shows "validate_name q f lo hi = Inr q \<and> lo \<le> int (length q) \<and> int (length q) \<le> hi"
  using assms by (auto simp: validate_name_def Let_def split: if_splits)

lemma filter_last: "s \<noteq> [] \<Longrightarrow> P (last s) \<Longrightarrow> last (filter P s) = last s \<and> filter P s \<noteq> []"
  by (induction s rule: rev_induct) auto

lemma space_is_space [simp]: "is_space (CHR '' '')"
  by (simp add: is_space_def in_range_def code_of_def)

text \<open>An accepted telephone number is a plus sign, a digit from 1 to 9 and 6 to 14 more digits.\<close>

definition e164 :: "string \<Rightarrow> bool" where
  "e164 s \<longleftrightarrow> (\<exists>d r. s = CHR ''+'' # d # r \<and> in_range 49 57 d \<and> list_all is_digit r
                 \<and> 6 \<le> length r \<and> length r \<le> 14)"

lemma digits_dollar:
  assumes "\<not> is_space (last (d # r))"
  shows "at_dollar (dropWhile is_digit r) \<longleftrightarrow> takeWhile is_digit r = r"
proof
  assume "at_dollar (dropWhile is_digit r)"
  then obtain t where t: "r = t \<or> r = t @ [newline]" "takeWhile is_digit r = t"
    using takeWhile_dollar [where p = is_digit and s = r] by auto
  moreover from assms have "r \<noteq> t @ [newline]" by auto
  ultimately show "takeWhile is_digit r = r" by simp
next
  assume "takeWhile is_digit r = r"
  then have "dropWhile is_digit r = []" by (metis append_self_conv takeWhile_dropWhile_id)
  then show "at_dollar (dropWhile is_digit r)" by (simp add: at_dollar_def)
qed

lemma takeWhile_all: "list_all p r \<longleftrightarrow> takeWhile p r = r"
  by (induction r) auto

lemma re_phone_e164:
  assumes "\<not> is_space (last s)"
  shows "re_phone s \<longleftrightarrow> e164 s"
proof (cases "\<exists>p d r. s = p # d # r")
  case True
  then obtain p d r where s: "s = p # d # r" by auto
  with assms have "\<not> is_space (last (d # r))" by simp
  then have dollar: "at_dollar (dropWhile is_digit r) \<longleftrightarrow> list_all is_digit r"
    unfolding takeWhile_all by (rule digits_dollar)
  show ?thesis
  proof (cases "list_all is_digit r")
    case True
    then have len: "length (takeWhile is_digit r) = length r"
      unfolding takeWhile_all by (rule arg_cong)
    show ?thesis by (auto simp: s re_phone_def e164_def Let_def len True dollar)
  next
    case False
    with dollar show ?thesis by (auto simp: s re_phone_def e164_def)
  qed
next
  case False
  then show ?thesis by (auto simp: re_phone_def e164_def split: list.splits)
qed

lemma e164_not_space: "e164 s \<Longrightarrow> c \<in> set s \<Longrightarrow> \<not> is_space c"
proof -
  assume "e164 s" and "c \<in> set s"
  then have "c = CHR ''+'' \<or> in_range 49 57 c \<or> is_digit c"
    by (auto simp: e164_def list_all_iff)
  then show "\<not> is_space c"
    by (auto simp: is_space_def is_digit_def in_range_def code_of_def)
qed

lemma validate_phone_out:
  assumes "validate_phone s f = Inr q"
  shows "e164 q \<and> validate_phone q f = Inr q"
proof -
  let ?k = "\<lambda>c. c \<noteq> CHR '' ''"
  from assms have q: "q = filter ?k (py_strip s)" "re_phone q"
    by (auto simp: validate_phone_def Let_def split: if_splits)
  then have "py_strip s \<noteq> []" by (auto simp: re_phone_def)
  with py_strip_last [of s] have "\<not> is_space (last q)"
    using filter_last [of "py_strip s" ?k] q(1) by (metis space_is_space)
  with q(2) have e: "e164 q" by (simp add: re_phone_e164)
  then have "\<forall>c \<in> set q. \<not> is_space c" by (simp add: e164_not_space)
  then have "py_strip q = q" and "filter ?k q = q"
    by (auto intro: py_strip_ne_space simp: filter_id_conv)
  moreover have "q \<noteq> []" using e by (auto simp: e164_def)
  ultimately show ?thesis using e q(2) by (simp add: validate_phone_def)
qed


section \<open>Properties\<close>

lemma bindE_idem: "(\<And>q. m = Inr q \<Longrightarrow> f q = Inr q) \<Longrightarrow> bindE m f = m"
  by (cases m) auto

text \<open>
  The names \<open>validate_permission_name\<close> accepts, exactly: the lower-cased and stripped text must be
  \<open>resource:action\<close> with one colon, each part a star or a non-empty run of slug characters. The
  resource may also end in a newline, because the pattern is anchored with \<open>$\<close> (a newline at the end of
  the action would have been stripped).
\<close>

theorem permission_name_accepted_iff:
  "validate_permission_name p = Inr q \<longleftrightarrow>
     q = py_strip (py_lower p) \<and>
     (\<exists>r a. q = r @ CHR '':'' # a
        \<and> (r = ''*'' \<or> (\<exists>t. t \<noteq> [] \<and> list_all slug_char t \<and> (r = t \<or> r = t @ [newline])))
        \<and> (a = ''*'' \<or> (list_all slug_char a \<and> a \<noteq> [])))"
proof -
  have action: "permission_part a \<longleftrightarrow> a = ''*'' \<or> (list_all slug_char a \<and> a \<noteq> [])"
    if "py_strip (py_lower p) = r @ CHR '':'' # a" for r a
  proof (cases "a = []")
    case False
    with strip_last_cases [of "py_lower p"] that have "\<not> is_space (last a)" by auto
    then have "re_class_plus slug_char a \<longleftrightarrow> a \<noteq> [] \<and> list_all slug_char a"
      by (intro re_class_plus_stripped) auto
    then show ?thesis by (auto simp: permission_part_def)
  qed (simp add: permission_part_def re_class_plus_def)
  have resource: "permission_part r \<longleftrightarrow>
      r = ''*'' \<or> (\<exists>t. t \<noteq> [] \<and> list_all slug_char t \<and> (r = t \<or> r = t @ [newline]))" for r
    unfolding permission_part_def re_class_plus_iff [where p = slug_char, OF newline_classes(1)]
    by blast
  show ?thesis
    unfolding validate_permission_name_iff resource [symmetric] by (metis action)
qed

text \<open>
  The documented alphabet of a permission name has no newline, yet a newline before the colon is
  accepted.
\<close>

theorem permission_name_newline_accepted:
  "validate_permission_name (''user'' @ [newline] @ '':read'') = Inr (''user'' @ [newline] @ '':read'')"
  by code_simp

text \<open>
  Normalising twice is normalising once, for each validator: a value a validator returns is accepted
  unchanged by it, so stored values are in normal form.
\<close>

theorem validators_idempotent:
  "bindE (validate_email e) validate_email = validate_email e
   \<and> bindE (validate_phone s f) (\<lambda>q. validate_phone q f) = validate_phone s f
   \<and> bindE (validate_slug s f) (\<lambda>q. validate_slug q f) = validate_slug s f
   \<and> bindE (validate_permission_name s) validate_permission_name = validate_permission_name s
   \<and> bindE (validate_name s f 1 n) (\<lambda>q. validate_name q f 1 n) = validate_name s f 1 n"
  by (intro conjI; rule bindE_idem)
    (simp_all add: validate_email_out validate_phone_out validate_slug_out
      validate_permission_name_out validate_name_out)



end
