(* ===== verification/AbacValidation.thy ===== *)
theory AbacValidation
  imports Policy Validation
begin

text \<open>
  Write-time validation of stored conditions, \<open>outlabs_auth/services/abac_validation.py\<close>, and the
  serialisation of their values, \<open>serialize_condition_value\<close> of \<open>outlabs_auth/schemas/abac.py\<close>. The
  arguments are Python values (\<open>Any\<close> in the code); an operator that is a member of the enumeration is
  its text. Every error is an \<open>InvalidInputError\<close>, or what the date parser raises beyond the three
  exceptions that are caught.
\<close>

section \<open>Constants\<close>

definition abac_attribute_contexts :: "string list" where
  "abac_attribute_contexts = [''user'', ''resource'', ''env'', ''time'']"

definition abac_value_types :: "string list" where
  "abac_value_types = [''string'', ''integer'', ''float'', ''boolean'', ''list'']"

definition numeric_operators :: "condition_operator list" where
  "numeric_operators =
     [LESS_THAN, LESS_THAN_OR_EQUAL, GREATER_THAN, GREATER_THAN_OR_EQUAL]"

definition datetime_operators :: "condition_operator list" where
  "datetime_operators = [BEFORE, AFTER]"

definition false_words :: "string list" where
  "false_words = [''0'', ''false'', ''no'', ''n'', ''off'']"

text \<open>\<open>^[A-Za-z_][A-Za-z0-9_\-]*$\<close>\<close>

definition segment_char :: "char \<Rightarrow> bool" where
  "segment_char c \<longleftrightarrow> is_ascii_alpha c \<or> is_digit c \<or> c = CHR ''_'' \<or> c = CHR ''-''"

fun attribute_segment :: "string \<Rightarrow> bool" where
  "attribute_segment [] \<longleftrightarrow> False"
| "attribute_segment (c # s) \<longleftrightarrow>
     (is_ascii_alpha c \<or> c = CHR ''_'') \<and> at_dollar (dropWhile segment_char s)"

definition invalid_condition :: "string \<Rightarrow> details \<Rightarrow> err" where
  "invalid_condition msg d = invalid_input msg ((''reason'', PStr ''invalid_abac_condition'') # d)"

section \<open>Fields\<close>

text \<open>\<open>str(v or d)\<close>\<close>

definition text_or :: "pyrt \<Rightarrow> string \<Rightarrow> pyval \<Rightarrow> string" where
  "text_or rt d v = (if py_truthy v then py_str rt v else d)"

definition normalize_condition_operator :: "pyrt \<Rightarrow> pyval \<Rightarrow> err + condition_operator" where
  "normalize_condition_operator rt op =
     (case operator_of (py_lower (py_strip (text_or rt [] op))) of
        Some m \<Rightarrow> Inr m
      | None \<Rightarrow> Inl (invalid_condition (''Unknown ABAC operator '' @ rt_repr rt op)
          [(''field'', PStr ''operator''),
           (''allowed'', PList (map (PStr \<circ> operator_value) condition_operators))]))"

definition validate_condition_attribute :: "pyrt \<Rightarrow> pyval \<Rightarrow> err + string" where
  "validate_condition_attribute rt attr =
     (let t = py_strip (text_or rt [] attr); parts = split_on (CHR ''.'') t in
      if length parts < 2 \<or> \<not> list_all attribute_segment parts then
        Inl (invalid_condition
          (''ABAC attribute must be a dotted path such as '' @ squote ''resource.department'')
          [(''field'', PStr ''attribute''), (''attribute'', PStr t)])
      else if hd parts \<notin> set abac_attribute_contexts then
        Inl (invalid_condition
          (''ABAC attribute context must be one of user, resource, env, time'')
          [(''field'', PStr ''attribute''), (''attribute'', PStr t),
           (''allowed_contexts'', PList (map PStr abac_attribute_contexts))])
      else Inr t)"

definition coerce_list :: "pyrt \<Rightarrow> pyval \<Rightarrow> pyval option" where
  "coerce_list rt v =
     (case v of
        PList _ \<Rightarrow> Some v
      | PStr s \<Rightarrow> (case rt_loads rt s of
          None \<Rightarrow> None | Some p \<Rightarrow> if is_list p then Some p else None)
      | _ \<Rightarrow> None)"

definition is_number :: "pyrt \<Rightarrow> pyval \<Rightarrow> bool" where
  "is_number rt v =
     (case v of
        PBool _ \<Rightarrow> False
      | PInt _ \<Rightarrow> True
      | PFloat _ \<Rightarrow> True
      | _ \<Rightarrow> rt_float rt (py_str rt v) \<noteq> None)"

definition normalize_value_type :: "pyrt \<Rightarrow> pyval \<Rightarrow> string" where
  "normalize_value_type rt vt = py_lower (py_strip (text_or rt ''string'' vt))"

definition is_bool :: "pyval \<Rightarrow> bool" where
  "is_bool v \<longleftrightarrow> (case v of PBool _ \<Rightarrow> True | _ \<Rightarrow> False)"

definition is_int :: "pyval \<Rightarrow> bool" where
  "is_int v \<longleftrightarrow> (case v of PBool _ \<Rightarrow> True | PInt _ \<Rightarrow> True | _ \<Rightarrow> False)"

definition is_compound :: "pyval \<Rightarrow> bool" where
  "is_compound v \<longleftrightarrow> (case v of PList _ \<Rightarrow> True | PTuple _ \<Rightarrow> True | PDict _ \<Rightarrow> True | _ \<Rightarrow> False)"

section \<open>One condition\<close>

text \<open>The check of a value against its declared type.\<close>

definition check_value_type :: "pyrt \<Rightarrow> string \<Rightarrow> pyval \<Rightarrow> err + unit" where
  "check_value_type rt vt v =
     (let field = [(''field'', PStr ''value'')] in
      if vt \<noteq> ''list'' \<and> is_compound v then
        Inl (invalid_condition (''value_type '' @ squote vt @ '' requires a scalar value'') field)
      else if vt = ''list'' then
        requireE (coerce_list rt v \<noteq> None)
          (invalid_condition (''value_type '' @ squote ''list'' @ '' requires a list value'') field)
      else if vt = ''integer'' then
        requireE (\<not> is_bool v \<and> (is_int v \<or> py_int (py_strip (py_str rt v)) \<noteq> None))
          (invalid_condition (''value_type '' @ squote ''integer'' @ '' requires an integer value'') field)
      else if vt = ''float'' then
        requireE (is_number rt v)
          (invalid_condition (''value_type '' @ squote ''float'' @ '' requires a numeric value'') field)
      else if vt = ''boolean'' then
        requireE (is_bool v \<or> py_lower (py_strip (py_str rt v)) \<in> set (true_words @ false_words))
          (invalid_condition (''value_type '' @ squote ''boolean'' @ '' requires true or false'') field)
      else Inr ())"

definition operator_error :: "condition_operator \<Rightarrow> string \<Rightarrow> err" where
  "operator_error m msg =
     invalid_condition (''Operator '' @ squote (operator_value m) @ '' requires '' @ msg)
       [(''field'', PStr ''value''), (''operator'', PStr (operator_value m))]"

text \<open>The check of a value against the operator; \<open>re_error\<close> is the text of \<open>re.error\<close>.\<close>

definition check_operator_value ::
  "pyrt \<Rightarrow> (string \<Rightarrow> string) \<Rightarrow> condition_operator \<Rightarrow> pyval \<Rightarrow> err + unit" where
  "check_operator_value rt re_error m v =
     bindE (requireE (m \<in> set numeric_operators \<longrightarrow> is_number rt v)
              (operator_error m ''a numeric value'')) (\<lambda>_.
     bindE (if m \<in> set datetime_operators then
              (case rt_date rt (py_str rt v) of
                 Inr _ \<Rightarrow> Inr ()
               | Inl e \<Rightarrow> if e \<in> {TypeError, ValueError, OverflowError}
                   then Inl (operator_error m ''an ISO 8601 datetime value'')
                   else Inl (Builtin e))
            else Inr ()) (\<lambda>_.
     requireE (m = MATCHES \<longrightarrow> rt_re rt (py_str rt v) \<noteq> None)
       (invalid_condition (''Invalid regular expression: '' @ re_error (py_str rt v))
          [(''field'', PStr ''value'')])))"

definition validate_condition_definition ::
  "pyrt \<Rightarrow> (string \<Rightarrow> string) \<Rightarrow> pyval \<Rightarrow> pyval \<Rightarrow> pyval \<Rightarrow> pyval \<Rightarrow> err + condition_operator" where
  "validate_condition_definition rt re_error attr op v value_type =
     bindE (validate_condition_attribute rt attr) (\<lambda>_.
     bindE (normalize_condition_operator rt op) (\<lambda>m.
     let vt = normalize_value_type rt value_type in
     if vt \<notin> set abac_value_types then
       Inl (invalid_condition (''Unknown ABAC value_type '' @ rt_repr rt value_type)
         [(''field'', PStr ''value_type''), (''allowed'', PList (map PStr abac_value_types))])
     else if m \<in> set no_value_operators then Inr m
     else if v = PNone \<or> v = PStr [] then Inl (operator_error m ''a value'')
     else if m \<in> set list_operators then
       if vt \<noteq> ''list'' \<or> coerce_list rt v = None
       then Inl (operator_error m (''value_type '' @ squote ''list'' @ '' and a list value''))
       else Inr m
     else bindE (check_value_type rt vt v) (\<lambda>_.
          bindE (check_operator_value rt re_error m v) (\<lambda>_. Inr m))))"

section \<open>Serialisation\<close>

definition serialize_condition_value :: "pyrt \<Rightarrow> pyval \<Rightarrow> string \<Rightarrow> string option" where
  "serialize_condition_value rt v value_type =
     (if v = PNone then None
      else if py_lower (if value_type = [] then ''string'' else value_type) = ''list''
      then Some (rt_dumps rt v)
      else Some (py_str rt v))"

definition stored_condition_value :: "pyrt \<Rightarrow> string option \<Rightarrow> pyval \<Rightarrow> pyval" where
  "stored_condition_value rt raw value_type =
     (case raw of
        None \<Rightarrow> PNone
      | Some s \<Rightarrow>
          if normalize_value_type rt value_type = ''list''
          then (case coerce_list rt (PStr s) of Some v \<Rightarrow> v | None \<Rightarrow> PStr s)
          else PStr s)"

text \<open>
  A partial update: the fields the request sets (\<open>fields_set\<close>) with their values, \<open>None\<close> (\<open>PNone\<close> for
  the value) where the request has null or nothing.
\<close>

record condition_update =
  cu_fields :: "string set"
  cu_group :: "uuid option"
  cu_attribute :: "string option"
  cu_operator :: "string option"
  cu_value :: pyval
  cu_value_type :: "string option"
  cu_description :: "string option"

definition updated_field :: "string set \<Rightarrow> string \<Rightarrow> string option \<Rightarrow> string \<Rightarrow> string" where
  "updated_field fs f new old =
     (if f \<in> fs then (case new of Some s \<Rightarrow> s | None \<Rightarrow> old) else old)"

definition value_updated :: "condition_update \<Rightarrow> bool" where
  "value_updated u \<longleftrightarrow> ''value'' \<in> cu_fields u \<or> ''value_type'' \<in> cu_fields u"

definition validate_condition_update ::
  "pyrt \<Rightarrow> (string \<Rightarrow> string) \<Rightarrow> stored_condition \<Rightarrow> condition_update \<Rightarrow> err + condition_operator" where
  "validate_condition_update rt re_error c u =
     (let attr = updated_field (cu_fields u) ''attribute'' (cu_attribute u) (sc_attribute c);
          op = updated_field (cu_fields u) ''operator'' (cu_operator u) (sc_operator c);
          vt = updated_field (cu_fields u) ''value_type'' (cu_value_type u) (sc_value_type c);
          v = (if value_updated u then cu_value u
               else stored_condition_value rt (sc_value c) (PStr vt))
      in validate_condition_definition rt re_error (PStr attr) (PStr op) v (PStr vt))"

text \<open>
  The row the role and permission services store for an accepted definition, and the assignments they
  make for an accepted update.
\<close>

definition new_condition_row ::
  "pyrt \<Rightarrow> uuid \<Rightarrow> uuid option \<Rightarrow> string \<Rightarrow> condition_operator \<Rightarrow> pyval \<Rightarrow> string \<Rightarrow> string option
     \<Rightarrow> stored_condition" where
  "new_condition_row rt cid gid attr m v value_type desc =
     (let vt = normalize_value_type rt (PStr value_type) in
      \<lparr>sc_id = cid, sc_group = gid, sc_attribute = py_strip attr, sc_operator = operator_value m,
       sc_value = serialize_condition_value rt v vt, sc_value_type = vt, sc_description = desc\<rparr>)"

definition apply_condition_update ::
  "pyrt \<Rightarrow> stored_condition \<Rightarrow> condition_update \<Rightarrow> condition_operator \<Rightarrow> stored_condition" where
  "apply_condition_update rt c u m =
     (let fs = cu_fields u;
          vt = (case cu_value_type u of
                  Some s \<Rightarrow> if ''value_type'' \<in> fs then normalize_value_type rt (PStr s)
                            else sc_value_type c
                | None \<Rightarrow> sc_value_type c);
          write_vt = (case cu_value_type u of Some s \<Rightarrow> if s = [] then vt else s | None \<Rightarrow> vt)
      in c\<lparr>sc_group := (if ''condition_group_id'' \<in> fs then cu_group u else sc_group c),
           sc_attribute := (case cu_attribute u of
               Some s \<Rightarrow> if ''attribute'' \<in> fs then py_strip s else sc_attribute c
             | None \<Rightarrow> sc_attribute c),
           sc_operator := (if ''operator'' \<in> fs \<and> cu_operator u \<noteq> None then operator_value m
                           else sc_operator c),
           sc_value_type := vt,
           sc_value := (if value_updated u
                        then serialize_condition_value rt (cu_value u)
                               (normalize_value_type rt (PStr write_vt))
                        else sc_value c),
           sc_description := (if ''description'' \<in> fs then cu_description u else sc_description c)\<rparr>)"

section \<open>What acceptance guarantees\<close>

text \<open>Decoding is the part of an evaluation that does not depend on the context.\<close>

definition decode_row :: "pyrt \<Rightarrow> stored_condition \<Rightarrow> pyerr + condition" where
  "decode_row rt c =
     bindE (parse_value rt (sc_value c) (sc_value_type c)) (\<lambda>v.
     make_condition (sc_attribute c) (sc_operator c) v None)"

lemma evaluate_stored_decode:
  "evaluate_stored_condition rt c ctx =
     false_on_error (bindE (decode_row rt c) (\<lambda>cond. evaluate_condition rt cond ctx))"
  by (simp add: evaluate_stored_condition_def decode_row_def bindE_def split: sum.splits)

definition row_wf :: "pyrt \<Rightarrow> stored_condition \<Rightarrow> bool" where
  "row_wf rt c \<longleftrightarrow>
     sc_value_type c \<in> set abac_value_types \<and> (\<exists>cond. decode_row rt c = Inr cond)"

lemma abac_value_types_lower [simp]: "vt \<in> set abac_value_types \<Longrightarrow> py_lower vt = vt"
  by (auto simp: abac_value_types_def) (code_simp)+

lemma abac_value_types_strip [simp]: "vt \<in> set abac_value_types \<Longrightarrow> py_strip vt = vt"
  by (auto simp: abac_value_types_def) (code_simp)+

lemma abac_value_types_ne: "vt \<in> set abac_value_types \<Longrightarrow> vt \<noteq> []"
  by (auto simp: abac_value_types_def)

lemma normalize_value_type_idem [simp]:
  "vt \<in> set abac_value_types \<Longrightarrow> normalize_value_type rt (PStr vt) = vt"
  using abac_value_types_ne [of vt] by (simp add: normalize_value_type_def text_or_def)

lemma validate_attribute_stripped:
  assumes "validate_condition_attribute rt (PStr attr) = Inr t"
  shows "t = py_strip attr \<and> validate_attribute t"
proof -
  have plain: "text_or rt [] (PStr attr) = attr" by (simp add: text_or_def)
  from assms have t: "t = py_strip attr" and parts: "2 \<le> length (split_on (CHR ''.'') t)"
    and ctx: "hd (split_on (CHR ''.'') t) \<in> set abac_attribute_contexts"
    by (auto simp: validate_condition_attribute_def plain Let_def split: if_splits)
  from parts obtain a b r where sp: "split_on (CHR ''.'') t = a # b # r"
    by (cases "split_on (CHR ''.'') t" rule: remdups_adj.cases) auto
  have "join_with [CHR ''.''] (a # b # r) = t" using join_split [of "CHR ''.''" t] sp by simp
  then have "length a < length t" by auto
  moreover from ctx sp have "a \<in> set abac_attribute_contexts" by simp
  ultimately have "3 \<le> length t" and "a \<in> set valid_contexts"
    by (auto simp: abac_attribute_contexts_def valid_contexts_def)
  moreover have "py_strip t = t" by (simp add: t)
  ultimately show ?thesis using t sp by (auto simp: validate_attribute_def)
qed

lemma parse_value_typed:
  assumes "vt \<in> set abac_value_types"
    and "vt = ''integer'' \<Longrightarrow> py_int raw \<noteq> None"
    and "vt = ''float'' \<Longrightarrow> rt_float rt raw \<noteq> None"
  shows "\<exists>w. parse_value rt (Some raw) vt = Inr w \<and> value_type_ok w = Some w \<and> (vt = ''list'' \<longrightarrow> is_list w)"
proof -
  have low: "py_lower (if vt = [] then ''string'' else vt) = vt"
    using assms(1) abac_value_types_ne [OF assms(1)] by simp
  have list: "is_list w \<Longrightarrow> value_type_ok w = Some w" for w by (cases w) (auto simp: is_list_def)
  consider "vt = ''string''" | "vt = ''integer''" | "vt = ''float''" | "vt = ''boolean''" | "vt = ''list''"
    using assms(1) by (auto simp: abac_value_types_def)
  then show ?thesis
  proof cases
    case 5
    then show ?thesis unfolding parse_value_def option.case Let_def low
      by (cases "rt_loads rt raw") (simp_all add: is_list_def list)
  qed (use assms(2,3) in \<open>unfold parse_value_def option.case Let_def low, auto\<close>)
qed

lemma decode_storedI:
  assumes vt: "sc_value_type c \<in> set abac_value_types"
    and attr: "validate_attribute (sc_attribute c)"
    and op: "sc_operator c = operator_value m"
    and val: "\<And>raw. sc_value c = Some raw \<Longrightarrow>
       (sc_value_type c = ''integer'' \<longrightarrow> py_int raw \<noteq> None)
       \<and> (sc_value_type c = ''float'' \<longrightarrow> rt_float rt raw \<noteq> None)
       \<and> (m \<in> set list_operators \<longrightarrow> sc_value_type c = ''list'')"
  shows "\<exists>cond. decode_row rt c = Inr cond \<and> operator cond = m"
proof -
  have "\<exists>w. parse_value rt (sc_value c) (sc_value_type c) = Inr w \<and> value_type_ok w = Some w
      \<and> (m \<in> set list_operators \<longrightarrow> w = PNone \<or> is_list w)"
  proof (cases "sc_value c")
    case None
    then show ?thesis by (simp add: parse_value_def)
  next
    case (Some raw)
    with val [OF Some] parse_value_typed [OF vt, of raw rt] show ?thesis by auto
  qed
  then obtain w where w: "parse_value rt (sc_value c) (sc_value_type c) = Inr w"
      "value_type_ok w = Some w" "m \<in> set list_operators \<longrightarrow> w = PNone \<or> is_list w" by blast
  then have "\<exists>x. Option.bind (value_type_ok w) (validate_value m) = Some x"
    by (auto simp: validate_value_def)
  then show ?thesis using w(1) attr op by (auto simp: decode_row_def make_condition_def)
qed

lemma definition_accepted:
  assumes "validate_condition_definition rt re_error (PStr attr) op v vt0 = Inr m"
  defines "vt \<equiv> normalize_value_type rt vt0"
  shows "validate_attribute (py_strip attr)" and "vt \<in> set abac_value_types"
    and "normalize_condition_operator rt op = Inr m"
    and "m \<notin> set no_value_operators \<Longrightarrow> v \<noteq> PNone \<and>
      (if m \<in> set list_operators then vt = ''list'' \<and> coerce_list rt v \<noteq> None
       else check_value_type rt vt v = Inr ())"
  using assms(1) validate_attribute_stripped
  by (auto simp: validate_condition_definition_def vt_def [symmetric] Let_def bindE_eq_Inr
      split: if_splits)

text \<open>\<open>str\<close> of a number is text that \<open>int\<close> or \<open>float\<close> read.\<close>

definition number_text :: "pyrt \<Rightarrow> pyval \<Rightarrow> bool" where
  "number_text rt v \<longleftrightarrow>
     (case v of
        PInt _ \<Rightarrow> py_int (rt_str rt v) \<noteq> None \<and> rt_float rt (rt_str rt v) \<noteq> None
      | PFloat _ \<Rightarrow> rt_float rt (rt_str rt v) \<noteq> None
      | _ \<Rightarrow> True)"

lemma py_int_strip [simp]: "py_int (py_strip s) = py_int s"
  by (simp add: py_int_def)

lemma check_value_type_text:
  assumes "check_value_type rt vt v = Inr ()" and "number_text rt v"
  shows "vt = ''integer'' \<Longrightarrow> py_int (py_str rt v) \<noteq> None"
    and "vt = ''float'' \<Longrightarrow> rt_float rt (py_str rt v) \<noteq> None"
  using assms
  by (cases v; simp add: check_value_type_def Let_def number_text_def py_str_def is_int_def
      is_bool_def is_compound_def is_number_def)+

lemma serialized_text:
  assumes vt: "vt \<in> set abac_value_types" and raw: "serialize_condition_value rt v vt = Some raw"
    and num: "number_text rt v" and noval: "m \<in> set no_value_operators \<Longrightarrow> v = PNone"
    and acc: "m \<notin> set no_value_operators \<Longrightarrow> v \<noteq> PNone \<and>
      (if m \<in> set list_operators then vt = ''list'' \<and> coerce_list rt v \<noteq> None
       else check_value_type rt vt v = Inr ())"
  shows "(vt = ''integer'' \<longrightarrow> py_int raw \<noteq> None) \<and> (vt = ''float'' \<longrightarrow> rt_float rt raw \<noteq> None)
       \<and> (m \<in> set list_operators \<longrightarrow> vt = ''list'')"
proof -
  have "v \<noteq> PNone" using raw by (auto simp: serialize_condition_value_def)
  then have m: "m \<notin> set no_value_operators" using noval by blast
  have low: "py_lower (if vt = [] then ''string'' else vt) = vt"
    using vt abac_value_types_ne [OF vt] by simp
  have "vt \<noteq> ''list'' \<Longrightarrow> raw = py_str rt v"
    using raw \<open>v \<noteq> PNone\<close> low by (auto simp: serialize_condition_value_def)
  then show ?thesis
    using acc [OF m] check_value_type_text [of rt vt v] num by (auto split: if_splits)
qed

lemma new_row_decodes:
  assumes acc: "validate_condition_definition rt re_error (PStr attr) op v (PStr vt0) = Inr m"
    and num: "number_text rt v" and noval: "m \<in> set no_value_operators \<Longrightarrow> v = PNone"
  shows "\<exists>cond. decode_row rt (new_condition_row rt cid gid attr m v vt0 d) = Inr cond \<and> operator cond = m"
proof (rule decode_storedI)
  let ?row = "new_condition_row rt cid gid attr m v vt0 d"
  note facts = definition_accepted [OF acc]
  show "sc_value_type ?row \<in> set abac_value_types" and "validate_attribute (sc_attribute ?row)"
    and "sc_operator ?row = operator_value m"
    using facts(1,2) by (simp_all add: new_condition_row_def Let_def)
  fix raw assume "sc_value ?row = Some raw"
  then show "(sc_value_type ?row = ''integer'' \<longrightarrow> py_int raw \<noteq> None)
       \<and> (sc_value_type ?row = ''float'' \<longrightarrow> rt_float rt raw \<noteq> None)
       \<and> (m \<in> set list_operators \<longrightarrow> sc_value_type ?row = ''list'')"
    using serialized_text [OF facts(2) _ num noval facts(4)]
    by (simp add: new_condition_row_def Let_def)
qed

lemma normalize_operator_value [simp]:
  "normalize_condition_operator rt (PStr (operator_value m)) = Inr m"
proof -
  have "py_lower (py_strip (operator_value m)) = operator_value m" and "operator_value m \<noteq> []"
    by (cases m; simp; code_simp)+
  then show ?thesis by (simp add: normalize_condition_operator_def text_or_def)
qed

lemma decode_rowD:
  assumes "decode_row rt c = Inr cond"
  shows "validate_attribute (sc_attribute c)" and "sc_operator c = operator_value (operator cond)"
    and "\<exists>w. parse_value rt (sc_value c) (sc_value_type c) = Inr w"
  using assms
  by (auto simp: decode_row_def bindE_eq_Inr make_condition_def operator_of_SomeD
      split: if_splits option.splits)

lemma parse_value_textD:
  assumes "parse_value rt (Some raw) vt = Inr w" and "vt \<in> set abac_value_types"
  shows "(vt = ''integer'' \<longrightarrow> py_int raw \<noteq> None) \<and> (vt = ''float'' \<longrightarrow> rt_float rt raw \<noteq> None)"
  using assms(1) abac_value_types_lower [OF assms(2)]
  by (auto simp: parse_value_def Let_def split: option.splits)

lemma updated_row_decodes:
  assumes wf: "row_wf rt c" and acc: "validate_condition_update rt re_error c u = Inr m"
    and request: "''value_type'' \<notin> cu_fields u \<Longrightarrow> cu_value_type u = None"
    and num: "number_text rt (cu_value u)"
    and noval: "m \<in> set no_value_operators \<Longrightarrow> value_updated u \<Longrightarrow> cu_value u = PNone"
  shows "\<exists>cond. decode_row rt (apply_condition_update rt c u m) = Inr cond \<and> operator cond = m"
proof -
  let ?row = "apply_condition_update rt c u m"
  let ?vt = "updated_field (cu_fields u) ''value_type'' (cu_value_type u) (sc_value_type c)"
  let ?v = "if value_updated u then cu_value u else stored_condition_value rt (sc_value c) (PStr ?vt)"
  from wf obtain old where old: "decode_row rt c = Inr old" and ty: "sc_value_type c \<in> set abac_value_types"
    by (auto simp: row_wf_def)
  note facts = definition_accepted [OF acc [unfolded validate_condition_update_def Let_def]]
  have vt: "sc_value_type ?row = normalize_value_type rt (PStr ?vt)"
    using request ty
    by (auto simp: apply_condition_update_def Let_def updated_field_def split: option.splits)
  show ?thesis
  proof (rule decode_storedI)
    show "sc_value_type ?row \<in> set abac_value_types" using facts(2) vt by simp
    show "validate_attribute (sc_attribute ?row)"
      using facts(1) decode_rowD(1) [OF old]
      by (auto simp: apply_condition_update_def Let_def updated_field_def split: option.splits if_splits)
    show "sc_operator ?row = operator_value m"
      using facts(3) decode_rowD(2) [OF old]
      by (auto simp: apply_condition_update_def Let_def updated_field_def split: option.splits if_splits)
    fix raw assume raw: "sc_value ?row = Some raw"
    show "(sc_value_type ?row = ''integer'' \<longrightarrow> py_int raw \<noteq> None)
       \<and> (sc_value_type ?row = ''float'' \<longrightarrow> rt_float rt raw \<noteq> None)
       \<and> (m \<in> set list_operators \<longrightarrow> sc_value_type ?row = ''list'')"
    proof (cases "value_updated u")
      case True
      have "normalize_value_type rt (PStr (normalize_value_type rt (PStr ?vt))) = normalize_value_type rt (PStr ?vt)"
        using facts(2) by simp
      moreover have "normalize_value_type rt (PStr []) = ''string''"
        by (simp add: normalize_value_type_def text_or_def) code_simp
      ultimately have ser: "serialize_condition_value rt (cu_value u) (normalize_value_type rt (PStr ?vt)) = Some raw"
        using raw True request ty vt
        by (auto simp: apply_condition_update_def Let_def updated_field_def split: option.splits if_splits)
      have nv: "m \<in> set no_value_operators \<Longrightarrow> cu_value u = PNone" using noval True by blast
      show ?thesis
        unfolding vt by (rule serialized_text [OF facts(2) ser num nv]) (use facts(4) True in auto)
    next
      case False
      then have "sc_value c = Some raw" and same: "sc_value_type ?row = sc_value_type c"
        using raw request
        by (auto simp: apply_condition_update_def Let_def value_updated_def split: option.splits)
      moreover from this decode_rowD(3) [OF old] obtain w
        where "parse_value rt (Some raw) (sc_value_type c) = Inr w" by auto
      ultimately show ?thesis
        using parse_value_textD [of rt raw "sc_value_type c" w] ty facts(4) vt
        by (auto simp: no_value_operators_def list_operators_def split: if_splits)
    qed
  qed
qed

section \<open>Properties\<close>


text \<open>
  An accepted partial update keeps a row evaluable: whatever subset of the fields the request sets,
  the assignments leave a row that decodes, under the operator the validation returned.
\<close>

theorem accepted_update_evaluates:
  assumes "row_wf rt c" and "validate_condition_update rt re_error c u = Inr m"
    and "''value_type'' \<notin> cu_fields u \<Longrightarrow> cu_value_type u = None"
    and "number_text rt (cu_value u)"
    and "m \<in> set no_value_operators \<Longrightarrow> value_updated u \<Longrightarrow> cu_value u = PNone"
  shows "\<exists>cond. operator cond = m \<and>
     (\<forall>ctx. evaluate_stored_condition rt (apply_condition_update rt c u m) ctx =
        false_on_error (evaluate_condition rt cond ctx))"
proof -
  obtain cond where "operator cond = m"
      and "decode_row rt (apply_condition_update rt c u m) = Inr cond"
    using updated_row_decodes [OF assms(1,2)] assms(3-5) by blast
  then show ?thesis by (intro exI [of _ cond]) (simp add: evaluate_stored_decode)
qed

text \<open>The text \<open>str\<close> gives for the values of the scalar types, and JSON's round trip for a value.\<close>

definition documented_text :: "pyrt \<Rightarrow> pyval \<Rightarrow> bool" where
  "documented_text rt v \<longleftrightarrow>
     (case v of
        PBool b \<Rightarrow> rt_str rt v = (if b then ''True'' else ''False'')
      | PInt i \<Rightarrow> rt_str rt v = show_int i \<and> length (show_int i) \<le> int_max_str_digits
      | PFloat f \<Rightarrow> rt_float rt (rt_str rt v) = Some f
      | PList _ \<Rightarrow> rt_loads rt (rt_dumps rt v) = Some v
      | _ \<Rightarrow> True)"

definition value_type_of :: "pyval \<Rightarrow> string" where
  "value_type_of v =
     (case v of PBool _ \<Rightarrow> ''boolean'' | PInt _ \<Rightarrow> ''integer'' | PFloat _ \<Rightarrow> ''float''
      | PList _ \<Rightarrow> ''list'' | _ \<Rightarrow> ''string'')"

definition is_condition_value :: "pyval \<Rightarrow> bool" where
  "is_condition_value v \<longleftrightarrow>
     (case v of PTuple _ \<Rightarrow> False | PSet _ \<Rightarrow> False | PDict _ \<Rightarrow> False | PDatetime _ \<Rightarrow> False | _ \<Rightarrow> True)"

text \<open>
  C38. Storing a value and reading it back under its own type returns it: texts, integers, floats,
  truth values, lists and null survive the round trip through the column.
\<close>

theorem condition_value_roundtrip:
  assumes "is_condition_value v" and "documented_text rt v"
  shows "parse_value rt (serialize_condition_value rt v (value_type_of v)) (value_type_of v) = Inr v"
proof -
  have ty: "value_type_of v \<in> set abac_value_types"
    by (cases v) (simp_all add: value_type_of_def abac_value_types_def)
  have words: "py_lower ''True'' \<in> set true_words" "py_lower ''False'' \<notin> set true_words"
    by code_simp+
  show ?thesis
    using assms words abac_value_types_lower [OF ty] abac_value_types_ne [OF ty]
    by (cases v)
      (auto simp: serialize_condition_value_def parse_value_def value_type_of_def documented_text_def
        is_condition_value_def is_list_def py_str_def py_int_show_int split: if_splits)
qed

subsection \<open>Where acceptance is not enough\<close>

text \<open>
  A list given as JSON text passes the validation of a list operator, but it is serialised again as a
  JSON string, and reads back as the list that holds that one text.
\<close>

lemma text_list_is_encoded_twice:
  assumes "rt_loads rt s = Some (PList xs)" and "s \<noteq> []"
    and "rt_loads rt (rt_dumps rt (PStr s)) = Some (PStr s)"
  shows "validate_condition_definition rt re_error (PStr ''user.team'') (PStr ''in'') (PStr s) (PStr ''list'')
      = Inr IN_LIST"
    and "parse_value rt (serialize_condition_value rt (PStr s) ''list'') ''list'' = Inr (PList [PStr s])"
proof -
  have "validate_condition_attribute rt (PStr ''user.team'') = Inr ''user.team''"
    and op: "normalize_condition_operator rt (PStr ''in'') = Inr IN_LIST"
    and vt: "normalize_value_type rt (PStr ''list'') = ''list''"
    by (simp_all add: validate_condition_attribute_def normalize_condition_operator_def
        normalize_value_type_def text_or_def py_str_def) code_simp+
  then show "validate_condition_definition rt re_error (PStr ''user.team'') (PStr ''in'') (PStr s) (PStr ''list'')
      = Inr IN_LIST"
    using assms by (simp add: validate_condition_definition_def Let_def no_value_operators_def
        list_operators_def abac_value_types_def coerce_list_def is_list_def)
  have "py_lower ''list'' = ''list''" by code_simp
  then show "parse_value rt (serialize_condition_value rt (PStr s) ''list'') ''list'' = Inr (PList [PStr s])"
    using assms by (simp add: serialize_condition_value_def parse_value_def Let_def is_list_def)
qed

text \<open>
  A valueless operator accepts any value and stores it. A value that does not parse as the stored type
  then denies every evaluation, of \<open>not_exists\<close> as of \<open>exists\<close>.
\<close>

lemma valueless_operator_value_denies:
  assumes "m \<in> set no_value_operators" and "sc_value_type c = ''integer''"
    and "sc_value c = Some ''any''"
  shows "evaluate_stored_condition rt c ctx = Inr False"
proof -
  have "py_lower ''integer'' = ''integer''" and "py_int ''any'' = None" by code_simp+
  then show ?thesis
    using assms by (simp add: evaluate_stored_condition_def parse_value_def false_on_error_def Let_def)
qed

subsection \<open>Instances\<close>

definition number_rt :: pyrt where
  "number_rt = plain_rt\<lparr>rt_str := (\<lambda>v. case v of PInt i \<Rightarrow> show_int i | _ \<Rightarrow> []),
     rt_float := (\<lambda>s. map_option (\<lambda>i. Fin (of_int i)) (py_int s))\<rparr>"


definition sample_update :: condition_update where
  "sample_update = \<lparr>cu_fields = {''operator'', ''value''}, cu_group = None, cu_attribute = None,
     cu_operator = Some ''LESS_THAN'', cu_value = PInt 7, cu_value_type = None, cu_description = None\<rparr>"

theorem accepted_update_evaluates_witness:
  "\<exists>cond. operator cond = LESS_THAN \<and>
     (\<forall>ctx. evaluate_stored_condition number_rt
          (apply_condition_update number_rt
            (row None ''user.level'' ''equals'' ''2'' ''integer'') sample_update LESS_THAN) ctx =
        false_on_error (evaluate_condition number_rt cond ctx))"
proof (rule accepted_update_evaluates [where re_error = "\<lambda>_. []"])
  let ?c = "row None ''user.level'' ''equals'' ''2'' ''integer''"
  have "decode_row number_rt ?c =
      Inr \<lparr>attribute = ''user.level'', operator = EQUALS, cvalue = PInt 2, description = None\<rparr>"
    by code_simp
  then show "row_wf number_rt ?c" by (simp add: row_wf_def row_def abac_value_types_def)
qed code_simp+

theorem condition_value_roundtrip_witness:
  "parse_value number_rt (serialize_condition_value number_rt (PInt (-40)) ''integer'') ''integer'' = Inr (PInt (-40))"
  using condition_value_roundtrip [of "PInt (-40)" number_rt]
  by (simp add: is_condition_value_def documented_text_def value_type_of_def number_rt_def plain_rt_def)
    code_simp?

end
