(* ===== verification/PermName.thy ===== *)
theory PermName
  imports Enums
begin

text \<open>
  Permission names and what a set of granted names allows: \<open>_parse_permission_name\<close>,
  \<open>_permission_set_allows\<close>, \<open>_permission_set_allows_from_ancestor\<close> and \<open>PermissionMatcher\<close> of
  \<open>outlabs_auth/services/permission.py\<close>, and the parsing and matching methods of the \<open>Permission\<close>
  model (\<open>outlabs_auth/models/sql/permission.py\<close>).

  A name is \<open>resource:action\<close> with an optional scope \<open>_tree\<close>, \<open>_all\<close> or \<open>_own\<close>. The locale \<open>grants\<close>
  is the contract the permission service relies on: a set of names grants what one of its names
  grants.
\<close>

section \<open>Names\<close>

definition scopes :: "string list" where
  "scopes = [''tree'', ''all'', ''own'']"

definition parse_permission_name :: "string \<Rightarrow> string \<times> string \<times> string option" where
  "parse_permission_name name =
     (if CHR '':'' \<notin> set name then (name, ''*'', None)
      else let (resource, action_part) = split_first (CHR '':'') name in
        if CHR ''_'' \<notin> set action_part then (resource, action_part, None)
        else let (base, maybe_scope) = split_last (CHR ''_'') action_part in
          if maybe_scope \<in> set scopes then (resource, base, Some maybe_scope)
          else (resource, action_part, None))"

text \<open>\<open>f"{resource}:{action}"\<close> and \<open>f"{base}_{scope}"\<close>\<close>

definition base_name :: "string \<Rightarrow> string \<Rightarrow> string" where
  "base_name resource action = resource @ '':'' @ action"

definition scoped_name :: "string \<Rightarrow> string \<Rightarrow> string" where
  "scoped_name base sc = base @ ''_'' @ sc"

section \<open>What a set of names allows\<close>

definition permission_set_allows :: "string \<Rightarrow> string set \<Rightarrow> bool" where
  "permission_set_allows required granted \<longleftrightarrow>
     (if ''*:*'' \<in> granted \<or> required \<in> granted then True
      else let (resource, action, sc) = parse_permission_name required in
        if base_name resource ''*'' \<in> granted then True
        else let base = base_name resource action in
          if scoped_name base ''all'' \<in> granted then True
          else if sc = None then scoped_name base ''tree'' \<in> granted
          else False)"

definition permission_set_allows_from_ancestor :: "string \<Rightarrow> string set \<Rightarrow> bool" where
  "permission_set_allows_from_ancestor required granted \<longleftrightarrow>
     (if ''*:*'' \<in> granted then True
      else let (resource, action, sc) = parse_permission_name required;
               base = base_name resource action in
        if sc = Some ''all'' then scoped_name base ''all'' \<in> granted
        else if sc = Some ''tree''
          then scoped_name base ''tree'' \<in> granted \<or> scoped_name base ''all'' \<in> granted
        else scoped_name base ''tree'' \<in> granted \<or> scoped_name base ''all'' \<in> granted)"

subsection \<open>The precomputed index\<close>

record permission_matcher =
  pm_has_super :: bool
  pm_exact :: "string set"
  pm_resource_wildcards :: "string set"
  pm_all_scoped :: "string set"
  pm_tree_scoped :: "string set"

text \<open>The loop body for one granted name: the views it is added to.\<close>

definition index_name :: "string \<Rightarrow> permission_matcher \<Rightarrow> permission_matcher" where
  "index_name perm m =
     (if CHR '':'' \<notin> set perm then m
      else let (resource, action_part) = split_first (CHR '':'') perm in
        if action_part = ''*''
        then m\<lparr>pm_resource_wildcards := insert resource (pm_resource_wildcards m)\<rparr>
        else if CHR ''_'' \<notin> set action_part then m
        else let (base_action, sc) = split_last (CHR ''_'') action_part in
          if sc = ''all''
          then m\<lparr>pm_all_scoped := insert (base_name resource base_action) (pm_all_scoped m)\<rparr>
          else if sc = ''tree''
          then m\<lparr>pm_tree_scoped := insert (base_name resource base_action) (pm_tree_scoped m)\<rparr>
          else m)"

definition make_matcher :: "string list \<Rightarrow> permission_matcher" where
  "make_matcher granted =
     (let exact = filter (\<lambda>p. p \<noteq> []) granted in
      foldl (\<lambda>m p. index_name p m)
        \<lparr>pm_has_super = ''*:*'' \<in> set exact, pm_exact = set exact,
         pm_resource_wildcards = {}, pm_all_scoped = {}, pm_tree_scoped = {}\<rparr> exact)"

definition matcher_allows :: "permission_matcher \<Rightarrow> string \<Rightarrow> bool" where
  "matcher_allows m required \<longleftrightarrow>
     (if pm_has_super m \<or> required \<in> pm_exact m then True
      else let (resource, action, sc) = parse_permission_name required in
        if resource \<in> pm_resource_wildcards m then True
        else let base = base_name resource action in
          if base \<in> pm_all_scoped m then True
          else sc = None \<and> base \<in> pm_tree_scoped m)"

definition matcher_allows_from_ancestor :: "permission_matcher \<Rightarrow> string \<Rightarrow> bool" where
  "matcher_allows_from_ancestor m required \<longleftrightarrow>
     (if pm_has_super m then True
      else let (resource, action, sc) = parse_permission_name required;
               base = base_name resource action in
        if sc = Some ''all'' then base \<in> pm_all_scoped m
        else base \<in> pm_all_scoped m \<or> base \<in> pm_tree_scoped m)"

section \<open>The model's own parser and matcher\<close>

text \<open>\<open>Permission._parse_name\<close> on a new object: resource, action and scope, unset where not given.\<close>

definition parse_name_fields :: "string \<Rightarrow> string option \<times> string option \<times> string option" where
  "parse_name_fields name =
     (if name = [] then (None, None, None)
      else if CHR '':'' \<notin> set name then (Some name, None, None)
      else let (resource, action_part) = split_first (CHR '':'') name in
        if CHR ''_'' \<in> set action_part then
          let (a, s) = split_last (CHR ''_'') action_part in
          if s \<in> set scopes then (Some resource, Some a, Some s)
          else (Some resource, Some action_part, None)
        else (Some resource, Some action_part, None))"

text \<open>\<open>Permission.matches\<close>\<close>

definition permission_matches :: "string \<Rightarrow> string option \<times> string option \<times> string option \<Rightarrow> string \<Rightarrow> bool" where
  "permission_matches name parts required \<longleftrightarrow>
     (if name = ''*:*'' then True
      else if name = required then True
      else if CHR '':'' \<in> set required then
        fst parts = Some (fst (split_first (CHR '':'') required)) \<and> fst (snd parts) = Some ''*''
      else False)"

section \<open>Lemmas on names\<close>

lemma base_name_inject:
  "CHR '':'' \<notin> set r \<Longrightarrow> CHR '':'' \<notin> set r' \<Longrightarrow> base_name r a = base_name r' a' \<longleftrightarrow> r = r' \<and> a = a'"
  by (metis append_Cons append_Nil base_name_def prod.inject split_first_append)

lemma scoped_base: "scoped_name (base_name r a) s = base_name r (a @ ''_'' @ s)"
  by (simp add: base_name_def scoped_name_def)

lemma base_name_ne [simp]: "base_name r a \<noteq> []" "scoped_name b s \<noteq> []"
  "[] \<noteq> base_name r a" "[] \<noteq> scoped_name b s"
  by (simp_all add: base_name_def scoped_name_def)

lemma split_first_base [simp]: "CHR '':'' \<notin> set r \<Longrightarrow> split_first (CHR '':'') (base_name r a) = (r, a)"
  by (simp add: base_name_def)

lemma colon_base [simp]: "CHR '':'' \<in> set (base_name r a)"
  by (simp add: base_name_def)

lemma split_last_scope [simp]:
  "CHR ''_'' \<notin> set s \<Longrightarrow> split_last (CHR ''_'') (a @ CHR ''_'' # s) = (a, s)"
  by simp

lemma parse_resource_no_colon:
  assumes "parse_permission_name name = (r, a, s)"
  shows "CHR '':'' \<notin> set r"
proof (cases "CHR '':'' \<in> set name")
  case True
  then obtain res act where sp: "split_first (CHR '':'') name = (res, act)" by fastforce
  then have "CHR '':'' \<notin> set res" using split_first_eq [OF True] by blast
  moreover have "r = res" using assms True sp
    by (auto simp: parse_permission_name_def split: if_splits prod.splits)
  ultimately show ?thesis by simp
qed (use assms in \<open>auto simp: parse_permission_name_def\<close>)

lemma parse_scoped:
  assumes "CHR '':'' \<notin> set r" and "s \<in> set scopes"
  shows "parse_permission_name (scoped_name (base_name r a) s) = (r, a, Some s)"
proof -
  have "CHR ''_'' \<notin> set s" using assms(2) by (auto simp: scopes_def)
  then show ?thesis using assms by (simp add: scoped_base parse_permission_name_def)
qed

lemma parse_plain:
  assumes "CHR '':'' \<notin> set r" and "CHR ''_'' \<notin> set a"
  shows "parse_permission_name (base_name r a) = (r, a, None)"
  using assms by (simp add: parse_permission_name_def)

text \<open>Parsing loses nothing: the parts make up the name again.\<close>

lemma parse_unparse:
  assumes "CHR '':'' \<in> set name" and "parse_permission_name name = (r, a, s)"
  shows "name = (case s of None \<Rightarrow> base_name r a | Some sc \<Rightarrow> scoped_name (base_name r a) sc)"
proof -
  obtain res act where sp: "split_first (CHR '':'') name = (res, act)" by fastforce
  then have name: "name = base_name res act" using split_first_eq [OF assms(1)] by (simp add: base_name_def)
  show ?thesis
  proof (cases "CHR ''_'' \<in> set act")
    case True
    obtain b sc where sl: "split_last (CHR ''_'') act = (b, sc)" by fastforce
    then have "act = b @ CHR ''_'' # sc" using split_last_eq [OF True] by blast
    with assms sp sl True name show ?thesis
      by (auto simp: parse_permission_name_def scoped_base split: if_splits)
  qed (use assms sp name in \<open>auto simp: parse_permission_name_def\<close>)
qed

text \<open>The stored fields of a name are the parts the service parses.\<close>

lemma parse_name_fields_eq:
  assumes "CHR '':'' \<in> set name" and "parse_permission_name name = (r, a, s)"
  shows "parse_name_fields name = (Some r, Some a, s)"
  using assms by (auto simp: parse_permission_name_def parse_name_fields_def Let_def
      split: if_splits prod.splits)

section \<open>The grant contract\<close>

text \<open>
  What the permission service relies on when it collects names into sets, checks them one role at a
  time, or through an index: a set grants a name when one of its members does.
\<close>

locale grants =
  fixes allows :: "string \<Rightarrow> string set \<Rightarrow> bool"
  assumes pointwise: "allows required granted \<longleftrightarrow> (\<exists>n \<in> granted. allows required {n})"
begin

lemma empty: "\<not> allows required {}"
  using pointwise [of required "{}"] by simp

lemma union: "allows required (A \<union> B) \<longleftrightarrow> allows required A \<or> allows required B"
  using pointwise [of required "A \<union> B"] pointwise [of required A] pointwise [of required B] by blast

lemma mono: "A \<subseteq> B \<Longrightarrow> allows required A \<Longrightarrow> allows required B"
  using pointwise [of required A] pointwise [of required B] by blast

lemma Union_iff: "allows required (\<Union>x \<in> X. f x) \<longleftrightarrow> (\<exists>x \<in> X. allows required (f x))"
proof -
  have "allows required (\<Union>x \<in> X. f x) \<longleftrightarrow> (\<exists>x \<in> X. \<exists>n \<in> f x. allows required {n})"
    using pointwise [of required "\<Union>x \<in> X. f x"] by blast
  also have "\<dots> \<longleftrightarrow> (\<exists>x \<in> X. allows required (f x))" using pointwise [of required] by blast
  finally show ?thesis .
qed

lemma set_list: "allows required (set ns) \<longleftrightarrow> (\<exists>n \<in> set ns. allows required {n})"
  by (rule pointwise)

end

text \<open>The single names that grant a required name, in the order the code tries them.\<close>

definition covers :: "string \<Rightarrow> string \<Rightarrow> bool" where
  "covers n required \<longleftrightarrow>
     (let (r, a, s) = parse_permission_name required in
      n \<in> {''*:*'', required, base_name r ''*'', scoped_name (base_name r a) ''all''}
      \<or> (s = None \<and> n = scoped_name (base_name r a) ''tree''))"

definition covers_below :: "string \<Rightarrow> string \<Rightarrow> bool" where
  "covers_below n required \<longleftrightarrow>
     (let (r, a, s) = parse_permission_name required in
      n \<in> {''*:*'', scoped_name (base_name r a) ''all''}
      \<or> (s \<noteq> Some ''all'' \<and> n = scoped_name (base_name r a) ''tree''))"

lemma permission_set_allows_iff:
  "permission_set_allows required granted \<longleftrightarrow> (\<exists>n \<in> granted. covers n required)"
  by (cases "parse_permission_name required") (auto simp: permission_set_allows_def covers_def Let_def)

lemma permission_set_allows_from_ancestor_iff:
  "permission_set_allows_from_ancestor required granted \<longleftrightarrow> (\<exists>n \<in> granted. covers_below n required)"
  by (cases "parse_permission_name required")
    (auto simp: permission_set_allows_from_ancestor_def covers_below_def Let_def)

interpretation direct: grants permission_set_allows
  by unfold_locales (auto simp: permission_set_allows_iff)

interpretation ancestor: grants permission_set_allows_from_ancestor
  by unfold_locales (auto simp: permission_set_allows_from_ancestor_iff)

text \<open>What an ancestor's set allows its descendants it allows at the ancestor too, but for \<open>_own\<close>.\<close>

lemma covers_below_covers:
  assumes "covers_below n required" and "snd (snd (parse_permission_name required)) \<noteq> Some ''own''"
    and "n \<noteq> scoped_name (base_name (fst (parse_permission_name required))
                          (fst (snd (parse_permission_name required)))) ''tree''
         \<or> snd (snd (parse_permission_name required)) \<noteq> Some ''tree''"
  shows "covers n required"
proof -
  obtain r a s where p: "parse_permission_name required = (r, a, s)" by (metis prod_cases3)
  have "s \<in> {None, Some ''tree'', Some ''all'', Some ''own''}"
    using p by (auto simp: parse_permission_name_def scopes_def Let_def split: if_splits prod.splits)
  then show ?thesis using assms p by (auto simp: covers_def covers_below_def)
qed

text \<open>\<open>Permission.matches\<close> never grants more than the service, for a name without a scope.\<close>

lemma permission_matches_sound:
  assumes "permission_matches name (parse_name_fields name) required"
    and "snd (snd (parse_name_fields name)) = None"
  shows "permission_set_allows required {name}"
proof (cases "name = ''*:*'' \<or> name = required")
  case True
  then show ?thesis by (auto simp: permission_set_allows_def)
next
  case False
  with assms(1) have colon: "CHR '':'' \<in> set required"
    and res: "fst (parse_name_fields name) = Some (fst (split_first (CHR '':'') required))"
    and act: "fst (snd (parse_name_fields name)) = Some ''*''"
    by (auto simp: permission_matches_def split: if_splits)
  have "CHR '':'' \<in> set name" using act by (auto simp: parse_name_fields_def split: if_splits)
  moreover obtain r a s where p: "parse_permission_name name = (r, a, s)" by (metis prod_cases3)
  ultimately have "name = base_name (fst (split_first (CHR '':'') required)) ''*''"
    using parse_name_fields_eq [of name r a s] parse_unparse [of name r a s] assms(2) res act by simp
  moreover obtain r' a' s' where q: "parse_permission_name required = (r', a', s')" by (metis prod_cases3)
  moreover have "r' = fst (split_first (CHR '':'') required)"
    using q colon by (auto simp: parse_permission_name_def Let_def split: if_splits prod.splits)
  ultimately show ?thesis by (simp add: permission_set_allows_def)
qed

section \<open>The index\<close>

definition wildcard_entries :: "string set \<Rightarrow> string set" where
  "wildcard_entries S = {r. CHR '':'' \<notin> set r \<and> base_name r ''*'' \<in> S}"

definition scoped_entries :: "string \<Rightarrow> string set \<Rightarrow> string set" where
  "scoped_entries s S = {b. \<exists>r a. b = base_name r a \<and> CHR '':'' \<notin> set r \<and> scoped_name b s \<in> S}"

lemma entries_no_colon [simp]:
  "CHR '':'' \<notin> set p \<Longrightarrow> wildcard_entries {p} = {}"
  "CHR '':'' \<notin> set p \<Longrightarrow> scoped_entries s {p} = {}"
  by (auto simp: wildcard_entries_def scoped_entries_def scoped_name_def)

lemma wildcard_entries_base:
  "CHR '':'' \<notin> set r \<Longrightarrow> wildcard_entries {base_name r act} = (if act = ''*'' then {r} else {})"
  by (auto simp: wildcard_entries_def base_name_inject)

lemma scoped_entries_base:
  assumes r: "CHR '':'' \<notin> set r" and s: "CHR ''_'' \<notin> set s"
  shows "scoped_entries s {base_name r act} =
    (if CHR ''_'' \<in> set act \<and> snd (split_last (CHR ''_'') act) = s
     then {base_name r (fst (split_last (CHR ''_'') act))} else {})"
proof (cases "CHR ''_'' \<in> set act")
  case True
  obtain b sc where sl: "split_last (CHR ''_'') act = (b, sc)" by fastforce
  then have act: "act = b @ CHR ''_'' # sc" and sc: "CHR ''_'' \<notin> set sc"
    using split_last_eq [OF True] by blast+
  have same: "a @ CHR ''_'' # s = b @ CHR ''_'' # sc \<longleftrightarrow> a = b \<and> sc = s" for a
    using split_last_append [OF sc, of b] split_last_append [OF s, of a] by (metis prod.inject)
  have "scoped_entries s {base_name r act} = (\<lambda>a. base_name r a) ` {a. a = b \<and> sc = s}"
    using r by (auto simp: scoped_entries_def scoped_base base_name_inject act same)
  then show ?thesis using True sl by auto
next
  case False
  then show ?thesis using r
    by (auto simp: scoped_entries_def scoped_base base_name_inject)
qed

lemma index_name_views:
  "pm_has_super (index_name p m) = pm_has_super m"
  "pm_exact (index_name p m) = pm_exact m"
  "pm_resource_wildcards (index_name p m) = pm_resource_wildcards m \<union> wildcard_entries {p}"
  "pm_all_scoped (index_name p m) = pm_all_scoped m \<union> scoped_entries ''all'' {p}"
  "pm_tree_scoped (index_name p m) = pm_tree_scoped m \<union> scoped_entries ''tree'' {p}"
proof -
  have "pm_has_super (index_name p m) = pm_has_super m \<and> pm_exact (index_name p m) = pm_exact m
     \<and> pm_resource_wildcards (index_name p m) = pm_resource_wildcards m \<union> wildcard_entries {p}
     \<and> pm_all_scoped (index_name p m) = pm_all_scoped m \<union> scoped_entries ''all'' {p}
     \<and> pm_tree_scoped (index_name p m) = pm_tree_scoped m \<union> scoped_entries ''tree'' {p}"
  proof (cases "CHR '':'' \<in> set p")
    case True
    obtain r act where sp: "split_first (CHR '':'') p = (r, act)" by fastforce
    then have p: "p = base_name r act" and r: "CHR '':'' \<notin> set r"
      using split_first_eq [OF True] by (auto simp: base_name_def)
    have "act = ''*'' \<Longrightarrow> CHR ''_'' \<notin> set act" by simp
    with r show ?thesis
      by (auto simp: p index_name_def wildcard_entries_base scoped_entries_base Let_def split: prod.splits)
  qed (simp add: index_name_def)
  then show "pm_has_super (index_name p m) = pm_has_super m"
    "pm_exact (index_name p m) = pm_exact m"
    "pm_resource_wildcards (index_name p m) = pm_resource_wildcards m \<union> wildcard_entries {p}"
    "pm_all_scoped (index_name p m) = pm_all_scoped m \<union> scoped_entries ''all'' {p}"
    "pm_tree_scoped (index_name p m) = pm_tree_scoped m \<union> scoped_entries ''tree'' {p}"
    by blast+
qed

lemma entries_pointwise:
  "wildcard_entries (insert p S) = wildcard_entries {p} \<union> wildcard_entries S"
  "scoped_entries s (insert p S) = scoped_entries s {p} \<union> scoped_entries s S"
  "wildcard_entries {} = {}" "scoped_entries s {} = {}"
  by (auto simp: wildcard_entries_def scoped_entries_def)

lemma index_fold:
  "foldl (\<lambda>m p. index_name p m) m ps =
     \<lparr>pm_has_super = pm_has_super m, pm_exact = pm_exact m,
      pm_resource_wildcards = pm_resource_wildcards m \<union> wildcard_entries (set ps),
      pm_all_scoped = pm_all_scoped m \<union> scoped_entries ''all'' (set ps),
      pm_tree_scoped = pm_tree_scoped m \<union> scoped_entries ''tree'' (set ps)\<rparr>"
  by (induction ps arbitrary: m)
    (simp_all add: entries_pointwise(3,4) entries_pointwise(1,2) [where S = "set _"] index_name_views Un_assoc)

lemma entries_nonempty_only:
  "wildcard_entries {p \<in> S. p \<noteq> []} = wildcard_entries S"
  "scoped_entries s {p \<in> S. p \<noteq> []} = scoped_entries s S"
  by (auto simp: wildcard_entries_def scoped_entries_def)

lemma make_matcher_views:
  "pm_has_super (make_matcher ns) \<longleftrightarrow> ''*:*'' \<in> set ns"
  "pm_exact (make_matcher ns) = {p \<in> set ns. p \<noteq> []}"
  "pm_resource_wildcards (make_matcher ns) = wildcard_entries (set ns)"
  "pm_all_scoped (make_matcher ns) = scoped_entries ''all'' (set ns)"
  "pm_tree_scoped (make_matcher ns) = scoped_entries ''tree'' (set ns)"
  by (auto simp: make_matcher_def index_fold Let_def entries_nonempty_only)

lemma in_entries:
  assumes "CHR '':'' \<notin> set r"
  shows "r \<in> wildcard_entries S \<longleftrightarrow> base_name r ''*'' \<in> S"
    and "base_name r a \<in> scoped_entries s S \<longleftrightarrow> scoped_name (base_name r a) s \<in> S"
  using assms by (auto simp: wildcard_entries_def scoped_entries_def)

lemma matcher_allows_iff:
  assumes "required \<noteq> []"
  shows "matcher_allows (make_matcher ns) required \<longleftrightarrow> permission_set_allows required (set ns)"
proof -
  obtain r a s where p: "parse_permission_name required = (r, a, s)" by (metis prod_cases3)
  note r = parse_resource_no_colon [OF p]
  show ?thesis
    using assms by (auto simp: matcher_allows_def permission_set_allows_def p make_matcher_views
        in_entries [OF r] Let_def)
qed

lemma matcher_ancestor_iff:
  "matcher_allows_from_ancestor (make_matcher ns) required \<longleftrightarrow>
     permission_set_allows_from_ancestor required (set ns)"
proof -
  obtain r a s where p: "parse_permission_name required = (r, a, s)" by (metis prod_cases3)
  note r = parse_resource_no_colon [OF p]
  show ?thesis
    by (auto simp: matcher_allows_from_ancestor_def permission_set_allows_from_ancestor_def p
        make_matcher_views in_entries [OF r] Let_def)
qed

section \<open>Properties\<close>

text \<open>
  C24. The precomputed index decides exactly as the set it was built from: for every non-empty required
  name, \<open>allows\<close> mirrors \<open>_permission_set_allows\<close>, and \<open>allows_from_ancestor\<close> mirrors
  \<open>_permission_set_allows_from_ancestor\<close>, on the granted names in any order and with any duplicates.
\<close>

theorem matcher_mirrors_permission_set:
  assumes "required \<noteq> []" and "set ns = granted"
  shows "(matcher_allows (make_matcher ns) required \<longleftrightarrow> permission_set_allows required granted)
     \<and> (matcher_allows_from_ancestor (make_matcher ns) required \<longleftrightarrow>
          permission_set_allows_from_ancestor required granted)"
  using assms by (simp_all add: matcher_allows_iff matcher_ancestor_iff)

theorem matcher_mirrors_permission_set_witness:
  "matcher_allows (make_matcher [''doc:read_tree'', ''doc:read_tree'']) ''doc:read''
   \<and> matcher_allows_from_ancestor (make_matcher [''doc:read_tree'', ''doc:read_tree'']) ''doc:read''"
proof -
  let ?ns = "[''doc:read_tree'', ''doc:read_tree'']"
  have "permission_set_allows ''doc:read'' {''doc:read_tree''}"
    and "permission_set_allows_from_ancestor ''doc:read'' {''doc:read_tree''}"
    by code_simp+
  then show ?thesis
    using matcher_mirrors_permission_set [of "''doc:read''" ?ns "{''doc:read_tree''}"] by simp
qed

text \<open>
  What grants a plain permission \<open>resource:action\<close>: at the entity itself exactly the super
  wildcard, the name, the resource wildcard and the \<open>_all\<close> and \<open>_tree\<close> variants; from an ancestor
  exactly the super wildcard and the \<open>_all\<close> and \<open>_tree\<close> variants, so neither the name itself nor the
  resource wildcard reaches descendants. An \<open>_own\<close> grant never widens.
\<close>

theorem plain_permission_granted_by:
  assumes "CHR '':'' \<notin> set r" and "CHR ''_'' \<notin> set a"
  shows "(permission_set_allows (r @ '':'' @ a) granted \<longleftrightarrow>
      granted \<inter> {''*:*'', r @ '':'' @ a, r @ '':*'', r @ '':'' @ a @ ''_all'', r @ '':'' @ a @ ''_tree''} \<noteq> {})
    \<and> (permission_set_allows_from_ancestor (r @ '':'' @ a) granted \<longleftrightarrow>
      granted \<inter> {''*:*'', r @ '':'' @ a @ ''_all'', r @ '':'' @ a @ ''_tree''} \<noteq> {})"
proof (intro conjI)
  have p: "parse_permission_name (r @ '':'' @ a) = (r, a, None)"
    using parse_plain [OF assms] by (simp add: base_name_def)
  show "permission_set_allows (r @ '':'' @ a) granted \<longleftrightarrow>
      granted \<inter> {''*:*'', r @ '':'' @ a, r @ '':*'', r @ '':'' @ a @ ''_all'', r @ '':'' @ a @ ''_tree''} \<noteq> {}"
    unfolding permission_set_allows_iff covers_def p by (auto simp: base_name_def scoped_name_def)
  show "permission_set_allows_from_ancestor (r @ '':'' @ a) granted \<longleftrightarrow>
      granted \<inter> {''*:*'', r @ '':'' @ a @ ''_all'', r @ '':'' @ a @ ''_tree''} \<noteq> {}"
    unfolding permission_set_allows_from_ancestor_iff covers_below_def p
    by (auto simp: base_name_def scoped_name_def)
qed

theorem plain_permission_granted_by_witness:
  "\<not> permission_set_allows ''doc:read'' {''doc:read_own'', ''user:*''}
   \<and> \<not> permission_set_allows_from_ancestor ''doc:read'' {''doc:read'', ''doc:*''}"
  using plain_permission_granted_by [of "''doc''" "''read''"] by simp

text \<open>
  A scope of its own is treated in two ways: from an ancestor a \<open>_tree\<close> grant allows the \<open>_own\<close>
  variant, while at the entity itself it does not.
\<close>

lemma own_scope_differs_at_the_entity:
  "permission_set_allows_from_ancestor ''doc:read_own'' {''doc:read_tree''}
   \<and> \<not> permission_set_allows ''doc:read_own'' {''doc:read_tree''}"
  by code_simp

end
