(* ===== verification/Database.thy ===== *)
theory Database
  imports AbacValidation PermName
begin

text \<open>
  The rows of the tables the permission services read and write (\<open>outlabs_auth/models/sql/\<close>), with the
  methods of the row classes, and the relationships the services load. A table is the list of its rows
  in the order a query returns them; no result proved here depends on that order unless it says so.
  Columns no modelled operation reads are left out.
\<close>

section \<open>Rows\<close>

record user_row =
  u_id :: uuid
  u_root_entity :: "uuid option"
  u_email :: string
  u_hashed_password :: "string option"
  u_auth_methods :: "string list"
  u_first_name :: "string option"
  u_last_name :: "string option"
  u_avatar_url :: "string option"
  u_phone :: "string option"
  u_locale :: "string option"
  u_timezone :: "string option"
  u_status :: string
  u_superuser :: bool
  u_protected :: "bool option"
  u_epoch :: "int option"
  u_email_verified :: bool
  u_phone_verified :: bool
  u_suspended_until :: "datetime option"
  u_deleted_at :: "datetime option"
  u_last_login :: "datetime option"
  u_last_activity :: "datetime option"
  u_last_password_change :: "datetime option"
  u_failed_logins :: int
  u_locked_until :: "datetime option"
  u_reset_token :: "string option"
  u_reset_expires :: "datetime option"
  u_verify_token :: "string option"
  u_verify_expires :: "datetime option"
  u_invite_token :: "string option"
  u_invite_expires :: "datetime option"
  u_invited_by :: "uuid option"

record entity_row =
  e_id :: uuid
  e_name :: string
  e_display_name :: string
  e_slug :: string
  e_description :: "string option"
  e_class :: entity_class
  e_type :: string
  e_parent :: "uuid option"
  e_depth :: int
  e_path :: "string option"
  e_status :: string
  e_from :: "datetime option"
  e_until :: "datetime option"
  e_max_members :: "int option"
  e_max_depth :: "int option"
  e_child_types :: "string list"
  e_child_classes :: "string list"
  e_name_pattern :: "string option"
  e_display_pattern :: "string option"
  e_slug_pattern :: "string option"
  e_naming_guidance :: "string option"

text \<open>\<open>entity_closure\<close>: every entity is its own ancestor at depth 0.\<close>

record closure_row =
  cl_ancestor :: uuid
  cl_descendant :: uuid
  cl_depth :: int

record permission =
  p_id :: uuid
  p_name :: string
  p_display_name :: string
  p_description :: "string option"
  p_resource :: "string option"
  p_action :: "string option"
  p_scope :: "string option"
  p_is_system :: bool
  p_status :: definition_status
  p_is_active :: bool

record role_row =
  r_id :: uuid
  r_name :: string
  r_display_name :: string
  r_description :: "string option"
  r_root_entity :: "uuid option"
  r_is_system :: bool
  r_is_global :: bool
  r_status :: definition_status
  r_scope_entity :: "uuid option"
  r_scope :: role_scope
  r_auto_assigned :: bool
  r_assignable_types :: "string list"

record entity_type_permission =
  et_role :: uuid
  et_type :: string
  et_permission :: uuid

record user_role_membership =
  urm_id :: uuid
  urm_user :: uuid
  urm_role :: uuid
  urm_assigned_at :: datetime
  urm_assigned_by :: "uuid option"
  urm_from :: "datetime option"
  urm_until :: "datetime option"
  urm_status :: membership_status
  urm_revoked_at :: "datetime option"
  urm_revoked_by :: "uuid option"
  urm_reason :: "string option"

record entity_membership =
  em_id :: uuid
  em_user :: uuid
  em_entity :: uuid
  em_joined_at :: datetime
  em_joined_by :: "uuid option"
  em_from :: "datetime option"
  em_until :: "datetime option"
  em_status :: membership_status
  em_revoked_at :: "datetime option"
  em_revoked_by :: "uuid option"
  em_reason :: "string option"

record principal_row =
  ip_id :: uuid
  ip_name :: string
  ip_description :: "string option"
  ip_status :: principal_status
  ip_kind :: principal_scope
  ip_anchor :: "uuid option"
  ip_inherit :: bool
  ip_scopes :: "string list"
  ip_created_by :: "uuid option"

record api_key_row =
  k_id :: uuid
  k_name :: string
  k_description :: "string option"
  k_prefix :: string
  k_hash :: string
  k_owner :: "uuid option"
  k_principal :: "uuid option"
  k_kind :: key_kind
  k_status :: key_status
  k_expires :: "datetime option"
  k_last_used :: "datetime option"
  k_usage :: int
  k_per_minute :: int
  k_per_hour :: "int option"
  k_per_day :: "int option"
  k_entity :: "uuid option"
  k_inherit :: bool

record refresh_token_row =
  rt_id :: uuid
  rt_user :: uuid
  rt_hash :: string
  rt_family :: uuid
  rt_azp :: "string option"
  rt_replaced_by :: "uuid option"
  rt_expires :: datetime
  rt_family_expires :: "datetime option"
  rt_created :: datetime
  rt_revoked :: bool
  rt_revoked_at :: "datetime option"
  rt_revoked_reason :: "string option"
  rt_device_name :: "string option"
  rt_fingerprint :: "string option"
  rt_ip :: "string option"
  rt_user_agent :: "string option"
  rt_last_used :: "datetime option"
  rt_usage :: int

record challenge_row =
  ac_id :: uuid
  ac_user :: uuid
  ac_type :: challenge_type
  ac_hash :: string
  ac_recipient :: string
  ac_expires :: datetime
  ac_used_at :: "datetime option"
  ac_redirect :: "string option"
  ac_profile :: "string option"
  ac_next :: "string option"
  ac_ip :: "string option"
  ac_agent :: "string option"

record condition_group_row =
  g_id :: uuid
  g_role :: "uuid option"
  g_permission :: "uuid option"
  g_operator :: string
  g_description :: "string option"

record tag_row =
  t_id :: uuid
  t_name :: string

record oauth_state_row =
  os_state :: string
  os_provider :: string
  os_user :: "uuid option"
  os_redirect :: "string option"
  os_verifier :: "string option"
  os_nonce :: "string option"
  os_binding :: "string option"
  os_profile :: "string option"
  os_expires :: datetime
  os_used_at :: "datetime option"

record social_row =
  so_id :: uuid
  so_user :: uuid
  so_provider :: string
  so_provider_user :: string
  so_email :: "string option"
  so_email_verified :: bool
  so_username :: "string option"
  so_access_token :: "string option"
  so_refresh_token :: "string option"
  so_token_expires :: "datetime option"
  so_display_name :: "string option"
  so_avatar_url :: "string option"
  so_profile_url :: "string option"
  so_last_login :: "datetime option"
  so_refreshed_at :: "datetime option"

text \<open>A setting: its key, its decoded value, the description and who changed it last.\<close>

record config_row =
  cf_key :: string
  cf_value :: pyval
  cf_description :: "string option"
  cf_updated_at :: datetime
  cf_updated_by :: "uuid option"

record usage_batch_row =
  ub_id :: uuid
  ub_keys :: int
  ub_total :: int

record db =
  tb_users :: "user_row list"
  tb_entities :: "entity_row list"
  tb_closure :: "closure_row list"
  tb_permissions :: "permission list"
  tb_roles :: "role_row list"
  tb_role_permissions :: "(uuid \<times> uuid) list"
  tb_type_permissions :: "entity_type_permission list"
  tb_user_roles :: "user_role_membership list"
  tb_entity_members :: "entity_membership list"
  tb_member_roles :: "(uuid \<times> uuid) list"
  tb_groups :: "condition_group_row list"
  tb_role_conditions :: "(uuid \<times> stored_condition) list"
  tb_permission_conditions :: "(uuid \<times> stored_condition) list"
  tb_tags :: "tag_row list"
  tb_tag_links :: "(uuid \<times> uuid) list"
  tb_principals :: "principal_row list"
  tb_principal_roles :: "(uuid \<times> uuid) list"
  tb_api_keys :: "api_key_row list"
  tb_key_scopes :: "(uuid \<times> string) list"
  tb_key_ips :: "(uuid \<times> string) list"
  tb_refresh_tokens :: "refresh_token_row list"
  tb_challenges :: "challenge_row list"
  tb_oauth_states :: "oauth_state_row list"
  tb_social :: "social_row list"
  tb_config :: "config_row list"
  tb_usage_batches :: "usage_batch_row list"

text \<open>Rows with the defaults of their classes, and the empty database.\<close>

definition new_user :: "uuid \<Rightarrow> string \<Rightarrow> user_row" where
  "new_user i email = \<lparr>u_id = i, u_root_entity = None, u_email = email, u_hashed_password = None,
     u_auth_methods = [''PASSWORD''], u_first_name = None, u_last_name = None, u_avatar_url = None,
     u_phone = None, u_locale = None, u_timezone = None, u_status = ''active'', u_superuser = False,
     u_protected = None, u_epoch = None, u_email_verified = False, u_phone_verified = False,
     u_suspended_until = None, u_deleted_at = None, u_last_login = None, u_last_activity = None,
     u_last_password_change = None, u_failed_logins = 0, u_locked_until = None, u_reset_token = None,
     u_reset_expires = None, u_verify_token = None, u_verify_expires = None, u_invite_token = None,
     u_invite_expires = None, u_invited_by = None\<rparr>"

definition new_entity_row ::
  "uuid \<Rightarrow> string \<Rightarrow> string \<Rightarrow> string \<Rightarrow> entity_class \<Rightarrow> string \<Rightarrow> uuid option \<Rightarrow> entity_row" where
  "new_entity_row i name display slug cls typ parent = \<lparr>e_id = i, e_name = name, e_display_name = display,
     e_slug = slug, e_description = None, e_class = cls, e_type = typ, e_parent = parent, e_depth = 0,
     e_path = None, e_status = ''active'', e_from = None, e_until = None, e_max_members = None,
     e_max_depth = None, e_child_types = [], e_child_classes = [], e_name_pattern = None,
     e_display_pattern = None, e_slug_pattern = None, e_naming_guidance = None\<rparr>"

definition empty_db :: db where
  "empty_db = \<lparr>tb_users = [], tb_entities = [], tb_closure = [], tb_permissions = [], tb_roles = [],
     tb_role_permissions = [], tb_type_permissions = [], tb_user_roles = [], tb_entity_members = [],
     tb_member_roles = [], tb_groups = [], tb_role_conditions = [], tb_permission_conditions = [],
     tb_tags = [], tb_tag_links = [], tb_principals = [], tb_principal_roles = [], tb_api_keys = [],
     tb_key_scopes = [], tb_key_ips = [], tb_refresh_tokens = [], tb_challenges = [],
     tb_oauth_states = [], tb_social = [], tb_config = [], tb_usage_batches = []\<rparr>"

section \<open>Access by primary key\<close>

definition row_by :: "('a \<Rightarrow> 'k) \<Rightarrow> 'k \<Rightarrow> 'a list \<Rightarrow> 'a option" where
  "row_by key k rows = List.find (\<lambda>x. key x = k) rows"

definition set_row :: "('a \<Rightarrow> 'k) \<Rightarrow> 'a \<Rightarrow> 'a list \<Rightarrow> 'a list" where
  "set_row key x rows = map (\<lambda>y. if key y = key x then x else y) rows"

lemma row_by_SomeD: "row_by key k rows = Some x \<Longrightarrow> x \<in> set rows \<and> key x = k"
  by (auto simp: row_by_def find_Some_iff)

lemma row_by_None: "row_by key k rows = None \<longleftrightarrow> (\<forall>x \<in> set rows. key x \<noteq> k)"
  by (auto simp: row_by_def find_None_iff)

lemma row_by_iff:
  assumes "distinct (map key rows)"
  shows "row_by key k rows = Some x \<longleftrightarrow> x \<in> set rows \<and> key x = k"
proof
  assume "x \<in> set rows \<and> key x = k"
  then obtain y where y: "row_by key k rows = Some y"
    by (cases "row_by key k rows") (auto simp: row_by_None)
  with row_by_SomeD [OF y] \<open>x \<in> set rows \<and> key x = k\<close> assms have "y = x"
    by (auto simp: distinct_map dest: inj_onD)
  with y show "row_by key k rows = Some x" by simp
qed (rule row_by_SomeD)

lemma row_by_set_row:
  "row_by key k (set_row key x rows) =
     (if k = key x then map_option (\<lambda>_. x) (row_by key k rows) else row_by key k rows)"
  unfolding row_by_def set_row_def by (induction rows) auto

lemma keys_set_row [simp]: "map key (set_row key x rows) = map key rows"
  by (induction rows) (auto simp: set_row_def)

lemma set_set_row:
  "set (set_row key x rows) = {y \<in> set rows. key y \<noteq> key x} \<union> (if key x \<in> key ` set rows then {x} else {})"
  by (auto simp: set_row_def image_iff)

section \<open>Membership windows\<close>

text \<open>\<open>is_currently_valid\<close>, the same in both membership classes, on the window's ends.\<close>

definition currently_valid :: "datetime \<Rightarrow> datetime option \<Rightarrow> datetime option \<Rightarrow> bool" where
  "currently_valid now from until \<longleftrightarrow>
     (case from of Some f \<Rightarrow> f \<le> now | None \<Rightarrow> True) \<and>
     (case until of Some u \<Rightarrow> now \<le> u | None \<Rightarrow> True)"

definition urm_valid :: "datetime \<Rightarrow> user_role_membership \<Rightarrow> bool" where
  "urm_valid now m \<longleftrightarrow> currently_valid now (urm_from m) (urm_until m)"

definition urm_can_grant :: "datetime \<Rightarrow> user_role_membership \<Rightarrow> bool" where
  "urm_can_grant now m \<longleftrightarrow> (if urm_status m \<noteq> MActive then False else urm_valid now m)"

definition em_valid :: "datetime \<Rightarrow> entity_membership \<Rightarrow> bool" where
  "em_valid now m \<longleftrightarrow> currently_valid now (em_from m) (em_until m)"

definition em_can_grant :: "datetime \<Rightarrow> entity_membership \<Rightarrow> bool" where
  "em_can_grant now m \<longleftrightarrow> (if em_status m \<noteq> MActive then False else em_valid now m)"

text \<open>\<open>_membership_window_predicates\<close>: the query leaves out expired rows and keeps scheduled ones.\<close>

definition window_predicate :: "datetime \<Rightarrow> datetime option \<Rightarrow> bool" where
  "window_predicate now until \<longleftrightarrow> (case until of None \<Rightarrow> True | Some u \<Rightarrow> now \<le> u)"

lemma currently_valid_window: "currently_valid now f u \<Longrightarrow> window_predicate now u"
  by (auto simp: currently_valid_def window_predicate_def split: option.splits)

text \<open>\<open>revoke\<close>, \<open>suspend\<close> and \<open>reactivate\<close> of a user's role membership.\<close>

definition urm_revoke ::
  "datetime \<Rightarrow> uuid option \<Rightarrow> string option \<Rightarrow> user_role_membership \<Rightarrow> user_role_membership" where
  "urm_revoke now revoked_by reason m =
     m\<lparr>urm_status := MRevoked, urm_revoked_at := Some now, urm_revoked_by := revoked_by,
       urm_reason := reason\<rparr>"

definition urm_suspend :: "user_role_membership \<Rightarrow> user_role_membership" where
  "urm_suspend m = m\<lparr>urm_status := MSuspended\<rparr>"

definition urm_reactivate :: "user_role_membership \<Rightarrow> user_role_membership" where
  "urm_reactivate m =
     m\<lparr>urm_status := MActive, urm_revoked_at := None, urm_revoked_by := None, urm_reason := None\<rparr>"

section \<open>Relationships\<close>

definition role_live :: "role_row \<Rightarrow> bool" where
  "role_live r \<longleftrightarrow> r_status r = DActive"

definition permission_live :: "permission \<Rightarrow> bool" where
  "permission_live p \<longleftrightarrow> p_status p = DActive"

definition role_of :: "db \<Rightarrow> uuid \<Rightarrow> role_row option" where
  "role_of d rid = row_by r_id rid (tb_roles d)"

definition permission_of :: "db \<Rightarrow> uuid \<Rightarrow> permission option" where
  "permission_of d pid = row_by p_id pid (tb_permissions d)"

definition role_permissions :: "db \<Rightarrow> uuid \<Rightarrow> permission list" where
  "role_permissions d rid =
     filter (\<lambda>p. (rid, p_id p) \<in> set (tb_role_permissions d)) (tb_permissions d)"

definition role_type_entries :: "db \<Rightarrow> uuid \<Rightarrow> entity_type_permission list" where
  "role_type_entries d rid = filter (\<lambda>e. et_role e = rid) (tb_type_permissions d)"

definition membership_roles :: "db \<Rightarrow> entity_membership \<Rightarrow> role_row list" where
  "membership_roles d m =
     filter (\<lambda>r. (em_id m, r_id r) \<in> set (tb_member_roles d)) (tb_roles d)"

definition owned_conditions :: "uuid \<Rightarrow> (uuid \<times> stored_condition) list \<Rightarrow> stored_condition list" where
  "owned_conditions owner rows = map snd (filter (\<lambda>(i, _). i = owner) rows)"

definition role_conditions :: "db \<Rightarrow> uuid \<Rightarrow> stored_condition list" where
  "role_conditions d rid = owned_conditions rid (tb_role_conditions d)"

definition permission_conditions :: "db \<Rightarrow> uuid \<Rightarrow> stored_condition list" where
  "permission_conditions d pid = owned_conditions pid (tb_permission_conditions d)"

end
