(* ===== verification/PermCheck.thy ===== *)
theory PermCheck
  imports Database
begin

text \<open>
  Permission checking, the read side of \<open>outlabs_auth/services/permission.py\<close>: which roles reach an
  entity, what a role grants in a context, the check itself with and without attribute conditions, the
  aggregated and the effective permission names, and the \<open>require\<close> operations.

  A check runs on one state of the database at one instant. The shared decision cache is an argument
  (what it holds for this check) and part of the result (what the check stores); the memos of a single
  request hold what the same queries return, so they are not modelled. The current time, the policy
  engine's run time and the rendering of a datetime are given by the environment.
\<close>

section \<open>Parameters and results\<close>

record auth_config =
  cfg_context_aware :: bool
  cfg_enforce_scope :: bool
  cfg_abac :: bool
  cfg_hierarchy :: bool

record check_env =
  ce_now :: datetime
  ce_rt :: pyrt
  ce_iso :: "pydatetime \<Rightarrow> string"

text \<open>
  \<open>_can_use_permission_cache()\<close> without pending cache changes in the session, the cached decision and
  the cached name set.
\<close>

record cache_view =
  cv_usable :: bool
  cv_result :: "bool option"
  cv_names :: "string list option"

definition no_cache :: cache_view where
  "no_cache = \<lparr>cv_usable = False, cv_result = None, cv_names = None\<rparr>"

text \<open>The verdict, what is written to the decision cache, and the reason in the log.\<close>

record check_result =
  cr_granted :: bool
  cr_stored :: "bool option"
  cr_reason :: string

section \<open>Where a role reaches\<close>

text \<open>\<open>{ancestor_id: depth}\<close>; a later row of the same ancestor replaces an earlier one.\<close>

definition ancestor_depths :: "db \<Rightarrow> uuid \<Rightarrow> (uuid \<times> int) list" where
  "ancestor_depths d e =
     map (\<lambda>r. (cl_ancestor r, cl_depth r)) (filter (\<lambda>r. cl_descendant r = e) (tb_closure d))"

definition depth_of :: "db \<Rightarrow> uuid \<Rightarrow> uuid \<rightharpoonup> int" where
  "depth_of d e = map_of (rev (ancestor_depths d e))"

definition entity_of :: "db \<Rightarrow> uuid \<Rightarrow> entity_row option" where
  "entity_of d e = row_by e_id e (tb_entities d)"

text \<open>The walk along \<open>parent_id\<close>, at most \<open>max_depth\<close> steps and never twice through an entity.\<close>

fun parent_chain :: "db \<Rightarrow> nat \<Rightarrow> entity_row option \<Rightarrow> uuid set \<Rightarrow> uuid set" where
  "parent_chain d 0 current ids = ids"
| "parent_chain d (Suc n) current ids =
     (case current of
        None \<Rightarrow> ids
      | Some e \<Rightarrow>
          if e_id e \<in> ids then ids
          else case e_parent e of
                 None \<Rightarrow> insert (e_id e) ids
               | Some p \<Rightarrow> parent_chain d n (entity_of d p) (insert (e_id e) ids))"

definition direct_role_context_ancestor_ids :: "db \<Rightarrow> uuid \<Rightarrow> uuid set" where
  "direct_role_context_ancestor_ids d e =
     (if ancestor_depths d e \<noteq> [] then set (map fst (ancestor_depths d e))
      else parent_chain d 64 (entity_of d e) {})"

definition direct_role_applies_at_entity :: "role_row \<Rightarrow> uuid \<Rightarrow> uuid set \<Rightarrow> bool" where
  "direct_role_applies_at_entity role target ancestors \<longleftrightarrow>
     (case r_scope_entity role of
        Some s \<Rightarrow> if r_scope role = EntityOnly then s = target else s \<in> ancestors
      | None \<Rightarrow> (case r_root_entity role of Some r \<Rightarrow> r \<in> ancestors | None \<Rightarrow> True))"

definition direct_role_reaches_entity :: "auth_config \<Rightarrow> db \<Rightarrow> role_row \<Rightarrow> uuid option \<Rightarrow> bool" where
  "direct_role_reaches_entity cfg d role target =
     (case target of
        None \<Rightarrow> True
      | Some e \<Rightarrow>
          if \<not> cfg_enforce_scope cfg then True
          else if r_scope_entity role = None \<and> r_root_entity role = None then True
          else direct_role_applies_at_entity role e (direct_role_context_ancestor_ids d e))"

definition resolve_context_entity_type :: "auth_config \<Rightarrow> db \<Rightarrow> uuid option \<Rightarrow> string option" where
  "resolve_context_entity_type cfg d eid =
     (case eid of
        None \<Rightarrow> None
      | Some e \<Rightarrow> if \<not> cfg_context_aware cfg then None else map_option e_type (entity_of d e))"

definition role_can_grant_at_entity :: "role_row \<Rightarrow> uuid \<Rightarrow> uuid \<Rightarrow> bool \<Rightarrow> bool" where
  "role_can_grant_at_entity role membership_entity target is_direct \<longleftrightarrow>
     (if r_scope_entity role = None then True
      else if r_scope role = EntityOnly then is_direct \<and> membership_entity = target
      else True)"

section \<open>What a role grants\<close>

definition live_permissions :: "permission list \<Rightarrow> permission list" where
  "live_permissions ps = filter permission_live ps"

text \<open>
  Overrides for the entity's type replace the role's own permissions, even when none of them is live.
\<close>

definition role_permissions_for_context ::
  "auth_config \<Rightarrow> db \<Rightarrow> role_row \<Rightarrow> string option \<Rightarrow> permission list" where
  "role_permissions_for_context cfg d role entity_type =
     (if \<not> role_live role then []
      else case entity_type of
        None \<Rightarrow> live_permissions (role_permissions d (r_id role))
      | Some ty \<Rightarrow>
          if \<not> cfg_context_aware cfg \<or> ty = [] then live_permissions (role_permissions d (r_id role))
          else let matching = concat (map (\<lambda>entry. case permission_of d (et_permission entry) of
                     Some p \<Rightarrow> if py_lower (et_type entry) = py_lower ty then [p] else []
                   | None \<Rightarrow> []) (role_type_entries d (r_id role)))
               in if matching \<noteq> [] then live_permissions matching
                  else live_permissions (role_permissions d (r_id role)))"

definition role_permission_names_for_context ::
  "auth_config \<Rightarrow> db \<Rightarrow> role_row \<Rightarrow> string option \<Rightarrow> string list" where
  "role_permission_names_for_context cfg d role entity_type =
     filter (\<lambda>n. n \<noteq> []) (map p_name (role_permissions_for_context cfg d role entity_type))"

section \<open>Membership graphs\<close>

definition load_user_role_memberships :: "db \<Rightarrow> datetime \<Rightarrow> uuid \<Rightarrow> user_role_membership list" where
  "load_user_role_memberships d now uid =
     filter (\<lambda>m. urm_user m = uid \<and> urm_status m = MActive \<and> window_predicate now (urm_until m))
       (tb_user_roles d)"

definition load_entity_memberships :: "db \<Rightarrow> datetime \<Rightarrow> uuid \<Rightarrow> entity_membership list" where
  "load_entity_memberships d now uid =
     filter (\<lambda>m. em_user m = uid \<and> em_status m = MActive \<and> window_predicate now (em_until m))
       (tb_entity_members d)"

text \<open>The queries of the effective-name projection, which keep expired rows.\<close>

definition active_entity_memberships :: "db \<Rightarrow> uuid \<Rightarrow> entity_membership list" where
  "active_entity_memberships d uid =
     filter (\<lambda>m. em_user m = uid \<and> em_status m = MActive) (tb_entity_members d)"

text \<open>The names collected from the direct roles; the list stands for the set.\<close>

definition user_role_permissions ::
  "auth_config \<Rightarrow> db \<Rightarrow> datetime \<Rightarrow> uuid \<Rightarrow> bool \<Rightarrow> string option \<Rightarrow> uuid option \<Rightarrow> string list" where
  "user_role_permissions cfg d now uid include_local entity_type target =
     concat (map (\<lambda>m.
       if \<not> urm_valid now m then []
       else case role_of d (urm_role m) of
         None \<Rightarrow> []
       | Some role \<Rightarrow>
           if \<not> role_live role then []
           else if \<not> include_local \<and> r_scope_entity role \<noteq> None then []
           else if \<not> direct_role_reaches_entity cfg d role target then []
           else map p_name (role_permissions_for_context cfg d role entity_type))
       (load_user_role_memberships d now uid))"

definition user_not_found :: "uuid \<Rightarrow> err" where
  "user_not_found uid = Auth UserNotFoundError ''User not found'' [(''user_id'', PStr uid)]"

text \<open>\<open>user\<close>, or the row of the id.\<close>

definition resolve_user :: "db \<Rightarrow> uuid \<Rightarrow> user_row option \<Rightarrow> user_row option" where
  "resolve_user d uid user = (case user of Some u \<Rightarrow> Some u | None \<Rightarrow> row_by u_id uid (tb_users d))"

definition entity_membership_names ::
  "auth_config \<Rightarrow> db \<Rightarrow> datetime \<Rightarrow> bool \<Rightarrow> string option
     \<Rightarrow> (auth_config \<Rightarrow> db \<Rightarrow> role_row \<Rightarrow> string option \<Rightarrow> string list)
     \<Rightarrow> entity_membership list \<Rightarrow> string list" where
  "entity_membership_names cfg d now include_local entity_type names ms =
     concat (map (\<lambda>m.
       if \<not> em_can_grant now m then []
       else concat (map (\<lambda>role.
         if \<not> role_live role then []
         else if \<not> include_local \<and> r_scope_entity role \<noteq> None then []
         else names cfg d role entity_type) (membership_roles d m))) ms)"

definition all_role_names :: "auth_config \<Rightarrow> db \<Rightarrow> role_row \<Rightarrow> string option \<Rightarrow> string list" where
  "all_role_names cfg d role entity_type = map p_name (role_permissions_for_context cfg d role entity_type)"

text \<open>
  \<open>get_user_permissions\<close>. The cached set is only used when no entity type shapes the aggregation. The
  direct roles are collected without a target, so every one of them reaches.
\<close>

definition get_user_permissions ::
  "auth_config \<Rightarrow> db \<Rightarrow> datetime \<Rightarrow> cache_view \<Rightarrow> uuid \<Rightarrow> bool \<Rightarrow> string option \<Rightarrow> user_row option
     \<Rightarrow> err + string list" where
  "get_user_permissions cfg d now cv uid include_local entity_type user =
     (case resolve_user d uid user of
        None \<Rightarrow> Inl (user_not_found uid)
      | Some u \<Rightarrow>
          if u_superuser u then Inr [''*:*'']
          else case (if entity_type = None \<and> cv_usable cv then cv_names cv else None) of
            Some names \<Rightarrow> Inr names
          | None \<Rightarrow>
              Inr (user_role_permissions cfg d now uid include_local entity_type None
                @ (if cfg_hierarchy cfg
                   then entity_membership_names cfg d now include_local entity_type all_role_names
                          (load_entity_memberships d now uid)
                   else [])))"

section \<open>Attribute conditions\<close>

text \<open>Lifting a truth value or a built-in exception into the service's errors.\<close>

definition liftE :: "pyerr + 'a \<Rightarrow> err + 'a" where
  "liftE m = (case m of Inl e \<Rightarrow> Inl (Builtin e) | Inr x \<Rightarrow> Inr x)"

lemma liftE_eq [simp]: "liftE m = Inr x \<longleftrightarrow> m = Inr x" "liftE (Inr x) = Inr x"
  by (auto simp: liftE_def split: sum.splits)

definition load_condition_group_ops :: "db \<Rightarrow> uuid set \<Rightarrow> uuid \<rightharpoonup> string" where
  "load_condition_group_ops d ids g =
     (if g \<in> ids then map_option g_operator (row_by g_id g (tb_groups d)) else None)"

definition condition_groups_of :: "stored_condition list \<Rightarrow> uuid set" where
  "condition_groups_of cs = set (concat (map (\<lambda>c. case sc_group c of Some g \<Rightarrow> [g] | None \<Rightarrow> []) cs))"

definition abac_allows_role_and_permission ::
  "auth_config \<Rightarrow> db \<Rightarrow> check_env \<Rightarrow> role_row \<Rightarrow> string \<Rightarrow> string option \<Rightarrow> pyval \<Rightarrow> pyerr + bool" where
  "abac_allows_role_and_permission cfg d env role required entity_type ctx =
     (let matching = filter (\<lambda>p. permission_set_allows required {p_name p})
                       (role_permissions_for_context cfg d role entity_type) in
      if matching = [] then Inr False
      else let rcs = role_conditions d (r_id role);
               ids = condition_groups_of rcs
                 \<union> condition_groups_of (concat (map (\<lambda>p. permission_conditions d (p_id p)) matching));
               ops = load_condition_group_ops d ids
           in bindE (evaluate_sql_conditions (ce_rt env) rcs ops ctx)
                (\<lambda>ok. if \<not> ok then Inr False
                      else anyE (map (\<lambda>p. evaluate_sql_conditions (ce_rt env)
                                   (permission_conditions d (p_id p)) ops ctx) matching)))"

definition check_via_user_roles_with_abac ::
  "auth_config \<Rightarrow> db \<Rightarrow> check_env \<Rightarrow> uuid \<Rightarrow> string \<Rightarrow> pyval \<Rightarrow> bool \<Rightarrow> string option \<Rightarrow> uuid option
     \<Rightarrow> pyerr + bool" where
  "check_via_user_roles_with_abac cfg d env uid required ctx include_local entity_type target =
     anyE (map (\<lambda>m.
       if \<not> urm_can_grant (ce_now env) m then Inr False
       else case role_of d (urm_role m) of
         None \<Rightarrow> Inr False
       | Some role \<Rightarrow>
           if \<not> role_live role then Inr False
           else if \<not> include_local \<and> r_scope_entity role \<noteq> None then Inr False
           else if \<not> permission_set_allows required
                       (set (role_permission_names_for_context cfg d role entity_type)) then Inr False
           else if \<not> direct_role_reaches_entity cfg d role target then Inr False
           else abac_allows_role_and_permission cfg d env role required entity_type ctx)
       (load_user_role_memberships d (ce_now env) uid))"

text \<open>
  \<open>_check_permission_in_entity\<close>: \<open>ctx\<close> is the context when attribute conditions are evaluated, and
  \<open>None\<close> when they are not (no engine).
\<close>

definition check_permission_in_entity ::
  "auth_config \<Rightarrow> db \<Rightarrow> check_env \<Rightarrow> uuid \<Rightarrow> string \<Rightarrow> uuid \<Rightarrow> string option \<Rightarrow> pyval option
     \<Rightarrow> pyerr + bool" where
  "check_permission_in_entity cfg d env uid required eid entity_type ctx =
     (if ancestor_depths d eid = [] then Inr False
      else anyE (map (\<lambda>m.
        if \<not> em_can_grant (ce_now env) m then Inr False
        else case depth_of d eid (em_entity m) of
          None \<Rightarrow> Inr False
        | Some depth \<Rightarrow>
            let direct = (depth = 0) in
            anyE (map (\<lambda>role.
              if \<not> role_live role then Inr False
              else if \<not> role_can_grant_at_entity role (em_entity m) eid direct then Inr False
              else let granted = set (role_permission_names_for_context cfg d role entity_type) in
                if \<not> (if direct then permission_set_allows required granted
                      else permission_set_allows_from_ancestor required granted) then Inr False
                else case ctx of
                       Some c \<Rightarrow> abac_allows_role_and_permission cfg d env role required entity_type c
                     | None \<Rightarrow> Inr True)
              (membership_roles d m)))
        (filter (\<lambda>m. em_entity m \<in> set (map fst (ancestor_depths d eid)))
          (load_entity_memberships d (ce_now env) uid))))"

definition abac_conditions_exist :: "db \<Rightarrow> bool" where
  "abac_conditions_exist d \<longleftrightarrow> tb_permission_conditions d \<noteq> [] \<or> tb_role_conditions d \<noteq> []"

section \<open>The check\<close>

type_synonym attrs = "(string \<times> pyval) list"

definition dict_setdefault :: "string \<Rightarrow> pyval \<Rightarrow> attrs \<Rightarrow> attrs" where
  "dict_setdefault k v dict = (if k \<in> fst ` set dict then dict else dict @ [(k, v)])"

definition opt_text :: "string option \<Rightarrow> pyval" where
  "opt_text s = (case s of None \<Rightarrow> PNone | Some t \<Rightarrow> PStr t)"

definition user_attributes :: "user_row \<Rightarrow> attrs" where
  "user_attributes u =
     [(''id'', PStr (u_id u)), (''email'', PStr (u_email u)), (''status'', PStr (u_status u)),
      (''timezone'', opt_text (u_timezone u)), (''locale'', opt_text (u_locale u)),
      (''is_superuser'', PBool (u_superuser u))]"

text \<open>The context of a check: a given resource keeps its own \<open>entity_id\<close>.\<close>

definition check_context ::
  "check_env \<Rightarrow> user_row \<Rightarrow> attrs option \<Rightarrow> attrs option \<Rightarrow> attrs option \<Rightarrow> uuid option \<Rightarrow> attrs" where
  "check_context env u resource envc time_attrs eid =
     (let ctx = create_context (ce_iso env) (ce_now env) (Some (user_attributes u)) resource envc time_attrs
      in case eid of
           None \<Rightarrow> ctx
         | Some e \<Rightarrow>
             let ctx' = dict_setdefault ''resource'' (PDict []) ctx in
             (case map_of ctx' ''resource'' of
                Some (PDict kvs) \<Rightarrow>
                  dict_set ''resource'' (PDict (dict_setdefault ''entity_id'' (PStr e) kvs)) ctx'
              | _ \<Rightarrow> ctx'))"

definition result_of :: "bool \<Rightarrow> bool option \<Rightarrow> string \<Rightarrow> check_result" where
  "result_of b st why = \<lparr>cr_granted = b, cr_stored = st, cr_reason = why\<rparr>"

text \<open>The part after the caches: the role graph without and with attribute conditions.\<close>

definition check_roles ::
  "auth_config \<Rightarrow> db \<Rightarrow> check_env \<Rightarrow> cache_view \<Rightarrow> uuid \<Rightarrow> string \<Rightarrow> uuid option \<Rightarrow> user_row
     \<Rightarrow> err + check_result" where
  "check_roles cfg d env cv uid required eid u =
     (let entity_type = resolve_context_entity_type cfg d eid;
          stored = (\<lambda>b. if cv_usable cv then Some b else None) in
      bindE (case eid of
               None \<Rightarrow> get_user_permissions cfg d (ce_now env) cv uid False None (Some u)
             | Some e \<Rightarrow> Inr (user_role_permissions cfg d (ce_now env) uid True entity_type eid))
        (\<lambda>names.
      if permission_set_allows required (set names)
      then Inr (result_of True (stored True) ''global_match'')
      else bindE (case eid of
               None \<Rightarrow> Inr False
             | Some e \<Rightarrow> liftE (check_permission_in_entity cfg d env uid required e entity_type None))
        (\<lambda>found.
      if found then Inr (result_of True (stored True) ''entity_match'')
      else Inr (result_of False (stored False) ''no_permission''))))"

definition check_roles_with_abac ::
  "auth_config \<Rightarrow> db \<Rightarrow> check_env \<Rightarrow> uuid \<Rightarrow> string \<Rightarrow> uuid option \<Rightarrow> pyval \<Rightarrow> err + check_result" where
  "check_roles_with_abac cfg d env uid required eid ctx =
     (let entity_type = resolve_context_entity_type cfg d eid in
      bindE (liftE (check_via_user_roles_with_abac cfg d env uid required ctx (eid \<noteq> None) entity_type eid))
        (\<lambda>found.
      if found then Inr (result_of True None ''global_match_abac'')
      else bindE (case eid of
               None \<Rightarrow> Inr False
             | Some e \<Rightarrow> liftE (check_permission_in_entity cfg d env uid required e entity_type (Some ctx)))
        (\<lambda>found.
      if found then Inr (result_of True None ''entity_match'')
      else Inr (result_of False None ''no_permission''))))"

definition check_permission ::
  "auth_config \<Rightarrow> db \<Rightarrow> check_env \<Rightarrow> cache_view \<Rightarrow> uuid option \<Rightarrow> string \<Rightarrow> uuid option
     \<Rightarrow> attrs option \<Rightarrow> attrs option \<Rightarrow> attrs option \<Rightarrow> user_row option \<Rightarrow> err + check_result" where
  "check_permission cfg d env cv user_id required eid resource envc time_attrs user =
     (case user_id of
        None \<Rightarrow> Inr (result_of False None [])
      | Some uid \<Rightarrow>
          (case resolve_user d uid user of
             None \<Rightarrow> Inl (user_not_found uid)
           | Some u \<Rightarrow>
               let abac = cfg_abac cfg \<and> abac_conditions_exist d in
               (case (if cv_usable cv \<and> \<not> abac then cv_result cv else None) of
                  Some cached \<Rightarrow> Inr (result_of cached None ''cache'')
                | None \<Rightarrow>
                    if u_superuser u then Inr (result_of True None ''superuser'')
                    else if abac
                    then check_roles_with_abac cfg d env uid required eid
                           (PDict (check_context env u resource envc time_attrs eid))
                    else check_roles cfg d env cv uid required eid u)))"

section \<open>Effective names\<close>

definition list_active_permission_names :: "db \<Rightarrow> string list" where
  "list_active_permission_names d = map p_name (live_permissions (tb_permissions d))"

text \<open>\<open>_get_entity_context_membership_permission_names\<close>: the names at the entity, and those from above.\<close>

definition entity_context_names ::
  "auth_config \<Rightarrow> db \<Rightarrow> datetime \<Rightarrow> uuid \<Rightarrow> uuid \<Rightarrow> string option \<Rightarrow> string list \<times> string list" where
  "entity_context_names cfg d now uid eid entity_type =
     (let ms = filter (\<lambda>m. em_entity m \<in> set (map fst (ancestor_depths d eid)))
                 (active_entity_memberships d uid);
          collect = (\<lambda>direct. concat (map (\<lambda>m.
            if \<not> em_can_grant now m then []
            else case depth_of d eid (em_entity m) of
              None \<Rightarrow> []
            | Some depth \<Rightarrow>
                if (depth = 0) \<noteq> direct then []
                else concat (map (\<lambda>role.
                  if \<not> role_live role then []
                  else if \<not> role_can_grant_at_entity role (em_entity m) eid (depth = 0) then []
                  else role_permission_names_for_context cfg d role entity_type)
                  (membership_roles d m))) ms))
      in if ancestor_depths d eid = [] then ([], []) else (collect True, collect False))"

definition effective_without_abac ::
  "auth_config \<Rightarrow> db \<Rightarrow> datetime \<Rightarrow> uuid \<Rightarrow> uuid option \<Rightarrow> string list \<Rightarrow> string set" where
  "effective_without_abac cfg d now uid eid candidates =
     (let entity_type = resolve_context_entity_type cfg d eid in
      case eid of
        None \<Rightarrow>
          let m = make_matcher (user_role_permissions cfg d now uid False entity_type None
                    @ entity_membership_names cfg d now False entity_type
                        role_permission_names_for_context (active_entity_memberships d uid))
          in set (filter (matcher_allows m) candidates)
      | Some e \<Rightarrow>
          let (direct, inherited) = entity_context_names cfg d now uid e entity_type;
              dm = make_matcher (user_role_permissions cfg d now uid True entity_type eid @ direct);
              am = make_matcher inherited
          in set (filter (\<lambda>n. matcher_allows dm n \<or> matcher_allows_from_ancestor am n) candidates))"

text \<open>The loop of checks under attribute conditions.\<close>

fun filterE :: "('a \<Rightarrow> 'e + bool) \<Rightarrow> 'a list \<Rightarrow> 'e + 'a list" where
  "filterE f [] = Inr []"
| "filterE f (x # xs) =
     bindE (f x) (\<lambda>b. bindE (filterE f xs) (\<lambda>ys. Inr (if b then x # ys else ys)))"

definition get_effective_permission_names ::
  "auth_config \<Rightarrow> db \<Rightarrow> check_env \<Rightarrow> uuid \<Rightarrow> uuid option \<Rightarrow> string list option \<Rightarrow> user_row option
     \<Rightarrow> err + string set" where
  "get_effective_permission_names cfg d env uid eid candidate_names user =
     (case resolve_user d uid user of
        None \<Rightarrow> Inl (user_not_found uid)
      | Some u \<Rightarrow>
          let candidates = remdups (case candidate_names of
                Some (n # ns) \<Rightarrow> n # ns | _ \<Rightarrow> list_active_permission_names d) in
          if candidates = [] then Inr {}
          else if u_superuser u then Inr (set candidates)
          else if cfg_abac cfg \<and> abac_conditions_exist d
          then bindE (filterE (\<lambda>n. bindE (check_permission cfg d env no_cache (Some uid) n eid
                               None None None (Some u)) (\<lambda>r. Inr (cr_granted r))) candidates)
                 (\<lambda>ns. Inr (set ns))
          else Inr (effective_without_abac cfg d (ce_now env) uid eid candidates))"

section \<open>Requirements\<close>

definition granted :: "err + check_result \<Rightarrow> err + bool" where
  "granted m = bindE m (\<lambda>r. Inr (cr_granted r))"

text \<open>\<open>check\<close> is \<open>check_permission\<close> of the user without an entity; \<open>show\<close> renders a list in a message.\<close>

definition permission_denied :: "string \<Rightarrow> details \<Rightarrow> err" where
  "permission_denied msg det = Auth PermissionDeniedError msg det"

definition require_permission :: "(string \<Rightarrow> err + bool) \<Rightarrow> string \<Rightarrow> err + unit" where
  "require_permission check permission =
     bindE (check permission) (\<lambda>ok. requireE ok
       (permission_denied (''Permission denied: '' @ permission)
          [(''required_permission'', PStr permission)]))"

fun require_any_permission :: "(string list \<Rightarrow> string) \<Rightarrow> (string \<Rightarrow> err + bool) \<Rightarrow> string list
    \<Rightarrow> string list \<Rightarrow> err + unit" where
  "require_any_permission render check wanted [] =
     Inl (permission_denied (''Permission denied: requires one of '' @ render wanted)
            [(''required_permissions'', PList (map PStr wanted))])"
| "require_any_permission render check wanted (p # ps) =
     bindE (check p) (\<lambda>ok. if ok then Inr () else require_any_permission render check wanted ps)"

definition require_all_permissions :: "(string \<Rightarrow> err + bool) \<Rightarrow> string list \<Rightarrow> err + unit" where
  "require_all_permissions check permissions =
     bindE (filterE (\<lambda>p. bindE (check p) (\<lambda>ok. Inr (\<not> ok))) permissions) (\<lambda>missing.
     requireE (missing = [])
       (permission_denied
          (''Permission denied: missing '' @ show_nat (length missing) @ '' required permission(s)'')
          [(''missing_permissions'', PList (map PStr missing))]))"

section \<open>What a check decides\<close>

text \<open>The roles a user holds directly, and their reach.\<close>

definition direct_grant ::
  "auth_config \<Rightarrow> db \<Rightarrow> datetime \<Rightarrow> uuid \<Rightarrow> bool \<Rightarrow> string option \<Rightarrow> uuid option \<Rightarrow> string \<Rightarrow> bool" where
  "direct_grant cfg d now uid include_local entity_type target required \<longleftrightarrow>
     (\<exists>m \<in> set (tb_user_roles d). urm_user m = uid \<and> urm_can_grant now m \<and>
        (\<exists>role. role_of d (urm_role m) = Some role \<and> role_live role
           \<and> (include_local \<or> r_scope_entity role = None) \<and> direct_role_reaches_entity cfg d role target
           \<and> (\<exists>p \<in> set (role_permissions_for_context cfg d role entity_type). covers (p_name p) required)))"

text \<open>The roles held through memberships of any entity, for a check without an entity.\<close>

definition member_grant ::
  "auth_config \<Rightarrow> db \<Rightarrow> datetime \<Rightarrow> uuid \<Rightarrow> string \<Rightarrow> bool" where
  "member_grant cfg d now uid required \<longleftrightarrow>
     (\<exists>m \<in> set (tb_entity_members d). em_user m = uid \<and> em_can_grant now m \<and>
        (\<exists>role \<in> set (membership_roles d m). role_live role \<and> r_scope_entity role = None \<and>
          (\<exists>p \<in> set (role_permissions_for_context cfg d role None). covers (p_name p) required)))"

text \<open>The roles held through memberships of the entity or of its ancestors.\<close>

definition entity_grant ::
  "auth_config \<Rightarrow> db \<Rightarrow> datetime \<Rightarrow> uuid \<Rightarrow> uuid \<Rightarrow> string option \<Rightarrow> string \<Rightarrow> bool" where
  "entity_grant cfg d now uid eid entity_type required \<longleftrightarrow>
     (\<exists>m \<in> set (tb_entity_members d). em_user m = uid \<and> em_can_grant now m \<and>
        (\<exists>depth. depth_of d eid (em_entity m) = Some depth \<and>
          (\<exists>role \<in> set (membership_roles d m). role_live role
             \<and> role_can_grant_at_entity role (em_entity m) eid (depth = 0)
             \<and> (\<exists>n \<in> set (role_permission_names_for_context cfg d role entity_type).
                  if depth = 0 then covers n required else covers_below n required))))"

definition grants_to ::
  "auth_config \<Rightarrow> db \<Rightarrow> datetime \<Rightarrow> uuid \<Rightarrow> uuid option \<Rightarrow> string \<Rightarrow> bool" where
  "grants_to cfg d now uid eid required \<longleftrightarrow>
     (case eid of
        None \<Rightarrow> direct_grant cfg d now uid False None None required
          \<or> (cfg_hierarchy cfg \<and> member_grant cfg d now uid required)
      | Some e \<Rightarrow> let ty = resolve_context_entity_type cfg d eid in
          direct_grant cfg d now uid True ty eid required \<or> entity_grant cfg d now uid e ty required)"

subsection \<open>Collected names\<close>

lemma allows_concat:
  "permission_set_allows required (set (concat (map f xs))) \<longleftrightarrow>
     (\<exists>x \<in> set xs. permission_set_allows required (set (f x)))"
  "permission_set_allows_from_ancestor required (set (concat (map f xs))) \<longleftrightarrow>
     (\<exists>x \<in> set xs. permission_set_allows_from_ancestor required (set (f x)))"
  using direct.Union_iff [of required "\<lambda>x. set (f x)" "set xs"]
    ancestor.Union_iff [of required "\<lambda>x. set (f x)" "set xs"] by simp_all

lemma allows_append:
  "permission_set_allows required (set (xs @ ys)) \<longleftrightarrow>
     permission_set_allows required (set xs) \<or> permission_set_allows required (set ys)"
  using direct.union by simp

lemmas allows_empty = direct.empty ancestor.empty

lemma allows_if_nil:
  "permission_set_allows required (set (if b then [] else xs)) \<longleftrightarrow> \<not> b \<and> permission_set_allows required (set xs)"
  "permission_set_allows_from_ancestor required (set (if b then [] else xs)) \<longleftrightarrow>
     \<not> b \<and> permission_set_allows_from_ancestor required (set xs)"
  using allows_empty by simp_all

lemma allows_case_nil:
  "permission_set_allows required (set (case x of None \<Rightarrow> [] | Some y \<Rightarrow> f y)) \<longleftrightarrow>
     (\<exists>y. x = Some y \<and> permission_set_allows required (set (f y)))"
  "permission_set_allows_from_ancestor required (set (case x of None \<Rightarrow> [] | Some y \<Rightarrow> f y)) \<longleftrightarrow>
     (\<exists>y. x = Some y \<and> permission_set_allows_from_ancestor required (set (f y)))"
  using allows_empty by (cases x; simp)+

lemmas allows_collected = allows_concat allows_if_nil allows_case_nil

lemma allows_names:
  "permission_set_allows required (set (map p_name ps)) \<longleftrightarrow> (\<exists>p \<in> set ps. covers (p_name p) required)"
  by (auto simp: permission_set_allows_iff)

text \<open>The memberships a query returns, once validity is checked, are the ones that can grant.\<close>

lemma loaded_memberships:
  "(\<exists>m \<in> set (load_user_role_memberships d now uid). urm_valid now m \<and> Q m) \<longleftrightarrow>
     (\<exists>m \<in> set (tb_user_roles d). urm_user m = uid \<and> urm_can_grant now m \<and> Q m)"
  "(\<exists>m \<in> set (load_user_role_memberships d now uid). urm_can_grant now m \<and> Q m) \<longleftrightarrow>
     (\<exists>m \<in> set (tb_user_roles d). urm_user m = uid \<and> urm_can_grant now m \<and> Q m)"
  "(\<exists>m \<in> set (load_entity_memberships d now uid). em_can_grant now m \<and> R m) \<longleftrightarrow>
     (\<exists>m \<in> set (tb_entity_members d). em_user m = uid \<and> em_can_grant now m \<and> R m)"
  "(\<exists>m \<in> set (active_entity_memberships d uid). em_can_grant now m \<and> R m) \<longleftrightarrow>
     (\<exists>m \<in> set (tb_entity_members d). em_user m = uid \<and> em_can_grant now m \<and> R m)"
  by (auto simp: load_user_role_memberships_def load_entity_memberships_def
      active_entity_memberships_def urm_can_grant_def urm_valid_def em_can_grant_def em_valid_def
      split: if_splits) (blast dest: currently_valid_window)+

lemma user_role_permissions_allow:
  "permission_set_allows required
       (set (user_role_permissions cfg d now uid include_local entity_type target)) \<longleftrightarrow>
     direct_grant cfg d now uid include_local entity_type target required"
  unfolding user_role_permissions_def allows_collected allows_names direct_grant_def not_not
    loaded_memberships
  by blast

lemma covers_nonempty: "covers n required \<Longrightarrow> required \<noteq> [] \<Longrightarrow> n \<noteq> []"
  by (auto simp: covers_def split: prod.splits)

lemma covers_below_nonempty: "covers_below n required \<Longrightarrow> n \<noteq> []"
  by (auto simp: covers_below_def split: prod.splits)

lemma entity_membership_names_allow:
  assumes "\<And>r. permission_set_allows required (set (names cfg d r None)) \<longleftrightarrow>
     (\<exists>p \<in> set (role_permissions_for_context cfg d r None). covers (p_name p) required)"
  shows "permission_set_allows required
      (set (entity_membership_names cfg d now False None names (load_entity_memberships d now uid))) \<longleftrightarrow>
       member_grant cfg d now uid required"
    and "permission_set_allows required
      (set (entity_membership_names cfg d now False None names (active_entity_memberships d uid))) \<longleftrightarrow>
       member_grant cfg d now uid required"
  unfolding entity_membership_names_def allows_collected not_not loaded_memberships member_grant_def assms
  by simp_all

lemma all_role_names_allow:
  "permission_set_allows required (set (all_role_names cfg d r ty)) \<longleftrightarrow>
     (\<exists>p \<in> set (role_permissions_for_context cfg d r ty). covers (p_name p) required)"
  by (simp only: all_role_names_def allows_names)

lemma context_names_allow:
  assumes "required \<noteq> []"
  shows "permission_set_allows required (set (role_permission_names_for_context cfg d r ty)) \<longleftrightarrow>
     (\<exists>p \<in> set (role_permissions_for_context cfg d r ty). covers (p_name p) required)"
  using covers_nonempty [OF _ assms]
  by (auto simp: permission_set_allows_iff role_permission_names_for_context_def)

subsection \<open>The entity check\<close>

lemma anyE_Inr:
  "(\<And>x. x \<in> set xs \<Longrightarrow> f x = Inr (P x)) \<Longrightarrow> anyE (map f xs) = Inr (\<exists>x \<in> set xs. P x)"
  by (induction xs) auto

lemma depth_of_key: "depth_of d e a = Some k \<Longrightarrow> a \<in> set (map fst (ancestor_depths d e))"
  by (auto simp: depth_of_def dest!: map_of_SomeD intro!: image_eqI)

lemma depth_of_None: "ancestor_depths d e = [] \<Longrightarrow> depth_of d e a = None"
  by (simp add: depth_of_def)

lemma in_entity_allows:
  "(if k = 0 then permission_set_allows required (set ns)
    else permission_set_allows_from_ancestor required (set ns)) \<longleftrightarrow>
   (\<exists>n \<in> set ns. if k = (0::int) then covers n required else covers_below n required)"
  by (simp add: permission_set_allows_iff permission_set_allows_from_ancestor_iff)

lemma check_in_entity_rbac:
  "check_permission_in_entity cfg d env uid required eid ty None =
     Inr (entity_grant cfg d (ce_now env) uid eid ty required)"
proof (cases "ancestor_depths d eid = []")
  case True
  then show ?thesis
    by (simp add: check_permission_in_entity_def entity_grant_def depth_of_None)
next
  case False
  let ?role_ok = "\<lambda>m depth role. role_live role
     \<and> role_can_grant_at_entity role (em_entity m) eid (depth = 0)
     \<and> (\<exists>n \<in> set (role_permission_names_for_context cfg d role ty).
          if depth = 0 then covers n required else covers_below n required)"
  let ?member_ok = "\<lambda>m. em_can_grant (ce_now env) m \<and>
     (\<exists>depth. depth_of d eid (em_entity m) = Some depth \<and> (\<exists>role \<in> set (membership_roles d m). ?role_ok m depth role))"
  have "check_permission_in_entity cfg d env uid required eid ty None =
      Inr (\<exists>m \<in> set (filter (\<lambda>m. em_entity m \<in> set (map fst (ancestor_depths d eid)))
             (load_entity_memberships d (ce_now env) uid)). ?member_ok m)"
    unfolding check_permission_in_entity_def if_not_P [OF False]
  proof (rule anyE_Inr)
    fix m
    show "(if \<not> em_can_grant (ce_now env) m then Inr False
        else case depth_of d eid (em_entity m) of
          None \<Rightarrow> Inr False
        | Some depth \<Rightarrow>
            let direct = (depth = 0) in
            anyE (map (\<lambda>role.
              if \<not> role_live role then Inr False
              else if \<not> role_can_grant_at_entity role (em_entity m) eid direct then Inr False
              else let granted = set (role_permission_names_for_context cfg d role ty) in
                if \<not> (if direct then permission_set_allows required granted
                      else permission_set_allows_from_ancestor required granted) then Inr False
                else case None of
                       Some c \<Rightarrow> abac_allows_role_and_permission cfg d env role required ty c
                     | None \<Rightarrow> Inr True)
              (membership_roles d m))) = Inr (?member_ok m)"
    proof (cases "depth_of d eid (em_entity m)")
      case (Some k)
      then show ?thesis
        by (simp add: Let_def anyE_Inr [where P = "?role_ok m k"] in_entity_allows)
    qed simp
  qed
  also have "\<dots> = Inr (entity_grant cfg d (ce_now env) uid eid ty required)"
  proof -
    have "(\<exists>m \<in> set (filter (\<lambda>m. em_entity m \<in> set (map fst (ancestor_depths d eid)))
             (load_entity_memberships d (ce_now env) uid)). ?member_ok m) \<longleftrightarrow>
        (\<exists>m \<in> set (load_entity_memberships d (ce_now env) uid). ?member_ok m)"
      using depth_of_key [of d eid] by fastforce
    then show ?thesis unfolding loaded_memberships entity_grant_def by simp
  qed
  finally show ?thesis .
qed

subsection \<open>The verdict without attribute conditions\<close>

definition abac_active :: "auth_config \<Rightarrow> db \<Rightarrow> bool" where
  "abac_active cfg d \<longleftrightarrow> cfg_abac cfg \<and> abac_conditions_exist d"

definition cache_empty :: "cache_view \<Rightarrow> bool" where
  "cache_empty cv \<longleftrightarrow> \<not> cv_usable cv \<or> (cv_result cv = None \<and> cv_names cv = None)"

lemma get_user_permissions_allow:
  assumes "cache_empty cv" and "\<not> u_superuser u"
  shows "\<exists>ns. get_user_permissions cfg d now cv uid False None (Some u) = Inr ns \<and>
     (permission_set_allows required (set ns) \<longleftrightarrow> grants_to cfg d now uid None required)"
  using assms
  by (cases "cfg_hierarchy cfg") (auto simp: get_user_permissions_def resolve_user_def cache_empty_def grants_to_def allows_append
      user_role_permissions_allow entity_membership_names_allow [where names = all_role_names, OF all_role_names_allow] allows_empty
      simp del: set_append)

lemma check_roles_verdict:
  assumes "cache_empty cv" and "\<not> u_superuser u"
  shows "\<exists>r. check_roles cfg d env cv uid required eid u = Inr r
     \<and> cr_granted r = grants_to cfg d (ce_now env) uid eid required
     \<and> cr_stored r = (if cv_usable cv then Some (cr_granted r) else None)"
proof (cases eid)
  case None
  obtain ns where "get_user_permissions cfg d (ce_now env) cv uid False None (Some u) = Inr ns"
      "permission_set_allows required (set ns) \<longleftrightarrow> grants_to cfg d (ce_now env) uid None required"
    using get_user_permissions_allow [OF assms] by blast
  then show ?thesis by (simp add: check_roles_def None result_of_def)
next
  case (Some e)
  then show ?thesis
    by (simp add: check_roles_def result_of_def user_role_permissions_allow check_in_entity_rbac
        grants_to_def Let_def)
qed

lemma check_permission_verdict:
  assumes "resolve_user d uid user = Some u" and "\<not> abac_active cfg d" and "cache_empty cv"
  shows "\<exists>r. check_permission cfg d env cv (Some uid) required eid resource envc time_attrs user = Inr r
     \<and> cr_granted r = (u_superuser u \<or> grants_to cfg d (ce_now env) uid eid required)
     \<and> cr_stored r = (if cv_usable cv \<and> \<not> u_superuser u then Some (cr_granted r) else None)"
proof (cases "u_superuser u")
  case True
  with assms show ?thesis
    by (auto simp: check_permission_def abac_active_def cache_empty_def result_of_def Let_def)
next
  case False
  have "check_permission cfg d env cv (Some uid) required eid resource envc time_attrs user =
      check_roles cfg d env cv uid required eid u"
    using assms False by (auto simp: check_permission_def abac_active_def cache_empty_def Let_def)
  then show ?thesis using check_roles_verdict [OF assms(3) False] False by simp
qed

lemma granted_verdict:
  assumes "resolve_user d uid user = Some u" and "\<not> abac_active cfg d" and "cache_empty cv"
  shows "granted (check_permission cfg d env cv (Some uid) required eid resource envc time_attrs user) =
     Inr (u_superuser u \<or> grants_to cfg d (ce_now env) uid eid required)"
  using check_permission_verdict [OF assms, of env required eid resource envc time_attrs]
  by (auto simp: granted_def)

subsection \<open>The effective names\<close>

lemma entity_context_names_allow:
  "permission_set_allows required (set (fst (entity_context_names cfg d now uid e ty)))
     \<or> permission_set_allows_from_ancestor required (set (snd (entity_context_names cfg d now uid e ty)))
   \<longleftrightarrow> entity_grant cfg d now uid e ty required"
proof (cases "ancestor_depths d e = []")
  case True
  then show ?thesis
    by (simp add: entity_context_names_def entity_grant_def depth_of_None allows_empty)
next
  case False
  let ?P = "\<lambda>direct m. em_can_grant now m \<and> (\<exists>k. depth_of d e (em_entity m) = Some k \<and> (k = 0) = direct \<and>
     (\<exists>role \<in> set (membership_roles d m). role_live role \<and> role_can_grant_at_entity role (em_entity m) e (k = 0)
        \<and> (\<exists>n \<in> set (role_permission_names_for_context cfg d role ty).
             if k = 0 then covers n required else covers_below n required)))"
  have side: "(\<exists>m \<in> set (filter (\<lambda>m. em_entity m \<in> set (map fst (ancestor_depths d e)))
         (active_entity_memberships d uid)). ?P b m) \<longleftrightarrow>
       (\<exists>m \<in> set (tb_entity_members d). em_user m = uid \<and> ?P b m)" for b
  proof -
    have "(\<exists>m \<in> set (filter (\<lambda>m. em_entity m \<in> set (map fst (ancestor_depths d e)))
         (active_entity_memberships d uid)). ?P b m) \<longleftrightarrow> (\<exists>m \<in> set (active_entity_memberships d uid). ?P b m)"
      using depth_of_key [of d e] by fastforce
    then show ?thesis unfolding loaded_memberships .
  qed
  have "permission_set_allows required (set (fst (entity_context_names cfg d now uid e ty))) \<longleftrightarrow>
      (\<exists>m \<in> set (tb_entity_members d). em_user m = uid \<and> ?P True m)"
    unfolding side [symmetric] entity_context_names_def if_not_P [OF False] Let_def fst_conv allows_collected not_not
    by (intro bex_cong refl) (auto simp: permission_set_allows_iff cong: conj_cong)
  moreover have "permission_set_allows_from_ancestor required (set (snd (entity_context_names cfg d now uid e ty))) \<longleftrightarrow>
      (\<exists>m \<in> set (tb_entity_members d). em_user m = uid \<and> ?P False m)"
    unfolding side [symmetric] entity_context_names_def if_not_P [OF False] Let_def snd_conv allows_collected not_not
    by (intro bex_cong refl) (auto simp: permission_set_allows_from_ancestor_iff cong: conj_cong)
  ultimately show ?thesis unfolding entity_grant_def by blast
qed

lemma effective_without_abac_eq:
  assumes "[] \<notin> set candidates"
    and "eid = None \<Longrightarrow> \<not> cfg_hierarchy cfg \<Longrightarrow> active_entity_memberships d uid = []"
  shows "effective_without_abac cfg d now uid eid candidates =
     {n \<in> set candidates. grants_to cfg d now uid eid n}"
proof -
  have ne: "n \<in> set candidates \<Longrightarrow> n \<noteq> []" for n using assms(1) by auto
  show ?thesis
  proof (cases eid)
    case None
    have ty: "resolve_context_entity_type cfg d None = None" by (simp add: resolve_context_entity_type_def)
    have member: "\<not> cfg_hierarchy cfg \<Longrightarrow> \<not> member_grant cfg d now uid n" for n
      using assms(2) [OF None] loaded_memberships(4) [of d uid now "\<lambda>_. True"]
      by (auto simp: member_grant_def)
    have "matcher_allows (make_matcher (user_role_permissions cfg d now uid False None None
            @ entity_membership_names cfg d now False None role_permission_names_for_context
                (active_entity_memberships d uid))) n \<longleftrightarrow> grants_to cfg d now uid None n"
      if "n \<in> set candidates" for n
      unfolding matcher_allows_iff [OF ne [OF that]] allows_append user_role_permissions_allow
        entity_membership_names_allow(2) [where names = role_permission_names_for_context,
          OF context_names_allow [OF ne [OF that]]]
      using member [of n] by (auto simp: grants_to_def)
    then show ?thesis unfolding None effective_without_abac_def ty Let_def option.case by auto
  next
    case (Some e)
    let ?ty = "resolve_context_entity_type cfg d (Some e)"
    obtain dn an where names: "entity_context_names cfg d now uid e ?ty = (dn, an)" by fastforce
    have "matcher_allows (make_matcher (user_role_permissions cfg d now uid True ?ty (Some e) @ dn)) n
        \<or> matcher_allows_from_ancestor (make_matcher an) n \<longleftrightarrow> grants_to cfg d now uid (Some e) n"
      if "n \<in> set candidates" for n
      unfolding matcher_allows_iff [OF ne [OF that]] matcher_ancestor_iff allows_append
        user_role_permissions_allow
      using entity_context_names_allow [of n cfg d now uid e ?ty] names by (auto simp: grants_to_def Let_def)
    then show ?thesis unfolding Some effective_without_abac_def Let_def option.case names prod.case by auto
  qed
qed

lemma filterE_Inr:
  "(\<And>x. x \<in> set xs \<Longrightarrow> f x = Inr (P x)) \<Longrightarrow> filterE f xs = Inr (filter P xs)"
  by (induction xs) auto

lemma filterE_eq:
  "filterE f xs = Inr ys \<longleftrightarrow> (\<forall>x \<in> set xs. \<exists>b. f x = Inr b) \<and> ys = filter (\<lambda>x. f x = Inr True) xs"
proof (induction xs arbitrary: ys)
  case (Cons x xs)
  have rest: "(\<exists>zs. filterE f xs = Inr zs) \<longleftrightarrow> (\<forall>x \<in> set xs. \<exists>b. f x = Inr b)"
    and zs: "filterE f xs = Inr zs \<Longrightarrow> zs = filter (\<lambda>x. f x = Inr True) xs" for zs
    using Cons.IH by blast+
  show ?case
  proof (cases "f x")
    case (Inr b)
    then show ?thesis using rest zs by (cases "filterE f xs") auto
  qed simp
qed auto

lemma check_permission_user:
  "resolve_user d uid user = Some u \<Longrightarrow>
     check_permission cfg d env cv (Some uid) required eid resource envc time_attrs (Some u) =
     check_permission cfg d env cv (Some uid) required eid resource envc time_attrs user"
  by (simp add: check_permission_def resolve_user_def)

lemma check_permission_superuser:
  assumes "resolve_user d uid user = Some u" and "u_superuser u" and "cache_empty cv"
  shows "granted (check_permission cfg d env cv (Some uid) required eid resource envc time_attrs user) = Inr True"
  using assms by (auto simp: granted_def check_permission_def cache_empty_def result_of_def Let_def)

lemma no_cache_empty [simp]: "cache_empty no_cache"
  by (simp add: cache_empty_def no_cache_def)

lemma effective_names_cases:
  assumes "resolve_user d uid user = Some u" and "candidates \<noteq> []"
  shows "get_effective_permission_names cfg d env uid eid (Some candidates) user =
     (if u_superuser u then Inr (set candidates)
      else if abac_active cfg d
      then bindE (filterE (\<lambda>n. granted (check_permission cfg d env no_cache (Some uid) n eid None None None (Some u)))
             (remdups candidates)) (\<lambda>ns. Inr (set ns))
      else Inr (effective_without_abac cfg d (ce_now env) uid eid (remdups candidates)))"
proof -
  obtain c cs where c: "candidates = c # cs" using assms(2) by (cases candidates) auto
  have "remdups candidates \<noteq> []" using assms(2) by simp
  then show ?thesis
    unfolding get_effective_permission_names_def assms(1) option.case c list.case Let_def granted_def
      abac_active_def c
    by (simp only: if_False set_remdups)
qed

lemma effective_names_agree:
  assumes eff: "get_effective_permission_names cfg d env uid eid (Some candidates) user = Inr names"
    and n: "n \<in> set candidates" and ne: "[] \<notin> set candidates"
    and simple: "eid = None \<Longrightarrow> \<not> cfg_hierarchy cfg \<Longrightarrow> active_entity_memberships d uid = []"
  shows "granted (check_permission cfg d env no_cache (Some uid) n eid None None None user) = Inr (n \<in> names)"
proof -
  from eff obtain u where u: "resolve_user d uid user = Some u"
    by (auto simp: get_effective_permission_names_def split: option.splits)
  have cs: "candidates \<noteq> []" using n by auto
  note eff' = eff [unfolded effective_names_cases [OF u cs]]
  let ?check = "\<lambda>n. granted (check_permission cfg d env no_cache (Some uid) n eid None None None (Some u))"
  consider "u_superuser u" | "\<not> u_superuser u" "abac_active cfg d" | "\<not> u_superuser u" "\<not> abac_active cfg d"
    by blast
  then show ?thesis
  proof cases
    case 1
    then have "names = set candidates" using eff' by simp
    then show ?thesis using check_permission_superuser [OF u 1 no_cache_empty] n by simp
  next
    case 2
    then obtain ns where ns: "filterE ?check (remdups candidates) = Inr ns" and names: "names = set ns"
      using eff' by (auto simp only: if_True if_False bindE_eq_Inr sum.inject)
    from ns n obtain b where "?check n = Inr b" and "n \<in> names \<longleftrightarrow> b"
      unfolding filterE_eq names by auto
    then show ?thesis using check_permission_user [OF u] by simp
  next
    case 3
    then have "names = effective_without_abac cfg d (ce_now env) uid eid (remdups candidates)"
      using eff' by simp
    also have "\<dots> = {n \<in> set (remdups candidates). grants_to cfg d (ce_now env) uid eid n}"
      by (rule effective_without_abac_eq) (use ne simple in auto)
    finally show ?thesis
      using granted_verdict [OF u 3(2) no_cache_empty] 3(1) n by simp
  qed
qed

subsection \<open>The verdict with attribute conditions\<close>

text \<open>A condition set of a role or a permission holds in a context.\<close>

definition group_operators :: "db \<Rightarrow> uuid \<rightharpoonup> string" where
  "group_operators d g = map_option g_operator (row_by g_id g (tb_groups d))"

definition conditions_met :: "db \<Rightarrow> pyrt \<Rightarrow> pyval \<Rightarrow> stored_condition list \<Rightarrow> bool" where
  "conditions_met d rt ctx cs \<longleftrightarrow>
     conditions_hold (\<lambda>c. evaluate_stored_condition rt c ctx = Inr True) (group_operators d) cs"

lemma conditions_hold_ops:
  assumes "\<And>g. g \<in> condition_groups_of cs \<Longrightarrow> ops g = ops' g" and "conditions_hold sat ops cs"
  shows "conditions_hold sat ops' cs"
proof -
  have "group_op ops (Some g) = group_op ops' (Some g)" if "c \<in> set cs" "sc_group c = Some g" for c g
    using assms(1) [of g] that by (force simp: group_op_def condition_groups_of_def)
  with assms(2) show ?thesis unfolding conditions_hold_def by metis
qed

lemma abac_allows_met:
  assumes "abac_allows_role_and_permission cfg d env role required ty ctx = Inr True"
  shows "\<exists>p \<in> set (role_permissions_for_context cfg d role ty). covers (p_name p) required
     \<and> conditions_met d (ce_rt env) ctx (role_conditions d (r_id role))
     \<and> conditions_met d (ce_rt env) ctx (permission_conditions d (p_id p))"
proof -
  let ?matching = "filter (\<lambda>p. permission_set_allows required {p_name p}) (role_permissions_for_context cfg d role ty)"
  let ?rcs = "role_conditions d (r_id role)"
  let ?ids = "condition_groups_of ?rcs
      \<union> condition_groups_of (concat (map (\<lambda>p. permission_conditions d (p_id p)) ?matching))"
  let ?ops = "load_condition_group_ops d ?ids"
  have role: "evaluate_sql_conditions (ce_rt env) ?rcs ?ops ctx = Inr True"
    and any: "anyE (map (\<lambda>p. evaluate_sql_conditions (ce_rt env) (permission_conditions d (p_id p)) ?ops ctx) ?matching)
       = Inr True"
    using assms by (auto simp: abac_allows_role_and_permission_def Let_def bindE_eq_Inr split: if_splits)
  from anyE_TrueD [OF any] obtain p where p: "p \<in> set ?matching"
      "evaluate_sql_conditions (ce_rt env) (permission_conditions d (p_id p)) ?ops ctx = Inr True" by force
  have ops: "?ops g = group_operators d g" if "g \<in> ?ids" for g
    using that by (simp add: load_condition_group_ops_def group_operators_def)
  have sub: "condition_groups_of (permission_conditions d (p_id p)) \<subseteq> ?ids"
    using p(1) by (auto simp: condition_groups_of_def)
  have "conditions_met d (ce_rt env) ctx ?rcs"
    unfolding conditions_met_def by (rule conditions_hold_ops [OF _ evaluate_sql_sound [OF role]]) (simp add: ops)
  moreover have "conditions_met d (ce_rt env) ctx (permission_conditions d (p_id p))"
    unfolding conditions_met_def
    by (rule conditions_hold_ops [OF _ evaluate_sql_sound [OF p(2)]]) (use ops sub in blast)
  ultimately show ?thesis using p(1) by (auto simp: permission_set_allows_iff)
qed

text \<open>A live role and one of its permissions cover the name, and both their condition sets hold.\<close>

definition justified ::
  "auth_config \<Rightarrow> db \<Rightarrow> pyrt \<Rightarrow> pyval \<Rightarrow> string option \<Rightarrow> string \<Rightarrow> bool" where
  "justified cfg d rt ctx ty required \<longleftrightarrow>
     (\<exists>role \<in> set (tb_roles d). role_live role \<and> conditions_met d rt ctx (role_conditions d (r_id role)) \<and>
        (\<exists>p \<in> set (role_permissions_for_context cfg d role ty).
           covers (p_name p) required \<and> conditions_met d rt ctx (permission_conditions d (p_id p))))"

lemma names_cover:
  assumes "permission_set_allows required (set (role_permission_names_for_context cfg d role ty))"
  shows "\<exists>p \<in> set (role_permissions_for_context cfg d role ty). covers (p_name p) required"
  using assms by (auto simp: permission_set_allows_iff role_permission_names_for_context_def)

lemma via_user_roles_abac:
  assumes "check_via_user_roles_with_abac cfg d env uid required ctx include_local ty target = Inr True"
  shows "direct_grant cfg d (ce_now env) uid include_local ty target required
     \<and> justified cfg d (ce_rt env) ctx ty required"
proof -
  from assms obtain m role where m: "m \<in> set (load_user_role_memberships d (ce_now env) uid)"
      "urm_can_grant (ce_now env) m" "role_of d (urm_role m) = Some role" "role_live role"
      "include_local \<or> r_scope_entity role = None"
      "permission_set_allows required (set (role_permission_names_for_context cfg d role ty))"
      "direct_role_reaches_entity cfg d role target"
      "abac_allows_role_and_permission cfg d env role required ty ctx = Inr True"
    unfolding check_via_user_roles_with_abac_def
    by (auto dest!: anyE_TrueD split: if_splits option.splits)
  have "role \<in> set (tb_roles d)" using m(3) by (auto simp: role_of_def dest: row_by_SomeD)
  then have "justified cfg d (ce_rt env) ctx ty required"
    using abac_allows_met [OF m(8)] m(4) by (auto simp: justified_def)
  moreover have "direct_grant cfg d (ce_now env) uid include_local ty target required"
    unfolding direct_grant_def loaded_memberships(2) [symmetric]
    using m names_cover [OF m(6)] by blast
  ultimately show ?thesis by blast
qed

lemma in_entity_abac:
  assumes "check_permission_in_entity cfg d env uid required eid ty (Some ctx) = Inr True"
  shows "entity_grant cfg d (ce_now env) uid eid ty required \<and> justified cfg d (ce_rt env) ctx ty required"
proof -
  from assms have "ancestor_depths d eid \<noteq> []" by (auto simp: check_permission_in_entity_def)
  with assms obtain m depth where m: "m \<in> set (load_entity_memberships d (ce_now env) uid)"
      "em_can_grant (ce_now env) m" "depth_of d eid (em_entity m) = Some depth"
    and roles: "anyE (map (\<lambda>role.
              if \<not> role_live role then Inr False
              else if \<not> role_can_grant_at_entity role (em_entity m) eid (depth = 0) then Inr False
              else let granted = set (role_permission_names_for_context cfg d role ty) in
                if \<not> (if depth = 0 then permission_set_allows required granted
                      else permission_set_allows_from_ancestor required granted) then Inr False
                else case Some ctx of
                       Some c \<Rightarrow> abac_allows_role_and_permission cfg d env role required ty c
                     | None \<Rightarrow> Inr True) (membership_roles d m)) = Inr True"
    unfolding check_permission_in_entity_def
    by (auto simp: Let_def dest!: anyE_TrueD split: if_splits option.splits)
  from anyE_TrueD [OF roles] obtain role where role: "role \<in> set (membership_roles d m)" "role_live role"
      "role_can_grant_at_entity role (em_entity m) eid (depth = 0)"
      "if depth = 0 then permission_set_allows required (set (role_permission_names_for_context cfg d role ty))
       else permission_set_allows_from_ancestor required (set (role_permission_names_for_context cfg d role ty))"
      "abac_allows_role_and_permission cfg d env role required ty ctx = Inr True"
    by (auto simp: Let_def split: if_splits)
  have "role \<in> set (tb_roles d)" using role(1) by (simp add: membership_roles_def)
  then have "justified cfg d (ce_rt env) ctx ty required"
    using abac_allows_met [OF role(5)] role(2) by (auto simp: justified_def)
  moreover have "entity_grant cfg d (ce_now env) uid eid ty required"
    unfolding entity_grant_def loaded_memberships(3) [symmetric]
    using m role(1-3) role(4) [unfolded in_entity_allows] by blast
  ultimately show ?thesis by blast
qed

end
