(* ===== verification/PermCheckProps.thy ===== *)
theory PermCheckProps
  imports PermCheck
begin

text \<open>
  The properties of permission checking, with instances on a small database: two organisations, a team
  below the first, a user with a direct role of the first organisation and a membership in it.
\<close>

section \<open>Instances\<close>

definition sample_user :: user_row where
  "sample_user = new_user ''alice'' ''a@x.io''"

definition sample_perm :: "uuid \<Rightarrow> string \<Rightarrow> permission" where
  "sample_perm i n = \<lparr>p_id = i, p_name = n, p_display_name = n, p_description = None,
     p_resource = fst (parse_name_fields n), p_action = fst (snd (parse_name_fields n)),
     p_scope = snd (snd (parse_name_fields n)), p_is_system = False, p_status = DActive, p_is_active = True\<rparr>"

definition sample_role :: "uuid \<Rightarrow> uuid option \<Rightarrow> role_row" where
  "sample_role i home = \<lparr>r_id = i, r_name = i, r_display_name = i, r_description = None, r_root_entity = home, r_is_system = False,
     r_is_global = False, r_status = DActive, r_scope_entity = None, r_scope = Hierarchy,
     r_auto_assigned = False, r_assignable_types = []\<rparr>"

definition sample_entity :: "uuid \<Rightarrow> string \<Rightarrow> uuid option \<Rightarrow> entity_row" where
  "sample_entity i typ parent = new_entity_row i i i i Structural typ parent"

definition sample_db :: db where
  "sample_db = empty_db\<lparr>tb_users := [sample_user],
     tb_entities := [sample_entity ''org'' ''organization'' None, sample_entity ''team'' ''team'' (Some ''org''),
       sample_entity ''rival'' ''organization'' None],
     tb_closure := [\<lparr>cl_ancestor = ''org'', cl_descendant = ''org'', cl_depth = 0\<rparr>,
       \<lparr>cl_ancestor = ''org'', cl_descendant = ''team'', cl_depth = 1\<rparr>,
       \<lparr>cl_ancestor = ''team'', cl_descendant = ''team'', cl_depth = 0\<rparr>,
       \<lparr>cl_ancestor = ''rival'', cl_descendant = ''rival'', cl_depth = 0\<rparr>],
     tb_permissions := [sample_perm ''p1'' ''doc:read'', sample_perm ''p2'' ''doc:read_tree'',
       sample_perm ''p3'' ''user:list'', (sample_perm ''p4'' ''system:root'')\<lparr>p_is_system := True\<rparr>],
     tb_roles := [sample_role ''reader'' None, sample_role ''lister'' (Some ''org'')],
     tb_role_permissions := [(''reader'', ''p1''), (''reader'', ''p2''), (''lister'', ''p3'')],
     tb_user_roles := [\<lparr>urm_id = ''m1'', urm_user = ''alice'', urm_role = ''lister'', urm_assigned_at = 0,
       urm_assigned_by = None, urm_from = None, urm_until = Some 100, urm_status = MActive, urm_revoked_at = None, urm_revoked_by = None,
       urm_reason = None\<rparr>],
     tb_entity_members := [\<lparr>em_id = ''m2'', em_user = ''alice'', em_entity = ''org'', em_joined_at = 0,
       em_joined_by = None, em_from = Some 10, em_until = None, em_status = MActive,
       em_revoked_at = None, em_revoked_by = None, em_reason = None\<rparr>],
     tb_member_roles := [(''m2'', ''reader'')]\<rparr>"

definition sample_cfg :: auth_config where
  "sample_cfg = \<lparr>cfg_context_aware = True, cfg_enforce_scope = True, cfg_abac = True, cfg_hierarchy = True\<rparr>"

definition sample_env :: check_env where
  "sample_env = \<lparr>ce_now = 50, ce_rt = plain_rt, ce_iso = (\<lambda>_. [])\<rparr>"

definition sample_check :: "db \<Rightarrow> string \<Rightarrow> uuid option \<Rightarrow> err + bool" where
  "sample_check d required eid =
     granted (check_permission sample_cfg d sample_env no_cache (Some ''alice'') required eid
       None None None None)"

lemma sample_checks:
  "sample_check sample_db ''user:list'' None = Inr True"
  "sample_check sample_db ''user:list'' (Some ''team'') = Inr True"
  "sample_check sample_db ''user:list'' (Some ''rival'') = Inr False"
  "sample_check sample_db ''doc:read'' (Some ''team'') = Inr True"
  "sample_check sample_db ''doc:delete'' (Some ''org'') = Inr False"
  by code_simp+

section \<open>Properties\<close>

text \<open>
  C1. The verdict of a check, exactly. For a known user, without attribute conditions and without a
  cached decision, the check returns (it never raises), it grants exactly to superusers and where a
  live role the user holds reaches the context and covers the name, and it stores in the cache the
  verdict it returns, or nothing when the cache is unusable or the user is a superuser.
\<close>

theorem check_permission_exact:
  assumes "resolve_user d uid user = Some u" and "\<not> abac_active cfg d" and "cache_empty cv"
  shows "\<exists>r. check_permission cfg d env cv (Some uid) required eid resource envc time_attrs user = Inr r
     \<and> cr_granted r = (u_superuser u \<or> grants_to cfg d (ce_now env) uid eid required)
     \<and> cr_stored r = (if cv_usable cv \<and> \<not> u_superuser u then Some (cr_granted r) else None)"
  using assms by (rule check_permission_verdict)

theorem check_permission_exact_witness:
  "\<exists>r. check_permission sample_cfg sample_db sample_env no_cache (Some ''alice'') ''doc:read'' (Some ''team'')
        None None None None = Inr r
     \<and> cr_granted r = grants_to sample_cfg sample_db 50 ''alice'' (Some ''team'') ''doc:read''"
proof -
  have "resolve_user sample_db ''alice'' None = Some sample_user" and "\<not> u_superuser sample_user"
    by code_simp+
  moreover have "\<not> abac_active sample_cfg sample_db"
    by (simp add: abac_active_def abac_conditions_exist_def sample_db_def empty_db_def)
  ultimately show ?thesis
    using check_permission_exact [of sample_db "''alice''" None sample_user sample_cfg no_cache sample_env
        "''doc:read''" "Some ''team''" None None None]
    by (auto simp: sample_env_def)
qed



lemma abac_verdict_justified:
  assumes "resolve_user d uid user = Some u" and "\<not> u_superuser u" and "abac_active cfg d"
    and "check_permission cfg d env cv (Some uid) required eid resource envc time_attrs user = Inr r"
    and "cr_granted r"
  shows "grants_to cfg d (ce_now env) uid eid required \<and> cr_stored r = None
     \<and> justified cfg d (ce_rt env) (PDict (check_context env u resource envc time_attrs eid))
         (resolve_context_entity_type cfg d eid) required"
proof -
  let ?ctx = "PDict (check_context env u resource envc time_attrs eid)"
  let ?ty = "resolve_context_entity_type cfg d eid"
  have r: "check_roles_with_abac cfg d env uid required eid ?ctx = Inr r"
    using assms(1-4) by (simp add: check_permission_def abac_active_def Let_def)
  then have stored: "cr_stored r = None"
    by (auto simp: check_roles_with_abac_def Let_def bindE_eq_Inr result_of_def split: if_splits)
  from r assms(5) have "check_via_user_roles_with_abac cfg d env uid required ?ctx (eid \<noteq> None) ?ty eid = Inr True
      \<or> (\<exists>e. eid = Some e \<and> check_permission_in_entity cfg d env uid required e ?ty (Some ?ctx) = Inr True)"
    by (auto simp: check_roles_with_abac_def Let_def bindE_eq_Inr result_of_def
        split: if_splits option.splits)
  then have "grants_to cfg d (ce_now env) uid eid required \<and> justified cfg d (ce_rt env) ?ctx ?ty required"
  proof
    assume "check_via_user_roles_with_abac cfg d env uid required ?ctx (eid \<noteq> None) ?ty eid = Inr True"
    from via_user_roles_abac [OF this] show ?thesis
      by (cases eid) (simp_all add: grants_to_def resolve_context_entity_type_def Let_def)
  next
    assume "\<exists>e. eid = Some e \<and> check_permission_in_entity cfg d env uid required e ?ty (Some ?ctx) = Inr True"
    then obtain e where "eid = Some e"
      and "check_permission_in_entity cfg d env uid required e ?ty (Some ?ctx) = Inr True" by blast
    with in_entity_abac [OF this(2)] show ?thesis by (simp add: grants_to_def Let_def)
  qed
  with stored show ?thesis by blast
qed


text \<open>A role confined to a tree that does not contain the entity.\<close>

definition confined_elsewhere :: "db \<Rightarrow> uuid \<Rightarrow> role_row \<Rightarrow> bool" where
  "confined_elsewhere d e role \<longleftrightarrow>
     (case (case r_scope_entity role of Some s \<Rightarrow> Some s | None \<Rightarrow> r_root_entity role) of
        None \<Rightarrow> False
      | Some home \<Rightarrow> home \<notin> direct_role_context_ancestor_ids d e)"

lemma confined_elsewhere_no_reach:
  assumes "cfg_enforce_scope cfg" and "e \<in> direct_role_context_ancestor_ids d e"
    and "confined_elsewhere d e role"
  shows "\<not> direct_role_reaches_entity cfg d role (Some e)"
  using assms
  by (auto simp: confined_elsewhere_def direct_role_reaches_entity_def direct_role_applies_at_entity_def
      split: option.splits if_splits)

lemma granted_imp_grants_to:
  assumes "resolve_user d uid user = Some u" and "\<not> u_superuser u" and "cache_empty cv"
    and "check_permission cfg d env cv (Some uid) required eid resource envc time_attrs user = Inr r"
    and "cr_granted r"
  shows "grants_to cfg d (ce_now env) uid eid required"
proof (cases "abac_active cfg d")
  case False
  then show ?thesis
    using check_permission_verdict [OF assms(1) False assms(3), of env required eid resource envc time_attrs]
      assms(2,4,5) by auto
next
  case True
  let ?ctx = "PDict (check_context env u resource envc time_attrs eid)"
  let ?ty = "resolve_context_entity_type cfg d eid"
  have "check_roles_with_abac cfg d env uid required eid ?ctx = Inr r"
    using assms(1,2,4) True by (simp add: check_permission_def abac_active_def Let_def)
  with assms(5) have "check_via_user_roles_with_abac cfg d env uid required ?ctx (eid \<noteq> None) ?ty eid = Inr True
      \<or> (\<exists>e. eid = Some e \<and> check_permission_in_entity cfg d env uid required e ?ty (Some ?ctx) = Inr True)"
    by (auto simp: check_roles_with_abac_def Let_def bindE_eq_Inr result_of_def
        split: if_splits option.splits)
  then show ?thesis
    using via_user_roles_abac [of cfg d env uid required ?ctx "eid \<noteq> None" ?ty eid]
      in_entity_abac [of cfg d env uid required _ ?ty ?ctx]
    by (cases eid) (auto simp: grants_to_def resolve_context_entity_type_def Let_def)
qed

text \<open>
  C3. Tenant isolation: where scope is enforced, a user who is no superuser, whose direct roles are all
  confined to trees that do not contain the entity, and who has no membership in the entity or an
  ancestor, is granted nothing at the entity, whatever the names in those roles (the super wildcard
  included) and with or without attribute conditions.
\<close>

theorem confined_roles_grant_nothing_elsewhere:
  assumes "cfg_enforce_scope cfg" and "resolve_user d uid user = Some u" and "\<not> u_superuser u"
    and "cache_empty cv" and "e \<in> direct_role_context_ancestor_ids d e"
    and "\<forall>m \<in> set (tb_user_roles d). urm_user m = uid \<longrightarrow>
           (\<forall>role. role_of d (urm_role m) = Some role \<longrightarrow> confined_elsewhere d e role)"
    and "\<forall>m \<in> set (tb_entity_members d). em_user m = uid \<longrightarrow> depth_of d e (em_entity m) = None"
    and "check_permission cfg d env cv (Some uid) required (Some e) resource envc time_attrs user = Inr r"
  shows "\<not> cr_granted r"
proof
  assume "cr_granted r"
  from granted_imp_grants_to [OF assms(2-4,8) this]
  have "grants_to cfg d (ce_now env) uid (Some e) required" .
  then show False
    using assms(6,7) confined_elsewhere_no_reach [OF assms(1,5)]
    by (fastforce simp: grants_to_def direct_grant_def entity_grant_def Let_def)
qed

theorem confined_roles_grant_nothing_elsewhere_witness:
  "case check_permission sample_cfg sample_db sample_env no_cache (Some ''alice'') ''user:list''
        (Some ''rival'') None None None None of Inl _ \<Rightarrow> True | Inr r \<Rightarrow> \<not> cr_granted r"
proof (cases "check_permission sample_cfg sample_db sample_env no_cache (Some ''alice'') ''user:list''
        (Some ''rival'') None None None None")
  case c: (Inr r)
  have u: "resolve_user sample_db ''alice'' None = Some sample_user" "\<not> u_superuser sample_user"
    by code_simp+
  have anc: "direct_role_context_ancestor_ids sample_db ''rival'' = {''rival''}" by code_simp
  have role: "role_of sample_db ''lister'' = Some (sample_role ''lister'' (Some ''org''))" by code_simp
  have depth: "depth_of sample_db ''rival'' ''org'' = None" by code_simp
  have urs: "\<forall>m \<in> set (tb_user_roles sample_db). urm_role m = ''lister''"
    and ems: "\<forall>m \<in> set (tb_entity_members sample_db). em_entity m = ''org''"
    by (simp_all add: sample_db_def)
  have "\<not> cr_granted r"
  proof (rule confined_roles_grant_nothing_elsewhere [OF _ u no_cache_empty _ _ _ c])
    show "cfg_enforce_scope sample_cfg" by (simp add: sample_cfg_def)
    show "''rival'' \<in> direct_role_context_ancestor_ids sample_db ''rival''" by (simp add: anc)
    show "\<forall>m \<in> set (tb_user_roles sample_db). urm_user m = ''alice'' \<longrightarrow>
        (\<forall>role. role_of sample_db (urm_role m) = Some role \<longrightarrow> confined_elsewhere sample_db ''rival'' role)"
      using role urs by (auto simp: confined_elsewhere_def anc sample_role_def)
    show "\<forall>m \<in> set (tb_entity_members sample_db). em_user m = ''alice'' \<longrightarrow>
        depth_of sample_db ''rival'' (em_entity m) = None"
      using depth ems by auto
  qed
  then show ?thesis by (simp add: c)
qed simp



section \<open>Attribute conditions in small databases\<close>

text \<open>The sample with a condition on the propagating permission: the address has to end in the given text.\<close>

definition conditioned_db :: "uuid \<Rightarrow> string \<Rightarrow> db" where
  "conditioned_db pid ending =
     sample_db\<lparr>tb_permission_conditions := [(pid, row None ''user.email'' ''ends_with'' ending ''string'')]\<rparr>"


text \<open>
  The condition of the only permission that reaches descendants can be evaded: a role at an ancestor
  that also holds the plain permission, without conditions, is accepted for the descendant, because the
  permissions whose conditions are evaluated are matched with the rule for the entity itself.
\<close>

lemma ancestor_condition_is_evaded:
  "sample_check (conditioned_db ''p2'' ''y.io'') ''doc:read_tree'' (Some ''team'') = Inr False
   \<and> sample_check (conditioned_db ''p2'' ''y.io'') ''doc:read'' (Some ''team'') = Inr True"
  by code_simp

text \<open>
  A condition on an unrelated permission changes the verdict of a check without an entity: roles held
  through entity memberships count without conditions in force, and do not count with them.
\<close>

lemma unrelated_condition_changes_verdict:
  "sample_check sample_db ''doc:read'' None = Inr True
   \<and> sample_check (conditioned_db ''p3'' ''x.io'') ''doc:read'' None = Inr False"
  by code_simp

end
