(* ===== verification/PermDefs.thy ===== *)
theory PermDefs
  imports PermCheck "HOL-Library.Char_ord" "HOL-Library.List_Lexorder" "HOL-Library.Product_Lexorder"
begin

text \<open>
  Permission definitions, the write side of \<open>outlabs_auth/services/permission.py\<close>: creating, updating,
  tagging and archiving definitions, their attribute conditions and condition groups, the history
  events, and the cache invalidation each change defers until after the commit.

  An operation maps a state to an exception or to a new state with its result; an exception leaves the
  transaction to be rolled back, so it carries no state. New identifiers are arguments. The errors a
  database raises on its own are not modelled, so the fall-back of the invalidation after a failed
  query does not occur.
\<close>

section \<open>State\<close>

record group_snapshot =
  gs_id :: uuid
  gs_operator :: string
  gs_description :: "string option"

record permission_snapshot =
  sn_name :: string
  sn_display_name :: string
  sn_description :: "string option"
  sn_resource :: "string option"
  sn_action :: "string option"
  sn_scope :: "string option"
  sn_is_system :: bool
  sn_status :: string
  sn_is_active :: bool
  sn_tag_names :: "string list"
  sn_groups :: "group_snapshot list"
  sn_conditions :: "stored_condition list"

datatype event_metadata =
    NoMetadata
  | Archived
  | ChangedFields "string list"
  | GroupCreated group_snapshot
  | GroupUpdated "string list" group_snapshot group_snapshot
  | GroupDeleted group_snapshot "stored_condition list"
  | ConditionCreated stored_condition
  | ConditionUpdated "string list" stored_condition stored_condition
  | ConditionDeleted stored_condition

record permission_event =
  pe_permission :: uuid
  pe_type :: string
  pe_source :: string
  pe_actor :: "uuid option"
  pe_before :: "permission_snapshot option"
  pe_after :: permission_snapshot
  pe_metadata :: event_metadata

text \<open>What is published to the shared cache once the transaction commits.\<close>

datatype invalidation = InvalidateAll | InvalidateUsers "uuid set"

record perm_state =
  ps_db :: db
  ps_events :: "permission_event list"
  ps_deferred :: "invalidation list"
  ps_marked :: bool

text \<open>The service: the policy engine's run time, and whether it has a history service and a cache.\<close>

record perm_service =
  sv_rt :: pyrt
  sv_re_error :: "string \<Rightarrow> string"
  sv_history :: bool
  sv_cache :: bool
  sv_tag_id :: "string \<Rightarrow> uuid"

definition with_db :: "perm_state \<Rightarrow> db \<Rightarrow> perm_state" where
  "with_db s d = s\<lparr>ps_db := d\<rparr>"

section \<open>Reading definitions\<close>

definition get_permission_by_id :: "db \<Rightarrow> uuid \<Rightarrow> bool \<Rightarrow> permission option" where
  "get_permission_by_id d pid include_archived =
     List.find (\<lambda>p. p_id p = pid \<and> (include_archived \<or> p_status p \<noteq> DArchived)) (tb_permissions d)"

definition permission_by_name :: "db \<Rightarrow> string \<Rightarrow> permission option" where
  "permission_by_name d name = List.find (\<lambda>p. p_name p = name) (tb_permissions d)"

definition get_permission_by_name :: "db \<Rightarrow> string \<Rightarrow> bool \<Rightarrow> err + permission option" where
  "get_permission_by_name d name include_archived =
     bindE (validate_permission_name name) (\<lambda>n.
       Inr (List.find (\<lambda>p. p_name p = n \<and> (include_archived \<or> p_status p \<noteq> DArchived)) (tb_permissions d)))"

definition permission_has_conditions :: "db \<Rightarrow> string \<Rightarrow> err + bool" where
  "permission_has_conditions d name =
     bindE (validate_permission_name name) (\<lambda>n.
       Inr (case permission_by_name d n of
              None \<Rightarrow> False
            | Some p \<Rightarrow> permission_conditions d (p_id p) \<noteq> []))"

definition check_permission_exists :: "db \<Rightarrow> string \<Rightarrow> err + bool" where
  "check_permission_exists d name =
     bindE (validate_permission_name name) (\<lambda>n. Inr (permission_by_name d n \<noteq> None))"

definition permission_tags :: "db \<Rightarrow> uuid \<Rightarrow> tag_row list" where
  "permission_tags d pid = filter (\<lambda>t. (pid, t_id t) \<in> set (tb_tag_links d)) (tb_tags d)"

definition get_permissions_by_tag :: "db \<Rightarrow> string \<Rightarrow> permission list" where
  "get_permissions_by_tag d tag =
     filter (\<lambda>p. p_status p \<noteq> DArchived \<and> (\<exists>t \<in> set (permission_tags d (p_id p)). t_name t = tag))
       (tb_permissions d)"

definition get_permissions_for_role :: "db \<Rightarrow> uuid \<Rightarrow> permission list" where
  "get_permissions_for_role d rid = filter (\<lambda>p. p_status p \<noteq> DArchived) (role_permissions d rid)"

text \<open>\<open>dict.fromkeys(xs)\<close>: duplicates removed, the first occurrence kept.\<close>

definition dedup :: "'a list \<Rightarrow> 'a list" where
  "dedup xs = rev (remdups (rev xs))"

definition get_permissions_for_roles :: "db \<Rightarrow> uuid list \<Rightarrow> (uuid \<times> permission list) list" where
  "get_permissions_for_roles d rids = map (\<lambda>rid. (rid, get_permissions_for_role d rid)) (dedup rids)"

lemma set_dedup [simp]: "set (dedup xs) = set xs"
  and distinct_dedup [simp]: "distinct (dedup xs)"
  by (simp_all add: dedup_def)

section \<open>Snapshots\<close>

definition group_snapshot_of :: "condition_group_row \<Rightarrow> group_snapshot" where
  "group_snapshot_of g = \<lparr>gs_id = g_id g, gs_operator = g_operator g, gs_description = g_description g\<rparr>"

definition or_empty :: "string option \<Rightarrow> string" where
  "or_empty s = (case s of None \<Rightarrow> [] | Some t \<Rightarrow> t)"

definition permission_groups :: "db \<Rightarrow> uuid \<Rightarrow> condition_group_row list" where
  "permission_groups d pid = filter (\<lambda>g. g_permission g = Some pid) (tb_groups d)"

definition permission_snapshot_of :: "db \<Rightarrow> permission \<Rightarrow> permission_snapshot" where
  "permission_snapshot_of d p0 =
     (let p = (case get_permission_by_id d (p_id p0) False of Some q \<Rightarrow> q | None \<Rightarrow> p0) in
      \<lparr>sn_name = p_name p, sn_display_name = p_display_name p, sn_description = p_description p,
       sn_resource = p_resource p, sn_action = p_action p, sn_scope = p_scope p,
       sn_is_system = p_is_system p, sn_status = definition_status_value (p_status p),
       sn_is_active = p_is_active p,
       sn_tag_names = map t_name (sort_key (\<lambda>t. (t_name t, t_id t)) (permission_tags d (p_id p))),
       sn_groups = map group_snapshot_of
         (sort_key (\<lambda>g. (g_operator g, or_empty (g_description g), g_id g)) (permission_groups d (p_id p))),
       sn_conditions = sort_key (\<lambda>c. (sc_attribute c, or_empty (sc_group c), sc_id c))
         (permission_conditions d (p_id p))\<rparr>)"

text \<open>The names of the fields in which two snapshots differ, in the listed order.\<close>

definition changed_names :: "(string \<times> bool) list \<Rightarrow> string list" where
  "changed_names fs = map fst (filter snd fs)"

definition changed_permission_fields :: "permission_snapshot \<Rightarrow> permission_snapshot \<Rightarrow> string list" where
  "changed_permission_fields a b = changed_names
     [(''permission_name'', sn_name a \<noteq> sn_name b),
      (''permission_display_name'', sn_display_name a \<noteq> sn_display_name b),
      (''permission_description'', sn_description a \<noteq> sn_description b),
      (''resource'', sn_resource a \<noteq> sn_resource b),
      (''action'', sn_action a \<noteq> sn_action b),
      (''scope'', sn_scope a \<noteq> sn_scope b),
      (''is_system'', sn_is_system a \<noteq> sn_is_system b),
      (''status'', sn_status a \<noteq> sn_status b),
      (''is_active'', sn_is_active a \<noteq> sn_is_active b),
      (''tag_names'', sn_tag_names a \<noteq> sn_tag_names b),
      (''condition_groups'', sn_groups a \<noteq> sn_groups b),
      (''conditions'', sn_conditions a \<noteq> sn_conditions b)]"

definition changed_group_fields :: "group_snapshot \<Rightarrow> group_snapshot \<Rightarrow> string list" where
  "changed_group_fields a b = changed_names
     [(''operator'', gs_operator a \<noteq> gs_operator b),
      (''description'', gs_description a \<noteq> gs_description b)]"

definition changed_condition_fields :: "stored_condition \<Rightarrow> stored_condition \<Rightarrow> string list" where
  "changed_condition_fields a b = changed_names
     [(''condition_group_id'', sc_group a \<noteq> sc_group b),
      (''attribute'', sc_attribute a \<noteq> sc_attribute b),
      (''operator'', sc_operator a \<noteq> sc_operator b),
      (''value'', sc_value a \<noteq> sc_value b),
      (''value_type'', sc_value_type a \<noteq> sc_value_type b),
      (''description'', sc_description a \<noteq> sc_description b)]"

lemma changed_permission_fields_Nil: "changed_permission_fields a b = [] \<longleftrightarrow> a = b"
  by (cases a; cases b) (auto simp: changed_permission_fields_def changed_names_def)

definition record_event ::
  "perm_service \<Rightarrow> uuid \<Rightarrow> string \<Rightarrow> string \<Rightarrow> uuid option \<Rightarrow> permission_snapshot option
     \<Rightarrow> permission_snapshot \<Rightarrow> event_metadata \<Rightarrow> perm_state \<Rightarrow> perm_state" where
  "record_event sv pid ty src actor before after meta s =
     (if \<not> sv_history sv then s
      else s\<lparr>ps_events := ps_events s @
        [\<lparr>pe_permission = pid, pe_type = ty, pe_source = src, pe_actor = actor, pe_before = before,
          pe_after = after, pe_metadata = meta\<rparr>]\<rparr>)"

text \<open>\<open>changed_fields = ...; if changed_fields: ...\<close>\<close>

definition record_if_changed ::
  "perm_service \<Rightarrow> uuid \<Rightarrow> string \<Rightarrow> uuid option \<Rightarrow> permission_snapshot \<Rightarrow> permission_snapshot
     \<Rightarrow> perm_state \<Rightarrow> perm_state" where
  "record_if_changed sv pid src actor before after s =
     (let changed = changed_permission_fields before after in
      if changed = [] then s
      else record_event sv pid ''updated'' src actor (Some before) after (ChangedFields changed) s)"

section \<open>Errors and guards\<close>

definition permission_not_found :: "uuid \<Rightarrow> err" where
  "permission_not_found pid =
     Auth PermissionNotFoundError ''Permission not found'' [(''permission_id'', PStr pid)]"

definition system_permission_error :: "string \<Rightarrow> permission \<Rightarrow> err" where
  "system_permission_error verb p =
     invalid_input (''Cannot '' @ verb @ '' system permission'')
       [(''permission_id'', PStr (p_id p)), (''permission_name'', PStr (p_name p))]"

definition get_mutable_permission :: "db \<Rightarrow> uuid \<Rightarrow> err + permission" where
  "get_mutable_permission d pid =
     (case get_permission_by_id d pid False of
        None \<Rightarrow> Inl (permission_not_found pid)
      | Some p \<Rightarrow> if p_is_system p then Inl (system_permission_error ''modify'' p) else Inr p)"

text \<open>
  \<open>_resolve_permission_status\<close>: \<open>status\<close> is the text of the requested status (a member of the
  enumeration is its text).
\<close>

definition resolve_permission_status ::
  "definition_status option \<Rightarrow> string option \<Rightarrow> bool option \<Rightarrow> bool \<Rightarrow> err + definition_status" where
  "resolve_permission_status current status is_active allow_archived =
     bindE (case status of
              None \<Rightarrow> Inr None
            | Some s \<Rightarrow> (case definition_status_of s of
                None \<Rightarrow> Inl (Builtin ValueError) | Some r \<Rightarrow> Inr (Some r))) (\<lambda>requested.
     bindE (case is_active of
              None \<Rightarrow> Inr requested
            | Some b \<Rightarrow>
                let from_flag = (if b then DActive else DInactive) in
                (case requested of
                   Some r \<Rightarrow>
                     if r \<noteq> from_flag
                     then Inl (invalid_input ''status and is_active cannot conflict''
                            [(''status'', PStr (definition_status_value r)), (''is_active'', PBool b)])
                     else Inr (Some from_flag)
                 | None \<Rightarrow> Inr (Some from_flag))) (\<lambda>requested.
     case requested of
       None \<Rightarrow> Inr (case current of None \<Rightarrow> DActive | Some c \<Rightarrow> c)
     | Some r \<Rightarrow>
         if r = DArchived \<and> \<not> allow_archived
         then Inl (invalid_input ''Use delete to archive permissions''
                [(''status'', PStr (definition_status_value r))])
         else Inr r))"

section \<open>Invalidation\<close>

definition invalidate_all :: "perm_service \<Rightarrow> perm_state \<Rightarrow> perm_state" where
  "invalidate_all sv s =
     s\<lparr>ps_marked := True,
       ps_deferred := ps_deferred s @ (if sv_cache sv then [InvalidateAll] else [])\<rparr>"

definition roles_referencing_permission :: "db \<Rightarrow> uuid \<Rightarrow> uuid set" where
  "roles_referencing_permission d pid =
     fst ` {rp \<in> set (tb_role_permissions d). snd rp = pid}
     \<union> et_role ` {e \<in> set (tb_type_permissions d). et_permission e = pid}"

definition users_with_roles :: "db \<Rightarrow> uuid set \<Rightarrow> uuid set" where
  "users_with_roles d rids =
     urm_user ` {m \<in> set (tb_user_roles d). urm_role m \<in> rids \<and> urm_status m = MActive}
     \<union> em_user ` {m \<in> set (tb_entity_members d). em_status m = MActive
          \<and> (\<exists>rid \<in> rids. (em_id m, rid) \<in> set (tb_member_roles d))}"

definition invalidation_fanout_limit :: nat where
  "invalidation_fanout_limit = 200"

definition invalidate_permission_definition ::
  "perm_service \<Rightarrow> uuid \<Rightarrow> bool \<Rightarrow> perm_state \<Rightarrow> perm_state" where
  "invalidate_permission_definition sv pid grants_changed s =
     (if \<not> grants_changed then s
      else let s = s\<lparr>ps_marked := True\<rparr>; d = ps_db s;
               publish = (\<lambda>i. s\<lparr>ps_deferred := ps_deferred s @ [i]\<rparr>) in
        if \<not> sv_cache sv then s
        else if permission_conditions d pid \<noteq> [] then publish InvalidateAll
        else let rids = roles_referencing_permission d pid in
          if rids = {} then s
          else let uids = users_with_roles d rids in
            if invalidation_fanout_limit < card uids then publish InvalidateAll
            else if uids = {} then s
            else publish (InvalidateUsers uids))"

section \<open>Tags\<close>

definition normalized_tags :: "string list \<Rightarrow> string list" where
  "normalized_tags tags = dedup (map py_strip (filter (\<lambda>t. t \<noteq> [] \<and> py_strip t \<noteq> []) tags))"

definition tag_named :: "db \<Rightarrow> string \<Rightarrow> tag_row option" where
  "tag_named d name = row_by t_name name (tb_tags d)"

text \<open>\<open>_apply_permission_tags\<close>: missing tags are created, and the links of the permission replaced.\<close>

definition apply_permission_tags :: "(string \<Rightarrow> uuid) \<Rightarrow> uuid \<Rightarrow> string list \<Rightarrow> db \<Rightarrow> db" where
  "apply_permission_tags tag_id pid tags d =
     (let names = normalized_tags tags;
          created = map (\<lambda>n. \<lparr>t_id = tag_id n, t_name = n\<rparr>) (filter (\<lambda>n. tag_named d n = None) names);
          d1 = d\<lparr>tb_tags := tb_tags d @ created\<rparr>;
          ids = concat (map (\<lambda>n. case tag_named d1 n of None \<Rightarrow> [] | Some t \<Rightarrow> [t_id t]) names)
      in d1\<lparr>tb_tag_links := filter (\<lambda>(p, _). p \<noteq> pid) (tb_tag_links d1) @ map (\<lambda>i. (pid, i)) ids\<rparr>)"

definition set_permission_tags ::
  "perm_service \<Rightarrow> uuid \<Rightarrow> string list \<Rightarrow> uuid option \<Rightarrow> bool \<Rightarrow> string \<Rightarrow> perm_state
     \<Rightarrow> err + perm_state \<times> permission" where
  "set_permission_tags sv pid tags actor record_history source s =
     bindE (get_mutable_permission (ps_db s) pid) (\<lambda>p.
     let before = permission_snapshot_of (ps_db s) p;
         s1 = with_db s (apply_permission_tags (sv_tag_id sv) pid tags (ps_db s));
         current = (case get_permission_by_id (ps_db s1) pid False of Some q \<Rightarrow> q | None \<Rightarrow> p);
         after = permission_snapshot_of (ps_db s1) current
     in Inr (if record_history then record_if_changed sv pid source actor before after s1 else s1, current))"

definition add_tag_to_permission :: "uuid \<Rightarrow> uuid \<Rightarrow> perm_state \<Rightarrow> perm_state" where
  "add_tag_to_permission pid tid s =
     (if (pid, tid) \<in> set (tb_tag_links (ps_db s)) then s
      else with_db s ((ps_db s)\<lparr>tb_tag_links := tb_tag_links (ps_db s) @ [(pid, tid)]\<rparr>))"

definition remove_tag_from_permission :: "uuid \<Rightarrow> uuid \<Rightarrow> perm_state \<Rightarrow> perm_state \<times> bool" where
  "remove_tag_from_permission pid tid s =
     (if (pid, tid) \<notin> set (tb_tag_links (ps_db s)) then (s, False)
      else (with_db s ((ps_db s)\<lparr>tb_tag_links := filter (\<lambda>l. l \<noteq> (pid, tid)) (tb_tag_links (ps_db s))\<rparr>), True))"

section \<open>Definitions\<close>

text \<open>\<open>Permission(...)\<close> with a resolved status.\<close>

definition new_permission ::
  "uuid \<Rightarrow> string \<Rightarrow> string \<Rightarrow> string option \<Rightarrow> bool \<Rightarrow> definition_status \<Rightarrow> permission" where
  "new_permission pid name display desc is_system status =
     (let (resource, action, sc) = parse_name_fields name in
      \<lparr>p_id = pid, p_name = name, p_display_name = display, p_description = desc,
       p_resource = resource, p_action = action, p_scope = sc, p_is_system = is_system,
       p_status = status, p_is_active = (status = DActive)\<rparr>)"

definition insert_permission :: "permission \<Rightarrow> db \<Rightarrow> db" where
  "insert_permission p d = d\<lparr>tb_permissions := tb_permissions d @ [p]\<rparr>"

definition store_permission :: "permission \<Rightarrow> db \<Rightarrow> db" where
  "store_permission p d = d\<lparr>tb_permissions := set_row p_id p (tb_permissions d)\<rparr>"

text \<open>\<open>if tags: ...\<close> on the row just created.\<close>

definition tag_created :: "perm_service \<Rightarrow> uuid \<Rightarrow> string list option \<Rightarrow> perm_state \<Rightarrow> perm_state" where
  "tag_created sv pid tags s =
     (case tags of
        Some (t # ts) \<Rightarrow>
          (case get_permission_by_id (ps_db s) pid False of
             Some _ \<Rightarrow> with_db s (apply_permission_tags (sv_tag_id sv) pid (t # ts) (ps_db s))
           | None \<Rightarrow> s)
      | _ \<Rightarrow> s)"

definition create_permission ::
  "perm_service \<Rightarrow> uuid \<Rightarrow> string \<Rightarrow> string \<Rightarrow> string option \<Rightarrow> bool \<Rightarrow> string option \<Rightarrow> bool option
     \<Rightarrow> string list option \<Rightarrow> uuid option \<Rightarrow> perm_state \<Rightarrow> err + perm_state \<times> permission" where
  "create_permission sv pid name0 display desc is_system status is_active tags actor s =
     bindE (validate_permission_name name0) (\<lambda>name.
     if permission_by_name (ps_db s) name \<noteq> None
     then Inl (invalid_input (''Permission with name '' @ squote name @ '' already exists'')
            [(''name'', PStr name)])
     else bindE (resolve_permission_status None status is_active False) (\<lambda>st.
       let p = new_permission pid name display desc is_system st;
           s1 = with_db s (insert_permission p (ps_db s));
           s2 = tag_created sv pid tags s1;
           current = (case get_permission_by_id (ps_db s2) pid True of Some q \<Rightarrow> q | None \<Rightarrow> p)
       in Inr (record_event sv pid ''created'' ''permission_service.create_permission'' actor None
                 (permission_snapshot_of (ps_db s2) current) NoMetadata s2, current)))"

text \<open>\<open>if tags is not None: ...\<close>, without an event of its own.\<close>

definition retag ::
  "perm_service \<Rightarrow> uuid \<Rightarrow> string list option \<Rightarrow> uuid option \<Rightarrow> perm_state \<Rightarrow> err + perm_state" where
  "retag sv pid tags actor s =
     (case tags of
        None \<Rightarrow> Inr s
      | Some ts \<Rightarrow>
          bindE (set_permission_tags sv pid ts actor False ''permission_service.set_permission_tags'' s)
            (\<lambda>(s', _). Inr s'))"

definition update_permission ::
  "perm_service \<Rightarrow> uuid \<Rightarrow> string option \<Rightarrow> string option \<Rightarrow> string option \<Rightarrow> bool option
     \<Rightarrow> string list option \<Rightarrow> uuid option \<Rightarrow> perm_state \<Rightarrow> err + perm_state \<times> permission" where
  "update_permission sv pid display desc status is_active tags actor s =
     bindE (get_mutable_permission (ps_db s) pid) (\<lambda>p.
     let before = permission_snapshot_of (ps_db s) p in
     bindE (resolve_permission_status (Some (p_status p)) status is_active False) (\<lambda>next_status.
     let p1 = p\<lparr>p_display_name := (case display of Some x \<Rightarrow> x | None \<Rightarrow> p_display_name p),
                p_description := (case desc of Some x \<Rightarrow> Some x | None \<Rightarrow> p_description p),
                p_status := next_status, p_is_active := (next_status = DActive)\<rparr>;
         s1 = with_db s (store_permission p1 (ps_db s)) in
     bindE (retag sv pid tags actor s1) (\<lambda>s2.
     let s3 = invalidate_permission_definition sv pid (next_status \<noteq> p_status p) s2;
         current = (case get_permission_by_id (ps_db s3) pid False of Some q \<Rightarrow> q | None \<Rightarrow> p1);
         after = permission_snapshot_of (ps_db s3) current
     in Inr (record_if_changed sv pid ''permission_service.update_permission'' actor before after s3, current))))"

definition delete_permission ::
  "perm_service \<Rightarrow> uuid \<Rightarrow> uuid option \<Rightarrow> perm_state \<Rightarrow> err + perm_state \<times> bool" where
  "delete_permission sv pid actor s =
     (case get_permission_by_id (ps_db s) pid True of
        None \<Rightarrow> Inr (s, False)
      | Some p \<Rightarrow>
          if p_status p = DArchived then Inr (s, False)
          else let before = permission_snapshot_of (ps_db s) p in
            if p_is_system p then Inl (system_permission_error ''delete'' p)
            else let p1 = p\<lparr>p_status := DArchived, p_is_active := False\<rparr>;
                     s1 = with_db s (store_permission p1 (ps_db s));
                     current = (case get_permission_by_id (ps_db s1) pid True of Some q \<Rightarrow> q | None \<Rightarrow> p1);
                     s2 = record_event sv pid ''deleted'' ''permission_service.delete_permission'' actor
                            (Some before) (permission_snapshot_of (ps_db s1) current) Archived s1
                 in Inr (invalidate_permission_definition sv pid True s2, True))"

text \<open>\<open>bulk_create_permissions\<close>: one row per new name, an existing name returned as it is.\<close>

record bulk_entry =
  be_id :: uuid
  be_name :: string
  be_display_name :: "string option"
  be_description :: "string option"
  be_is_system :: bool

fun bulk_create_permissions :: "bulk_entry list \<Rightarrow> perm_state \<Rightarrow> err + perm_state \<times> permission list" where
  "bulk_create_permissions [] s = Inr (s, [])"
| "bulk_create_permissions (e # es) s =
     bindE (validate_permission_name (be_name e)) (\<lambda>name.
     case permission_by_name (ps_db s) name of
       Some existing \<Rightarrow>
         bindE (bulk_create_permissions es s) (\<lambda>(s', ps). Inr (s', existing # ps))
     | None \<Rightarrow>
         let p = new_permission (be_id e) name
                   (case be_display_name e of Some x \<Rightarrow> x | None \<Rightarrow> name) (be_description e)
                   (be_is_system e) DActive
         in bindE (bulk_create_permissions es (with_db s (insert_permission p (ps_db s))))
              (\<lambda>(s', ps). Inr (s', p # ps)))"

section \<open>Condition groups\<close>

definition group_of :: "db \<Rightarrow> uuid \<Rightarrow> condition_group_row option" where
  "group_of d gid = row_by g_id gid (tb_groups d)"

definition owned_group :: "db \<Rightarrow> uuid \<Rightarrow> uuid \<Rightarrow> condition_group_row option" where
  "owned_group d pid gid =
     (case group_of d gid of
        None \<Rightarrow> None
      | Some g \<Rightarrow> if g_permission g \<noteq> Some pid then None else Some g)"

definition create_permission_condition_group ::
  "perm_service \<Rightarrow> uuid \<Rightarrow> uuid \<Rightarrow> string \<Rightarrow> string option \<Rightarrow> uuid option \<Rightarrow> perm_state
     \<Rightarrow> err + perm_state \<times> condition_group_row" where
  "create_permission_condition_group sv gid pid op desc actor s =
     bindE (get_mutable_permission (ps_db s) pid) (\<lambda>p.
     let before = permission_snapshot_of (ps_db s) p;
         g = \<lparr>g_id = gid, g_role = None, g_permission = Some pid, g_operator = op, g_description = desc\<rparr>;
         s1 = with_db s ((ps_db s)\<lparr>tb_groups := tb_groups (ps_db s) @ [g]\<rparr>);
         s2 = record_event sv pid ''condition_group_created'' ''permission_service.create_condition_group''
                actor (Some before) (permission_snapshot_of (ps_db s1) p) (GroupCreated (group_snapshot_of g)) s1
     in Inr (invalidate_all sv s2, g))"

definition assign_group ::
  "string set \<Rightarrow> string option \<Rightarrow> string option \<Rightarrow> condition_group_row \<Rightarrow> condition_group_row" where
  "assign_group fs op desc g =
     g\<lparr>g_operator := (if ''operator'' \<in> fs then (case op of Some x \<Rightarrow> x | None \<Rightarrow> g_operator g)
                      else g_operator g),
       g_description := (if ''description'' \<in> fs then desc else g_description g)\<rparr>"

definition update_permission_condition_group ::
  "perm_service \<Rightarrow> uuid \<Rightarrow> uuid \<Rightarrow> string set \<Rightarrow> string option \<Rightarrow> string option \<Rightarrow> uuid option
     \<Rightarrow> perm_state \<Rightarrow> err + perm_state \<times> condition_group_row option" where
  "update_permission_condition_group sv pid gid fs op desc actor s =
     bindE (get_mutable_permission (ps_db s) pid) (\<lambda>p.
     case owned_group (ps_db s) pid gid of
       None \<Rightarrow> Inr (s, None)
     | Some g \<Rightarrow>
         let before = permission_snapshot_of (ps_db s) p;
             g1 = assign_group fs op desc g;
             s1 = with_db s ((ps_db s)\<lparr>tb_groups := set_row g_id g1 (tb_groups (ps_db s))\<rparr>);
             changed = changed_group_fields (group_snapshot_of g) (group_snapshot_of g1)
         in if changed = [] then Inr (s1, Some g1)
            else Inr (invalidate_all sv (record_event sv pid ''condition_group_updated''
                   ''permission_service.update_condition_group'' actor (Some before)
                   (permission_snapshot_of (ps_db s1) p)
                   (GroupUpdated changed (group_snapshot_of g) (group_snapshot_of g1)) s1), Some g1))"

text \<open>Deleting a group deletes the conditions that refer to it (\<open>ON DELETE CASCADE\<close>).\<close>

definition drop_group :: "uuid \<Rightarrow> db \<Rightarrow> db" where
  "drop_group gid d =
     d\<lparr>tb_groups := filter (\<lambda>g. g_id g \<noteq> gid) (tb_groups d),
       tb_role_conditions := filter (\<lambda>(_, c). sc_group c \<noteq> Some gid) (tb_role_conditions d),
       tb_permission_conditions := filter (\<lambda>(_, c). sc_group c \<noteq> Some gid) (tb_permission_conditions d)\<rparr>"

definition delete_permission_condition_group ::
  "perm_service \<Rightarrow> uuid \<Rightarrow> uuid \<Rightarrow> uuid option \<Rightarrow> perm_state \<Rightarrow> err + perm_state \<times> bool" where
  "delete_permission_condition_group sv pid gid actor s =
     bindE (get_mutable_permission (ps_db s) pid) (\<lambda>p.
     case owned_group (ps_db s) pid gid of
       None \<Rightarrow> Inr (s, False)
     | Some g \<Rightarrow>
         let before = permission_snapshot_of (ps_db s) p;
             gone = filter (\<lambda>c. sc_group c = Some gid) (permission_conditions (ps_db s) pid);
             s1 = with_db s (drop_group gid (ps_db s))
         in Inr (invalidate_all sv (record_event sv pid ''condition_group_deleted''
              ''permission_service.delete_condition_group'' actor (Some before)
              (permission_snapshot_of (ps_db s1) p) (GroupDeleted (group_snapshot_of g) gone) s1), True))"

section \<open>Conditions\<close>

text \<open>The group a condition is put into has to exist and belong to the permission.\<close>

definition check_condition_group :: "db \<Rightarrow> uuid \<Rightarrow> uuid option \<Rightarrow> err + unit" where
  "check_condition_group d pid group_id =
     (case group_id of
        None \<Rightarrow> Inr ()
      | Some gid \<Rightarrow> requireE (owned_group d pid gid \<noteq> None)
          (invalid_input ''Invalid condition_group_id''
             [(''permission_id'', PStr pid), (''condition_group_id'', PStr gid)]))"

text \<open>A condition of any permission, by its own id.\<close>

definition condition_of :: "db \<Rightarrow> uuid \<Rightarrow> (uuid \<times> stored_condition) option" where
  "condition_of d cid = row_by (\<lambda>(_, c). sc_id c) cid (tb_permission_conditions d)"

definition owned_condition :: "db \<Rightarrow> uuid \<Rightarrow> uuid \<Rightarrow> stored_condition option" where
  "owned_condition d pid cid =
     (case condition_of d cid of
        None \<Rightarrow> None
      | Some (owner, c) \<Rightarrow> if owner \<noteq> pid then None else Some c)"

definition create_permission_condition ::
  "perm_service \<Rightarrow> uuid \<Rightarrow> uuid \<Rightarrow> string \<Rightarrow> string \<Rightarrow> pyval \<Rightarrow> string \<Rightarrow> string option \<Rightarrow> uuid option
     \<Rightarrow> uuid option \<Rightarrow> perm_state \<Rightarrow> err + perm_state \<times> stored_condition" where
  "create_permission_condition sv cid pid attr op v value_type desc group_id actor s =
     bindE (get_mutable_permission (ps_db s) pid) (\<lambda>p.
     bindE (check_condition_group (ps_db s) pid group_id) (\<lambda>_.
     bindE (validate_condition_definition (sv_rt sv) (sv_re_error sv) (PStr attr) (PStr op) v (PStr value_type))
       (\<lambda>m.
     let before = permission_snapshot_of (ps_db s) p;
         c = new_condition_row (sv_rt sv) cid group_id attr m v value_type desc;
         s1 = with_db s ((ps_db s)\<lparr>tb_permission_conditions := tb_permission_conditions (ps_db s) @ [(pid, c)]\<rparr>)
     in Inr (invalidate_all sv (record_event sv pid ''condition_created''
          ''permission_service.create_condition'' actor (Some before)
          (permission_snapshot_of (ps_db s1) p) (ConditionCreated c) s1), c))))"

definition update_permission_condition ::
  "perm_service \<Rightarrow> uuid \<Rightarrow> uuid \<Rightarrow> condition_update \<Rightarrow> uuid option \<Rightarrow> perm_state
     \<Rightarrow> err + perm_state \<times> stored_condition option" where
  "update_permission_condition sv pid cid u actor s =
     bindE (get_mutable_permission (ps_db s) pid) (\<lambda>p.
     case owned_condition (ps_db s) pid cid of
       None \<Rightarrow> Inr (s, None)
     | Some c \<Rightarrow>
         bindE (check_condition_group (ps_db s) pid
                  (if ''condition_group_id'' \<in> cu_fields u then cu_group u else None)) (\<lambda>_.
         bindE (validate_condition_update (sv_rt sv) (sv_re_error sv) c u) (\<lambda>m.
         let before = permission_snapshot_of (ps_db s) p;
             c1 = apply_condition_update (sv_rt sv) c u m;
             s1 = with_db s ((ps_db s)\<lparr>tb_permission_conditions :=
                    set_row (\<lambda>(_, c). sc_id c) (pid, c1) (tb_permission_conditions (ps_db s))\<rparr>);
             changed = changed_condition_fields c c1
         in if changed = [] then Inr (s1, Some c1)
            else Inr (invalidate_all sv (record_event sv pid ''condition_updated''
                   ''permission_service.update_condition'' actor (Some before)
                   (permission_snapshot_of (ps_db s1) p) (ConditionUpdated changed c c1) s1), Some c1))))"

definition delete_permission_condition ::
  "perm_service \<Rightarrow> uuid \<Rightarrow> uuid \<Rightarrow> uuid option \<Rightarrow> perm_state \<Rightarrow> err + perm_state \<times> bool" where
  "delete_permission_condition sv pid cid actor s =
     bindE (get_mutable_permission (ps_db s) pid) (\<lambda>p.
     case owned_condition (ps_db s) pid cid of
       None \<Rightarrow> Inr (s, False)
     | Some c \<Rightarrow>
         let before = permission_snapshot_of (ps_db s) p;
             s1 = with_db s ((ps_db s)\<lparr>tb_permission_conditions :=
                    filter (\<lambda>(_, c). sc_id c \<noteq> cid) (tb_permission_conditions (ps_db s))\<rparr>)
         in Inr (invalidate_all sv (record_event sv pid ''condition_deleted''
              ''permission_service.delete_condition'' actor (Some before)
              (permission_snapshot_of (ps_db s1) p) (ConditionDeleted c) s1), True))"

section \<open>The operations as steps\<close>

datatype perm_op =
    CreatePermission uuid string string "string option" bool "string option" "bool option" "string list option"
  | UpdatePermission uuid "string option" "string option" "string option" "bool option" "string list option"
  | SetTags uuid "string list"
  | AddTag uuid uuid
  | RemoveTag uuid uuid
  | DeletePermission uuid
  | CreateGroup uuid uuid string "string option"
  | UpdateGroup uuid uuid "string set" "string option" "string option"
  | DeleteGroup uuid uuid
  | CreateCondition uuid uuid string string pyval string "string option" "uuid option"
  | UpdateCondition uuid uuid condition_update
  | DeleteCondition uuid uuid

text \<open>The state after an operation, its result dropped.\<close>

definition stateE :: "err + perm_state \<times> 'a \<Rightarrow> err + perm_state" where
  "stateE m = bindE m (\<lambda>(s, _). Inr s)"

lemma stateE_Inr: "stateE m = Inr s' \<longleftrightarrow> (\<exists>x. m = Inr (s', x))"
  by (auto simp: stateE_def bindE_eq_Inr)

fun perm_step :: "perm_service \<Rightarrow> uuid option \<Rightarrow> perm_op \<Rightarrow> perm_state \<Rightarrow> err + perm_state" where
  "perm_step sv actor (CreatePermission pid name display desc sys st act tags) s =
     stateE (create_permission sv pid name display desc sys st act tags actor s)"
| "perm_step sv actor (UpdatePermission pid display desc st act tags) s =
     stateE (update_permission sv pid display desc st act tags actor s)"
| "perm_step sv actor (SetTags pid tags) s =
     stateE (set_permission_tags sv pid tags actor True ''permission_service.set_permission_tags'' s)"
| "perm_step sv actor (AddTag pid tid) s = Inr (add_tag_to_permission pid tid s)"
| "perm_step sv actor (RemoveTag pid tid) s = Inr (fst (remove_tag_from_permission pid tid s))"
| "perm_step sv actor (DeletePermission pid) s = stateE (delete_permission sv pid actor s)"
| "perm_step sv actor (CreateGroup gid pid op desc) s =
     stateE (create_permission_condition_group sv gid pid op desc actor s)"
| "perm_step sv actor (UpdateGroup pid gid fs op desc) s =
     stateE (update_permission_condition_group sv pid gid fs op desc actor s)"
| "perm_step sv actor (DeleteGroup pid gid) s =
     stateE (delete_permission_condition_group sv pid gid actor s)"
| "perm_step sv actor (CreateCondition cid pid attr op v ty desc gid) s =
     stateE (create_permission_condition sv cid pid attr op v ty desc gid actor s)"
| "perm_step sv actor (UpdateCondition pid cid u) s =
     stateE (update_permission_condition sv pid cid u actor s)"
| "perm_step sv actor (DeleteCondition pid cid) s =
     stateE (delete_permission_condition sv pid cid actor s)"

end
