(* ===== verification/PermDefsProps.thy ===== *)
theory PermDefsProps
  imports PermDefs PermCheckProps
begin

text \<open>
  The properties of permission definitions: the invariant of the rows, which rows an operation can
  change, what the history records, and the link to the checks: a change of a definition invalidates
  the cached authority of every user it affects.
\<close>

section \<open>The invariant\<close>

definition permission_ok :: "permission \<Rightarrow> bool" where
  "permission_ok p \<longleftrightarrow>
     (p_is_active p \<longleftrightarrow> p_status p = DActive)
     \<and> (p_resource p, p_action p, p_scope p) = parse_name_fields (p_name p)
     \<and> validate_permission_name (p_name p) = Inr (p_name p)"

definition permissions_wf :: "permission list \<Rightarrow> bool" where
  "permissions_wf ps \<longleftrightarrow>
     distinct (map p_id ps) \<and> distinct (map p_name ps) \<and> (\<forall>p \<in> set ps. permission_ok p)"

text \<open>The identifiers an operation gives to new definitions.\<close>

fun new_ids :: "perm_op \<Rightarrow> uuid set" where
  "new_ids (CreatePermission pid _ _ _ _ _ _ _) = {pid}"
| "new_ids _ = {}"

text \<open>What an operation can do to the rows of the table.\<close>

inductive permission_change :: "uuid set \<Rightarrow> permission list \<Rightarrow> permission list \<Rightarrow> bool" for ids where
  unchanged: "permission_change ids ps ps"
| created: "p_id p \<in> ids \<Longrightarrow> p_name p \<notin> p_name ` set ps \<Longrightarrow> permission_ok p \<Longrightarrow>
    permission_change ids ps (ps @ [p])"
| modified: "p \<in> set ps \<Longrightarrow> \<not> p_is_system p \<Longrightarrow> p_status p \<noteq> DArchived \<Longrightarrow>
    p_id p' = p_id p \<Longrightarrow> p_name p' = p_name p \<Longrightarrow> p_is_system p' = p_is_system p \<Longrightarrow>
    (p_resource p', p_action p', p_scope p') = (p_resource p, p_action p, p_scope p) \<Longrightarrow>
    (p_is_active p' \<longleftrightarrow> p_status p' = DActive) \<Longrightarrow>
    permission_change ids ps (set_row p_id p' ps)"

lemma get_permission_SomeD:
  assumes "get_permission_by_id d pid arch = Some p"
  shows "p \<in> set (tb_permissions d) \<and> p_id p = pid \<and> (arch \<or> p_status p \<noteq> DArchived)"
  using assms by (auto simp: get_permission_by_id_def find_Some_iff)

lemma get_mutable_Inr:
  assumes "get_mutable_permission d pid = Inr p"
  shows "get_permission_by_id d pid False = Some p" and "p \<in> set (tb_permissions d)"
    and "p_id p = pid" and "\<not> p_is_system p" and "p_status p \<noteq> DArchived"
  using assms get_permission_SomeD [of d pid False]
  by (auto simp: get_mutable_permission_def split: option.splits if_splits)

lemma rows_with_db [simp]: "ps_db (with_db s d) = d"
  by (simp add: with_db_def)

lemma rows_record_event [simp]: "ps_db (record_event sv pid ty src actor b a m s) = ps_db s"
  by (simp add: record_event_def)

lemma rows_record_if_changed [simp]: "ps_db (record_if_changed sv pid src actor b a s) = ps_db s"
  by (simp add: record_if_changed_def Let_def)

lemma rows_invalidate_all [simp]: "ps_db (invalidate_all sv s) = ps_db s"
  by (simp add: invalidate_all_def)

lemma rows_invalidate [simp]: "ps_db (invalidate_permission_definition sv pid g s) = ps_db s"
  by (simp add: invalidate_permission_definition_def Let_def)

lemma rows_tags [simp]: "tb_permissions (apply_permission_tags f pid tags d) = tb_permissions d"
  by (simp add: apply_permission_tags_def Let_def)

lemma rows_drop_group [simp]: "tb_permissions (drop_group g d) = tb_permissions d"
  by (simp add: drop_group_def)

lemma rows_tag_created [simp]:
  "tb_permissions (ps_db (tag_created sv pid tags s)) = tb_permissions (ps_db s)"
  by (simp add: tag_created_def split: option.split list.split)

lemma set_tags_rows:
  "set_permission_tags sv pid tags actor rec src s = Inr (s', q) \<Longrightarrow>
     tb_permissions (ps_db s') = tb_permissions (ps_db s)"
  by (auto simp: set_permission_tags_def bindE_eq_Inr Let_def split: if_splits)

lemma resolve_status_not_archived:
  assumes "resolve_permission_status current status act False = Inr st" and "current \<noteq> Some DArchived"
  shows "st \<noteq> DArchived"
  using assms
  by (auto simp: resolve_permission_status_def bindE_eq_Inr Let_def split: option.splits if_splits)

lemma new_permission_ok:
  "validate_permission_name n0 = Inr n \<Longrightarrow> permission_ok (new_permission pid n display desc sys st)"
  by (auto simp: permission_ok_def new_permission_def dest: validate_permission_name_out split: prod.splits)

lemma create_permission_rows:
  assumes "create_permission sv pid n0 display desc sys st act tags actor s = Inr (s', q)"
  shows "\<exists>n status. validate_permission_name n0 = Inr n
     \<and> n \<notin> p_name ` set (tb_permissions (ps_db s)) \<and> status \<noteq> DArchived
     \<and> tb_permissions (ps_db s') =
         tb_permissions (ps_db s) @ [new_permission pid n display desc sys status]"
proof -
  from assms obtain n status where n: "validate_permission_name n0 = Inr n"
      "permission_by_name (ps_db s) n = None"
    and st: "resolve_permission_status None st act False = Inr status"
    and rows: "tb_permissions (ps_db s') =
       tb_permissions (ps_db s) @ [new_permission pid n display desc sys status]"
    by (auto simp: create_permission_def bindE_eq_Inr Let_def insert_permission_def split: if_split_asm)
  from n(2) have "n \<notin> p_name ` set (tb_permissions (ps_db s))"
    by (auto simp: permission_by_name_def find_None_iff)
  with n(1) rows resolve_status_not_archived [OF st] show ?thesis by blast
qed

lemma update_permission_rows:
  assumes "update_permission sv pid display desc st act tags actor s = Inr (s', q)"
  shows "\<exists>p p'. get_mutable_permission (ps_db s) pid = Inr p
     \<and> tb_permissions (ps_db s') = set_row p_id p' (tb_permissions (ps_db s))
     \<and> p_id p' = pid \<and> p_name p' = p_name p \<and> p_is_system p' = p_is_system p
     \<and> (p_resource p', p_action p', p_scope p') = (p_resource p, p_action p, p_scope p)
     \<and> (p_is_active p' \<longleftrightarrow> p_status p' = DActive)"
proof -
  let ?p = "\<lambda>p next_status. p\<lparr>p_display_name := (case display of Some x \<Rightarrow> x | None \<Rightarrow> p_display_name p),
      p_description := (case desc of Some x \<Rightarrow> Some x | None \<Rightarrow> p_description p),
      p_status := next_status, p_is_active := (next_status = DActive)\<rparr>"
  from assms obtain p next_status s2 where p: "get_mutable_permission (ps_db s) pid = Inr p"
    and s2: "retag sv pid tags actor (with_db s (store_permission (?p p next_status) (ps_db s))) = Inr s2"
    and s': "tb_permissions (ps_db s') = tb_permissions (ps_db s2)"
    by (auto simp: update_permission_def bindE_eq_Inr Let_def split: if_split_asm)
  from s2 have "tb_permissions (ps_db s2) = set_row p_id (?p p next_status) (tb_permissions (ps_db s))"
    by (auto simp: retag_def store_permission_def bindE_eq_Inr split: option.splits dest!: set_tags_rows)
  with s' p get_mutable_Inr(3) [OF p] show ?thesis by (intro exI [of _ p] exI [of _ "?p p next_status"]) simp
qed

lemma delete_permission_rows:
  assumes "delete_permission sv pid actor s = Inr (s', b)"
  shows "s' = s \<or> (\<exists>p. p \<in> set (tb_permissions (ps_db s)) \<and> p_id p = pid \<and> \<not> p_is_system p
     \<and> p_status p \<noteq> DArchived
     \<and> tb_permissions (ps_db s') =
         set_row p_id (p\<lparr>p_status := DArchived, p_is_active := False\<rparr>) (tb_permissions (ps_db s)))"
  using assms get_permission_SomeD [of "ps_db s" pid True]
  by (auto simp: delete_permission_def store_permission_def Let_def split: option.splits if_split_asm)

lemma condition_ops_rows:
  "create_permission_condition_group sv gid pid op desc actor s = Inr (s', g) \<Longrightarrow>
     tb_permissions (ps_db s') = tb_permissions (ps_db s)"
  "update_permission_condition_group sv pid gid fs opt desc actor s = Inr (s', h) \<Longrightarrow>
     tb_permissions (ps_db s') = tb_permissions (ps_db s)"
  "delete_permission_condition_group sv pid gid actor s = Inr (s', b) \<Longrightarrow>
     tb_permissions (ps_db s') = tb_permissions (ps_db s)"
  "create_permission_condition sv cid pid attr op v ty desc gido actor s = Inr (s', c) \<Longrightarrow>
     tb_permissions (ps_db s') = tb_permissions (ps_db s)"
  "update_permission_condition sv pid cid u actor s = Inr (s', co) \<Longrightarrow>
     tb_permissions (ps_db s') = tb_permissions (ps_db s)"
  "delete_permission_condition sv pid cid actor s = Inr (s', b) \<Longrightarrow>
     tb_permissions (ps_db s') = tb_permissions (ps_db s)"
  by (auto simp: create_permission_condition_group_def update_permission_condition_group_def
      delete_permission_condition_group_def create_permission_condition_def
      update_permission_condition_def delete_permission_condition_def bindE_eq_Inr Let_def
      split: option.split_asm if_split_asm)

lemma tag_link_rows:
  "tb_permissions (ps_db (add_tag_to_permission pid tid s)) = tb_permissions (ps_db s)"
  "tb_permissions (ps_db (fst (remove_tag_from_permission pid tid s))) = tb_permissions (ps_db s)"
  by (simp_all add: add_tag_to_permission_def remove_tag_from_permission_def)

lemma perm_step_change:
  assumes "perm_step sv actor op s = Inr s'"
  shows "permission_change (new_ids op) (tb_permissions (ps_db s)) (tb_permissions (ps_db s'))"
proof (cases op)
  case (CreatePermission pid name display desc sys st act tags)
  with assms obtain q where "create_permission sv pid name display desc sys st act tags actor s = Inr (s', q)"
    by (auto simp: stateE_Inr)
  from create_permission_rows [OF this] show ?thesis
    unfolding CreatePermission
    by (auto intro!: permission_change.created new_permission_ok)
      (simp_all add: new_permission_def split: prod.splits)
next
  case (UpdatePermission pid display desc st act tags)
  with assms obtain q where "update_permission sv pid display desc st act tags actor s = Inr (s', q)"
    by (auto simp: stateE_Inr)
  from update_permission_rows [OF this] obtain p p' where p: "get_mutable_permission (ps_db s) pid = Inr p"
    and rows: "tb_permissions (ps_db s') = set_row p_id p' (tb_permissions (ps_db s))"
    and p': "p_id p' = pid" "p_name p' = p_name p" "p_is_system p' = p_is_system p"
      "(p_resource p', p_action p', p_scope p') = (p_resource p, p_action p, p_scope p)"
      "p_is_active p' \<longleftrightarrow> p_status p' = DActive" by blast
  show ?thesis unfolding rows
    by (rule permission_change.modified [where p = p]) (use p' get_mutable_Inr [OF p] in simp_all)
next
  case (DeletePermission pid)
  with assms obtain b where "delete_permission sv pid actor s = Inr (s', b)" by (auto simp: stateE_Inr)
  from delete_permission_rows [OF this] show ?thesis
  proof
    assume "\<exists>p. p \<in> set (tb_permissions (ps_db s)) \<and> p_id p = pid \<and> \<not> p_is_system p
     \<and> p_status p \<noteq> DArchived \<and> tb_permissions (ps_db s') =
         set_row p_id (p\<lparr>p_status := DArchived, p_is_active := False\<rparr>) (tb_permissions (ps_db s))"
    then obtain p where p: "p \<in> set (tb_permissions (ps_db s))" "\<not> p_is_system p" "p_status p \<noteq> DArchived"
      and rows: "tb_permissions (ps_db s') =
         set_row p_id (p\<lparr>p_status := DArchived, p_is_active := False\<rparr>) (tb_permissions (ps_db s))" by blast
    show ?thesis unfolding rows by (rule permission_change.modified [where p = p]) (use p in simp_all)
  qed (simp add: permission_change.unchanged)
qed (use assms condition_ops_rows set_tags_rows tag_link_rows in
     \<open>auto simp: stateE_Inr intro: permission_change.unchanged\<close>)

text \<open>A history of operations by any actors, in which new identifiers are fresh and failed operations
  leave the state.\<close>

inductive perm_reach :: "perm_service \<Rightarrow> perm_state \<Rightarrow> perm_state \<Rightarrow> bool" for sv s where
  start: "perm_reach sv s s"
| step: "perm_reach sv s t \<Longrightarrow> new_ids op \<inter> p_id ` set (tb_permissions (ps_db t)) = {} \<Longrightarrow>
    perm_step sv actor op t = Inr u \<Longrightarrow> perm_reach sv s u"

lemma change_wf:
  assumes "permission_change ids ps qs" and "permissions_wf ps" and "ids \<inter> p_id ` set ps = {}"
  shows "permissions_wf qs"
  using assms
proof cases
  case (modified p p')
  have ok: "permission_ok p'"
    using modified assms(2) by (auto simp: permissions_wf_def permission_ok_def)
  have "map p_name (set_row p_id p' ps) = map p_name ps"
  proof -
    have "q \<in> set ps \<Longrightarrow> p_id q = p_id p' \<Longrightarrow> p_name p' = p_name q" for q
      using modified assms(2) by (auto simp: permissions_wf_def distinct_map dest: inj_onD)
    then show ?thesis by (auto simp: set_row_def)
  qed
  then show ?thesis
    using assms(2) ok modified(1) by (auto simp: permissions_wf_def set_set_row)
qed (auto simp: permissions_wf_def)

lemma change_protected:
  assumes "permission_change ids ps qs" and "permissions_wf ps" and "p \<in> set ps"
    and "p_is_system p \<or> p_status p = DArchived"
  shows "p \<in> set qs"
  using assms
proof cases
  case (modified q q')
  then have "p_id p \<noteq> p_id q'"
    using assms by (auto simp: permissions_wf_def distinct_map dest: inj_onD)
  then show ?thesis using modified(1) assms(3) by (auto simp: set_set_row)
qed simp_all

lemma reach_wf:
  assumes "perm_reach sv s t" and "permissions_wf (tb_permissions (ps_db s))"
  shows "permissions_wf (tb_permissions (ps_db t))"
  using assms
proof induction
  case (step t op actor u)
  then show ?case using change_wf [OF perm_step_change [OF step.hyps(3)]] by blast
qed

lemma reach_protected:
  assumes "perm_reach sv s t" and "permissions_wf (tb_permissions (ps_db s))"
    and "p \<in> set (tb_permissions (ps_db s))" and "p_is_system p \<or> p_status p = DArchived"
  shows "p \<in> set (tb_permissions (ps_db t))"
  using assms
proof induction
  case (step t op actor u)
  have "permissions_wf (tb_permissions (ps_db t))" using reach_wf step.hyps(1) step.prems(1) by blast
  then show ?case
    using change_protected [OF perm_step_change [OF step.hyps(3)]] step by blast
qed

section \<open>Properties\<close>



lemma get_permission_row:
  assumes "permissions_wf (tb_permissions d)" and "p \<in> set (tb_permissions d)"
    and "arch \<or> p_status p \<noteq> DArchived"
  shows "get_permission_by_id d (p_id p) arch = Some p"
proof -
  have "get_permission_by_id d (p_id p) arch \<noteq> None"
    using assms by (auto simp: get_permission_by_id_def find_None_iff)
  then obtain q where q: "get_permission_by_id d (p_id p) arch = Some q" by blast
  from get_permission_SomeD [OF q] assms have "q = p"
    by (auto simp: permissions_wf_def distinct_map dest: inj_onD)
  with q show ?thesis by simp
qed


text \<open>
  A created definition can be read back: after a successful creation, looking the name up (as it was
  given, in any case and with any surrounding space) returns the row that was created, whose status is
  active unless inactive was asked for, and never archived.
\<close>

theorem created_definition_found:
  assumes "create_permission sv pid name display desc sys st act tags actor s = Inr (s', q)"
  shows "\<exists>p n. get_permission_by_name (ps_db s') name False = Inr (Some p)
     \<and> validate_permission_name name = Inr n \<and> p_name p = n \<and> p_id p = pid
     \<and> p_display_name p = display \<and> p_description p = desc \<and> p_is_system p = sys
     \<and> (p_is_active p \<longleftrightarrow> p_status p = DActive) \<and> p_status p \<noteq> DArchived"
proof -
  from create_permission_rows [OF assms] obtain n status where
    n: "validate_permission_name name = Inr n" and new: "n \<notin> p_name ` set (tb_permissions (ps_db s))"
    and st: "status \<noteq> DArchived"
    and rows: "tb_permissions (ps_db s') =
      tb_permissions (ps_db s) @ [new_permission pid n display desc sys status]" by blast
  let ?p = "new_permission pid n display desc sys status"
  have p: "p_name ?p = n" "p_status ?p = status"
    by (simp_all add: new_permission_def split: prod.splits)
  have "List.find (\<lambda>p. p_name p = n \<and> (False \<or> p_status p \<noteq> DArchived)) (ps @ [?p]) = Some ?p"
    if "n \<notin> p_name ` set ps" for ps
    using that p st by (induction ps) auto
  then have "get_permission_by_name (ps_db s') name False = Inr (Some ?p)"
    using n rows new by (simp add: get_permission_by_name_def)
  then show ?thesis
    using n st by (intro exI [of _ ?p] exI [of _ n]) (simp add: new_permission_def split: prod.splits)
qed

lemma events_unchanged [simp]:
  "ps_events (with_db s d) = ps_events s"
  "ps_events (invalidate_permission_definition sv pid g s) = ps_events s"
  by (simp_all add: with_db_def invalidate_permission_definition_def Let_def)

lemma retag_events:
  "retag sv pid tags actor s = Inr s' \<Longrightarrow> ps_events s' = ps_events s"
  by (auto simp: retag_def set_permission_tags_def bindE_eq_Inr Let_def split: option.split_asm if_split_asm)

lemma record_if_changed_events:
  assumes "sv_history sv"
  shows "ps_events (record_if_changed sv pid src actor before after s) = ps_events s @
     (if before = after then []
      else [\<lparr>pe_permission = pid, pe_type = ''updated'', pe_source = src, pe_actor = actor,
             pe_before = Some before, pe_after = after,
             pe_metadata = ChangedFields (changed_permission_fields before after)\<rparr>])"
  using assms by (simp add: record_if_changed_def record_event_def changed_permission_fields_Nil Let_def)

text \<open>
  The history records every update, and only changes: after a successful update the log has grown by
  exactly one event, which carries the snapshots before and after and the names of the fields in which
  they differ, when they differ; and it has not grown when they are the same.
\<close>

theorem update_is_recorded:
  assumes "update_permission sv pid display desc st act tags actor s = Inr (s', q)" and "sv_history sv"
  shows "\<exists>p. get_permission_by_id (ps_db s) pid False = Some p \<and>
     (let before = permission_snapshot_of (ps_db s) p; after = permission_snapshot_of (ps_db s') q in
      ps_events s' = ps_events s @
        (if before = after then []
         else [\<lparr>pe_permission = pid, pe_type = ''updated'', pe_source = ''permission_service.update_permission'',
                pe_actor = actor, pe_before = Some before, pe_after = after,
                pe_metadata = ChangedFields (changed_permission_fields before after)\<rparr>]))"
proof -
  from assms(1) obtain p where p: "get_mutable_permission (ps_db s) pid = Inr p"
    and s': "let before = permission_snapshot_of (ps_db s) p; after = permission_snapshot_of (ps_db s') q in
      ps_events s' = ps_events s @
        (if before = after then []
         else [\<lparr>pe_permission = pid, pe_type = ''updated'', pe_source = ''permission_service.update_permission'',
                pe_actor = actor, pe_before = Some before, pe_after = after,
                pe_metadata = ChangedFields (changed_permission_fields before after)\<rparr>])"
    by (auto simp: update_permission_def bindE_eq_Inr Let_def record_if_changed_events [OF assms(2)]
        dest!: retag_events)
  then show ?thesis using get_mutable_Inr(1) [OF p] by blast
qed

section \<open>Instances\<close>

definition sample_service :: perm_service where
  "sample_service = \<lparr>sv_rt = plain_rt, sv_re_error = (\<lambda>_. []), sv_history = True, sv_cache = True,
     sv_tag_id = (\<lambda>n. n)\<rparr>"

definition small_db :: db where
  "small_db = empty_db\<lparr>
     tb_permissions := [sample_perm ''p3'' ''user:list'', (sample_perm ''p4'' ''system:root'')\<lparr>p_is_system := True\<rparr>],
     tb_tags := [\<lparr>t_id = ''t'', t_name = ''money''\<rparr>]\<rparr>"

definition sample_state :: perm_state where
  "sample_state = \<lparr>ps_db = small_db, ps_events = [], ps_deferred = [], ps_marked = False\<rparr>"

definition sample_create :: perm_op where
  "sample_create = CreatePermission ''p9'' '' Invoice:Approve_Tree'' ''Approve'' None False None (Some False)
     (Some [''money '', ''money''])"

definition after_create :: perm_state where
  "after_create = (case perm_step sample_service None sample_create sample_state of
     Inr s \<Rightarrow> s | Inl _ \<Rightarrow> sample_state)"

definition succeeds :: "err + 'a \<Rightarrow> bool" where
  "succeeds m \<longleftrightarrow> (case m of Inr _ \<Rightarrow> True | Inl _ \<Rightarrow> False)"

lemma sample_step: "perm_step sample_service None sample_create sample_state = Inr after_create"
proof -
  have "succeeds (perm_step sample_service None sample_create sample_state)" by code_simp
  then show ?thesis by (simp add: succeeds_def after_create_def split: sum.splits)
qed

lemma sample_wf: "permissions_wf (tb_permissions (ps_db sample_state))"
  by code_simp

lemma sample_reach: "perm_reach sample_service sample_state after_create"
  by (rule perm_reach.step [OF perm_reach.start _ sample_step]) code_simp


definition sample_system :: permission where
  "sample_system = (sample_perm ''p4'' ''system:root'')\<lparr>p_is_system := True\<rparr>"

lemma sample_system_row: "sample_system \<in> set (tb_permissions small_db)" "p_is_system sample_system"
  "p_status sample_system \<noteq> DArchived"
  by (simp_all add: sample_system_def small_db_def empty_db_def sample_perm_def)



theorem created_definition_found_witness:
  "\<exists>p. get_permission_by_name (ps_db after_create) '' Invoice:Approve_Tree'' False = Inr (Some p)
     \<and> p_name p = ''invoice:approve_tree'' \<and> p_status p \<noteq> DArchived"
proof -
  from sample_step obtain q where "create_permission sample_service ''p9'' '' Invoice:Approve_Tree''
      ''Approve'' None False None (Some False) (Some [''money '', ''money'']) None sample_state = Inr (after_create, q)"
    by (auto simp: sample_create_def stateE_Inr)
  moreover have "validate_permission_name '' Invoice:Approve_Tree'' = Inr ''invoice:approve_tree''" by code_simp
  ultimately show ?thesis using created_definition_found by fastforce
qed

definition sample_rename ::
  "err + perm_state \<times> permission" where
  "sample_rename = update_permission sample_service ''p3'' (Some ''List users'') None None None None None sample_state"

theorem update_is_recorded_witness:
  "\<exists>s' q. sample_rename = Inr (s', q) \<and> length (ps_events s') = 1"
proof -
  have "succeeds sample_rename" by code_simp
  then obtain s' q where r: "sample_rename = Inr (s', q)" by (auto simp: succeeds_def split: sum.splits)
  have diff: "(case sample_rename of Inr (s', q) \<Rightarrow> (case get_permission_by_id small_db ''p3'' False of
      Some p \<Rightarrow> permission_snapshot_of small_db p \<noteq> permission_snapshot_of (ps_db s') q | None \<Rightarrow> False)
      | Inl _ \<Rightarrow> False)"
    by code_simp
  have state: "sv_history sample_service" "ps_events sample_state = []" "ps_db sample_state = small_db"
    by (simp_all add: sample_service_def sample_state_def)
  from update_is_recorded [OF r [unfolded sample_rename_def] state(1)] obtain p where
    p: "get_permission_by_id small_db ''p3'' False = Some p"
    and ev: "length (ps_events s') =
      (if permission_snapshot_of small_db p = permission_snapshot_of (ps_db s') q then 0 else 1)"
    by (auto simp: Let_def state)
  from diff have "permission_snapshot_of small_db p \<noteq> permission_snapshot_of (ps_db s') q"
    by (simp add: r p)
  with ev r show ?thesis by auto
qed

text \<open>
  The guard of \<open>set_permission_tags\<close> is not the only way to a definition's tags: linking a tag directly
  changes the tags of a system definition.
\<close>

lemma system_definition_tagged_directly:
  "permission_tags (ps_db sample_state) ''p4'' = []
   \<and> map t_name (permission_tags (ps_db (add_tag_to_permission ''p4'' ''t'' sample_state)) ''p4'') = [''money'']"
  by code_simp

end
