(* ===== verification/Affected.thy ===== *)
theory Affected
  imports PermDefsProps
begin

text \<open>
  Which users a change of one permission row can affect: a user is affected only by a role the user
  holds through an active membership and that refers to the permission. This is what the fan-out of
  the invalidation relies on.
\<close>

section \<open>One row replaced\<close>

text \<open>The database with one permission row replaced, and any tags.\<close>

definition replace_permission :: "permission \<Rightarrow> tag_row list \<Rightarrow> (uuid \<times> uuid) list \<Rightarrow> db \<Rightarrow> db" where
  "replace_permission p' tags links d =
     d\<lparr>tb_permissions := set_row p_id p' (tb_permissions d), tb_tags := tags, tb_tag_links := links\<rparr>"

lemma replace_other_tables [simp]:
  "tb_users (replace_permission p t l d) = tb_users d"
  "tb_entities (replace_permission p t l d) = tb_entities d"
  "tb_closure (replace_permission p t l d) = tb_closure d"
  "tb_roles (replace_permission p t l d) = tb_roles d"
  "tb_role_permissions (replace_permission p t l d) = tb_role_permissions d"
  "tb_type_permissions (replace_permission p t l d) = tb_type_permissions d"
  "tb_user_roles (replace_permission p t l d) = tb_user_roles d"
  "tb_entity_members (replace_permission p t l d) = tb_entity_members d"
  "tb_member_roles (replace_permission p t l d) = tb_member_roles d"
  "tb_groups (replace_permission p t l d) = tb_groups d"
  "tb_role_conditions (replace_permission p t l d) = tb_role_conditions d"
  "tb_permission_conditions (replace_permission p t l d) = tb_permission_conditions d"
  "tb_permissions (replace_permission p t l d) = set_row p_id p (tb_permissions d)"
  by (simp_all add: replace_permission_def)

lemma parent_chain_entities:
  "tb_entities d' = tb_entities d \<Longrightarrow> parent_chain d' n c ids = parent_chain d n c ids"
proof (induction n arbitrary: c ids)
  case (Suc n)
  then show ?case by (simp add: entity_of_def split: option.splits)
qed simp

lemma replace_lookups [simp]:
  "role_of (replace_permission p t l d) = role_of d"
  "entity_of (replace_permission p t l d) = entity_of d"
  "ancestor_depths (replace_permission p t l d) = ancestor_depths d"
  "depth_of (replace_permission p t l d) = depth_of d"
  "membership_roles (replace_permission p t l d) = membership_roles d"
  "role_type_entries (replace_permission p t l d) = role_type_entries d"
  "direct_role_context_ancestor_ids (replace_permission p t l d) = direct_role_context_ancestor_ids d"
  by (simp_all add: fun_eq_iff role_of_def entity_of_def ancestor_depths_def depth_of_def
      membership_roles_def role_type_entries_def direct_role_context_ancestor_ids_def
      parent_chain_entities [of "replace_permission p t l d" d])

lemma replace_reach [simp]:
  "direct_role_reaches_entity cfg (replace_permission p t l d) = direct_role_reaches_entity cfg d"
  "resolve_context_entity_type cfg (replace_permission p t l d) = resolve_context_entity_type cfg d"
  by (simp_all add: fun_eq_iff direct_role_reaches_entity_def resolve_context_entity_type_def
      split: option.split)

definition replaced :: "permission \<Rightarrow> permission \<Rightarrow> permission" where
  "replaced p' q = (if p_id q = p_id p' then p' else q)"

lemma p_id_replaced [simp]: "p_id (replaced p' q) = p_id q"
  by (simp add: replaced_def)

lemma replace_role_permissions:
  "role_permissions (replace_permission p' t l d) rid = map (replaced p') (role_permissions d rid)"
proof -
  have "filter (\<lambda>p. (rid, p_id p) \<in> set (tb_role_permissions d)) (map (replaced p') ps) =
      map (replaced p') (filter (\<lambda>p. (rid, p_id p) \<in> set (tb_role_permissions d)) ps)" for ps
    by (induction ps) auto
  then show ?thesis by (simp add: role_permissions_def set_row_def replaced_def [abs_def])
qed

lemma replace_permission_of:
  "permission_of (replace_permission p' t l d) pid = map_option (replaced p') (permission_of d pid)"
proof -
  have "List.find (\<lambda>x. p_id x = pid) (map (replaced p') ps) =
      map_option (replaced p') (List.find (\<lambda>x. p_id x = pid) ps)" for ps
    by (induction ps) auto
  then show ?thesis by (simp add: permission_of_def row_by_def set_row_def replaced_def [abs_def])
qed

definition refers :: "db \<Rightarrow> uuid \<Rightarrow> uuid \<Rightarrow> bool" where
  "refers d rid pid \<longleftrightarrow> rid \<in> roles_referencing_permission d pid"

text \<open>The rows a role's permissions are taken from.\<close>

definition unaffected :: "permission \<Rightarrow> permission \<Rightarrow> bool" where
  "unaffected p' q \<longleftrightarrow>
     p_name (replaced p' q) = p_name q \<and> permission_live (replaced p' q) = permission_live q"

lemma live_names_replaced:
  "\<forall>q \<in> set ps. unaffected p' q \<Longrightarrow>
     map p_name (live_permissions (map (replaced p') ps)) = map p_name (live_permissions ps)"
  by (induction ps) (auto simp: live_permissions_def unaffected_def)

lemma matching_replaced:
  "concat (map (\<lambda>entry. case permission_of (replace_permission p' t l d) (et_permission entry) of
       Some p \<Rightarrow> if py_lower (et_type entry) = ty then [p] else [] | None \<Rightarrow> []) es) =
   map (replaced p') (concat (map (\<lambda>entry. case permission_of d (et_permission entry) of
       Some p \<Rightarrow> if py_lower (et_type entry) = ty then [p] else [] | None \<Rightarrow> []) es))"
  by (induction es) (auto simp: replace_permission_of split: option.splits)

lemma context_names_replaced:
  assumes own: "\<forall>q \<in> set (role_permissions d (r_id role)). unaffected p' q"
    and typed: "\<And>e q. e \<in> set (role_type_entries d (r_id role)) \<Longrightarrow>
      permission_of d (et_permission e) = Some q \<Longrightarrow> unaffected p' q"
  shows "map p_name (role_permissions_for_context cfg (replace_permission p' t l d) role ty) =
     map p_name (role_permissions_for_context cfg d role ty)"
proof (cases ty)
  case None
  then show ?thesis
    using live_names_replaced [OF own]
    by (simp add: role_permissions_for_context_def replace_role_permissions live_permissions_def)
next
  case (Some tt)
  let ?match = "concat (map (\<lambda>entry. case permission_of d (et_permission entry) of
       Some p \<Rightarrow> if py_lower (et_type entry) = py_lower tt then [p] else [] | None \<Rightarrow> [])
       (role_type_entries d (r_id role)))"
  have "\<forall>q \<in> set ?match. unaffected p' q"
    using typed by (auto split: option.splits if_splits)
  note m = live_names_replaced [OF this]
  note o = live_names_replaced [OF own]
  show ?thesis
    unfolding role_permissions_for_context_def Some option.case replace_lookups matching_replaced
      replace_role_permissions Let_def
    using m o by (simp del: map_concat)
qed

section \<open>Users that are not affected\<close>

lemma users_with_roles_mono: "rid \<in> rids \<Longrightarrow> uid \<in> users_with_roles d {rid} \<Longrightarrow> uid \<in> users_with_roles d rids"
  by (auto simp: users_with_roles_def)

text \<open>The replaced row keeps its name, and either its status or the user out of its reach.\<close>

definition harmless_for :: "db \<Rightarrow> uuid \<Rightarrow> permission \<Rightarrow> permission \<Rightarrow> bool" where
  "harmless_for d uid p p' \<longleftrightarrow>
     p \<in> set (tb_permissions d) \<and> p_id p' = p_id p \<and> p_name p' = p_name p
     \<and> (p_status p' = p_status p \<or> uid \<notin> users_with_roles d (roles_referencing_permission d (p_id p)))"

lemma held_role_names:
  assumes ids: "distinct (map p_id (tb_permissions d))" and safe: "harmless_for d uid p p'"
    and held: "uid \<in> users_with_roles d {r_id role}"
  shows "map p_name (role_permissions_for_context cfg (replace_permission p' t l d) role ty) =
     map p_name (role_permissions_for_context cfg d role ty)"
proof -
  have other: "unaffected p' q" if "p_id q \<noteq> p_id p'" for q
    using that by (simp add: unaffected_def replaced_def)
  have row: "unaffected p' q" if "q \<in> set (tb_permissions d)" "p_status p' = p_status p" for q
  proof (cases "p_id q = p_id p'")
    case True
    with ids safe that(1) have "q = p" by (auto simp: harmless_for_def distinct_map dest: inj_onD)
    with safe that(2) show ?thesis
      by (simp add: unaffected_def replaced_def harmless_for_def permission_live_def)
  qed (rule other)
  have away: "r_id role \<notin> roles_referencing_permission d (p_id p)" if "p_status p' \<noteq> p_status p"
    using that safe held users_with_roles_mono [of "r_id role"] by (auto simp: harmless_for_def)
  show ?thesis
  proof (rule context_names_replaced)
    show "\<forall>q \<in> set (role_permissions d (r_id role)). unaffected p' q"
    proof
      fix q assume q: "q \<in> set (role_permissions d (r_id role))"
      show "unaffected p' q"
      proof (cases "p_status p' = p_status p")
        case True
        then show ?thesis using q row by (simp add: role_permissions_def)
      next
        case False
        then show ?thesis using q away safe
          by (intro other) (force simp: role_permissions_def roles_referencing_permission_def harmless_for_def)
      qed
    qed
    fix e q
    assume e: "e \<in> set (role_type_entries d (r_id role))" and q: "permission_of d (et_permission e) = Some q"
    have qin: "q \<in> set (tb_permissions d)" "p_id q = et_permission e"
      using row_by_SomeD [OF q [unfolded permission_of_def]] by auto
    show "unaffected p' q"
    proof (cases "p_status p' = p_status p")
      case True
      then show ?thesis using row qin by simp
    next
      case False
      then show ?thesis using e qin away safe
        by (intro other) (force simp: role_type_entries_def roles_referencing_permission_def harmless_for_def)
    qed
  qed
qed

lemma covers_names:
  "(\<exists>p \<in> set ps. covers (p_name p) required) \<longleftrightarrow> list_ex (\<lambda>n. covers n required) (map p_name ps)"
  by (auto simp: list_ex_iff)

lemma direct_grant_unaffected:
  assumes "distinct (map p_id (tb_permissions d))" and "harmless_for d uid p p'"
  shows "direct_grant cfg (replace_permission p' t l d) now uid il ty target required \<longleftrightarrow>
     direct_grant cfg d now uid il ty target required"
  unfolding direct_grant_def replace_other_tables replace_lookups replace_reach covers_names
proof (intro bex_cong refl conj_cong ex_cong1)
  fix m role
  assume m: "m \<in> set (tb_user_roles d)" "urm_user m = uid" "urm_can_grant now m"
    and role: "role_of d (urm_role m) = Some role"
  have "r_id role = urm_role m" using role row_by_SomeD by (fastforce simp: role_of_def)
  with m have "uid \<in> users_with_roles d {r_id role}"
    by (auto simp: users_with_roles_def urm_can_grant_def split: if_splits)
  from held_role_names [OF assms this]
  show "list_ex (\<lambda>n. covers n required)
      (map p_name (role_permissions_for_context cfg (replace_permission p' t l d) role ty)) =
    list_ex (\<lambda>n. covers n required) (map p_name (role_permissions_for_context cfg d role ty))"
    by simp
qed

lemma member_held:
  assumes "m \<in> set (tb_entity_members d)" "em_user m = uid" "em_can_grant now m"
    and "role \<in> set (membership_roles d m)"
  shows "uid \<in> users_with_roles d {r_id role}"
  using assms by (auto simp: users_with_roles_def membership_roles_def em_can_grant_def split: if_splits)

lemma member_grant_unaffected:
  assumes "distinct (map p_id (tb_permissions d))" and "harmless_for d uid p p'"
  shows "member_grant cfg (replace_permission p' t l d) now uid required \<longleftrightarrow>
     member_grant cfg d now uid required"
  unfolding member_grant_def replace_other_tables replace_lookups covers_names
  by (intro bex_cong refl conj_cong)
    (simp add: held_role_names [OF assms member_held] del: list_ex_iff)

lemma entity_grant_unaffected:
  assumes "distinct (map p_id (tb_permissions d))" and "harmless_for d uid p p'"
  shows "entity_grant cfg (replace_permission p' t l d) now uid e ty required \<longleftrightarrow>
     entity_grant cfg d now uid e ty required"
  unfolding entity_grant_def replace_other_tables replace_lookups role_permission_names_for_context_def
  by (intro bex_cong refl conj_cong ex_cong1)
    (simp_all add: held_role_names [OF assms member_held])

lemma grants_to_unaffected:
  assumes "distinct (map p_id (tb_permissions d))" and "harmless_for d uid p p'"
  shows "grants_to cfg (replace_permission p' t l d) now uid eid required \<longleftrightarrow>
     grants_to cfg d now uid eid required"
  unfolding grants_to_def replace_reach direct_grant_unaffected [OF assms]
    member_grant_unaffected [OF assms] entity_grant_unaffected [OF assms] ..

section \<open>What the operations defer\<close>

definition reaches_user :: "uuid \<Rightarrow> invalidation list \<Rightarrow> bool" where
  "reaches_user uid is \<longleftrightarrow> InvalidateAll \<in> set is \<or> (\<exists>U. InvalidateUsers U \<in> set is \<and> uid \<in> U)"

definition deferred_by :: "perm_state \<Rightarrow> perm_state \<Rightarrow> invalidation list" where
  "deferred_by s s' = drop (length (ps_deferred s)) (ps_deferred s')"

lemma deferred_unchanged [simp]:
  "ps_deferred (with_db s d) = ps_deferred s"
  "ps_deferred (record_event sv pid ty src actor b a m s) = ps_deferred s"
  "ps_deferred (record_if_changed sv pid src actor b' a s) = ps_deferred s"
  by (simp_all add: with_db_def record_event_def record_if_changed_def Let_def)

lemma invalidation_reaches:
  assumes "sv_cache sv" and "uid \<in> users_with_roles (ps_db s) (roles_referencing_permission (ps_db s) pid)"
  shows "\<exists>is. ps_deferred (invalidate_permission_definition sv pid True s) = ps_deferred s @ is
     \<and> reaches_user uid is"
  using assms
  by (auto simp: invalidate_permission_definition_def Let_def reaches_user_def users_with_roles_def)

lemma apply_tags_shape:
  "\<exists>tags links. apply_permission_tags f pid ts d = d\<lparr>tb_tags := tags, tb_tag_links := links\<rparr>"
  unfolding apply_permission_tags_def Let_def by (intro exI, rule refl)

lemma set_tags_effect:
  assumes "set_permission_tags sv pid ts actor False src s = Inr (s', q)"
  shows "\<exists>tags links. ps_db s' = (ps_db s)\<lparr>tb_tags := tags, tb_tag_links := links\<rparr>
     \<and> ps_deferred s' = ps_deferred s"
proof -
  have "s' = with_db s (apply_permission_tags (sv_tag_id sv) pid ts (ps_db s))"
    using assms by (auto simp: set_permission_tags_def bindE_eq_Inr Let_def)
  then show ?thesis using apply_tags_shape [of "sv_tag_id sv" pid ts "ps_db s"] by auto
qed

lemma retag_effect:
  assumes "retag sv pid tags actor s = Inr s'"
  shows "\<exists>tags links. ps_db s' = (ps_db s)\<lparr>tb_tags := tags, tb_tag_links := links\<rparr>
     \<and> ps_deferred s' = ps_deferred s"
proof (cases tags)
  case None
  with assms have "s' = s" by (simp add: retag_def)
  then show ?thesis by (intro exI [of _ "tb_tags (ps_db s)"] exI [of _ "tb_tag_links (ps_db s)"]) simp
next
  case (Some ts)
  with assms set_tags_effect show ?thesis by (auto simp: retag_def bindE_eq_Inr)
qed

lemma update_effect:
  assumes "update_permission sv pid display desc st act tags actor s = Inr (s', q)"
  shows "\<exists>p p' ts ls s2. p \<in> set (tb_permissions (ps_db s)) \<and> p_id p = pid \<and> p_id p' = pid \<and> p_name p' = p_name p
     \<and> ps_db s' = replace_permission p' ts ls (ps_db s) \<and> ps_db s2 = ps_db s'
     \<and> ps_deferred s2 = ps_deferred s
     \<and> ps_deferred s' = ps_deferred (invalidate_permission_definition sv pid (p_status p' \<noteq> p_status p) s2)"
proof -
  let ?p = "\<lambda>p next_status. p\<lparr>p_display_name := (case display of Some x \<Rightarrow> x | None \<Rightarrow> p_display_name p),
      p_description := (case desc of Some x \<Rightarrow> Some x | None \<Rightarrow> p_description p),
      p_status := next_status, p_is_active := (next_status = DActive)\<rparr>"
  from assms obtain p n s2 where p: "get_mutable_permission (ps_db s) pid = Inr p"
    and s2: "retag sv pid tags actor (with_db s (store_permission (?p p n) (ps_db s))) = Inr s2"
    and s': "ps_db s' = ps_db s2"
      "ps_deferred s' = ps_deferred (invalidate_permission_definition sv pid (n \<noteq> p_status p) s2)"
    by (auto simp: update_permission_def bindE_eq_Inr Let_def split: if_split_asm)
  from retag_effect [OF s2] obtain ts ls where
    "ps_db s2 = (store_permission (?p p n) (ps_db s))\<lparr>tb_tags := ts, tb_tag_links := ls\<rparr>"
    "ps_deferred s2 = ps_deferred s" by auto
  with s' get_mutable_Inr [OF p] show ?thesis
    by (intro exI [of _ p] exI [of _ "?p p n"] exI [of _ ts] exI [of _ ls] exI [of _ s2])
      (simp add: store_permission_def replace_permission_def)
qed

lemma delete_effect:
  assumes "delete_permission sv pid actor s = Inr (s', b)"
  shows "s' = s \<or> (\<exists>p p' s2. p \<in> set (tb_permissions (ps_db s)) \<and> p_id p = pid \<and> p_id p' = pid \<and> p_name p' = p_name p
     \<and> ps_db s' = replace_permission p' (tb_tags (ps_db s)) (tb_tag_links (ps_db s)) (ps_db s)
     \<and> ps_db s2 = ps_db s' \<and> ps_deferred s2 = ps_deferred s
     \<and> ps_deferred s' = ps_deferred (invalidate_permission_definition sv pid True s2))"
proof (cases "get_permission_by_id (ps_db s) pid True")
  case (Some p)
  let ?p = "p\<lparr>p_status := DArchived, p_is_active := False\<rparr>"
  show ?thesis
  proof (cases "p_status p = DArchived")
    case False
    let ?s2 = "\<lambda>b a. record_event sv pid ''deleted'' ''permission_service.delete_permission'' actor (Some b) a
      Archived (with_db s (store_permission ?p (ps_db s)))"
    have "\<exists>b a. s' = invalidate_permission_definition sv pid True (?s2 b a)"
      using assms Some False by (auto simp: delete_permission_def Let_def split: if_split_asm)
    then obtain b a where s': "s' = invalidate_permission_definition sv pid True (?s2 b a)" by blast
    then have "ps_db s' = replace_permission ?p (tb_tags (ps_db s)) (tb_tag_links (ps_db s)) (ps_db s)"
      by (simp add: store_permission_def replace_permission_def)
    then show ?thesis
      using get_permission_SomeD [OF Some] s'
      by (intro disjI2 exI [of _ p] exI [of _ ?p] exI [of _ "?s2 b a"]) simp
  qed (use assms Some in \<open>simp add: delete_permission_def\<close>)
qed (use assms in \<open>simp add: delete_permission_def\<close>)

lemma replaced_row_reaches:
  assumes ids: "distinct (map p_id (tb_permissions (ps_db s)))" and cache: "sv_cache sv"
    and row: "p \<in> set (tb_permissions (ps_db s))" "p_id p = pid" "p_id p' = pid" "p_name p' = p_name p"
    and db: "ps_db s' = replace_permission p' ts ls (ps_db s)" "ps_db s2 = ps_db s'"
    and d: "ps_deferred s2 = ps_deferred s"
    and d': "ps_deferred s' = ps_deferred (invalidate_permission_definition sv pid g s2)"
    and g: "p_status p' \<noteq> p_status p \<Longrightarrow> g"
    and changed: "grants_to cfg (ps_db s') now uid eid required \<noteq> grants_to cfg (ps_db s) now uid eid required"
  shows "reaches_user uid (deferred_by s s')"
proof -
  have "\<not> harmless_for (ps_db s) uid p p'"
    using grants_to_unaffected [OF ids] changed unfolding db(1) by blast
  then have "p_status p' \<noteq> p_status p" and user: "uid \<in> users_with_roles (ps_db s) (roles_referencing_permission (ps_db s) pid)"
    using row by (auto simp: harmless_for_def)
  with g have g by blast
  have "users_with_roles (ps_db s2) (roles_referencing_permission (ps_db s2) pid) =
      users_with_roles (ps_db s) (roles_referencing_permission (ps_db s) pid)"
    unfolding db by (simp add: users_with_roles_def roles_referencing_permission_def)
  then obtain "is" where "ps_deferred s' = ps_deferred s @ is" "reaches_user uid is"
    using invalidation_reaches [OF cache, of uid s2 pid] user d d' \<open>g\<close> by auto
  then show ?thesis by (simp add: deferred_by_def)
qed

lemma change_reaches:
  assumes wf: "permissions_wf (tb_permissions (ps_db s))" and cache: "sv_cache sv"
    and op: "update_permission sv pid display desc st act tags actor s = Inr (s', q)
       \<or> delete_permission sv pid actor s = Inr (s', b)"
    and changed: "grants_to cfg (ps_db s') now uid eid required \<noteq> grants_to cfg (ps_db s) now uid eid required"
  shows "reaches_user uid (deferred_by s s')"
proof -
  have ids: "distinct (map p_id (tb_permissions (ps_db s)))" using wf by (simp add: permissions_wf_def)
  note reaches = replaced_row_reaches [OF ids cache]
  from op show ?thesis
  proof
    assume "update_permission sv pid display desc st act tags actor s = Inr (s', q)"
    from update_effect [OF this] show ?thesis using reaches changed by blast
  next
    assume "delete_permission sv pid actor s = Inr (s', b)"
    from delete_effect [OF this] show ?thesis using reaches changed by blast
  qed
qed

section \<open>Properties\<close>

text \<open>
  C19. A change of a definition reaches everyone it affects: when updating or archiving a permission
  changes what the roles of a user grant, in any context and at any instant, then what the operation
  publishes after the commit invalidates that user (the whole cache, or a fan-out that contains the
  user). The fan-out over the holders of the referring roles, its limit and the exceptions for
  unreferenced definitions never leave out an affected user.
\<close>

theorem definition_change_reaches_affected_users:
  assumes "permissions_wf (tb_permissions (ps_db s))" and "sv_cache sv"
    and "update_permission sv pid display desc st act tags actor s = Inr (s', q)
       \<or> delete_permission sv pid actor s = Inr (s', b)"
    and "grants_to cfg (ps_db s') now uid eid required \<noteq> grants_to cfg (ps_db s) now uid eid required"
  shows "reaches_user uid (deferred_by s s')"
  using assms by (rule change_reaches)

subsection \<open>Instance\<close>

definition held_db :: db where
  "held_db = small_db\<lparr>tb_permissions := [sample_perm ''p3'' ''user:list''],
     tb_roles := [sample_role ''r'' None], tb_role_permissions := [(''r'', ''p3'')],
     tb_user_roles := [\<lparr>urm_id = ''m'', urm_user = ''alice'', urm_role = ''r'', urm_assigned_at = 0, urm_assigned_by = None, urm_from = None,
       urm_until = None, urm_status = MActive, urm_revoked_at = None, urm_revoked_by = None,
       urm_reason = None\<rparr>]\<rparr>"

definition held_state :: perm_state where
  "held_state = \<lparr>ps_db = held_db, ps_events = [], ps_deferred = [], ps_marked = False\<rparr>"

definition held_archive :: "err + perm_state \<times> bool" where
  "held_archive = delete_permission sample_service ''p3'' None held_state"

definition held_check :: "db \<Rightarrow> err + bool" where
  "held_check d = granted (check_permission sample_cfg d sample_env no_cache (Some ''alice'') ''user:list''
     None None None None (Some sample_user))"

lemma held_check_grants:
  assumes "tb_permission_conditions d = []" and "tb_role_conditions d = []"
  shows "held_check d = Inr (grants_to sample_cfg d 50 ''alice'' None ''user:list'')"
proof -
  have "\<not> abac_active sample_cfg d" using assms by (simp add: abac_active_def abac_conditions_exist_def)
  moreover have "\<not> u_superuser sample_user" and "ce_now sample_env = 50"
    by (simp_all add: sample_user_def new_user_def sample_env_def)
  ultimately show ?thesis
    using granted_verdict [of d "''alice''" "Some sample_user" sample_user sample_cfg no_cache]
    by (simp add: held_check_def resolve_user_def)
qed

theorem definition_change_reaches_affected_users_witness:
  "\<exists>s' b. held_archive = Inr (s', b) \<and> reaches_user ''alice'' (deferred_by held_state s')"
proof -
  have before: "held_check (ps_db held_state) = Inr True" by code_simp
  have "(case held_archive of Inr (s', b) \<Rightarrow> held_check (ps_db s') = Inr False
        \<and> tb_permission_conditions (ps_db s') = [] \<and> tb_role_conditions (ps_db s') = [] | Inl _ \<Rightarrow> False)"
    by code_simp
  then obtain s' b where r: "held_archive = Inr (s', b)" and after: "held_check (ps_db s') = Inr False"
    and cs: "tb_permission_conditions (ps_db s') = []" "tb_role_conditions (ps_db s') = []"
    by (auto split: sum.splits)
  have wf: "permissions_wf (tb_permissions (ps_db held_state))" by code_simp
  have "tb_permission_conditions (ps_db held_state) = []" "tb_role_conditions (ps_db held_state) = []"
    by (simp_all add: held_state_def held_db_def small_db_def empty_db_def)
  from held_check_grants [OF this] before held_check_grants [OF cs] after
  have "grants_to sample_cfg (ps_db s') 50 ''alice'' None ''user:list'' \<noteq>
      grants_to sample_cfg (ps_db held_state) 50 ''alice'' None ''user:list''" by simp
  moreover have "sv_cache sample_service" by (simp add: sample_service_def)
  ultimately show ?thesis
    using definition_change_reaches_affected_users [OF wf _ disjI2 [OF r [unfolded held_archive_def]]] r by blast
qed

end
