(* ===== verification/Password.thy ===== *)
theory Password
  imports Validation
begin

text \<open>
  Password rules of \<open>outlabs_auth/utils/password.py\<close>. The hash library (Argon2 and bcrypt through
  \<open>pwdlib\<close>) is a parameter: hashing is a function of the text, verification may raise \<open>PwdlibError\<close>
  (\<open>None\<close>). The asynchronous variants run the same function in a thread and add nothing to the result.
\<close>

section \<open>Strength\<close>

definition PASSWORD_SPECIAL_CHARACTERS :: string where
  "PASSWORD_SPECIAL_CHARACTERS = ''!@#$%^&*(),.?'' @ [CHR 0x22] @ '':{}|<>'' @ [CHR 0x5C]"

record password_config =
  password_min_length :: int
  require_uppercase :: bool
  require_digit :: bool
  require_special_char :: bool

text \<open>\<open>validate_password_strength\<close>: validity and, when invalid, the message of the first rule broken.\<close>

definition validate_password_strength ::
  "string \<Rightarrow> int \<Rightarrow> bool \<Rightarrow> bool \<Rightarrow> bool \<Rightarrow> bool \<Rightarrow> bool \<times> string option" where
  "validate_password_strength password min_length upper lower digit special =
     (if int (length password) < min_length
      then (False, Some (''Password must be at least '' @ show_int min_length @ '' characters long''))
      else if upper \<and> \<not> list_ex is_ascii_upper password
      then (False, Some ''Password must contain at least one uppercase letter'')
      else if lower \<and> \<not> list_ex is_ascii_lower password
      then (False, Some ''Password must contain at least one lowercase letter'')
      else if digit \<and> \<not> list_ex is_digit password
      then (False, Some ''Password must contain at least one digit'')
      else if special \<and> \<not> list_ex (\<lambda>c. c \<in> set PASSWORD_SPECIAL_CHARACTERS) password
      then (False, Some ''Password must contain at least one special character'')
      else (True, None))"

text \<open>\<open>validate_password_with_config\<close>: lower case is always required, the default of the callee.\<close>

definition validate_password_with_config :: "string \<Rightarrow> password_config \<Rightarrow> err + unit" where
  "validate_password_with_config password config =
     (case validate_password_strength password (password_min_length config)
             (require_uppercase config) True (require_digit config) (require_special_char config) of
        (is_valid, error_message) \<Rightarrow>
          if \<not> is_valid
          then Inl (Auth InvalidPasswordError
                 (case error_message of
                    Some m \<Rightarrow> if m \<noteq> [] then m
                               else ''Password does not meet the configured requirements''
                  | None \<Rightarrow> ''Password does not meet the configured requirements'')
                 [(''password_requirements'', PDict
                    [(''min_length'', PInt (password_min_length config)),
                     (''require_uppercase'', PBool (require_uppercase config)),
                     (''require_digit'', PBool (require_digit config)),
                     (''require_special_char'', PBool (require_special_char config))])])
          else Inr ())"

section \<open>Hashing\<close>

record hasher =
  hash :: "string \<Rightarrow> string"
  verify :: "string \<Rightarrow> string \<Rightarrow> bool option"
  verify_and_update :: "string \<Rightarrow> string \<Rightarrow> (bool \<times> string option) option"

definition hash_password :: "hasher \<Rightarrow> string \<Rightarrow> string" where
  "hash_password h password = hash h password"

definition verify_password :: "hasher \<Rightarrow> string \<Rightarrow> string \<Rightarrow> bool" where
  "verify_password h plain hashed = (case verify h plain hashed of None \<Rightarrow> False | Some b \<Rightarrow> b)"

definition verify_and_upgrade_password :: "hasher \<Rightarrow> string \<Rightarrow> string \<Rightarrow> bool \<times> string option" where
  "verify_and_upgrade_password h plain hashed =
     (case verify_and_update h plain hashed of None \<Rightarrow> (False, None) | Some r \<Rightarrow> r)"

definition generate_password_hash :: "hasher \<Rightarrow> string \<Rightarrow> password_config \<Rightarrow> err + string" where
  "generate_password_hash h password config =
     bindE (validate_password_with_config password config) (\<lambda>_. Inr (hash_password h password))"

section \<open>Properties\<close>

definition strong :: "password_config \<Rightarrow> string \<Rightarrow> bool" where
  "strong config p \<longleftrightarrow>
     password_min_length config \<le> int (length p)
     \<and> (require_uppercase config \<longrightarrow> (\<exists>c \<in> set p. is_ascii_upper c))
     \<and> (\<exists>c \<in> set p. is_ascii_lower c)
     \<and> (require_digit config \<longrightarrow> (\<exists>c \<in> set p. is_digit c))
     \<and> (require_special_char config \<longrightarrow> (\<exists>c \<in> set p. c \<in> set PASSWORD_SPECIAL_CHARACTERS))"

lemma validate_password_iff: "validate_password_with_config p config = Inr () \<longleftrightarrow> strong config p"
  by (auto simp: validate_password_with_config_def validate_password_strength_def strong_def
      list_ex_iff split: if_splits)

text \<open>
  C40. A hash is produced exactly for the passwords that satisfy every configured rule (a lower-case
  letter is always required); any other password raises \<open>InvalidPasswordError\<close> and is never hashed.
\<close>

theorem password_hashed_iff_strong:
  "(generate_password_hash h p config = Inr x \<longleftrightarrow> strong config p \<and> x = hash_password h p)
   \<and> ((\<exists>m d. generate_password_hash h p config = Inl (Auth InvalidPasswordError m d)) \<longleftrightarrow> \<not> strong config p)"
proof (cases "validate_password_with_config p config")
  case (Inl e)
  then have "\<not> strong config p" by (simp flip: validate_password_iff)
  moreover from Inl have "\<exists>m d. e = Auth InvalidPasswordError m d"
    by (auto simp: validate_password_with_config_def split: prod.splits if_splits)
  ultimately show ?thesis using Inl by (auto simp: generate_password_hash_def)
next
  case (Inr u)
  then have "strong config p" by (simp flip: validate_password_iff)
  with Inr show ?thesis by (auto simp: generate_password_hash_def)
qed

end
