(* ===== verification/RateLimit.thy ===== *)
theory RateLimit
  imports Errors
begin

text \<open>
  The rate limiters of \<open>outlabs_auth/utils/rate_limit.py\<close>: the in-memory sliding window, its cleanup, and
  the checks that prefer a Redis counter. Instants are microseconds. The Redis client is a parameter:
  whether it is available and what its counter returns (\<open>None\<close> when the operation failed). The lock of
  the limiter makes each operation one step.
\<close>

section \<open>The sliding window\<close>

definition usec :: int where "usec = 1000000"

text \<open>\<open>_requests\<close>, a \<open>defaultdict(list)\<close>.\<close>

type_synonym limiter = "string \<rightharpoonup> datetime list"

definition requests :: "limiter \<Rightarrow> string \<Rightarrow> datetime list" where
  "requests st key = (case st key of None \<Rightarrow> [] | Some ts \<Rightarrow> ts)"

text \<open>
  \<open>is_rate_limited\<close>: the new state, and the answer or the \<open>ValueError\<close> of \<open>min\<close> on an empty list (when
  no request is allowed at all).
\<close>

definition is_rate_limited ::
  "datetime \<Rightarrow> string \<Rightarrow> int \<Rightarrow> int \<Rightarrow> limiter \<Rightarrow> limiter \<times> (pyerr + bool \<times> int)" where
  "is_rate_limited now key max_requests window_seconds st =
     (let window_start = now - window_seconds * usec;
          recent = filter (\<lambda>t. window_start < t) (requests st key);
          st1 = st(key \<mapsto> recent)
      in if max_requests \<le> int (length recent) then
           (st1, if recent = [] then Inl ValueError
                 else let oldest = Min (set recent);
                          reset_time = oldest + window_seconds * usec;
                          seconds_until_reset = (reset_time - now) div usec
                      in Inr (True, max seconds_until_reset 1))
         else (st1(key \<mapsto> recent @ [now]), Inr (False, 0)))"

text \<open>\<open>cleanup\<close>: keys whose requests are all older than an hour.\<close>

definition stale :: "datetime \<Rightarrow> datetime list \<Rightarrow> bool" where
  "stale now ts \<longleftrightarrow> ts = [] \<or> Max (set ts) < now - 3600 * usec"

definition cleanup :: "datetime \<Rightarrow> limiter \<Rightarrow> limiter" where
  "cleanup now st = (\<lambda>key. case st key of None \<Rightarrow> None | Some ts \<Rightarrow> if stale now ts then None else Some ts)"

section \<open>Checks with a Redis counter\<close>

record redis_counter =
  rc_available :: bool
  rc_has_increment :: bool
  rc_increment :: "string \<Rightarrow> int \<Rightarrow> int option"

text \<open>The part the checks share: answer or exception, with the local limiter's state.\<close>

type_synonym rate_answer = "limiter \<times> (err + bool \<times> int)"

definition local_answer :: "datetime \<Rightarrow> string \<Rightarrow> int \<Rightarrow> int \<Rightarrow> limiter \<Rightarrow> rate_answer" where
  "local_answer now key m w st =
     (let (st1, r) = is_rate_limited now key m w st
      in (st1, case r of Inl e \<Rightarrow> Inl (Builtin e) | Inr a \<Rightarrow> Inr a))"

definition login_unavailable :: err where
  "login_unavailable = Auth AuthenticationInfrastructureError
     ''Password login is temporarily unavailable because distributed rate limiting is unavailable''
     [(''control'', PStr ''login_ip_rate_limit''), (''retry_after_seconds'', PInt 5)]"

definition check_login_ip_rate_limit ::
  "datetime \<Rightarrow> string \<Rightarrow> redis_counter option \<Rightarrow> int \<Rightarrow> int \<Rightarrow> bool \<Rightarrow> string \<Rightarrow> string \<Rightarrow> limiter
     \<Rightarrow> rate_answer" where
  "check_login_ip_rate_limit now ip_address redis m w redis_required failure_mode namespace st =
     (let key = namespace @ '':login_ip:'' @ ip_address;
          counted = (case redis of
              Some rc \<Rightarrow> if rc_available rc \<and> rc_has_increment rc then rc_increment rc key w else None
            | None \<Rightarrow> None)
      in case counted of
           Some count \<Rightarrow> (st, Inr (m < count, if m < count then w else 0))
         | None \<Rightarrow>
             if redis_required \<and> failure_mode = ''fail_closed'' then (st, Inl login_unavailable)
             else local_answer now key m w st)"

text \<open>The other checks: an available counter decides, also when its operation failed.\<close>

definition counter_or_local ::
  "datetime \<Rightarrow> string \<Rightarrow> redis_counter option \<Rightarrow> int \<Rightarrow> int \<Rightarrow> limiter \<Rightarrow> rate_answer" where
  "counter_or_local now key redis m w st =
     (case redis of
        Some rc \<Rightarrow>
          if rc_available rc then
            (case rc_increment rc key w of
               Some count \<Rightarrow> if m < count then (st, Inr (True, w)) else (st, Inr (False, 0))
             | None \<Rightarrow> (st, Inr (False, 0)))
          else local_answer now key m w st
      | None \<Rightarrow> local_answer now key m w st)"

definition check_forgot_password_rate_limit ::
  "datetime \<Rightarrow> string \<Rightarrow> redis_counter option \<Rightarrow> int \<Rightarrow> int \<Rightarrow> limiter \<Rightarrow> rate_answer" where
  "check_forgot_password_rate_limit now email redis m w st =
     counter_or_local now (''forgot_password:'' @ py_lower email) redis m w st"

definition check_magic_link_rate_limit ::
  "datetime \<Rightarrow> string \<Rightarrow> redis_counter option \<Rightarrow> int \<Rightarrow> int \<Rightarrow> limiter \<Rightarrow> rate_answer" where
  "check_magic_link_rate_limit now email redis m w st =
     counter_or_local now (''magic_link:'' @ py_lower email) redis m w st"

text \<open>\<open>(channel or "email").strip().lower() or "email"\<close>\<close>

definition normalized_channel :: "string \<Rightarrow> string" where
  "normalized_channel channel =
     (let c = py_lower (py_strip (if channel = [] then ''email'' else channel))
      in if c = [] then ''email'' else c)"

definition check_access_code_request_rate_limit ::
  "datetime \<Rightarrow> string \<Rightarrow> redis_counter option \<Rightarrow> string \<Rightarrow> int \<Rightarrow> int \<Rightarrow> limiter \<Rightarrow> rate_answer" where
  "check_access_code_request_rate_limit now ident redis channel m w st =
     counter_or_local now
       (''access_code_request:'' @ normalized_channel channel @ '':'' @ py_lower ident) redis m w st"

definition check_access_code_verify_rate_limit ::
  "datetime \<Rightarrow> string \<Rightarrow> redis_counter option \<Rightarrow> string \<Rightarrow> int \<Rightarrow> int \<Rightarrow> limiter \<Rightarrow> rate_answer" where
  "check_access_code_verify_rate_limit now ident redis channel m w st =
     counter_or_local now
       (''access_code_verify:'' @ normalized_channel channel @ '':'' @ py_lower ident) redis m w st"

definition check_phone_verify_request_rate_limit ::
  "datetime \<Rightarrow> string \<Rightarrow> redis_counter option \<Rightarrow> int \<Rightarrow> int \<Rightarrow> limiter \<Rightarrow> rate_answer" where
  "check_phone_verify_request_rate_limit now user_id redis m w st =
     counter_or_local now (''phone_verify_request:'' @ user_id) redis m w st"

definition check_phone_verify_confirm_rate_limit ::
  "datetime \<Rightarrow> string \<Rightarrow> redis_counter option \<Rightarrow> int \<Rightarrow> int \<Rightarrow> limiter \<Rightarrow> rate_answer" where
  "check_phone_verify_confirm_rate_limit now user_id redis m w st =
     counter_or_local now (''phone_verify_confirm:'' @ user_id) redis m w st"

section \<open>Histories\<close>

text \<open>
  A history of requests and cleanups on one limiter with one configuration, in the order of time. The
  log holds the admitted requests; it is not part of the program.
\<close>

datatype limiter_event = Request string datetime | Cleanup datetime

fun event_time :: "limiter_event \<Rightarrow> datetime" where
  "event_time (Request _ t) = t"
| "event_time (Cleanup t) = t"

fun limiter_step ::
  "int \<Rightarrow> int \<Rightarrow> limiter_event \<Rightarrow> limiter \<times> (string \<times> datetime) list \<Rightarrow> limiter \<times> (string \<times> datetime) list" where
  "limiter_step m w (Request key now) (st, hist) =
     (let (st1, r) = is_rate_limited now key m w st
      in (st1, if r = Inr (False, 0) then hist @ [(key, now)] else hist))"
| "limiter_step m w (Cleanup now) (st, hist) = (cleanup now st, hist)"

inductive limiter_reach ::
  "int \<Rightarrow> int \<Rightarrow> datetime \<Rightarrow> limiter \<times> (string \<times> datetime) list \<Rightarrow> bool" for m w where
  empty: "limiter_reach m w now (Map.empty, [])"
| step: "limiter_reach m w now c \<Longrightarrow> now \<le> event_time ev \<Longrightarrow>
    limiter_reach m w (event_time ev) (limiter_step m w ev c)"

text \<open>The requests of a key that were admitted less than the window ago.\<close>

definition admitted :: "(string \<times> datetime) list \<Rightarrow> string \<Rightarrow> datetime list" where
  "admitted hist key = map snd (filter (\<lambda>(k, _). k = key) hist)"

definition admitted_recently :: "int \<Rightarrow> datetime \<Rightarrow> (string \<times> datetime) list \<Rightarrow> string \<Rightarrow> datetime list" where
  "admitted_recently w now hist key = filter (\<lambda>t. now - w * usec < t) (admitted hist key)"

definition limiter_inv ::
  "int \<Rightarrow> datetime \<Rightarrow> limiter \<times> (string \<times> datetime) list \<Rightarrow> bool" where
  "limiter_inv w now c \<longleftrightarrow>
     (\<forall>key. filter (\<lambda>t. now - w * usec < t) (requests (fst c) key) = admitted_recently w now (snd c) key)
     \<and> (\<forall>key. \<forall>t \<in> set (requests (fst c) key). t \<le> now)"

lemma requests_upd [simp]:
  "requests (st(key \<mapsto> ts)) k = (if k = key then ts else requests st k)"
  by (simp add: requests_def)

lemma requests_cleanup:
  "requests (cleanup now st) k = (if stale now (requests st k) then [] else requests st k)"
  by (auto simp: requests_def cleanup_def stale_def split: option.splits)

lemma later_window:
  assumes "now \<le> now'"
    and "filter (\<lambda>t. now - w * usec < t) xs = filter (\<lambda>t. now - w * usec < t) ys"
  shows "filter (\<lambda>t. now' - w * usec < t) xs = filter (\<lambda>t. now' - w * usec < t) ys"
proof -
  have "filter (\<lambda>t. now' - w * usec < t) zs =
      filter (\<lambda>t. now' - w * usec < t) (filter (\<lambda>t. now - w * usec < t) zs)" for zs
    using assms(1) by (induction zs) auto
  from this [of xs] this [of ys] assms(2) show ?thesis by simp
qed

lemma admitted_snoc:
  "admitted (hist @ [(key, t)]) k = (if k = key then admitted hist k @ [t] else admitted hist k)"
  by (simp add: admitted_def)

lemma invD:
  assumes "limiter_inv w now (st, hist)" and "now \<le> now'"
  shows "filter (\<lambda>t. now' - w * usec < t) (requests st k) = admitted_recently w now' hist k"
  using later_window [OF assms(2), of w "requests st k" "admitted hist k"] assms(1)
  by (simp add: limiter_inv_def admitted_recently_def)

text \<open>The answer to a request, against the admitted requests.\<close>

lemma request_answer:
  assumes "limiter_inv w now (st, hist)" and "now \<le> now'"
  shows "is_rate_limited now' key m w st =
     (let recent = admitted_recently w now' hist key; st1 = st(key \<mapsto> recent) in
      if m \<le> int (length recent) then
        (st1, if recent = [] then Inl ValueError
              else Inr (True, max ((Min (set recent) + w * usec - now') div usec) 1))
      else (st1(key \<mapsto> recent @ [now']), Inr (False, 0)))"
  unfolding is_rate_limited_def invD [OF assms] Let_def by simp

lemma limiter_inv_request:
  assumes inv: "limiter_inv w now (st, hist)" and le: "now \<le> now'"
  shows "limiter_inv w now' (limiter_step m w (Request key now') (st, hist))"
proof -
  let ?recent = "admitted_recently w now' hist key"
  have old: "filter (\<lambda>t. now' - w * usec < t) (requests st k) = admitted_recently w now' hist k" for k
    by (rule invD [OF assms])
  have bound: "t \<le> now'" if "t \<in> set (requests st k)" for k t
    using that inv le unfolding limiter_inv_def by (metis fst_conv order_trans)
  have recent: "filter (\<lambda>t. now' - w * usec < t) ?recent = ?recent" and "\<forall>t \<in> set ?recent. t \<le> now'"
    using bound old [of key, symmetric] by (auto simp: admitted_recently_def)
  then show ?thesis
    using old bound
    by (auto simp: request_answer [OF assms] limiter_inv_def Let_def admitted_recently_def admitted_snoc)
qed

lemma limiter_inv_cleanup:
  assumes inv: "limiter_inv w now (st, hist)" and le: "now \<le> now'" and hour: "w \<le> 3600"
  shows "limiter_inv w now' (limiter_step m w (Cleanup now') (st, hist))"
proof -
  have old: "filter (\<lambda>t. now' - w * usec < t) (requests st k) = admitted_recently w now' hist k" for k
    by (rule invD [OF inv le])
  have gone: "admitted_recently w now' hist k = []" if s: "stale now' (requests st k)" for k
  proof -
    have "t < now' - 3600 * usec" if "t \<in> set (requests st k)" for t
    proof -
      have "t \<le> Max (set (requests st k))" using that by simp
      moreover have "Max (set (requests st k)) < now' - 3600 * usec"
        using s that by (auto simp: stale_def)
      ultimately show ?thesis by (rule le_less_trans)
    qed
    then have "t \<le> now' - w * usec" if "t \<in> set (requests st k)" for t
      using that hour by (force simp: usec_def)
    then have "filter (\<lambda>t. now' - w * usec < t) (requests st k) = []"
      by (auto simp: filter_empty_conv not_less)
    with old show ?thesis by simp
  qed
  have bound: "t \<le> now'" if "t \<in> set (requests st k)" for k t
    using that inv le unfolding limiter_inv_def by (metis fst_conv order_trans)
  show ?thesis
    using old gone bound by (auto simp: limiter_inv_def requests_cleanup split: if_splits)
qed

lemma limiter_reach_inv:
  assumes "limiter_reach m w now c" and "w \<le> 3600"
  shows "limiter_inv w now c"
  using assms
proof induction
  case (empty now)
  then show ?case by (simp add: limiter_inv_def requests_def admitted_recently_def admitted_def)
next
  case (step now c ev)
  obtain st hist where c: "c = (st, hist)" by (cases c)
  show ?case
    using limiter_inv_request [of w now st hist] limiter_inv_cleanup [of w now st hist] step
    by (cases ev) (simp_all add: c)
qed

section \<open>Properties\<close>


text \<open>Two requests, then a third inside the window of a minute with a limit of two.\<close>

definition two_requests :: "limiter \<times> (string \<times> datetime) list" where
  "two_requests = limiter_step 2 60 (Request ''k'' 5000000)
     (limiter_step 2 60 (Request ''k'' 1000000) (Map.empty, []))"

lemma two_requests_reach: "limiter_reach 2 60 5000000 two_requests"
  unfolding two_requests_def
  using limiter_reach.step [OF limiter_reach.step [OF limiter_reach.empty [where now = 0]],
      of "Request ''k'' 1000000" "Request ''k'' 5000000"]
  by simp

lemma two_requests_eq:
  "two_requests = ([''k'' \<mapsto> [1000000, 5000000]], [(''k'', 1000000), (''k'', 5000000)])"
  by (simp add: two_requests_def is_rate_limited_def requests_def usec_def Let_def)


text \<open>
  An available counter whose operation failed lets every request through these checks, while the login
  check falls back to the local window.
\<close>

lemma failed_counter_admits:
  assumes "rc_available rc" and "rc_increment rc (''forgot_password:'' @ py_lower email) w = None"
  shows "check_forgot_password_rate_limit now email (Some rc) m w st = (st, Inr (False, 0))"
  using assms by (simp add: check_forgot_password_rate_limit_def counter_or_local_def)

lemma failed_counter_login_falls_back:
  assumes "rc_increment rc (ns @ '':login_ip:'' @ ip) w = None"
  shows "check_login_ip_rate_limit now ip (Some rc) m w False mode ns st =
    local_answer now (ns @ '':login_ip:'' @ ip) m w st"
  using assms by (simp add: check_login_ip_rate_limit_def Let_def)

text \<open>
  With a window of two hours, a cleanup forgets requests that are still inside it: the second request in
  ninety minutes is admitted though one is allowed.
\<close>

lemma cleanup_forgets_long_windows:
  "snd (is_rate_limited 5400000000 ''k'' 1 7200
       (cleanup 5400000000 (fst (is_rate_limited 0 ''k'' 1 7200 Map.empty)))) = Inr (False, 0)
   \<and> snd (is_rate_limited 5400000000 ''k'' 1 7200
       (fst (is_rate_limited 0 ''k'' 1 7200 Map.empty))) = Inr (True, 1800)"
  by (simp add: is_rate_limited_def cleanup_def stale_def requests_def usec_def Let_def)

end
