(* ===== verification/Dict.thy ===== *)
theory Dict
  imports Main "HOL-Library.AList"
begin

text \<open>
  Facts on association lists that stand for Python dictionaries (in insertion order, one entry a key),
  shared by the components that keep one.
\<close>

lemma keys_delete: "set (map fst (AList.delete t p)) = set (map fst p) - {t}"
  unfolding delete_keys by simp

lemma map_of_filter_fst: "map_of (filter (\<lambda>(k, _). P k) p) k = (if P k then map_of p k else None)"
  by (induction p) auto

lemma keys_filter: "set (map fst (filter (\<lambda>(k, _). P k) p)) = {k \<in> set (map fst p). P k}"
  by (induction p) auto

lemma distinct_filter_keys: "distinct (map fst p) \<Longrightarrow> distinct (map fst (filter (\<lambda>(k, _). P k) p))"
  by (induction p) (auto simp: image_iff)

text \<open>\<open>move_to_end\<close> of a present key, and an assignment.\<close>

definition put_last :: "'k \<Rightarrow> 'v \<Rightarrow> ('k \<times> 'v) list \<Rightarrow> ('k \<times> 'v) list" where
  "put_last key item st = AList.delete key st @ [(key, item)]"

lemma keys_put: "set (map fst (put_last k v st)) = insert k (set (map fst st))"
  unfolding put_last_def map_append set_append keys_delete by auto

lemma map_of_put [simp]: "map_of (put_last k v st) = (map_of st)(k \<mapsto> v)"
  by (rule ext) (auto simp: put_last_def map_add_def delete_conv' split: option.splits)

lemma distinct_put: "distinct (map fst st) \<Longrightarrow> distinct (map fst (put_last k v st))"
  using keys_delete [of k st] by (auto simp: put_last_def distinct_delete)

lemma length_put: "length (put_last k v st) \<le> Suc (length st)"
  by (simp add: put_last_def length_delete_le)

lemma length_put_present:
  assumes "k \<in> set (map fst st)"
  shows "length (put_last k v st) \<le> length st"
proof -
  have "length (AList.delete k st) = length (removeAll k (map fst st))"
    unfolding delete_keys [symmetric] by simp
  also have "\<dots> < length st" using length_removeAll_less [OF assms] by simp
  finally show ?thesis by (simp add: put_last_def)
qed

lemma distinct_drop_keys: "distinct (map fst st) \<Longrightarrow> distinct (map fst (drop n st))"
  by (simp add: drop_map [symmetric])

lemma map_of_drop:
  assumes "distinct (map fst st)" and "map_of (drop n st) k = Some v"
  shows "map_of st k = Some v"
  using assms by (metis distinct_drop_keys in_set_dropD map_of_eq_Some_iff)

end
