(* ===== verification/TxCallbacks.thy ===== *)
theory TxCallbacks
  imports Dict
begin

text \<open>
  The publication of cache invalidations after the owning transaction, \<open>outlabs_auth/core/transaction_callbacks.py\<close>:
  the queue of actions a session keeps per transaction, the functions that mark and defer, and the three
  event handlers. An action is a parameter of the model, as is the content of the request memos (only
  dropping them is an operation here; \<open>None\<close> is a reset memo).

  A transaction object knows its parent. The order in which a session fires the events is documented
  behaviour of SQLAlchemy: it is written out in the section on sessions, and nowhere else.
\<close>

section \<open>Transactions\<close>

text \<open>The root, a savepoint (\<open>nested\<close>), and the internal transaction of a flush.\<close>

datatype transaction = Root nat | Nested nat transaction | Internal nat transaction

fun parent_of :: "transaction \<Rightarrow> transaction option" where
  "parent_of (Root _) = None"
| "parent_of (Nested _ t) = Some t"
| "parent_of (Internal _ t) = Some t"

text \<open>\<open>while owner.parent is not None and not owner.nested: owner = owner.parent\<close>\<close>

fun owner_of :: "transaction \<Rightarrow> transaction" where
  "owner_of (Root i) = Root i"
| "owner_of (Nested i t) = Nested i t"
| "owner_of (Internal i t) = owner_of t"

text \<open>A transaction, its parent, and so on.\<close>

fun lineage :: "transaction \<Rightarrow> transaction list" where
  "lineage (Root i) = [Root i]"
| "lineage (Nested i t) = Nested i t # lineage t"
| "lineage (Internal i t) = Internal i t # lineage t"

text \<open>\<open>session.get_transaction()\<close> and \<open>session.get_nested_transaction()\<close>.\<close>

record session_view =
  vw_root :: "transaction option"
  vw_nested :: "transaction option"

definition current_transaction :: "session_view \<Rightarrow> transaction option" where
  "current_transaction v = (case vw_nested v of Some t \<Rightarrow> Some t | None \<Rightarrow> vw_root v)"

section \<open>The queue\<close>

record ('a, 'm) hooks =
  hk_registered :: bool
  hk_pending :: "(transaction \<times> 'a list) list"
  hk_memo :: "'m option"

definition reset_request_memos :: "('a, 'm) hooks \<Rightarrow> ('a, 'm) hooks" where
  "reset_request_memos h = h\<lparr>hk_memo := None\<rparr>"

definition register :: "('a, 'm) hooks \<Rightarrow> ('a, 'm) hooks" where
  "register h = h\<lparr>hk_registered := True\<rparr>"

text \<open>\<open>pending.setdefault(transaction, []).extend(actions)\<close>\<close>

definition extend_pending ::
  "transaction \<Rightarrow> 'a list \<Rightarrow> (transaction \<times> 'a list) list \<Rightarrow> (transaction \<times> 'a list) list" where
  "extend_pending t xs p =
     AList.update t ((case map_of p t of None \<Rightarrow> [] | Some ys \<Rightarrow> ys) @ xs) p"

definition mark_authority_change :: "session_view option \<Rightarrow> ('a, 'm) hooks \<Rightarrow> ('a, 'm) hooks" where
  "mark_authority_change session h =
     (let h1 = reset_request_memos h in
      case session of
        None \<Rightarrow> h1
      | Some v \<Rightarrow>
          (case current_transaction v of
             None \<Rightarrow> h1
           | Some t \<Rightarrow> (register h1)\<lparr>hk_pending := extend_pending t [] (hk_pending h1)\<rparr>))"

definition has_pending_cache_changes :: "session_view option \<Rightarrow> ('a, 'm) hooks \<Rightarrow> bool" where
  "has_pending_cache_changes session h = (case session of None \<Rightarrow> False | Some _ \<Rightarrow> hk_pending h \<noteq> [])"

text \<open>The new queue, and the actions that run at once.\<close>

definition defer_after_commit ::
  "session_view option \<Rightarrow> 'a \<Rightarrow> ('a, 'm) hooks \<Rightarrow> ('a, 'm) hooks \<times> 'a list" where
  "defer_after_commit session a h =
     (case session of
        None \<Rightarrow> (h, [a])
      | Some v \<Rightarrow>
          (case current_transaction v of
             None \<Rightarrow> (h, [a])
           | Some t \<Rightarrow> ((register h)\<lparr>hk_pending := extend_pending t [a] (hk_pending h)\<rparr>, [])))"

text \<open>\<open>_publish\<close>: every action runs; the first exception is raised at the end.\<close>

fun publish :: "('a \<Rightarrow> 's \<Rightarrow> 's \<times> 'e option) \<Rightarrow> 'a list \<Rightarrow> 's \<Rightarrow> 's \<times> 'e option" where
  "publish run [] s = (s, None)"
| "publish run (a # as) s =
     (let (s1, e1) = run a s; (s2, e2) = publish run as s1
      in (s2, case e1 of Some e \<Rightarrow> Some e | None \<Rightarrow> e2))"

section \<open>The handlers\<close>

text \<open>\<open>_after_commit\<close>: the new queue, and the actions to publish.\<close>

definition after_commit :: "session_view \<Rightarrow> ('a, 'm) hooks \<Rightarrow> ('a, 'm) hooks \<times> 'a list" where
  "after_commit v h0 =
     (let h = reset_request_memos h0; pending = hk_pending h in
      case vw_nested v of
        Some nested \<Rightarrow>
          (case map_of pending nested of
             None \<Rightarrow> (h, [])
           | Some actions \<Rightarrow>
               (case parent_of nested of
                  None \<Rightarrow> (h, [])
                | Some outer \<Rightarrow>
                    (h\<lparr>hk_pending := extend_pending outer actions (AList.delete nested pending)\<rparr>, [])))
      | None \<Rightarrow>
          (case vw_root v of
             None \<Rightarrow> (h, [])
           | Some root_tx \<Rightarrow>
               (h\<lparr>hk_pending := AList.delete root_tx pending\<rparr>,
                case map_of pending root_tx of None \<Rightarrow> [] | Some actions \<Rightarrow> actions)))"

text \<open>\<open>_after_rollback\<close>: what the owner and the transactions below it queued is dropped.\<close>

definition after_rollback :: "transaction \<Rightarrow> ('a, 'm) hooks \<Rightarrow> ('a, 'm) hooks" where
  "after_rollback previous h0 =
     (let h = reset_request_memos h0; owner = owner_of previous
      in h\<lparr>hk_pending := filter (\<lambda>(t, _). owner \<notin> set (lineage t)) (hk_pending h)\<rparr>)"

text \<open>\<open>_after_end\<close>\<close>

definition after_end :: "transaction \<Rightarrow> ('a, 'm) hooks \<Rightarrow> ('a, 'm) hooks" where
  "after_end t h =
     (if parent_of t = None then (reset_request_memos h)\<lparr>hk_pending := []\<rparr>
      else h\<lparr>hk_pending := AList.delete t (hk_pending h)\<rparr>)"

text \<open>Handlers only run once they are registered.\<close>

definition fire :: "(('a, 'm) hooks \<Rightarrow> ('a, 'm) hooks) \<Rightarrow> ('a, 'm) hooks \<Rightarrow> ('a, 'm) hooks" where
  "fire handler h = (if hk_registered h then handler h else h)"

definition fire_commit :: "session_view \<Rightarrow> ('a, 'm) hooks \<Rightarrow> ('a, 'm) hooks \<times> 'a list" where
  "fire_commit v h = (if hk_registered h then after_commit v h else (h, []))"

section \<open>Sessions\<close>

text \<open>
  What a session does, in the order SQLAlchemy documents: releasing a savepoint fires \<open>after_commit\<close>
  while it is still the nested transaction and then its end; rolling one back fires \<open>after_soft_rollback\<close>
  and its end; a failed flush does so for its internal transaction; committing or rolling back the
  session releases or rolls back the open savepoints, innermost first, and then the root.
  \<open>Memoize\<close> is a request memo being filled.
\<close>

datatype ('a, 'm) session_event =
    BeginTx | Savepoint | Defer 'a | Mark | Memoize 'm
  | Release | RollbackSavepoint | FlushFailed | Commit | Rollback

record ('a, 'm) tx_session =
  ss_open :: "transaction option"
  ss_next :: nat
  ss_hooks :: "('a, 'm) hooks"
  ss_published :: "'a list"

definition new_session :: "('a, 'm) tx_session" where
  "new_session =
     \<lparr>ss_open = None, ss_next = 0,
      ss_hooks = \<lparr>hk_registered = False, hk_pending = [], hk_memo = None\<rparr>, ss_published = []\<rparr>"

fun root_of :: "transaction \<Rightarrow> transaction" where
  "root_of (Root i) = Root i"
| "root_of (Nested _ t) = root_of t"
| "root_of (Internal _ t) = root_of t"

fun nested_of :: "transaction \<Rightarrow> transaction option" where
  "nested_of (Root i) = None"
| "nested_of (Nested i t) = Some (Nested i t)"
| "nested_of (Internal _ t) = nested_of t"

definition view_of :: "transaction option \<Rightarrow> session_view" where
  "view_of t = \<lparr>vw_root = map_option root_of t, vw_nested = Option.bind t nested_of\<rparr>"

text \<open>The innermost transaction \<open>t\<close> is committed (a savepoint is released), or rolled back.\<close>

definition commit_one :: "transaction \<Rightarrow> ('a, 'm) tx_session \<Rightarrow> ('a, 'm) tx_session" where
  "commit_one t s =
     (let (h, now) = fire_commit (view_of (Some t)) (ss_hooks s)
      in s\<lparr>ss_open := parent_of t, ss_hooks := fire (after_end t) h, ss_published := ss_published s @ now\<rparr>)"

definition rollback_one :: "transaction \<Rightarrow> ('a, 'm) tx_session \<Rightarrow> ('a, 'm) tx_session" where
  "rollback_one t s =
     s\<lparr>ss_open := parent_of t, ss_hooks := fire (after_end t) (fire (after_rollback t) (ss_hooks s))\<rparr>"

text \<open>The hooks after a failed flush: its internal transaction is rolled back and ends.\<close>

definition flush_failed :: "transaction \<Rightarrow> ('a, 'm) tx_session \<Rightarrow> ('a, 'm) tx_session" where
  "flush_failed t s =
     (let f = Internal (ss_next s) t
      in s\<lparr>ss_next := ss_next s + 1,
           ss_hooks := fire (after_end f) (fire (after_rollback f) (ss_hooks s))\<rparr>)"

fun session_step :: "('a, 'm) session_event \<Rightarrow> ('a, 'm) tx_session \<Rightarrow> ('a, 'm) tx_session" where
  "session_step BeginTx s =
     (if ss_open s = None then s\<lparr>ss_open := Some (Root (ss_next s)), ss_next := ss_next s + 1\<rparr> else s)"
| "session_step Savepoint s =
     (case ss_open s of
        None \<Rightarrow> s
      | Some t \<Rightarrow> s\<lparr>ss_open := Some (Nested (ss_next s) t), ss_next := ss_next s + 1\<rparr>)"
| "session_step (Defer a) s =
     (let (h, now) = defer_after_commit (Some (view_of (ss_open s))) a (ss_hooks s)
      in s\<lparr>ss_hooks := h, ss_published := ss_published s @ now\<rparr>)"
| "session_step Mark s =
     s\<lparr>ss_hooks := mark_authority_change (Some (view_of (ss_open s))) (ss_hooks s)\<rparr>"
| "session_step (Memoize m) s = s\<lparr>ss_hooks := (ss_hooks s)\<lparr>hk_memo := Some m\<rparr>\<rparr>"
| "session_step Release s =
     (case ss_open s of Some (Nested i t) \<Rightarrow> commit_one (Nested i t) s | _ \<Rightarrow> s)"
| "session_step RollbackSavepoint s =
     (case ss_open s of Some (Nested i t) \<Rightarrow> rollback_one (Nested i t) s | _ \<Rightarrow> s)"
| "session_step FlushFailed s = (case ss_open s of None \<Rightarrow> s | Some t \<Rightarrow> flush_failed t s)"
| "session_step Commit s =
     (case ss_open s of None \<Rightarrow> s | Some t \<Rightarrow> foldl (\<lambda>s u. commit_one u s) s (lineage t))"
| "session_step Rollback s =
     (case ss_open s of None \<Rightarrow> s | Some t \<Rightarrow> foldl (\<lambda>s u. rollback_one u s) s (lineage t))"

definition session_run :: "('a, 'm) session_event list \<Rightarrow> ('a, 'm) tx_session" where
  "session_run evs = foldl (\<lambda>s e. session_step e s) new_session evs"

section \<open>The journal\<close>

text \<open>
  The specification: one journal entry per open transaction, innermost first (\<open>None\<close> when nothing was
  queued or marked in it), and the published actions. A released savepoint's entry goes after its
  parent's, a rolled back one's is gone, and a commit publishes all entries, outermost first.
\<close>

type_synonym 'a journal = "'a list option list \<times> 'a list"

definition entry_actions :: "'a list option \<Rightarrow> 'a list" where
  "entry_actions e = (case e of None \<Rightarrow> [] | Some xs \<Rightarrow> xs)"

definition merge_entry :: "'a list option \<Rightarrow> 'a list option \<Rightarrow> 'a list option" where
  "merge_entry inner outer =
     (case inner of None \<Rightarrow> outer | Some xs \<Rightarrow> Some (entry_actions outer @ xs))"

fun journal_step :: "('a, 'm) session_event \<Rightarrow> 'a journal \<Rightarrow> 'a journal" where
  "journal_step BeginTx (es, pub) = (if es = [] then [None] else es, pub)"
| "journal_step Savepoint (es, pub) = (if es = [] then [] else None # es, pub)"
| "journal_step (Defer a) (es, pub) =
     (case es of [] \<Rightarrow> ([], pub @ [a]) | e # r \<Rightarrow> (Some (entry_actions e @ [a]) # r, pub))"
| "journal_step Mark (es, pub) =
     (case es of [] \<Rightarrow> [] | e # r \<Rightarrow> Some (entry_actions e) # r, pub)"
| "journal_step (Memoize _) j = j"
| "journal_step Release (es, pub) =
     (case es of e # e' # r \<Rightarrow> merge_entry e e' # r | _ \<Rightarrow> es, pub)"
| "journal_step RollbackSavepoint (es, pub) = (case es of e # e' # r \<Rightarrow> e' # r | _ \<Rightarrow> es, pub)"
| "journal_step FlushFailed (es, pub) = (case es of [] \<Rightarrow> [] | e # r \<Rightarrow> None # r, pub)"
| "journal_step Commit (es, pub) = ([], pub @ concat (map entry_actions (rev es)))"
| "journal_step Rollback (es, pub) = ([], pub)"

definition journal_run :: "('a, 'm) session_event list \<Rightarrow> 'a journal" where
  "journal_run evs = foldl (\<lambda>j e. journal_step e j) ([], []) evs"

text \<open>What the hooks hold of an open transaction and those around it.\<close>

definition open_lineage :: "('a, 'm) tx_session \<Rightarrow> transaction list" where
  "open_lineage s = (case ss_open s of None \<Rightarrow> [] | Some t \<Rightarrow> lineage t)"

definition journal_of :: "('a, 'm) tx_session \<Rightarrow> 'a journal" where
  "journal_of s = (map (map_of (hk_pending (ss_hooks s))) (open_lineage s), ss_published s)"

text \<open>The well-formedness of a session.\<close>

fun tx_id :: "transaction \<Rightarrow> nat" where
  "tx_id (Root i) = i"
| "tx_id (Nested i _) = i"
| "tx_id (Internal i _) = i"

fun proper :: "transaction \<Rightarrow> bool" where
  "proper (Root _) \<longleftrightarrow> True"
| "proper (Nested i t) \<longleftrightarrow> tx_id t < i \<and> proper t"
| "proper (Internal _ _) \<longleftrightarrow> False"

definition session_wf :: "('a, 'm) tx_session \<Rightarrow> bool" where
  "session_wf s \<longleftrightarrow>
     (case ss_open s of None \<Rightarrow> True | Some t \<Rightarrow> proper t \<and> tx_id t < ss_next s)
     \<and> distinct (map fst (hk_pending (ss_hooks s)))
     \<and> set (map fst (hk_pending (ss_hooks s))) \<subseteq> set (open_lineage s)
     \<and> (\<not> hk_registered (ss_hooks s) \<longrightarrow> hk_pending (ss_hooks s) = [])"

section \<open>Lineages\<close>

lemma lineage_self [simp]: "t \<in> set (lineage t)"
  by (cases t) auto

lemma lineage_ids:
  assumes "proper t" and "u \<in> set (lineage t)"
  shows "tx_id u \<le> tx_id t \<and> proper u"
  using assms by (induction t) fastforce+

lemma distinct_lineage: "proper t \<Longrightarrow> distinct (lineage t)"
proof (induction t)
  case (Nested i t)
  then show ?case using lineage_ids [of t "Nested i t"] by auto
qed auto

lemma owner_proper [simp]: "proper t \<Longrightarrow> owner_of t = t"
  by (cases t) auto

lemma below_iff:
  assumes "proper t" and "u \<in> set (lineage t)"
  shows "t \<in> set (lineage u) \<longleftrightarrow> u = t"
proof
  assume "t \<in> set (lineage u)"
  then have "tx_id t \<le> tx_id u" and "tx_id u \<le> tx_id t"
    using lineage_ids assms by blast+
  with assms show "u = t" using lineage_ids [of _ u] by (cases t) fastforce+
qed simp

lemma internal_not_open: "proper t \<Longrightarrow> Internal i u \<notin> set (lineage t)"
  by (induction t) auto

lemma nested_of_proper: "proper t \<Longrightarrow> nested_of t = (case t of Root _ \<Rightarrow> None | _ \<Rightarrow> Some t)"
  by (cases t) auto

lemma root_of_parent: "proper t \<Longrightarrow> parent_of t = Some u \<Longrightarrow> root_of t = root_of u"
  by (cases t) auto

section \<open>The effect of the handlers\<close>

lemma map_of_extend [simp]:
  "map_of (extend_pending t xs p) = (map_of p)(t \<mapsto> entry_actions (map_of p t) @ xs)"
  by (simp add: extend_pending_def entry_actions_def update_conv')

lemma keys_extend [simp]: "set (map fst (extend_pending t xs p)) = insert t (set (map fst p))"
  unfolding extend_pending_def set_map by (simp add: dom_update)

lemma distinct_extend [simp]: "distinct (map fst p) \<Longrightarrow> distinct (map fst (extend_pending t xs p))"
  by (simp add: extend_pending_def distinct_update)

lemma extend_not_Nil [simp]: "extend_pending t xs p \<noteq> []"
  using keys_extend [of t xs p] by auto

text \<open>The queue after a fired handler, by key.\<close>

lemma after_end_nested:
  "parent_of t = Some u \<Longrightarrow> hk_pending (fire (after_end t) h) =
     (if hk_registered h then AList.delete t (hk_pending h) else hk_pending h)"
  by (simp add: fire_def after_end_def)

lemma registered_kept [simp]:
  "hk_registered (fire (after_end t) h) = hk_registered h"
  "hk_registered (fire (after_rollback t) h) = hk_registered h"
  "hk_registered (fst (fire_commit v h)) = hk_registered h"
  by (auto simp: fire_def fire_commit_def after_end_def after_rollback_def after_commit_def Let_def
      reset_request_memos_def split: option.splits)

lemma wf_openD:
  assumes "session_wf s" and "ss_open s = Some t"
  shows "proper t" "tx_id t < ss_next s" "distinct (map fst (hk_pending (ss_hooks s)))"
    "set (map fst (hk_pending (ss_hooks s))) \<subseteq> set (lineage t)"
    "\<not> hk_registered (ss_hooks s) \<Longrightarrow> hk_pending (ss_hooks s) = []"
  using assms by (auto simp: session_wf_def open_lineage_def)

text \<open>A fired handler leaves well-formed hooks when it leaves the keys within the open lineage.\<close>

lemma commit_root:
  assumes "session_wf s" and "ss_open s = Some (Root i)" and "journal_of s = ([e], pub)"
  shows "journal_of (commit_one (Root i) s) = ([], pub @ entry_actions e) \<and> session_wf (commit_one (Root i) s)
    \<and> ss_open (commit_one (Root i) s) = None"
  using assms wf_openD [OF assms(1,2)]
  by (cases "hk_registered (ss_hooks s)")
    (auto simp: commit_one_def fire_commit_def after_commit_def view_of_def fire_def after_end_def Let_def
      reset_request_memos_def journal_of_def open_lineage_def session_wf_def entry_actions_def)

lemma commit_nested:
  assumes "session_wf s" and "ss_open s = Some (Nested i u)" and "journal_of s = (e # e' # r, pub)"
  shows "journal_of (commit_one (Nested i u) s) = (merge_entry e e' # r, pub)
    \<and> session_wf (commit_one (Nested i u) s) \<and> ss_open (commit_one (Nested i u) s) = Some u"
proof -
  let ?t = "Nested i u" and ?p = "hk_pending (ss_hooks s)"
  note wf = wf_openD [OF assms(1,2)]
  have fresh: "?t \<notin> set (lineage u)" using distinct_lineage [OF wf(1)] by simp
  obtain ls where ls: "lineage u = u # ls" by (cases u) auto
  have d: "u \<notin> set ls" "u \<noteq> ?t" using distinct_lineage [OF wf(1)] ls by auto
  have e: "e = map_of ?p ?t" "e' = map_of ?p u" "r = map (map_of ?p) ls" "pub = ss_published s"
    using assms(2,3) ls by (auto simp: journal_of_def open_lineage_def)
  show ?thesis
  proof (cases "hk_registered (ss_hooks s)")
    case False
    with wf(5) show ?thesis
      using assms(1,2) e ls wf(1,2)
      by (simp add: commit_one_def fire_commit_def fire_def journal_of_def open_lineage_def merge_entry_def
          session_wf_def)
  next
    case True
    let ?q = "case map_of ?p ?t of None \<Rightarrow> ?p
      | Some as \<Rightarrow> extend_pending u as (AList.delete ?t ?p)"
    have c: "commit_one ?t s = s\<lparr>ss_open := Some u, ss_hooks :=
        (ss_hooks s)\<lparr>hk_memo := None, hk_pending := AList.delete ?t ?q\<rparr>\<rparr>"
      using True
      by (simp add: commit_one_def fire_commit_def after_commit_def view_of_def fire_def after_end_def Let_def
          reset_request_memos_def split: option.splits)
    have m: "map_of (AList.delete ?t ?q) k = (if k = ?t then None else if k = u then merge_entry e e'
        else map_of ?p k)" for k
      using d by (auto simp: e delete_conv' merge_entry_def entry_actions_def split: option.splits)
    have keys: "set (map fst (AList.delete ?t ?q)) \<subseteq> set (lineage u)"
      using wf(4) ls by (auto simp only: keys_delete keys_extend split: option.splits) auto
    have "distinct (map fst (AList.delete ?t ?q))"
      using wf(3) by (auto simp: distinct_delete split: option.splits)
    then show ?thesis
      using m keys d fresh wf(1,2) True ls e
      by (simp add: c journal_of_def open_lineage_def session_wf_def) (auto cong: map_cong)
  qed
qed

lemma rollback_nested:
  assumes "session_wf s" and "ss_open s = Some (Nested i u)" and "journal_of s = (e # es, pub)"
  shows "journal_of (rollback_one (Nested i u) s) = (es, pub)
    \<and> session_wf (rollback_one (Nested i u) s) \<and> ss_open (rollback_one (Nested i u) s) = Some u"
proof -
  let ?t = "Nested i u" and ?p = "hk_pending (ss_hooks s)"
  note wf = wf_openD [OF assms(1,2)]
  have e: "es = map (map_of ?p) (lineage u)" "pub = ss_published s"
    using assms(2,3) by (auto simp: journal_of_def open_lineage_def)
  show ?thesis
  proof (cases "hk_registered (ss_hooks s)")
    case False
    with wf(5) show ?thesis
      using assms(1,2) e wf(1,2)
      by (simp add: rollback_one_def fire_def journal_of_def open_lineage_def session_wf_def)
  next
    case True
    let ?q = "AList.delete ?t (filter (\<lambda>(t, _). ?t \<notin> set (lineage t)) ?p)"
    have r: "rollback_one ?t s = s\<lparr>ss_open := Some u, ss_hooks :=
        (ss_hooks s)\<lparr>hk_memo := None, hk_pending := ?q\<rparr>\<rparr>"
      using True by (simp add: rollback_one_def fire_def after_rollback_def after_end_def Let_def
          reset_request_memos_def)
    have sub: "k \<noteq> ?t \<and> ?t \<notin> set (lineage k)" if "k \<in> set (lineage u)" for k
      using that below_iff [OF wf(1), of k] distinct_lineage [OF wf(1)] by auto
    have m: "map_of ?q k = map_of ?p k" if "k \<in> set (lineage u)" for k
      using sub [OF that] by (simp add: delete_conv' map_of_filter_fst)
    have keys: "set (map fst ?q) \<subseteq> set (lineage u)"
      using wf(4) by (auto simp only: keys_delete keys_filter) auto
    have "distinct (map fst ?q)"
      using wf(3) by (intro distinct_delete distinct_filter_keys)
    then show ?thesis
      using m keys wf(1,2) True e
      by (simp add: r journal_of_def open_lineage_def session_wf_def)
  qed
qed

lemma rollback_root:
  assumes "session_wf s" and "ss_open s = Some (Root i)" and "journal_of s = (es, pub)"
  shows "journal_of (rollback_one (Root i) s) = ([], pub)
    \<and> session_wf (rollback_one (Root i) s) \<and> ss_open (rollback_one (Root i) s) = None"
  using assms wf_openD [OF assms(1,2)]
  by (cases "hk_registered (ss_hooks s)")
    (auto simp: rollback_one_def after_rollback_def fire_def after_end_def Let_def
      reset_request_memos_def journal_of_def open_lineage_def session_wf_def)

lemma flush_failed_effect:
  assumes "session_wf s" and "ss_open s = Some t" and "journal_of s = (e # es, pub)"
  shows "journal_of (flush_failed t s) = (None # es, pub) \<and> session_wf (flush_failed t s)"
proof -
  let ?p = "hk_pending (ss_hooks s)" and ?f = "Internal (ss_next s) t"
  note wf = wf_openD [OF assms(1,2)]
  obtain ls where ls: "lineage t = t # ls" by (cases t) auto
  have e: "e = map_of ?p t" "es = map (map_of ?p) ls" "pub = ss_published s"
    using assms(2,3) ls by (auto simp: journal_of_def open_lineage_def)
  have d: "t \<notin> set ls" using distinct_lineage [OF wf(1)] ls by simp
  have f: "?f \<notin> set (lineage t)" by (rule internal_not_open [OF wf(1)])
  show ?thesis
  proof (cases "hk_registered (ss_hooks s)")
    case False
    with wf(5) show ?thesis
      using assms(1,2) e ls wf(1,2)
      by (simp add: flush_failed_def fire_def journal_of_def open_lineage_def session_wf_def)
  next
    case True
    let ?q = "AList.delete ?f (filter (\<lambda>(u, _). t \<notin> set (lineage u)) ?p)"
    have r: "flush_failed t s = s\<lparr>ss_next := ss_next s + 1, ss_hooks :=
        (ss_hooks s)\<lparr>hk_memo := None, hk_pending := ?q\<rparr>\<rparr>"
      using True wf(1) by (simp add: flush_failed_def fire_def after_rollback_def after_end_def Let_def
          reset_request_memos_def)
    have m: "map_of ?q k = (if k = t then None else map_of ?p k)" if "k \<in> set (lineage t)" for k
      using that f below_iff [OF wf(1) that] by (auto simp add: delete_conv' map_of_filter_fst)
    have keys: "set (map fst ?q) \<subseteq> set (lineage t)"
      using wf(4) by (auto simp only: keys_delete keys_filter)
    have "distinct (map fst ?q)"
      using wf(3) by (intro distinct_delete distinct_filter_keys)
    then show ?thesis
      using m keys d wf(1,2) True e ls assms(2)
      by (simp add: r journal_of_def open_lineage_def session_wf_def) (auto cong: map_cong simp: map_of_filter_fst)
  qed
qed

section \<open>The refinement\<close>

text \<open>Committing, or rolling back, all open transactions.\<close>

lemma journal_length: "journal_of s = (es, pub) \<Longrightarrow> length es = length (open_lineage s)"
  by (auto simp: journal_of_def)

lemma merged_actions: "entry_actions (merge_entry e e') = entry_actions e' @ entry_actions e"
  by (simp add: merge_entry_def entry_actions_def split: option.splits)

lemma commit_all:
  assumes "session_wf s" and "ss_open s = Some t" and "journal_of s = (es, pub)"
  shows "journal_of (foldl (\<lambda>s u. commit_one u s) s (lineage t))
      = ([], pub @ concat (map entry_actions (rev es)))
    \<and> session_wf (foldl (\<lambda>s u. commit_one u s) s (lineage t))"
  using assms
proof (induction t arbitrary: s es)
  case (Root i)
  then obtain e where "es = [e]"
    using journal_length [OF Root(3)] by (auto simp: open_lineage_def length_Suc_conv)
  with commit_root [OF Root(1,2)] Root(3) show ?case by simp
next
  case (Nested i u)
  obtain ls where ls: "lineage u = u # ls" by (cases u) auto
  from journal_length [OF Nested.prems(3)] Nested.prems(2) ls obtain e e' r where es: "es = e # e' # r"
    by (auto simp: open_lineage_def length_Suc_conv)
  from commit_nested [OF Nested.prems(1,2) Nested.prems(3) [unfolded es]]
  have "journal_of (foldl (\<lambda>s u. commit_one u s) (commit_one (Nested i u) s) (lineage u))
      = ([], pub @ concat (map entry_actions (rev (merge_entry e e' # r))))
    \<and> session_wf (foldl (\<lambda>s u. commit_one u s) (commit_one (Nested i u) s) (lineage u))"
    by (intro Nested.IH) auto
  then show ?case by (simp add: es merged_actions)
next
  case (Internal i u)
  then show ?case using wf_openD(1) by fastforce
qed

lemma rollback_all:
  assumes "session_wf s" and "ss_open s = Some t" and "journal_of s = (es, pub)"
  shows "journal_of (foldl (\<lambda>s u. rollback_one u s) s (lineage t)) = ([], pub)
    \<and> session_wf (foldl (\<lambda>s u. rollback_one u s) s (lineage t))"
  using assms
proof (induction t arbitrary: s es)
  case (Root i)
  with rollback_root [OF Root(1,2,3)] show ?case by simp
next
  case (Nested i u)
  from journal_length [OF Nested.prems(3)] Nested.prems(2) obtain e r where es: "es = e # r"
    by (auto simp: open_lineage_def length_Suc_conv)
  from rollback_nested [OF Nested.prems(1,2) Nested.prems(3) [unfolded es]]
  have "journal_of (foldl (\<lambda>s u. rollback_one u s) (rollback_one (Nested i u) s) (lineage u)) = ([], pub)
    \<and> session_wf (foldl (\<lambda>s u. rollback_one u s) (rollback_one (Nested i u) s) (lineage u))"
    by (intro Nested.IH) auto
  then show ?case by simp
next
  case (Internal i u)
  then show ?case using wf_openD(1) by fastforce
qed

lemma defer_effect:
  assumes "session_wf s" and "journal_of s = (es, pub)"
  shows "journal_of (session_step (Defer a) s) = journal_step (Defer a :: ('a, 'm) session_event) (es, pub)
    \<and> session_wf (session_step (Defer a) s)"
proof (cases "ss_open s")
  case None
  then show ?thesis
    using assms
    by (auto simp: defer_after_commit_def current_transaction_def view_of_def journal_of_def open_lineage_def
        session_wf_def)
next
  case (Some t)
  note wf = wf_openD [OF assms(1) Some]
  obtain ls where ls: "lineage t = t # ls" by (cases t) auto
  have d: "t \<notin> set ls" using distinct_lineage [OF wf(1)] ls by simp
  have "current_transaction (view_of (Some t)) = Some t"
    using wf(1) by (cases t) (auto simp: current_transaction_def view_of_def)
  then show ?thesis
    using assms Some wf ls d
    by (auto simp: defer_after_commit_def journal_of_def open_lineage_def session_wf_def register_def
        simp del: set_map)
qed

lemma mark_effect:
  assumes "session_wf s" and "journal_of s = (es, pub)"
  shows "journal_of (session_step Mark s) = journal_step (Mark :: ('a, 'm) session_event) (es, pub)
    \<and> session_wf (session_step Mark s)"
proof (cases "ss_open s")
  case None
  then show ?thesis
    using assms
    by (auto simp: mark_authority_change_def current_transaction_def view_of_def journal_of_def
        open_lineage_def session_wf_def reset_request_memos_def)
next
  case (Some t)
  note wf = wf_openD [OF assms(1) Some]
  obtain ls where ls: "lineage t = t # ls" by (cases t) auto
  have d: "t \<notin> set ls" using distinct_lineage [OF wf(1)] ls by simp
  have "current_transaction (view_of (Some t)) = Some t"
    using wf(1) by (cases t) (auto simp: current_transaction_def view_of_def)
  then show ?thesis
    using assms Some wf ls d
    by (auto simp: mark_authority_change_def journal_of_def open_lineage_def session_wf_def register_def
        reset_request_memos_def simp del: set_map)
qed

lemma journal_shape:
  assumes "session_wf s" and "journal_of s = (es, pub)"
  shows "case ss_open s of None \<Rightarrow> es = [] | Some (Root i) \<Rightarrow> (\<exists>e. es = [e])
    | Some (Nested i u) \<Rightarrow> (\<exists>e e' r. es = e # e' # r) | Some (Internal _ _) \<Rightarrow> False"
proof (cases "ss_open s")
  case (Some t)
  with journal_length [OF assms(2)] wf_openD(1) [OF assms(1) Some] show ?thesis
    by (cases t; cases "parent_of t"; cases "the (parent_of t)")
      (auto simp: open_lineage_def length_Suc_conv)
qed (use journal_length [OF assms(2)] in \<open>simp add: open_lineage_def\<close>)

lemma session_step_refines:
  assumes "session_wf s"
  shows "journal_of (session_step e s) = journal_step e (journal_of s) \<and> session_wf (session_step e s)"
proof -
  obtain es pub where j: "journal_of s = (es, pub)" by (cases "journal_of s")
  note shape = journal_shape [OF assms j]
  show ?thesis
  proof (cases e)
    case BeginTx
    then show ?thesis using assms j shape
      by (auto simp: journal_of_def open_lineage_def session_wf_def split: option.splits transaction.splits)
  next
    case Savepoint
    have fresh: "Nested (ss_next s) t \<notin> set (map fst (hk_pending (ss_hooks s)))" if "ss_open s = Some t" for t
      using wf_openD [OF assms that] lineage_ids [of t] by fastforce
    show ?thesis
    proof (cases "ss_open s")
      case None
      with Savepoint assms j shape show ?thesis by simp
    next
      case (Some t)
      have "map_of (hk_pending (ss_hooks s)) (Nested (ss_next s) t) = None"
        using fresh [OF Some] by (simp add: map_of_eq_None_iff)
      with Some Savepoint assms j show ?thesis
        by (cases t) (auto simp: journal_of_def open_lineage_def session_wf_def)
    qed
  next
    case (Defer a)
    with defer_effect [OF assms j] j show ?thesis by simp
  next
    case Mark
    with mark_effect [OF assms j] j show ?thesis by simp
  next
    case (Memoize m)
    then show ?thesis using assms
      by (auto simp: journal_of_def open_lineage_def session_wf_def split: option.splits)
  next
    case Release
    then show ?thesis using assms j shape commit_nested [OF assms]
      by (auto split: option.splits transaction.splits)
  next
    case RollbackSavepoint
    then show ?thesis using assms j shape rollback_nested [OF assms]
      by (auto split: option.splits transaction.splits)
  next
    case FlushFailed
    then show ?thesis using assms j shape flush_failed_effect [OF assms]
      by (auto split: option.splits transaction.splits)
  next
    case Commit
    then show ?thesis using assms j shape commit_all [OF assms]
      by (auto split: option.splits)
  next
    case Rollback
    then show ?thesis using assms j shape rollback_all [OF assms]
      by (auto split: option.splits)
  qed
qed

lemma session_run_refines:
  "journal_of (session_run evs) = journal_run evs \<and> session_wf (session_run evs)"
proof (induction evs rule: rev_induct)
  case Nil
  show ?case
    by (simp add: session_run_def journal_run_def new_session_def journal_of_def open_lineage_def session_wf_def)
next
  case (snoc e evs)
  then show ?case
    using session_step_refines [of "session_run evs" e] by (simp add: session_run_def journal_run_def)
qed

lemma publish_all:
  "publish run as s =
     (foldl (\<lambda>s a. fst (run a s)) s as,
      List.find (\<lambda>_. True) (concat (map (\<lambda>n. case snd (run (as ! n) (foldl (\<lambda>s a. fst (run a s)) s (take n as)))
        of None \<Rightarrow> [] | Some e \<Rightarrow> [e]) [0..<length as])))"
proof (induction as arbitrary: s)
  case (Cons a as)
  have "[0..<length (a # as)] = 0 # map Suc [0..<length as]"
    by (simp add: map_Suc_upt upt_conv_Cons del: upt_Suc)
  with Cons show ?case
    by (cases "run a s") (auto simp: comp_def split: option.splits)
qed simp

section \<open>Properties\<close>

text \<open>
  C22. The queue refines the journal. After any sequence of events of a session, with savepoints nested to
  any depth and failed flushes, the actions published so far are exactly those the journal published, in
  its order: an action is published once, when the root commits and every savepoint around it was
  released, and never when the root or a savepoint around it was rolled back. Uncommitted changes are
  pending exactly when an open transaction has an entry.
\<close>

theorem queue_refines_journal:
  fixes evs :: "('a, 'm) session_event list"
  shows "ss_published (session_run evs) = snd (journal_run evs)
    \<and> map (map_of (hk_pending (ss_hooks (session_run evs)))) (open_lineage (session_run evs))
        = fst (journal_run evs)
    \<and> has_pending_cache_changes (Some (view_of (ss_open (session_run evs)))) (ss_hooks (session_run evs))
        = (\<exists>e \<in> set (fst (journal_run evs)). e \<noteq> None)"
proof -
  let ?s = "session_run evs"
  note r = session_run_refines [of evs]
  have keys: "set (map fst (hk_pending (ss_hooks ?s))) \<subseteq> set (open_lineage ?s)"
    using r by (simp add: session_wf_def)
  have j: "map (map_of (hk_pending (ss_hooks ?s))) (open_lineage ?s) = fst (journal_run evs)"
    "ss_published ?s = snd (journal_run evs)"
    using arg_cong [OF conjunct1 [OF r], of fst] arg_cong [OF conjunct1 [OF r], of snd]
    by (simp_all add: journal_of_def)
  have "hk_pending (ss_hooks ?s) \<noteq> [] \<longleftrightarrow>
      (\<exists>t \<in> set (open_lineage ?s). map_of (hk_pending (ss_hooks ?s)) t \<noteq> None)"
    using keys by (cases "hk_pending (ss_hooks ?s)") (auto simp: map_of_eq_None_iff)
  also have "\<dots> \<longleftrightarrow> (\<exists>e \<in> set (fst (journal_run evs)). e \<noteq> None)"
    unfolding j(1) [symmetric] by auto
  finally show ?thesis using j by (simp add: has_pending_cache_changes_def)
qed

end
