(* ===== verification/RequestCache.thy ===== *)
theory RequestCache
  imports Database "HOL-Library.AList"
begin

text \<open>
  The per-request memo of \<open>outlabs_auth/services/request_cache.py\<close> and the deadlines of cached authority,
  \<open>outlabs_auth/services/cache_validity.py\<close>. A memo key is a tuple, here the list of its parts as text.
  Instants are microseconds; a timestamp is the rational number of seconds.
\<close>

section \<open>The memo\<close>

datatype 'a memo_value =
    Versions "(string \<times> int) list option"
  | Deadline "rat option"
  | Memo 'a

type_synonym 'a memo_store = "(string list \<times> 'a memo_value) list"

text \<open>\<open>_request_cache\<close>: \<open>None\<close> before the first use and after a reset. \<open>_store\<close> creates it.\<close>

definition memo_store :: "'a memo_store option \<Rightarrow> 'a memo_store" where
  "memo_store c = (case c of None \<Rightarrow> [] | Some m \<Rightarrow> m)"

definition memo_get :: "string list \<Rightarrow> 'a memo_store option \<Rightarrow> 'a memo_value option" where
  "memo_get k c = (case c of None \<Rightarrow> None | Some m \<Rightarrow> map_of m k)"

definition memo_set :: "string list \<Rightarrow> 'a memo_value \<Rightarrow> 'a memo_store option \<Rightarrow> 'a memo_store option" where
  "memo_set k v c = Some (AList.update k v (memo_store c))"

definition memo_contains :: "string list \<Rightarrow> 'a memo_store option \<Rightarrow> bool" where
  "memo_contains k c = (case c of None \<Rightarrow> False | Some m \<Rightarrow> k \<in> fst ` set m)"

text \<open>\<open>get_or_load\<close>: the loader works on the outside world \<open>'w\<close>, and may itself use the memo.\<close>

definition memo_get_or_load ::
  "string list \<Rightarrow> ('a memo_store option \<times> 'w \<Rightarrow> ('a memo_store option \<times> 'w) \<times> 'a memo_value)
     \<Rightarrow> 'a memo_store option \<times> 'w \<Rightarrow> ('a memo_store option \<times> 'w) \<times> 'a memo_value" where
  "memo_get_or_load k loader cw =
     (case memo_get k (fst cw) of
        Some v \<Rightarrow> ((Some (memo_store (fst cw)), snd cw), v)
      | None \<Rightarrow>
          let ((c1, w1), v) = loader (Some (memo_store (fst cw)), snd cw)
          in ((memo_set k v c1, w1), v))"

definition memo_reset :: "'a memo_store option \<Rightarrow> 'a memo_store option" where
  "memo_reset c = None"

section \<open>Provenance of versions\<close>

definition policy_memos :: "string list" where
  "policy_memos =
     [''entity'', ''ancestors'', ''ancestor_depths'', ''direct_role_context_ancestors'',
      ''urm_perm_memberships'', ''em_perm_memberships'', ''em_all_memberships'',
      ''abac_conditions_exist'', ''role_abac_conditions'']"

definition policy_key :: "string list \<Rightarrow> bool" where
  "policy_key k \<longleftrightarrow> k \<noteq> [] \<and> hd k \<in> set policy_memos"

definition unproven_memo :: "'a memo_store \<Rightarrow> bool" where
  "unproven_memo m \<longleftrightarrow> (\<exists>k \<in> fst ` set m. policy_key k)"

text \<open>\<open>observed.setdefault(counter, value)\<close> for every counter.\<close>

definition observe_first :: "(string \<times> int) list \<Rightarrow> (string \<times> int) list \<Rightarrow> (string \<times> int) list" where
  "observe_first versions observed =
     foldl (\<lambda>obs (k, v). if k \<in> fst ` set obs then obs else obs @ [(k, v)]) observed versions"

definition version_key :: "string \<Rightarrow> string list" where
  "version_key owner = [''authority_versions'', owner]"

definition given :: "(string \<times> int) list option \<Rightarrow> bool" where
  "given versions \<longleftrightarrow> versions \<noteq> None \<and> versions \<noteq> Some []"

text \<open>The first lines: the entry is created.\<close>

definition ensure_versions :: "string \<Rightarrow> (string \<times> int) list option \<Rightarrow> 'a memo_store \<Rightarrow> 'a memo_store" where
  "ensure_versions owner versions m =
     (if version_key owner \<in> fst ` set m then m
      else AList.update (version_key owner)
        (Versions (if given versions \<and> \<not> unproven_memo m then Some [] else None)) m)"

definition unproven_counter :: "'a memo_store \<Rightarrow> (string \<times> int) list \<Rightarrow> (string \<times> int) list \<Rightarrow> bool" where
  "unproven_counter m versions observed \<longleftrightarrow>
     unproven_memo m \<and> (\<exists>k \<in> fst ` set versions. k \<notin> fst ` set observed)"

definition bind_authority_versions ::
  "string \<Rightarrow> (string \<times> int) list option \<Rightarrow> 'a memo_store option
     \<Rightarrow> 'a memo_store option \<times> (string \<times> int) list option" where
  "bind_authority_versions owner versions c =
     (let key = version_key owner;
          m = memo_store c;
          m1 = ensure_versions owner versions m
      in case (map_of m1 key, versions) of
           (Some (Versions (Some observed)), Some (v # vs)) \<Rightarrow>
             if unproven_counter m (v # vs) observed
             then (Some (AList.update key (Versions None) m1), None)
             else let obs = observe_first (v # vs) observed
                  in (Some (AList.update key (Versions (Some obs)) m1),
                      Some (map (\<lambda>(k, _). (k, the (map_of obs k))) (v # vs)))
         | _ \<Rightarrow> (Some (AList.update key (Versions None) m1), None))"

section \<open>Deadlines\<close>

definition timestamp :: "datetime \<Rightarrow> rat" where
  "timestamp t = of_int t / 1000000"

definition deadline_key :: "string \<Rightarrow> string list" where
  "deadline_key subject = [''authority_deadline'', subject]"

text \<open>\<open>deadline\<close>: a stored \<open>None\<close> and an absent entry are the same.\<close>

definition deadline :: "string \<Rightarrow> 'a memo_store option \<Rightarrow> rat option" where
  "deadline subject c = (case memo_get (deadline_key subject) c of Some (Deadline d) \<Rightarrow> d | _ \<Rightarrow> None)"

definition record_deadline :: "string \<Rightarrow> rat option \<Rightarrow> 'a memo_store option \<Rightarrow> 'a memo_store option" where
  "record_deadline subject d c =
     (let previous = deadline subject c in
      memo_set (deadline_key subject)
        (Deadline (case previous of None \<Rightarrow> d | Some p \<Rightarrow> (case d of None \<Rightarrow> Some p | Some x \<Rightarrow> Some (min p x)))) c)"

text \<open>A row is its window: \<open>valid_from\<close> and \<open>valid_until\<close>.\<close>

type_synonym window = "datetime option \<times> datetime option"

definition transitions :: "rat \<Rightarrow> window \<Rightarrow> rat list" where
  "transitions observed_at w =
     (let start = map_option timestamp (fst w); end_at = map_option timestamp (snd w) in
      if (case end_at of Some e \<Rightarrow> e < observed_at | None \<Rightarrow> False) then []
      else filter (\<lambda>v. observed_at \<le> v) (concat (map (\<lambda>x. case x of None \<Rightarrow> [] | Some v \<Rightarrow> [v]) [start, end_at])))"

definition window_bound :: "rat \<Rightarrow> window list \<Rightarrow> rat option" where
  "window_bound observed_at rows =
     foldl (\<lambda>bound v. case bound of None \<Rightarrow> Some v | Some b \<Rightarrow> Some (min b v)) None
       (concat (map (transitions observed_at) rows))"

definition observe_windows ::
  "string \<Rightarrow> window list \<Rightarrow> rat \<Rightarrow> 'a memo_store option \<Rightarrow> 'a memo_store option" where
  "observe_windows subject rows observed_at c = record_deadline subject (window_bound observed_at rows) c"

text \<open>\<open>is_fresh\<close> on a decoded payload, at time \<open>now\<close>.\<close>

definition is_fresh :: "rat \<Rightarrow> (string \<times> pyval) list \<Rightarrow> bool" where
  "is_fresh now payload =
     (case (map_of payload ''validity_schema'', map_of payload ''valid_until'') of
        (Some schema, Some bound) \<Rightarrow>
          if \<not> py_eq schema (PInt 1) then False
          else (case bound of
                  PNone \<Rightarrow> True
                | PInt b \<Rightarrow> now < of_int b
                | PFloat (Fin b) \<Rightarrow> now < b
                | _ \<Rightarrow> False)
      | _ \<Rightarrow> False)"

definition bounded_ttl :: "int \<Rightarrow> rat option \<Rightarrow> rat \<Rightarrow> int" where
  "bounded_ttl ttl bound now =
     (case bound of
        None \<Rightarrow> ttl
      | Some b \<Rightarrow> let d = b - now in max 0 (min ttl (if 0 \<le> d then \<lfloor>d\<rfloor> else \<lceil>d\<rceil>)))"

section \<open>Facts about deadlines\<close>

lemma min_fold:
  fixes x :: rat
  shows "foldl (\<lambda>bound v. case bound of None \<Rightarrow> Some v | Some b \<Rightarrow> Some (min b v)) (Some x) vs = Some y \<Longrightarrow>
     y \<le> x \<and> (\<forall>v \<in> set vs. y \<le> v)"
proof (induction vs arbitrary: x)
  case (Cons v vs)
  from Cons.IH [of "min x v"] Cons.prems show ?case by simp
qed simp

lemma min_fold_Some:
  fixes x :: rat
  shows "\<exists>y. foldl (\<lambda>bound v. case bound of None \<Rightarrow> Some v | Some b \<Rightarrow> Some (min b v)) (Some x) vs = Some y"
  by (induction vs arbitrary: x) auto

lemma window_bound_le:
  assumes "r \<in> set rows" and "v \<in> set (transitions obs r)"
  shows "\<exists>b. window_bound obs rows = Some b \<and> b \<le> v"
proof -
  let ?vs = "concat (map (transitions obs) rows)"
  have v: "v \<in> set ?vs" using assms by auto
  then obtain x xs where vs: "?vs = x # xs" by (cases ?vs) auto
  obtain y where y: "foldl (\<lambda>bound v. case bound of None \<Rightarrow> Some v | Some b \<Rightarrow> Some (min b v)) (Some x) xs = Some y"
    using min_fold_Some by blast
  from min_fold [OF y] v vs have "y \<le> v" by auto
  with y vs show ?thesis by (simp add: window_bound_def)
qed

lemma timestamp_le [simp]: "timestamp a \<le> timestamp b \<longleftrightarrow> a \<le> b"
  by (simp add: timestamp_def divide_le_cancel)

lemma timestamp_less [simp]: "timestamp a < timestamp b \<longleftrightarrow> a < b"
  by (simp add: timestamp_def divide_less_cancel)

text \<open>Before the bound no row of the set changes its validity.\<close>

lemma windows_stable:
  assumes r: "(f, u) \<in> set rows" and le: "obs \<le> t"
    and before: "\<And>b. window_bound (timestamp obs) rows = Some b \<Longrightarrow> timestamp t < b"
  shows "currently_valid t f u \<longleftrightarrow> currently_valid obs f u"
proof -
  have far: "t < v" if v: "timestamp v \<in> set (transitions (timestamp obs) (f, u))" for v
  proof -
    obtain b where b: "window_bound (timestamp obs) rows = Some b" "b \<le> timestamp v"
      using window_bound_le [OF r v] by blast
    from before [OF b(1)] b(2) have "timestamp t < timestamp v" by (rule less_le_trans)
    then show ?thesis by simp
  qed
  show ?thesis
  proof (cases "case u of Some e \<Rightarrow> e < obs | None \<Rightarrow> False")
    case True
    with le show ?thesis by (auto simp: currently_valid_def split: option.splits)
  next
    case False
    have start: "t < v" if "f = Some v" "obs \<le> v" for v
      using that False by (intro far) (auto simp: transitions_def split: option.splits)
    have stop: "t < v" if "u = Some v" for v
      using that False by (intro far) (auto simp: transitions_def)
    show ?thesis
      using start stop le False
      by (fastforce simp: currently_valid_def not_le split: option.splits)
  qed
qed

lemma deadline_record:
  "deadline s (record_deadline s d c) =
     (case deadline s c of None \<Rightarrow> d | Some p \<Rightarrow> (case d of None \<Rightarrow> Some p | Some x \<Rightarrow> Some (min p x)))"
  by (simp add: record_deadline_def deadline_def memo_set_def memo_get_def update_conv' Let_def
      split: option.splits)

text \<open>A request observes several sets of rows of one subject, each at its own instant.\<close>

definition observe_all ::
  "string \<Rightarrow> (window list \<times> datetime) list \<Rightarrow> 'a memo_store option \<Rightarrow> 'a memo_store option" where
  "observe_all subject obs c = foldl (\<lambda>c (rows, t0). observe_windows subject rows (timestamp t0) c) c obs"

lemma deadline_observe_le:
  assumes "deadline s c = Some b"
  shows "\<exists>b'. deadline s (observe_all s obs c) = Some b' \<and> b' \<le> b"
  using assms
proof (induction obs arbitrary: c b)
  case (Cons o' obs)
  obtain rows t0 where o: "o' = (rows, t0)" by (cases o')
  obtain b1 where "deadline s (observe_windows s rows (timestamp t0) c) = Some b1" "b1 \<le> b"
    using Cons.prems by (cases "window_bound (timestamp t0) rows") (auto simp: observe_windows_def deadline_record)
  with Cons.IH [of "observe_windows s rows (timestamp t0) c"] o show ?case
    by (fastforce simp: observe_all_def)
qed (simp add: observe_all_def)

lemma observed_bound:
  assumes "(rows, t0) \<in> set obs" and "window_bound (timestamp t0) rows = Some b"
  shows "\<exists>b'. deadline s (observe_all s obs c) = Some b' \<and> b' \<le> b"
  using assms(1)
proof (induction obs arbitrary: c)
  case (Cons o' obs)
  show ?case
  proof (cases "o' = (rows, t0)")
    case True
    then obtain b1 where "deadline s (observe_windows s rows (timestamp t0) c) = Some b1" "b1 \<le> b"
      using assms(2) by (cases "deadline s c") (auto simp: observe_windows_def deadline_record)
    with deadline_observe_le [of s "observe_windows s rows (timestamp t0) c" b1 obs] True show ?thesis
      by (fastforce simp: observe_all_def)
  next
    case False
    with Cons show ?thesis by (cases o') (auto simp: observe_all_def)
  qed
qed simp

section \<open>Facts about provenance\<close>

lemma observe_first_facts:
  "map_of (observe_first vs obs) k = (case map_of obs k of Some x \<Rightarrow> Some x | None \<Rightarrow> map_of vs k)
   \<and> fst ` set (observe_first vs obs) = fst ` set obs \<union> fst ` set vs"
proof (induction vs arbitrary: obs)
  case Nil
  then show ?case by (auto simp: observe_first_def split: option.splits)
next
  case (Cons v vs)
  obtain a b where v: "v = (a, b)" by (cases v)
  let ?obs = "if a \<in> fst ` set obs then obs else obs @ [(a, b)]"
  have "observe_first (v # vs) obs = observe_first vs ?obs" by (simp add: observe_first_def v)
  moreover have "map_of ?obs k = (case map_of obs k of Some x \<Rightarrow> Some x
      | None \<Rightarrow> if a = k then Some b else None)"
    using map_of_eq_None_iff [of obs k] by (auto simp: map_add_def split: option.splits)
  ultimately show ?case
    using Cons [of ?obs] by (auto simp: v split: option.splits if_splits)
qed

text \<open>
  What a request does to its memo, as far as versions go: an entry is put (by a load, or by recording a
  deadline), and versions are bound for one owner. The entries of versions themselves are only written
  by binding.
\<close>

datatype 'a request_event = Put "string list" "'a memo_value" | Bind "(string \<times> int) list option"

fun request_step :: "string \<Rightarrow> 'a request_event \<Rightarrow> 'a memo_store option \<Rightarrow> 'a memo_store option" where
  "request_step owner (Put k v) c = memo_set k v c"
| "request_step owner (Bind vs) c = fst (bind_authority_versions owner vs c)"

definition request_run :: "string \<Rightarrow> 'a request_event list \<Rightarrow> 'a memo_store option" where
  "request_run owner evs = foldl (\<lambda>c e. request_step owner e c) None evs"

fun regular :: "'a request_event \<Rightarrow> bool" where
  "regular (Put k v) \<longleftrightarrow> k \<noteq> [] \<and> hd k \<noteq> ''authority_versions''"
| "regular (Bind _) \<longleftrightarrow> True"

fun policy_load :: "'a request_event \<Rightarrow> bool" where
  "policy_load (Put k v) \<longleftrightarrow> policy_key k"
| "policy_load (Bind _) \<longleftrightarrow> False"

text \<open>The binding in which a counter was first seen, with no policy read before it.\<close>

definition first_proven :: "'a request_event list \<Rightarrow> string \<Rightarrow> int \<Rightarrow> bool" where
  "first_proven evs k x \<longleftrightarrow>
     (\<exists>pre vs post. evs = pre @ Bind (Some vs) # post \<and> map_of vs k = Some x
        \<and> (\<forall>e \<in> set pre. \<not> policy_load e)
        \<and> (\<forall>e \<in> set pre. \<forall>ws. e = Bind (Some ws) \<longrightarrow> k \<notin> fst ` set ws))"

lemma first_proven_snoc: "first_proven evs k x \<Longrightarrow> first_proven (evs @ [e]) k x"
  unfolding first_proven_def by (metis append_Cons append_assoc)

text \<open>The observed versions have a proven binding; without a policy read, all seen counters are observed.\<close>

definition provenance_inv :: "string \<Rightarrow> 'a request_event list \<Rightarrow> bool" where
  "provenance_inv owner evs \<longleftrightarrow>
     (let m = memo_store (request_run owner evs) in
        (unproven_memo m \<longleftrightarrow> (\<exists>e \<in> set evs. policy_load e))
      \<and> (case map_of m (version_key owner) of
           Some (Versions (Some obs)) \<Rightarrow>
             (\<forall>k x. map_of obs k = Some x \<longrightarrow> first_proven evs k x)
             \<and> (\<forall>ws k. Bind (Some ws) \<in> set evs \<longrightarrow> k \<in> fst ` set ws \<longrightarrow> k \<in> fst ` set obs)
         | Some _ \<Rightarrow> True
         | None \<Rightarrow> (\<forall>vs. Bind vs \<notin> set evs)))"

lemma unproven_update:
  "unproven_memo (AList.update k v m) \<longleftrightarrow> unproven_memo m \<or> policy_key k"
  unfolding unproven_memo_def by (auto simp: dom_update)

lemma version_key_no_policy [simp]: "\<not> policy_key (version_key owner)"
  by (simp add: policy_key_def version_key_def policy_memos_def)

lemma memo_store_Some [simp]: "memo_store (Some m) = m"
  by (simp add: memo_store_def)

lemma map_of_memo_set: "map_of (memo_store (memo_set k v c)) = (map_of (memo_store c))(k \<mapsto> v)"
  by (simp add: memo_set_def update_conv')

lemma unproven_memo_set: "unproven_memo (memo_store (memo_set k v c)) \<longleftrightarrow> unproven_memo (memo_store c) \<or> policy_key k"
  by (simp add: memo_set_def unproven_update)

text \<open>Binding, by the versions found and given.\<close>

lemma map_of_ensure:
  "map_of (ensure_versions owner versions m) k =
     (if k = version_key owner \<and> map_of m k = None
      then Some (Versions (if given versions \<and> \<not> unproven_memo m then Some [] else None)) else map_of m k)"
  by (auto simp: ensure_versions_def update_conv' map_of_eq_None_iff)

lemma unproven_ensure [simp]: "unproven_memo (ensure_versions owner versions m) = unproven_memo m"
  by (simp add: ensure_versions_def unproven_update)

lemma bind_ok:
  assumes "map_of (ensure_versions owner versions (memo_store c)) (version_key owner) = Some (Versions (Some obs))"
    and "versions = Some (v # vs)" and "\<not> unproven_counter (memo_store c) (v # vs) obs"
  shows "bind_authority_versions owner versions c =
    (Some (AList.update (version_key owner) (Versions (Some (observe_first (v # vs) obs)))
        (ensure_versions owner versions (memo_store c))),
     Some (map (\<lambda>(k, _). (k, the (map_of (observe_first (v # vs) obs) k))) (v # vs)))"
  using assms by (simp add: bind_authority_versions_def Let_def)

lemma bind_fail:
  assumes "\<not> (\<exists>obs v vs. map_of (ensure_versions owner versions (memo_store c)) (version_key owner)
        = Some (Versions (Some obs)) \<and> versions = Some (v # vs) \<and> \<not> unproven_counter (memo_store c) (v # vs) obs)"
  shows "bind_authority_versions owner versions c =
    (Some (AList.update (version_key owner) (Versions None) (ensure_versions owner versions (memo_store c))), None)"
proof (cases "map_of (ensure_versions owner versions (memo_store c)) (version_key owner)")
  case (Some w)
  show ?thesis
  proof (cases "\<exists>obs v vs. w = Versions (Some obs) \<and> versions = Some (v # vs)")
    case True
    with assms Some show ?thesis by (auto simp: bind_authority_versions_def Let_def)
  next
    case False
    with Some show ?thesis
      by (cases w; cases versions; cases "the versions")
        (auto simp: bind_authority_versions_def Let_def split: option.splits)
  qed
qed (simp add: bind_authority_versions_def Let_def)

lemma bind_unproven:
  "unproven_memo (memo_store (fst (bind_authority_versions owner vs c))) = unproven_memo (memo_store c)"
proof -
  have "\<exists>v. fst (bind_authority_versions owner vs c) =
      Some (AList.update (version_key owner) v (ensure_versions owner vs (memo_store c)))"
  proof (cases "\<exists>obs v ws. map_of (ensure_versions owner vs (memo_store c)) (version_key owner)
        = Some (Versions (Some obs)) \<and> vs = Some (v # ws) \<and> \<not> unproven_counter (memo_store c) (v # ws) obs")
    case True
    then show ?thesis using bind_ok by fastforce
  next
    case False
    from bind_fail [OF this] show ?thesis by auto
  qed
  then show ?thesis by (auto simp: unproven_update)
qed

lemma request_run_snoc: "request_run owner (evs @ [e]) = request_step owner e (request_run owner evs)"
  by (simp add: request_run_def)

lemma provenance_bind:
  assumes inv: "provenance_inv owner evs"
  shows "provenance_inv owner (evs @ [Bind vs])"
    and "snd (bind_authority_versions owner vs (request_run owner evs)) = Some r \<Longrightarrow>
      \<exists>ws. vs = Some ws \<and> map fst r = map fst ws \<and>
        (\<forall>(k, x) \<in> set r. first_proven (evs @ [Bind vs]) k x)"
proof -
  let ?c = "request_run owner evs" and ?key = "version_key owner"
  let ?m = "memo_store ?c"
  define found where "found = map_of (ensure_versions owner vs ?m) ?key"
  have un: "unproven_memo ?m \<longleftrightarrow> (\<exists>e \<in> set evs. policy_load e)"
    using inv by (simp add: provenance_inv_def Let_def)
  have obs: "(\<forall>k x. map_of obs k = Some x \<longrightarrow> first_proven evs k x)
      \<and> (\<forall>ws k. Bind (Some ws) \<in> set evs \<longrightarrow> k \<in> fst ` set ws \<longrightarrow> k \<in> fst ` set obs)"
    if "found = Some (Versions (Some obs))" for obs
    using inv that by (auto simp: provenance_inv_def found_def map_of_ensure Let_def split: option.splits if_splits)
  let ?evs = "evs @ [Bind vs]"
  have un': "unproven_memo (memo_store (request_run owner ?evs)) \<longleftrightarrow> (\<exists>e \<in> set ?evs. policy_load e)"
    by (simp add: request_run_snoc bind_unproven un)
  show "provenance_inv owner ?evs"
    and "snd (bind_authority_versions owner vs ?c) = Some r \<Longrightarrow>
      \<exists>ws. vs = Some ws \<and> map fst r = map fst ws \<and> (\<forall>(k, x) \<in> set r. first_proven ?evs k x)"
  proof -
    have "provenance_inv owner ?evs \<and>
      (snd (bind_authority_versions owner vs ?c) = Some r \<longrightarrow>
      (\<exists>ws. vs = Some ws \<and> map fst r = map fst ws \<and> (\<forall>(k, x) \<in> set r. first_proven ?evs k x)))"
    proof (cases "\<exists>obs v ws. found = Some (Versions (Some obs)) \<and> vs = Some (v # ws)
        \<and> \<not> unproven_counter ?m (v # ws) obs")
      case False
      then have "map_of (memo_store (request_run owner ?evs)) ?key = Some (Versions None)
          \<and> snd (bind_authority_versions owner vs ?c) = None"
        using bind_fail [of owner vs ?c] by (simp add: request_run_snoc found_def update_conv')
      with un' show ?thesis by (simp add: provenance_inv_def Let_def)
    next
      case True
      then obtain obs v ws where t: "found = Some (Versions (Some obs))" "vs = Some (v # ws)"
        "\<not> unproven_counter ?m (v # ws) obs" by blast
      let ?obs = "observe_first (v # ws) obs"
      have r: "map_of (memo_store (request_run owner ?evs)) ?key = Some (Versions (Some ?obs))"
        "snd (bind_authority_versions owner vs ?c) = Some (map (\<lambda>(k, _). (k, the (map_of ?obs k))) (v # ws))"
        using bind_ok [OF t(1) [unfolded found_def] t(2,3)] by (simp_all add: request_run_snoc update_conv')
      have proven: "first_proven ?evs k x" if "map_of ?obs k = Some x" for k x
      proof (cases "map_of obs k")
        case (Some y)
        with that have "map_of obs k = Some x" by (simp add: observe_first_facts)
        with obs [OF t(1)] show ?thesis by (blast intro: first_proven_snoc)
      next
        case None
        with that have x: "map_of (v # ws) k = Some x" by (simp add: observe_first_facts)
        have "k \<in> fst ` set (v # ws)" using x by (metis map_of_eq_None_iff option.distinct(1))
        moreover have "k \<notin> fst ` set obs" using None by (simp add: map_of_eq_None_iff)
        ultimately have "\<not> unproven_memo ?m" using t(3) unfolding unproven_counter_def by blast
        with un obs [OF t(1)] \<open>k \<notin> fst ` set obs\<close> have "\<forall>e \<in> set evs. \<not> policy_load e"
          "\<forall>e \<in> set evs. \<forall>us. e = Bind (Some us) \<longrightarrow> k \<notin> fst ` set us" by blast+
        with x t(2) show ?thesis unfolding first_proven_def by blast
      qed
      have seen: "k \<in> fst ` set ?obs" if "Bind (Some us) \<in> set ?evs" "k \<in> fst ` set us" for us k
        unfolding observe_first_facts [THEN conjunct2]
        using that obs [OF t(1)] t(2) by (cases "Bind (Some us) \<in> set evs") auto
      have all: "\<exists>x. map_of ?obs k = Some x" if "k \<in> fst ` set (v # ws)" for k
        using that observe_first_facts [of "v # ws" obs k, THEN conjunct2]
        by (metis UnCI map_of_eq_None_iff option.exhaust)
      have "provenance_inv owner ?evs"
        using r(1) un' proven seen by (simp add: provenance_inv_def Let_def)
      moreover have "\<exists>us. vs = Some us \<and> map fst r = map fst us \<and> (\<forall>(k, x) \<in> set r. first_proven ?evs k x)"
        if "snd (bind_authority_versions owner vs ?c) = Some r"
      proof (intro exI conjI)
        have rr: "r = map (\<lambda>(k, _). (k, the (map_of ?obs k))) (v # ws)" using that r(2) by simp
        show "vs = Some (v # ws)" by (rule t(2))
        show "map fst r = map fst (v # ws)" unfolding rr by (simp add: split_beta)
        have "first_proven ?evs (fst p) (the (map_of ?obs (fst p)))" if "p \<in> set (v # ws)" for p
          using all [of "fst p"] proven [of "fst p"] that by force
        then show "\<forall>(k, x) \<in> set r. first_proven ?evs k x" unfolding rr set_map by (auto simp only: split_beta fst_conv snd_conv ball_simps)
      qed
      ultimately show ?thesis by blast
    qed
    then show "provenance_inv owner ?evs"
      and "snd (bind_authority_versions owner vs ?c) = Some r \<Longrightarrow>
      \<exists>ws. vs = Some ws \<and> map fst r = map fst ws \<and> (\<forall>(k, x) \<in> set r. first_proven ?evs k x)" by blast+
  qed
qed

lemma provenance_put:
  assumes inv: "provenance_inv owner evs" and reg: "regular (Put k v)"
  shows "provenance_inv owner (evs @ [Put k v])"
proof -
  have "k \<noteq> version_key owner" using reg by (auto simp: version_key_def)
  then have m: "map_of (memo_store (memo_set k v (request_run owner evs))) (version_key owner)
      = map_of (memo_store (request_run owner evs)) (version_key owner)"
    by (simp add: map_of_memo_set)
  show ?thesis
    using inv
    by (auto simp: provenance_inv_def Let_def m request_run_snoc unproven_memo_set first_proven_snoc
        split: option.splits memo_value.splits)
qed

lemma provenance_run: "(\<forall>e \<in> set evs. regular e) \<Longrightarrow> provenance_inv owner evs"
proof (induction evs rule: rev_induct)
  case Nil
  show ?case
    by (simp add: provenance_inv_def request_run_def memo_store_def unproven_memo_def)
next
  case (snoc e evs)
  then show ?case
    by (cases e) (auto intro: provenance_put provenance_bind(1))
qed

section \<open>Properties\<close>

text \<open>
  C29. Provenance of cached authority. In any request, whatever it loads and whenever it binds versions,
  the versions that \<open>bind_authority_versions\<close> returns for a cache write are, counter by counter, the
  first ones the request observed, and each was observed before any policy row entered the request's
  memo. A verdict is never tagged with versions newer than the rows it was computed from.
\<close>

theorem versions_observed_before_policy:
  assumes "\<forall>e \<in> set evs. regular e"
    and "snd (bind_authority_versions owner versions (request_run owner evs)) = Some r"
  shows "\<exists>vs. versions = Some vs \<and> map fst r = map fst vs
    \<and> (\<forall>(k, x) \<in> set r. first_proven (evs @ [Bind versions]) k x)"
  by (rule provenance_bind(2) [OF provenance_run [OF assms(1)] assms(2)])

text \<open>
  The deadline of a subject bounds its windows. After a request observed any sets of rows, no row of
  any of them changes its validity between the instant of its observation and the recorded deadline, in
  either direction: a scheduled start or an end is never crossed.
\<close>

theorem deadline_bounds_windows:
  assumes "(rows, t0) \<in> set obs" and "(f, u) \<in> set rows" and "t0 \<le> t"
    and "\<And>b. deadline subject (observe_all subject obs c) = Some b \<Longrightarrow> timestamp t < b"
  shows "currently_valid t f u \<longleftrightarrow> currently_valid t0 f u"
proof (rule windows_stable [OF assms(2,3)])
  fix b assume "window_bound (timestamp t0) rows = Some b"
  from observed_bound [OF assms(1) this] obtain b' where
    "deadline subject (observe_all subject obs c) = Some b'" "b' \<le> b" by blast
  with assms(4) show "timestamp t < b" by fastforce
qed

theorem deadline_bounds_windows_witness:
  "currently_valid 5000000 (Some 9000000) None \<longleftrightarrow> currently_valid 1000000 (Some 9000000) None"
proof (rule deadline_bounds_windows [of "[(Some 9000000, None)]" _
      "[([(Some 9000000, None)], 1000000)]" _ _ _ "''u''" "None :: unit memo_store option"])
  have "deadline ''u'' (observe_all ''u'' [([(Some 9000000, None)], 1000000)] (None :: unit memo_store option))
      = Some (timestamp 9000000)"
    by (simp add: observe_all_def observe_windows_def deadline_record window_bound_def transitions_def)
      (simp add: deadline_def memo_get_def)
  then show "timestamp 5000000 < b"
    if "deadline ''u'' (observe_all ''u'' [([(Some 9000000, None)], 1000000)] (None :: unit memo_store option)) = Some b"
    for b using that by simp
qed simp_all

definition sample_request :: "unit request_event list" where
  "sample_request = [Bind (Some [(''global'', 3)]), Put [''ancestors'', ''e''] (Memo ())]"

theorem versions_observed_before_policy_witness:
  "first_proven (sample_request @ [Bind (Some [(''global'', 4)])]) ''global'' 3"
proof -
  have "snd (bind_authority_versions ''c'' (Some [(''global'', 4)]) (request_run ''c'' sample_request))
      = Some [(''global'', 3)]"
    by code_simp
  from versions_observed_before_policy [OF _ this] show ?thesis
    by (simp add: sample_request_def)
qed

end
