(* ===== verification/MemoryCache.thy ===== *)
theory MemoryCache
  imports RequestCache Dict
begin

text \<open>
  The in-process cache of \<open>outlabs_auth/services/cache_backend.py\<close>. The ordered dictionary is the list of
  its entries, the least recently used first; an entry is its expiry, if any, and its text. \<open>now\<close> is the
  monotonic clock. JSON and the glob matcher are parameters.
\<close>

section \<open>Keys\<close>

record mem_config =
  mc_prefix :: string
  mc_max :: nat

text \<open>\<open>MemoryCacheBackend(config, max_entries=...)\<close>\<close>

definition mem_config_of :: "string \<Rightarrow> int \<Rightarrow> mem_config" where
  "mem_config_of p max_entries = \<lparr>mc_prefix = p, mc_max = nat (max 1 max_entries)\<rparr>"

definition qualify_key :: "string \<Rightarrow> string \<Rightarrow> string" where
  "qualify_key p key = (if key = p \<or> py_startswith key (p @ '':'') then key else p @ '':'' @ key)"

definition make_key :: "string \<Rightarrow> string list \<Rightarrow> string" where
  "make_key p ps = qualify_key p (join_with '':'' ps)"

definition make_channel :: "string \<Rightarrow> string \<Rightarrow> string" where
  "make_channel p channel = qualify_key p (''channel:'' @ channel)"

section \<open>The store\<close>

type_synonym mem_store = "(string \<times> rat option \<times> string) list"

definition expired :: "rat \<Rightarrow> rat option \<Rightarrow> bool" where
  "expired now e \<longleftrightarrow> (case e of None \<Rightarrow> False | Some t \<Rightarrow> t \<le> now)"

definition purge_expired :: "rat \<Rightarrow> string \<Rightarrow> mem_store \<Rightarrow> mem_store" where
  "purge_expired now key st =
     (case map_of st key of
        None \<Rightarrow> st
      | Some (e, _) \<Rightarrow> if expired now e then AList.delete key st else st)"

text \<open>\<open>while len(self._store) > self._max_entries: self._store.popitem(last=False)\<close>\<close>

function evict_if_needed :: "nat \<Rightarrow> mem_store \<Rightarrow> mem_store" where
  "evict_if_needed n st = (if n < length st then evict_if_needed n (tl st) else st)"
  by pat_completeness auto
termination by (relation "measure (\<lambda>(n, st). length st)") auto

declare evict_if_needed.simps [simp del]

definition set_raw_value :: "mem_config \<Rightarrow> rat \<Rightarrow> string \<Rightarrow> string \<Rightarrow> int option \<Rightarrow> mem_store \<Rightarrow> mem_store" where
  "set_raw_value mc now key value ttl st =
     (let e = (case ttl of Some t \<Rightarrow> if 0 < t then Some (now + of_int t) else None | None \<Rightarrow> None)
      in evict_if_needed (mc_max mc) (put_last (qualify_key (mc_prefix mc) key) (e, value) st))"

definition get_raw_value :: "mem_config \<Rightarrow> rat \<Rightarrow> string \<Rightarrow> mem_store \<Rightarrow> mem_store \<times> string option" where
  "get_raw_value mc now key st =
     (let q = qualify_key (mc_prefix mc) key; st1 = purge_expired now q st in
      case map_of st1 q of
        None \<Rightarrow> (st1, None)
      | Some item \<Rightarrow> (put_last q item st1, Some (snd item)))"

fun mget_raw :: "mem_config \<Rightarrow> rat \<Rightarrow> string list \<Rightarrow> mem_store \<Rightarrow> mem_store \<times> string option list" where
  "mget_raw mc now [] st = (st, [])"
| "mget_raw mc now (k # ks) st =
     (let (st1, v) = get_raw_value mc now k st; (st2, vs) = mget_raw mc now ks st1 in (st2, v # vs))"

definition mem_get :: "pyrt \<Rightarrow> mem_config \<Rightarrow> rat \<Rightarrow> string \<Rightarrow> mem_store \<Rightarrow> mem_store \<times> pyval option" where
  "mem_get rt mc now key st =
     (let (st1, raw) = get_raw_value mc now key st
      in (st1, case raw of None \<Rightarrow> None | Some r \<Rightarrow> rt_loads rt r))"

definition mem_set :: "pyrt \<Rightarrow> mem_config \<Rightarrow> rat \<Rightarrow> string \<Rightarrow> pyval \<Rightarrow> int option \<Rightarrow> mem_store \<Rightarrow> mem_store \<times> bool" where
  "mem_set rt mc now key value ttl st = (set_raw_value mc now key (rt_dumps rt value) ttl st, True)"

definition mem_delete :: "mem_config \<Rightarrow> string \<Rightarrow> mem_store \<Rightarrow> mem_store \<times> bool" where
  "mem_delete mc key st =
     (let q = qualify_key (mc_prefix mc) key in (AList.delete q st, q \<in> fst ` set st))"

definition mem_delete_pattern ::
  "(string \<Rightarrow> string \<Rightarrow> bool) \<Rightarrow> mem_config \<Rightarrow> string \<Rightarrow> mem_store \<Rightarrow> mem_store \<times> int" where
  "mem_delete_pattern glob mc pattern st =
     (let q = qualify_key (mc_prefix mc) pattern; matches = filter (\<lambda>k. glob k q) (map fst st)
      in (filter (\<lambda>(k, _). k \<notin> set matches) st, int (length matches)))"

text \<open>\<open>int(raw)\<close>, and 0 for nothing or for text that is no integer.\<close>

definition counter_of :: "string option \<Rightarrow> int" where
  "counter_of raw = (case raw of None \<Rightarrow> 0 | Some r \<Rightarrow> (case py_int r of None \<Rightarrow> 0 | Some i \<Rightarrow> i))"

definition mem_increment :: "mem_config \<Rightarrow> rat \<Rightarrow> string \<Rightarrow> int \<Rightarrow> mem_store \<Rightarrow> mem_store \<times> int" where
  "mem_increment mc now key amount st =
     (let (st1, raw) = get_raw_value mc now key st;
          new = counter_of raw + amount;
          q = qualify_key (mc_prefix mc) key;
          e = (case map_of st1 q of None \<Rightarrow> None | Some (e, _) \<Rightarrow> e)
      in (evict_if_needed (mc_max mc) (put_last q (e, show_int new) st1), new))"

definition mem_get_counter :: "mem_config \<Rightarrow> rat \<Rightarrow> string \<Rightarrow> mem_store \<Rightarrow> mem_store \<times> int" where
  "mem_get_counter mc now key st = (let (st1, raw) = get_raw_value mc now key st in (st1, counter_of raw))"

text \<open>Publishing is a no-op.\<close>

definition mem_bump_versions_and_publish ::
  "mem_config \<Rightarrow> rat \<Rightarrow> string list \<Rightarrow> mem_store \<Rightarrow> mem_store \<times> bool" where
  "mem_bump_versions_and_publish mc now keys st =
     (foldl (\<lambda>st k. fst (mem_increment mc now k 1 st)) st keys, True)"

section \<open>Reading a store\<close>

text \<open>What a read of a key sees at an instant.\<close>

definition peek :: "mem_config \<Rightarrow> rat \<Rightarrow> mem_store \<Rightarrow> string \<Rightarrow> string option" where
  "peek mc now st key =
     (case map_of st (qualify_key (mc_prefix mc) key) of
        None \<Rightarrow> None | Some (e, v) \<Rightarrow> if expired now e then None else Some v)"

definition store_wf :: "mem_config \<Rightarrow> mem_store \<Rightarrow> bool" where
  "store_wf mc st \<longleftrightarrow> distinct (map fst st) \<and> length st \<le> mc_max mc \<and> 0 < mc_max mc"

lemma qualify_idem [simp]: "qualify_key p (qualify_key p k) = qualify_key p k"
  by (simp add: qualify_key_def py_startswith_iff)

lemma evict_drop: "evict_if_needed n st = drop (length st - n) st"
proof (induction n st rule: evict_if_needed.induct)
  case (1 n st)
  show ?case
  proof (cases "n < length st")
    case True
    then obtain x xs where st: "st = x # xs" by (cases st) auto
    with True 1 show ?thesis by (subst evict_if_needed.simps) (simp add: Suc_diff_le)
  next
    case False
    then show ?thesis by (subst evict_if_needed.simps) simp
  qed
qed

section \<open>The effect of the operations\<close>

lemma map_of_delete_at: "map_of (AList.delete k st) j = (if j = k then None else map_of st j)"
  by (simp add: delete_conv')

lemma purge_wf: "store_wf mc st \<Longrightarrow> store_wf mc (purge_expired now key st)"
  using length_delete_le [of key st]
  by (auto simp: store_wf_def purge_expired_def distinct_delete split: option.splits)

lemma purge_length: "length (purge_expired now key st) \<le> length st"
  using length_delete_le [of key st] by (auto simp: purge_expired_def split: option.splits)

lemma peek_purge: "now \<le> t \<Longrightarrow> peek mc t (purge_expired now key st) k = peek mc t st k"
  by (auto simp: peek_def purge_expired_def map_of_delete_at expired_def split: option.splits)

lemma get_facts:
  assumes "store_wf mc st" and "now \<le> t"
  shows "store_wf mc (fst (get_raw_value mc now key st))
    \<and> snd (get_raw_value mc now key st) = peek mc now st key
    \<and> peek mc t (fst (get_raw_value mc now key st)) k = peek mc t st k
    \<and> length (fst (get_raw_value mc now key st)) \<le> length st"
proof -
  let ?q = "qualify_key (mc_prefix mc) key"
  let ?st1 = "purge_expired now ?q st"
  have v: "peek mc now st key = map_option snd (map_of ?st1 ?q)"
    by (auto simp: peek_def purge_expired_def map_of_delete_at split: option.splits)
  show ?thesis
  proof (cases "map_of ?st1 ?q")
    case None
    with v purge_wf [OF assms(1)] peek_purge [OF assms(2)] purge_length show ?thesis
      by (simp add: get_raw_value_def Let_def)
  next
    case (Some item)
    then have mem: "?q \<in> set (map fst ?st1)" by (metis map_of_eq_None_iff option.distinct(1) set_map)
    have "store_wf mc (put_last ?q item ?st1)"
      using purge_wf [OF assms(1), of now ?q] length_put_present [OF mem, of item]
      by (auto simp: store_wf_def distinct_put)
    moreover have "peek mc t (put_last ?q item ?st1) k = peek mc t ?st1 k"
      using Some by (auto simp: peek_def)
    moreover have "length (put_last ?q item ?st1) \<le> length st"
      using length_put_present [OF mem, of item] purge_length [of now ?q st] by linarith
    ultimately show ?thesis
      using Some v peek_purge [OF assms(2), of mc ?q st] by (simp add: get_raw_value_def Let_def)
  qed
qed

lemma mget_facts:
  assumes "store_wf mc st" and "now \<le> t"
  shows "store_wf mc (fst (mget_raw mc now keys st))
    \<and> snd (mget_raw mc now keys st) = map (peek mc now st) keys
    \<and> (\<forall>k. peek mc t (fst (mget_raw mc now keys st)) k = peek mc t st k)
    \<and> length (fst (mget_raw mc now keys st)) \<le> length st"
  using assms(1)
proof (induction keys arbitrary: st)
  case (Cons key keys)
  let ?st1 = "fst (get_raw_value mc now key st)"
  have g: "store_wf mc ?st1" "snd (get_raw_value mc now key st) = peek mc now st key"
    "peek mc t ?st1 k = peek mc t st k" "peek mc now ?st1 k = peek mc now st k"
    "length ?st1 \<le> length st" for k
    using get_facts [OF Cons.prems assms(2)] get_facts [OF Cons.prems order_refl] by blast+
  show ?case
    using Cons.IH [OF g(1)] g by (auto simp: case_prod_beta Let_def)
qed simp

text \<open>A write: the newest entry is kept, and the others are kept or evicted.\<close>

lemma put_evict_facts:
  assumes "store_wf mc st"
  shows "store_wf mc (evict_if_needed (mc_max mc) (put_last q item st))
    \<and> map_of (evict_if_needed (mc_max mc) (put_last q item st)) q = Some item
    \<and> (q \<in> set (map fst st) \<or> length st < mc_max mc \<longrightarrow>
        evict_if_needed (mc_max mc) (put_last q item st) = put_last q item st)
    \<and> (j \<noteq> q \<longrightarrow> map_of (evict_if_needed (mc_max mc) (put_last q item st)) j \<in> {None, map_of st j})"
proof -
  let ?p = "put_last q item st"
  let ?n = "length ?p - mc_max mc"
  have wf: "distinct (map fst st)" "length st \<le> mc_max mc" "0 < mc_max mc"
    using assms by (auto simp: store_wf_def)
  note d = distinct_put [OF wf(1), of q item]
  have n: "?n < length ?p" using wf(3) by (simp add: put_last_def)
  have "drop ?n ?p \<noteq> [] \<and> last (drop ?n ?p) = (q, item)"
    using n by (simp add: last_drop) (simp add: put_last_def)
  then have "(q, item) \<in> set (drop ?n ?p)" by (metis last_in_set)
  then have new: "map_of (drop ?n ?p) q = Some item"
    using distinct_drop_keys [OF d] by (rule map_of_is_SomeI [rotated])
  have old: "map_of (drop ?n ?p) j \<in> {None, map_of st j}" if "j \<noteq> q"
    using map_of_drop [OF d, of ?n j] that by (cases "map_of (drop ?n ?p) j") auto
  have "length ?p \<le> mc_max mc" if "q \<in> set (map fst st) \<or> length st < mc_max mc"
    using that
  proof
    assume "q \<in> set (map fst st)"
    from length_put_present [OF this] wf(2) show ?thesis by (rule le_trans)
  next
    assume "length st < mc_max mc"
    with length_put [of q item st] show ?thesis by simp
  qed
  then show ?thesis
    using new old distinct_drop_keys [OF d] wf(3) by (auto simp: evict_drop store_wf_def)
qed

lemma set_facts:
  assumes "store_wf mc st"
  shows "store_wf mc (set_raw_value mc now key value ttl st)
    \<and> peek mc now (set_raw_value mc now key value ttl st) key = Some value"
proof -
  let ?q = "qualify_key (mc_prefix mc) key"
  let ?e = "case ttl of Some t \<Rightarrow> if 0 < t then Some (now + of_int t) else None | None \<Rightarrow> None"
  have "\<not> expired now ?e" by (auto simp: expired_def split: option.splits)
  then show ?thesis
    using put_evict_facts [OF assms, of ?q "(?e, value)"] by (simp add: set_raw_value_def peek_def)
qed

lemma delete_facts:
  "store_wf mc st \<Longrightarrow> store_wf mc (fst (mem_delete mc key st))"
  "store_wf mc st \<Longrightarrow> store_wf mc (fst (mem_delete_pattern glob mc pattern st))"
  using length_delete_le [of "qualify_key (mc_prefix mc) key" st] length_filter_le
  by (auto simp: store_wf_def mem_delete_def mem_delete_pattern_def Let_def distinct_delete
      distinct_filter_keys intro: le_trans [OF length_filter_le])

lemma increment_wf: "store_wf mc st \<Longrightarrow> store_wf mc (fst (mem_increment mc now key amount st))"
  using get_facts [of mc st now now key] put_evict_facts
  by (simp add: mem_increment_def case_prod_beta Let_def)

text \<open>The operations on one cache.\<close>

datatype mem_op =
    SetRaw rat string string "int option"
  | GetRaw rat string
  | MGetRaw rat "string list"
  | Delete string
  | DeletePattern string
  | Increment rat string int
  | Bump rat "string list"

fun mem_step :: "(string \<Rightarrow> string \<Rightarrow> bool) \<Rightarrow> mem_config \<Rightarrow> mem_op \<Rightarrow> mem_store \<Rightarrow> mem_store" where
  "mem_step glob mc (SetRaw now k v ttl) st = set_raw_value mc now k v ttl st"
| "mem_step glob mc (GetRaw now k) st = fst (get_raw_value mc now k st)"
| "mem_step glob mc (MGetRaw now ks) st = fst (mget_raw mc now ks st)"
| "mem_step glob mc (Delete k) st = fst (mem_delete mc k st)"
| "mem_step glob mc (DeletePattern p) st = fst (mem_delete_pattern glob mc p st)"
| "mem_step glob mc (Increment now k n) st = fst (mem_increment mc now k n st)"
| "mem_step glob mc (Bump now ks) st = fst (mem_bump_versions_and_publish mc now ks st)"

definition mem_run :: "(string \<Rightarrow> string \<Rightarrow> bool) \<Rightarrow> mem_config \<Rightarrow> mem_op list \<Rightarrow> mem_store" where
  "mem_run glob mc ops = foldl (\<lambda>st op. mem_step glob mc op st) [] ops"

lemma bump_wf: "store_wf mc st \<Longrightarrow> store_wf mc (foldl (\<lambda>st k. fst (mem_increment mc now k 1 st)) st keys)"
  by (induction keys arbitrary: st) (simp_all add: increment_wf)

lemma mem_step_wf: "store_wf mc st \<Longrightarrow> store_wf mc (mem_step glob mc op st)"
  using get_facts [OF _ order_refl] mget_facts [OF _ order_refl] set_facts
  by (cases op) (simp_all add: delete_facts increment_wf bump_wf mem_bump_versions_and_publish_def)

lemma mem_run_wf: "0 < mc_max mc \<Longrightarrow> store_wf mc (mem_run glob mc ops)"
proof (induction ops rule: rev_induct)
  case (snoc op ops)
  then show ?case using mem_step_wf [of mc "mem_run glob mc ops"] by (simp add: mem_run_def)
qed (simp add: mem_run_def store_wf_def)

section \<open>Properties\<close>

text \<open>
  C30. The memory cache is bounded and keeps what was just written. After any sequence of operations it
  holds at most \<open>max_entries\<close> entries (one, if the configured bound is not positive), each key once, and
  a value written next is read back at that instant, however full the cache is.
\<close>

theorem memory_cache_bounded:
  "let mc = mem_config_of p n; st = mem_run glob mc ops in
     distinct (map fst st) \<and> int (length st) \<le> max 1 n
     \<and> peek mc now (set_raw_value mc now key value ttl st) key = Some value"
proof -
  let ?mc = "mem_config_of p n"
  have "store_wf ?mc (mem_run glob ?mc ops)" by (rule mem_run_wf) (simp add: mem_config_of_def)
  then show ?thesis
    using set_facts by (auto simp: Let_def store_wf_def mem_config_of_def)
qed

end
