(* ===== verification/CacheService.thy ===== *)
theory CacheService
  imports MemoryCache "HOL-Library.List_Lexorder" "HOL-Library.Char_ord"
begin

text \<open>
  The permission cache over a shared store, \<open>outlabs_auth/services/cache.py\<close>. The service works on any
  client with the operations of the record below; the in-process client is the memory cache, and the
  Redis client stays abstract. The payload of an entry is JSON (a parameter). The listener loop only
  logs and is not modelled.
\<close>

section \<open>The client\<close>

record 's backend =
  bk_available :: bool
  bk_key :: "string list \<Rightarrow> string"
  bk_mget :: "rat \<Rightarrow> string list \<Rightarrow> 's \<Rightarrow> 's \<times> string option list option"
  bk_set :: "rat \<Rightarrow> string \<Rightarrow> string \<Rightarrow> int \<Rightarrow> 's \<Rightarrow> 's \<times> bool"
  bk_incr :: "rat \<Rightarrow> string \<Rightarrow> 's \<Rightarrow> 's \<times> int option"
  bk_counter :: "rat \<Rightarrow> string \<Rightarrow> 's \<Rightarrow> 's \<times> int"
  bk_get_json :: "rat \<Rightarrow> string \<Rightarrow> 's \<Rightarrow> 's \<times> pyval option"
  bk_set_json :: "rat \<Rightarrow> string \<Rightarrow> pyval \<Rightarrow> int \<Rightarrow> 's \<Rightarrow> 's \<times> bool"
  bk_delete_pattern :: "string \<Rightarrow> 's \<Rightarrow> 's \<times> int"
  bk_bump :: "rat \<Rightarrow> string list \<Rightarrow> string \<Rightarrow> string list \<Rightarrow> 's \<Rightarrow> 's \<times> bool"
  bk_publish :: "string \<Rightarrow> string \<Rightarrow> 's \<Rightarrow> 's \<times> bool"

text \<open>The memory cache as a client.\<close>

definition memory_backend :: "pyrt \<Rightarrow> (string \<Rightarrow> string \<Rightarrow> bool) \<Rightarrow> mem_config \<Rightarrow> mem_store backend" where
  "memory_backend rt glob mc =
     \<lparr>bk_available = True,
      bk_key = make_key (mc_prefix mc),
      bk_mget = (\<lambda>now ks st. let (st1, vs) = mget_raw mc now ks st in (st1, Some vs)),
      bk_set = (\<lambda>now k v ttl st. (set_raw_value mc now k v (Some ttl) st, True)),
      bk_incr = (\<lambda>now k st. let (st1, n) = mem_increment mc now k 1 st in (st1, Some n)),
      bk_counter = mem_get_counter mc,
      bk_get_json = mem_get rt mc,
      bk_set_json = (\<lambda>now k v ttl st. mem_set rt mc now k v (Some ttl) st),
      bk_delete_pattern = mem_delete_pattern glob mc,
      bk_bump = (\<lambda>now ks ch ms st. mem_bump_versions_and_publish mc now ks st),
      bk_publish = (\<lambda>ch m st. (st, True))\<rparr>"

section \<open>Keys\<close>

definition nonempty :: "string option \<Rightarrow> string option" where
  "nonempty s = (case s of Some (c # cs) \<Rightarrow> Some (c # cs) | _ \<Rightarrow> None)"

definition opt_list :: "'a option \<Rightarrow> 'a list" where
  "opt_list x = (case x of None \<Rightarrow> [] | Some y \<Rightarrow> [y])"

definition permission_check_parts :: "string \<Rightarrow> string \<Rightarrow> string option \<Rightarrow> string option \<Rightarrow> string list" where
  "permission_check_parts user_id required entity_id context_hash =
     [''auth'', ''permission-check'', user_id,
      (case nonempty entity_id of Some e \<Rightarrow> e | None \<Rightarrow> ''global''), required]
     @ opt_list (nonempty context_hash)"

definition make_permission_check_key ::
  "'s backend \<Rightarrow> string \<Rightarrow> string \<Rightarrow> string option \<Rightarrow> string option \<Rightarrow> string" where
  "make_permission_check_key B user_id required entity_id context_hash =
     bk_key B (permission_check_parts user_id required entity_id context_hash)"

definition make_entity_relation_key :: "'s backend \<Rightarrow> string \<Rightarrow> string \<Rightarrow> int \<Rightarrow> string" where
  "make_entity_relation_key B ancestor_id descendant_id version =
     bk_key B [''auth'', ''entity-relation'', show_int version, ancestor_id, descendant_id]"

definition version_parts :: "string \<Rightarrow> string option \<Rightarrow> string list" where
  "version_parts scope subject = [''auth'', ''api-key-snapshot-version'', scope] @ opt_list subject"

definition make_version_key :: "'s backend \<Rightarrow> string \<Rightarrow> string option \<Rightarrow> string" where
  "make_version_key B scope subject = bk_key B (version_parts scope subject)"

definition make_user_permissions_key :: "'s backend \<Rightarrow> string \<Rightarrow> bool \<Rightarrow> string" where
  "make_user_permissions_key B user_id include_local =
     bk_key B [''auth'', ''user-permissions'', user_id, if include_local then ''all'' else ''global'']"

definition make_abac_conditions_flag_key :: "'s backend \<Rightarrow> string" where
  "make_abac_conditions_flag_key B = bk_key B [''auth'', ''abac-conditions-exist'']"

section \<open>Versions\<close>

type_synonym versions = "(string \<times> int) list"

definition coerce_version :: "string option \<Rightarrow> int" where
  "coerce_version raw = counter_of raw"

text \<open>The scopes of a snapshot: the label, and the scope and subject of the counter.\<close>

definition snapshot_scopes ::
  "string option \<Rightarrow> string option \<Rightarrow> string option \<Rightarrow> string option \<Rightarrow> (string \<times> string \<times> string option) list" where
  "snapshot_scopes user_id principal_id entity_id credential_hash =
     (''global'', ''global'', None)
     # map (\<lambda>u. (''user:'' @ u, ''user'', Some u)) (opt_list (nonempty user_id))
     @ map (\<lambda>p. (''integration_principal:'' @ p, ''integration_principal'', Some p)) (opt_list (nonempty principal_id))
     @ map (\<lambda>e. (''entity:'' @ e, ''entity'', Some e)) (opt_list (nonempty entity_id))
     @ map (\<lambda>h. (''credential:'' @ h, ''credential'', Some h)) (opt_list (nonempty credential_hash))"

fun sequential_versions ::
  "'s backend \<Rightarrow> rat \<Rightarrow> (string \<times> string \<times> string option) list \<Rightarrow> 's \<Rightarrow> 's \<times> versions" where
  "sequential_versions B now [] s = (s, [])"
| "sequential_versions B now ((label, scope, subject) # r) s =
     (let (s1, n) = bk_counter B now (make_version_key B scope subject) s;
          (s2, vs) = sequential_versions B now r s1
      in (s2, (label, n) # vs))"

definition get_api_key_auth_snapshot_versions ::
  "'s backend \<Rightarrow> rat \<Rightarrow> string option \<Rightarrow> string option \<Rightarrow> string option \<Rightarrow> string option \<Rightarrow> 's \<Rightarrow> 's \<times> versions" where
  "get_api_key_auth_snapshot_versions B now user_id principal_id entity_id credential_hash s =
     (if \<not> bk_available B then (s, [])
      else let scopes = snapshot_scopes user_id principal_id entity_id credential_hash;
               (s1, values) = bk_mget B now (map (\<lambda>(_, sc, sub). make_version_key B sc sub) scopes) s
           in case values of
                Some vs \<Rightarrow>
                  if length vs = length scopes then (s1, zip (map fst scopes) (map coerce_version vs))
                  else sequential_versions B now scopes s1
              | None \<Rightarrow> sequential_versions B now scopes s1)"

definition bump_version :: "'s backend \<Rightarrow> rat \<Rightarrow> string \<Rightarrow> string option \<Rightarrow> 's \<Rightarrow> 's \<times> int" where
  "bump_version B now scope subject s =
     (if \<not> bk_available B then (s, 0)
      else let (s1, v) = bk_incr B now (make_version_key B scope subject) s
           in (s1, case v of None \<Rightarrow> 0 | Some n \<Rightarrow> n))"

section \<open>Entries\<close>

definition versions_value :: "versions \<Rightarrow> pyval" where
  "versions_value vs = PDict (map (\<lambda>(l, n). (l, PInt n)) vs)"

definition dict_get :: "(string \<times> pyval) list \<Rightarrow> string \<Rightarrow> pyval" where
  "dict_get d k = (case map_of d k of None \<Rightarrow> PNone | Some v \<Rightarrow> v)"

text \<open>An entry that decodes to a dictionary of the current versions.\<close>

definition current_entry :: "pyrt \<Rightarrow> versions \<Rightarrow> string option \<Rightarrow> (string \<times> pyval) list option" where
  "current_entry rt vs raw =
     (case nonempty raw of
        None \<Rightarrow> None
      | Some r \<Rightarrow>
          (case rt_loads rt r of
             Some (PDict p) \<Rightarrow> if py_eq (dict_get p ''versions'') (versions_value vs) then Some p else None
           | _ \<Rightarrow> None))"

definition bound_of :: "pyval \<Rightarrow> rat option" where
  "bound_of v = (case v of PInt i \<Rightarrow> Some (of_int i) | PFloat (Fin r) \<Rightarrow> Some r | _ \<Rightarrow> None)"

text \<open>\<open>ttl\<close> with ten percent of jitter; \<open>jitter\<close> is the random number, in the range of the spread.\<close>

definition jittered_ttl :: "int \<Rightarrow> int \<Rightarrow> int" where
  "jittered_ttl jitter base_ttl =
     (if base_ttl \<le> 10 then base_ttl
      else let spread = max 1 (base_ttl div 10) in base_ttl + max (- spread) (min spread jitter))"

definition check_payload :: "bool \<Rightarrow> versions \<Rightarrow> rat option \<Rightarrow> pyval" where
  "check_payload result vs bound =
     PDict [(''result'', PBool result), (''versions'', versions_value vs), (''validity_schema'', PInt 1),
            (''valid_until'', case bound of None \<Rightarrow> PNone | Some b \<Rightarrow> PFloat (Fin b))]"

text \<open>The labels of a check: the user, and the entity when there is one.\<close>

definition check_scopes :: "string \<Rightarrow> string option \<Rightarrow> (string \<times> string \<times> string option) list" where
  "check_scopes user_id entity_id =
     [(''global'', ''global'', None), (''user:'' @ user_id, ''user'', Some user_id)]
     @ map (\<lambda>e. (''entity:'' @ e, ''entity'', Some e)) (opt_list (nonempty entity_id))"

text \<open>The verdict of a current, fresh entry, with its deadline.\<close>

definition entry_verdict :: "pyrt \<Rightarrow> rat \<Rightarrow> versions \<Rightarrow> string option \<Rightarrow> (bool \<times> rat option) option" where
  "entry_verdict rt now vs raw =
     (case current_entry rt vs raw of
        None \<Rightarrow> None
      | Some p \<Rightarrow>
          if \<not> is_fresh now p then None
          else (case dict_get p ''result'' of
                  PBool b \<Rightarrow> Some (b, bound_of (dict_get p ''valid_until''))
                | _ \<Rightarrow> None))"

text \<open>\<open>now\<close> is the wall clock of the deadlines, \<open>tick\<close> the clock of the store.\<close>

definition get_permission_check ::
  "pyrt \<Rightarrow> 's backend \<Rightarrow> rat \<Rightarrow> rat \<Rightarrow> string \<Rightarrow> string \<Rightarrow> string option \<Rightarrow> string option
     \<Rightarrow> 's \<times> 'a memo_store option \<Rightarrow> ('s \<times> 'a memo_store option) \<times> bool option \<times> versions option" where
  "get_permission_check rt B tick now user_id required entity_id context_hash sm =
     (case sm of (s, memo) \<Rightarrow>
      if \<not> bk_available B then ((s, memo), None, None)
      else let scopes = check_scopes user_id entity_id;
               keys = make_permission_check_key B user_id required entity_id context_hash
                      # map (\<lambda>(_, sc, sub). make_version_key B sc sub) scopes;
               (s1, values) = bk_mget B tick keys s
           in case values of
                Some (raw # vs) \<Rightarrow>
                  if length vs \<noteq> length scopes then ((s1, memo), None, None)
                  else let current = zip (map fst scopes) (map coerce_version vs)
                       in (case entry_verdict rt now current raw of
                             None \<Rightarrow> ((s1, memo), None, Some current)
                           | Some (b, bound) \<Rightarrow>
                               ((s1, record_deadline user_id bound memo), Some b, Some current))
              | _ \<Rightarrow> ((s1, memo), None, None))"

definition set_permission_check ::
  "pyrt \<Rightarrow> 's backend \<Rightarrow> rat \<Rightarrow> rat \<Rightarrow> int \<Rightarrow> int \<Rightarrow> string \<Rightarrow> string \<Rightarrow> bool \<Rightarrow> string option \<Rightarrow> string option
     \<Rightarrow> versions option \<Rightarrow> rat option \<Rightarrow> 's \<Rightarrow> 's \<times> bool" where
  "set_permission_check rt B tick now jitter permission_ttl user_id required result entity_id context_hash vs bound s =
     (case vs of
        None \<Rightarrow> (s, False)
      | Some versions \<Rightarrow>
          if \<not> bk_available B then (s, False)
          else let ttl = bounded_ttl (jittered_ttl jitter permission_ttl) bound now in
               if ttl \<le> 0 then (s, False)
               else bk_set B tick (make_permission_check_key B user_id required entity_id context_hash)
                      (rt_dumps rt (check_payload result versions bound)) ttl s)"

text \<open>The aggregated names of a user.\<close>

definition names_payload :: "string list \<Rightarrow> versions \<Rightarrow> rat option \<Rightarrow> pyval" where
  "names_payload names vs bound =
     PDict [(''versions'', versions_value vs), (''permissions'', PList (map PStr (sort names))),
            (''validity_schema'', PInt 1),
            (''valid_until'', case bound of None \<Rightarrow> PNone | Some b \<Rightarrow> PFloat (Fin b))]"

definition get_user_permission_names ::
  "pyrt \<Rightarrow> 's backend \<Rightarrow> rat \<Rightarrow> rat \<Rightarrow> string \<Rightarrow> bool \<Rightarrow> 's \<times> 'a memo_store option
     \<Rightarrow> ('s \<times> 'a memo_store option) \<times> string list option \<times> versions option" where
  "get_user_permission_names rt B tick now user_id include_local sm =
     (case sm of (s, memo) \<Rightarrow>
      if \<not> bk_available B then ((s, memo), None, None)
      else let scopes = check_scopes user_id None;
               (s1, values) = bk_mget B tick (make_user_permissions_key B user_id include_local
                                # map (\<lambda>(_, sc, sub). make_version_key B sc sub) scopes) s
           in case values of
                Some (raw # vs) \<Rightarrow>
                  if length vs \<noteq> length scopes then ((s1, memo), None, None)
                  else let current = zip (map fst scopes) (map coerce_version vs)
                       in (case current_entry rt current raw of
                             None \<Rightarrow> ((s1, memo), None, Some current)
                           | Some p \<Rightarrow>
                               (case dict_get p ''permissions'' of
                                  PList names \<Rightarrow>
                                    if \<not> is_fresh now p then ((s1, memo), None, Some current)
                                    else ((s1, record_deadline user_id (bound_of (dict_get p ''valid_until'')) memo),
                                          Some (map (py_str rt) names), Some current)
                                | _ \<Rightarrow> ((s1, memo), None, Some current)))
              | _ \<Rightarrow> ((s1, memo), None, None))"

definition set_user_permission_names ::
  "pyrt \<Rightarrow> 's backend \<Rightarrow> rat \<Rightarrow> rat \<Rightarrow> int \<Rightarrow> int \<Rightarrow> string \<Rightarrow> bool \<Rightarrow> string list \<Rightarrow> versions option \<Rightarrow> rat option
     \<Rightarrow> 's \<Rightarrow> 's \<times> bool" where
  "set_user_permission_names rt B tick now jitter permission_ttl user_id include_local names vs bound s =
     (case vs of
        None \<Rightarrow> (s, False)
      | Some versions \<Rightarrow>
          if \<not> bk_available B then (s, False)
          else let ttl = bounded_ttl (jittered_ttl jitter permission_ttl) bound now in
               if ttl \<le> 0 then (s, False)
               else bk_set B tick (make_user_permissions_key B user_id include_local)
                      (rt_dumps rt (names_payload names versions bound)) ttl s)"

text \<open>The flag that any condition exists.\<close>

definition get_abac_conditions_flag :: "pyrt \<Rightarrow> 's backend \<Rightarrow> rat \<Rightarrow> 's \<Rightarrow> 's \<times> bool option \<times> versions option" where
  "get_abac_conditions_flag rt B tick s =
     (if \<not> bk_available B then (s, None, None)
      else let (s1, values) = bk_mget B tick [make_abac_conditions_flag_key B, make_version_key B ''global'' None] s
           in case values of
                Some [raw, v] \<Rightarrow>
                  let current = [(''global'', coerce_version v)]
                  in (s1, case current_entry rt current raw of
                            None \<Rightarrow> None
                          | Some p \<Rightarrow> (case dict_get p ''exists'' of PBool b \<Rightarrow> Some b | _ \<Rightarrow> None),
                      Some current)
              | _ \<Rightarrow> (s1, None, None))"

definition set_abac_conditions_flag ::
  "pyrt \<Rightarrow> 's backend \<Rightarrow> rat \<Rightarrow> int \<Rightarrow> int \<Rightarrow> bool \<Rightarrow> versions option \<Rightarrow> 's \<Rightarrow> 's \<times> bool" where
  "set_abac_conditions_flag rt B tick jitter permission_ttl exist vs s =
     (case vs of
        None \<Rightarrow> (s, False)
      | Some versions \<Rightarrow>
          if \<not> bk_available B then (s, False)
          else bk_set B tick (make_abac_conditions_flag_key B)
                 (rt_dumps rt (PDict [(''exists'', PBool exist), (''versions'', versions_value versions)]))
                 (jittered_ttl jitter permission_ttl) s)"

text \<open>Whether an entity is above another.\<close>

definition get_entity_relation :: "'s backend \<Rightarrow> rat \<Rightarrow> string \<Rightarrow> string \<Rightarrow> int \<Rightarrow> 's \<Rightarrow> 's \<times> bool option" where
  "get_entity_relation B tick ancestor_id descendant_id version s =
     (if \<not> bk_available B then (s, None)
      else let (s1, v) = bk_get_json B tick (make_entity_relation_key B ancestor_id descendant_id version) s
           in (s1, case v of Some (PBool b) \<Rightarrow> Some b | _ \<Rightarrow> None))"

definition set_entity_relation ::
  "'s backend \<Rightarrow> rat \<Rightarrow> int \<Rightarrow> string \<Rightarrow> string \<Rightarrow> bool \<Rightarrow> int \<Rightarrow> 's \<Rightarrow> 's \<times> bool" where
  "set_entity_relation B tick entity_ttl ancestor_id descendant_id result version s =
     (if \<not> bk_available B then (s, False)
      else bk_set_json B tick (make_entity_relation_key B ancestor_id descendant_id version) (PBool result) entity_ttl s)"

section \<open>Invalidation\<close>

definition publish_message :: "'s backend \<Rightarrow> string \<Rightarrow> string \<Rightarrow> 's \<Rightarrow> 's \<times> bool" where
  "publish_message B channel message s =
     (if \<not> bk_available B then (s, False) else bk_publish B channel message s)"

definition publish_user_permissions_invalidation :: "'s backend \<Rightarrow> rat \<Rightarrow> string \<Rightarrow> string \<Rightarrow> 's \<Rightarrow> 's \<times> bool" where
  "publish_user_permissions_invalidation B tick channel user_id s =
     publish_message B channel (''permissions:user:'' @ user_id) (fst (bump_version B tick ''user'' (Some user_id) s))"

definition publish_user_permissions_invalidation_batch ::
  "'s backend \<Rightarrow> rat \<Rightarrow> string \<Rightarrow> string list \<Rightarrow> 's \<Rightarrow> 's \<times> bool" where
  "publish_user_permissions_invalidation_batch B tick channel user_ids s =
     (if user_ids = [] then (s, True)
      else if \<not> bk_available B then (s, False)
      else bk_bump B tick (map (\<lambda>u. make_version_key B ''user'' (Some u)) user_ids) channel
             (map (\<lambda>u. ''permissions:user:'' @ u) user_ids) s)"

definition publish_entity_permissions_invalidation :: "'s backend \<Rightarrow> rat \<Rightarrow> string \<Rightarrow> string \<Rightarrow> 's \<Rightarrow> 's \<times> bool" where
  "publish_entity_permissions_invalidation B tick channel entity_id s =
     publish_message B channel (''permissions:entity:'' @ entity_id) (fst (bump_version B tick ''entity'' (Some entity_id) s))"

definition publish_all_permissions_invalidation :: "'s backend \<Rightarrow> rat \<Rightarrow> string \<Rightarrow> 's \<Rightarrow> 's \<times> bool" where
  "publish_all_permissions_invalidation B tick channel s =
     publish_message B channel ''permissions:all'' (fst (bump_version B tick ''global'' None s))"

definition invalidate_user_permissions :: "'s backend \<Rightarrow> string \<Rightarrow> 's \<Rightarrow> 's \<times> int" where
  "invalidate_user_permissions B user_id s =
     (if \<not> bk_available B then (s, 0)
      else bk_delete_pattern B (bk_key B [''auth'', ''permission-check'', user_id, ''*'']) s)"

definition invalidate_entity_permissions :: "'s backend \<Rightarrow> string \<Rightarrow> 's \<Rightarrow> 's \<times> int" where
  "invalidate_entity_permissions B entity_id s =
     (if \<not> bk_available B then (s, 0)
      else bk_delete_pattern B (bk_key B [''auth'', ''permission-check'', ''*'', entity_id, ''*'']) s)"

definition invalidate_all_permissions :: "'s backend \<Rightarrow> 's \<Rightarrow> 's \<times> int" where
  "invalidate_all_permissions B s =
     (if \<not> bk_available B then (s, 0)
      else bk_delete_pattern B (bk_key B [''auth'', ''permission-check'', ''*'']) s)"

end
