(* ===== verification/CacheCoherence.thy ===== *)
theory CacheCoherence
  imports CacheService "HOL-Library.Countable"
begin

text \<open>
  Cached verdicts against concurrent changes. Checks observe the version counters, evaluate and store
  their verdict in separate steps; changes are committed and then published. The interface the cache
  service needs from its client is a locale, which the memory cache satisfies while it does not evict.
\<close>

section \<open>The interface of a store\<close>

text \<open>
  \<open>see\<close> is what a read of a key would return, \<open>stored\<close> the stored name of a key, \<open>V\<close> the keys of the
  counters, \<open>ok\<close> the store's own invariant and \<open>room\<close> that a write of a key evicts nothing.
\<close>

locale versioned_store =
  fixes B :: "'s backend"
    and see :: "rat \<Rightarrow> 's \<Rightarrow> string \<Rightarrow> string option"
    and stored :: "string \<Rightarrow> string"
    and V :: "string set"
    and ok :: "'s \<Rightarrow> bool"
    and room :: "'s \<Rightarrow> string \<Rightarrow> bool"
  assumes available: "bk_available B"
    and mget: "\<And>s now ks s' r. ok s \<Longrightarrow> bk_mget B now ks s = (s', r) \<Longrightarrow>
      ok s' \<and> (r = None \<or> r = Some (map (see now s) ks)) \<and> (\<forall>t \<ge> now. \<forall>k. see t s' k = see t s k)"
    and set: "\<And>s now k v ttl s' b. ok s \<Longrightarrow> room s k \<Longrightarrow> stored k \<notin> stored ` V \<Longrightarrow> 0 < ttl \<Longrightarrow>
      bk_set B now k v ttl s = (s', b) \<Longrightarrow>
      ok s' \<and> (\<forall>t \<ge> now. see t s' k \<in> {None, Some v})
        \<and> (\<forall>t \<ge> now. \<forall>k'. stored k' \<noteq> stored k \<longrightarrow> see t s' k' = see t s k')"
    and incr: "\<And>s now k s' n. ok s \<Longrightarrow> room s k \<Longrightarrow> k \<in> V \<Longrightarrow> bk_incr B now k s = (s', Some n) \<Longrightarrow>
      ok s' \<and> (\<forall>t \<ge> now. counter_of (see t s' k) = counter_of (see now s k) + 1)
        \<and> (\<forall>t \<ge> now. \<forall>k'. stored k' \<noteq> stored k \<longrightarrow> see t s' k' = see t s k')"
    and publish: "\<And>s ch m s' b. ok s \<Longrightarrow> bk_publish B ch m s = (s', b) \<Longrightarrow>
      ok s' \<and> (\<forall>t k. see t s' k = see t s k)"
    and timeless: "\<And>s k t t'. ok s \<Longrightarrow> k \<in> V \<Longrightarrow> see t s k = see t' s k"

section \<open>The system\<close>

text \<open>
  One cached question: a user, a permission and a context. \<open>cs_db\<close> counts the committed changes that
  matter for it, \<open>cs_published\<close> how many of them were published; \<open>truth n\<close> is the right answer after \<open>n\<close>
  changes. A check in flight has the versions it observed and, once evaluated, its verdict.
\<close>

record 's check_system =
  cs_store :: 's
  cs_tick :: rat
  cs_db :: nat
  cs_published :: nat
  cs_flight :: "(versions \<times> bool option) list"

definition version_keys :: "'s backend \<Rightarrow> string \<Rightarrow> string option \<Rightarrow> string list" where
  "version_keys B user_id entity_id =
     map (\<lambda>(_, sc, sub). make_version_key B sc sub) (check_scopes user_id entity_id)"

text \<open>The publications that concern the question, with the counter each bumps.\<close>

datatype publication = UserChanged | EntityChanged string | AllChanged

fun published_key :: "'s backend \<Rightarrow> string \<Rightarrow> publication \<Rightarrow> string" where
  "published_key B user_id UserChanged = make_version_key B ''user'' (Some user_id)"
| "published_key B user_id (EntityChanged e) = make_version_key B ''entity'' (Some e)"
| "published_key B user_id AllChanged = make_version_key B ''global'' None"

fun run_publication :: "'s backend \<Rightarrow> rat \<Rightarrow> string \<Rightarrow> string \<Rightarrow> publication \<Rightarrow> 's \<Rightarrow> 's" where
  "run_publication B tick channel user_id UserChanged s =
     fst (publish_user_permissions_invalidation B tick channel user_id s)"
| "run_publication B tick channel user_id (EntityChanged e) s =
     fst (publish_entity_permissions_invalidation B tick channel e s)"
| "run_publication B tick channel user_id AllChanged s =
     fst (publish_all_permissions_invalidation B tick channel s)"

definition concerns :: "string option \<Rightarrow> publication \<Rightarrow> bool" where
  "concerns entity_id p \<longleftrightarrow> (case p of EntityChanged e \<Rightarrow> nonempty entity_id = Some e | _ \<Rightarrow> True)"

text \<open>What the rest of the world may do to the store: the entry may go, the counters stay.\<close>

definition calm ::
  "(rat \<Rightarrow> 's \<Rightarrow> string \<Rightarrow> string option) \<Rightarrow> string \<Rightarrow> string list \<Rightarrow> rat \<Rightarrow> 's \<Rightarrow> 's \<Rightarrow> bool" where
  "calm see key counters tick s s' \<longleftrightarrow>
     (\<forall>t \<ge> tick. see t s' key \<in> {None, see t s key} \<and> (\<forall>k \<in> set counters. see t s' k = see t s k))"

inductive check_reach ::
  "pyrt \<Rightarrow> 's backend \<Rightarrow> (rat \<Rightarrow> 's \<Rightarrow> string \<Rightarrow> string option) \<Rightarrow> ('s \<Rightarrow> bool) \<Rightarrow> ('s \<Rightarrow> string \<Rightarrow> bool)
     \<Rightarrow> (nat \<Rightarrow> bool) \<Rightarrow> string \<Rightarrow> string \<Rightarrow> string \<Rightarrow> string option \<Rightarrow> 's \<Rightarrow> 's check_system \<Rightarrow> bool"
  for rt B see ok room truth channel user_id required entity_id s0 where
  start: "check_reach rt B see ok room truth channel user_id required entity_id s0
    \<lparr>cs_store = s0, cs_tick = t, cs_db = 0, cs_published = 0, cs_flight = []\<rparr>"
| elapse: "check_reach rt B see ok room truth channel user_id required entity_id s0 c \<Longrightarrow> cs_tick c \<le> t \<Longrightarrow>
    check_reach rt B see ok room truth channel user_id required entity_id s0 (c\<lparr>cs_tick := t\<rparr>)"
| commit: "check_reach rt B see ok room truth channel user_id required entity_id s0 c \<Longrightarrow>
    check_reach rt B see ok room truth channel user_id required entity_id s0 (c\<lparr>cs_db := cs_db c + 1\<rparr>)"
| publish: "check_reach rt B see ok room truth channel user_id required entity_id s0 c \<Longrightarrow>
    cs_published c < cs_db c \<Longrightarrow> concerns entity_id p \<Longrightarrow>
    room (cs_store c) (published_key B user_id p) \<Longrightarrow>
    snd (bk_incr B (cs_tick c) (published_key B user_id p) (cs_store c)) \<noteq> None \<Longrightarrow>
    check_reach rt B see ok room truth channel user_id required entity_id s0
      (c\<lparr>cs_store := run_publication B (cs_tick c) channel user_id p (cs_store c),
         cs_published := cs_published c + 1\<rparr>)"
| lookup: "check_reach rt B see ok room truth channel user_id required entity_id s0 c \<Longrightarrow>
    get_permission_check rt B (cs_tick c) now user_id required entity_id None
      (cs_store c, None :: unit memo_store option) = ((s', memo), result, Some vs) \<Longrightarrow>
    check_reach rt B see ok room truth channel user_id required entity_id s0
      (c\<lparr>cs_store := s', cs_flight := cs_flight c @ [(vs, None)]\<rparr>)"
| evaluate: "check_reach rt B see ok room truth channel user_id required entity_id s0 c \<Longrightarrow>
    i < length (cs_flight c) \<Longrightarrow> cs_flight c ! i = (vs, None) \<Longrightarrow>
    check_reach rt B see ok room truth channel user_id required entity_id s0
      (c\<lparr>cs_flight := (cs_flight c)[i := (vs, Some (truth (cs_db c)))]\<rparr>)"
| store: "check_reach rt B see ok room truth channel user_id required entity_id s0 c \<Longrightarrow>
    (vs, Some b) \<in> set (cs_flight c) \<Longrightarrow>
    room (cs_store c) (make_permission_check_key B user_id required entity_id None) \<Longrightarrow>
    check_reach rt B see ok room truth channel user_id required entity_id s0
      (c\<lparr>cs_store := fst (set_permission_check rt B (cs_tick c) now jitter ttl user_id required b entity_id None
            (Some vs) bound (cs_store c))\<rparr>)"
| other: "check_reach rt B see ok room truth channel user_id required entity_id s0 c \<Longrightarrow> ok s' \<Longrightarrow>
    calm see (make_permission_check_key B user_id required entity_id None) (version_keys B user_id entity_id)
      (cs_tick c) (cs_store c) s' \<Longrightarrow>
    check_reach rt B see ok room truth channel user_id required entity_id s0 (c\<lparr>cs_store := s'\<rparr>)"

text \<open>JSON reads back the payloads of verdicts.\<close>

definition json_payloads :: "pyrt \<Rightarrow> bool" where
  "json_payloads rt \<longleftrightarrow> (\<forall>b vs d. rt_loads rt (rt_dumps rt (check_payload b vs d)) = Some (check_payload b vs d))"

section \<open>Versions as vals\<close>

lemma py_bound_ints:
  "distinct (map fst ws) \<Longrightarrow> py_bound l (PInt n) (map (\<lambda>(l, n). (l, PInt n)) ws) \<longleftrightarrow> (l, n) \<in> set ws"
  by (induction ws) (auto simp: image_iff num_eq_def split: if_splits)

lemma py_subdict_ints:
  "distinct (map fst ws) \<Longrightarrow>
     py_subdict (map (\<lambda>(l, n). (l, PInt n)) vs) (map (\<lambda>(l, n). (l, PInt n)) ws) \<longleftrightarrow> set vs \<subseteq> set ws"
  by (induction vs) (auto simp: py_bound_ints)

lemma same_keys_eq:
  assumes "map fst vs = map fst ws" and "distinct (map fst ws)" and "set vs \<subseteq> set ws"
  shows "vs = ws"
proof (rule nth_equalityI)
  show len: "length vs = length ws" using assms(1) by (metis length_map)
  fix i assume i: "i < length vs"
  then obtain j where j: "j < length ws" "ws ! j = vs ! i"
    using assms(3) by (metis in_set_conv_nth nth_mem subsetD)
  have "map fst ws ! j = map fst ws ! i"
    using i j len assms(1) by (metis nth_map)
  then have "j = i" using assms(2) i j(1) len by (simp add: nth_eq_iff_index_eq del: nth_map)
  with j show "vs ! i = ws ! i" by simp
qed

lemma versions_value_eq:
  assumes "map fst vs = map fst ws" and "distinct (map fst ws)"
    and "py_eq (versions_value vs) (versions_value ws)"
  shows "vs = ws"
  using assms by (intro same_keys_eq) (simp_all add: versions_value_def py_subdict_ints)

lemma check_labels: "distinct (map fst (check_scopes user_id entity_id))"
  by (auto simp: check_scopes_def opt_list_def split: option.splits)

lemma check_payload_get [simp]:
  "dict_get [(''result'', a), (''versions'', b), (''validity_schema'', c), (''valid_until'', d)] ''versions'' = b"
  "dict_get [(''result'', a), (''versions'', b), (''validity_schema'', c), (''valid_until'', d)] ''result'' = a"
  by (simp_all add: dict_get_def)

section \<open>Coherence\<close>

definition total :: "versions \<Rightarrow> int" where
  "total vs = sum_list (map snd vs)"

definition bool_entry :: "pyrt \<Rightarrow> string \<Rightarrow> versions \<Rightarrow> bool \<Rightarrow> bool" where
  "bool_entry rt raw vs b \<longleftrightarrow> (\<exists>d. raw = rt_dumps rt (check_payload b vs d))"

lemma current_entry_stored:
  assumes "json_payloads rt" and "current_entry rt ws (Some raw) = Some p" and "bool_entry rt raw vs b"
    and "map fst vs = map fst ws" and "distinct (map fst ws)"
  shows "vs = ws \<and> dict_get p ''result'' = PBool b"
proof -
  obtain d where raw: "raw = rt_dumps rt (check_payload b vs d)" using assms(3) by (auto simp: bool_entry_def)
  then have "rt_loads rt raw = Some (check_payload b vs d)" using assms(1) by (simp add: json_payloads_def)
  with assms(2) have "py_eq (versions_value vs) (versions_value ws)"
    and "Some p = (case check_payload b vs d of PDict q \<Rightarrow> Some q | _ \<Rightarrow> None)"
    by (auto simp: current_entry_def nonempty_def check_payload_def simp del: py_eq.simps
        split: option.splits list.splits if_splits)
  with versions_value_eq [OF assms(4,5)] show ?thesis by (auto simp: check_payload_def)
qed

lemma current_entry_None [simp]: "current_entry rt vs None = None"
  by (simp add: current_entry_def nonempty_def)

lemma sum_bump:
  fixes f g :: "'k \<Rightarrow> int"
  assumes "distinct ks" and "k0 \<in> set ks" and "g k0 = f k0 + 1" and "\<And>k. k \<in> set ks \<Longrightarrow> k \<noteq> k0 \<Longrightarrow> g k = f k"
  shows "sum_list (map g ks) = sum_list (map f ks) + 1"
  using assms
proof (induction ks)
  case (Cons k ks)
  show ?case
  proof (cases "k = k0")
    case True
    with Cons.prems have "map g ks = map f ks" by auto
    then have "sum_list (map g ks) = sum_list (map f ks)" by (simp only:)
    with True Cons.prems show ?thesis by simp
  next
    case False
    with Cons show ?thesis by simp
  qed
qed simp

text \<open>
  The invariant, for the keys of the question: the counters grow by one a publication, what is in flight
  was observed before, and a stored verdict was evaluated after all publications its versions count.
\<close>

definition backed :: "(nat \<Rightarrow> bool) \<Rightarrow> string list \<Rightarrow> int \<Rightarrow> nat \<Rightarrow> versions \<Rightarrow> bool \<Rightarrow> bool" where
  "backed truth labels base n vs b \<longleftrightarrow>
     map fst vs = labels \<and> (\<exists>e \<le> n. total vs \<le> base + int e \<and> b = truth e)"

definition coherent ::
  "pyrt \<Rightarrow> 's backend \<Rightarrow> (rat \<Rightarrow> 's \<Rightarrow> string \<Rightarrow> string option) \<Rightarrow> ('s \<Rightarrow> bool) \<Rightarrow> (nat \<Rightarrow> bool)
     \<Rightarrow> string \<Rightarrow> string \<Rightarrow> string option \<Rightarrow> int \<Rightarrow> 's check_system \<Rightarrow> bool" where
  "coherent rt B see ok truth user_id required entity_id base c \<longleftrightarrow>
     (let key = make_permission_check_key B user_id required entity_id None;
          vkeys = version_keys B user_id entity_id;
          labels = map fst (check_scopes user_id entity_id)
      in ok (cs_store c)
       \<and> sum_list (map (\<lambda>k. counter_of (see (cs_tick c) (cs_store c) k)) vkeys) = base + int (cs_published c)
       \<and> cs_published c \<le> cs_db c
       \<and> (\<forall>(vs, v) \<in> set (cs_flight c). map fst vs = labels \<and> total vs \<le> base + int (cs_published c)
            \<and> (\<forall>b. v = Some b \<longrightarrow> backed truth labels base (cs_db c) vs b))
       \<and> (\<forall>t \<ge> cs_tick c. \<forall>raw. see t (cs_store c) key = Some raw \<longrightarrow>
            (\<exists>vs b. bool_entry rt raw vs b \<and> backed truth labels base (cs_db c) vs b)))"

text \<open>The keys of the question are apart, and its counters are counters.\<close>

definition question_keys :: "'s backend \<Rightarrow> (string \<Rightarrow> string) \<Rightarrow> string set \<Rightarrow> string \<Rightarrow> string \<Rightarrow> string option \<Rightarrow> bool" where
  "question_keys B stored V user_id required entity_id \<longleftrightarrow>
     distinct (map stored (version_keys B user_id entity_id))
     \<and> set (version_keys B user_id entity_id) \<subseteq> V
     \<and> stored (make_permission_check_key B user_id required entity_id None) \<notin> stored ` V"

lemma total_zip: "length ls = length ns \<Longrightarrow> total (zip ls ns) = sum_list ns"
  by (simp add: total_def map_snd_zip)

lemma backed_mono: "backed truth labels base n vs b \<Longrightarrow> n \<le> n' \<Longrightarrow> backed truth labels base n' vs b"
  by (auto simp: backed_def intro: le_trans)

context versioned_store
begin

text \<open>What a lookup returns, in terms of \<open>see\<close>.\<close>

lemma lookup_facts:
  fixes memo :: "'m memo_store option"
  assumes "ok s" and get: "get_permission_check rt B tick now user_id required entity_id None (s, memo)
      = ((s', memo'), result, Some vs)"
  defines "key \<equiv> make_permission_check_key B user_id required entity_id None"
  shows "ok s' \<and> (\<forall>t \<ge> tick. \<forall>k. see t s' k = see t s k)
    \<and> vs = zip (map fst (check_scopes user_id entity_id))
             (map (\<lambda>k. counter_of (see tick s k)) (version_keys B user_id entity_id))
    \<and> (\<forall>b. result = Some b \<longrightarrow> (\<exists>raw p. see tick s key = Some raw \<and> current_entry rt vs (Some raw) = Some p
          \<and> dict_get p ''result'' = PBool b))"
proof -
  let ?scopes = "check_scopes user_id entity_id" and ?vkeys = "version_keys B user_id entity_id"
  obtain s1 vals where m: "bk_mget B tick (key # ?vkeys) s = (s1, vals)" by fastforce
  from mget [OF assms(1) m] have facts: "ok s1" "\<forall>t \<ge> tick. \<forall>k. see t s1 k = see t s k"
    "vals = None \<or> vals = Some (see tick s key # map (see tick s) ?vkeys)" by auto
  have m': "bk_mget B tick (make_permission_check_key B user_id required entity_id None
      # map (\<lambda>(_, sc, sub). make_version_key B sc sub) ?scopes) s = (s1, vals)"
    using m by (simp add: key_def version_keys_def)
  have some: "vals = Some (see tick s key # map (see tick s) ?vkeys)"
  proof (rule ccontr)
    assume "\<not> ?thesis"
    with facts(3) have "vals = None" by simp
    with get available m' show False by (simp add: get_permission_check_def Let_def)
  qed
  let ?vs = "zip (map fst ?scopes) (map coerce_version (map (see tick s) ?vkeys))"
  have len: "length (map (see tick s) ?vkeys) = length ?scopes" by (simp add: version_keys_def)
  have r: "s' = s1 \<and> vs = ?vs \<and> (\<forall>b. result = Some b \<longrightarrow> (\<exists>d. entry_verdict rt now ?vs (see tick s key) = Some (b, d)))"
    using get available m' some len
    by (cases "entry_verdict rt now ?vs (see tick s key)") (auto simp: get_permission_check_def Let_def)
  have "\<exists>raw p. see tick s key = Some raw \<and> current_entry rt ?vs (Some raw) = Some p \<and> dict_get p ''result'' = PBool b"
    if "entry_verdict rt now ?vs (see tick s key) = Some (b, d)" for b d
    using that
    by (cases "see tick s key") (auto simp: entry_verdict_def split: option.splits if_splits pyval.splits)
  with r have "s' = s1" "vs = ?vs" "\<forall>b. result = Some b \<longrightarrow>
      (\<exists>raw p. see tick s key = Some raw \<and> current_entry rt vs (Some raw) = Some p \<and> dict_get p ''result'' = PBool b)"
    by blast+
  then show ?thesis
    using facts(1,2) by (auto simp: coerce_version_def comp_def)
qed

text \<open>A bump of one of the counters.\<close>

lemma bump_facts:
  assumes "ok s" and "room s k" and "k \<in> V" and "snd (bk_incr B tick k s) \<noteq> None"
  shows "ok (fst (bk_incr B tick k s))
    \<and> (\<forall>t \<ge> tick. counter_of (see t (fst (bk_incr B tick k s)) k) = counter_of (see tick s k) + 1)
    \<and> (\<forall>t \<ge> tick. \<forall>k'. stored k' \<noteq> stored k \<longrightarrow> see t (fst (bk_incr B tick k s)) k' = see t s k')"
  using assms incr [of s k tick "fst (bk_incr B tick k s)"]
  by (cases "bk_incr B tick k s") auto

lemma publication_facts:
  assumes "ok s" and "room s (published_key B user_id p)" and "published_key B user_id p \<in> V"
    and "snd (bk_incr B tick (published_key B user_id p) s) \<noteq> None"
  shows "ok (run_publication B tick channel user_id p s)
    \<and> (\<forall>t \<ge> tick. counter_of (see t (run_publication B tick channel user_id p s) (published_key B user_id p))
          = counter_of (see tick s (published_key B user_id p)) + 1)
    \<and> (\<forall>t \<ge> tick. \<forall>k'. stored k' \<noteq> stored (published_key B user_id p) \<longrightarrow>
          see t (run_publication B tick channel user_id p s) k' = see t s k')"
proof -
  let ?k = "published_key B user_id p"
  let ?s1 = "fst (bk_incr B tick ?k s)"
  have "\<exists>m. run_publication B tick channel user_id p s = fst (bk_publish B channel m ?s1)"
    using available
    by (cases p) (auto simp: publish_user_permissions_invalidation_def publish_entity_permissions_invalidation_def
        publish_all_permissions_invalidation_def publish_message_def bump_version_def case_prod_beta Let_def)
  then obtain m where m: "run_publication B tick channel user_id p s = fst (bk_publish B channel m ?s1)" ..
  note b = bump_facts [OF assms]
  have "ok (fst (bk_publish B channel m ?s1))
      \<and> (\<forall>t k. see t (fst (bk_publish B channel m ?s1)) k = see t ?s1 k)"
    using publish [of ?s1 channel m] b by (cases "bk_publish B channel m ?s1") auto
  with b m show ?thesis by simp
qed

lemma concerned_key: "concerns entity_id p \<Longrightarrow> published_key B user_id p \<in> set (version_keys B user_id entity_id)"
  by (cases p) (auto simp: concerns_def version_keys_def check_scopes_def opt_list_def)

lemma distinct_keys: "question_keys B stored V user_id required entity_id \<Longrightarrow> distinct (version_keys B user_id entity_id)"
  by (simp add: question_keys_def distinct_map)

lemma keys_apart:
  assumes "question_keys B stored V user_id required entity_id"
    and "k \<in> set (version_keys B user_id entity_id)" and "k' \<in> set (version_keys B user_id entity_id)" and "k \<noteq> k'"
  shows "stored k \<noteq> stored k'"
  using assms by (auto simp: question_keys_def distinct_map dest: inj_onD)

lemma coherent_store:
  assumes "coherent rt B see ok truth user_id required entity_id base c"
    and "ok s'" and "cs_tick c \<le> t"
    and "sum_list (map (\<lambda>k. counter_of (see t s' k)) (version_keys B user_id entity_id))
         = base + int n" and "n \<le> cs_db c" and "cs_published c \<le> n"
    and "\<And>u raw. t \<le> u \<Longrightarrow> see u s' (make_permission_check_key B user_id required entity_id None) = Some raw \<Longrightarrow>
         \<exists>vs b. bool_entry rt raw vs b \<and> backed truth (map fst (check_scopes user_id entity_id)) base (cs_db c) vs b"
  shows "coherent rt B see ok truth user_id required entity_id base
    (c\<lparr>cs_store := s', cs_tick := t, cs_published := n\<rparr>)"
proof -
  have "total vs \<le> base + int n" if "total vs \<le> base + int (cs_published c)" for vs
    using that assms(6) by linarith
  then show ?thesis
    using assms unfolding coherent_def Let_def by (auto split: prod.splits)
qed

lemma coherentD:
  assumes "coherent rt B see ok truth user_id required entity_id base c"
  shows "ok (cs_store c)"
    and "sum_list (map (\<lambda>k. counter_of (see (cs_tick c) (cs_store c) k)) (version_keys B user_id entity_id))
         = base + int (cs_published c)"
    and "cs_published c \<le> cs_db c"
    and "cs_tick c \<le> u \<Longrightarrow> see u (cs_store c) (make_permission_check_key B user_id required entity_id None) = Some raw \<Longrightarrow>
         \<exists>vs b. bool_entry rt raw vs b \<and> backed truth (map fst (check_scopes user_id entity_id)) base (cs_db c) vs b"
    and "(vs, v) \<in> set (cs_flight c) \<Longrightarrow> map fst vs = map fst (check_scopes user_id entity_id)
         \<and> total vs \<le> base + int (cs_published c)
         \<and> (\<forall>b. v = Some b \<longrightarrow> backed truth (map fst (check_scopes user_id entity_id)) base (cs_db c) vs b)"
  using assms unfolding coherent_def Let_def by (simp, simp, simp, blast, fast)

lemma timeless_sum:
  assumes "ok s" and "set ks \<subseteq> V"
  shows "sum_list (map (\<lambda>k. counter_of (see t s k)) ks) = sum_list (map (\<lambda>k. counter_of (see t' s k)) ks)"
proof -
  have "map (\<lambda>k. counter_of (see t s k)) ks = map (\<lambda>k. counter_of (see t' s k)) ks"
    using assms timeless [of s _ t t'] by (intro map_cong) auto
  then show ?thesis by (simp only:)
qed

lemma reach_coherent:
  assumes "check_reach rt B see ok room truth channel user_id required entity_id s0 c"
    and keys: "question_keys B stored V user_id required entity_id"
    and "ok s0" and "\<And>t. see t s0 (make_permission_check_key B user_id required entity_id None) = None"
  defines "base \<equiv> sum_list (map (\<lambda>k. counter_of (see 0 s0 k)) (version_keys B user_id entity_id))"
  shows "coherent rt B see ok truth user_id required entity_id base c"
  using assms(1)
proof induction
  case (start t)
  have "sum_list (map (\<lambda>k. counter_of (see t s0 k)) (version_keys B user_id entity_id)) = base"
    unfolding base_def using assms(3) keys by (intro timeless_sum) (auto simp: question_keys_def)
  with assms(3,4) show ?case by (simp add: coherent_def Let_def)
next
  case (elapse c t)
  note d = coherentD [OF elapse.IH]
  have "coherent rt B see ok truth user_id required entity_id base
      (c\<lparr>cs_store := cs_store c, cs_tick := t, cs_published := cs_published c\<rparr>)"
  proof (rule coherent_store [OF elapse.IH d(1) elapse.hyps(2) _ d(3) order_refl])
    show "sum_list (map (\<lambda>k. counter_of (see t (cs_store c) k)) (version_keys B user_id entity_id))
        = base + int (cs_published c)"
      using d(2) timeless_sum [OF d(1), of "version_keys B user_id entity_id" t "cs_tick c"] keys
      by (simp add: question_keys_def)
  qed (use d(4) elapse.hyps(2) in \<open>blast intro: order_trans\<close>)
  then show ?case by simp
next
  case (commit c)
  let ?labels = "map fst (check_scopes user_id entity_id)"
  note d = coherentD [OF commit.IH]
  have up: "backed truth ?labels base (cs_db c) vs b \<Longrightarrow> backed truth ?labels base (cs_db c + 1) vs b" for vs b
    by (erule backed_mono) (rule le_add1)
  have flight: "\<forall>(vs, v) \<in> set (cs_flight c). map fst vs = ?labels \<and> total vs \<le> base + int (cs_published c)
      \<and> (\<forall>b. v = Some b \<longrightarrow> backed truth ?labels base (cs_db c + 1) vs b)"
    using d(5) up by blast
  have entries: "\<forall>t \<ge> cs_tick c. \<forall>raw.
      see t (cs_store c) (make_permission_check_key B user_id required entity_id None) = Some raw \<longrightarrow>
      (\<exists>vs b. bool_entry rt raw vs b \<and> backed truth ?labels base (cs_db c + 1) vs b)"
    using d(4) up by blast
  show ?case using d(1-3) flight entries by (simp add: coherent_def Let_def)
next
  case (publish c p)
  let ?k = "published_key B user_id p" and ?vkeys = "version_keys B user_id entity_id"
  let ?s' = "run_publication B (cs_tick c) channel user_id p (cs_store c)"
  note d = coherentD [OF publish.IH]
  note k = concerned_key [OF publish.hyps(3), of user_id]
  have kV: "?k \<in> V" and kn: "stored (make_permission_check_key B user_id required entity_id None) \<noteq> stored ?k"
    using k keys by (auto simp: question_keys_def)
  note f = publication_facts [OF d(1) publish.hyps(4) kV publish.hyps(5), of channel]
  have "sum_list (map (\<lambda>k. counter_of (see (cs_tick c) ?s' k)) ?vkeys)
      = sum_list (map (\<lambda>k. counter_of (see (cs_tick c) (cs_store c) k)) ?vkeys) + 1"
    using f k keys_apart [OF keys _ k] by (intro sum_bump [OF distinct_keys [OF keys]]) auto
  with d(2) have "coherent rt B see ok truth user_id required entity_id base
      (c\<lparr>cs_store := ?s', cs_tick := cs_tick c, cs_published := cs_published c + 1\<rparr>)"
    using f kn publish.hyps(2) by (intro coherent_store [OF publish.IH]) (auto intro: d(4))
  then show ?case by simp
next
  case (lookup c now s' memo result vs)
  let ?vkeys = "version_keys B user_id entity_id"
  note d = coherentD [OF lookup.IH]
  note f = lookup_facts [OF d(1) lookup.hyps(2)]
  have s: "coherent rt B see ok truth user_id required entity_id base
      (c\<lparr>cs_store := s', cs_tick := cs_tick c, cs_published := cs_published c\<rparr>)"
    using f d(2,3) by (intro coherent_store [OF lookup.IH]) (auto intro: d(4))
  have len: "length (map fst (check_scopes user_id entity_id)) = length ?vkeys" by (simp add: version_keys_def)
  have "map fst vs = map fst (check_scopes user_id entity_id) \<and> total vs = base + int (cs_published c)"
    using f d(2) len by (simp add: total_zip)
  with s show ?case by (auto simp: coherent_def Let_def)
next
  case (evaluate c i vs)
  let ?labels = "map fst (check_scopes user_id entity_id)"
  let ?new = "(vs, Some (truth (cs_db c)))"
  note d = coherentD [OF evaluate.IH]
  have mem: "(vs, None) \<in> set (cs_flight c)" using evaluate.hyps(2,3) by (metis nth_mem)
  have "backed truth ?labels base (cs_db c) vs (truth (cs_db c))"
    unfolding backed_def using d(5) [OF mem] d(3) by auto
  then have "\<forall>(ws, v) \<in> set ((cs_flight c)[i := ?new]). map fst ws = ?labels
      \<and> total ws \<le> base + int (cs_published c) \<and> (\<forall>b. v = Some b \<longrightarrow> backed truth ?labels base (cs_db c) ws b)"
    using set_update_subset_insert [of "cs_flight c" i ?new] d(5) d(5) [OF mem] by blast
  moreover have "\<forall>t \<ge> cs_tick c. \<forall>raw.
      see t (cs_store c) (make_permission_check_key B user_id required entity_id None) = Some raw \<longrightarrow>
      (\<exists>vs b. bool_entry rt raw vs b \<and> backed truth ?labels base (cs_db c) vs b)"
    using d(4) by blast
  ultimately show ?case using d(1-3) by (simp add: coherent_def Let_def)
next
  case (store c vs b now jitter ttl bound)
  let ?key = "make_permission_check_key B user_id required entity_id None"
  let ?r = "set_permission_check rt B (cs_tick c) now jitter ttl user_id required b entity_id None (Some vs) bound (cs_store c)"
  note d = coherentD [OF store.IH]
  note v = d(5) [OF store.hyps(2)]
  show ?case
  proof (cases "bounded_ttl (jittered_ttl jitter ttl) bound now \<le> 0")
    case True
    then have "fst ?r = cs_store c" by (simp add: set_permission_check_def Let_def)
    with store.IH show ?thesis by simp
  next
    case False
    then obtain s' w where r: "?r = (s', w)"
      "bk_set B (cs_tick c) ?key (rt_dumps rt (check_payload b vs bound))
         (bounded_ttl (jittered_ttl jitter ttl) bound now) (cs_store c) = (s', w)"
      using available by (cases ?r) (auto simp: set_permission_check_def Let_def)
    have kn: "stored ?key \<notin> stored ` V" using keys by (simp add: question_keys_def)
    note f = set [OF d(1) store.hyps(3) kn _ r(2)]
    have same: "see t s' k = see t (cs_store c) k" if "cs_tick c \<le> t" "k \<in> set (version_keys B user_id entity_id)" for t k
    proof -
      have "k \<in> V" using that(2) keys by (auto simp: question_keys_def)
      then have "stored k \<noteq> stored ?key" using kn by (metis imageI)
      with f False that(1) show ?thesis by simp
    qed
    have pos: "0 < bounded_ttl (jittered_ttl jitter ttl) bound now" using False by simp
    have sums: "map (\<lambda>k. counter_of (see (cs_tick c) s' k)) (version_keys B user_id entity_id)
        = map (\<lambda>k. counter_of (see (cs_tick c) (cs_store c) k)) (version_keys B user_id entity_id)"
      using same by (intro map_cong) auto
    have "coherent rt B see ok truth user_id required entity_id base
        (c\<lparr>cs_store := s', cs_tick := cs_tick c, cs_published := cs_published c\<rparr>)"
    proof (rule coherent_store [OF store.IH _ order_refl _ d(3) order_refl])
      show "ok s'" using f [OF pos] by blast
      show "sum_list (map (\<lambda>k. counter_of (see (cs_tick c) s' k)) (version_keys B user_id entity_id))
          = base + int (cs_published c)"
        unfolding sums by (rule d(2))
      fix u raw
      assume "cs_tick c \<le> u" and "see u s' ?key = Some raw"
      with f [OF pos] have "raw = rt_dumps rt (check_payload b vs bound)" by force
      then have "bool_entry rt raw vs b" by (auto simp: bool_entry_def)
      with v show "\<exists>vs b. bool_entry rt raw vs b
          \<and> backed truth (map fst (check_scopes user_id entity_id)) base (cs_db c) vs b" by blast
    qed
    with r(1) show ?thesis by simp
  qed
next
  case (other c s')
  note d = coherentD [OF other.IH]
  have same: "map (\<lambda>k. counter_of (see (cs_tick c) s' k)) (version_keys B user_id entity_id)
      = map (\<lambda>k. counter_of (see (cs_tick c) (cs_store c) k)) (version_keys B user_id entity_id)"
    using other.hyps(3) by (intro map_cong) (auto simp: calm_def)
  have "coherent rt B see ok truth user_id required entity_id base
      (c\<lparr>cs_store := s', cs_tick := cs_tick c, cs_published := cs_published c\<rparr>)"
  proof (rule coherent_store [OF other.IH other.hyps(2) order_refl _ d(3) order_refl])
    show "sum_list (map (\<lambda>k. counter_of (see (cs_tick c) s' k)) (version_keys B user_id entity_id))
        = base + int (cs_published c)"
      unfolding same by (rule d(2))
    fix u raw
    assume u: "cs_tick c \<le> u"
      and "see u s' (make_permission_check_key B user_id required entity_id None) = Some raw"
    with other.hyps(3)
    have "see u (cs_store c) (make_permission_check_key B user_id required entity_id None) = Some raw"
      by (fastforce simp: calm_def)
    with u show "\<exists>vs b. bool_entry rt raw vs b
        \<and> backed truth (map fst (check_scopes user_id entity_id)) base (cs_db c) vs b"
      by (rule d(4))
  qed
  then show ?case by simp
qed

text \<open>A hit is at least as recent as every published change.\<close>

theorem hit_is_current:
  fixes memo :: "'m memo_store option"
  assumes "check_reach rt B see ok room truth channel user_id required entity_id s0 c"
    and "question_keys B stored V user_id required entity_id"
    and "ok s0" and "\<And>t. see t s0 (make_permission_check_key B user_id required entity_id None) = None"
    and json: "json_payloads rt"
    and hit: "get_permission_check rt B (cs_tick c) now user_id required entity_id None (cs_store c, memo)
      = ((s', memo'), Some b, Some vs)"
  shows "\<exists>n. cs_published c \<le> n \<and> n \<le> cs_db c \<and> b = truth n"
proof -
  define base where "base = sum_list (map (\<lambda>k. counter_of (see 0 s0 k)) (version_keys B user_id entity_id))"
  note d = coherentD [OF reach_coherent [OF assms(1-4), folded base_def]]
  note f = lookup_facts [OF d(1) hit]
  obtain raw p where raw: "see (cs_tick c) (cs_store c) (make_permission_check_key B user_id required entity_id None) = Some raw"
    "current_entry rt vs (Some raw) = Some p" "dict_get p ''result'' = PBool b" using f by auto
  obtain ws b' where w: "bool_entry rt raw ws b'" "map fst ws = map fst (check_scopes user_id entity_id)"
    "\<exists>e \<le> cs_db c. total ws \<le> base + int e \<and> b' = truth e"
    using d(4) [OF order_refl raw(1)] unfolding backed_def by blast
  have len: "length (map fst (check_scopes user_id entity_id)) = length (version_keys B user_id entity_id)"
    by (simp add: version_keys_def)
  then have labels: "map fst vs = map fst (check_scopes user_id entity_id)" and t: "total vs = base + int (cs_published c)"
    using f d(2) by (simp_all add: total_zip)
  from current_entry_stored [OF json raw(2) w(1)] w(2) labels check_labels raw(3)
  have "ws = vs" and "b' = b" by auto
  with w(3) t show ?thesis by auto
qed

end

section \<open>The memory cache as a store\<close>

text \<open>
  The counters of the memory cache are entries without an expiry; a write has room when its key is
  present or the cache is not full, and a counter when its text stays readable (4300 digits).
\<close>

definition mem_ok :: "mem_config \<Rightarrow> string set \<Rightarrow> mem_store \<Rightarrow> bool" where
  "mem_ok mc V st \<longleftrightarrow> store_wf mc st \<and>
     (\<forall>k \<in> V. \<forall>e v. map_of st (qualify_key (mc_prefix mc) k) = Some (e, v) \<longrightarrow> e = None)"

definition mem_room :: "mem_config \<Rightarrow> mem_store \<Rightarrow> string \<Rightarrow> bool" where
  "mem_room mc st key \<longleftrightarrow>
     (let q = qualify_key (mc_prefix mc) key in
        (q \<in> fst ` set st \<or> length st < mc_max mc)
        \<and> length (show_int (counter_of (map_option snd (map_of st q)) + 1)) \<le> int_max_str_digits)"

lemma mem_okD:
  assumes "mem_ok mc V st"
  shows "store_wf mc st"
    and "k \<in> V \<Longrightarrow> map_of st (qualify_key (mc_prefix mc) k) = Some (e, v) \<Longrightarrow> e = None"
  using assms by (auto simp: mem_ok_def)

lemma mem_peek_counter:
  "mem_ok mc V st \<Longrightarrow> k \<in> V \<Longrightarrow> peek mc t st k = map_option snd (map_of st (qualify_key (mc_prefix mc) k))"
  by (auto simp: peek_def expired_def dest: mem_okD(2) split: option.splits)

text \<open>Reading moves an entry and drops expired ones.\<close>

lemma get_map_of:
  "map_of (fst (get_raw_value mc now key st)) j \<in> {None, map_of st j}"
  by (auto simp: get_raw_value_def purge_expired_def Let_def delete_conv' split: option.splits)

lemma mem_ok_sub:
  assumes "mem_ok mc V st" and "store_wf mc st'" and "\<And>j. map_of st' j \<in> {None, map_of st j}"
  shows "mem_ok mc V st'"
  unfolding mem_ok_def
proof (intro conjI ballI allI impI)
  fix k e v
  assume "k \<in> V" and e: "map_of st' (qualify_key (mc_prefix mc) k) = Some (e, v)"
  with assms(3) [of "qualify_key (mc_prefix mc) k"] have "map_of st (qualify_key (mc_prefix mc) k) = Some (e, v)"
    by simp
  with \<open>k \<in> V\<close> show "e = None" by (rule mem_okD(2) [OF assms(1)])
qed (rule assms(2))

lemma mget_map_of: "map_of (fst (mget_raw mc now ks st)) j \<in> {None, map_of st j}"
proof (induction ks arbitrary: st)
  case (Cons k ks)
  from Cons [of "fst (get_raw_value mc now k st)"] get_map_of [of mc now k st j] show ?case
    by (auto simp: case_prod_beta Let_def)
qed simp

lemma put_no_evict:
  assumes "store_wf mc st" and "q \<in> fst ` set st \<or> length st < mc_max mc"
  shows "evict_if_needed (mc_max mc) (put_last q item st) = put_last q item st"
    and "store_wf mc (put_last q item st)"
proof -
  note f = put_evict_facts [OF assms(1), of q item q]
  show e: "evict_if_needed (mc_max mc) (put_last q item st) = put_last q item st"
    using f assms(2) by (metis set_map)
  from f show "store_wf mc (put_last q item st)" unfolding e by blast
qed

lemma mem_set_law:
  assumes ok: "mem_ok mc V st" and room: "mem_room mc st k" and k: "qualify_key (mc_prefix mc) k \<notin> qualify_key (mc_prefix mc) ` V"
  shows "mem_ok mc V (set_raw_value mc now k v (Some ttl) st)
    \<and> (\<forall>t. peek mc t (set_raw_value mc now k v (Some ttl) st) k \<in> {None, Some v})
    \<and> (\<forall>t k'. qualify_key (mc_prefix mc) k' \<noteq> qualify_key (mc_prefix mc) k \<longrightarrow>
          peek mc t (set_raw_value mc now k v (Some ttl) st) k' = peek mc t st k')"
proof -
  let ?q = "qualify_key (mc_prefix mc) k"
  let ?e = "if 0 < ttl then Some (now + of_int ttl) else None"
  have "?q \<in> fst ` set st \<or> length st < mc_max mc" using room by (simp add: mem_room_def Let_def)
  note n = put_no_evict [OF mem_okD(1) [OF ok] this, of "(?e, v)"]
  have s: "set_raw_value mc now k v (Some ttl) st = put_last ?q (?e, v) st"
    using n(1) by (simp add: set_raw_value_def Let_def)
  have other: "qualify_key (mc_prefix mc) j \<noteq> ?q" if "j \<in> V" for j
    using k that by (metis imageI)
  show ?thesis
    using n(2) other mem_okD(2) [OF ok] unfolding s by (auto simp: mem_ok_def peek_def)
qed

lemma mem_incr_law:
  assumes ok: "mem_ok mc V st" and room: "mem_room mc st k" and k: "k \<in> V"
  shows "mem_ok mc V (fst (mem_increment mc now k 1 st))
    \<and> (\<forall>t. counter_of (peek mc t (fst (mem_increment mc now k 1 st)) k) = counter_of (peek mc now st k) + 1)
    \<and> (\<forall>t \<ge> now. \<forall>k'. qualify_key (mc_prefix mc) k' \<noteq> qualify_key (mc_prefix mc) k \<longrightarrow>
          peek mc t (fst (mem_increment mc now k 1 st)) k' = peek mc t st k')"
proof -
  let ?q = "qualify_key (mc_prefix mc) k" and ?st1 = "fst (get_raw_value mc now k st)"
  let ?n = "counter_of (peek mc now st k) + 1"
  note g = get_facts [OF mem_okD(1) [OF ok]]
  have ok1: "mem_ok mc V ?st1" using mem_ok_sub [OF ok _ get_map_of] g by blast
  have p: "peek mc now st k = map_option snd (map_of st ?q)" by (rule mem_peek_counter [OF ok k])
  have present: "?q \<in> fst ` set ?st1 \<or> length ?st1 < mc_max mc"
  proof (cases "map_of st ?q")
    case None
    then have "?q \<notin> fst ` set st" by (simp add: map_of_eq_None_iff)
    with room g [OF order_refl, of now k k] show ?thesis by (auto simp: mem_room_def Let_def)
  next
    case (Some item)
    obtain e v where i: "item = (e, v)" by (cases item)
    with Some mem_okD(2) [OF ok k] have "\<not> expired now e" by (auto simp: expired_def)
    with Some i have "map_of ?st1 ?q = Some item"
      by (simp add: get_raw_value_def purge_expired_def Let_def)
    then show ?thesis by (metis map_of_eq_None_iff option.distinct(1))
  qed
  define e where "e = (case map_of ?st1 ?q of None \<Rightarrow> None | Some (e, _) \<Rightarrow> e)"
  have e: "e = None" using mem_okD(2) [OF ok1 k] by (auto simp: e_def split: option.splits)
  note n = put_no_evict [OF mem_okD(1) [OF ok1] present, of "(e, show_int ?n)"]
  have s: "fst (mem_increment mc now k 1 st) = put_last ?q (e, show_int ?n) ?st1"
    using n(1) g [OF order_refl, of now k k] by (simp add: mem_increment_def case_prod_beta Let_def e_def)
  have "counter_of (Some (show_int ?n)) = ?n"
    using room p by (simp add: counter_of_def mem_room_def Let_def py_int_show_int)
  then have "counter_of (peek mc t (put_last ?q (e, show_int ?n) ?st1) k) = ?n" for t
    by (simp add: peek_def e expired_def)
  moreover have "mem_ok mc V (put_last ?q (e, show_int ?n) ?st1)"
    using n(2) mem_okD(2) [OF ok1] e by (auto simp: mem_ok_def)
  moreover have "peek mc t (put_last ?q (e, show_int ?n) ?st1) k' = peek mc t st k'"
    if "now \<le> t" "qualify_key (mc_prefix mc) k' \<noteq> ?q" for t k'
    using g [OF that(1), of k k'] that(2) by (simp add: peek_def)
  ultimately show ?thesis unfolding s by blast
qed

interpretation memory: versioned_store "memory_backend rt glob mc" "peek mc" "qualify_key (mc_prefix mc)" V
  "mem_ok mc V" "mem_room mc" for rt glob mc V
proof (unfold_locales, goal_cases)
  case 1
  show ?case by (simp add: memory_backend_def)
next
  case (2 s now ks s' r)
  then have r: "s' = fst (mget_raw mc now ks s)" "r = Some (snd (mget_raw mc now ks s))"
    by (auto simp: memory_backend_def case_prod_beta Let_def)
  note f = mget_facts [OF mem_okD(1) [OF 2(1)]]
  have "mem_ok mc V s'" unfolding r(1) using f [OF order_refl] mem_ok_sub [OF 2(1) _ mget_map_of] by blast
  with f r show ?case by auto
next
  case (3 s now k v ttl s' b)
  then show ?case using mem_set_law [OF 3(1-3), of now v ttl] by (auto simp: memory_backend_def)
next
  case (4 s now k s' n)
  then show ?case using mem_incr_law [OF 4(1-3), of now] by (auto simp: memory_backend_def case_prod_beta Let_def)
next
  case (5 s ch m s' b)
  then show ?case by (simp add: memory_backend_def)
next
  case (6 s k t t')
  then show ?case by (simp add: mem_peek_counter)
qed

section \<open>Properties\<close>


text \<open>A run-time library whose JSON is the length of a text.\<close>

instance pyfloat :: countable
  by countable_datatype

instance pydatetime :: countable
  by countable_datatype

instance pyval :: countable
  by countable_datatype

definition unary_rt :: pyrt where
  "unary_rt = plain_rt\<lparr>rt_dumps := (\<lambda>v. replicate (Suc (to_nat v)) (CHR ''x'')),
     rt_loads := (\<lambda>s. Some (from_nat (length s - 1)))\<rparr>"

lemma unary_json: "rt_loads unary_rt (rt_dumps unary_rt v) = Some v"
  by (simp add: unary_rt_def)

definition small_cache :: mem_config where
  "small_cache = mem_config_of ''oa'' 10"

definition small_backend :: "mem_store backend" where
  "small_backend = memory_backend unary_rt (\<lambda>_ _. False) small_cache"

definition zero_versions :: versions where
  "zero_versions = [(''global'', 0), (''user:u'', 0)]"

definition check_name :: string where
  "check_name = ''oa:auth:permission-check:u:global:doc:read''"

definition stored_check :: mem_store where
  "stored_check = [(check_name, Some 300, rt_dumps unary_rt (check_payload True zero_versions None))]"

definition before_store :: "mem_store check_system" where
  "before_store = \<lparr>cs_store = [], cs_tick = 0, cs_db = 0, cs_published = 0, cs_flight = [(zero_versions, Some True)]\<rparr>"

lemma small_keys:
  "make_permission_check_key small_backend ''u'' ''doc:read'' None None = check_name"
  "version_keys small_backend ''u'' None = [''oa:auth:api-key-snapshot-version:global'', ''oa:auth:api-key-snapshot-version:user:u'']"
  "qualify_key (mc_prefix small_cache) check_name = check_name"
  "qualify_key ''oa'' check_name = check_name"
  "bk_available small_backend"
  by code_simp+

lemma small_question:
  "question_keys small_backend (qualify_key (mc_prefix small_cache)) (set (version_keys small_backend ''u'' None))
     ''u'' ''doc:read'' None"
  unfolding question_keys_def small_keys by code_simp

lemma small_lookup:
  "get_permission_check unary_rt small_backend 0 0 ''u'' ''doc:read'' None None ([], None :: unit memo_store option)
     = (([], None), None, Some zero_versions)"
  by code_simp

lemma small_store:
  "fst (set_permission_check unary_rt small_backend 0 0 0 300 ''u'' ''doc:read'' True None None (Some zero_versions) None [])
     = stored_check"
proof -
  have "bounded_ttl (jittered_ttl 0 300) None 0 = 300" by code_simp
  then show ?thesis
    by (simp add: set_permission_check_def small_keys Let_def stored_check_def)
      (simp add: small_backend_def memory_backend_def set_raw_value_def small_keys Let_def evict_drop put_last_def
        small_cache_def mem_config_of_def)
qed

lemma small_hit:
  "get_permission_check unary_rt small_backend 0 0 ''u'' ''doc:read'' None None (stored_check, None :: unit memo_store option)
     = ((stored_check, Some [(deadline_key ''u'', Deadline None)]), Some True, Some zero_versions)"
proof -
  have keys: "make_permission_check_key small_backend ''u'' ''doc:read'' None None
      # map (\<lambda>(_, sc, sub). make_version_key small_backend sc sub) (check_scopes ''u'' None)
      = [check_name, ''oa:auth:api-key-snapshot-version:global'', ''oa:auth:api-key-snapshot-version:user:u'']"
    using small_keys by (simp add: version_keys_def)
  have q: "qualify_key (mc_prefix small_cache) k = k" if "k \<in> {check_name,
      ''oa:auth:api-key-snapshot-version:global'', ''oa:auth:api-key-snapshot-version:user:u''}" for k
    using that small_keys(3) by (auto; code_simp)
  have ne: "check_name \<noteq> ''oa:auth:api-key-snapshot-version:global''"
    "check_name \<noteq> ''oa:auth:api-key-snapshot-version:user:u''" by code_simp+
  have m: "bk_mget small_backend 0 [check_name, ''oa:auth:api-key-snapshot-version:global'',
      ''oa:auth:api-key-snapshot-version:user:u''] stored_check
      = (stored_check, Some [Some (rt_dumps unary_rt (check_payload True zero_versions None)), None, None])"
    using ne by (simp add: small_backend_def memory_backend_def get_raw_value_def q Let_def stored_check_def
        purge_expired_def expired_def put_last_def)
  have "entry_verdict unary_rt 0 zero_versions (Some (rt_dumps unary_rt (check_payload True zero_versions None)))
      = Some (True, None)"
  proof -
    have "nonempty (Some (rt_dumps unary_rt v)) = Some (rt_dumps unary_rt v)" for v
      by (simp add: nonempty_def unary_rt_def)
    moreover have "py_eq (versions_value zero_versions) (versions_value zero_versions)" by code_simp
    moreover have "is_fresh 0 [(''result'', PBool True), (''versions'', versions_value zero_versions),
        (''validity_schema'', PInt 1), (''valid_until'', PNone)]" by code_simp
    ultimately show ?thesis
      by (simp add: entry_verdict_def current_entry_def unary_json check_payload_def bound_of_def dict_get_def
          del: py_eq.simps)
  qed
  moreover have "zip (map fst (check_scopes ''u'' None)) (map coerce_version [None, None]) = zero_versions"
    "length (check_scopes ''u'' None) = 2" by code_simp+
  ultimately show ?thesis
    by (simp add: get_permission_check_def Let_def keys m small_keys(5) numeral_2_eq_2)
      (simp add: record_deadline_def deadline_def memo_get_def memo_set_def memo_store_def)
qed


section \<open>A full cache\<close>

text \<open>
  Without room the counters themselves are evicted and start again from zero. In a cache of three
  entries: the user's counter is bumped by a publication, a slow check stores the verdict it evaluated
  before, which is a miss; two unrelated writes evict the counter, and the verdict is served again.
\<close>

definition tiny_cache :: mem_config where
  "tiny_cache = mem_config_of ''oa'' 3"

definition fixed_rt :: pyrt where
  "fixed_rt = plain_rt\<lparr>rt_dumps := (\<lambda>_. ''P''), rt_loads := (\<lambda>_. Some (check_payload True zero_versions None))\<rparr>"

definition tiny_backend :: "mem_store backend" where
  "tiny_backend = memory_backend fixed_rt (\<lambda>_ _. False) tiny_cache"

definition after_publication :: mem_store where
  "after_publication =
     fst (set_permission_check fixed_rt tiny_backend 0 0 0 300 ''u'' ''doc:read'' True None None (Some zero_versions) None
       (fst (publish_user_permissions_invalidation tiny_backend 0 ''ch'' ''u'' [])))"

definition after_eviction :: mem_store where
  "after_eviction =
     fst (set_permission_check fixed_rt tiny_backend 0 0 0 300 ''v'' ''doc:read'' True None None (Some zero_versions) None
       (fst (set_permission_check fixed_rt tiny_backend 0 0 0 300 ''w'' ''doc:read'' True None None (Some zero_versions) None
         after_publication)))"

lemma evicted_counter_revives_verdict:
  "fst (snd (get_permission_check fixed_rt tiny_backend 0 0 ''u'' ''doc:read'' None None
       (after_publication, None :: unit memo_store option))) = None
   \<and> fst (snd (get_permission_check fixed_rt tiny_backend 0 0 ''u'' ''doc:read'' None None
       (after_eviction, None :: unit memo_store option))) = Some True"
  by code_simp

end
