(* ===== verification/Session.thy ===== *)
theory Session
  imports Database Dict
begin

text \<open>
  What the write services share: the session they work on (the database, the rows of the audit tables,
  the cache publications deferred to the commit, the entity caches in Redis), operations on it that may
  raise, the retained audit trail (\<open>outlabs_auth/services/user_audit.py\<close>), and the helpers that publish
  cache invalidations.

  An operation that raises leaves the session as it was at that point: rolling back is the part of the unit
  of work (\<open>core/uow.py\<close>), in the last section. Redis is available throughout an operation or not at all, and is then a dictionary.
\<close>

section \<open>The session\<close>

type_synonym snapshot = "(string \<times> pyval) list"

record audit_row =
  au_category :: string
  au_type :: string
  au_source :: string
  au_subject :: "uuid option"
  au_email :: string
  au_actor :: "uuid option"
  au_root :: "uuid option"
  au_entity :: "uuid option"
  au_role :: "uuid option"
  au_reason :: "string option"
  au_before :: "snapshot option"
  au_after :: "snapshot option"
  au_metadata :: "snapshot option"
  au_at :: datetime

text \<open>\<open>EntityMembershipHistory\<close>\<close>

record history_row =
  hi_membership :: uuid
  hi_user :: uuid
  hi_entity :: uuid
  hi_root :: "uuid option"
  hi_actor :: "uuid option"
  hi_type :: string
  hi_source :: string
  hi_at :: datetime
  hi_reason :: "string option"
  hi_status :: string
  hi_prev_status :: "string option"
  hi_from :: "datetime option"
  hi_until :: "datetime option"
  hi_prev_from :: "datetime option"
  hi_prev_until :: "datetime option"
  hi_roles :: "uuid list"
  hi_prev_roles :: "uuid list"
  hi_role_names :: "string list"
  hi_prev_role_names :: "string list"
  hi_entity_name :: "string option"
  hi_path :: "string list"
  hi_root_name :: "string option"

text \<open>\<open>RoleDefinitionHistory\<close>: its snapshot columns are those of the snapshot it is given.\<close>

record role_history_row =
  rh_role :: uuid
  rh_actor :: "uuid option"
  rh_root :: "uuid option"
  rh_scope :: "uuid option"
  rh_type :: string
  rh_source :: string
  rh_at :: datetime
  rh_snapshot :: snapshot
  rh_before :: "snapshot option"
  rh_after :: "snapshot option"
  rh_metadata :: "snapshot option"

text \<open>The publications a service defers: \<open>publish_..._invalidation\<close> and \<open>bump_..._version\<close>.\<close>

datatype cache_action =
    PublishAll
  | PublishUser uuid
  | PublishEntity uuid
  | BumpUserKeys uuid
  | BumpPrincipalKeys uuid
  | BumpKey uuid

text \<open>What a commit makes durable.\<close>

record stored_state =
  st_db :: db
  st_audit :: "audit_row list"
  st_history :: "history_row list"
  st_role_history :: "role_history_row list"

record session_state =
  ss_db :: db
  ss_audit :: "audit_row list"
  ss_history :: "history_row list"
  ss_role_history :: "role_history_row list"
  ss_deferred :: "cache_action list"
  ss_marked :: bool
  ss_paths :: "(uuid \<times> uuid list) list"
  ss_descendants :: "(uuid \<times> uuid list) list"
  ss_published :: "string list"
  ss_saved :: stored_state
  ss_fired :: "cache_action list"

definition start_session :: "db \<Rightarrow> session_state" where
  "start_session d = \<lparr>ss_db = d, ss_audit = [], ss_history = [], ss_role_history = [], ss_deferred = [], ss_marked = False,
     ss_paths = [], ss_descendants = [], ss_published = [],
     ss_saved = \<lparr>st_db = d, st_audit = [], st_history = [], st_role_history = []\<rparr>, ss_fired = []\<rparr>"

section \<open>Operations\<close>

type_synonym 'a op = "session_state \<Rightarrow> (err + 'a) \<times> session_state"

definition ret :: "'a \<Rightarrow> 'a op" where
  "ret x s = (Inr x, s)"

definition raise_op :: "err \<Rightarrow> 'a op" where
  "raise_op e s = (Inl e, s)"

definition bind_op :: "'a op \<Rightarrow> ('a \<Rightarrow> 'b op) \<Rightarrow> 'b op" where
  "bind_op m k s = (case m s of (Inl e, t) \<Rightarrow> (Inl e, t) | (Inr x, t) \<Rightarrow> k x t)"

definition gets :: "(session_state \<Rightarrow> 'a) \<Rightarrow> 'a op" where
  "gets f s = (Inr (f s), s)"

definition modify_op :: "(session_state \<Rightarrow> session_state) \<Rightarrow> unit op" where
  "modify_op f s = (Inr (), f s)"

definition lift_op :: "err + 'a \<Rightarrow> 'a op" where
  "lift_op r s = (r, s)"

definition when_op :: "bool \<Rightarrow> unit op \<Rightarrow> unit op" where
  "when_op b m = (if b then m else ret ())"

fun each_op :: "('a \<Rightarrow> unit op) \<Rightarrow> 'a list \<Rightarrow> unit op" where
  "each_op f [] = ret ()"
| "each_op f (x # xs) = bind_op (f x) (\<lambda>_. each_op f xs)"

definition read_db :: "(db \<Rightarrow> 'a) \<Rightarrow> 'a op" where
  "read_db f = gets (\<lambda>s. f (ss_db s))"

definition write_db :: "(db \<Rightarrow> db) \<Rightarrow> unit op" where
  "write_db f = modify_op (\<lambda>s. s\<lparr>ss_db := f (ss_db s)\<rparr>)"

text \<open>\<open>scalar_one_or_none\<close>: the row that satisfies the filters, if there is at most one.\<close>

definition scalar_one_or_none :: "('a \<Rightarrow> bool) \<Rightarrow> 'a list \<Rightarrow> err + 'a option" where
  "scalar_one_or_none p rows =
     (case filter p rows of
        [] \<Rightarrow> Inr None
      | [x] \<Rightarrow> Inr (Some x)
      | _ \<Rightarrow> Inl (Builtin MultipleResultsFound))"

lemma op_simps [simp]:
  "ret x s = (Inr x, s)"
  "raise_op e s = (Inl e, s)"
  "gets f s = (Inr (f s), s)"
  "modify_op g s = (Inr (), g s)"
  "lift_op r s = (r, s)"
  "read_db q s = (Inr (q (ss_db s)), s)"
  "write_db w s = (Inr (), s\<lparr>ss_db := w (ss_db s)\<rparr>)"
  by (simp_all add: ret_def raise_op_def gets_def modify_op_def lift_op_def read_db_def write_db_def)

lemma bind_op_simps [simp]:
  "bind_op (ret x) k = k x"
  "bind_op (raise_op e) k = raise_op e"
  "bind_op (gets f) k s = k (f s) s"
  "bind_op (read_db q) k s = k (q (ss_db s)) s"
  "bind_op (modify_op g) j s = j () (g s)"
  "bind_op (write_db w) j s = j () (s\<lparr>ss_db := w (ss_db s)\<rparr>)"
  "bind_op (lift_op (Inr x)) k = k x"
  "bind_op (lift_op (Inl e)) k = raise_op e"
  by (auto simp: bind_op_def fun_eq_iff)

lemma bind_op_ret_iff:
  "bind_op m k s = (Inr y, t) \<longleftrightarrow> (\<exists>x u. m s = (Inr x, u) \<and> k x u = (Inr y, t))"
  by (auto simp: bind_op_def split: prod.splits sum.splits)

lemma bind_op_raise_iff:
  "bind_op m k s = (Inl e, t) \<longleftrightarrow>
     m s = (Inl e, t) \<or> (\<exists>x u. m s = (Inr x, u) \<and> k x u = (Inl e, t))"
  by (auto simp: bind_op_def split: prod.splits sum.splits)

lemma bind_op_assoc: "bind_op (bind_op m k) l = bind_op m (\<lambda>x. bind_op (k x) l)"
  by (auto simp: bind_op_def fun_eq_iff split: prod.splits sum.splits)

lemma when_op_simps [simp]: "when_op True m = m" "when_op False m = ret ()"
  by (simp_all add: when_op_def)

section \<open>Preservation\<close>

text \<open>An operation keeps a predicate of the session whether it returns or raises.\<close>

definition preserves :: "(session_state \<Rightarrow> bool) \<Rightarrow> 'a op \<Rightarrow> bool" where
  "preserves I m \<longleftrightarrow> (\<forall>s. I s \<longrightarrow> I (snd (m s)))"

lemma preservesD: "preserves I m \<Longrightarrow> I s \<Longrightarrow> m s = (r, t) \<Longrightarrow> I t"
  by (metis preserves_def snd_conv)

lemma preserves_ret [inv_intros]: "preserves I (ret x)"
  and preserves_raise [inv_intros]: "preserves I (raise_op e)"
  and preserves_gets [inv_intros]: "preserves I (gets f)"
  and preserves_read_db [inv_intros]: "preserves I (read_db q)"
  and preserves_lift [inv_intros]: "preserves I (lift_op r)"
  by (simp_all add: preserves_def)

lemma preserves_bind [inv_intros]:
  "preserves I m \<Longrightarrow> (\<And>x. preserves I (k x)) \<Longrightarrow> preserves I (bind_op m k)"
  unfolding preserves_def bind_op_def
  by (force split: prod.splits sum.splits)

lemma preserves_modify: "(\<And>s. I s \<Longrightarrow> I (f s)) \<Longrightarrow> preserves I (modify_op f)"
  by (simp add: preserves_def)

lemma preserves_write: "(\<And>s. I s \<Longrightarrow> I (s\<lparr>ss_db := w (ss_db s)\<rparr>)) \<Longrightarrow> preserves I (write_db w)"
  by (simp add: preserves_def)

lemma preserves_when [inv_intros]: "(b \<Longrightarrow> preserves I m) \<Longrightarrow> preserves I (when_op b m)"
  by (cases b) (auto intro: inv_intros)

lemma preserves_each [inv_intros]: "(\<And>x. x \<in> set xs \<Longrightarrow> preserves I (f x)) \<Longrightarrow> preserves I (each_op f xs)"
  by (induction xs) (auto intro: inv_intros)

lemma preserves_if [inv_intros]:
  "(b \<Longrightarrow> preserves I m) \<Longrightarrow> (\<not> b \<Longrightarrow> preserves I n) \<Longrightarrow> preserves I (if b then m else n)"
  by auto

lemma preserves_case_option [inv_intros]:
  "(x = None \<Longrightarrow> preserves I m) \<Longrightarrow> (\<And>y. x = Some y \<Longrightarrow> preserves I (n y))
     \<Longrightarrow> preserves I (case x of None \<Rightarrow> m | Some y \<Rightarrow> n y)"
  by (cases x) auto

lemma preserves_let [inv_intros]: "preserves I (f x) \<Longrightarrow> preserves I (let y = x in f y)"
  by simp

section \<open>Values of payloads\<close>

text \<open>Optional columns as payload values, and the length of a day.\<close>

definition opt_str :: "string option \<Rightarrow> pyval" where
  "opt_str v = (case v of None \<Rightarrow> PNone | Some s \<Rightarrow> PStr s)"

definition opt_int :: "int option \<Rightarrow> pyval" where
  "opt_int v = (case v of None \<Rightarrow> PNone | Some i \<Rightarrow> PInt i)"

definition opt_time :: "(pydatetime \<Rightarrow> string) \<Rightarrow> datetime option \<Rightarrow> pyval" where
  "opt_time fmt v = (case v of None \<Rightarrow> PNone | Some t \<Rightarrow> PStr (fmt (Aware t)))"

definition strs :: "string list \<Rightarrow> pyval" where
  "strs xs = PList (map PStr xs)"

definition time_val :: "datetime option \<Rightarrow> pyval" where
  "time_val t = (case t of None \<Rightarrow> PNone | Some x \<Rightarrow> PDatetime (Aware x))"

definition day_usec :: int where
  "day_usec = 86400000000"

section \<open>The audit trail\<close>

text \<open>
  \<open>_normalize_value\<close>: what is stored of a payload. Identifiers and enumeration members are their text
  already; an instant is its ISO text, rendered by the parameter.
\<close>

fun normalize_value :: "(pydatetime \<Rightarrow> string) \<Rightarrow> pyval \<Rightarrow> pyval" where
  "normalize_value fmt (PDatetime t) = PStr (fmt t)"
| "normalize_value fmt (PDict kvs) = PDict (map (\<lambda>(k, v). (k, normalize_value fmt v)) kvs)"
| "normalize_value fmt (PList xs) = PList (map (normalize_value fmt) xs)"
| "normalize_value fmt (PTuple xs) = PList (map (normalize_value fmt) xs)"
| "normalize_value fmt (PSet xs) = PList (map (normalize_value fmt) xs)"
| "normalize_value fmt v = v"

definition normalize_payload :: "(pydatetime \<Rightarrow> string) \<Rightarrow> snapshot option \<Rightarrow> snapshot option" where
  "normalize_payload fmt p = map_option (map (\<lambda>(k, v). (k, normalize_value fmt v))) p"

definition audit_event :: "(pydatetime \<Rightarrow> string) \<Rightarrow> audit_row \<Rightarrow> unit op" where
  "audit_event fmt ev = modify_op (\<lambda>s. s\<lparr>ss_audit := ss_audit s @
     [ev\<lparr>au_before := normalize_payload fmt (au_before ev), au_after := normalize_payload fmt (au_after ev),
        au_metadata := normalize_payload fmt (au_metadata ev)\<rparr>]\<rparr>)"

text \<open>\<open>list_events\<close> and \<open>list_user_events\<close>: newest first, one page, and the total.\<close>

definition page_of :: "int \<Rightarrow> int \<Rightarrow> 'a list \<Rightarrow> 'a list" where
  "page_of page limit rows = take (nat limit) (drop (nat ((page - 1) * limit)) rows)"

definition newest_first :: "audit_row list \<Rightarrow> audit_row list" where
  "newest_first rows = sort_key (\<lambda>r. - au_at r) (rev rows)"

definition list_user_events ::
  "audit_row list \<Rightarrow> uuid \<Rightarrow> int \<Rightarrow> int \<Rightarrow> string option \<Rightarrow> string option \<Rightarrow> uuid option
     \<Rightarrow> audit_row list \<times> nat" where
  "list_user_events rows user page limit category typ entity =
     (let hits = filter (\<lambda>r. au_subject r = Some user
            \<and> (\<forall>c \<in> set_option category. c = [] \<or> au_category r = c)
            \<and> (\<forall>t \<in> set_option typ. t = [] \<or> au_type r = t)
            \<and> (\<forall>e \<in> set_option entity. au_entity r = Some e)) rows
      in (page_of page limit (newest_first hits), length hits))"

record audit_query =
  aq_category :: "string option"
  aq_type :: "string option"
  aq_subject :: "uuid option"
  aq_actor :: "uuid option"
  aq_entity :: "uuid option"
  aq_roots :: "uuid list option"
  aq_from :: "datetime option"
  aq_to :: "datetime option"

definition audit_matches :: "audit_query \<Rightarrow> audit_row \<Rightarrow> bool" where
  "audit_matches q r \<longleftrightarrow>
     (\<forall>c \<in> set_option (aq_category q). c = [] \<or> au_category r = c)
     \<and> (\<forall>t \<in> set_option (aq_type q). t = [] \<or> au_type r = t)
     \<and> (\<forall>u \<in> set_option (aq_subject q). au_subject r = Some u)
     \<and> (\<forall>u \<in> set_option (aq_actor q). au_actor r = Some u)
     \<and> (\<forall>e \<in> set_option (aq_entity q). au_entity r = Some e)
     \<and> (\<forall>es \<in> set_option (aq_roots q). \<exists>e \<in> set es. au_root r = Some e)
     \<and> (\<forall>t \<in> set_option (aq_from q). t \<le> au_at r)
     \<and> (\<forall>t \<in> set_option (aq_to q). au_at r \<le> t)"

definition list_events :: "audit_row list \<Rightarrow> audit_query \<Rightarrow> int \<Rightarrow> int \<Rightarrow> audit_row list \<times> nat" where
  "list_events rows q page limit =
     (if aq_roots q = Some [] then ([], 0)
      else let hits = filter (audit_matches q) rows
           in (page_of page limit (newest_first hits), length hits))"

section \<open>Publication\<close>

definition mark_change :: "unit op" where
  "mark_change = modify_op (\<lambda>s. s\<lparr>ss_marked := True\<rparr>)"

definition publish_later :: "cache_action list \<Rightarrow> unit op" where
  "publish_later acts = modify_op (\<lambda>s. s\<lparr>ss_deferred := ss_deferred s @ acts\<rparr>)"

text \<open>Mark the change, and defer the publications when the service has a cache.\<close>

definition publish_change :: "bool \<Rightarrow> cache_action list \<Rightarrow> unit op" where
  "publish_change cached acts = bind_op mark_change (\<lambda>_. when_op cached (publish_later acts))"

lemma preserves_db_only:
  assumes "\<And>s t. ss_db s = ss_db t \<Longrightarrow> I s = I t"
  shows "preserves I (audit_event fmt ev)" and "preserves I mark_change" and "preserves I (publish_later acts)"
    and "preserves I (publish_change cached acts)"
proof -
  have *: "\<And>f. (\<And>s. ss_db (f s) = ss_db s) \<Longrightarrow> preserves I (modify_op f)"
    by (rule preserves_modify) (metis assms)
  show a: "preserves I (audit_event fmt ev)" by (simp add: audit_event_def *)
  show b: "preserves I mark_change" by (simp add: mark_change_def *)
  show c: "preserves I (publish_later acts)" by (simp add: publish_later_def *)
  show "preserves I (publish_change cached acts)"
    unfolding publish_change_def by (intro inv_intros b c)
qed

section \<open>Operations that leave the database alone\<close>

named_theorems quiet_intros "operations that leave the database alone"

definition quiet :: "'a op \<Rightarrow> bool" where
  "quiet m \<longleftrightarrow> (\<forall>s. ss_db (snd (m s)) = ss_db s)"

lemma quietD: "quiet m \<Longrightarrow> m s = (r, t) \<Longrightarrow> ss_db t = ss_db s"
  by (metis quiet_def snd_conv)

lemma quiet_ret [quiet_intros]: "quiet (ret x)"
  and quiet_raise [quiet_intros]: "quiet (raise_op e)"
  and quiet_gets [quiet_intros]: "quiet (gets f)"
  and quiet_read_db [quiet_intros]: "quiet (read_db q)"
  and quiet_lift [quiet_intros]: "quiet (lift_op r)"
  by (simp_all add: quiet_def)

lemma quiet_modify: "(\<And>s. ss_db (f s) = ss_db s) \<Longrightarrow> quiet (modify_op f)"
  by (simp add: quiet_def)

lemma quiet_bind [quiet_intros]:
  assumes "quiet m" and "\<And>x. quiet (k x)"
  shows "quiet (bind_op m k)"
  unfolding quiet_def
proof
  fix s
  obtain r t where m: "m s = (r, t)" by (cases "m s")
  with assms(1) have "ss_db t = ss_db s" by (rule quietD)
  then show "ss_db (snd (bind_op m k s)) = ss_db s"
    using assms(2) m by (cases r) (simp_all add: bind_op_def quiet_def)
qed

lemma quiet_when [quiet_intros]: "quiet m \<Longrightarrow> quiet (when_op b m)"
  by (cases b) (auto intro: quiet_intros)

lemma quiet_if [quiet_intros]: "quiet m \<Longrightarrow> quiet n \<Longrightarrow> quiet (if b then m else n)"
  by auto

lemma quiet_case_option [quiet_intros]:
  "quiet m \<Longrightarrow> (\<And>y. quiet (n y)) \<Longrightarrow> quiet (case x of None \<Rightarrow> m | Some y \<Rightarrow> n y)"
  by (cases x) auto

lemma quiet_case_list [quiet_intros]:
  "quiet m \<Longrightarrow> (\<And>y ys. quiet (n y ys)) \<Longrightarrow> quiet (case x of [] \<Rightarrow> m | y # ys \<Rightarrow> n y ys)"
  by (cases x) auto

lemma quiet_case_prod [quiet_intros]: "(\<And>a b. quiet (f a b)) \<Longrightarrow> quiet (case p of (a, b) \<Rightarrow> f a b)"
  by (cases p) auto

lemma quiet_each [quiet_intros]: "(\<And>x. quiet (f x)) \<Longrightarrow> quiet (each_op f xs)"
  by (induction xs) (auto intro: quiet_intros)

lemma quiet_audit [quiet_intros]: "quiet (audit_event fmt ev)"
  by (simp add: audit_event_def quiet_modify)

lemma quiet_publish [quiet_intros]: "quiet (publish_change cached acts)"
  unfolding publish_change_def mark_change_def publish_later_def
  by (intro quiet_intros quiet_modify) simp_all

lemma quiet_preserves:
  assumes "quiet m" and "\<And>s t. ss_db s = ss_db t \<Longrightarrow> I s = I t"
  shows "preserves I m"
  using assms unfolding quiet_def preserves_def by metis

section \<open>Operations that never raise\<close>

named_theorems returns_intros "operations that never raise"

definition returns :: "'a op \<Rightarrow> bool" where
  "returns m \<longleftrightarrow> (\<forall>s. \<exists>x t. m s = (Inr x, t))"

lemma returnsD: "returns m \<Longrightarrow> \<exists>x t. m s = (Inr x, t)"
  by (simp add: returns_def)

lemma returns_ret [returns_intros]: "returns (ret x)"
  and returns_gets [returns_intros]: "returns (gets f)"
  and returns_read_db [returns_intros]: "returns (read_db q)"
  and returns_write_db [returns_intros]: "returns (write_db w)"
  and returns_modify [returns_intros]: "returns (modify_op g)"
  by (simp_all add: returns_def)

lemma returns_bind [returns_intros]:
  assumes "returns m" and "\<And>x. returns (k x)"
  shows "returns (bind_op m k)"
  unfolding returns_def
proof
  fix s
  obtain x t where "m s = (Inr x, t)" using returnsD [OF assms(1)] by blast
  then show "\<exists>y u. bind_op m k s = (Inr y, u)" using returnsD [OF assms(2)] by (simp add: bind_op_def)
qed

lemma returns_when [returns_intros]: "returns m \<Longrightarrow> returns (when_op b m)"
  by (cases b) (auto intro: returns_intros)

lemma returns_if [returns_intros]: "returns m \<Longrightarrow> returns n \<Longrightarrow> returns (if b then m else n)"
  by auto

lemma returns_case_option [returns_intros]:
  "returns m \<Longrightarrow> (\<And>y. returns (n y)) \<Longrightarrow> returns (case x of None \<Rightarrow> m | Some y \<Rightarrow> n y)"
  by (cases x) auto

lemma returns_each [returns_intros]: "(\<And>x. returns (f x)) \<Longrightarrow> returns (each_op f xs)"
  by (induction xs) (auto intro: returns_intros)

lemma returns_audit [returns_intros]: "returns (audit_event fmt ev)"
  unfolding audit_event_def by (intro returns_intros)

lemma returns_publish [returns_intros]: "returns (publish_change cached acts)"
  unfolding publish_change_def mark_change_def publish_later_def by (intro returns_intros)

text \<open>A value computed before operations that never raise is what the whole returns.\<close>

lemma returns_result:
  assumes "returns m" and "\<And>x t. m s = (Inr x, t) \<Longrightarrow> fst (k x t) = Inr y"
  shows "fst (bind_op m k s) = Inr y"
  using returnsD [OF assms(1), of s] assms(2) by (auto simp: bind_op_def)

lemma quiet_bindE:
  assumes "quiet m" and "bind_op m k s = (r, t)"
  obtains (fail) e where "r = Inl e" "ss_db t = ss_db s" "m s = (Inl e, t)"
    | (pass) x u where "m s = (Inr x, u)" "ss_db u = ss_db s" "k x u = (r, t)"
proof -
  obtain q u where m: "m s = (q, u)" by (cases "m s")
  moreover from assms(1) m have "ss_db u = ss_db s" by (rule quietD)
  ultimately show thesis using assms(2) that by (cases q) (auto simp: bind_op_def)
qed

text \<open>After a write that is followed only by quiet operations, the database is what was written.\<close>

lemma quiet_after: "quiet (k ()) \<Longrightarrow> ss_db (snd (bind_op (write_db w) k s)) = w (ss_db s)"
  by (simp add: quiet_def)

lemma bind_op_run: "m s = (Inr x, t) \<Longrightarrow> bind_op m k s = k x t"
  by (simp add: bind_op_def)

section \<open>Commit, rollback and the unit of work\<close>

text \<open>
  A commit makes the tables durable and fires the deferred publications; a rollback restores the tables of
  the last commit and drops them.
\<close>

definition stored_of :: "session_state \<Rightarrow> stored_state" where
  "stored_of s = \<lparr>st_db = ss_db s, st_audit = ss_audit s, st_history = ss_history s, st_role_history = ss_role_history s\<rparr>"

definition committed :: "session_state \<Rightarrow> session_state" where
  "committed s = s\<lparr>ss_saved := stored_of s, ss_fired := ss_fired s @ ss_deferred s, ss_deferred := [], ss_marked := False\<rparr>"

definition rolled_back :: "session_state \<Rightarrow> session_state" where
  "rolled_back s = s\<lparr>ss_db := st_db (ss_saved s), ss_audit := st_audit (ss_saved s), ss_history := st_history (ss_saved s),
     ss_role_history := st_role_history (ss_saved s), ss_deferred := [], ss_marked := False\<rparr>"

definition commit_op :: "unit op" where
  "commit_op = modify_op committed"

definition rollback_op :: "unit op" where
  "rollback_op = modify_op rolled_back"

text \<open>\<open>OutlabsAuth.uow\<close>: a request of a writing method commits when it returns; any other ending rolls back.\<close>

definition unit_of_work :: "bool \<Rightarrow> 'a op \<Rightarrow> 'a op" where
  "unit_of_work write m s =
     (case m s of
        (Inr x, t) \<Rightarrow> (Inr x, if write then committed t else rolled_back t)
      | (Inl e, t) \<Rightarrow> (Inl e, rolled_back t))"

lemma saved_committed [simp]: "ss_saved (committed s) = stored_of s"
  and db_committed [simp]: "ss_db (committed s) = ss_db s"
  and saved_rolled_back [simp]: "ss_saved (rolled_back s) = ss_saved s"
  and db_rolled_back [simp]: "ss_db (rolled_back s) = st_db (ss_saved s)"
  and st_db_stored [simp]: "st_db (stored_of s) = ss_db s"
  by (simp_all add: committed_def rolled_back_def stored_of_def)

lemma commit_op_simps [simp]:
  "commit_op s = (Inr (), committed s)" "rollback_op s = (Inr (), rolled_back s)"
  "bind_op commit_op k s = k () (committed s)" "bind_op rollback_op k s = k () (rolled_back s)"
  by (simp_all add: commit_op_def rollback_op_def modify_op_def bind_op_def)

text \<open>After a request, what the session shows is what was saved.\<close>

lemma unit_of_work_durable: "ss_db (snd (unit_of_work write m s)) = st_db (ss_saved (snd (unit_of_work write m s)))"
  by (simp add: unit_of_work_def split: prod.split sum.split)

end
