(* ===== verification/Forest.thy ===== *)
theory Forest
  imports Main
begin

text \<open>
  Parent pointers as a partial function: climbing a number of steps, acyclicity, the nodes below a node,
  and what adding a leaf or re-parenting a subtree does to them. Nothing here is about the program; it is
  the mathematics of the closure table that the entity service maintains.
\<close>

section \<open>Climbing\<close>

fun up :: "('a \<Rightarrow> 'a option) \<Rightarrow> nat \<Rightarrow> 'a \<Rightarrow> 'a option" where
  "up P 0 i = Some i"
| "up P (Suc n) i = (case P i of None \<Rightarrow> None | Some p \<Rightarrow> up P n p)"

lemma up_add: "up P (m + n) i = (case up P m i of None \<Rightarrow> None | Some a \<Rightarrow> up P n a)"
  by (induction m arbitrary: i) (auto split: option.splits)

lemma up_step: "up P (Suc n) i = (case up P n i of None \<Rightarrow> None | Some a \<Rightarrow> P a)"
  using up_add [of P n 1 i] by (auto split: option.splits)

lemma up_one: "up P (Suc 0) i = P i"
  by (cases "P i") auto

lemma up_trans: "up P m b = Some a \<Longrightarrow> up P n a = Some c \<Longrightarrow> up P (m + n) b = Some c"
  by (simp add: up_add)

lemma up_diff:
  assumes "up P m b = Some a" and "up P n b = Some c" and "m \<le> n"
  shows "up P (n - m) a = Some c"
  using assms up_add [of P m "n - m" b] by simp

lemma up_prefix: "up P n b = Some c \<Longrightarrow> m \<le> n \<Longrightarrow> \<exists>a. up P m b = Some a"
  using up_add [of P m "n - m" b] by (cases "up P m b") auto

section \<open>Acyclic parents\<close>

definition acyclic_parents :: "('a \<Rightarrow> 'a option) \<Rightarrow> bool" where
  "acyclic_parents P \<longleftrightarrow> (\<forall>i n. up P (Suc n) i \<noteq> Some i)"

lemma acyclic_up_self: "acyclic_parents P \<Longrightarrow> up P n i = Some i \<longleftrightarrow> n = 0"
  by (cases n) (auto simp: acyclic_parents_def simp del: up.simps(2))

lemma up_unique:
  assumes "acyclic_parents P" and m: "up P m b = Some a" and n: "up P n b = Some a"
  shows "m = n"
proof (cases "m \<le> n")
  case True
  then have "up P (n - m) a = Some a" by (rule up_diff [OF m n])
  with True assms(1) show ?thesis by (simp add: acyclic_up_self)
next
  case False
  then have "up P (m - n) a = Some a" using up_diff [OF n m] by simp
  with False assms(1) show ?thesis by (simp add: acyclic_up_self)
qed

lemma up_antisym:
  assumes "acyclic_parents P" and "up P m b = Some a" and "up P n a = Some b"
  shows "a = b"
  using up_trans [OF assms(2,3)] assms(1,2) by (simp add: acyclic_up_self)

section \<open>The nodes below a node\<close>

definition below :: "('a \<Rightarrow> 'a option) \<Rightarrow> 'a \<Rightarrow> 'a set" where
  "below P i = {j. \<exists>n. up P n j = Some i}"

lemma below_self [simp]: "i \<in> below P i"
  by (auto simp: below_def intro: exI [of _ 0])

lemma below_child:
  assumes "acyclic_parents P" and "P c = Some i"
  shows "below P c \<subset> below P i"
proof
  show "below P c \<subseteq> below P i"
  proof
    fix j assume "j \<in> below P c"
    then obtain n where "up P n j = Some c" by (auto simp: below_def)
    then have "up P (Suc n) j = Some i" unfolding up_step using assms(2) by simp
    then show "j \<in> below P i" unfolding below_def by blast
  qed
  have "i \<notin> below P c"
  proof
    assume "i \<in> below P c"
    then obtain n where "up P n i = Some c" by (auto simp: below_def)
    then have "up P (Suc n) c = Some c" using assms(2) by simp
    with assms(1) show False by (simp add: acyclic_parents_def del: up.simps(2))
  qed
  then show "below P c \<noteq> below P i" by auto
qed

lemma below_subset:
  assumes "dom P \<subseteq> ids" and "i \<in> ids"
  shows "below P i \<subseteq> ids"
proof
  fix j assume "j \<in> below P i"
  then obtain n where n: "up P n j = Some i" by (auto simp: below_def)
  then show "j \<in> ids" using assms by (cases n) (auto split: option.splits)
qed

section \<open>A new leaf\<close>

lemma up_leaf:
  assumes "x \<notin> ran P" and "q \<noteq> Some x"
  shows "up (P(x := q)) n b =
     (if b = x then (case n of 0 \<Rightarrow> Some x | Suc m \<Rightarrow> (case q of None \<Rightarrow> None | Some p \<Rightarrow> up P m p))
      else up P n b)"
proof -
  have other: "b \<noteq> x \<Longrightarrow> up (P(x := q)) n b = up P n b" for n b
  proof (induction n arbitrary: b)
    case (Suc n)
    have "P b \<noteq> Some x" using assms(1) by (auto simp: ran_def)
    with Suc show ?case by (auto split: option.splits)
  qed simp
  show ?thesis
  proof (cases "b = x")
    case True
    then show ?thesis using assms(2) other by (cases n) (auto split: option.splits)
  qed (simp add: other)
qed

lemma acyclic_leaf:
  assumes "acyclic_parents P" and "x \<notin> ran P" and "q \<noteq> Some x"
  shows "acyclic_parents (P(x := q))"
proof -
  have reach: "up P m p = Some x \<Longrightarrow> p = x" for m p
  proof (induction m arbitrary: p)
    case (Suc m)
    then have "up P (Suc m) p = Some x" by simp
    then obtain a where "P a = Some x" unfolding up_step by (auto split: option.splits)
    then show ?case using assms(2) by (auto simp: ran_def)
  qed simp
  show ?thesis
    unfolding acyclic_parents_def up_leaf [OF assms(2,3)]
    using assms(1,3) reach
    by (auto simp: acyclic_parents_def simp del: up.simps(2) split: option.splits)
qed

section \<open>A new parent\<close>

definition clear_of :: "('a \<Rightarrow> 'a option) \<Rightarrow> 'a \<Rightarrow> 'a option \<Rightarrow> bool" where
  "clear_of P e q \<longleftrightarrow> (\<forall>p \<in> set_option q. p \<notin> below P e)"

lemma up_outside:
  assumes "b \<notin> below P e"
  shows "up (P(e := q)) n b = up P n b"
  using assms
proof (induction n arbitrary: b)
  case (Suc n)
  have "b \<noteq> e" using Suc.prems by auto
  moreover have "p \<notin> below P e" if "P b = Some p" for p
  proof
    assume "p \<in> below P e"
    then obtain n where "up P n p = Some e" by (auto simp: below_def)
    then have "up P (Suc n) b = Some e" using that by simp
    with Suc.prems show False unfolding below_def by blast
  qed
  ultimately show ?case using Suc.IH by (auto split: option.splits)
qed simp

lemma up_below_low:
  assumes "up P k b = Some e" and "acyclic_parents P" and "n \<le> k"
  shows "up (P(e := q)) n b = up P n b"
  using assms
proof (induction n arbitrary: b k)
  case (Suc n)
  then obtain k' where k: "k = Suc k'" by (cases k) auto
  with Suc.prems have "b \<noteq> e" by (metis acyclic_up_self nat.distinct(1))
  with Suc k show ?case by (auto split: option.splits)
qed simp

lemma up_below_high:
  assumes "up P k b = Some e" and "acyclic_parents P" and "clear_of P e q"
  shows "up (P(e := q)) (k + Suc m) b = (case q of None \<Rightarrow> None | Some p \<Rightarrow> up P m p)"
proof -
  have "up (P(e := q)) k b = Some e" using up_below_low [OF assms(1,2) order_refl] assms(1) by simp
  then have "up (P(e := q)) (k + Suc m) b = up (P(e := q)) (Suc m) e" unfolding up_add [of _ k] by simp
  also have "\<dots> = (case q of None \<Rightarrow> None | Some p \<Rightarrow> up P m p)"
    using assms(3) by (auto simp: clear_of_def up_outside split: option.splits)
  finally show ?thesis .
qed

lemma up_reparent_outside:
  assumes "up P n b = Some a" and "b \<notin> below P e"
  shows "a \<notin> below P e"
proof
  assume "a \<in> below P e"
  then obtain m where "up P m a = Some e" by (auto simp: below_def)
  with assms(1) have "up P (n + m) b = Some e" by (rule up_trans)
  with assms(2) show False unfolding below_def by blast
qed

lemma acyclic_reparent:
  assumes acy: "acyclic_parents P" and clear: "clear_of P e q"
  shows "acyclic_parents (P(e := q))"
  unfolding acyclic_parents_def
proof (intro allI notI)
  fix i n assume cyc: "up (P(e := q)) (Suc n) i = Some i"
  show False
  proof (cases "i \<in> below P e")
    case False
    then show False using cyc acy by (simp add: up_outside acyclic_parents_def del: up.simps(2))
  next
    case True
    then obtain k where k: "up P k i = Some e" by (auto simp: below_def)
    show False
    proof (cases "Suc n \<le> k")
      case True
      then show False using cyc up_below_low [OF k acy True] acy
        by (simp add: acyclic_parents_def del: up.simps(2))
    next
      case False
      then obtain m where m: "Suc n = k + Suc m" by (metis add_Suc_right less_natE not_le)
      with cyc up_below_high [OF k acy clear, of m]
      obtain p where p: "q = Some p" "up P m p = Some i"
        by (auto simp del: up.simps(2) split: option.splits)
      with k have "p \<in> below P e" unfolding below_def using up_trans by fast
      with p clear show False by (simp add: clear_of_def)
    qed
  qed
qed

section \<open>Closure tables\<close>

text \<open>
  The table of a set of linked nodes: every pair of linked nodes of which one is reached from the other,
  with the number of steps.
\<close>

definition closure_rel :: "('a \<Rightarrow> 'a option) \<Rightarrow> 'a set \<Rightarrow> ('a \<times> 'a \<times> int) set \<Rightarrow> bool" where
  "closure_rel P L C \<longleftrightarrow>
     (\<forall>a b n. (a, b, n) \<in> C \<longleftrightarrow> a \<in> L \<and> b \<in> L \<and> 0 \<le> n \<and> up P (nat n) b = Some a)"

lemma closure_relD:
  "closure_rel P L C \<Longrightarrow> (a, b, n) \<in> C \<longleftrightarrow> a \<in> L \<and> b \<in> L \<and> 0 \<le> n \<and> up P (nat n) b = Some a"
  by (simp add: closure_rel_def)

lemma closure_self: "closure_rel P L C \<Longrightarrow> (i, i, 0) \<in> C \<longleftrightarrow> i \<in> L"
  by (simp add: closure_relD)

lemma closure_unique:
  assumes "acyclic_parents P" and "closure_rel P L C" and "(a, b, m) \<in> C" and "(a, b, n) \<in> C"
  shows "m = n"
proof -
  from assms have "nat m = nat n" "0 \<le> m" "0 \<le> n"
    by (auto simp: closure_relD intro: up_unique)
  then show ?thesis by simp
qed

lemma closure_unlink:
  "closure_rel P L C \<Longrightarrow> closure_rel P (L - {i}) {(a, b, n). (a, b, n) \<in> C \<and> a \<noteq> i \<and> b \<noteq> i}"
  by (auto simp: closure_rel_def)

definition leaf_rows :: "'a \<Rightarrow> 'a option \<Rightarrow> ('a \<times> 'a \<times> int) set \<Rightarrow> ('a \<times> 'a \<times> int) set" where
  "leaf_rows x q C =
     insert (x, x, 0) (case q of None \<Rightarrow> {} | Some p \<Rightarrow> {(a, x, n + 1) | a n. (a, p, n) \<in> C})"

lemma leaf_rowsI: "(a, b, n) \<in> leaf_rows x q C \<longleftrightarrow>
    b = x \<and> (a = x \<and> n = 0 \<or> (\<exists>p. q = Some p \<and> (a, p, n - 1) \<in> C))"
  by (auto simp: leaf_rows_def split: option.splits intro: exI [of _ "n - 1"])

lemma closure_leaf:
  assumes C: "closure_rel P L C" and x: "x \<notin> ran P" "x \<notin> L" and q: "q \<noteq> Some x" "set_option q \<subseteq> L"
  shows "closure_rel (P(x := q)) (insert x L) (C \<union> leaf_rows x q C)"
  unfolding closure_rel_def
proof (intro allI)
  fix a b n
  let ?P = "P(x := q)"
  have reach: "up P m c = Some x \<Longrightarrow> c = x" for m c
  proof (induction m arbitrary: c)
    case (Suc m)
    then have "up P (Suc m) c = Some x" by simp
    then obtain y where "P y = Some x" unfolding up_step by (auto split: option.splits)
    then show ?case using x by (auto simp: ran_def)
  qed simp
  show "(a, b, n) \<in> C \<union> leaf_rows x q C \<longleftrightarrow>
      a \<in> insert x L \<and> b \<in> insert x L \<and> 0 \<le> n \<and> up ?P (nat n) b = Some a"
  proof (cases "b = x")
    case False
    then have "(a, b, n) \<in> C \<union> leaf_rows x q C \<longleftrightarrow> (a, b, n) \<in> C" by (simp add: leaf_rowsI)
    also have "\<dots> \<longleftrightarrow> a \<in> insert x L \<and> b \<in> insert x L \<and> 0 \<le> n \<and> up ?P (nat n) b = Some a"
      using False reach x by (auto simp: closure_relD [OF C] up_leaf [OF x(1) q(1)])
    finally show ?thesis .
  next
    case True
    have notC: "(a, x, n) \<notin> C" using x by (simp add: closure_relD [OF C])
    show ?thesis
    proof (cases "n \<le> 0")
      case True
      then show ?thesis using notC \<open>b = x\<close> x q
        by (auto simp: leaf_rowsI closure_relD [OF C])
    next
      case False
      then have n: "nat n = Suc (nat (n - 1))" by simp
      have "(a, b, n) \<in> C \<union> leaf_rows x q C \<longleftrightarrow> (\<exists>p. q = Some p \<and> (a, p, n - 1) \<in> C)"
        using notC False \<open>b = x\<close> by (auto simp: leaf_rowsI)
      also have "\<dots> \<longleftrightarrow> a \<in> insert x L \<and> b \<in> insert x L \<and> 0 \<le> n \<and> up ?P (nat n) b = Some a"
        unfolding n up_leaf [OF x(1) q(1)]
        using False \<open>b = x\<close> q reach x
        by (auto simp: closure_relD [OF C] split: option.splits)
      finally show ?thesis .
    qed
  qed
qed

definition moved_table :: "'a \<Rightarrow> 'a option \<Rightarrow> ('a \<times> 'a \<times> int) set \<Rightarrow> ('a \<times> 'a \<times> int) set" where
  "moved_table e q C =
     {(a, b, n). (a, b, n) \<in> C \<and> \<not> ((\<exists>m. (e, b, m) \<in> C) \<and> (\<nexists>m. (e, a, m) \<in> C))}
     \<union> {(a, b, n + 1 + m) | a b n m. (\<exists>p. q = Some p \<and> (a, p, n) \<in> C) \<and> (e, b, m) \<in> C}"

lemma closure_below:
  "closure_rel P L C \<Longrightarrow> e \<in> L \<Longrightarrow> (\<exists>m. (e, b, m) \<in> C) \<longleftrightarrow> b \<in> L \<and> b \<in> below P e"
  by (auto simp: closure_relD below_def intro: exI [of _ "int _"])

lemma closure_reparent:
  assumes acy: "acyclic_parents P" and C: "closure_rel P L C" and e: "e \<in> L"
    and clear: "clear_of P e q" and q: "set_option q \<subseteq> L"
  shows "closure_rel (P(e := q)) L (moved_table e q C)"
  unfolding closure_rel_def
proof (intro allI)
  fix a b n
  let ?P = "P(e := q)"
  have low: "(a, b, n) \<in> C \<and> \<not> ((\<exists>m. (e, b, m) \<in> C) \<and> (\<nexists>m. (e, a, m) \<in> C)) \<longleftrightarrow>
      (a, b, n) \<in> C \<and> (b \<in> below P e \<longrightarrow> a \<in> below P e)"
    using closure_below [OF C e] by (auto simp: closure_relD [OF C])
  show "(a, b, n) \<in> moved_table e q C \<longleftrightarrow> a \<in> L \<and> b \<in> L \<and> 0 \<le> n \<and> up ?P (nat n) b = Some a"
  proof (cases "b \<in> below P e")
    case False
    then have "(a, b, n) \<in> moved_table e q C \<longleftrightarrow> (a, b, n) \<in> C"
      unfolding moved_table_def using low closure_below [OF C e] by blast
    also have "\<dots> \<longleftrightarrow> a \<in> L \<and> b \<in> L \<and> 0 \<le> n \<and> up ?P (nat n) b = Some a"
      using False by (simp add: closure_relD [OF C] up_outside)
    finally show ?thesis .
  next
    case True
    then obtain k where k: "up P k b = Some e" by (auto simp: below_def)
    have m: "(e, b, m) \<in> C \<longleftrightarrow> b \<in> L \<and> m = int k" for m
    proof
      assume "(e, b, m) \<in> C"
      then have "b \<in> L" "0 \<le> m" and up: "up P (nat m) b = Some e" by (auto simp: closure_relD [OF C])
      moreover have "nat m = k" by (rule up_unique [OF acy up k])
      ultimately show "b \<in> L \<and> m = int k" by simp
    qed (use k e in \<open>auto simp: closure_relD [OF C]\<close>)
    show ?thesis
    proof (cases "n \<le> int k")
      case True
      have new: "\<not> (\<exists>p j m. q = Some p \<and> (a, p, j) \<in> C \<and> (e, b, m) \<in> C \<and> n = j + 1 + m)"
        unfolding m using True by (auto simp: closure_relD [OF C])
      have "a \<in> below P e" if "up P (nat n) b = Some a" "0 \<le> n"
      proof -
        have "nat n \<le> k" using True that(2) by simp
        then show ?thesis using up_diff [OF that(1) k] unfolding below_def by blast
      qed
      then have "(a, b, n) \<in> moved_table e q C \<longleftrightarrow> (a, b, n) \<in> C"
        unfolding moved_table_def using low new by (auto simp: closure_relD [OF C])
      also have "\<dots> \<longleftrightarrow> a \<in> L \<and> b \<in> L \<and> 0 \<le> n \<and> up ?P (nat n) b = Some a"
        using up_below_low [OF k acy, of "nat n" q] True by (auto simp: closure_relD [OF C])
      finally show ?thesis .
    next
      case False
      define j where "j = nat (n - 1 - int k)"
      have n: "nat n = k + Suc j" "n = int j + 1 + int k" using False by (simp_all add: j_def)
      have out: "\<not> ((a, b, n) \<in> C \<and> a \<in> below P e)"
      proof
        assume "(a, b, n) \<in> C \<and> a \<in> below P e"
        then obtain r where "up P r a = Some e" "up P (nat n) b = Some a"
          by (auto simp: below_def closure_relD [OF C])
        then have "up P (nat n + r) b = Some e" using up_trans by fast
        then have "nat n + r = k" using up_unique [OF acy _ k] by blast
        then show False using n by simp
      qed
      have "(a, b, n) \<in> moved_table e q C \<longleftrightarrow>
          (\<exists>p i m. q = Some p \<and> (a, p, i) \<in> C \<and> (e, b, m) \<in> C \<and> n = i + 1 + m)"
        unfolding moved_table_def using low out \<open>b \<in> below P e\<close> by auto
      also have "\<dots> \<longleftrightarrow> b \<in> L \<and> (\<exists>p. q = Some p \<and> (a, p, int j) \<in> C)"
        unfolding m n(2) by auto
      also have "\<dots> \<longleftrightarrow> a \<in> L \<and> b \<in> L \<and> 0 \<le> n \<and> up ?P (nat n) b = Some a"
        unfolding n(1) up_below_high [OF k acy clear]
        using q n(2) by (auto simp: closure_relD [OF C] split: option.splits)
      finally show ?thesis .
    qed
  qed
qed

section \<open>Depths and paths\<close>

text \<open>The labels of the \<open>n\<close> nodes climbed from a node, the topmost first.\<close>

fun trail :: "('a \<Rightarrow> 'a option) \<Rightarrow> ('a \<Rightarrow> 'c list) \<Rightarrow> nat \<Rightarrow> 'a \<Rightarrow> 'c list" where
  "trail P sl 0 b = []"
| "trail P sl (Suc n) b = (case P b of None \<Rightarrow> [] | Some p \<Rightarrow> trail P sl n p @ sl b)"

lemma trail_add: "up P m b = Some a \<Longrightarrow> trail P sl (m + n) b = trail P sl n a @ trail P sl m b"
  by (induction m arbitrary: b) (auto split: option.splits)

lemma trail_leaf:
  assumes "x \<notin> ran P" and "b \<noteq> x" and "\<And>c. c \<noteq> x \<Longrightarrow> sl' c = sl c"
  shows "trail (P(x := q)) sl' n b = trail P sl n b"
  using assms(2)
proof (induction n arbitrary: b)
  case (Suc n)
  have "P b \<noteq> Some x" using assms(1) by (auto simp: ran_def)
  with Suc assms(3) show ?case by (auto split: option.splits)
qed simp

lemma trail_outside:
  assumes "b \<notin> below P e"
  shows "trail (P(e := q)) sl n b = trail P sl n b"
  using assms
proof (induction n arbitrary: b)
  case (Suc n)
  have "b \<noteq> e" using Suc.prems by auto
  moreover have "p \<notin> below P e" if "P b = Some p" for p
    using up_reparent_outside [of P "Suc 0" b p e] Suc.prems that by (simp add: up_one)
  ultimately show ?case using Suc.IH by (auto split: option.splits)
qed simp

lemma trail_below:
  assumes "up P k b = Some e" and "acyclic_parents P" and "n \<le> k"
  shows "trail (P(e := q)) sl n b = trail P sl n b"
  using assms
proof (induction n arbitrary: b k)
  case (Suc n)
  then obtain k' where k: "k = Suc k'" by (cases k) auto
  with Suc.prems have "b \<noteq> e" by (metis acyclic_up_self nat.distinct(1))
  with Suc k show ?case by (auto split: option.splits)
qed simp

definition labelled ::
  "('a \<Rightarrow> 'a option) \<Rightarrow> ('a \<times> 'a \<times> int) set \<Rightarrow> ('a \<Rightarrow> int) \<Rightarrow> ('a \<Rightarrow> 'c list) \<Rightarrow> ('a \<Rightarrow> 'c list) \<Rightarrow> bool" where
  "labelled P C dep path sl \<longleftrightarrow>
     (\<forall>a b n. (a, b, n) \<in> C \<longrightarrow> dep b = dep a + n \<and> path b = path a @ trail P sl (nat n) b)"

lemma labelledD:
  "labelled P C dep path sl \<Longrightarrow> (a, b, n) \<in> C
     \<Longrightarrow> dep b = dep a + n \<and> path b = path a @ trail P sl (nat n) b"
  by (auto simp: labelled_def)

lemma labelled_subset: "labelled P C dep path sl \<Longrightarrow> D \<subseteq> C \<Longrightarrow> labelled P D dep path sl"
  unfolding labelled_def by blast

lemma labelled_leaf:
  assumes lab: "labelled P C dep path sl" and C: "closure_rel P L C" and x: "x \<notin> ran P" "x \<notin> L"
    and same: "\<And>b. b \<noteq> x \<Longrightarrow> dep' b = dep b \<and> path' b = path b \<and> sl' b = sl b"
    and new: "\<And>p. q = Some p \<Longrightarrow> p \<noteq> x \<and> dep' x = dep p + 1 \<and> path' x = path p @ sl' x"
  shows "labelled (P(x := q)) (C \<union> leaf_rows x q C) dep' path' sl'"
  unfolding labelled_def
proof (intro allI impI)
  fix a b n assume ab: "(a, b, n) \<in> C \<union> leaf_rows x q C"
  have tr: "trail (P(x := q)) sl' m c = trail P sl m c" if "c \<noteq> x" for m c
    using trail_leaf [of x P c sl' sl q m] x(1) that same by blast
  consider (old) "(a, b, n) \<in> C" | (self) "a = x" "b = x" "n = 0"
    | (leaf) p where "b = x" "q = Some p" "(a, p, n - 1) \<in> C"
    using ab by (auto simp: leaf_rowsI)
  then show "dep' b = dep' a + n \<and> path' b = path' a @ trail (P(x := q)) sl' (nat n) b"
  proof cases
    case old
    then have "a \<noteq> x" "b \<noteq> x" using x(2) by (auto simp: closure_relD [OF C])
    then show ?thesis using labelledD [OF lab old] same tr by auto
  next
    case self
    then show ?thesis by simp
  next
    case leaf
    then have a: "a \<noteq> x" and n: "nat n = Suc (nat (n - 1))"
      using x(2) by (auto simp: closure_relD [OF C])
    have "trail (P(x := q)) sl' (nat n) x = trail P sl (nat (n - 1)) p @ sl' x"
      unfolding n using leaf(2) new tr by auto
    then show ?thesis using labelledD [OF lab leaf(3)] a leaf same new by auto
  qed
qed

lemma labelled_reparent:
  assumes lab: "labelled P C dep path sl" and C: "closure_rel P L C" and acy: "acyclic_parents P"
    and e: "e \<in> L" and clear: "clear_of P e q"
    and sub: "\<And>b m. (e, b, m) \<in> C \<Longrightarrow> dep' b = base + m \<and> path' b = new @ trail P sl (nat m) b"
    and out: "\<And>b. (\<nexists>m. (e, b, m) \<in> C) \<Longrightarrow> dep' b = dep b \<and> path' b = path b"
    and new: "\<And>p. q = Some p \<Longrightarrow> base = dep p + 1 \<and> new = path p @ sl e"
  shows "labelled (P(e := q)) (moved_table e q C) dep' path' sl"
  unfolding labelled_def
proof (intro allI impI)
  fix a b n assume "(a, b, n) \<in> moved_table e q C"
  then consider (inside) m j where "(a, b, n) \<in> C" "(e, b, m) \<in> C" "(e, a, j) \<in> C"
    | (outside) "(a, b, n) \<in> C" "\<nexists>m. (e, b, m) \<in> C"
    | (link) p i m where "q = Some p" "(a, p, i) \<in> C" "(e, b, m) \<in> C" "n = i + 1 + m"
    unfolding moved_table_def by blast
  then show "dep' b = dep' a + n \<and> path' b = path' a @ trail (P(e := q)) sl (nat n) b"
  proof cases
    case inside
    then have up: "up P (nat n) b = Some a" "up P (nat j) a = Some e" "up P (nat m) b = Some e"
      and pos: "0 \<le> n" "0 \<le> j" "0 \<le> m" by (auto simp: closure_relD [OF C])
    have m: "nat m = nat n + nat j" using up_trans [OF up(1,2)] by (rule up_unique [OF acy up(3)])
    have "trail P sl (nat m) b = trail P sl (nat j) a @ trail P sl (nat n) b"
      unfolding m by (rule trail_add [OF up(1)])
    moreover have "trail (P(e := q)) sl (nat n) b = trail P sl (nat n) b"
      by (rule trail_below [OF up(3) acy]) (simp add: m)
    ultimately show ?thesis using sub [OF inside(2)] sub [OF inside(3)] m pos by auto
  next
    case outside
    then have b: "b \<notin> below P e" using closure_below [OF C e] by (auto simp: closure_relD [OF C])
    have "up P (nat n) b = Some a" using outside(1) by (simp add: closure_relD [OF C])
    then have "a \<notin> below P e" using b by (rule up_reparent_outside)
    then have "\<nexists>m. (e, a, m) \<in> C" using closure_below [OF C e] by auto
    then show ?thesis
      using labelledD [OF lab outside(1)] out [OF outside(2)] out trail_outside [OF b, of q sl "nat n"] by auto
  next
    case link
    then have p: "p \<notin> below P e" using clear by (auto simp: clear_of_def)
    have up: "up P (nat i) p = Some a" "up P (nat m) b = Some e" "0 \<le> i" "0 \<le> m"
      using link by (auto simp: closure_relD [OF C])
    have n: "nat n = nat m + Suc (nat i)" using link(4) up(3,4) by simp
    have low: "up (P(e := q)) (nat m) b = Some e" using up_below_low [OF up(2) acy order_refl] up(2) by simp
    have "trail (P(e := q)) sl (nat n) b = trail (P(e := q)) sl (Suc (nat i)) e @ trail P sl (nat m) b"
      unfolding n trail_add [OF low] by (simp add: trail_below [OF up(2) acy order_refl])
    also have "trail (P(e := q)) sl (Suc (nat i)) e = trail P sl (nat i) p @ sl e"
      using link(1) by (simp add: trail_outside [OF p])
    finally have tr: "trail (P(e := q)) sl (nat n) b = trail P sl (nat i) p @ sl e @ trail P sl (nat m) b"
      by (simp only: append_assoc)
    have "a \<notin> below P e" using up(1) p by (rule up_reparent_outside)
    then have "\<nexists>m. (e, a, m) \<in> C" using closure_below [OF C e] by auto
    then have "dep' b = dep' a + n"
      and "path' b = path' a @ trail P sl (nat i) p @ sl e @ trail P sl (nat m) b"
      using out [of a] sub [OF link(3)] new [OF link(1)] labelledD [OF lab link(2)] link(4) by auto
    then show ?thesis by (simp only: tr)
  qed
qed

lemma siblings_disjoint:
  assumes "acyclic_parents P" and "P b = Some i" and "P c = Some i" and "b \<noteq> c"
  shows "below P b \<inter> below P c = {}"
proof -
  have no: False if m: "up P m j = Some b" and n: "up P n j = Some c" and "m \<le> n" and "b \<noteq> c"
    and b: "P b = Some i" and c: "P c = Some i" for j m n b c
  proof -
    have k: "up P (n - m) b = Some c" by (rule up_diff [OF m n \<open>m \<le> n\<close>])
    then obtain l where "n - m = Suc l" using \<open>b \<noteq> c\<close> by (cases "n - m") auto
    with k b have "up P l i = Some c" by simp
    with c have "up P (Suc l) i = Some i" unfolding up_step by simp
    with assms(1) show False by (simp add: acyclic_parents_def del: up.simps(2))
  qed
  show ?thesis
  proof (rule ccontr)
    assume "below P b \<inter> below P c \<noteq> {}"
    then obtain j m n where "up P m j = Some b" "up P n j = Some c" by (auto simp: below_def)
    then show False using no [of m j b n c] no [of n j c m b] assms(2-4) by (cases "m \<le> n") auto
  qed
qed

end
