(* ===== verification/EntityTree.thy ===== *)
theory EntityTree
  imports Session Forest
begin

text \<open>
  The entity hierarchy, \<open>outlabs_auth/services/entity.py\<close>: creating, updating, moving and archiving
  entities, the closure table kept beside the parent pointers, the materialized paths, the validation of
  hierarchy and naming rules, and the entity caches in Redis.

  The configuration, the entity type configuration that the config service returns (\<open>None\<close> without that
  service), and \<open>re.fullmatch\<close> (a compiled pattern is its test; \<open>None\<close> is \<open>re.error\<close>) are parameters.
  The identifier of a new row is an argument. Logging is left out.
\<close>

section \<open>The service\<close>

record entity_service =
  en_max_depth :: int
  en_hierarchy :: bool
  en_enforce :: bool
  en_redis :: bool
  en_root_types :: "(entity_class \<Rightarrow> string list) option"
  en_match :: "string \<Rightarrow> (string \<Rightarrow> bool) option"
  en_re_error :: "string \<Rightarrow> string"
  en_audit :: bool
  en_cache :: bool
  en_iso :: "pydatetime \<Rightarrow> string"

definition entity_at :: "db \<Rightarrow> uuid \<Rightarrow> entity_row option" where
  "entity_at d i = row_by e_id i (tb_entities d)"

definition parent_map :: "db \<Rightarrow> uuid \<Rightarrow> uuid option" where
  "parent_map d i = (case entity_at d i of None \<Rightarrow> None | Some e \<Rightarrow> e_parent e)"

definition get_entities_by_ids :: "db \<Rightarrow> uuid list \<Rightarrow> entity_row list" where
  "get_entities_by_ids d ids = List.map_filter (entity_at d) ids"

definition get_entity :: "uuid \<Rightarrow> entity_row op" where
  "get_entity i = bind_op (read_db (\<lambda>d. entity_at d i)) (\<lambda>e. case e of
     Some x \<Rightarrow> ret x
   | None \<Rightarrow> raise_op (Auth EntityNotFoundError ''Entity not found'' [(''entity_id'', PStr i)]))"

definition get_entity_by_slug :: "db \<Rightarrow> string \<Rightarrow> entity_row option" where
  "get_entity_by_slug d slug = List.find (\<lambda>e. e_slug e = slug) (tb_entities d)"

text \<open>The keys a dictionary is read or written under are the identifiers.\<close>

definition cache_path :: "uuid \<Rightarrow> uuid list \<Rightarrow> unit op" where
  "cache_path i ids = modify_op (\<lambda>s. s\<lparr>ss_paths := AList.update i ids (ss_paths s)\<rparr>)"

definition cache_descendants :: "uuid \<Rightarrow> uuid list \<Rightarrow> unit op" where
  "cache_descendants i ids = modify_op (\<lambda>s. s\<lparr>ss_descendants := AList.update i ids (ss_descendants s)\<rparr>)"

section \<open>Reading the hierarchy\<close>

text \<open>Closure rows of a descendant, the most distant ancestor first, and of an ancestor, nearest first.\<close>

definition ancestor_rows :: "db \<Rightarrow> uuid \<Rightarrow> closure_row list" where
  "ancestor_rows d i = sort_key (\<lambda>r. - cl_depth r) (filter (\<lambda>r. cl_descendant r = i) (tb_closure d))"

definition subtree_rows :: "db \<Rightarrow> uuid \<Rightarrow> closure_row list" where
  "subtree_rows d i = sort_key cl_depth (filter (\<lambda>r. cl_ancestor r = i) (tb_closure d))"

definition get_entity_path :: "entity_service \<Rightarrow> uuid \<Rightarrow> entity_row list op" where
  "get_entity_path sv i =
     bind_op (gets (\<lambda>s. if en_redis sv then map_of (ss_paths s) i else None)) (\<lambda>cached. case cached of
       Some ids \<Rightarrow> read_db (\<lambda>d. get_entities_by_ids d ids)
     | None \<Rightarrow>
         bind_op (read_db (\<lambda>d. get_entities_by_ids d (map cl_ancestor (ancestor_rows d i)))) (\<lambda>es.
         bind_op (when_op (en_redis sv \<and> es \<noteq> []) (cache_path i (map e_id es))) (\<lambda>_. ret es)))"

definition get_descendants :: "entity_service \<Rightarrow> uuid \<Rightarrow> string option \<Rightarrow> entity_row list op" where
  "get_descendants sv i typ =
     (let untyped = (case typ of None \<Rightarrow> True | Some t \<Rightarrow> t = []) in
      bind_op (gets (\<lambda>s. if en_redis sv \<and> untyped then map_of (ss_descendants s) i else None)) (\<lambda>cached. case cached of
        Some ids \<Rightarrow> read_db (\<lambda>d. get_entities_by_ids d ids)
      | None \<Rightarrow>
          bind_op (read_db (\<lambda>d. map cl_descendant (filter (\<lambda>r. cl_ancestor r = i \<and> 0 < cl_depth r) (tb_closure d)))) (\<lambda>ids.
          if ids = [] then ret []
          else
            bind_op (read_db (\<lambda>d. take 10000 (filter (\<lambda>e. e_id e \<in> set ids
                 \<and> (untyped \<or> e_type e = py_lower (the typ))) (tb_entities d)))) (\<lambda>es.
            bind_op (when_op (en_redis sv \<and> untyped \<and> es \<noteq> []) (cache_descendants i (map e_id es))) (\<lambda>_. ret es)))))"

definition get_children :: "db \<Rightarrow> uuid \<Rightarrow> entity_row list" where
  "get_children d i = take 1000 (filter (\<lambda>e. e_parent e = Some i \<and> e_status e = ''active'') (tb_entities d))"

definition is_ancestor_of :: "db \<Rightarrow> uuid \<Rightarrow> uuid \<Rightarrow> bool" where
  "is_ancestor_of d a b \<longleftrightarrow>
     (\<exists>r \<in> set (tb_closure d). cl_ancestor r = a \<and> cl_descendant r = b \<and> 0 < cl_depth r)"

definition get_ancestors :: "db \<Rightarrow> uuid \<Rightarrow> bool \<Rightarrow> entity_row list" where
  "get_ancestors d i include_self =
     get_entities_by_ids d (map cl_ancestor (sort_key cl_depth
       (filter (\<lambda>r. cl_descendant r = i \<and> (if include_self then 0 else 1) \<le> cl_depth r) (tb_closure d))))"

definition get_root_entity :: "entity_service \<Rightarrow> entity_row \<Rightarrow> entity_row option op" where
  "get_root_entity sv e =
     (if e_parent e = None then ret (Some e)
      else bind_op (get_entity_path sv (e_id e)) (\<lambda>path.
        ret (case path of [] \<Rightarrow> None | r # _ \<Rightarrow> Some r)))"

definition resolve_root_entity_id :: "db \<Rightarrow> entity_row \<Rightarrow> uuid option" where
  "resolve_root_entity_id d e =
     (if e_parent e = None then Some (e_id e)
      else case ancestor_rows d (e_id e) of [] \<Rightarrow> None | r # _ \<Rightarrow> Some (cl_ancestor r))"

definition get_root_entity_id :: "uuid \<Rightarrow> uuid option op" where
  "get_root_entity_id i = bind_op (get_entity i) (\<lambda>e. read_db (\<lambda>d. resolve_root_entity_id d e))"

definition tenant_scope_enforced :: "entity_service \<Rightarrow> bool" where
  "tenant_scope_enforced sv \<longleftrightarrow> en_hierarchy sv \<and> en_enforce sv"

section \<open>Names and governance\<close>

definition slugify_char :: "char \<Rightarrow> char" where
  "slugify_char c = (if is_ascii_lower c \<or> is_digit c \<or> c = CHR ''-'' then c else CHR ''-'')"

text \<open>\<open>re.sub("-+", "-", s)\<close>\<close>

fun squeeze :: "char \<Rightarrow> string \<Rightarrow> string" where
  "squeeze c (x # y # zs) = (if x = c \<and> y = c then squeeze c (y # zs) else x # squeeze c (y # zs))"
| "squeeze c xs = xs"

definition strip_char :: "char \<Rightarrow> string \<Rightarrow> string" where
  "strip_char c s = rev (dropWhile (\<lambda>x. x = c) (rev (dropWhile (\<lambda>x. x = c) s)))"

definition generate_slug :: "string \<Rightarrow> string" where
  "generate_slug name = strip_char (CHR ''-'') (squeeze (CHR ''-'') (map slugify_char (py_lower name)))"

text \<open>The keyword arguments of \<open>create_entity\<close> that the router passes on.\<close>

record entity_extra =
  ex_status :: string
  ex_from :: "datetime option"
  ex_until :: "datetime option"
  ex_child_classes :: "string list"
  ex_child_types :: "string list"
  ex_max_members :: "int option"
  ex_name_pattern :: "string option"
  ex_display_pattern :: "string option"
  ex_slug_pattern :: "string option"
  ex_guidance :: "string option"

text \<open>\<open>trimmed_value or None\<close>\<close>

definition trim_governance :: "string option \<Rightarrow> string option" where
  "trim_governance v = (case v of None \<Rightarrow> None | Some s \<Rightarrow> if py_strip s = [] then None else Some (py_strip s))"

definition normalize_root_governance :: "entity_extra \<Rightarrow> entity_extra" where
  "normalize_root_governance x =
     x\<lparr>ex_name_pattern := trim_governance (ex_name_pattern x),
       ex_display_pattern := trim_governance (ex_display_pattern x),
       ex_slug_pattern := trim_governance (ex_slug_pattern x), ex_guidance := trim_governance (ex_guidance x)\<rparr>"

definition root_only_governance_fields :: "string list" where
  "root_only_governance_fields =
     [''child_name_pattern'', ''child_display_name_pattern'', ''child_slug_pattern'', ''child_naming_guidance'']"

definition has_root_governance :: "string option list \<Rightarrow> bool" where
  "has_root_governance vs \<longleftrightarrow> list_ex (\<lambda>v. v \<noteq> None) vs"

definition spaced :: "string \<Rightarrow> string" where
  "spaced = map (\<lambda>c. if c = CHR ''_'' then CHR '' '' else c)"

text \<open>\<open>_validate_root_governance_values\<close>: the fields and the patterns provided for them.\<close>

fun validate_root_governance :: "entity_service \<Rightarrow> (string \<times> string option) list \<Rightarrow> err + unit" where
  "validate_root_governance sv [] = Inr ()"
| "validate_root_governance sv ((field, v) # rest) =
     (case v of
        None \<Rightarrow> validate_root_governance sv rest
      | Some p \<Rightarrow>
          if p \<noteq> [] \<and> en_match sv p = None
          then Inl (invalid_input (spaced field @ '' must be a valid regular expression'')
                 [(''field'', PStr field), (''pattern'', PStr p), (''error'', PStr (en_re_error sv p))])
          else validate_root_governance sv rest)"

definition naming_error :: "entity_row \<Rightarrow> string \<Rightarrow> string \<Rightarrow> string \<Rightarrow> err" where
  "naming_error root_row label v p =
     invalid_input (label @ '' '' @ squote v @ '' does not match the root naming rule'')
       [(''field'', PStr label), (''pattern'', PStr p), (''root_entity_id'', PStr (e_id root_row)),
        (''root_entity_name'', PStr (e_display_name root_row))]"

fun check_naming :: "entity_service \<Rightarrow> entity_row \<Rightarrow> (string option \<times> string \<times> string) list \<Rightarrow> err + unit" where
  "check_naming sv root_row [] = Inr ()"
| "check_naming sv root_row ((pattern, v, label) # rest) =
     (case pattern of
        None \<Rightarrow> check_naming sv root_row rest
      | Some p \<Rightarrow>
          if p = [] then check_naming sv root_row rest
          else (case en_match sv p of
                  None \<Rightarrow> Inl (Builtin RegexError)
                | Some f \<Rightarrow> if f v then check_naming sv root_row rest
                            else Inl (naming_error root_row label v p)))"

definition validate_root_naming_rules ::
  "entity_service \<Rightarrow> entity_row \<Rightarrow> string \<Rightarrow> string \<Rightarrow> string \<Rightarrow> unit op" where
  "validate_root_naming_rules sv parent name display slug =
     bind_op (get_root_entity sv parent) (\<lambda>found. case found of
       None \<Rightarrow> ret ()
     | Some r \<Rightarrow> lift_op (check_naming sv r
         [(e_name_pattern r, name, ''system name''), (e_display_pattern r, display, ''display name''),
          (e_slug_pattern r, slug, ''slug'')]))"

definition class_label :: "entity_class \<Rightarrow> string" where
  "class_label cls = map (\<lambda>c. if c = CHR ''_'' then CHR ''-'' else c) (entity_class_value cls)"

definition validate_root_entity_type :: "entity_service \<Rightarrow> entity_class \<Rightarrow> string \<Rightarrow> err + unit" where
  "validate_root_entity_type sv cls typ =
     (case en_root_types sv of
        None \<Rightarrow> Inr ()
      | Some conf \<Rightarrow>
          let allowed = map (\<lambda>v. py_lower (py_strip v)) (filter (\<lambda>v. py_strip v \<noteq> []) (conf cls)) in
          if allowed = []
          then Inl (invalid_input (''No '' @ class_label cls @ '' root entity types are configured'')
                 [(''entity_class'', PStr (entity_class_value cls))])
          else if py_lower typ \<notin> set allowed
          then Inl (invalid_input (''Entity type '' @ squote typ @ '' is not allowed for '' @ class_label cls @ '' root entities'')
                 [(''entity_class'', PStr (entity_class_value cls)),
                  (''allowed_root_types'', PList (map PStr allowed)), (''requested_type'', PStr typ)])
          else Inr ())"

section \<open>Hierarchy rules\<close>

definition get_allowed_child_types :: "entity_service \<Rightarrow> entity_row \<Rightarrow> string list op" where
  "get_allowed_child_types sv parent =
     (if e_child_types parent \<noteq> [] then ret (e_child_types parent)
      else bind_op (get_root_entity sv parent) (\<lambda>found.
        ret (case found of None \<Rightarrow> [] | Some r \<Rightarrow> e_child_types r)))"

definition validate_hierarchy :: "entity_service \<Rightarrow> entity_row \<Rightarrow> entity_class \<Rightarrow> string \<Rightarrow> unit op" where
  "validate_hierarchy sv parent cls typ =
     (if e_class parent = AccessGroup \<and> cls = Structural
      then raise_op (invalid_input ''Access groups cannot have structural entities as children''
             [(''parent_class'', PStr (entity_class_value (e_class parent))),
              (''child_class'', PStr (entity_class_value cls))])
      else
        bind_op (get_entity_path sv (e_id parent)) (\<lambda>path.
        if en_max_depth sv \<le> int (length path)
        then raise_op (invalid_input (''Maximum hierarchy depth ('' @ show_int (en_max_depth sv) @ '') reached'')
               [(''current_depth'', PInt (int (length path))), (''max_depth'', PInt (en_max_depth sv))])
        else
          bind_op (get_allowed_child_types sv parent) (\<lambda>allowed.
          if allowed \<noteq> [] \<and> py_lower typ \<notin> set (map py_lower allowed)
          then raise_op (invalid_input (''Entity type '' @ squote typ @ '' not allowed as child of '' @ squote (e_type parent))
                 [(''allowed_types'', PList (map PStr allowed)), (''requested_type'', PStr typ)])
          else ret ())))"

section \<open>Audit\<close>

definition entity_audit_snapshot :: "(pydatetime \<Rightarrow> string) \<Rightarrow> entity_row \<Rightarrow> snapshot" where
  "entity_audit_snapshot fmt e =
    [(''name'', PStr (e_name e)), (''display_name'', PStr (e_display_name e)), (''slug'', PStr (e_slug e)),
     (''description'', opt_str (e_description e)),
     (''entity_class'', PStr (entity_class_value (e_class e))), (''entity_type'', PStr (e_type e)),
     (''parent_id'', opt_str (e_parent e)), (''status'', PStr (e_status e)),
     (''valid_from'', opt_time fmt (e_from e)), (''valid_until'', opt_time fmt (e_until e)),
     (''allowed_child_classes'', strs (e_child_classes e)), (''allowed_child_types'', strs (e_child_types e)),
     (''max_members'', opt_int (e_max_members e)), (''child_name_pattern'', opt_str (e_name_pattern e)),
     (''child_display_name_pattern'', opt_str (e_display_pattern e)),
     (''child_slug_pattern'', opt_str (e_slug_pattern e)),
     (''child_naming_guidance'', opt_str (e_naming_guidance e))]"

definition record_entity_event ::
  "entity_service \<Rightarrow> datetime \<Rightarrow> entity_row \<Rightarrow> string \<Rightarrow> uuid option \<Rightarrow> snapshot option \<Rightarrow> snapshot option
     \<Rightarrow> snapshot \<Rightarrow> uuid option \<Rightarrow> unit op" where
  "record_entity_event sv now e typ actor before after meta known_root =
     (if \<not> en_audit sv then ret ()
      else bind_op (read_db (\<lambda>d. case known_root of Some r \<Rightarrow> Some r | None \<Rightarrow> resolve_root_entity_id d e)) (\<lambda>r.
        audit_event (en_iso sv) \<lparr>au_category = ''entity'', au_type = ''entity.'' @ typ,
          au_source = ''entity_service.'' @ typ, au_subject = None, au_email = [], au_actor = actor,
          au_root = r, au_entity = Some (e_id e), au_role = None, au_reason = None, au_before = before,
          au_after = after,
          au_metadata = Some ([(''entity_name'', PStr (e_name e)), (''entity_display_name'', PStr (e_display_name e)),
            (''entity_type'', PStr (e_type e))] @ meta), au_at = now\<rparr>))"

section \<open>Invalidating the caches\<close>

text \<open>What a deletion of cache keys returns counts the keys that existed.\<close>

definition drop_entity_keys :: "uuid set \<Rightarrow> nat op" where
  "drop_entity_keys ids = (\<lambda>s.
     (Inr (length (filter (\<lambda>(i, _). i \<in> ids) (ss_paths s)) + length (filter (\<lambda>(i, _). i \<in> ids) (ss_descendants s))),
      s\<lparr>ss_paths := filter (\<lambda>(i, _). i \<notin> ids) (ss_paths s),
        ss_descendants := filter (\<lambda>(i, _). i \<notin> ids) (ss_descendants s)\<rparr>))"

definition publish_text :: "string \<Rightarrow> unit op" where
  "publish_text msg = modify_op (\<lambda>s. s\<lparr>ss_published := ss_published s @ [msg]\<rparr>)"

definition hierarchy_message :: "uuid \<Rightarrow> string" where
  "hierarchy_message i = ''entity:'' @ i @ '':hierarchy''"

definition invalidate_entity_cache :: "entity_service \<Rightarrow> uuid \<Rightarrow> nat op" where
  "invalidate_entity_cache sv i =
     (if \<not> en_redis sv then ret 0
      else bind_op (drop_entity_keys {i}) (\<lambda>n.
           bind_op (when_op (0 < n) (publish_text (hierarchy_message i))) (\<lambda>_. ret n)))"

definition invalidate_entity_tree_cache :: "entity_service \<Rightarrow> uuid \<Rightarrow> nat op" where
  "invalidate_entity_tree_cache sv i =
     (if \<not> en_redis sv then ret 0
      else bind_op (get_entity_path sv i) (\<lambda>path.
           bind_op (get_descendants sv i None) (\<lambda>desc.
           bind_op (read_db (\<lambda>d. entity_at d i)) (\<lambda>current.
           bind_op (drop_entity_keys (set (map e_id (path @ desc @ (case current of None \<Rightarrow> [] | Some e \<Rightarrow> [e]))))) (\<lambda>n.
           bind_op (when_op (0 < n) (publish_text (hierarchy_message i))) (\<lambda>_. ret n))))))"

definition invalidate_all_entity_cache :: "entity_service \<Rightarrow> nat op" where
  "invalidate_all_entity_cache sv =
     (if \<not> en_redis sv then ret 0
      else bind_op (gets (\<lambda>s. set (map fst (ss_paths s)) \<union> set (map fst (ss_descendants s)))) (\<lambda>ids.
           bind_op (drop_entity_keys ids) (\<lambda>n.
           bind_op (when_op (0 < n) (publish_text ''all:entities'')) (\<lambda>_. ret n))))"

definition invalidate_permission_cache :: "entity_service \<Rightarrow> uuid \<Rightarrow> bool \<Rightarrow> unit op" where
  "invalidate_permission_cache sv i scope_global =
     publish_change (en_cache sv) (PublishEntity i # (if scope_global then [PublishAll] else []))"

section \<open>Creating and updating\<close>

text \<open>\<open>Entity.update_path\<close>\<close>

definition path_under :: "string option \<Rightarrow> string \<Rightarrow> string" where
  "path_under parent_path slug =
     (case parent_path of
        Some p \<Rightarrow> if p \<noteq> [] then p @ slug @ ''/'' else ''/'' @ slug @ ''/''
      | None \<Rightarrow> ''/'' @ slug @ ''/'')"

text \<open>\<open>_create_closure_records\<close>: the self row, and the rows of the parent one step further.\<close>

definition closure_records :: "db \<Rightarrow> uuid \<Rightarrow> uuid option \<Rightarrow> closure_row list" where
  "closure_records d i parent =
     \<lparr>cl_ancestor = i, cl_descendant = i, cl_depth = 0\<rparr> #
     (case parent of
        None \<Rightarrow> []
      | Some p \<Rightarrow> map (\<lambda>r. \<lparr>cl_ancestor = cl_ancestor r, cl_descendant = i, cl_depth = cl_depth r + 1\<rparr>)
                    (filter (\<lambda>r. cl_descendant r = p) (tb_closure d)))"

definition insert_entity :: "entity_row \<Rightarrow> db \<Rightarrow> db" where
  "insert_entity e d =
     d\<lparr>tb_entities := tb_entities d @ [e], tb_closure := tb_closure d @ closure_records d (e_id e) (e_parent e)\<rparr>"

definition new_entity ::
  "uuid \<Rightarrow> string \<Rightarrow> string \<Rightarrow> entity_class \<Rightarrow> string \<Rightarrow> uuid option \<Rightarrow> string option \<Rightarrow> string \<Rightarrow> entity_extra
     \<Rightarrow> int \<Rightarrow> string option \<Rightarrow> entity_row" where
  "new_entity i name display cls typ parent descr slug x parent_depth parent_path =
     \<lparr>e_id = i, e_name = name, e_display_name = display, e_slug = slug, e_description = descr,
      e_class = cls, e_type = typ, e_parent = parent, e_depth = parent_depth + 1,
      e_path = Some (path_under parent_path slug), e_status = ex_status x, e_from = ex_from x,
      e_until = ex_until x, e_max_members = ex_max_members x, e_max_depth = None,
      e_child_types = ex_child_types x, e_child_classes = ex_child_classes x,
      e_name_pattern = ex_name_pattern x, e_display_pattern = ex_display_pattern x,
      e_slug_pattern = ex_slug_pattern x, e_naming_guidance = ex_guidance x\<rparr>"

text \<open>The checks before a row is written, returning the parent's depth and path (\<open>-1\<close> without one).\<close>

definition check_new_entity ::
  "entity_service \<Rightarrow> string \<Rightarrow> string \<Rightarrow> entity_class \<Rightarrow> string \<Rightarrow> uuid option \<Rightarrow> string \<Rightarrow> entity_extra
     \<Rightarrow> (int \<times> string option) op" where
  "check_new_entity sv name display cls typ parent slug x =
     (case parent of
        Some p \<Rightarrow>
          if has_root_governance [ex_name_pattern x, ex_display_pattern x, ex_slug_pattern x, ex_guidance x]
          then raise_op (invalid_input ''Root naming governance can only be configured on root entities''
                 [(''fields'', strs root_only_governance_fields)])
          else
            bind_op (read_db (\<lambda>d. entity_at d p)) (\<lambda>found. case found of
              None \<Rightarrow> raise_op (Auth EntityNotFoundError ''Parent entity not found'' [(''parent_id'', PStr p)])
            | Some pe \<Rightarrow>
                bind_op (validate_hierarchy sv pe cls typ) (\<lambda>_.
                bind_op (validate_root_naming_rules sv pe name display slug) (\<lambda>_.
                ret (e_depth pe, e_path pe))))
      | None \<Rightarrow>
          bind_op (lift_op (validate_root_entity_type sv cls typ)) (\<lambda>_.
          bind_op (lift_op (validate_root_governance sv
            [(''child_name_pattern'', ex_name_pattern x), (''child_display_name_pattern'', ex_display_pattern x),
             (''child_slug_pattern'', ex_slug_pattern x)])) (\<lambda>_.
          ret (-1, None))))"

definition create_entity ::
  "entity_service \<Rightarrow> datetime \<Rightarrow> uuid \<Rightarrow> string \<Rightarrow> string \<Rightarrow> entity_class \<Rightarrow> string \<Rightarrow> uuid option
     \<Rightarrow> string option \<Rightarrow> string option \<Rightarrow> entity_extra \<Rightarrow> uuid option \<Rightarrow> entity_row op" where
  "create_entity sv now i name0 display cls typ0 parent descr slug0 x0 actor =
     (let name = py_lower name0; typ = py_lower typ0; x = normalize_root_governance x0;
          slug = (case slug0 of None \<Rightarrow> generate_slug name0
                  | Some s \<Rightarrow> if s = [] then generate_slug name0 else s) in
      bind_op (check_new_entity sv name display cls typ parent slug x) (\<lambda>(parent_depth, parent_path).
      bind_op (read_db (\<lambda>d. get_entity_by_slug d slug)) (\<lambda>existing.
      if existing \<noteq> None
      then raise_op (invalid_input (''Entity with slug '' @ squote slug @ '' already exists'') [(''slug'', PStr slug)])
      else
        (let e = new_entity i name display cls typ parent descr slug x parent_depth parent_path in
         bind_op (write_db (insert_entity e)) (\<lambda>_.
         bind_op (invalidate_permission_cache sv i False) (\<lambda>_.
         bind_op (record_entity_event sv now e ''created'' actor None
                    (Some (entity_audit_snapshot (en_iso sv) e)) [] None) (\<lambda>_.
         ret e)))))))"

text \<open>
  The updates that \<open>EntityUpdateRequest\<close> can carry, each present or absent; the values of optional
  columns may be present as \<open>None\<close>.
\<close>

record entity_update =
  up_display_name :: "string option"
  up_description :: "string option option"
  up_status :: "string option"
  up_from :: "datetime option option"
  up_until :: "datetime option option"
  up_child_classes :: "string list option"
  up_child_types :: "string list option"
  up_max_members :: "int option option"
  up_name_pattern :: "string option option"
  up_display_pattern :: "string option option"
  up_slug_pattern :: "string option option"
  up_guidance :: "string option option"

definition normalize_update :: "entity_update \<Rightarrow> entity_update" where
  "normalize_update u =
     u\<lparr>up_name_pattern := map_option trim_governance (up_name_pattern u),
       up_display_pattern := map_option trim_governance (up_display_pattern u),
       up_slug_pattern := map_option trim_governance (up_slug_pattern u),
       up_guidance := map_option trim_governance (up_guidance u)\<rparr>"

text \<open>\<open>payload.get(field)\<close>\<close>

definition provided :: "'a option option \<Rightarrow> 'a option" where
  "provided v = (case v of None \<Rightarrow> None | Some w \<Rightarrow> w)"

definition set_field :: "'a option \<Rightarrow> 'a \<Rightarrow> 'a" where
  "set_field v old = (case v of None \<Rightarrow> old | Some x \<Rightarrow> x)"

definition apply_entity_update :: "entity_update \<Rightarrow> entity_row \<Rightarrow> entity_row" where
  "apply_entity_update u e =
     e\<lparr>e_display_name := set_field (up_display_name u) (e_display_name e),
       e_description := set_field (up_description u) (e_description e),
       e_status := set_field (up_status u) (e_status e),
       e_from := set_field (up_from u) (e_from e), e_until := set_field (up_until u) (e_until e),
       e_child_classes := set_field (up_child_classes u) (e_child_classes e),
       e_child_types := set_field (up_child_types u) (e_child_types e),
       e_max_members := set_field (up_max_members u) (e_max_members e),
       e_name_pattern := set_field (up_name_pattern u) (e_name_pattern e),
       e_display_pattern := set_field (up_display_pattern u) (e_display_pattern e),
       e_slug_pattern := set_field (up_slug_pattern u) (e_slug_pattern e),
       e_naming_guidance := set_field (up_guidance u) (e_naming_guidance e)\<rparr>"

definition changed_keys :: "snapshot \<Rightarrow> snapshot \<Rightarrow> string list" where
  "changed_keys before after = sort (filter (\<lambda>k. map_of before k \<noteq> map_of after k) (map fst after))"

definition restrict_keys :: "string list \<Rightarrow> snapshot \<Rightarrow> snapshot" where
  "restrict_keys ks p = map (\<lambda>k. (k, case map_of p k of None \<Rightarrow> PNone | Some v \<Rightarrow> v)) ks"

definition check_entity_update :: "entity_service \<Rightarrow> entity_row \<Rightarrow> entity_update \<Rightarrow> unit op" where
  "check_entity_update sv e u =
     (if e_parent e \<noteq> None \<and> has_root_governance [provided (up_name_pattern u), provided (up_display_pattern u),
           provided (up_slug_pattern u), provided (up_guidance u)]
      then raise_op (invalid_input ''Root naming governance can only be configured on root entities''
             [(''entity_id'', PStr (e_id e)), (''fields'', strs root_only_governance_fields)])
      else case e_parent e of
        None \<Rightarrow> lift_op (validate_root_governance sv
          [(''child_name_pattern'', provided (up_name_pattern u)),
           (''child_display_name_pattern'', provided (up_display_pattern u)),
           (''child_slug_pattern'', provided (up_slug_pattern u))])
      | Some p \<Rightarrow>
          (case up_display_name u of
             None \<Rightarrow> ret ()
           | Some display \<Rightarrow>
               bind_op (get_entity p) (\<lambda>pe.
               validate_root_naming_rules sv pe (e_name e) display (e_slug e))))"

definition update_entity ::
  "entity_service \<Rightarrow> datetime \<Rightarrow> uuid \<Rightarrow> entity_update \<Rightarrow> uuid option \<Rightarrow> entity_row op" where
  "update_entity sv now i u0 actor =
     (let u = normalize_update u0 in
      bind_op (get_entity i) (\<lambda>e.
      bind_op (check_entity_update sv e u) (\<lambda>_.
      let e1 = apply_entity_update u e;
          before = entity_audit_snapshot (en_iso sv) e; after = entity_audit_snapshot (en_iso sv) e1;
          ks = changed_keys before after in
      bind_op (write_db (\<lambda>d. d\<lparr>tb_entities := set_row e_id e1 (tb_entities d)\<rparr>)) (\<lambda>_.
      bind_op (when_op (ks \<noteq> []) (record_entity_event sv now e1 ''updated'' actor
                 (Some (restrict_keys ks before)) (Some (restrict_keys ks after))
                 [(''changed_fields'', strs ks)] None)) (\<lambda>_.
      bind_op (invalidate_permission_cache sv i False) (\<lambda>_.
      ret e1))))))"

section \<open>The access a subtree carries\<close>

record subtree_access =
  sa_memberships :: nat
  sa_invitations :: nat
  sa_roles :: nat
  sa_api_keys :: nat
  sa_principals :: nat
  sa_accounts :: nat

definition access_dict :: "subtree_access \<Rightarrow> pyval" where
  "access_dict a = PDict
    [(''memberships'', PInt (int (sa_memberships a))), (''pending_invitations'', PInt (int (sa_invitations a))),
     (''role_assignments'', PInt (int (sa_roles a))), (''api_keys'', PInt (int (sa_api_keys a))),
     (''integration_principals'', PInt (int (sa_principals a))), (''accounts'', PInt (int (sa_accounts a)))]"

text \<open>\<open>any(access.values())\<close>\<close>

definition carries_access :: "subtree_access \<Rightarrow> bool" where
  "carries_access a \<longleftrightarrow> sa_memberships a \<noteq> 0 \<or> sa_invitations a \<noteq> 0 \<or> sa_roles a \<noteq> 0
     \<or> sa_api_keys a \<noteq> 0 \<or> sa_principals a \<noteq> 0 \<or> sa_accounts a \<noteq> 0"

text \<open>One round of \<open>_with_archived_descendants\<close>: the children outside of what is collected.\<close>

definition next_frontier :: "db \<Rightarrow> uuid set \<Rightarrow> uuid set \<Rightarrow> uuid set" where
  "next_frontier d collected frontier =
     set (map e_id (filter (\<lambda>e. (case e_parent e of None \<Rightarrow> False | Some p \<Rightarrow> p \<in> frontier)
        \<and> e_id e \<notin> collected) (tb_entities d)))"

fun collect_rounds :: "db \<Rightarrow> nat \<Rightarrow> uuid set \<Rightarrow> uuid set \<Rightarrow> uuid set" where
  "collect_rounds d 0 collected frontier = collected"
| "collect_rounds d (Suc n) collected frontier =
     (if frontier = {} then collected
      else let f = next_frontier d collected frontier in collect_rounds d n (collected \<union> f) f)"

definition with_archived_descendants :: "entity_service \<Rightarrow> db \<Rightarrow> uuid set \<Rightarrow> uuid set" where
  "with_archived_descendants sv d ids = collect_rounds d (nat (max (en_max_depth sv) 1) + 1) ids ids"

definition live_member_in :: "uuid set \<Rightarrow> entity_membership \<Rightarrow> bool" where
  "live_member_in ids m \<longleftrightarrow> em_entity m \<in> ids \<and> em_status m \<noteq> MRevoked"

definition anchored_role :: "db \<Rightarrow> uuid set \<Rightarrow> uuid \<Rightarrow> bool" where
  "anchored_role d ids rid \<longleftrightarrow>
     (\<exists>r \<in> set (tb_roles d). r_id r = rid
        \<and> ((\<exists>s \<in> set_option (r_scope_entity r). s \<in> ids) \<or> (\<exists>s \<in> set_option (r_root_entity r). s \<in> ids)))"

definition count_where :: "('a \<Rightarrow> bool) \<Rightarrow> 'a list \<Rightarrow> nat" where
  "count_where p rows = length (filter p rows)"

definition in_ids :: "uuid set \<Rightarrow> uuid option \<Rightarrow> bool" where
  "in_ids ids v \<longleftrightarrow> (case v of None \<Rightarrow> False | Some x \<Rightarrow> x \<in> ids)"

definition count_subtree_access :: "db \<Rightarrow> uuid set \<Rightarrow> subtree_access" where
  "count_subtree_access d ids =
     \<lparr>sa_memberships = count_where (live_member_in ids) (tb_entity_members d),
      sa_invitations = count_where (\<lambda>u. u_status u = ''invited'' \<and>
        (in_ids ids (u_root_entity u)
         \<or> (\<exists>m \<in> set (tb_entity_members d). em_user m = u_id u \<and> live_member_in ids m))) (tb_users d),
      sa_roles =
        count_where (\<lambda>m. anchored_role d ids (urm_role m) \<and> urm_status m \<noteq> MRevoked) (tb_user_roles d)
        + count_where (\<lambda>(mid, rid). anchored_role d ids rid \<and>
            (\<exists>m \<in> set (tb_entity_members d). em_id m = mid \<and> em_status m \<noteq> MRevoked \<and> em_entity m \<notin> ids))
            (tb_member_roles d)
        + count_where (\<lambda>(pid, rid). anchored_role d ids rid \<and>
            (\<exists>p \<in> set (tb_principals d). ip_id p = pid \<and> ip_status p \<noteq> PArchived \<and> \<not> in_ids ids (ip_anchor p)))
            (tb_principal_roles d),
      sa_api_keys = count_where (\<lambda>k. in_ids ids (k_entity k) \<and> k_status k \<noteq> KRevoked) (tb_api_keys d),
      sa_principals = count_where (\<lambda>p. in_ids ids (ip_anchor p) \<and> ip_status p \<noteq> PArchived) (tb_principals d),
      sa_accounts = count_where (\<lambda>u. in_ids ids (u_root_entity u)) (tb_users d)\<rparr>"

definition get_subtree_access :: "entity_service \<Rightarrow> uuid \<Rightarrow> subtree_access op" where
  "get_subtree_access sv i =
     bind_op (get_entity i) (\<lambda>e. read_db (\<lambda>d.
       count_subtree_access d (with_archived_descendants sv d
         (insert (e_id e) (set (map cl_descendant (filter (\<lambda>r. cl_ancestor r = e_id e) (tb_closure d))))))))"

section \<open>Moving\<close>

text \<open>The linked subtree, nearest first, with the depth of each row below its top.\<close>

definition subtree_entities :: "db \<Rightarrow> uuid \<Rightarrow> (entity_row \<times> int) list" where
  "subtree_entities d i =
     List.map_filter (\<lambda>r. map_option (\<lambda>e. (e, cl_depth r)) (entity_at d (cl_descendant r))) (subtree_rows d i)"

text \<open>The new path of a row: its prefix is replaced, or it is rebuilt from its parent's (new) path.\<close>

definition rebuilt_path :: "string \<Rightarrow> uuid \<Rightarrow> entity_row list \<Rightarrow> entity_row \<Rightarrow> string" where
  "rebuilt_path new apex seen e =
     (if e_id e = apex then new
      else path_under (case e_parent e of None \<Rightarrow> None | Some p \<Rightarrow>
             (case row_by e_id p seen of None \<Rightarrow> None | Some x \<Rightarrow> e_path x)) (e_slug e))"

definition moved_path :: "string option \<Rightarrow> string \<Rightarrow> uuid \<Rightarrow> entity_row list \<Rightarrow> entity_row \<Rightarrow> string" where
  "moved_path old new apex seen e =
     (case (old, e_path e) of
        (Some q, Some p) \<Rightarrow> if p \<noteq> [] \<and> py_startswith p q then new @ drop (length q) p
                           else rebuilt_path new apex seen e
      | _ \<Rightarrow> rebuilt_path new apex seen e)"

text \<open>The rows in depth order: those already rewritten, then those still to be rewritten.\<close>

fun relocate ::
  "string option \<Rightarrow> string \<Rightarrow> uuid \<Rightarrow> int \<Rightarrow> entity_row list \<Rightarrow> (entity_row \<times> int) list \<Rightarrow> entity_row list" where
  "relocate old new apex base finished [] = finished"
| "relocate old new apex base finished ((e, rel) # rest) =
     relocate old new apex base
       (finished @ [e\<lparr>e_depth := base + rel,
                      e_path := Some (moved_path old new apex (finished @ e # map fst rest) e)\<rparr>]) rest"

definition with_slash :: "string \<Rightarrow> string" where
  "with_slash p = (if py_endswith p ''/'' then p else p @ ''/'')"

definition replace_rows :: "('a \<Rightarrow> 'k) \<Rightarrow> 'a list \<Rightarrow> 'a list \<Rightarrow> 'a list" where
  "replace_rows key new rows = map (\<lambda>y. case row_by key (key y) new of None \<Rightarrow> y | Some x \<Rightarrow> x) rows"

definition old_root_path :: "entity_row \<Rightarrow> string option" where
  "old_root_path e =
     (let p = (case e_path e of None \<Rightarrow> [] | Some p \<Rightarrow> py_strip p) in if p = [] then None else Some (with_slash p))"

definition new_root_path :: "entity_row option \<Rightarrow> string \<Rightarrow> string" where
  "new_root_path new_parent slug =
     (case new_parent of
        None \<Rightarrow> ''/'' @ slug @ ''/''
      | Some pe \<Rightarrow>
          (case e_path pe of
             None \<Rightarrow> ''/'' @ slug @ ''/''
           | Some p \<Rightarrow> if p = [] then ''/'' @ slug @ ''/'' else with_slash p @ slug @ ''/''))"

definition moved_rows :: "entity_row \<Rightarrow> entity_row option \<Rightarrow> (entity_row \<times> int) list \<Rightarrow> entity_row list" where
  "moved_rows e new_parent subtree =
     relocate (old_root_path e) (new_root_path new_parent (e_slug e)) (e_id e)
       (case new_parent of None \<Rightarrow> 0 | Some pe \<Rightarrow> e_depth pe + 1) []
       (map (\<lambda>(x, rel). (if e_id x = e_id e then x\<lparr>e_parent := map_option e_id new_parent\<rparr> else x, rel)) subtree)"

text \<open>The closure table after unlinking the subtree from its old ancestors and linking it to the new.\<close>

definition moved_closure :: "uuid option \<Rightarrow> (uuid \<times> int) list \<Rightarrow> closure_row list \<Rightarrow> closure_row list" where
  "moved_closure new_parent subtree rows =
     (let kept = filter (\<lambda>r. \<not> (cl_descendant r \<in> set (map fst subtree) \<and> cl_ancestor r \<notin> set (map fst subtree))) rows
      in kept @ (case new_parent of
           None \<Rightarrow> []
         | Some p \<Rightarrow> concat (map (\<lambda>r. map (\<lambda>(i, rel). \<lparr>cl_ancestor = cl_ancestor r, cl_descendant = i,
                                                    cl_depth = cl_depth r + 1 + rel\<rparr>) subtree)
                        (filter (\<lambda>r. cl_descendant r = p) kept))))"

definition reparent :: "entity_row \<Rightarrow> entity_row option \<Rightarrow> db \<Rightarrow> db" where
  "reparent e new_parent d =
     (let subtree = subtree_entities d (e_id e) in
      d\<lparr>tb_entities := replace_rows e_id (moved_rows e new_parent subtree) (tb_entities d),
        tb_closure := moved_closure (map_option e_id new_parent) (map (\<lambda>(x, rel). (e_id x, rel)) subtree)
          (tb_closure d)\<rparr>)"

text \<open>The roles that follow a subtree to another root.\<close>

definition role_to_reanchor :: "uuid set \<Rightarrow> uuid \<Rightarrow> role_row \<Rightarrow> bool" where
  "role_to_reanchor ids new_root r \<longleftrightarrow> in_ids ids (r_scope_entity r) \<and> r_root_entity r \<noteq> Some new_root"

definition reanchor_roles :: "uuid set \<Rightarrow> uuid \<Rightarrow> db \<Rightarrow> db" where
  "reanchor_roles ids new_root d =
     d\<lparr>tb_roles := map (\<lambda>r. if role_to_reanchor ids new_root r then r\<lparr>r_root_entity := Some new_root\<rparr> else r)
        (tb_roles d)\<rparr>"

definition carries_access_error ::
  "uuid \<Rightarrow> uuid option \<Rightarrow> uuid option \<Rightarrow> uuid option \<Rightarrow> subtree_access \<Rightarrow> err" where
  "carries_access_error i new_parent old_root new_root a =
     Auth EntityMoveCarriesAccessError
       (''This move would change the entity'' @ [CHR 0x27] @ ''s root while its subtree still carries ''
        @ ''access. Revoke or archive the subtree'' @ [CHR 0x27] @ ''s memberships, role assignments, ''
        @ ''entity API keys, integration principals and pending invitations first ''
        @ ''(accounts rooted in it cannot change tenant), then move it and re-grant ''
        @ ''access in the destination.'')
       [(''reason'', PStr ''cross_root_move_carries_access''), (''entity_id'', PStr i),
        (''new_parent_id'', opt_str new_parent), (''root_entity_id'', opt_str old_root),
        (''new_root_entity_id'', opt_str new_root), (''access'', access_dict a)]"

definition check_move :: "entity_service \<Rightarrow> entity_row \<Rightarrow> uuid option \<Rightarrow> entity_row option op" where
  "check_move sv e new_parent =
     (case new_parent of
        Some p \<Rightarrow>
          bind_op (read_db (\<lambda>d. entity_at d p)) (\<lambda>found. case found of
            None \<Rightarrow> raise_op (Auth EntityNotFoundError ''Parent entity not found'' [(''parent_id'', PStr p)])
          | Some pe \<Rightarrow>
              bind_op (read_db (\<lambda>d. is_ancestor_of d (e_id e) (e_id pe))) (\<lambda>cyclic.
              if cyclic
              then raise_op (invalid_input ''Cannot move entity under its own descendant''
                     [(''entity_id'', PStr (e_id e)), (''new_parent_id'', PStr p)])
              else bind_op (validate_hierarchy sv pe (e_class e) (e_type e)) (\<lambda>_. ret (Some pe))))
      | None \<Rightarrow> bind_op (lift_op (validate_root_entity_type sv (e_class e) (e_type e))) (\<lambda>_. ret None))"

text \<open>The old and the new root of a subtree under tenant scope, and whether they differ (or are unknown).\<close>

definition root_change :: "entity_service \<Rightarrow> db \<Rightarrow> entity_row \<Rightarrow> entity_row option \<Rightarrow> uuid option \<times> uuid option \<times> bool" where
  "root_change sv d e new_parent =
     (if \<not> tenant_scope_enforced sv then (None, None, False)
      else let old_root = resolve_root_entity_id d e;
               new_root = (case new_parent of None \<Rightarrow> Some (e_id e) | Some pe \<Rightarrow> resolve_root_entity_id d pe)
           in (old_root, new_root, old_root = None \<or> new_root = None \<or> old_root \<noteq> new_root))"

definition move_entity ::
  "entity_service \<Rightarrow> datetime \<Rightarrow> uuid \<Rightarrow> uuid option \<Rightarrow> uuid option \<Rightarrow> entity_row op" where
  "move_entity sv now i new_parent actor =
     bind_op (get_entity i) (\<lambda>e.
     if new_parent = e_parent e then ret e
     else if new_parent = Some (e_id e)
     then raise_op (invalid_input ''Entity cannot be its own parent'' [(''entity_id'', PStr i)])
     else
       bind_op (check_move sv e new_parent) (\<lambda>pe.
       bind_op (read_db (\<lambda>d. subtree_entities d (e_id e))) (\<lambda>subtree.
       if subtree = []
       then raise_op (invalid_input ''Closure table missing subtree records for entity'' [(''entity_id'', PStr i)])
       else
         (let ids = set (map (\<lambda>(x, _). e_id x) subtree) in
          bind_op (read_db (\<lambda>d. root_change sv d e pe)) (\<lambda>(old_root, new_root, changes).
          bind_op (read_db (\<lambda>d. count_subtree_access d (with_archived_descendants sv d ids))) (\<lambda>access.
          if changes \<and> carries_access access
          then raise_op (carries_access_error (e_id e) new_parent old_root new_root access)
          else
            bind_op (write_db (reparent e pe)) (\<lambda>_.
            bind_op (read_db (\<lambda>d. case new_root of
                Some r \<Rightarrow> if changes then map r_id (filter (role_to_reanchor ids r) (tb_roles d)) else []
              | None \<Rightarrow> [])) (\<lambda>reanchored.
            bind_op (when_op (reanchored \<noteq> []) (write_db (reanchor_roles ids (the new_root)))) (\<lambda>_.
            bind_op (invalidate_entity_tree_cache sv (e_id e)) (\<lambda>_.
            bind_op (read_db (\<lambda>d. case entity_at d i of Some e1 \<Rightarrow> e1 | None \<Rightarrow> e)) (\<lambda>e1.
            bind_op (invalidate_permission_cache sv (e_id e) True) (\<lambda>_.
            bind_op (record_entity_event sv now e1 ''moved'' actor
              (Some [(''parent_id'', opt_str (e_parent e)), (''path'', opt_str (e_path e))])
              (Some [(''parent_id'', opt_str new_parent), (''path'', opt_str (e_path e1))])
              ((''subtree_size'', PInt (int (card ids))) #
                (if changes then
                  [(''changes_root'', PBool True), (''previous_root_entity_id'', opt_str old_root),
                   (''reanchored_role_ids'', strs (sort reanchored))] else [])) None) (\<lambda>_.
            ret e1)))))))))))))"

section \<open>Archiving\<close>

text \<open>
  \<open>delete_entity\<close>. The services that revoke what an entity anchors are the argument \<open>hook\<close> (theory
  \<open>EntityArchive\<close> supplies the program's own). The recursion over the children follows parent pointers, so
  its depth is the argument \<open>fuel\<close>, and \<open>None\<close> means that the fuel ran out.
\<close>

definition active_children :: "db \<Rightarrow> uuid \<Rightarrow> entity_row list" where
  "active_children d i = filter (\<lambda>e. e_parent e = Some i \<and> e_status e = ''active'') (tb_entities d)"

text \<open>The default page of \<open>get_many\<close>.\<close>

definition default_limit :: nat where
  "default_limit = 100"

definition delete_closure_records :: "uuid \<Rightarrow> db \<Rightarrow> db" where
  "delete_closure_records i d =
     d\<lparr>tb_closure := filter (\<lambda>r. \<not> (cl_ancestor r = i \<or> cl_descendant r = i)) (tb_closure d)\<rparr>"

definition set_archived :: "uuid \<Rightarrow> db \<Rightarrow> db" where
  "set_archived i d =
     d\<lparr>tb_entities := map (\<lambda>e. if e_id e = i then e\<lparr>e_status := ''archived''\<rparr> else e) (tb_entities d)\<rparr>"

type_synonym archive_hook = "uuid \<Rightarrow> uuid option \<Rightarrow> string \<Rightarrow> unit op"

definition archive_entity ::
  "entity_service \<Rightarrow> archive_hook \<Rightarrow> datetime \<Rightarrow> entity_row \<Rightarrow> bool \<Rightarrow> uuid option \<Rightarrow> unit op" where
  "archive_entity sv hook now e cascade actor =
     bind_op (read_db (\<lambda>d. resolve_root_entity_id d e)) (\<lambda>known_root.
     bind_op (write_db (set_archived (e_id e))) (\<lambda>_.
     bind_op (hook (e_id e) actor (''Entity '' @ squote (e_display_name e) @ '' archived'')) (\<lambda>_.
     bind_op (record_entity_event sv now e ''archived'' actor (Some [(''status'', PStr (e_status e))])
                (Some [(''status'', PStr ''archived'')]) [(''cascade'', PBool cascade)] known_root) (\<lambda>_.
     bind_op (write_db (delete_closure_records (e_id e))) (\<lambda>_.
     invalidate_permission_cache sv (e_id e) True)))))"

fun each_child ::
  "(uuid \<Rightarrow> session_state \<Rightarrow> ((err + bool) \<times> session_state) option) \<Rightarrow> uuid list \<Rightarrow> session_state
     \<Rightarrow> ((err + unit) \<times> session_state) option" where
  "each_child f [] s = Some (Inr (), s)"
| "each_child f (i # is) s =
     (case f i s of
        None \<Rightarrow> None
      | Some (Inl e, t) \<Rightarrow> Some (Inl e, t)
      | Some (Inr _, t) \<Rightarrow> each_child f is t)"

fun delete_entity ::
  "entity_service \<Rightarrow> archive_hook \<Rightarrow> datetime \<Rightarrow> nat \<Rightarrow> bool \<Rightarrow> uuid option \<Rightarrow> uuid \<Rightarrow> session_state
     \<Rightarrow> ((err + bool) \<times> session_state) option" where
  "delete_entity sv hook now 0 cascade actor i s = None"
| "delete_entity sv hook now (Suc fuel) cascade actor i s =
     (case get_entity i s of
        (Inl e, t) \<Rightarrow> Some (Inl e, t)
      | (Inr e, t) \<Rightarrow>
          let children = active_children (ss_db t) i in
          if children \<noteq> [] \<and> \<not> cascade
          then Some (Inl (invalid_input
                 ''Cannot delete entity with children. Use cascade=True to delete all children.''
                 [(''entity_id'', PStr i), (''children_count'', PInt (int (length children)))]), t)
          else
            (case (if cascade
                   then each_child (delete_entity sv hook now fuel True actor)
                          (map e_id (take default_limit children)) t
                   else Some (Inr (), t)) of
               None \<Rightarrow> None
             | Some (Inl err, u) \<Rightarrow> Some (Inl err, u)
             | Some (Inr _, u) \<Rightarrow>
                 (let e1 = (case entity_at (ss_db u) i of None \<Rightarrow> e | Some x \<Rightarrow> x) in
                  Some (bind_op (archive_entity sv hook now e1 cascade actor) (\<lambda>_. ret True) u))))"

section \<open>Suggestions\<close>

text \<open>
  \<open>get_suggested_entity_types\<close>: the types of the active siblings, most frequent first (ties in the order
  of first appearance), with up to three examples each.
\<close>

record type_suggestion =
  ts_type :: string
  ts_count :: nat
  ts_examples :: "string list"

definition suggestion_for :: "entity_row list \<Rightarrow> string \<Rightarrow> type_suggestion" where
  "suggestion_for es t =
     (let same = filter (\<lambda>e. e_type e = t) es
      in \<lparr>ts_type = t, ts_count = length same, ts_examples = take 3 (map e_display_name same)\<rparr>)"

definition first_occurrences :: "'a list \<Rightarrow> 'a list" where
  "first_occurrences xs = rev (remdups (rev xs))"

definition siblings :: "db \<Rightarrow> uuid option \<Rightarrow> entity_class option \<Rightarrow> entity_row list" where
  "siblings d parent cls =
     take 10000 (filter (\<lambda>e. e_status e = ''active'' \<and> e_parent e = parent
       \<and> (\<forall>c \<in> set_option cls. e_class e = c)) (tb_entities d))"

definition get_suggested_entity_types ::
  "uuid option \<Rightarrow> entity_class option \<Rightarrow> (type_suggestion list \<times> entity_row option \<times> nat) op" where
  "get_suggested_entity_types parent cls =
     bind_op (read_db (\<lambda>d. siblings d parent cls)) (\<lambda>es.
     let sug = sort_key (\<lambda>s. - int (ts_count s)) (map (suggestion_for es) (first_occurrences (map e_type es))) in
     case parent of
       None \<Rightarrow> ret (sug, None, length es)
     | Some p \<Rightarrow> bind_op (get_entity p) (\<lambda>pe. ret (sug, Some pe, length es)))"

end
