(* ===== verification/EntityTreeProps.thy ===== *)
theory EntityTreeProps
  imports EntityTree
begin

text \<open>
  The invariant of the entity hierarchy and its preservation by every write of the entity service: parent
  pointers are acyclic, the closure table holds exactly the pairs of linked entities with their distance,
  no pair twice, and depths and materialized paths agree with the climb. Archived entities leave the closure
  table and keep their parent pointer, which is why the table is about the linked entities only.
\<close>

section \<open>The abstraction\<close>

definition closure_set :: "db \<Rightarrow> (uuid \<times> uuid \<times> int) set" where
  "closure_set d = (\<lambda>r. (cl_ancestor r, cl_descendant r, cl_depth r)) ` set (tb_closure d)"

definition linked_ids :: "db \<Rightarrow> uuid set" where
  "linked_ids d = {i. (i, i, 0) \<in> closure_set d}"

definition depth_at :: "db \<Rightarrow> uuid \<Rightarrow> int" where
  "depth_at d i = (case entity_at d i of None \<Rightarrow> 0 | Some e \<Rightarrow> e_depth e)"

definition path_at :: "db \<Rightarrow> uuid \<Rightarrow> string" where
  "path_at d i = (case entity_at d i of None \<Rightarrow> [] | Some e \<Rightarrow> (case e_path e of None \<Rightarrow> [] | Some p \<Rightarrow> p))"

definition slug_at :: "db \<Rightarrow> uuid \<Rightarrow> string" where
  "slug_at d i = (case entity_at d i of None \<Rightarrow> [] | Some e \<Rightarrow> e_slug e @ ''/'')"

definition slashed :: "string \<Rightarrow> bool" where
  "slashed p \<longleftrightarrow> p \<noteq> [] \<and> hd p = CHR ''/'' \<and> last p = CHR ''/''"

definition closure_pairs :: "closure_row list \<Rightarrow> (uuid \<times> uuid) list" where
  "closure_pairs rows = map (\<lambda>r. (cl_ancestor r, cl_descendant r)) rows"

definition tree_ok :: "db \<Rightarrow> bool" where
  "tree_ok d \<longleftrightarrow>
     distinct (map e_id (tb_entities d)) \<and> ran (parent_map d) \<subseteq> dom (entity_at d)
     \<and> acyclic_parents (parent_map d)"

definition table_ok :: "db \<Rightarrow> bool" where
  "table_ok d \<longleftrightarrow>
     linked_ids d \<subseteq> dom (entity_at d) \<and> closure_rel (parent_map d) (linked_ids d) (closure_set d)
     \<and> distinct (closure_pairs (tb_closure d))"

definition labels_ok :: "db \<Rightarrow> bool" where
  "labels_ok d \<longleftrightarrow>
     labelled (parent_map d) (closure_set d) (depth_at d) (path_at d) (slug_at d)
     \<and> (\<forall>i \<in> linked_ids d. slashed (path_at d i)
          \<and> (parent_map d i = None \<longrightarrow> depth_at d i = 0 \<and> path_at d i = ''/'' @ slug_at d i))"

definition hierarchy_ok :: "db \<Rightarrow> bool" where
  "hierarchy_ok d \<longleftrightarrow> tree_ok d \<and> table_ok d \<and> labels_ok d"

lemma hierarchy_okD:
  assumes "hierarchy_ok d"
  shows "distinct (map e_id (tb_entities d))" and "ran (parent_map d) \<subseteq> dom (entity_at d)"
    and "acyclic_parents (parent_map d)" and "linked_ids d \<subseteq> dom (entity_at d)"
    and "closure_rel (parent_map d) (linked_ids d) (closure_set d)"
    and "distinct (closure_pairs (tb_closure d))"
    and "labelled (parent_map d) (closure_set d) (depth_at d) (path_at d) (slug_at d)"
    and "\<And>i. i \<in> linked_ids d \<Longrightarrow> slashed (path_at d i)"
    and "\<And>i. i \<in> linked_ids d \<Longrightarrow> parent_map d i = None \<Longrightarrow> depth_at d i = 0 \<and> path_at d i = ''/'' @ slug_at d i"
  using assms by (auto simp: hierarchy_ok_def tree_ok_def table_ok_def labels_ok_def)

lemma entity_of_key: "entity_at d i = Some e \<Longrightarrow> e_id e = i"
  by (auto simp: entity_at_def dest: row_by_SomeD)

lemma entity_of_mem: "entity_at d i = Some e \<Longrightarrow> e \<in> set (tb_entities d)"
  by (auto simp: entity_at_def dest: row_by_SomeD)

lemma entity_of_iff:
  "distinct (map e_id (tb_entities d)) \<Longrightarrow> entity_at d i = Some e \<longleftrightarrow> e \<in> set (tb_entities d) \<and> e_id e = i"
  unfolding entity_at_def by (rule row_by_iff)

lemma dom_entity_of: "dom (entity_at d) = e_id ` set (tb_entities d)"
proof -
  have "entity_at d i = None \<longleftrightarrow> i \<notin> e_id ` set (tb_entities d)" for i
    unfolding entity_at_def row_by_None by auto
  then show ?thesis by (simp add: set_eq_iff domIff)
qed

lemma slashed_append: "slashed p \<Longrightarrow> slashed (p @ s @ ''/'')"
  by (auto simp: slashed_def)

lemma linked_of_table: "closure_rel P L (closure_set d) \<Longrightarrow> linked_ids d = L"
  by (auto simp: linked_ids_def closure_self)

text \<open>The invariant only reads the entities and the closure table.\<close>

lemma hierarchy_ok_cong:
  assumes "tb_entities d = tb_entities e" and "tb_closure d = tb_closure e"
  shows "hierarchy_ok d \<longleftrightarrow> hierarchy_ok e"
proof -
  have of: "entity_at d = entity_at e" by (simp add: fun_eq_iff entity_at_def assms)
  then have pm: "parent_map d = parent_map e" by (simp add: fun_eq_iff parent_map_def)
  have "closure_set d = closure_set e" by (simp add: closure_set_def assms)
  moreover have "depth_at d = depth_at e" "path_at d = path_at e" "slug_at d = slug_at e"
    by (simp_all add: fun_eq_iff depth_at_def path_at_def slug_at_def of)
  moreover have "linked_ids d = linked_ids e" by (simp add: linked_ids_def calculation(1))
  ultimately show ?thesis
    unfolding hierarchy_ok_def tree_ok_def table_ok_def labels_ok_def of pm assms by (simp only:)
qed

section \<open>A new entity\<close>

lemma row_by_append1:
  "row_by key k (xs @ [x]) =
     (case row_by key k xs of Some y \<Rightarrow> Some y | None \<Rightarrow> if key x = k then Some x else None)"
  unfolding row_by_def by (induction xs) auto

lemma insert_entity_of:
  assumes "e_id e \<notin> dom (entity_at d)"
  shows "entity_at (insert_entity e d) = (entity_at d)(e_id e \<mapsto> e)"
  using assms unfolding entity_at_def insert_entity_def
  by (auto simp: fun_eq_iff row_by_append1 split: option.splits)

lemma insert_parent_map:
  assumes "e_id e \<notin> dom (entity_at d)"
  shows "parent_map (insert_entity e d) = (parent_map d)(e_id e := e_parent e)"
  by (auto simp: fun_eq_iff parent_map_def insert_entity_of [OF assms])

abbreviation row_triple :: "closure_row \<Rightarrow> uuid \<times> uuid \<times> int" where
  "row_triple r \<equiv> (cl_ancestor r, cl_descendant r, cl_depth r)"

lemma closure_set_mem:
  "(a, b, n) \<in> closure_set d \<longleftrightarrow>
     (\<exists>r \<in> set (tb_closure d). cl_ancestor r = a \<and> cl_descendant r = b \<and> cl_depth r = n)"
  by (auto simp: closure_set_def)

lemma records_triples: "row_triple ` set (closure_records d i q) = leaf_rows i q (closure_set d)"
proof (cases q)
  case (Some p)
  have "row_triple ` set (closure_records d i q) =
      insert (i, i, 0) ((\<lambda>r. (cl_ancestor r, i, cl_depth r + 1)) ` {r \<in> set (tb_closure d). cl_descendant r = p})"
    by (simp add: closure_records_def Some image_image)
  also have "\<dots> = leaf_rows i q (closure_set d)"
    by (auto simp: leaf_rows_def Some closure_set_mem)
  finally show ?thesis .
qed (simp add: closure_records_def leaf_rows_def)

lemma insert_closure_set:
  "closure_set (insert_entity e d) = closure_set d \<union> leaf_rows (e_id e) (e_parent e) (closure_set d)"
  unfolding closure_set_def [of "insert_entity e d"]
  by (simp add: insert_entity_def image_Un records_triples) (simp add: closure_set_def)

lemma insert_closure_pairs:
  assumes dist: "distinct (closure_pairs (tb_closure d))"
    and fresh: "\<And>a b n. (a, b, n) \<in> closure_set d \<Longrightarrow> a \<noteq> i \<and> b \<noteq> i"
  shows "distinct (closure_pairs (tb_closure d @ closure_records d i parent))"
proof -
  have old: "cl_ancestor r \<noteq> i \<and> cl_descendant r \<noteq> i" if "r \<in> set (tb_closure d)" for r
    using fresh [of "cl_ancestor r" "cl_descendant r" "cl_depth r"] that by (auto simp: closure_set_mem)
  have "distinct (map cl_ancestor (filter (\<lambda>r. cl_descendant r = p) (tb_closure d)))" for p
    using dist unfolding closure_pairs_def
    by (auto simp: distinct_map inj_on_def)
  moreover have "closure_pairs (closure_records d i parent) = (i, i) # (case parent of None \<Rightarrow> []
      | Some p \<Rightarrow> map (\<lambda>a. (a, i)) (map cl_ancestor (filter (\<lambda>r. cl_descendant r = p) (tb_closure d))))"
    by (simp add: closure_pairs_def closure_records_def comp_def split: option.split)
  ultimately have "distinct (closure_pairs (closure_records d i parent))"
    using old by (auto simp: distinct_map inj_on_def simp del: map_map split: option.split)
  moreover have "set (closure_pairs (tb_closure d)) \<inter> set (closure_pairs (closure_records d i parent)) = {}"
    using old by (auto simp: closure_pairs_def closure_records_def split: option.splits)
  ultimately show ?thesis using dist by (simp add: closure_pairs_def)
qed

text \<open>The row that \<open>create_entity\<close> writes: a root, or a child of a linked entity.\<close>

definition fits_parent :: "db \<Rightarrow> entity_row \<Rightarrow> bool" where
  "fits_parent d e \<longleftrightarrow>
     (case e_parent e of
        None \<Rightarrow> e_depth e = 0 \<and> e_path e = Some (''/'' @ e_slug e @ ''/'')
      | Some p \<Rightarrow> p \<in> linked_ids d \<and> e_depth e = depth_at d p + 1
                  \<and> e_path e = Some (path_at d p @ e_slug e @ ''/''))"

lemma insert_hierarchy_ok:
  assumes ok: "hierarchy_ok d" and fresh: "e_id e \<notin> dom (entity_at d)" and fits: "fits_parent d e"
  shows "hierarchy_ok (insert_entity e d)"
proof -
  let ?i = "e_id e" and ?q = "e_parent e" and ?d = "insert_entity e d"
  note ok' = hierarchy_okD [OF ok]
  have pm: "parent_map ?d = (parent_map d)(?i := ?q)" by (rule insert_parent_map [OF fresh])
  have of: "entity_at ?d = (entity_at d)(?i \<mapsto> e)" by (rule insert_entity_of [OF fresh])
  have ran: "?i \<notin> ran (parent_map d)" using ok'(2) fresh by auto
  have unl: "?i \<notin> linked_ids d" using ok'(4) fresh by auto
  have q: "?q \<noteq> Some ?i" "set_option ?q \<subseteq> linked_ids d"
    using fits unl by (auto simp: fits_parent_def split: option.splits)
  have acy: "acyclic_parents (parent_map ?d)" unfolding pm by (rule acyclic_leaf [OF ok'(3) ran q(1)])
  have rel: "closure_rel (parent_map ?d) (insert ?i (linked_ids d)) (closure_set ?d)"
    unfolding pm insert_closure_set by (rule closure_leaf [OF ok'(5) ran unl q])
  then have L: "linked_ids ?d = insert ?i (linked_ids d)" by (rule linked_of_table)
  have "tree_ok ?d"
    unfolding tree_ok_def pm of
  proof (intro conjI)
    show "distinct (map e_id (tb_entities ?d))"
      using ok'(1) fresh by (auto simp: insert_entity_def dom_entity_of)
    show "ran ((parent_map d)(?i := ?q)) \<subseteq> dom ((entity_at d)(?i \<mapsto> e))"
      using ok'(2,4) q(2) by (auto simp: ran_def split: if_splits)
    show "acyclic_parents ((parent_map d)(?i := ?q))" using acy unfolding pm .
  qed
  moreover have "table_ok ?d"
    unfolding table_ok_def
  proof (intro conjI)
    show "linked_ids ?d \<subseteq> dom (entity_at ?d)" using ok'(4) by (auto simp: L of)
    show "closure_rel (parent_map ?d) (linked_ids ?d) (closure_set ?d)" using rel by (simp add: L)
    have "(a, b, n) \<in> closure_set d \<Longrightarrow> a \<noteq> ?i \<and> b \<noteq> ?i" for a b n
      using ok'(5) unl by (auto simp: closure_relD)
    then show "distinct (closure_pairs (tb_closure ?d))"
      using insert_closure_pairs [OF ok'(6)] by (simp add: insert_entity_def)
  qed
  moreover have "labels_ok ?d"
    unfolding labels_ok_def
  proof (intro conjI ballI)
    have same: "depth_at ?d b = depth_at d b \<and> path_at ?d b = path_at d b \<and> slug_at ?d b = slug_at d b"
      if "b \<noteq> ?i" for b
      using that by (simp add: depth_at_def path_at_def slug_at_def of)
    have new: "depth_at ?d ?i = e_depth e" "path_at ?d ?i = (case e_path e of None \<Rightarrow> [] | Some p \<Rightarrow> p)"
      "slug_at ?d ?i = e_slug e @ ''/''"
      by (simp_all add: depth_at_def path_at_def slug_at_def of)
    show "labelled (parent_map ?d) (closure_set ?d) (depth_at ?d) (path_at ?d) (slug_at ?d)"
      unfolding pm insert_closure_set
    proof (rule labelled_leaf [OF ok'(7,5) ran unl same])
      show "p \<noteq> ?i \<and> depth_at ?d ?i = depth_at d p + 1 \<and> path_at ?d ?i = path_at d p @ slug_at ?d ?i"
        if "?q = Some p" for p
        using that fits unl new by (auto simp: fits_parent_def)
    qed
    fix j assume j: "j \<in> linked_ids ?d"
    show "slashed (path_at ?d j)"
    proof (cases "j = ?i")
      case True
      then show ?thesis using fits new(2) ok'(8) slashed_append
        by (auto simp: fits_parent_def slashed_def split: option.splits)
    next
      case False
      then show ?thesis using j ok'(8) same by (simp add: L)
    qed
    show "parent_map ?d j = None \<longrightarrow> depth_at ?d j = 0 \<and> path_at ?d j = ''/'' @ slug_at ?d j"
    proof (cases "j = ?i")
      case True
      then show ?thesis using fits new pm by (auto simp: fits_parent_def)
    next
      case False
      then show ?thesis using j ok'(9) [of j] same pm by (simp add: L)
    qed
  qed
  ultimately show ?thesis by (simp add: hierarchy_ok_def)
qed

section \<open>Archiving and updating\<close>

text \<open>A change of columns that the invariant does not read.\<close>

definition keeps_place :: "(entity_row \<Rightarrow> entity_row) \<Rightarrow> bool" where
  "keeps_place f \<longleftrightarrow> (\<forall>e. e_id (f e) = e_id e \<and> e_parent (f e) = e_parent e \<and> e_depth (f e) = e_depth e
     \<and> e_path (f e) = e_path e \<and> e_slug (f e) = e_slug e)"

lemma row_by_map:
  assumes "\<And>x. key (f x) = key x"
  shows "row_by key k (map f xs) = map_option f (row_by key k xs)"
  unfolding row_by_def by (induction xs) (auto simp: assms)

lemma place_views:
  fixes d :: db
  assumes "keeps_place f"
  defines "d' \<equiv> d\<lparr>tb_entities := map f (tb_entities d)\<rparr>"
  shows "entity_at d' i = map_option f (entity_at d i)" and "parent_map d' = parent_map d"
    and "depth_at d' = depth_at d" and "path_at d' = path_at d" and "slug_at d' = slug_at d"
    and "closure_set d' = closure_set d" and "linked_ids d' = linked_ids d"
    and "dom (entity_at d') = dom (entity_at d)"
proof -
  have of: "entity_at d' j = map_option f (entity_at d j)" for j
    using assms by (simp add: d'_def entity_at_def row_by_map keeps_place_def)
  then show "entity_at d' i = map_option f (entity_at d i)" .
  show "parent_map d' = parent_map d" "depth_at d' = depth_at d" "path_at d' = path_at d" "slug_at d' = slug_at d"
    using assms(1) by (auto simp: fun_eq_iff parent_map_def depth_at_def path_at_def slug_at_def of keeps_place_def
        split: option.splits)
  show cs: "closure_set d' = closure_set d" by (simp add: closure_set_def d'_def)
  then show "linked_ids d' = linked_ids d" by (simp add: linked_ids_def)
  show "dom (entity_at d') = dom (entity_at d)" by (simp add: set_eq_iff domIff of)
qed

lemma place_hierarchy_ok:
  assumes ok: "hierarchy_ok d" and f: "keeps_place f"
  shows "hierarchy_ok (d\<lparr>tb_entities := map f (tb_entities d)\<rparr>)"
proof -
  have "(\<lambda>x. e_id (f x)) = e_id"
    using f by (simp add: keeps_place_def fun_eq_iff)
  then show ?thesis
    using ok unfolding hierarchy_ok_def tree_ok_def table_ok_def labels_ok_def place_views [OF f]
    by (simp add: comp_def)
qed

lemma unlink_closure_set:
  "closure_set (delete_closure_records i d) = {(a, b, n). (a, b, n) \<in> closure_set d \<and> a \<noteq> i \<and> b \<noteq> i}"
  by (auto simp: closure_set_def delete_closure_records_def)

lemma unlink_hierarchy_ok:
  assumes ok: "hierarchy_ok d"
  shows "hierarchy_ok (delete_closure_records i d)" and "linked_ids (delete_closure_records i d) = linked_ids d - {i}"
proof -
  let ?d = "delete_closure_records i d"
  note ok' = hierarchy_okD [OF ok]
  have of: "entity_at ?d = entity_at d" by (simp add: fun_eq_iff entity_at_def delete_closure_records_def)
  then have views: "parent_map ?d = parent_map d" "depth_at ?d = depth_at d" "path_at ?d = path_at d" "slug_at ?d = slug_at d"
    by (simp_all add: fun_eq_iff parent_map_def depth_at_def path_at_def slug_at_def)
  have rel: "closure_rel (parent_map d) (linked_ids d - {i}) (closure_set ?d)"
    unfolding unlink_closure_set by (rule closure_unlink [OF ok'(5)])
  then show L: "linked_ids ?d = linked_ids d - {i}" by (rule linked_of_table)
  have "tree_ok ?d" using ok'(1-3) unfolding tree_ok_def views of by (simp add: delete_closure_records_def)
  moreover have "table_ok ?d"
    using ok'(4) rel ok'(6) unfolding table_ok_def views of L
    by (auto simp: delete_closure_records_def closure_pairs_def distinct_map inj_on_def)
  moreover have "closure_set ?d \<subseteq> closure_set d" by (auto simp: unlink_closure_set)
  then have "labels_ok ?d"
    using ok'(8,9) labelled_subset [OF ok'(7)] unfolding labels_ok_def views L by auto
  ultimately show "hierarchy_ok ?d" by (simp add: hierarchy_ok_def)
qed

lemma keeps_place_archive: "keeps_place (\<lambda>e. if e_id e = i then e\<lparr>e_status := s\<rparr> else e)"
  by (simp add: keeps_place_def)

lemma set_archived_ok: "hierarchy_ok d \<Longrightarrow> hierarchy_ok (set_archived i d)"
  unfolding set_archived_def by (rule place_hierarchy_ok [OF _ keeps_place_archive])

lemma update_place:
  assumes "entity_at d i = Some e" and "distinct (map e_id (tb_entities d))"
  shows "set_row e_id (apply_entity_update u e) (tb_entities d) =
    map (\<lambda>x. if e_id x = i then apply_entity_update u x else x) (tb_entities d)"
  using assms entity_of_key [OF assms(1)] entity_of_iff [OF assms(2), of i]
  by (auto simp: set_row_def apply_entity_update_def distinct_map inj_on_def)

lemma update_hierarchy_ok:
  assumes ok: "hierarchy_ok d" and e: "entity_at d i = Some e"
  shows "hierarchy_ok (d\<lparr>tb_entities := set_row e_id (apply_entity_update u e) (tb_entities d)\<rparr>)"
  unfolding update_place [OF e hierarchy_okD(1) [OF ok]]
  by (rule place_hierarchy_ok [OF ok]) (simp add: keeps_place_def apply_entity_update_def)

section \<open>Moving a subtree\<close>

lemma relocate_prefix:
  assumes "q \<noteq> []" and "\<forall>(x, rel) \<in> set rows. \<exists>t. e_path x = Some (q @ t)"
  shows "relocate (Some q) new apex base finished rows =
    finished @ map (\<lambda>(x, rel). x\<lparr>e_depth := base + rel,
                       e_path := Some (new @ drop (length q) (the (e_path x)))\<rparr>) rows"
  using assms(2)
proof (induction rows arbitrary: finished)
  case (Cons y rows)
  obtain x rel where y: "y = (x, rel)" by (cases y)
  with Cons.prems obtain t where "e_path x = Some (q @ t)" by auto
  then have "moved_path (Some q) new apex seen x = new @ drop (length q) (the (e_path x))" for seen
    using assms(1) by (simp add: moved_path_def py_startswith_def)
  with Cons y show ?case by simp
qed simp

lemma py_strip_slashed: "slashed p \<Longrightarrow> py_strip p = p"
  by (rule py_strip_id) (simp add: slashed_def is_space_def in_range_def code_of_def)

lemma with_slash_slashed: "slashed p \<Longrightarrow> with_slash p = p"
  by (auto simp: with_slash_def slashed_def py_endswith_def py_startswith_def rev_swap [symmetric])
    (metis append_butlast_last_id rev.simps(2) rev_rev_ident take_Suc_Cons take0 rev_append append_Cons append_Nil)

lemma map_filter_total:
  assumes "\<And>x. x \<in> set xs \<Longrightarrow> f x = Some (g x)"
  shows "List.map_filter f xs = map g xs"
  using assms by (induction xs) (auto simp: List.map_filter_simps)

text \<open>The subtree of a linked entity, as the closure table gives it.\<close>

lemma subtree_entities_eq:
  assumes "linked_ids d \<subseteq> dom (entity_at d)" and "closure_rel (parent_map d) (linked_ids d) (closure_set d)"
  shows "subtree_entities d i =
    map (\<lambda>r. (the (entity_at d (cl_descendant r)), cl_depth r)) (subtree_rows d i)"
  unfolding subtree_entities_def
proof (rule map_filter_total)
  fix r assume "r \<in> set (subtree_rows d i)"
  then have "(i, cl_descendant r, cl_depth r) \<in> closure_set d"
    by (auto simp: subtree_rows_def closure_set_mem)
  then have "cl_descendant r \<in> linked_ids d" using assms(2) by (simp add: closure_relD)
  with assms(1) obtain e where "entity_at d (cl_descendant r) = Some e" by blast
  then show "map_option (\<lambda>e. (e, cl_depth r)) (entity_at d (cl_descendant r)) =
      Some (the (entity_at d (cl_descendant r)), cl_depth r)" by simp
qed

lemma subtree_mem:
  assumes "hierarchy_ok d"
  shows "(x, m) \<in> set (subtree_entities d i) \<longleftrightarrow> (i, e_id x, m) \<in> closure_set d \<and> entity_at d (e_id x) = Some x"
proof -
  note ok' = hierarchy_okD [OF assms]
  have found: "\<exists>y. entity_at d b = Some y \<and> e_id y = b" if "(i, b, n) \<in> closure_set d" for b n
    using that ok'(4,5) entity_of_key by (fastforce simp: closure_relD)
  have "(x, m) \<in> set (subtree_entities d i) \<longleftrightarrow>
      (\<exists>b. (i, b, m) \<in> closure_set d \<and> x = the (entity_at d b))"
    unfolding subtree_entities_eq [OF ok'(4,5)] by (auto simp: subtree_rows_def closure_set_mem)
  also have "\<dots> \<longleftrightarrow> (i, e_id x, m) \<in> closure_set d \<and> entity_at d (e_id x) = Some x"
    using found by (metis option.sel)
  finally show ?thesis .
qed

lemma subtree_ids:
  assumes "hierarchy_ok d"
  shows "(b, m) \<in> set (map (\<lambda>(x, rel). (e_id x, rel)) (subtree_entities d i)) \<longleftrightarrow> (i, b, m) \<in> closure_set d"
proof -
  note ok' = hierarchy_okD [OF assms]
  have "\<exists>y. entity_at d b = Some y \<and> e_id y = b" if "(i, b, m) \<in> closure_set d"
    using that ok'(4,5) entity_of_key by (fastforce simp: closure_relD)
  then show ?thesis using subtree_mem [OF assms, of _ _ i] by force
qed

lemma subtree_distinct:
  assumes "hierarchy_ok d"
  shows "distinct (map (\<lambda>(x, rel). e_id x) (subtree_entities d i))"
proof -
  note ok' = hierarchy_okD [OF assms]
  have "map (\<lambda>(x, rel). e_id x) (subtree_entities d i) = map cl_descendant (subtree_rows d i)"
  proof -
    have "e_id (the (entity_at d (cl_descendant r))) = cl_descendant r" if "r \<in> set (subtree_rows d i)" for r
    proof -
      have "(i, cl_descendant r, cl_depth r) \<in> closure_set d"
        using that by (auto simp: subtree_rows_def closure_set_mem)
      then have "cl_descendant r \<in> linked_ids d" using ok'(5) by (simp add: closure_relD)
      with ok'(4) obtain e where "entity_at d (cl_descendant r) = Some e" by blast
      then show ?thesis using entity_of_key by simp
    qed
    then show ?thesis unfolding subtree_entities_eq [OF ok'(4,5)] by (simp add: comp_def)
  qed
  moreover have "distinct (map cl_descendant (subtree_rows d i))"
    using ok'(6) unfolding subtree_rows_def closure_pairs_def
    by (auto simp: distinct_map inj_on_def)
  ultimately show ?thesis by simp
qed

definition move_row :: "entity_row \<Rightarrow> entity_row option \<Rightarrow> entity_row \<Rightarrow> int \<Rightarrow> entity_row" where
  "move_row e new_parent x rel =
     (if e_id x = e_id e then x\<lparr>e_parent := map_option e_id new_parent\<rparr> else x)
       \<lparr>e_depth := (case new_parent of None \<Rightarrow> 0 | Some pe \<Rightarrow> e_depth pe + 1) + rel,
         e_path := Some (new_root_path new_parent (e_slug e) @ drop (length (the (e_path e))) (the (e_path x)))\<rparr>"

lemma move_row_fields [simp]:
  "e_id (move_row e pe x rel) = e_id x" "e_slug (move_row e pe x rel) = e_slug x"
  "e_parent (move_row e pe x rel) = (if e_id x = e_id e then map_option e_id pe else e_parent x)"
  "e_depth (move_row e pe x rel) = (case pe of None \<Rightarrow> 0 | Some p \<Rightarrow> e_depth p + 1) + rel"
  "e_path (move_row e pe x rel) =
     Some (new_root_path pe (e_slug e) @ drop (length (the (e_path e))) (the (e_path x)))"
  by (simp_all add: move_row_def)

lemma linked_path:
  assumes "hierarchy_ok d" and "i \<in> linked_ids d" and "entity_at d i = Some e"
  shows "e_path e = Some (path_at d i)" and "slashed (path_at d i)"
  using hierarchy_okD(8) [OF assms(1,2)] assms(3)
  by (auto simp: path_at_def slashed_def split: option.splits)

lemma subtree_path:
  assumes ok: "hierarchy_ok d" and e: "entity_at d i = Some e" and m: "(i, e_id x, m) \<in> closure_set d"
    and x: "entity_at d (e_id x) = Some x"
  shows "e_path x = Some (path_at d i @ trail (parent_map d) (slug_at d) (nat m) (e_id x))"
proof -
  note ok' = hierarchy_okD [OF ok]
  have "e_id x \<in> linked_ids d" using m ok'(5) by (simp add: closure_relD)
  then have "e_path x = Some (path_at d (e_id x))" by (rule linked_path [OF ok _ x])
  then show ?thesis using labelledD [OF ok'(7) m] by simp
qed

lemma moved_rows_eq:
  assumes ok: "hierarchy_ok d" and e: "entity_at d i = Some e" and i: "i \<in> linked_ids d"
  shows "moved_rows e pe (subtree_entities d i) = map (\<lambda>(x, rel). move_row e pe x rel) (subtree_entities d i)"
proof -
  have path: "e_path e = Some (path_at d i)" and sl: "slashed (path_at d i)"
    using linked_path [OF ok i e] by auto
  have old: "old_root_path e = Some (path_at d i)"
    using sl by (simp only: old_root_path_def path option.case py_strip_slashed with_slash_slashed Let_def)
      (simp add: slashed_def)
  let ?re = "\<lambda>(x, rel). (if e_id x = e_id e then x\<lparr>e_parent := map_option e_id pe\<rparr> else x, rel :: int)"
  have "\<forall>(x, rel) \<in> set (map ?re (subtree_entities d i)). \<exists>t. e_path x = Some (path_at d i @ t)"
    using subtree_path [OF ok e] by (auto simp: subtree_mem [OF ok])
  then have "moved_rows e pe (subtree_entities d i) =
      map (\<lambda>(x, rel). x\<lparr>e_depth := (case pe of None \<Rightarrow> 0 | Some p \<Rightarrow> e_depth p + 1) + rel,
        e_path := Some (new_root_path pe (e_slug e) @ drop (length (path_at d i)) (the (e_path x)))\<rparr>)
        (map ?re (subtree_entities d i))"
    unfolding moved_rows_def old using sl by (subst relocate_prefix) (simp_all add: slashed_def)
  then show ?thesis by (simp add: move_row_def path case_prod_beta' comp_def)
qed

lemma row_by_replace:
  "row_by key k (replace_rows key new rows) =
     map_option (\<lambda>y. case row_by key k new of None \<Rightarrow> y | Some x \<Rightarrow> x) (row_by key k rows)"
proof -
  let ?f = "\<lambda>y. case row_by key (key y) new of None \<Rightarrow> y | Some x \<Rightarrow> x"
  have "key (?f y) = key y" for y by (auto dest: row_by_SomeD split: option.split)
  then have "row_by key k (map ?f rows) = map_option ?f (row_by key k rows)" by (rule row_by_map)
  also have "\<dots> = map_option (\<lambda>y. case row_by key k new of None \<Rightarrow> y | Some x \<Rightarrow> x) (row_by key k rows)"
    by (cases "row_by key k rows") (auto dest!: row_by_SomeD)
  finally show ?thesis by (simp add: replace_rows_def)
qed

lemma reparent_entity_of:
  assumes ok: "hierarchy_ok d" and e: "entity_at d i = Some e" and i: "i \<in> linked_ids d"
  shows "(i, j, m) \<in> closure_set d \<Longrightarrow> entity_at d j = Some x
           \<Longrightarrow> entity_at (reparent e pe d) j = Some (move_row e pe x m)"
    and "(\<nexists>m. (i, j, m) \<in> closure_set d) \<Longrightarrow> entity_at (reparent e pe d) j = entity_at d j"
proof -
  let ?rows = "map (\<lambda>(x, rel). move_row e pe x rel) (subtree_entities d i)"
  have key: "e_id e = i" by (rule entity_of_key [OF e])
  have dist: "distinct (map e_id ?rows)"
    using subtree_distinct [OF ok, of i] by (simp add: comp_def case_prod_beta')
  have of: "entity_at (reparent e pe d) j =
      map_option (\<lambda>y. case row_by e_id j ?rows of None \<Rightarrow> y | Some z \<Rightarrow> z) (entity_at d j)"
    by (simp add: reparent_def entity_at_def key moved_rows_eq [OF ok e i] row_by_replace Let_def)
  show "entity_at (reparent e pe d) j = Some (move_row e pe x m)"
    if m: "(i, j, m) \<in> closure_set d" and x: "entity_at d j = Some x"
  proof -
    have "(x, m) \<in> set (subtree_entities d i)"
      using m x entity_of_key [OF x] by (simp add: subtree_mem [OF ok])
    then have "row_by e_id j ?rows = Some (move_row e pe x m)"
      unfolding row_by_iff [OF dist] using entity_of_key [OF x] by force
    then show ?thesis by (simp add: of x)
  qed
  show "entity_at (reparent e pe d) j = entity_at d j" if "\<nexists>m. (i, j, m) \<in> closure_set d"
  proof -
    have "row_by e_id j ?rows = None"
      unfolding row_by_None using that by (auto simp: subtree_mem [OF ok])
    then show ?thesis by (simp add: of option.map_ident)
  qed
qed

lemma link_triples:
  "(a, b, n) \<in> row_triple ` set (concat (map (\<lambda>r. map (\<lambda>(b, rel). \<lparr>cl_ancestor = cl_ancestor r,
        cl_descendant = b, cl_depth = cl_depth r + 1 + rel\<rparr>) sub) rows))
     \<longleftrightarrow> (\<exists>r \<in> set rows. \<exists>rel. (b, rel) \<in> set sub \<and> a = cl_ancestor r \<and> n = cl_depth r + 1 + rel)"
proof -
  have "row_triple ` set (concat (map (\<lambda>r. map (\<lambda>(b, rel). \<lparr>cl_ancestor = cl_ancestor r,
        cl_descendant = b, cl_depth = cl_depth r + 1 + rel\<rparr>) sub) rows))
      = (\<Union>r \<in> set rows. (\<lambda>(b, rel). (cl_ancestor r, b, cl_depth r + 1 + rel)) ` set sub)"
    by (simp add: image_UN image_image case_prod_beta')
  then show ?thesis by auto
qed

lemma reparent_closure:
  "tb_closure (reparent e pe d) =
     moved_closure (map_option e_id pe) (map (\<lambda>(x, rel). (e_id x, rel)) (subtree_entities d (e_id e))) (tb_closure d)"
  by (simp add: reparent_def Let_def)

lemma reparent_closure_set:
  assumes ok: "hierarchy_ok d" and key: "e_id e = i" and i: "i \<in> linked_ids d"
    and clear: "clear_of (parent_map d) i (map_option e_id pe)"
  shows "closure_set (reparent e pe d) = moved_table i (map_option e_id pe) (closure_set d)"
proof -
  note ok' = hierarchy_okD [OF ok]
  let ?sub = "map (\<lambda>(x, rel). (e_id x, rel)) (subtree_entities d i)"
  let ?S = "set (map fst ?sub)"
  let ?kept = "filter (\<lambda>r. \<not> (cl_descendant r \<in> ?S \<and> cl_ancestor r \<notin> ?S)) (tb_closure d)"
  have S: "b \<in> ?S \<longleftrightarrow> (\<exists>m. (i, b, m) \<in> closure_set d)" for b
    using subtree_ids [OF ok, of b _ i] by (force simp: image_iff)
  have kept: "row_triple ` set ?kept =
      {(a, b, n). (a, b, n) \<in> closure_set d \<and> \<not> ((\<exists>m. (i, b, m) \<in> closure_set d) \<and> (\<nexists>m. (i, a, m) \<in> closure_set d))}"
    unfolding S by (auto simp: closure_set_def)
  have anc: "r \<in> set ?kept \<and> cl_descendant r = p \<longleftrightarrow> r \<in> set (tb_closure d) \<and> cl_descendant r = p"
    if "map_option e_id pe = Some p" for r p
  proof -
    have "p \<notin> ?S"
      using that clear closure_below [OF ok'(5) i] unfolding S by (auto simp: clear_of_def)
    then show ?thesis by auto
  qed
  have new: "row_triple ` set (concat (map (\<lambda>r. map (\<lambda>(b, rel). \<lparr>cl_ancestor = cl_ancestor r, cl_descendant = b,
        cl_depth = cl_depth r + 1 + rel\<rparr>) ?sub) (filter (\<lambda>r. cl_descendant r = p) ?kept)))
      = {(a, b, n + 1 + m) | a b n m. (a, p, n) \<in> closure_set d \<and> (i, b, m) \<in> closure_set d}" (is "?lhs = ?rhs")
    if p: "map_option e_id pe = Some p" for p
  proof -
    have *: "(a, b, n) \<in> ?lhs \<longleftrightarrow> (a, b, n) \<in> ?rhs" for a b n
      unfolding link_triples subtree_ids [OF ok] using anc [OF p]
      by (auto simp: closure_set_mem [of _ p])
    show ?thesis
    proof (rule set_eqI)
      fix t show "t \<in> ?lhs \<longleftrightarrow> t \<in> ?rhs" by (cases t) (simp only: *)
    qed
  qed
  show ?thesis
  proof (cases "map_option e_id pe")
    case None
    have "closure_set (reparent e pe d) = row_triple ` set ?kept"
      by (simp only: closure_set_def reparent_closure moved_closure_def Let_def key None option.case append_Nil2)
    then show ?thesis unfolding kept moved_table_def None by simp
  next
    case (Some p)
    have "closure_set (reparent e pe d) = row_triple ` set ?kept \<union>
        row_triple ` set (concat (map (\<lambda>r. map (\<lambda>(b, rel). \<lparr>cl_ancestor = cl_ancestor r, cl_descendant = b,
        cl_depth = cl_depth r + 1 + rel\<rparr>) ?sub) (filter (\<lambda>r. cl_descendant r = p) ?kept)))"
      by (simp only: closure_set_def reparent_closure moved_closure_def Let_def key Some option.case
          set_append image_Un)
    then show ?thesis unfolding kept new [OF Some] moved_table_def Some by simp
  qed
qed

lemma reparent_pairs:
  assumes ok: "hierarchy_ok d" and key: "e_id e = i" and i: "i \<in> linked_ids d"
    and clear: "clear_of (parent_map d) i (map_option e_id pe)"
  shows "distinct (closure_pairs (tb_closure (reparent e pe d)))"
proof -
  note ok' = hierarchy_okD [OF ok]
  let ?sub = "map (\<lambda>(x, rel). (e_id x, rel)) (subtree_entities d i)"
  let ?S = "set (map fst ?sub)"
  let ?kept = "filter (\<lambda>r. \<not> (cl_descendant r \<in> ?S \<and> cl_ancestor r \<notin> ?S)) (tb_closure d)"
  let ?link = "\<lambda>p. concat (map (\<lambda>r. map (\<lambda>(b, rel). \<lparr>cl_ancestor = cl_ancestor r, cl_descendant = b,
      cl_depth = cl_depth r + 1 + rel\<rparr>) ?sub) (filter (\<lambda>r. cl_descendant r = p) ?kept))"
  have S: "b \<in> ?S \<longleftrightarrow> b \<in> linked_ids d \<and> b \<in> below (parent_map d) i" for b
  proof -
    have "b \<in> ?S \<longleftrightarrow> (\<exists>m. (i, b, m) \<in> closure_set d)"
      using subtree_ids [OF ok, of b _ i] by (force simp: image_iff)
    then show ?thesis using closure_below [OF ok'(5) i, of b] by (simp only:)
  qed
  have dist: "distinct (closure_pairs (filter P (tb_closure d)))" for P
    using ok'(6) by (auto simp: closure_pairs_def distinct_map inj_on_def)
  have subd: "distinct (map fst ?sub)"
    using subtree_distinct [OF ok, of i] by (simp add: comp_def case_prod_beta')
  show ?thesis
  proof (cases "map_option e_id pe")
    case None
    then show ?thesis
      by (simp only: reparent_closure moved_closure_def Let_def key option.case append_Nil2 dist)
  next
    case (Some p)
    have out: "cl_ancestor r \<notin> ?S" if "r \<in> set ?kept" "cl_descendant r = p" for r
    proof -
      have "(cl_ancestor r, p, cl_depth r) \<in> closure_set d" using that by (auto simp: closure_set_mem)
      then have "up (parent_map d) (nat (cl_depth r)) p = Some (cl_ancestor r)" using ok'(5) by (simp add: closure_relD)
      moreover have "p \<notin> below (parent_map d) i" using clear Some by (auto simp: clear_of_def)
      ultimately show ?thesis unfolding S using up_reparent_outside by fast
    qed
    have pairs: "closure_pairs (?link p) =
        List.product (map cl_ancestor (filter (\<lambda>r. cl_descendant r = p) ?kept)) (map fst ?sub)"
      unfolding closure_pairs_def product_concat_map
      by (simp add: map_concat comp_def case_prod_beta')
    have "distinct (map cl_ancestor (filter (\<lambda>r. cl_descendant r = p) ?kept))"
      using ok'(6) by (auto simp: closure_pairs_def distinct_map inj_on_def)
    then have "distinct (closure_pairs (?link p))"
      unfolding pairs using subd by (rule distinct_product)
    moreover have "set (closure_pairs ?kept) \<inter> set (closure_pairs (?link p)) = {}"
    proof -
      have "b \<in> ?S \<and> a \<notin> ?S" if "(a, b) \<in> set (closure_pairs (?link p))" for a b
      proof -
        from that have a: "a \<in> set (map cl_ancestor (filter (\<lambda>r. cl_descendant r = p) ?kept))" and b: "b \<in> ?S"
          unfolding pairs set_product by (simp_all only: mem_Sigma_iff)
        from a obtain r where "r \<in> set ?kept" "cl_descendant r = p" "a = cl_ancestor r"
          unfolding set_map [of cl_ancestor] set_filter [of "\<lambda>r. cl_descendant r = p"] by blast
        with b out show ?thesis by blast
      qed
      moreover have "\<not> (b \<in> ?S \<and> a \<notin> ?S)" if "(a, b) \<in> set (closure_pairs ?kept)" for a b
        using that by (auto simp: closure_pairs_def)
      ultimately show ?thesis by fast
    qed
    moreover have "tb_closure (reparent e pe d) = ?kept @ ?link p"
      by (simp only: reparent_closure moved_closure_def Let_def key Some option.case)
    ultimately show ?thesis using dist by (simp add: closure_pairs_def)
  qed
qed

text \<open>Moving a linked entity to the root level or under a linked entity outside its own subtree.\<close>

lemma reparent_hierarchy_ok:
  assumes ok: "hierarchy_ok d" and e: "entity_at d i = Some e" and i: "i \<in> linked_ids d"
    and pe: "\<And>p. pe = Some p \<Longrightarrow> entity_at d (e_id p) = Some p \<and> e_id p \<in> linked_ids d"
    and clear: "clear_of (parent_map d) i (map_option e_id pe)"
  shows "hierarchy_ok (reparent e pe d)" and "linked_ids (reparent e pe d) = linked_ids d"
    and "parent_map (reparent e pe d) = (parent_map d)(i := map_option e_id pe)"
    and "dom (entity_at (reparent e pe d)) = dom (entity_at d)"
proof -
  let ?d = "reparent e pe d" and ?q = "map_option e_id pe"
  note ok' = hierarchy_okD [OF ok]
  have key: "e_id e = i" by (rule entity_of_key [OF e])
  note of = reparent_entity_of [OF ok e i, where pe = pe]
  have q: "set_option ?q \<subseteq> linked_ids d" using pe by (auto simp: option.set_map)
  have self: "(i, i, 0) \<in> closure_set d" using i by (simp add: linked_ids_def)
  have found: "\<exists>x. entity_at d b = Some x" if "(i, b, m) \<in> closure_set d" for b m
    using that ok'(4,5) by (fastforce simp: closure_relD)
  have none: "entity_at ?d j = None \<longleftrightarrow> entity_at d j = None" for j
  proof (cases "\<exists>m. (i, j, m) \<in> closure_set d")
    case True
    then obtain m x where "(i, j, m) \<in> closure_set d" "entity_at d j = Some x" using found by blast
    then show ?thesis using of(1) by simp
  qed (simp add: of(2))
  then show dom: "dom (entity_at ?d) = dom (entity_at d)" by (simp add: set_eq_iff domIff)
  show pm: "parent_map ?d = (parent_map d)(i := ?q)"
  proof
    fix j
    show "parent_map ?d j = ((parent_map d)(i := ?q)) j"
    proof (cases "\<exists>m. (i, j, m) \<in> closure_set d")
      case True
      then obtain m x where "(i, j, m) \<in> closure_set d" "entity_at d j = Some x" using found by blast
      then show ?thesis using of(1) entity_of_key [of d j x] key by (simp add: parent_map_def)
    next
      case False
      then have "j \<noteq> i" using self by auto
      with False of(2) show ?thesis by (simp add: parent_map_def)
    qed
  qed
  have rel: "closure_rel (parent_map ?d) (linked_ids d) (closure_set ?d)"
    unfolding pm reparent_closure_set [OF ok key i clear] by (rule closure_reparent [OF ok'(3,5) i clear q])
  then show L: "linked_ids ?d = linked_ids d" by (rule linked_of_table)
  have "tree_ok ?d"
    unfolding tree_ok_def dom pm
  proof (intro conjI)
    have "map e_id (replace_rows e_id new rows) = map e_id rows" for new rows :: "entity_row list"
      by (auto simp: replace_rows_def dest: row_by_SomeD split: option.split)
    then show "distinct (map e_id (tb_entities ?d))" using ok'(1) by (simp add: reparent_def Let_def)
    show "ran ((parent_map d)(i := ?q)) \<subseteq> dom (entity_at d)"
      using ok'(2,4) q by (auto simp: ran_def split: if_splits)
    show "acyclic_parents ((parent_map d)(i := ?q))" by (rule acyclic_reparent [OF ok'(3) clear])
  qed
  moreover have "table_ok ?d"
    unfolding table_ok_def dom L using ok'(4) rel reparent_pairs [OF ok key i clear] by blast
  moreover have "labels_ok ?d"
  proof -
    let ?new = "new_root_path pe (e_slug e)" and ?base = "case pe of None \<Rightarrow> 0 | Some p \<Rightarrow> e_depth p + 1"
    have slug: "slug_at ?d = slug_at d"
    proof
      fix j show "slug_at ?d j = slug_at d j"
      proof (cases "\<exists>m. (i, j, m) \<in> closure_set d")
        case True
        then obtain m x where "(i, j, m) \<in> closure_set d" "entity_at d j = Some x" using found by blast
        then show ?thesis using of(1) by (simp add: slug_at_def)
      qed (simp add: of(2) slug_at_def)
    qed
    have sub: "depth_at ?d b = ?base + m
        \<and> path_at ?d b = ?new @ trail (parent_map d) (slug_at d) (nat m) b" if m: "(i, b, m) \<in> closure_set d" for b m
    proof -
      obtain x where x: "entity_at d b = Some x" using found [OF m] by blast
      have b: "e_id x = b" by (rule entity_of_key [OF x])
      have "e_path x = Some (path_at d i @ trail (parent_map d) (slug_at d) (nat m) b)"
        using subtree_path [OF ok e, of x m] m x b by simp
      then show ?thesis
        using of(1) [OF m x] linked_path(1) [OF ok i e] by (simp add: depth_at_def path_at_def)
    qed
    have out: "depth_at ?d b = depth_at d b \<and> path_at ?d b = path_at d b" if "\<nexists>m. (i, b, m) \<in> closure_set d" for b
      using of(2) [OF that] by (simp add: depth_at_def path_at_def)
    have up: "?base = depth_at d p + 1 \<and> ?new = path_at d p @ slug_at d i \<and> slashed (path_at d p)" if "?q = Some p" for p
    proof -
      from \<open>?q = Some p\<close> obtain x where x: "pe = Some x" "e_id x = p" by auto
      then have ox: "entity_at d p = Some x" and lx: "p \<in> linked_ids d" using pe by auto
      have "e_path x = Some (path_at d p)" "slashed (path_at d p)" using linked_path [OF ok lx ox] by auto
      then show ?thesis using x ox e
        by (auto simp: depth_at_def slug_at_def new_root_path_def with_slash_slashed slashed_def)
    qed
    have lab: "labelled (parent_map ?d) (closure_set ?d) (depth_at ?d) (path_at ?d) (slug_at ?d)"
      unfolding pm slug reparent_closure_set [OF ok key i clear]
    proof (rule labelled_reparent [OF ok'(7,5,3) i clear sub out])
      show "?base = depth_at d p + 1 \<and> ?new = path_at d p @ slug_at d i" if "?q = Some p" for p
        using up [OF that] by simp
    qed
    have new: "slashed ?new"
    proof (cases pe)
      case (Some p)
      then show ?thesis using up [of "e_id p"] slashed_append e by (simp add: slug_at_def)
    qed (simp add: new_root_path_def slashed_def)
    have path: "slashed (path_at ?d j)" if j: "j \<in> linked_ids d" for j
    proof (cases "\<exists>m. (i, j, m) \<in> closure_set d")
      case True
      then obtain m where m: "(i, j, m) \<in> closure_set d" ..
      have "trail (parent_map d) (slug_at d) n j = [] \<or> last (trail (parent_map d) (slug_at d) n j) = CHR ''/''" for n
        by (cases n) (auto simp: slug_at_def parent_map_def split: option.split)
      then show ?thesis using sub [OF m] new
        by (cases "trail (parent_map d) (slug_at d) (nat m) j = []") (auto simp: slashed_def)
    next
      case False
      then show ?thesis using out ok'(8) [OF j] by simp
    qed
    have root: "depth_at ?d j = 0 \<and> path_at ?d j = ''/'' @ slug_at d j"
      if j: "j \<in> linked_ids d" and top: "((parent_map d)(i := ?q)) j = None" for j
    proof (cases "j = i")
      case True
      then have "pe = None" using top by simp
      then show ?thesis using sub [OF self] True e by (simp add: new_root_path_def slug_at_def)
    next
      case False
      then have pj: "parent_map d j = None" using top by simp
      then have "\<nexists>m. (i, j, m) \<in> closure_set d"
      proof -
        have "up (parent_map d) n j \<noteq> Some i" for n
          using pj False by (cases n) auto
        then show ?thesis using ok'(5) by (simp add: closure_relD)
      qed
      then show ?thesis using out ok'(9) [OF j pj] by simp
    qed
    show ?thesis
      unfolding labels_ok_def L using lab path root pm slug by metis
  qed
  ultimately show "hierarchy_ok ?d" by (simp add: hierarchy_ok_def)
qed

section \<open>What the operations read and write\<close>

lemma quiet_entity_reads [quiet_intros]:
  "quiet (get_entity i)" "quiet (get_entity_path sv i)" "quiet (get_descendants sv i typ)"
  "quiet (get_root_entity sv e)" "quiet (validate_root_naming_rules sv e n dn sl)"
  "quiet (get_allowed_child_types sv e)" "quiet (validate_hierarchy sv e cls t)"
proof -
  show a: "quiet (get_entity i)" by (auto simp: get_entity_def intro!: quiet_intros)
  have c: "quiet (cache_path i ids)" "quiet (cache_descendants i ids)" for i ids
    by (simp_all add: cache_path_def cache_descendants_def quiet_modify)
  show b: "quiet (get_entity_path sv i)" for i
    unfolding get_entity_path_def by (intro quiet_intros c)
  show "quiet (get_descendants sv i typ)"
    unfolding get_descendants_def Let_def by (intro quiet_intros c)
  show d: "quiet (get_root_entity sv e)" for e
    unfolding get_root_entity_def by (intro quiet_intros b)
  show "quiet (validate_root_naming_rules sv e n dn sl)"
    unfolding validate_root_naming_rules_def by (intro quiet_intros d)
  show f: "quiet (get_allowed_child_types sv e)"
    unfolding get_allowed_child_types_def by (intro quiet_intros d)
  show "quiet (validate_hierarchy sv e cls t)"
    unfolding validate_hierarchy_def by (intro quiet_intros b f)
qed

lemma quiet_entity_writes [quiet_intros]:
  "quiet (invalidate_permission_cache sv i g)" "quiet (record_entity_event sv now e typ actor before after meta r)"
  "quiet (invalidate_entity_tree_cache sv i)" "quiet (check_new_entity sv n dn cls t p sl x)"
  "quiet (check_entity_update sv e u)" "quiet (check_move sv e p)"
proof -
  have drop: "quiet (drop_entity_keys ids)" for ids by (simp add: drop_entity_keys_def quiet_def)
  have pub: "quiet (publish_text m)" for m by (simp add: publish_text_def quiet_modify)
  show "quiet (invalidate_permission_cache sv i g)"
    unfolding invalidate_permission_cache_def by (intro quiet_intros)
  show "quiet (record_entity_event sv now e typ actor before after meta r)"
    unfolding record_entity_event_def by (intro quiet_intros)
  show "quiet (invalidate_entity_tree_cache sv i)"
    unfolding invalidate_entity_tree_cache_def by (intro quiet_intros drop pub)
  show "quiet (check_new_entity sv n dn cls t p sl x)"
    unfolding check_new_entity_def by (intro quiet_intros)
  show "quiet (check_entity_update sv e u)"
    unfolding check_entity_update_def by (intro quiet_intros)
  show "quiet (check_move sv e p)"
    unfolding check_move_def by (intro quiet_intros)
qed

lemma returns_entity [returns_intros]:
  "returns (invalidate_permission_cache sv i g)"
  "returns (record_entity_event sv now e typ actor before after meta r)"
  unfolding invalidate_permission_cache_def record_entity_event_def by (intro returns_intros)+

lemma check_new_entity_result:
  assumes "check_new_entity sv name display cls typ parent slug x s = (Inr (pd, pp), t)"
  shows "case parent of None \<Rightarrow> pd = -1 \<and> pp = None
    | Some p \<Rightarrow> \<exists>pe. entity_at (ss_db s) p = Some pe \<and> pd = e_depth pe \<and> pp = e_path pe"
proof (cases parent)
  case None
  then show ?thesis using assms by (auto simp: check_new_entity_def bind_op_ret_iff)
next
  case (Some p)
  then show ?thesis using assms
    by (auto simp: check_new_entity_def bind_op_ret_iff split: if_splits option.splits)
qed

definition created_row :: "db \<Rightarrow> uuid \<Rightarrow> uuid option \<Rightarrow> entity_row \<Rightarrow> bool" where
  "created_row d i parent e \<longleftrightarrow> e_id e = i \<and> e_parent e = parent
     \<and> get_entity_by_slug d (e_slug e) = None
     \<and> (case parent of
          None \<Rightarrow> e_depth e = 0 \<and> e_path e = Some (''/'' @ e_slug e @ ''/'')
        | Some p \<Rightarrow> \<exists>pe. entity_at d p = Some pe \<and> e_depth e = e_depth pe + 1
             \<and> e_path e = Some (path_under (e_path pe) (e_slug e)))"

lemma create_entity_db:
  assumes "create_entity sv now i name display cls typ parent descr slug x actor s = (r, t)"
  shows "(case r of Inl _ \<Rightarrow> ss_db t = ss_db s
     | Inr e \<Rightarrow> created_row (ss_db s) i parent e \<and> ss_db t = insert_entity e (ss_db s))"
proof -
  define x' where "x' = normalize_root_governance x"
  define sl where "sl = (case slug of None \<Rightarrow> generate_slug name | Some z \<Rightarrow> if z = [] then generate_slug name else z)"
  let ?chk = "check_new_entity sv (py_lower name) display cls (py_lower typ) parent sl x'"
  let ?rest = "\<lambda>(parent_depth, parent_path). bind_op (read_db (\<lambda>d. get_entity_by_slug d sl)) (\<lambda>existing.
      if existing \<noteq> None
      then raise_op (invalid_input (''Entity with slug '' @ squote sl @ '' already exists'') [(''slug'', PStr sl)])
      else
        (let e = new_entity i (py_lower name) display cls (py_lower typ) parent descr sl x' parent_depth parent_path in
         bind_op (write_db (insert_entity e)) (\<lambda>_.
         bind_op (invalidate_permission_cache sv i False) (\<lambda>_.
         bind_op (record_entity_event sv now e ''created'' actor None
                    (Some (entity_audit_snapshot (en_iso sv) e)) [] None) (\<lambda>_.
         ret e)))))"
  have eq: "bind_op ?chk ?rest s = (r, t)"
    using assms unfolding create_entity_def Let_def x'_def sl_def .
  from quiet_entity_writes(4) eq show ?thesis
  proof (cases rule: quiet_bindE)
    case fail
    then show ?thesis by simp
  next
    case (pass pdp u)
    obtain pd pp where pdp: "pdp = (pd, pp)" by (cases pdp)
    note pass = pass [unfolded pdp]
    let ?e = "new_entity i (py_lower name) display cls (py_lower typ) parent descr sl x' pd pp"
    let ?k = "\<lambda>_ :: unit. bind_op (invalidate_permission_cache sv i False) (\<lambda>_.
         bind_op (record_entity_event sv now ?e ''created'' actor None
                    (Some (entity_audit_snapshot (en_iso sv) ?e)) [] None) (\<lambda>_. ret ?e))"
    have k: "quiet (?k ())" by (intro quiet_intros)
    show ?thesis
    proof (cases "get_entity_by_slug (ss_db s) sl = None")
      case True
      then have "bind_op (write_db (insert_entity ?e)) ?k u = (r, t)"
        using pass by (simp add: Let_def)
      moreover from this have "ss_db t = insert_entity ?e (ss_db s)"
        using quiet_after [of ?k "insert_entity ?e" u, OF k] pass(2) by simp
      moreover have "fst (bind_op (write_db (insert_entity ?e)) ?k u) = Inr ?e"
        by (intro returns_result returns_intros returns_entity) simp
      ultimately have "r = Inr ?e" and t: "ss_db t = insert_entity ?e (ss_db s)" by auto
      moreover have "created_row (ss_db s) i parent ?e"
        using check_new_entity_result [OF pass(1)] True
        by (auto simp: created_row_def new_entity_def path_under_def split: option.splits)
      ultimately show ?thesis by simp
    next
      case False
      then show ?thesis using pass by auto
    qed
  qed
qed

lemma path_under_slashed: "slashed p \<Longrightarrow> path_under (Some p) slug = p @ slug @ ''/''"
  by (simp add: path_under_def slashed_def)

lemma create_hierarchy_ok:
  assumes ok: "hierarchy_ok (ss_db s)" and fresh: "i \<notin> dom (entity_at (ss_db s))"
    and parent: "set_option parent \<subseteq> linked_ids (ss_db s)"
    and run: "create_entity sv now i name display cls typ parent descr slug x actor s = (r, t)"
  shows "hierarchy_ok (ss_db t)"
proof (cases r)
  case (Inr e)
  then have c: "created_row (ss_db s) i parent e" and t: "ss_db t = insert_entity e (ss_db s)"
    using create_entity_db [OF run] by simp_all
  have "fits_parent (ss_db s) e"
  proof (cases parent)
    case None
    then show ?thesis using c by (simp add: created_row_def fits_parent_def)
  next
    case (Some p)
    then obtain pe where pe: "entity_at (ss_db s) p = Some pe" "e_depth e = e_depth pe + 1"
      "e_path e = Some (path_under (e_path pe) (e_slug e))" "e_parent e = Some p"
      using c by (auto simp: created_row_def)
    have p: "p \<in> linked_ids (ss_db s)" using parent Some by simp
    show ?thesis
      using pe p linked_path [OF ok p pe(1)] path_under_slashed
      by (simp add: fits_parent_def depth_at_def)
  qed
  then show ?thesis
    using insert_hierarchy_ok [OF ok] fresh c by (simp add: t created_row_def)
qed (use ok create_entity_db [OF run] in simp)

lemma update_entity_db:
  assumes "update_entity sv now i u actor s = (r, t)"
  shows "ss_db t = ss_db s \<or> (\<exists>e. entity_at (ss_db s) i = Some e \<and>
     ss_db t = (ss_db s)\<lparr>tb_entities := set_row e_id (apply_entity_update (normalize_update u) e) (tb_entities (ss_db s))\<rparr>)"
proof (cases "entity_at (ss_db s) i")
  case None
  then show ?thesis using assms by (auto simp: update_entity_def Let_def get_entity_def bind_op_def)
next
  case (Some e)
  let ?u = "normalize_update u"
  let ?e = "apply_entity_update ?u e"
  let ?ks = "changed_keys (entity_audit_snapshot (en_iso sv) e) (entity_audit_snapshot (en_iso sv) ?e)"
  let ?w = "\<lambda>d. d\<lparr>tb_entities := set_row e_id ?e (tb_entities d)\<rparr>"
  let ?k = "\<lambda>_ :: unit. bind_op (when_op (?ks \<noteq> []) (record_entity_event sv now ?e ''updated'' actor
                 (Some (restrict_keys ?ks (entity_audit_snapshot (en_iso sv) e)))
                 (Some (restrict_keys ?ks (entity_audit_snapshot (en_iso sv) ?e)))
                 [(''changed_fields'', strs ?ks)] None)) (\<lambda>_.
      bind_op (invalidate_permission_cache sv i False) (\<lambda>_. ret ?e))"
  have "bind_op (check_entity_update sv e ?u) (\<lambda>_. bind_op (write_db ?w) ?k) s = (r, t)"
    using assms Some by (simp add: update_entity_def Let_def get_entity_def bind_op_def)
  with quiet_entity_writes(5) have "ss_db t = ss_db s \<or> ss_db t = ?w (ss_db s)"
  proof (cases rule: quiet_bindE)
    case (pass x v)
    have "quiet (?k ())" by (intro quiet_intros)
    then show ?thesis using quiet_after [of ?k ?w v] pass by simp
  qed simp
  then show ?thesis using Some by blast
qed

lemma update_entity_hierarchy_ok:
  "hierarchy_ok (ss_db s) \<Longrightarrow> update_entity sv now i u actor s = (r, t) \<Longrightarrow> hierarchy_ok (ss_db t)"
  using update_entity_db update_hierarchy_ok by metis

section \<open>Moving, as an operation\<close>

lemma check_move_result:
  assumes "check_move sv e q s = (Inr pe, t)"
  shows "case q of None \<Rightarrow> pe = None
    | Some p \<Rightarrow> \<exists>x. entity_at (ss_db s) p = Some x \<and> pe = Some x \<and> \<not> is_ancestor_of (ss_db s) (e_id e) p"
  using assms
proof (cases q)
  case (Some p)
  then show ?thesis using assms entity_of_key [of "ss_db s" p]
    by (cases "entity_at (ss_db s) p") (auto simp: check_move_def bind_op_ret_iff split: if_splits)
qed (use assms in \<open>simp add: check_move_def bind_op_ret_iff\<close>)

definition subtree_id_set :: "db \<Rightarrow> uuid \<Rightarrow> uuid set" where
  "subtree_id_set d i = set (map (\<lambda>(x, _). e_id x) (subtree_entities d i))"

text \<open>What an accepted move writes.\<close>

definition moved_db :: "entity_service \<Rightarrow> entity_row \<Rightarrow> entity_row option \<Rightarrow> db \<Rightarrow> db" where
  "moved_db sv e pe d =
     (case root_change sv d e pe of
        (_, Some r, True) \<Rightarrow> reanchor_roles (subtree_id_set d (e_id e)) r (reparent e pe d)
      | _ \<Rightarrow> reparent e pe d)"

text \<open>When it is accepted: not refused for the access the subtree carries.\<close>

definition refused_for_access :: "entity_service \<Rightarrow> db \<Rightarrow> entity_row \<Rightarrow> entity_row option \<Rightarrow> bool" where
  "refused_for_access sv d e pe \<longleftrightarrow>
     snd (snd (root_change sv d e pe))
     \<and> carries_access (count_subtree_access d (with_archived_descendants sv d (subtree_id_set d (e_id e))))"

lemma reanchor_none: "filter (role_to_reanchor ids r) (tb_roles d) = [] \<Longrightarrow> reanchor_roles ids r d = d"
proof -
  assume "filter (role_to_reanchor ids r) (tb_roles d) = []"
  then have "map (\<lambda>x. if role_to_reanchor ids r x then x\<lparr>r_root_entity := Some r\<rparr> else x) (tb_roles d) = tb_roles d"
    by (simp add: filter_empty_conv map_idI)
  then show ?thesis by (simp only: reanchor_roles_def) simp
qed

text \<open>The part of \<open>move_entity\<close> after its checks, for the subtree and the roots it has read.\<close>

definition finish_move ::
  "entity_service \<Rightarrow> datetime \<Rightarrow> uuid \<Rightarrow> uuid option \<Rightarrow> uuid option \<Rightarrow> entity_row \<Rightarrow> entity_row option
     \<Rightarrow> uuid set \<Rightarrow> uuid option \<Rightarrow> uuid option \<Rightarrow> bool \<Rightarrow> entity_row op" where
  "finish_move sv now i new_parent actor e pe ids old_root new_root changes =
     bind_op (write_db (reparent e pe)) (\<lambda>_.
     bind_op (read_db (\<lambda>d. case new_root of
         Some r \<Rightarrow> if changes then map r_id (filter (role_to_reanchor ids r) (tb_roles d)) else []
       | None \<Rightarrow> [])) (\<lambda>reanchored.
     bind_op (when_op (reanchored \<noteq> []) (write_db (reanchor_roles ids (the new_root)))) (\<lambda>_.
     bind_op (invalidate_entity_tree_cache sv (e_id e)) (\<lambda>_.
     bind_op (read_db (\<lambda>d. case entity_at d i of Some e1 \<Rightarrow> e1 | None \<Rightarrow> e)) (\<lambda>e1.
     bind_op (invalidate_permission_cache sv (e_id e) True) (\<lambda>_.
     bind_op (record_entity_event sv now e1 ''moved'' actor
       (Some [(''parent_id'', opt_str (e_parent e)), (''path'', opt_str (e_path e))])
       (Some [(''parent_id'', opt_str new_parent), (''path'', opt_str (e_path e1))])
       ((''subtree_size'', PInt (int (card ids))) #
         (if changes then
           [(''changes_root'', PBool True), (''previous_root_entity_id'', opt_str old_root),
            (''reanchored_role_ids'', strs (sort reanchored))] else [])) None) (\<lambda>_.
     ret e1)))))))"

lemma returns_reads [returns_intros]:
  "returns (get_entity_path sv i)" "returns (get_descendants sv i typ)"
  "returns (drop_entity_keys ids)" "returns (invalidate_entity_tree_cache sv i)"
proof -
  have c: "returns (cache_path i ids)" "returns (cache_descendants i ids)" for i ids
    by (simp_all add: cache_path_def cache_descendants_def returns_modify)
  show a: "returns (get_entity_path sv i)" for i
    unfolding get_entity_path_def by (intro returns_intros c)
  show b: "returns (get_descendants sv i ty)" for i ty
    unfolding get_descendants_def Let_def by (intro returns_intros c)
  show d: "returns (drop_entity_keys ids)" for ids
    by (simp add: returns_def drop_entity_keys_def)
  have p: "returns (publish_text m)" for m by (simp add: publish_text_def returns_modify)
  show "returns (invalidate_entity_tree_cache sv i)"
    unfolding invalidate_entity_tree_cache_def by (intro returns_intros a b d p)
qed

lemma finish_move_db:
  "ss_db (snd (finish_move sv now i q actor e pe ids old_root new_root changes s)) =
     (case new_root of Some r \<Rightarrow> if changes then reanchor_roles ids r (reparent e pe (ss_db s)) else reparent e pe (ss_db s)
      | None \<Rightarrow> reparent e pe (ss_db s))"
proof -
  let ?d = "reparent e pe (ss_db s)"
  let ?t = "s\<lparr>ss_db := ?d\<rparr>"
  let ?re = "case new_root of Some r \<Rightarrow> if changes then map r_id (filter (role_to_reanchor ids r) (tb_roles (ss_db ?t))) else []
       | None \<Rightarrow> []"
  let ?tail = "\<lambda>_ :: unit. bind_op (invalidate_entity_tree_cache sv (e_id e)) (\<lambda>_.
     bind_op (read_db (\<lambda>d. case entity_at d i of Some e1 \<Rightarrow> e1 | None \<Rightarrow> e)) (\<lambda>e1.
     bind_op (invalidate_permission_cache sv (e_id e) True) (\<lambda>_.
     bind_op (record_entity_event sv now e1 ''moved'' actor
       (Some [(''parent_id'', opt_str (e_parent e)), (''path'', opt_str (e_path e))])
       (Some [(''parent_id'', opt_str q), (''path'', opt_str (e_path e1))])
       ((''subtree_size'', PInt (int (card ids))) #
         (if changes then
           [(''changes_root'', PBool True), (''previous_root_entity_id'', opt_str old_root),
            (''reanchored_role_ids'', strs (sort ?re))] else [])) None) (\<lambda>_.
     ret e1))))"
  have quiet: "quiet (?tail ())" by (intro quiet_intros)
  have run: "finish_move sv now i q actor e pe ids old_root new_root changes s =
      bind_op (when_op (?re \<noteq> []) (write_db (reanchor_roles ids (the new_root)))) ?tail ?t"
    unfolding finish_move_def by (simp only: bind_op_simps)
  show ?thesis
  proof (cases "?re = []")
    case True
    then have "ss_db (snd (finish_move sv now i q actor e pe ids old_root new_root changes s)) = ?d"
      unfolding run using quiet by (simp add: quiet_def)
    with True reanchor_none show ?thesis by (auto split: option.splits if_splits)
  next
    case False
    then have w: "when_op (?re \<noteq> []) m = m" for m by (simp only: when_op_def simp_thms if_True)
    have "ss_db (snd (finish_move sv now i q actor e pe ids old_root new_root changes s)) =
        reanchor_roles ids (the new_root) (ss_db ?t)"
      unfolding run w by (rule quiet_after [OF quiet])
    with False show ?thesis by (auto split: option.splits if_splits)
  qed
qed

lemma finish_move_returns: "\<exists>x. fst (finish_move sv now i q actor e pe ids old_root new_root changes s) = Inr x"
proof -
  have "returns (finish_move sv now i q actor e pe ids old_root new_root changes)"
    unfolding finish_move_def by (intro returns_intros)
  from returnsD [OF this] show ?thesis by (metis fst_conv)
qed

lemma move_entity_db:
  assumes "move_entity sv now i q actor s = (r, t)" and "entity_at (ss_db s) i = Some e" and "q \<noteq> e_parent e"
  shows "(\<exists>err. r = Inl err \<and> ss_db t = ss_db s)
    \<or> (\<exists>x pe. r = Inr x \<and> q \<noteq> Some i
        \<and> (case q of None \<Rightarrow> pe = None
           | Some p \<Rightarrow> \<exists>y. entity_at (ss_db s) p = Some y \<and> pe = Some y \<and> \<not> is_ancestor_of (ss_db s) i p)
        \<and> subtree_entities (ss_db s) i \<noteq> [] \<and> \<not> refused_for_access sv (ss_db s) e pe
        \<and> ss_db t = moved_db sv e pe (ss_db s))"
proof (cases "q = Some i")
  case True
  then show ?thesis using assms entity_of_key [OF assms(2)]
    by (auto simp: move_entity_def get_entity_def bind_op_def)
next
  case False
  have key: "e_id e = i" by (rule entity_of_key [OF assms(2)])
  define after where "after = (\<lambda>pe. bind_op (read_db (\<lambda>d. subtree_entities d (e_id e))) (\<lambda>subtree.
       if subtree = []
       then raise_op (invalid_input ''Closure table missing subtree records for entity'' [(''entity_id'', PStr i)])
       else
         (let ids = set (map (\<lambda>(x, _). e_id x) subtree) in
          bind_op (read_db (\<lambda>d. root_change sv d e pe)) (\<lambda>(old_root, new_root, changes).
          bind_op (read_db (\<lambda>d. count_subtree_access d (with_archived_descendants sv d ids))) (\<lambda>access.
          if changes \<and> carries_access access
          then raise_op (carries_access_error (e_id e) q old_root new_root access)
          else finish_move sv now i q actor e pe ids old_root new_root changes)))))"
  have "get_entity i s = (Inr e, s)" using assms(2) by (simp add: get_entity_def)
  then have "bind_op (check_move sv e q) after s = (r, t)"
    using assms(1,3) False key unfolding move_entity_def after_def finish_move_def
    by (simp only: bind_op_run if_False)
  with quiet_entity_writes(6) show ?thesis
  proof (cases rule: quiet_bindE)
    case (pass pe u)
    let ?d = "ss_db s"
    obtain old_root new_root changes where rc: "root_change sv ?d e pe = (old_root, new_root, changes)"
      by (metis surj_pair)
    have pe: "case q of None \<Rightarrow> pe = None
      | Some p \<Rightarrow> \<exists>x. entity_at ?d p = Some x \<and> pe = Some x \<and> \<not> is_ancestor_of ?d i p"
      using check_move_result [OF pass(1)] unfolding key .
    consider (empty) "subtree_entities ?d i = []"
      | (refused) "subtree_entities ?d i \<noteq> []" "refused_for_access sv ?d e pe"
      | (go) "subtree_entities ?d i \<noteq> []" "\<not> refused_for_access sv ?d e pe" by blast
    then show ?thesis
    proof cases
      case empty
      then show ?thesis using pass key by (auto simp: after_def)
    next
      case refused
      then have "changes \<and> carries_access (count_subtree_access ?d (with_archived_descendants sv ?d (subtree_id_set ?d i)))"
        by (simp add: refused_for_access_def rc key)
      with refused(1) pass rc have "\<exists>err. r = Inl err \<and> t = u"
        by (auto simp: after_def Let_def key subtree_id_set_def)
      then show ?thesis using pass(2) by auto
    next
      case go
      then have "\<not> (changes \<and> carries_access (count_subtree_access ?d
          (with_archived_descendants sv ?d (set (map (\<lambda>(x, _). e_id x) (subtree_entities ?d i))))))"
        by (simp add: refused_for_access_def rc key subtree_id_set_def)
      with go(1) pass rc have run: "finish_move sv now i q actor e pe (subtree_id_set ?d i) old_root new_root changes u = (r, t)"
        by (simp add: after_def Let_def key subtree_id_set_def split: if_splits)
      then have "ss_db t = moved_db sv e pe ?d"
        using finish_move_db [of sv now i q actor e pe "subtree_id_set ?d i" old_root new_root changes u] pass(2)
        by (simp add: moved_db_def rc key split: option.splits)
      moreover have "\<exists>x. r = Inr x" using finish_move_returns run by (metis fst_conv)
      ultimately show ?thesis using go pe False by blast
    qed
  qed simp
qed

lemma moved_db_tables:
  "tb_entities (moved_db sv e pe d) = tb_entities (reparent e pe d)"
  "tb_closure (moved_db sv e pe d) = tb_closure (reparent e pe d)"
  by (simp_all add: moved_db_def reanchor_roles_def split: prod.splits option.splits bool.splits)

lemma moved_clear:
  assumes ok: "hierarchy_ok d" and i: "i \<in> linked_ids d" and p: "p \<in> linked_ids d"
    and "p \<noteq> i" and "\<not> is_ancestor_of d i p"
  shows "p \<notin> below (parent_map d) i"
proof
  assume "p \<in> below (parent_map d) i"
  then obtain n where n: "up (parent_map d) n p = Some i" by (auto simp: below_def)
  then have "(i, p, int n) \<in> closure_set d" using i p hierarchy_okD(5) [OF ok] by (simp add: closure_relD)
  moreover have "n \<noteq> 0" using n \<open>p \<noteq> i\<close> by (cases n) auto
  ultimately show False using assms(5) by (auto simp: is_ancestor_of_def closure_set_mem)
qed

lemma subtree_linked:
  assumes ok: "hierarchy_ok d" and "subtree_entities d i \<noteq> []"
  shows "i \<in> linked_ids d"
proof -
  obtain x m where "(x, m) \<in> set (subtree_entities d i)" using assms(2) by (metis list.set_intros(1) neq_Nil_conv surj_pair)
  then have "(i, e_id x, m) \<in> closure_set d" by (simp add: subtree_mem [OF ok])
  then show ?thesis using hierarchy_okD(5) [OF ok] by (simp add: closure_relD)
qed

lemma accepted_move:
  assumes ok: "hierarchy_ok d" and e: "entity_at d i = Some e" and "subtree_entities d i \<noteq> []" and "q \<noteq> Some i"
    and pe: "case q of None \<Rightarrow> pe = None
        | Some p \<Rightarrow> \<exists>y. entity_at d p = Some y \<and> pe = Some y \<and> \<not> is_ancestor_of d i p"
    and q: "set_option q \<subseteq> linked_ids d"
  shows "hierarchy_ok (reparent e pe d)" and "parent_map (reparent e pe d) = (parent_map d)(i := q)"
    and "linked_ids (reparent e pe d) = linked_ids d"
proof -
  have i: "i \<in> linked_ids d" by (rule subtree_linked [OF ok assms(3)])
  have mq: "map_option e_id pe = q"
  proof (cases q)
    case (Some p)
    then show ?thesis using pe entity_of_key [of d p] by auto
  qed (use pe in simp)
  have p: "entity_at d (e_id y) = Some y \<and> e_id y \<in> linked_ids d" if "pe = Some y" for y
  proof -
    from pe that obtain p where "q = Some p" "entity_at d p = Some y" by (auto split: option.splits)
    then show ?thesis using q entity_of_key by auto
  qed
  have clear: "clear_of (parent_map d) i (map_option e_id pe)"
    unfolding mq clear_of_def
    using moved_clear [OF ok i] pe q assms(4) by (auto split: option.splits)
  show "hierarchy_ok (reparent e pe d)" by (rule reparent_hierarchy_ok(1) [OF ok e i p clear])
  show "linked_ids (reparent e pe d) = linked_ids d" by (rule reparent_hierarchy_ok(2) [OF ok e i p clear])
  show "parent_map (reparent e pe d) = (parent_map d)(i := q)"
    using reparent_hierarchy_ok(3) [OF ok e i p clear] unfolding mq .
qed

lemma move_entity_hierarchy_ok:
  assumes ok: "hierarchy_ok (ss_db s)" and q: "set_option q \<subseteq> linked_ids (ss_db s)"
    and run: "move_entity sv now i q actor s = (r, t)"
  shows "hierarchy_ok (ss_db t)"
proof (cases "entity_at (ss_db s) i")
  case None
  then show ?thesis using run ok by (auto simp: move_entity_def get_entity_def bind_op_def)
next
  case (Some e)
  show ?thesis
  proof (cases "q = e_parent e")
    case True
    then show ?thesis using run ok Some by (auto simp: move_entity_def get_entity_def bind_op_def)
  next
    case False
    from move_entity_db [OF run Some False] show ?thesis
    proof (elim disjE exE conjE)
      fix x pe
      assume "q \<noteq> Some i" "subtree_entities (ss_db s) i \<noteq> []" and t: "ss_db t = moved_db sv e pe (ss_db s)"
        and "case q of None \<Rightarrow> pe = None
           | Some p \<Rightarrow> \<exists>y. entity_at (ss_db s) p = Some y \<and> pe = Some y \<and> \<not> is_ancestor_of (ss_db s) i p"
      then have "hierarchy_ok (reparent e pe (ss_db s))"
        by (intro accepted_move(1) [OF ok Some _ _ _ q])
      then show ?thesis unfolding t hierarchy_ok_cong [OF moved_db_tables] .
    qed (simp add: ok)
  qed
qed

section \<open>Archiving, as an operation\<close>

text \<open>What the services called by an archive may touch: not the entities, nor the closure table.\<close>

locale archive_service =
  fixes hook :: archive_hook
  assumes hook_entities: "tb_entities (ss_db (snd (hook i actor reason s))) = tb_entities (ss_db s)"
    and hook_closure: "tb_closure (ss_db (snd (hook i actor reason s))) = tb_closure (ss_db s)"
    and hook_returns: "returns (hook i actor reason)"

definition archived_set :: "uuid set \<Rightarrow> db \<Rightarrow> db" where
  "archived_set A d =
     d\<lparr>tb_entities := map (\<lambda>e. if e_id e \<in> A then e\<lparr>e_status := ''archived''\<rparr> else e) (tb_entities d),
       tb_closure := filter (\<lambda>r. cl_ancestor r \<notin> A \<and> cl_descendant r \<notin> A) (tb_closure d)\<rparr>"

definition same_tree :: "db \<Rightarrow> db \<Rightarrow> bool" where
  "same_tree d d' \<longleftrightarrow> tb_entities d = tb_entities d' \<and> tb_closure d = tb_closure d'"

text \<open>The entities a cascade reaches: the first page of the active children, and so on.\<close>

inductive_set cascade_set :: "db \<Rightarrow> uuid \<Rightarrow> uuid set" for d :: db and i :: uuid where
  cascade_top: "i \<in> cascade_set d i"
| cascade_child: "b \<in> cascade_set d i \<Longrightarrow> c \<in> set (take default_limit (active_children d b))
    \<Longrightarrow> e_id c \<in> cascade_set d i"

lemma cascade_set_trans: "c \<in> cascade_set d b \<Longrightarrow> b \<in> cascade_set d i \<Longrightarrow> c \<in> cascade_set d i"
  by (induction rule: cascade_set.induct) (auto intro: cascade_set.intros)

lemma cascade_set_unfold:
  "cascade_set d i = insert i (\<Union>c \<in> set (take default_limit (active_children d i)). cascade_set d (e_id c))"
    (is "_ = ?r")
proof
  show "cascade_set d i \<subseteq> ?r"
  proof
    fix x assume "x \<in> cascade_set d i"
    then show "x \<in> ?r"
      by (induction rule: cascade_set.induct) (auto intro: cascade_set.intros)
  qed
  have "cascade_set d (e_id c) \<subseteq> cascade_set d i" if "c \<in> set (take default_limit (active_children d i))" for c
    using that cascade_set_trans cascade_child [OF cascade_top] by blast
  then show "?r \<subseteq> cascade_set d i" using cascade_top by blast
qed

lemma active_child_parent:
  assumes "distinct (map e_id (tb_entities d))" and "c \<in> set (take n (active_children d b))"
  shows "parent_map d (e_id c) = Some b" and "entity_at d (e_id c) = Some c"
proof -
  have c: "c \<in> set (tb_entities d)" "e_parent c = Some b"
    using in_set_takeD [OF assms(2)] by (auto simp: active_children_def)
  then show "entity_at d (e_id c) = Some c" using entity_of_iff [OF assms(1)] by blast
  then show "parent_map d (e_id c) = Some b" using c by (simp add: parent_map_def)
qed

lemma cascade_below:
  assumes "distinct (map e_id (tb_entities d))"
  shows "cascade_set d i \<subseteq> below (parent_map d) i"
proof
  fix x assume "x \<in> cascade_set d i"
  then show "x \<in> below (parent_map d) i"
  proof (induction rule: cascade_set.induct)
    case (cascade_child b c)
    then obtain n where "up (parent_map d) n b = Some i" by (auto simp: below_def)
    then have "up (parent_map d) (Suc n) (e_id c) = Some i"
      using active_child_parent(1) [OF assms cascade_child(2)] by simp
    then show ?case unfolding below_def by blast
  qed simp
qed

lemma archived_entity_of:
  "entity_at (archived_set A d) i = map_option (\<lambda>e. if i \<in> A then e\<lparr>e_status := ''archived''\<rparr> else e) (entity_at d i)"
proof -
  have "entity_at (archived_set A d) i =
      map_option (\<lambda>e. if e_id e \<in> A then e\<lparr>e_status := ''archived''\<rparr> else e) (entity_at d i)"
    unfolding archived_set_def entity_at_def by (simp add: row_by_map)
  then show ?thesis by (cases "entity_at d i") (auto dest: entity_of_key)
qed

lemma archived_children:
  assumes "\<And>e. e \<in> set (tb_entities d) \<Longrightarrow> e_parent e = Some i \<Longrightarrow> e_id e \<notin> A"
  shows "active_children (archived_set A d) i = active_children d i"
proof -
  have "filter (\<lambda>e. e_parent e = Some i \<and> e_status e = ''active'')
      (map (\<lambda>e. if e_id e \<in> A then e\<lparr>e_status := ''archived''\<rparr> else e) es)
    = filter (\<lambda>e. e_parent e = Some i \<and> e_status e = ''active'') es"
    if "\<And>e. e \<in> set es \<Longrightarrow> e_parent e = Some i \<Longrightarrow> e_id e \<notin> A" for es :: "entity_row list"
    using that by (induction es) auto
  then show ?thesis using assms by (simp add: active_children_def archived_set_def)
qed

lemma archived_insert:
  "same_tree (delete_closure_records i (set_archived i (archived_set A d))) (archived_set (insert i A) d)"
  by (auto simp: same_tree_def delete_closure_records_def set_archived_def archived_set_def comp_def
      intro!: filter_cong)

context archive_service
begin

lemma archive_entity_tree:
  "same_tree (ss_db (snd (archive_entity sv hook now e cascade actor s)))
     (delete_closure_records (e_id e) (set_archived (e_id e) (ss_db s)))"
proof -
  let ?s1 = "s\<lparr>ss_db := set_archived (e_id e) (ss_db s)\<rparr>"
  let ?why = "''Entity '' @ squote (e_display_name e) @ '' archived''"
  let ?known = "resolve_root_entity_id (ss_db s) e"
  let ?k = "\<lambda>_ :: unit. invalidate_permission_cache sv (e_id e) True"
  let ?rec = "record_entity_event sv now e ''archived'' actor (Some [(''status'', PStr (e_status e))])
                (Some [(''status'', PStr ''archived'')]) [(''cascade'', PBool cascade)] ?known"
  obtain u where h: "hook (e_id e) actor ?why ?s1 = (Inr (), u)"
    using returnsD [OF hook_returns] by fastforce
  obtain v where r: "?rec u = (Inr (), v)"
    using returnsD [OF returns_entity(2)] by fastforce
  have uv: "ss_db v = ss_db u" by (rule quietD [OF quiet_entity_writes(2) r])
  have "archive_entity sv hook now e cascade actor s =
      bind_op (write_db (delete_closure_records (e_id e))) ?k v"
    unfolding archive_entity_def
    by (simp only: bind_op_simps bind_op_run [where m = "hook (e_id e) actor ?why", OF h]
        bind_op_run [where m = ?rec, OF r])
  moreover have "quiet (?k ())" by (rule quiet_intros)
  ultimately have "ss_db (snd (archive_entity sv hook now e cascade actor s)) =
      delete_closure_records (e_id e) (ss_db u)"
    using quiet_after [of ?k "delete_closure_records (e_id e)" v] uv by simp
  moreover have "tb_entities (ss_db u) = tb_entities (set_archived (e_id e) (ss_db s))"
    "tb_closure (ss_db u) = tb_closure (set_archived (e_id e) (ss_db s))"
    using hook_entities [of "e_id e" actor ?why ?s1] hook_closure [of "e_id e" actor ?why ?s1] h by simp_all
  ultimately show ?thesis by (simp add: same_tree_def delete_closure_records_def)
qed

lemma archive_entity_returns: "returns (archive_entity sv hook now e cascade actor)"
  unfolding archive_entity_def by (intro returns_intros hook_returns)

lemma same_tree_views:
  assumes "same_tree d d'"
  shows "entity_at d = entity_at d'" and "active_children d = active_children d'"
  using assms by (simp_all add: same_tree_def entity_at_def active_children_def fun_eq_iff)

text \<open>The recursion, from a tree in which the set \<open>A\<close> is already archived.\<close>

lemma delete_entity_run:
  assumes tree: "tree_ok d" and "i \<in> dom (entity_at d)" and "below (parent_map d) i \<inter> A = {}"
    and "same_tree (ss_db s) (archived_set A d)" and "card (below (parent_map d) i) \<le> fuel"
    and "cascade \<or> active_children d i = []"
  shows "\<exists>t. delete_entity sv hook now fuel cascade actor i s = Some (Inr True, t)
    \<and> same_tree (ss_db t) (archived_set (A \<union> cascade_set d i) d)"
  using assms(2-6)
proof (induction fuel arbitrary: i A s cascade)
  case 0
  have "finite (e_id ` set (tb_entities d))" by simp
  moreover have "below (parent_map d) i \<subseteq> dom (entity_at d)"
    by (rule below_subset [OF _ 0(1)]) (auto simp: parent_map_def split: option.splits)
  ultimately have "finite (below (parent_map d) i)" by (simp add: dom_entity_of finite_subset)
  then show ?case using 0(4) below_self [of i "parent_map d"] by auto
next
  case (Suc fuel)
  have dist: "distinct (map e_id (tb_entities d))" and acy: "acyclic_parents (parent_map d)"
    using tree by (simp_all add: tree_ok_def)
  have fin: "finite (below (parent_map d) j)" if "j \<in> dom (entity_at d)" for j
  proof -
    have "below (parent_map d) j \<subseteq> dom (entity_at d)"
      by (rule below_subset [OF _ that]) (auto simp: parent_map_def split: option.splits)
    then show ?thesis by (simp add: dom_entity_of finite_subset)
  qed
  note same = same_tree_views [OF Suc.prems(3)]
  obtain e where e: "entity_at d i = Some e" using Suc.prems(1) by blast
  have iA: "i \<notin> A" using Suc.prems(2) below_self [of i "parent_map d"] by blast
  have get: "get_entity i s = (Inr e, s)"
    using e iA by (simp add: get_entity_def same(1) archived_entity_of)
  let ?cs = "active_children d i"
  have kid: "e_id c \<notin> A" if "c \<in> set (tb_entities d)" "e_parent c = Some i" for c
  proof -
    have "entity_at d (e_id c) = Some c" using that entity_of_iff [OF dist] by blast
    then have "up (parent_map d) (Suc 0) (e_id c) = Some i" using that(2) by (simp add: parent_map_def)
    then have "e_id c \<in> below (parent_map d) i" unfolding below_def by blast
    then show ?thesis using Suc.prems(2) by auto
  qed
  have children: "active_children (ss_db s) i = ?cs"
    unfolding same(2) by (rule archived_children) (rule kid)
  let ?kids = "map e_id (take default_limit ?cs)"
  have kids: "parent_map d k = Some i \<and> k \<in> dom (entity_at d)" if "k \<in> set ?kids" for k
    using that active_child_parent [OF dist] by fastforce
  have each: "\<exists>t. each_child (delete_entity sv hook now fuel True actor) ks u = Some (Inr (), t)
      \<and> same_tree (ss_db t) (archived_set (B \<union> (\<Union>k \<in> set ks. cascade_set d k)) d)"
    if "set ks \<subseteq> set ?kids" "distinct ks" "\<forall>k \<in> set ks. below (parent_map d) k \<inter> B = {}"
      "same_tree (ss_db u) (archived_set B d)" for ks u B
    using that
  proof (induction ks arbitrary: u B)
    case (Cons k ks)
    have k: "parent_map d k = Some i" "k \<in> dom (entity_at d)" using kids Cons.prems(1) by auto
    have "card (below (parent_map d) k) < card (below (parent_map d) i)"
      by (rule psubset_card_mono [OF fin [OF Suc.prems(1)] below_child [OF acy k(1)]])
    then have "card (below (parent_map d) k) \<le> fuel" using Suc.prems(4) by simp
    then obtain v where v: "delete_entity sv hook now fuel True actor k u = Some (Inr True, v)"
      "same_tree (ss_db v) (archived_set (B \<union> cascade_set d k) d)"
      using Suc.IH [OF k(2) _ Cons.prems(4), where cascade = True] Cons.prems(3) by auto
    have "below (parent_map d) l \<inter> (B \<union> cascade_set d k) = {}" if "l \<in> set ks" for l
    proof -
      have "parent_map d l = Some i" "l \<noteq> k" using that kids Cons.prems(1,2) by auto
      then have "below (parent_map d) l \<inter> below (parent_map d) k = {}"
        using siblings_disjoint [OF acy _ k(1)] by blast
      moreover have "below (parent_map d) l \<inter> B = {}" using that Cons.prems(3) by simp
      moreover have "cascade_set d k \<subseteq> below (parent_map d) k" by (rule cascade_below [OF dist])
      ultimately show ?thesis by blast
    qed
    then obtain t where "each_child (delete_entity sv hook now fuel True actor) ks v = Some (Inr (), t)"
      "same_tree (ss_db t) (archived_set ((B \<union> cascade_set d k) \<union> (\<Union>k \<in> set ks. cascade_set d k)) d)"
      using Cons.IH [of "B \<union> cascade_set d k" v] Cons.prems(1,2) v(2) by auto
    then show ?case using v(1) by (simp add: Un_assoc)
  qed simp
  have "\<exists>u. (if cascade then each_child (delete_entity sv hook now fuel True actor) ?kids s else Some (Inr (), s))
      = Some (Inr (), u) \<and> same_tree (ss_db u) (archived_set (A \<union> (\<Union>k \<in> set ?kids. cascade_set d k)) d)"
  proof (cases cascade)
    case True
    have "distinct ?kids"
      using dist unfolding active_children_def by (simp add: take_map [symmetric] distinct_map_filter)
    moreover have "below (parent_map d) k \<inter> A = {}" if "k \<in> set ?kids" for k
      using below_child [OF acy, of k i] kids [OF that] Suc.prems(2) by auto
    ultimately show ?thesis using each [OF order_refl _ _ Suc.prems(3)] True by auto
  qed (use Suc.prems(3,5) in simp)
  then obtain u where u: "(if cascade then each_child (delete_entity sv hook now fuel True actor) ?kids s
        else Some (Inr (), s)) = Some (Inr (), u)"
    and ut: "same_tree (ss_db u) (archived_set (A \<union> (\<Union>k \<in> set ?kids. cascade_set d k)) d)" by blast
  let ?B = "A \<union> (\<Union>k \<in> set ?kids. cascade_set d k)"
  define e1 where "e1 = (case entity_at (ss_db u) i of None \<Rightarrow> e | Some x \<Rightarrow> x)"
  have key: "e_id e1 = i" using entity_of_key [OF e] entity_of_key by (auto simp: e1_def split: option.split)
  obtain t where t: "archive_entity sv hook now e1 cascade actor u = (Inr (), t)"
    using returnsD [OF archive_entity_returns] by fastforce
  have "delete_entity sv hook now (Suc fuel) cascade actor i s =
      Some (bind_op (archive_entity sv hook now e1 cascade actor) (\<lambda>_. ret True) u)"
    using get u children Suc.prems(5) unfolding e1_def by (auto simp: Let_def)
  then have run: "delete_entity sv hook now (Suc fuel) cascade actor i s = Some (Inr True, t)"
    by (simp add: bind_op_run [where m = "archive_entity sv hook now e1 cascade actor", OF t])
  have "same_tree (ss_db t) (delete_closure_records i (set_archived i (ss_db u)))"
    using archive_entity_tree [of sv now e1 cascade actor u] t key by simp
  moreover have "same_tree (delete_closure_records i (set_archived i (ss_db u)))
      (delete_closure_records i (set_archived i (archived_set ?B d)))"
    using ut by (simp add: same_tree_def delete_closure_records_def set_archived_def)
  ultimately have "same_tree (ss_db t) (archived_set (insert i ?B) d)"
    using archived_insert [of i ?B d] by (simp add: same_tree_def)
  moreover have "insert i ?B = A \<union> cascade_set d i"
    using cascade_set_unfold [of d i] by auto
  ultimately show ?case using run by simp
qed

end

end
