(* ===== verification/Membership.thy ===== *)
theory Membership
  imports EntityTree
begin

text \<open>
  Entity memberships, \<open>outlabs_auth/services/membership.py\<close> with \<open>utils/lifecycle.py\<close>: adding, updating,
  suspending, reactivating and revoking memberships, the roles a membership may carry, the history rows
  and the user audit events each change leaves.

  A new row's identifier and the current time are arguments. The ancestor sets that the service memoizes
  per request are read from the closure table. Logging is left out.
\<close>

record membership_service =
  mb_hierarchy :: bool
  mb_enforce :: bool
  mb_audit :: bool
  mb_cache :: bool
  mb_iso :: "pydatetime \<Rightarrow> string"

section \<open>Lookups\<close>

definition user_of :: "db \<Rightarrow> uuid \<Rightarrow> user_row option" where
  "user_of d u = row_by u_id u (tb_users d)"

definition membership_of :: "db \<Rightarrow> uuid \<Rightarrow> uuid \<Rightarrow> entity_membership option" where
  "membership_of d e u = List.find (\<lambda>m. em_user m = u \<and> em_entity m = e) (tb_entity_members d)"

text \<open>\<open>_get_root_entity_id\<close>: the most distant ancestor, the entity itself without closure rows.\<close>

definition member_root :: "db \<Rightarrow> uuid \<Rightarrow> uuid" where
  "member_root d e = (case ancestor_rows d e of [] \<Rightarrow> e | r # _ \<Rightarrow> cl_ancestor r)"

definition entity_ancestor_ids :: "db \<Rightarrow> uuid \<Rightarrow> uuid set" where
  "entity_ancestor_ids d e = set (map cl_ancestor (filter (\<lambda>r. cl_descendant r = e) (tb_closure d)))"

fun fetch_roles_by_ids :: "db \<Rightarrow> uuid list \<Rightarrow> err + role_row list" where
  "fetch_roles_by_ids d [] = Inr []"
| "fetch_roles_by_ids d (i # is) =
     (case role_of d i of
        None \<Rightarrow> Inl (Auth RoleNotFoundError ''Role not found'' [(''role_id'', PStr i)])
      | Some r \<Rightarrow> bindE (fetch_roles_by_ids d is) (\<lambda>rs. Inr (r # rs)))"

definition membership_not_found :: "uuid \<Rightarrow> uuid \<Rightarrow> err" where
  "membership_not_found e u =
     Auth MembershipNotFoundError ''Membership not found'' [(''entity_id'', PStr e), (''user_id'', PStr u)]"

definition get_membership :: "uuid \<Rightarrow> uuid \<Rightarrow> entity_membership op" where
  "get_membership e u = bind_op (read_db (\<lambda>d. membership_of d e u)) (\<lambda>m. case m of
     Some x \<Rightarrow> ret x | None \<Rightarrow> raise_op (membership_not_found e u))"

section \<open>Role availability\<close>

definition allows_entity_type :: "role_row \<Rightarrow> string option \<Rightarrow> bool" where
  "allows_entity_type r typ \<longleftrightarrow>
     (if r_assignable_types r = [] then True
      else case typ of
        None \<Rightarrow> False
      | Some t \<Rightarrow> t \<noteq> [] \<and> py_lower t \<in> set (map py_lower (r_assignable_types r)))"

definition role_available :: "db \<Rightarrow> role_row \<Rightarrow> uuid \<Rightarrow> uuid \<Rightarrow> string option \<Rightarrow> bool" where
  "role_available d r e root_id typ \<longleftrightarrow>
     (if r_status r \<noteq> DActive then False
      else if \<not> allows_entity_type r typ then False
      else if r_is_global r \<and> r_root_entity r = None \<and> r_scope_entity r = None then True
      else case r_scope_entity r of
        None \<Rightarrow> (case r_root_entity r of None \<Rightarrow> False | Some home \<Rightarrow> home = root_id)
      | Some s \<Rightarrow>
          if (case r_root_entity r of None \<Rightarrow> False | Some home \<Rightarrow> home \<noteq> root_id) then False
          else if r_scope r = Hierarchy then s \<in> entity_ancestor_ids d e
          else s = e)"

definition auto_assigned_roles :: "db \<Rightarrow> uuid \<Rightarrow> role_row list" where
  "auto_assigned_roles d e =
     (case entity_at d e of
        None \<Rightarrow> []
      | Some en \<Rightarrow>
          if entity_ancestor_ids d e = {} then []
          else filter (\<lambda>r. allows_entity_type r (Some (e_type en)))
            (sort_key r_name (filter (\<lambda>r. r_status r = DActive \<and> r_auto_assigned r
               \<and> ((r_scope_entity r = Some e \<and> r_scope r = EntityOnly)
                  \<or> (in_ids (entity_ancestor_ids d e) (r_scope_entity r) \<and> r_scope r = Hierarchy)))
               (tb_roles d))))"

definition role_unavailable :: "role_row \<Rightarrow> uuid \<Rightarrow> err" where
  "role_unavailable r e =
     invalid_input (''Role '' @ squote (r_name r) @ '' is not available for this entity'')
       [(''role_id'', PStr (r_id r)), (''role_name'', PStr (r_name r)), (''entity_id'', PStr e),
        (''role_root_entity_id'', opt_str (r_root_entity r))]"

fun check_roles_available :: "db \<Rightarrow> uuid \<Rightarrow> uuid \<Rightarrow> string \<Rightarrow> role_row list \<Rightarrow> err + unit" where
  "check_roles_available d e root_id typ [] = Inr ()"
| "check_roles_available d e root_id typ (r # rs) =
     (if role_available d r e root_id (Some typ) then check_roles_available d e root_id typ rs
      else Inl (role_unavailable r e))"

section \<open>Snapshots\<close>

record member_snapshot =
  mn_status :: string
  mn_from :: "datetime option"
  mn_until :: "datetime option"
  mn_roles :: "uuid list"
  mn_role_names :: "string list"
  mn_entity_name :: "string option"
  mn_path :: "string list"
  mn_root :: uuid
  mn_root_name :: "string option"

record entity_context =
  ec_name :: "string option"
  ec_path :: "string list"
  ec_root :: uuid
  ec_root_name :: "string option"

text \<open>Ancestors with their names, the root first (the join of the closure table and the entities).\<close>

definition named_ancestors :: "db \<Rightarrow> uuid \<Rightarrow> (uuid \<times> string) list" where
  "named_ancestors d e =
     List.map_filter (\<lambda>r. map_option (\<lambda>x. (cl_ancestor r, e_display_name x)) (entity_at d (cl_ancestor r)))
       (ancestor_rows d e)"

text \<open>\<open>_entity_snapshot_contexts\<close>, for one of its entities.\<close>

definition snapshot_context :: "db \<Rightarrow> uuid \<Rightarrow> entity_context" where
  "snapshot_context d e =
     (case named_ancestors d e of
        [] \<Rightarrow> \<lparr>ec_name = None, ec_path = [], ec_root = e, ec_root_name = None\<rparr>
      | (a, n) # rest \<Rightarrow>
          \<lparr>ec_name = Some (snd (last ((a, n) # rest))),
           ec_path = filter (\<lambda>x. x \<noteq> []) (map snd ((a, n) # rest)), ec_root = a, ec_root_name = Some n\<rparr>)"

text \<open>The context a snapshot derives by itself.\<close>

definition own_context :: "db \<Rightarrow> uuid \<Rightarrow> entity_context" where
  "own_context d e =
     (let path = filter (\<lambda>x. x \<noteq> []) (map snd (named_ancestors d e)); r = member_root d e in
      \<lparr>ec_name = map_option e_display_name (entity_at d e), ec_path = path, ec_root = r,
       ec_root_name = (case entity_at d r of
          Some x \<Rightarrow> Some (e_display_name x)
        | None \<Rightarrow> (case path of [] \<Rightarrow> None | p # _ \<Rightarrow> Some p))\<rparr>)"

definition sorted_roles :: "db \<Rightarrow> entity_membership \<Rightarrow> role_row list" where
  "sorted_roles d m = sort_key r_id (membership_roles d m)"

definition snapshot_in :: "entity_context \<Rightarrow> db \<Rightarrow> entity_membership \<Rightarrow> member_snapshot" where
  "snapshot_in c d m =
     \<lparr>mn_status = membership_status_value (em_status m), mn_from = em_from m, mn_until = em_until m,
      mn_roles = map r_id (sorted_roles d m),
      mn_role_names = map (\<lambda>r. if r_display_name r = [] then r_name r else r_display_name r)
        (filter (\<lambda>r. r_name r \<noteq> []) (sorted_roles d m)),
      mn_entity_name = ec_name c, mn_path = ec_path c, mn_root = ec_root c, mn_root_name = ec_root_name c\<rparr>"

definition membership_snapshot :: "db \<Rightarrow> entity_membership \<Rightarrow> member_snapshot" where
  "membership_snapshot d m = snapshot_in (own_context d (em_entity m)) d m"

definition snapshot_payload :: "member_snapshot \<Rightarrow> snapshot" where
  "snapshot_payload n =
    [(''status'', PStr (mn_status n)), (''valid_from'', time_val (mn_from n)), (''valid_until'', time_val (mn_until n)),
     (''role_ids'', strs (mn_roles n)), (''role_names'', strs (mn_role_names n)),
     (''entity_display_name'', opt_str (mn_entity_name n)), (''entity_path'', strs (mn_path n)),
     (''root_entity_id'', PStr (mn_root n)), (''root_entity_name'', opt_str (mn_root_name n))]"

section \<open>History\<close>

definition membership_audit_type :: "string \<Rightarrow> string option" where
  "membership_audit_type t =
     map_of [(''created'', ''user.membership_created''), (''updated'', ''user.membership_updated''),
       (''suspended'', ''user.membership_suspended''), (''reactivated'', ''user.membership_reactivated''),
       (''revoked'', ''user.membership_revoked''),
       (''entity_archived'', ''user.membership_entity_archived'')] t"

definition membership_audit ::
  "membership_service \<Rightarrow> datetime \<Rightarrow> entity_membership \<Rightarrow> string \<Rightarrow> string \<Rightarrow> uuid option \<Rightarrow> string option
     \<Rightarrow> member_snapshot option \<Rightarrow> member_snapshot \<Rightarrow> unit op" where
  "membership_audit sv now m typ src actor reason prev cur =
     (if \<not> mb_audit sv then ret ()
      else case membership_audit_type typ of
        None \<Rightarrow> ret ()
      | Some kind \<Rightarrow>
          bind_op (read_db (\<lambda>d. user_of d (em_user m))) (\<lambda>u. case u of
            None \<Rightarrow> ret ()
          | Some x \<Rightarrow> audit_event (mb_iso sv) \<lparr>au_category = ''membership'', au_type = kind, au_source = src,
              au_subject = Some (u_id x), au_email = u_email x, au_actor = actor,
              au_root = Some (mn_root cur), au_entity = Some (em_entity m), au_role = None, au_reason = reason,
              au_before = map_option snapshot_payload prev, au_after = Some (snapshot_payload cur),
              au_metadata = Some [(''membership_id'', PStr (em_id m)), (''history_event_type'', PStr typ),
                (''entity_display_name'', opt_str (mn_entity_name cur)), (''entity_path'', strs (mn_path cur)),
                (''root_entity_name'', opt_str (mn_root_name cur))], au_at = now\<rparr>))"

definition history_of ::
  "datetime \<Rightarrow> entity_membership \<Rightarrow> string \<Rightarrow> string \<Rightarrow> uuid option \<Rightarrow> string option \<Rightarrow> member_snapshot option
     \<Rightarrow> member_snapshot \<Rightarrow> history_row" where
  "history_of now m typ src actor reason prev cur =
     \<lparr>hi_membership = em_id m, hi_user = em_user m, hi_entity = em_entity m, hi_root = Some (mn_root cur),
      hi_actor = actor, hi_type = typ, hi_source = src, hi_at = now, hi_reason = reason,
      hi_status = mn_status cur, hi_prev_status = map_option mn_status prev, hi_from = mn_from cur,
      hi_until = mn_until cur, hi_prev_from = (case prev of None \<Rightarrow> None | Some p \<Rightarrow> mn_from p),
      hi_prev_until = (case prev of None \<Rightarrow> None | Some p \<Rightarrow> mn_until p), hi_roles = mn_roles cur,
      hi_prev_roles = (case prev of None \<Rightarrow> [] | Some p \<Rightarrow> mn_roles p), hi_role_names = mn_role_names cur,
      hi_prev_role_names = (case prev of None \<Rightarrow> [] | Some p \<Rightarrow> mn_role_names p),
      hi_entity_name = mn_entity_name cur, hi_path = mn_path cur, hi_root_name = mn_root_name cur\<rparr>"

definition record_membership_history ::
  "membership_service \<Rightarrow> datetime \<Rightarrow> entity_membership \<Rightarrow> string \<Rightarrow> string \<Rightarrow> uuid option \<Rightarrow> string option
     \<Rightarrow> member_snapshot option \<Rightarrow> member_snapshot \<Rightarrow> unit op" where
  "record_membership_history sv now m typ src actor reason prev cur =
     bind_op (modify_op (\<lambda>s. s\<lparr>ss_history := ss_history s @ [history_of now m typ src actor reason prev cur]\<rparr>)) (\<lambda>_.
     membership_audit sv now m typ src actor reason prev cur)"

text \<open>\<open>_determine_membership_event_type\<close>\<close>

definition membership_event_type :: "member_snapshot \<Rightarrow> member_snapshot \<Rightarrow> bool \<Rightarrow> string option" where
  "membership_event_type prev cur reason_changed =
     (if mn_status prev \<noteq> mn_status cur then
        (if mn_status cur = ''revoked'' then Some ''revoked''
         else if mn_status cur = ''suspended'' then Some ''suspended''
         else if mn_status cur = ''active'' then Some ''reactivated'' else Some ''updated'')
      else if mn_roles prev \<noteq> mn_roles cur then Some ''updated''
      else if mn_from prev \<noteq> mn_from cur then Some ''updated''
      else if mn_until prev \<noteq> mn_until cur then Some ''updated''
      else if reason_changed then Some ''updated'' else None)"

definition invalidate_member :: "membership_service \<Rightarrow> uuid \<Rightarrow> unit op" where
  "invalidate_member sv u = publish_change (mb_cache sv) [PublishUser u]"


section \<open>Rules of a change\<close>

text \<open>
  \<open>lifecycle_update_grants_access\<close>: whether an edit (re)grants the access the row carries. The stored
  instants are in UTC already, so \<open>_as_utc\<close> changes nothing.
\<close>

definition later_end :: "datetime option \<Rightarrow> datetime option \<Rightarrow> bool" where
  "later_end cur nxt \<longleftrightarrow> (case cur of None \<Rightarrow> False
     | Some c \<Rightarrow> (case nxt of None \<Rightarrow> True | Some n \<Rightarrow> c < n))"

definition earlier_start :: "datetime option \<Rightarrow> datetime option \<Rightarrow> bool" where
  "earlier_start cur nxt \<longleftrightarrow> (case cur of None \<Rightarrow> False
     | Some c \<Rightarrow> (case nxt of None \<Rightarrow> True | Some n \<Rightarrow> n < c))"

definition lifecycle_update_grants_access ::
  "membership_status \<Rightarrow> datetime option \<Rightarrow> datetime option \<Rightarrow> membership_status \<Rightarrow> datetime option
     \<Rightarrow> datetime option \<Rightarrow> bool" where
  "lifecycle_update_grants_access st from until st1 from1 until1 \<longleftrightarrow>
     (if st1 \<noteq> MActive then False
      else if st \<noteq> MActive then True
      else if later_end until until1 then True
      else earlier_start from from1)"

definition window_inverted :: "datetime option \<Rightarrow> datetime option \<Rightarrow> bool" where
  "window_inverted from until \<longleftrightarrow>
     (case from of None \<Rightarrow> False | Some f \<Rightarrow> (case until of None \<Rightarrow> False | Some u \<Rightarrow> u < f))"

definition check_window :: "uuid \<Rightarrow> uuid \<Rightarrow> datetime option \<Rightarrow> datetime option \<Rightarrow> unit op" where
  "check_window e u from until =
     (if window_inverted from until
      then raise_op (invalid_input ''valid_until must be after valid_from''
             [(''entity_id'', PStr e), (''user_id'', PStr u)])
      else ret ())"

definition holder_in_tree :: "membership_service \<Rightarrow> db \<Rightarrow> uuid \<Rightarrow> uuid \<Rightarrow> bool" where
  "holder_in_tree sv d e u \<longleftrightarrow>
     (if \<not> (mb_hierarchy sv \<and> mb_enforce sv) then True
      else case user_of d u of
        None \<Rightarrow> True
      | Some x \<Rightarrow> (case u_root_entity x of None \<Rightarrow> True | Some r \<Rightarrow> member_root d e = r))"

definition require_holder_in_entity_tree :: "membership_service \<Rightarrow> uuid \<Rightarrow> uuid \<Rightarrow> unit op" where
  "require_holder_in_entity_tree sv e u = bind_op (read_db (\<lambda>d. holder_in_tree sv d e u)) (\<lambda>ok.
     if ok then ret ()
     else raise_op (invalid_input
       (''This membership belongs to a user rooted in another organization and cannot be ''
        @ ''re-granted; add a member of this organization instead'')
       [(''reason'', PStr ''membership_root_mismatch''), (''entity_id'', PStr e), (''user_id'', PStr u)]))"

section \<open>Writing a membership\<close>

definition put_membership :: "entity_membership \<Rightarrow> db \<Rightarrow> db" where
  "put_membership m d = d\<lparr>tb_entity_members := set_row em_id m (tb_entity_members d)\<rparr>"

text \<open>
  The rows of the junction table. Its key is the pair, so a role named twice is refused by the database.
\<close>

definition member_links :: "uuid \<Rightarrow> role_row list \<Rightarrow> db \<Rightarrow> db" where
  "member_links mid rs d = d\<lparr>tb_member_roles := tb_member_roles d @ map (\<lambda>r. (mid, r_id r)) rs\<rparr>"

definition clear_links :: "uuid \<Rightarrow> db \<Rightarrow> db" where
  "clear_links mid d = d\<lparr>tb_member_roles := filter (\<lambda>(i, _). i \<noteq> mid) (tb_member_roles d)\<rparr>"

definition add_links :: "uuid \<Rightarrow> role_row list \<Rightarrow> unit op" where
  "add_links mid rs =
     (if distinct (map r_id rs) then write_db (member_links mid rs) else raise_op (Builtin IntegrityError))"

definition replace_links :: "uuid \<Rightarrow> role_row list \<Rightarrow> unit op" where
  "replace_links mid rs = bind_op (write_db (clear_links mid)) (\<lambda>_. add_links mid rs)"

definition em_revoke :: "datetime \<Rightarrow> uuid option \<Rightarrow> string option \<Rightarrow> entity_membership \<Rightarrow> entity_membership" where
  "em_revoke now revoker reason m =
     m\<lparr>em_status := MRevoked, em_revoked_at := Some now, em_revoked_by := revoker, em_reason := reason\<rparr>"

definition em_suspend :: "string option \<Rightarrow> entity_membership \<Rightarrow> entity_membership" where
  "em_suspend reason m = m\<lparr>em_status := MSuspended, em_reason := reason\<rparr>"

definition em_reactivate :: "entity_membership \<Rightarrow> entity_membership" where
  "em_reactivate m = m\<lparr>em_status := MActive, em_reason := None, em_revoked_at := None, em_revoked_by := None\<rparr>"

text \<open>A change of status that is always recorded, and one that is recorded when the snapshots differ.\<close>

definition record_member_event ::
  "membership_service \<Rightarrow> datetime \<Rightarrow> entity_membership \<Rightarrow> string \<Rightarrow> string \<Rightarrow> uuid option \<Rightarrow> string option
     \<Rightarrow> member_snapshot option \<Rightarrow> unit op" where
  "record_member_event sv now m typ src actor reason prev =
     bind_op (read_db (\<lambda>d. membership_snapshot d m)) (\<lambda>cur.
     record_membership_history sv now m typ src actor reason prev cur)"

definition record_difference ::
  "membership_service \<Rightarrow> datetime \<Rightarrow> entity_membership \<Rightarrow> string \<Rightarrow> uuid option \<Rightarrow> member_snapshot
     \<Rightarrow> string option \<Rightarrow> unit op" where
  "record_difference sv now m src actor prev prev_reason =
     bind_op (read_db (\<lambda>d. membership_snapshot d m)) (\<lambda>cur.
     case membership_event_type prev cur (prev_reason \<noteq> em_reason m) of
       None \<Rightarrow> ret ()
     | Some typ \<Rightarrow> record_membership_history sv now m typ src actor (em_reason m) (Some prev) cur)"

section \<open>Adding\<close>

definition unknown_user :: "uuid \<Rightarrow> err" where
  "unknown_user u = Auth UserNotFoundError ''User not found'' [(''user_id'', PStr u)]"

text \<open>The holder joins the entity's tree, or is already in it.\<close>

definition root_holder :: "user_row \<Rightarrow> uuid \<Rightarrow> unit op" where
  "root_holder u root_id =
     (case u_root_entity u of
        None \<Rightarrow> write_db (\<lambda>d. d\<lparr>tb_users := set_row u_id (u\<lparr>u_root_entity := Some root_id\<rparr>) (tb_users d)\<rparr>)
      | Some r \<Rightarrow>
          if r \<noteq> root_id
          then raise_op (invalid_input ''User belongs to a different organization''
                 [(''user_id'', PStr (u_id u)), (''user_root_entity_id'', PStr r),
                  (''entity_root_entity_id'', PStr root_id)])
          else ret ())"

definition merge_roles :: "role_row list \<Rightarrow> role_row list \<Rightarrow> role_row list" where
  "merge_roles roles auto = roles @ filter (\<lambda>r. r_id r \<notin> set (map r_id roles)) auto"

definition active_members :: "db \<Rightarrow> uuid \<Rightarrow> nat" where
  "active_members d e = count_where (\<lambda>m. em_entity m = e \<and> em_status m = MActive) (tb_entity_members d)"

definition check_capacity :: "entity_row \<Rightarrow> unit op" where
  "check_capacity e =
     (case e_max_members e of
        None \<Rightarrow> ret ()
      | Some n \<Rightarrow>
          if n = 0 then ret ()
          else bind_op (read_db (\<lambda>d. active_members d (e_id e))) (\<lambda>c.
            if n \<le> int c
            then raise_op (invalid_input (''Entity has reached maximum members limit ('' @ show_int n @ '')'')
                   [(''entity_id'', PStr (e_id e)), (''max_members'', PInt n), (''current_members'', PInt (int c))])
            else ret ()))"

definition readd ::
  "datetime option \<Rightarrow> datetime option \<Rightarrow> membership_status \<Rightarrow> string option \<Rightarrow> entity_membership
     \<Rightarrow> entity_membership" where
  "readd from until st reason m =
     (let m1 = m\<lparr>em_status := st, em_from := from, em_until := until\<rparr> in
      if st = MActive then m1\<lparr>em_revoked_at := None, em_revoked_by := None, em_reason := None\<rparr>
      else m1\<lparr>em_reason := reason\<rparr>)"

definition new_membership ::
  "datetime \<Rightarrow> uuid \<Rightarrow> uuid \<Rightarrow> uuid \<Rightarrow> uuid option \<Rightarrow> datetime option \<Rightarrow> datetime option \<Rightarrow> membership_status
     \<Rightarrow> string option \<Rightarrow> entity_membership" where
  "new_membership now i e u joiner from until st reason =
     \<lparr>em_id = i, em_user = u, em_entity = e, em_joined_at = now, em_joined_by = joiner, em_from = from,
      em_until = until, em_status = st, em_revoked_at = None, em_revoked_by = None, em_reason = reason\<rparr>"

definition readd_member ::
  "membership_service \<Rightarrow> datetime \<Rightarrow> entity_membership \<Rightarrow> role_row list \<Rightarrow> uuid option
     \<Rightarrow> datetime option \<Rightarrow> datetime option \<Rightarrow> membership_status \<Rightarrow> string option \<Rightarrow> entity_membership op" where
  "readd_member sv now m roles actor from until st reason =
     bind_op (read_db (\<lambda>d. membership_snapshot d m)) (\<lambda>prev.
     let m1 = readd from until st reason m in
     bind_op (write_db (put_membership m1)) (\<lambda>_.
     bind_op (replace_links (em_id m) roles) (\<lambda>_.
     bind_op (record_difference sv now m1 ''membership_service.add_member'' actor prev (em_reason m)) (\<lambda>_.
     bind_op (invalidate_member sv (em_user m)) (\<lambda>_. ret m1)))))"

definition insert_member ::
  "membership_service \<Rightarrow> datetime \<Rightarrow> entity_membership \<Rightarrow> role_row list \<Rightarrow> uuid option \<Rightarrow> entity_membership op" where
  "insert_member sv now m roles actor =
     bind_op (write_db (\<lambda>d. d\<lparr>tb_entity_members := tb_entity_members d @ [m]\<rparr>)) (\<lambda>_.
     bind_op (add_links (em_id m) roles) (\<lambda>_.
     bind_op (record_member_event sv now m ''created'' ''membership_service.add_member'' actor (em_reason m) None) (\<lambda>_.
     bind_op (invalidate_member sv (em_user m)) (\<lambda>_. ret m))))"

definition add_member ::
  "membership_service \<Rightarrow> datetime \<Rightarrow> uuid \<Rightarrow> uuid \<Rightarrow> uuid \<Rightarrow> uuid list \<Rightarrow> uuid option \<Rightarrow> datetime option
     \<Rightarrow> datetime option \<Rightarrow> membership_status \<Rightarrow> string option \<Rightarrow> bool \<Rightarrow> entity_membership op" where
  "add_member sv now i e u role_ids actor from until st reason skip_auto =
     bind_op (check_window e u from until) (\<lambda>_.
     bind_op (get_entity e) (\<lambda>en.
     bind_op (read_db (\<lambda>d. user_of d u)) (\<lambda>found. case found of
       None \<Rightarrow> raise_op (unknown_user u)
     | Some usr \<Rightarrow>
         bind_op (read_db (\<lambda>d. fetch_roles_by_ids d role_ids)) (\<lambda>fetched.
         bind_op (lift_op fetched) (\<lambda>requested.
         bind_op (read_db (\<lambda>d. member_root d e)) (\<lambda>root_id.
         bind_op (root_holder usr root_id) (\<lambda>_.
         bind_op (read_db (\<lambda>d. if skip_auto then requested else merge_roles requested (auto_assigned_roles d e))) (\<lambda>roles.
         bind_op (read_db (\<lambda>d. check_roles_available d e root_id (e_type en) roles)) (\<lambda>usable.
         bind_op (lift_op usable) (\<lambda>_.
         bind_op (read_db (\<lambda>d. membership_of d e u)) (\<lambda>existing. case existing of
           Some m \<Rightarrow> readd_member sv now m roles actor from until st reason
         | None \<Rightarrow>
             bind_op (check_capacity en) (\<lambda>_.
             insert_member sv now (new_membership now i e u actor from until st reason) roles actor))))))))))))"


section \<open>Changing a membership\<close>

definition change_status ::
  "membership_service \<Rightarrow> datetime \<Rightarrow> (entity_membership \<Rightarrow> entity_membership) \<Rightarrow> string \<Rightarrow> string \<Rightarrow> uuid option
     \<Rightarrow> string option \<Rightarrow> entity_membership \<Rightarrow> entity_membership op" where
  "change_status sv now change typ src actor reason m =
     bind_op (read_db (\<lambda>d. membership_snapshot d m)) (\<lambda>prev.
     bind_op (write_db (put_membership (change m))) (\<lambda>_.
     bind_op (record_member_event sv now (change m) typ src actor reason (Some prev)) (\<lambda>_.
     bind_op (invalidate_member sv (em_user m)) (\<lambda>_. ret (change m)))))"

definition remove_member ::
  "membership_service \<Rightarrow> datetime \<Rightarrow> uuid \<Rightarrow> uuid \<Rightarrow> uuid option \<Rightarrow> string option \<Rightarrow> bool op" where
  "remove_member sv now e u revoker reason =
     bind_op (get_membership e u) (\<lambda>m.
     bind_op (change_status sv now (em_revoke now revoker reason) ''revoked''
                ''membership_service.remove_member'' revoker reason m) (\<lambda>_. ret True))"

definition suspend_membership ::
  "membership_service \<Rightarrow> datetime \<Rightarrow> uuid \<Rightarrow> uuid \<Rightarrow> string option \<Rightarrow> entity_membership op" where
  "suspend_membership sv now e u reason =
     bind_op (get_membership e u) (\<lambda>m.
     change_status sv now (em_suspend reason) ''suspended'' ''membership_service.suspend_membership'' None reason m)"

definition reactivate_membership ::
  "membership_service \<Rightarrow> datetime \<Rightarrow> uuid \<Rightarrow> uuid \<Rightarrow> entity_membership op" where
  "reactivate_membership sv now e u =
     bind_op (get_membership e u) (\<lambda>m.
     bind_op (require_holder_in_entity_tree sv e u) (\<lambda>_.
     change_status sv now em_reactivate ''reactivated'' ''membership_service.reactivate_membership'' None None m))"

text \<open>The fields of \<open>update_membership\<close> whose flag is set.\<close>

record member_update =
  mu_roles :: "uuid list option"
  mu_status :: "membership_status option"
  mu_from :: "datetime option option"
  mu_until :: "datetime option option"
  mu_reason :: "string option option"

definition no_update :: member_update where
  "no_update = \<lparr>mu_roles = None, mu_status = None, mu_from = None, mu_until = None, mu_reason = None\<rparr>"

definition updated_membership :: "uuid option \<Rightarrow> member_update \<Rightarrow> entity_membership \<Rightarrow> entity_membership" where
  "updated_membership actor c m =
     (let m1 = m\<lparr>em_from := set_field (mu_from c) (em_from m), em_until := set_field (mu_until c) (em_until m),
                 em_reason := set_field (mu_reason c) (em_reason m)\<rparr> in
      case mu_status c of
        None \<Rightarrow> m1
      | Some MActive \<Rightarrow>
          (let m2 = m1\<lparr>em_status := MActive, em_revoked_at := None, em_revoked_by := None\<rparr> in
           if mu_reason c = None then m2\<lparr>em_reason := None\<rparr> else m2)
      | Some MSuspended \<Rightarrow> m1\<lparr>em_status := MSuspended, em_revoked_by := actor\<rparr>
      | Some st \<Rightarrow> m1\<lparr>em_status := st\<rparr>)"

definition next_status :: "member_update \<Rightarrow> entity_membership \<Rightarrow> membership_status" where
  "next_status c m = set_field (mu_status c) (em_status m)"

definition update_grants_again :: "db \<Rightarrow> member_update \<Rightarrow> entity_membership \<Rightarrow> bool" where
  "update_grants_again d c m \<longleftrightarrow>
     (if lifecycle_update_grants_access (em_status m) (em_from m) (em_until m) (next_status c m)
           (set_field (mu_from c) (em_from m)) (set_field (mu_until c) (em_until m)) then True
      else case mu_roles c of
        None \<Rightarrow> False
      | Some ids \<Rightarrow> next_status c m = MActive \<and> \<not> set ids \<subseteq> set (map r_id (membership_roles d m)))"

definition update_links :: "uuid \<Rightarrow> uuid list \<Rightarrow> entity_membership \<Rightarrow> unit op" where
  "update_links e role_ids m =
     bind_op (read_db (\<lambda>d. fetch_roles_by_ids d role_ids)) (\<lambda>fetched.
     bind_op (lift_op fetched) (\<lambda>roles.
     bind_op (get_entity e) (\<lambda>en.
     bind_op (read_db (\<lambda>d. check_roles_available d e (member_root d e) (e_type en) roles)) (\<lambda>usable.
     bind_op (lift_op usable) (\<lambda>_.
     replace_links (em_id m) roles)))))"

definition update_membership ::
  "membership_service \<Rightarrow> datetime \<Rightarrow> uuid \<Rightarrow> uuid \<Rightarrow> member_update \<Rightarrow> uuid option \<Rightarrow> entity_membership op" where
  "update_membership sv now e u c actor =
     bind_op (get_membership e u) (\<lambda>m.
     bind_op (read_db (\<lambda>d. membership_snapshot d m)) (\<lambda>prev.
     bind_op (check_window e u (set_field (mu_from c) (em_from m)) (set_field (mu_until c) (em_until m))) (\<lambda>_.
     bind_op (read_db (\<lambda>d. update_grants_again d c m)) (\<lambda>again.
     bind_op (when_op again (require_holder_in_entity_tree sv e u)) (\<lambda>_.
     bind_op (case mu_roles c of None \<Rightarrow> ret () | Some ids \<Rightarrow> update_links e ids m) (\<lambda>_.
     (let m1 = updated_membership actor c m in
      bind_op (write_db (put_membership m1)) (\<lambda>_.
      bind_op (record_difference sv now m1 ''membership_service.update_membership'' actor prev (em_reason m)) (\<lambda>_.
      bind_op (invalidate_member sv u) (\<lambda>_. ret m1))))))))))"

definition update_member_roles ::
  "membership_service \<Rightarrow> datetime \<Rightarrow> uuid \<Rightarrow> uuid \<Rightarrow> uuid list \<Rightarrow> entity_membership op" where
  "update_member_roles sv now e u role_ids =
     update_membership sv now e u (no_update\<lparr>mu_roles := Some role_ids\<rparr>) None"

section \<open>Revoking in bulk\<close>

definition revoke_rows ::
  "(entity_membership \<Rightarrow> bool) \<Rightarrow> datetime \<Rightarrow> uuid option \<Rightarrow> string option \<Rightarrow> db \<Rightarrow> db" where
  "revoke_rows p now revoker reason d =
     d\<lparr>tb_entity_members := map (\<lambda>m. if p m \<and> em_status m \<noteq> MRevoked then em_revoke now revoker reason m else m)
        (tb_entity_members d)\<rparr>"

definition context_snapshot :: "db \<Rightarrow> entity_membership \<Rightarrow> member_snapshot" where
  "context_snapshot d m = snapshot_in (snapshot_context d (em_entity m)) d m"

definition record_revocation ::
  "membership_service \<Rightarrow> datetime \<Rightarrow> string \<Rightarrow> string \<Rightarrow> uuid option \<Rightarrow> string option
     \<Rightarrow> entity_membership \<times> member_snapshot \<Rightarrow> unit op" where
  "record_revocation sv now typ src revoker reason = (\<lambda>(m, prev).
     bind_op (read_db (\<lambda>d. context_snapshot d (em_revoke now revoker reason m))) (\<lambda>cur.
     record_membership_history sv now (em_revoke now revoker reason m) typ src revoker reason (Some prev) cur))"

definition revoke_all ::
  "membership_service \<Rightarrow> datetime \<Rightarrow> (entity_membership \<Rightarrow> bool) \<Rightarrow> string \<Rightarrow> string \<Rightarrow> uuid option
     \<Rightarrow> string option \<Rightarrow> entity_membership list op" where
  "revoke_all sv now p typ src revoker reason =
     bind_op (read_db (\<lambda>d. filter (\<lambda>m. p m \<and> em_status m \<noteq> MRevoked) (tb_entity_members d))) (\<lambda>ms.
     bind_op (read_db (\<lambda>d. map (\<lambda>m. (m, context_snapshot d m)) ms)) (\<lambda>prevs.
     bind_op (write_db (revoke_rows p now revoker reason)) (\<lambda>_.
     bind_op (each_op (record_revocation sv now typ src revoker reason) prevs) (\<lambda>_.
     bind_op (each_op (invalidate_member sv) (first_occurrences (map em_user ms))) (\<lambda>_.
     ret (map (em_revoke now revoker reason) ms))))))"

definition revoke_memberships_for_user ::
  "membership_service \<Rightarrow> datetime \<Rightarrow> uuid \<Rightarrow> uuid option \<Rightarrow> string option \<Rightarrow> string \<Rightarrow> entity_membership list op" where
  "revoke_memberships_for_user sv now u revoker reason src =
     revoke_all sv now (\<lambda>m. em_user m = u) ''revoked'' src revoker reason"

definition archive_memberships_for_entity ::
  "membership_service \<Rightarrow> datetime \<Rightarrow> uuid \<Rightarrow> uuid option \<Rightarrow> string option \<Rightarrow> string \<Rightarrow> entity_membership list op" where
  "archive_memberships_for_entity sv now e revoker reason src =
     revoke_all sv now (\<lambda>m. em_entity m = e) ''entity_archived'' src revoker reason"

section \<open>Automatic assignment\<close>

definition check_auto_role :: "role_row \<Rightarrow> err + uuid" where
  "check_auto_role r =
     (if r_status r \<noteq> DActive
      then Inl (invalid_input ''Only active roles can be auto-assigned''
             [(''role_id'', PStr (r_id r)), (''status'', PStr (definition_status_value (r_status r)))])
      else if \<not> r_auto_assigned r
      then Inl (invalid_input ''Role is not marked as auto-assigned''
             [(''role_id'', PStr (r_id r)), (''is_auto_assigned'', PBool False)])
      else case r_scope_entity r of
        None \<Rightarrow> Inl (invalid_input ''Auto-assigned roles must have a scope_entity_id'' [(''role_id'', PStr (r_id r))])
      | Some s \<Rightarrow> Inr s)"

definition role_targets :: "db \<Rightarrow> role_row \<Rightarrow> uuid \<Rightarrow> uuid list" where
  "role_targets d r s =
     (if r_scope r = EntityOnly then [s]
      else map cl_descendant (filter (\<lambda>c. cl_ancestor c = s) (tb_closure d)))"

text \<open>The memberships that receive the role: active, of a target, of an allowed type, without it.\<close>

definition lacks_auto_role :: "db \<Rightarrow> role_row \<Rightarrow> uuid \<Rightarrow> entity_membership \<Rightarrow> bool" where
  "lacks_auto_role d r s m \<longleftrightarrow>
     em_entity m \<in> set (role_targets d r s) \<and> em_status m = MActive
     \<and> allows_entity_type r (map_option e_type (entity_at d (em_entity m)))
     \<and> r_id r \<notin> set (map r_id (membership_roles d m))"

definition apply_auto_assigned_role :: "uuid \<Rightarrow> nat op" where
  "apply_auto_assigned_role rid =
     bind_op (read_db (\<lambda>d. role_of d rid)) (\<lambda>found. case found of
       None \<Rightarrow> raise_op (Auth RoleNotFoundError ''Role not found'' [(''role_id'', PStr rid)])
     | Some r \<Rightarrow>
         bind_op (lift_op (check_auto_role r)) (\<lambda>s.
         bind_op (read_db (\<lambda>d. map em_id (filter (lacks_auto_role d r s) (tb_entity_members d)))) (\<lambda>mids.
         bind_op (write_db (\<lambda>d. d\<lparr>tb_member_roles := tb_member_roles d @ map (\<lambda>i. (i, rid)) mids\<rparr>)) (\<lambda>_.
         ret (length mids)))))"

section \<open>Reading memberships\<close>

definition member_filter :: "bool \<Rightarrow> entity_membership \<Rightarrow> bool" where
  "member_filter active_only m \<longleftrightarrow> (active_only \<longrightarrow> em_status m = MActive)"

definition get_entity_members :: "db \<Rightarrow> uuid \<Rightarrow> int \<Rightarrow> int \<Rightarrow> bool \<Rightarrow> entity_membership list \<times> nat" where
  "get_entity_members d e page limit active_only =
     (let hits = filter (\<lambda>m. em_entity m = e \<and> member_filter active_only m) (tb_entity_members d)
      in (page_of page limit hits, length hits))"

text \<open>\<open>ilike\<close> on the email and the two names, as the argument \<open>like\<close>.\<close>

definition user_matches :: "(string \<Rightarrow> string \<Rightarrow> bool) \<Rightarrow> string option \<Rightarrow> user_row \<Rightarrow> bool" where
  "user_matches like search u \<longleftrightarrow>
     (case search of
        None \<Rightarrow> True
      | Some q \<Rightarrow> q = [] \<or> like q (u_email u)
          \<or> (case u_first_name u of None \<Rightarrow> False | Some n \<Rightarrow> like q n)
          \<or> (case u_last_name u of None \<Rightarrow> False | Some n \<Rightarrow> like q n))"

definition get_entity_members_with_users ::
  "(string \<Rightarrow> string \<Rightarrow> bool) \<Rightarrow> db \<Rightarrow> uuid \<Rightarrow> int \<Rightarrow> int \<Rightarrow> bool \<Rightarrow> string option \<Rightarrow> entity_membership list \<times> nat" where
  "get_entity_members_with_users like d e page limit active_only search =
     (let hits = filter (\<lambda>m. em_entity m = e \<and> member_filter active_only m
            \<and> (search = None \<or> search = Some []
               \<or> (\<exists>u \<in> set (tb_users d). u_id u = em_user m \<and> user_matches like search u))) (tb_entity_members d)
      in (page_of page limit (sort_key em_joined_at (sort_key em_id hits)), length hits))"

definition get_user_entities ::
  "db \<Rightarrow> uuid \<Rightarrow> int \<Rightarrow> int \<Rightarrow> string option \<Rightarrow> bool \<Rightarrow> entity_membership list \<times> nat" where
  "get_user_entities d u page limit typ active_only =
     (let hits = filter (\<lambda>m. em_user m = u \<and> member_filter active_only m
            \<and> (case typ of None \<Rightarrow> True
               | Some t \<Rightarrow> t = [] \<or> (\<exists>e \<in> set (tb_entities d). e_id e = em_entity m \<and> e_type e = py_lower t)))
            (tb_entity_members d)
      in (page_of page limit hits, length hits))"

definition get_user_memberships :: "db \<Rightarrow> uuid \<Rightarrow> bool \<Rightarrow> entity_membership list" where
  "get_user_memberships d u active_only =
     filter (\<lambda>m. em_user m = u \<and> member_filter active_only m) (tb_entity_members d)"

definition is_member :: "db \<Rightarrow> uuid \<Rightarrow> uuid \<Rightarrow> bool \<Rightarrow> bool" where
  "is_member d e u active_only \<longleftrightarrow>
     (\<exists>m \<in> set (tb_entity_members d). em_user m = u \<and> em_entity m = e \<and> member_filter active_only m)"

definition get_memberships_for_entities :: "db \<Rightarrow> uuid \<Rightarrow> uuid list \<Rightarrow> bool \<Rightarrow> entity_membership list" where
  "get_memberships_for_entities d u es active_only =
     filter (\<lambda>m. em_user m = u \<and> em_entity m \<in> set es \<and> member_filter active_only m) (tb_entity_members d)"

definition get_user_membership_history ::
  "history_row list \<Rightarrow> uuid \<Rightarrow> int \<Rightarrow> int \<Rightarrow> uuid option \<Rightarrow> string option \<Rightarrow> history_row list \<times> nat" where
  "get_user_membership_history rows u page limit e typ =
     (let hits = filter (\<lambda>h. hi_user h = u \<and> (\<forall>x \<in> set_option e. hi_entity h = x)
            \<and> (\<forall>t \<in> set_option typ. t = [] \<or> hi_type h = t)) rows
      in (page_of page limit (sort_key (\<lambda>h. - hi_at h) (rev hits)), length hits))"

record orphan_query =
  oq_search :: "string option"
  oq_root :: "uuid option"
  oq_roots :: "uuid list option"
  oq_status :: "string option"
  oq_deleted :: bool

definition is_orphan :: "(string \<Rightarrow> string \<Rightarrow> bool) \<Rightarrow> db \<Rightarrow> orphan_query \<Rightarrow> user_row \<Rightarrow> bool" where
  "is_orphan like d q u \<longleftrightarrow>
     count_where (\<lambda>m. em_user m = u_id u \<and> em_status m = MActive) (tb_entity_members d) = 0
     \<and> 0 < count_where (\<lambda>m. em_user m = u_id u) (tb_entity_members d)
     \<and> (\<forall>r \<in> set_option (oq_root q). u_root_entity u = Some r)
     \<and> (\<forall>rs \<in> set_option (oq_roots q). \<exists>r \<in> set rs. u_root_entity u = Some r)
     \<and> (case oq_status q of Some st \<Rightarrow> u_status u = st | None \<Rightarrow> oq_deleted q \<or> u_status u \<noteq> ''deleted'')
     \<and> user_matches like (oq_search q) u"

record orphan_record =
  or_user :: user_row
  or_total :: nat
  or_last :: "history_row option"

text \<open>
  \<open>list_orphaned_users\<close>: \<open>recent\<close> is the table ordered by \<open>updated_at\<close> and \<open>created_at\<close>, newest first; the
  history rows come in the order they were written.
\<close>

definition list_orphaned_users ::
  "(string \<Rightarrow> string \<Rightarrow> bool) \<Rightarrow> db \<Rightarrow> history_row list \<Rightarrow> user_row list \<Rightarrow> orphan_query \<Rightarrow> int \<Rightarrow> int
     \<Rightarrow> orphan_record list \<times> nat" where
  "list_orphaned_users like d rows recent q page limit =
     (if oq_roots q = Some [] then ([], 0)
      else let hits = filter (is_orphan like d q) recent in
        (map (\<lambda>u. \<lparr>or_user = u, or_total = count_where (\<lambda>m. em_user m = u_id u) (tb_entity_members d),
                    or_last = List.find (\<lambda>h. hi_user h = u_id u) (sort_key (\<lambda>h. - hi_at h) (rev rows))\<rparr>)
           (page_of page limit hits), length hits))"

end
