(* ===== verification/RoleService.thy ===== *)
theory RoleService
  imports Membership PermDefs
begin

text \<open>
  Roles, \<open>outlabs_auth/services/role.py\<close>: creating, updating and archiving role definitions, their
  permissions, overrides, conditions and condition groups, each with its row of the definition history;
  assigning roles to users, updating and revoking the assignments; which roles an entity may use; and the
  invalidations of the permission cache.

  New identifiers and the current time are arguments. The database reports a violated key when the rows
  are flushed. Logging is left out.
\<close>

record role_service =
  ro_hierarchy :: bool
  ro_enforce :: bool
  ro_history :: bool
  ro_audit :: bool
  ro_cache :: bool
  ro_iso :: "pydatetime \<Rightarrow> string"
  ro_rt :: pyrt
  ro_re_error :: "string \<Rightarrow> string"

section \<open>Guards\<close>

definition role_not_found :: "uuid \<Rightarrow> err" where
  "role_not_found rid = Auth RoleNotFoundError ''Role not found'' [(''role_id'', PStr rid)]"

definition direct_role_root_matches :: "role_service \<Rightarrow> role_row \<Rightarrow> uuid option \<Rightarrow> bool" where
  "direct_role_root_matches sv r user_root \<longleftrightarrow>
     (if \<not> (ro_hierarchy sv \<and> ro_enforce sv) then True
      else case r_root_entity r of None \<Rightarrow> True | Some home \<Rightarrow> user_root = Some home)"

definition require_direct_role_root_match :: "role_service \<Rightarrow> role_row \<Rightarrow> uuid option \<Rightarrow> err + unit" where
  "require_direct_role_root_match sv r user_root =
     requireE (direct_role_root_matches sv r user_root)
       (invalid_input
         (''An organization-scoped role can only be assigned directly to a user rooted in that ''
          @ ''organization; use an entity membership to grant access in another tree'')
         [(''reason'', PStr ''role_root_mismatch''), (''role_id'', PStr (r_id r))])"

definition resolve_role_status ::
  "definition_status option \<Rightarrow> string option \<Rightarrow> bool \<Rightarrow> err + definition_status" where
  "resolve_role_status current status allow_archived =
     (case status of
        None \<Rightarrow> Inr (case current of None \<Rightarrow> DActive | Some c \<Rightarrow> c)
      | Some t \<Rightarrow>
          (case definition_status_of t of
             None \<Rightarrow> Inl (Builtin ValueError)
           | Some st \<Rightarrow>
               if st = DArchived \<and> \<not> allow_archived
               then Inl (invalid_input ''Use delete to archive roles''
                      [(''status'', PStr (definition_status_value st))])
               else Inr st))"

text \<open>The types in order, stripped, in lower case, each once.\<close>

definition normalize_assignable_types :: "string list option \<Rightarrow> string list" where
  "normalize_assignable_types types =
     (case types of
        None \<Rightarrow> []
      | Some ts \<Rightarrow> dedup (filter (\<lambda>t. t \<noteq> []) (map (\<lambda>t. py_lower (py_strip t)) (filter (\<lambda>t. t \<noteq> []) ts))))"

definition get_role_by_id :: "db \<Rightarrow> uuid \<Rightarrow> bool \<Rightarrow> role_row option" where
  "get_role_by_id d rid include_archived =
     List.find (\<lambda>r. r_id r = rid \<and> (include_archived \<or> r_status r \<noteq> DArchived)) (tb_roles d)"

definition get_role_by_name :: "db \<Rightarrow> string \<Rightarrow> err + role_row option" where
  "get_role_by_name d name0 =
     bindE (validate_slug name0 ''name'') (\<lambda>name. scalar_one_or_none (\<lambda>r. r_name r = name) (tb_roles d))"

definition system_role_error :: "string \<Rightarrow> role_row \<Rightarrow> err" where
  "system_role_error what r =
     invalid_input what [(''role_id'', PStr (r_id r)), (''role_name'', PStr (r_name r))]"

text \<open>\<open>_get_mutable_role_for_definition_edit\<close>, and the same guard with another message.\<close>

definition mutable_role :: "string \<Rightarrow> db \<Rightarrow> uuid \<Rightarrow> err + role_row" where
  "mutable_role what d rid =
     (case get_role_by_id d rid False of
        None \<Rightarrow> Inl (role_not_found rid)
      | Some r \<Rightarrow> if r_is_system r then Inl (system_role_error what r) else Inr r)"

definition get_mutable_role :: "string \<Rightarrow> uuid \<Rightarrow> role_row op" where
  "get_mutable_role what rid = bind_op (read_db (\<lambda>d. mutable_role what d rid)) lift_op"

section \<open>Definition snapshots\<close>

definition role_groups :: "db \<Rightarrow> uuid \<Rightarrow> condition_group_row list" where
  "role_groups d rid = filter (\<lambda>g. g_role g = Some rid) (tb_groups d)"

definition group_dict :: "condition_group_row \<Rightarrow> snapshot" where
  "group_dict g =
     [(''id'', PStr (g_id g)), (''operator'', PStr (g_operator g)), (''description'', opt_str (g_description g))]"

definition condition_dict :: "stored_condition \<Rightarrow> snapshot" where
  "condition_dict c =
     [(''id'', PStr (sc_id c)), (''condition_group_id'', opt_str (sc_group c)),
      (''attribute'', PStr (sc_attribute c)), (''operator'', PStr (sc_operator c)),
      (''value'', opt_str (sc_value c)), (''value_type'', PStr (sc_value_type c)),
      (''description'', opt_str (sc_description c))]"

definition sorted_overrides :: "db \<Rightarrow> uuid \<Rightarrow> entity_type_permission list" where
  "sorted_overrides d rid = sort_key (\<lambda>e. (et_type e, et_permission e)) (role_type_entries d rid)"

definition override_names :: "db \<Rightarrow> entity_type_permission list \<Rightarrow> string list" where
  "override_names d es =
     filter (\<lambda>n. n \<noteq> []) (List.map_filter (\<lambda>e. map_option p_name (permission_of d (et_permission e))) es)"

definition overrides_dict :: "db \<Rightarrow> uuid \<Rightarrow> snapshot" where
  "overrides_dict d rid =
     map (\<lambda>t. let es = filter (\<lambda>e. et_type e = t) (sorted_overrides d rid) in
            (t, PDict [(''permission_ids'', strs (map et_permission es)),
                          (''permission_names'', strs (override_names d es))]))
       (dedup (map et_type (sorted_overrides d rid)))"

definition display_of :: "db \<Rightarrow> uuid option \<Rightarrow> string option" where
  "display_of d i = (case i of None \<Rightarrow> None | Some x \<Rightarrow> map_option e_display_name (entity_at d x))"

definition role_snapshot :: "db \<Rightarrow> role_row \<Rightarrow> snapshot" where
  "role_snapshot d r0 =
     (let r = (case get_role_by_id d (r_id r0) True of Some x \<Rightarrow> x | None \<Rightarrow> r0);
          ps = sort_key (\<lambda>p. (p_name p, p_id p)) (role_permissions d (r_id r)) in
      [(''role_name'', PStr (r_name r)), (''role_display_name'', PStr (r_display_name r)),
       (''role_description'', opt_str (r_description r)), (''is_system_role'', PBool (r_is_system r)),
       (''is_global'', PBool (r_is_global r)), (''status'', PStr (definition_status_value (r_status r))),
       (''root_entity_id'', opt_str (r_root_entity r)),
       (''root_entity_name'', opt_str (display_of d (r_root_entity r))),
       (''scope_entity_id'', opt_str (r_scope_entity r)),
       (''scope_entity_name'', opt_str (display_of d (r_scope_entity r))),
       (''scope'', PStr (role_scope_value (r_scope r))), (''is_auto_assigned'', PBool (r_auto_assigned r)),
       (''assignable_at_types'', strs (r_assignable_types r)),
       (''permission_ids'', strs (map p_id ps)), (''permission_names'', strs (map p_name ps)),
       (''entity_type_permissions'', PDict (overrides_dict d (r_id r))),
       (''condition_groups'', PList (map (\<lambda>g. PDict (group_dict g))
          (sort_key (\<lambda>g. (g_operator g, or_empty (g_description g), g_id g)) (role_groups d (r_id r))))),
       (''conditions'', PList (map (\<lambda>c. PDict (condition_dict c))
          (sort_key (\<lambda>c. (sc_attribute c, or_empty (sc_group c), sc_id c)) (role_conditions d (r_id r)))))])"

text \<open>\<open>_changed_snapshot_fields\<close>\<close>

definition changed_snapshot_fields :: "string list \<Rightarrow> snapshot \<Rightarrow> snapshot \<Rightarrow> string list" where
  "changed_snapshot_fields ks a b = filter (\<lambda>k. map_of a k \<noteq> map_of b k) ks"

definition role_definition_fields :: "string list" where
  "role_definition_fields =
     [''role_name'', ''role_display_name'', ''role_description'', ''is_system_role'', ''is_global'', ''status'',
      ''root_entity_id'', ''root_entity_name'', ''scope_entity_id'', ''scope_entity_name'', ''scope'',
      ''is_auto_assigned'', ''assignable_at_types'']"

definition text_list :: "pyval option \<Rightarrow> string list" where
  "text_list v = (case v of
     Some (PList xs) \<Rightarrow> List.map_filter (\<lambda>x. case x of PStr t \<Rightarrow> Some t | _ \<Rightarrow> None) xs | _ \<Rightarrow> [])"

definition permission_name_delta :: "snapshot \<Rightarrow> snapshot \<Rightarrow> string list \<times> string list" where
  "permission_name_delta a b =
     (let before = text_list (map_of a ''permission_names''); after = text_list (map_of b ''permission_names'')
      in (sort (remdups (filter (\<lambda>n. n \<notin> set before) after)),
          sort (remdups (filter (\<lambda>n. n \<notin> set after) before))))"

section \<open>Definition history\<close>

text \<open>\<open>_maybe_uuid\<close>\<close>

definition snapshot_uuid :: "snapshot \<Rightarrow> string \<Rightarrow> uuid option" where
  "snapshot_uuid n k = (case map_of n k of Some (PStr i) \<Rightarrow> if i = [] then None else Some i | _ \<Rightarrow> None)"

definition role_event :: "role_service \<Rightarrow> datetime \<Rightarrow> uuid \<Rightarrow> string \<Rightarrow> string \<Rightarrow> uuid option \<Rightarrow> snapshot option
    \<Rightarrow> snapshot \<Rightarrow> snapshot option \<Rightarrow> role_history_row" where
  "role_event sv now rid typ src actor before after meta =
     \<lparr>rh_role = rid, rh_actor = actor, rh_root = snapshot_uuid after ''root_entity_id'',
      rh_scope = snapshot_uuid after ''scope_entity_id'', rh_type = typ, rh_source = src, rh_at = now,
      rh_snapshot = map (\<lambda>(k, v). (k, normalize_value (ro_iso sv) v)) after,
      rh_before = normalize_payload (ro_iso sv) before,
      rh_after = normalize_payload (ro_iso sv) (Some after),
      rh_metadata = normalize_payload (ro_iso sv) meta\<rparr>"

definition record_role_event ::
  "role_service \<Rightarrow> datetime \<Rightarrow> uuid \<Rightarrow> string \<Rightarrow> string \<Rightarrow> uuid option \<Rightarrow> snapshot option \<Rightarrow> snapshot
     \<Rightarrow> snapshot option \<Rightarrow> unit op" where
  "record_role_event sv now rid typ src actor before after meta =
     (if \<not> ro_history sv then ret ()
      else modify_op (\<lambda>s. s\<lparr>ss_role_history :=
        ss_role_history s @ [role_event sv now rid typ src actor before after meta]\<rparr>))"

definition list_role_events ::
  "role_history_row list \<Rightarrow> uuid \<Rightarrow> int \<Rightarrow> int \<Rightarrow> string option \<Rightarrow> role_history_row list \<times> nat" where
  "list_role_events rows rid page limit typ =
     (let hits = filter (\<lambda>h. rh_role h = rid \<and> (\<forall>t \<in> set_option typ. t = [] \<or> rh_type h = t)) rows
      in (page_of page limit (sort_key (\<lambda>h. - rh_at h) (rev hits)), length hits))"

section \<open>Invalidation\<close>

definition invalidate_all_roles :: "role_service \<Rightarrow> unit op" where
  "invalidate_all_roles sv = publish_change (ro_cache sv) [PublishAll]"

definition role_holders :: "db \<Rightarrow> uuid \<Rightarrow> uuid list" where
  "role_holders d rid = first_occurrences
     (map urm_user (filter (\<lambda>m. urm_role m = rid \<and> urm_status m = MActive) (tb_user_roles d))
      @ map em_user (filter (\<lambda>m. em_status m = MActive \<and> (em_id m, rid) \<in> set (tb_member_roles d))
          (tb_entity_members d)))"

definition role_invalidation :: "db \<Rightarrow> uuid \<Rightarrow> cache_action list" where
  "role_invalidation d rid =
     (if invalidation_fanout_limit < length (role_holders d rid) then [PublishAll]
      else map PublishUser (role_holders d rid))"

definition invalidate_role :: "role_service \<Rightarrow> uuid \<Rightarrow> unit op" where
  "invalidate_role sv rid =
     bind_op (read_db (\<lambda>d. role_invalidation d rid)) (\<lambda>acts. publish_change (ro_cache sv) acts)"

definition invalidate_holder :: "role_service \<Rightarrow> uuid \<Rightarrow> unit op" where
  "invalidate_holder sv u = publish_change (ro_cache sv) [PublishUser u]"

section \<open>Creating a role\<close>

record role_spec =
  rs_name :: string
  rs_display_name :: string
  rs_description :: "string option"
  rs_permissions :: "string list option"
  rs_global :: bool
  rs_system :: bool
  rs_status :: "string option"
  rs_root :: "uuid option"
  rs_scope_entity :: "uuid option"
  rs_scope :: role_scope
  rs_auto :: bool
  rs_types :: "string list option"
  rs_overrides :: "(string \<times> string list) list option"

definition check_role_scope :: "string \<Rightarrow> role_spec \<Rightarrow> err + unit" where
  "check_role_scope name x =
     (if rs_global x \<and> (rs_root x \<noteq> None \<or> rs_scope_entity x \<noteq> None)
      then Inl (invalid_input ''System-wide roles cannot set root_entity_id or scope_entity_id''
             [(''name'', PStr name), (''root_entity_id'', opt_str (rs_root x)),
              (''scope_entity_id'', opt_str (rs_scope_entity x))])
      else if \<not> rs_global x \<and> rs_root x = None \<and> rs_scope_entity x = None
      then Inl (invalid_input ''Scoped roles must define root_entity_id or scope_entity_id'' [(''name'', PStr name)])
      else Inr ())"

text \<open>The roles among which the name has to be new.\<close>

definition same_name_scope :: "string \<Rightarrow> role_spec \<Rightarrow> role_row \<Rightarrow> bool" where
  "same_name_scope name x r \<longleftrightarrow> r_name r = name \<and>
     (case rs_scope_entity x of
        Some sc \<Rightarrow> r_scope_entity r = Some sc
      | None \<Rightarrow> r_root_entity r = rs_root x \<and> r_scope_entity r = None)"

definition check_role_name :: "db \<Rightarrow> string \<Rightarrow> role_spec \<Rightarrow> err + unit" where
  "check_role_name d name x =
     bindE (scalar_one_or_none (same_name_scope name x) (tb_roles d)) (\<lambda>existing.
     requireE (existing = None)
       (invalid_input (''Role with name '' @ squote name @ '' already exists in this scope'')
         [(''name'', PStr name), (''scope_entity_id'', opt_str (rs_scope_entity x))]))"

definition check_role_root :: "db \<Rightarrow> role_spec \<Rightarrow> err + unit" where
  "check_role_root d x =
     (case rs_root x of
        None \<Rightarrow> Inr ()
      | Some i \<Rightarrow>
          (case entity_at d i of
             None \<Rightarrow> Inl (Auth EntityNotFoundError ''Root entity not found'' [(''root_entity_id'', PStr i)])
           | Some e \<Rightarrow>
               (case e_parent e of
                  None \<Rightarrow> Inr ()
                | Some p \<Rightarrow> Inl (invalid_input ''Role can only be scoped to root entities (entities with no parent)''
                    [(''root_entity_id'', PStr i), (''entity_name'', PStr (e_name e)), (''parent_id'', PStr p)]))))"

definition entity_in_hierarchy :: "db \<Rightarrow> uuid \<Rightarrow> uuid \<Rightarrow> bool" where
  "entity_in_hierarchy d i root_id \<longleftrightarrow>
     (\<exists>r \<in> set (tb_closure d). cl_ancestor r = root_id \<and> cl_descendant r = i)"

text \<open>The root of the new role: the given one, or that of the scope entity.\<close>

definition role_root :: "db \<Rightarrow> role_spec \<Rightarrow> err + uuid option" where
  "role_root d x =
     (case rs_scope_entity x of
        None \<Rightarrow> Inr (rs_root x)
      | Some sc \<Rightarrow>
          (case entity_at d sc of
             None \<Rightarrow> Inl (Auth EntityNotFoundError ''Scope entity not found'' [(''scope_entity_id'', PStr sc)])
           | Some _ \<Rightarrow>
               (case rs_root x of
                  None \<Rightarrow> Inr (Some (member_root d sc))
                | Some i \<Rightarrow>
                    if entity_in_hierarchy d sc i then Inr (Some i)
                    else Inl (invalid_input (''Scope entity must be within the root entity'' @ [CHR 0x27] @ ''s hierarchy'')
                      [(''scope_entity_id'', PStr sc), (''root_entity_id'', PStr i)]))))"

definition check_auto_assigned :: "string \<Rightarrow> role_spec \<Rightarrow> definition_status \<Rightarrow> err + unit" where
  "check_auto_assigned name x st =
     (if rs_auto x \<and> st \<noteq> DActive
      then Inl (invalid_input ''Only active roles can be auto-assigned''
             [(''name'', PStr name), (''status'', PStr (definition_status_value st))])
      else Inr ())"

definition new_role :: "uuid \<Rightarrow> db \<Rightarrow> role_spec \<Rightarrow> err + role_row" where
  "new_role rid d x =
     bindE (validate_slug (rs_name x) ''name'') (\<lambda>name.
     bindE (validate_name (rs_display_name x) ''display_name'' 1 100) (\<lambda>display.
     bindE (check_role_scope name x) (\<lambda>_.
     bindE (check_role_name d name x) (\<lambda>_.
     bindE (check_role_root d x) (\<lambda>_.
     bindE (role_root d x) (\<lambda>home.
     bindE (requireE (\<not> (rs_auto x \<and> rs_scope_entity x = None))
              (invalid_input ''Auto-assigned roles must have a scope_entity_id'' [(''name'', PStr name)])) (\<lambda>_.
     bindE (resolve_role_status None (rs_status x) False) (\<lambda>st.
     bindE (check_auto_assigned name x st) (\<lambda>_.
     Inr \<lparr>r_id = rid, r_name = name, r_display_name = display, r_description = rs_description x,
          r_root_entity = home, r_is_system = rs_system x, r_is_global = rs_global x, r_status = st,
          r_scope_entity = rs_scope_entity x, r_scope = rs_scope x, r_auto_assigned = rs_auto x,
          r_assignable_types = normalize_assignable_types (rs_types x)\<rparr>)))))))))"

section \<open>Permissions of a role\<close>

definition inactive_names :: "db \<Rightarrow> string list \<Rightarrow> string list" where
  "inactive_names d names =
     sort (filter (\<lambda>n. case permission_by_name d n of None \<Rightarrow> False | Some p \<Rightarrow> p_status p \<noteq> DActive) names)"

definition resolve_permissions_by_name :: "db \<Rightarrow> string list \<Rightarrow> err + permission list" where
  "resolve_permissions_by_name d names0 =
     (let names = dedup names0;
          missing = filter (\<lambda>n. permission_by_name d n = None) names in
      if inactive_names d names \<noteq> []
      then Inl (invalid_input ''One or more permissions are not active''
             [(''inactive_permissions'', strs (inactive_names d names))])
      else if missing \<noteq> []
      then Inl (invalid_input ''One or more permissions do not exist'' [(''missing_permissions'', strs missing)])
      else Inr (List.map_filter (permission_by_name d) names))"

definition resolve_permission_names_by_ids :: "db \<Rightarrow> uuid list \<Rightarrow> err + string list" where
  "resolve_permission_names_by_ids d ids =
     (let inactive = filter (\<lambda>i. case permission_of d i of None \<Rightarrow> False | Some p \<Rightarrow> p_status p \<noteq> DActive) (dedup ids);
          missing = filter (\<lambda>i. permission_of d i = None) ids in
      if inactive \<noteq> []
      then Inl (invalid_input ''One or more permissions are not active''
             [(''inactive_permission_ids'', strs (sort inactive))])
      else if missing \<noteq> []
      then Inl (invalid_input ''One or more permissions do not exist'' [(''missing_permission_ids'', strs missing)])
      else Inr (map p_name (List.map_filter (permission_of d) ids)))"

definition link_permissions :: "uuid \<Rightarrow> permission list \<Rightarrow> db \<Rightarrow> db" where
  "link_permissions rid ps d = d\<lparr>tb_role_permissions := tb_role_permissions d @ map (\<lambda>p. (rid, p_id p)) ps\<rparr>"

text \<open>A link that exists already violates the key of the junction table.\<close>

definition link_by_name :: "uuid \<Rightarrow> string list \<Rightarrow> unit op" where
  "link_by_name rid names =
     bind_op (read_db (\<lambda>d. resolve_permissions_by_name d names)) (\<lambda>found.
     bind_op (lift_op found) (\<lambda>ps.
     bind_op (read_db (\<lambda>d. list_ex (\<lambda>p. (rid, p_id p) \<in> set (tb_role_permissions d)) ps)) (\<lambda>taken.
     if taken then raise_op (Builtin IntegrityError) else write_db (link_permissions rid ps))))"

definition unlink_all :: "uuid \<Rightarrow> db \<Rightarrow> db" where
  "unlink_all rid d = d\<lparr>tb_role_permissions := filter (\<lambda>(i, _). i \<noteq> rid) (tb_role_permissions d)\<rparr>"

definition replace_by_name :: "uuid \<Rightarrow> string list \<Rightarrow> unit op" where
  "replace_by_name rid names = bind_op (write_db (unlink_all rid)) (\<lambda>_. link_by_name rid names)"

definition unlink_by_name :: "uuid \<Rightarrow> string list \<Rightarrow> db \<Rightarrow> db" where
  "unlink_by_name rid names d =
     (let ids = map p_id (filter (\<lambda>p. p_name p \<in> set names) (tb_permissions d)) in
      d\<lparr>tb_role_permissions := filter (\<lambda>(i, p). \<not> (i = rid \<and> p \<in> set ids)) (tb_role_permissions d)\<rparr>)"

fun override_rows :: "db \<Rightarrow> uuid \<Rightarrow> (string \<times> string list) list \<Rightarrow> err + entity_type_permission list" where
  "override_rows d rid [] = Inr []"
| "override_rows d rid ((typ, names) # rest) =
     bindE (resolve_permissions_by_name d names) (\<lambda>ps.
     bindE (override_rows d rid rest) (\<lambda>rows.
     Inr (map (\<lambda>p. \<lparr>et_role = rid, et_type = py_lower typ, et_permission = p_id p\<rparr>) ps @ rows)))"

definition apply_overrides :: "uuid \<Rightarrow> (string \<times> string list) list option \<Rightarrow> unit op" where
  "apply_overrides rid overrides =
     bind_op (write_db (\<lambda>d. d\<lparr>tb_type_permissions := filter (\<lambda>e. et_role e \<noteq> rid) (tb_type_permissions d)\<rparr>)) (\<lambda>_.
     bind_op (read_db (\<lambda>d. override_rows d rid (case overrides of None \<Rightarrow> [] | Some o1 \<Rightarrow> o1))) (\<lambda>found.
     bind_op (lift_op found) (\<lambda>rows.
     write_db (\<lambda>d. d\<lparr>tb_type_permissions := tb_type_permissions d @ rows\<rparr>))))"

definition create_role :: "role_service \<Rightarrow> datetime \<Rightarrow> uuid \<Rightarrow> role_spec \<Rightarrow> uuid option \<Rightarrow> role_row op" where
  "create_role sv now rid x actor =
     bind_op (read_db (\<lambda>d. new_role rid d x)) (\<lambda>made.
     bind_op (lift_op made) (\<lambda>r.
     bind_op (write_db (\<lambda>d. d\<lparr>tb_roles := tb_roles d @ [r]\<rparr>)) (\<lambda>_.
     bind_op (case rs_permissions x of None \<Rightarrow> ret () | Some ns \<Rightarrow> when_op (ns \<noteq> []) (link_by_name rid ns)) (\<lambda>_.
     bind_op (when_op (rs_overrides x \<noteq> None) (apply_overrides rid (rs_overrides x))) (\<lambda>_.
     bind_op (invalidate_all_roles sv) (\<lambda>_.
     bind_op (read_db (\<lambda>d. role_snapshot d r)) (\<lambda>after.
     bind_op (record_role_event sv now rid ''created'' ''role_service.create_role'' actor None after None) (\<lambda>_.
     ret r))))))))"

text \<open>The role as it is now, for the operations that edit it.\<close>

definition current_role :: "role_row \<Rightarrow> role_row op" where
  "current_role r = read_db (\<lambda>d. case get_role_by_id d (r_id r) False of Some x \<Rightarrow> x | None \<Rightarrow> r)"

definition edit_permissions ::
  "role_service \<Rightarrow> datetime \<Rightarrow> uuid \<Rightarrow> unit op \<Rightarrow> (string list \<Rightarrow> string list \<Rightarrow> snapshot option) \<Rightarrow> string
     \<Rightarrow> string \<Rightarrow> uuid option \<Rightarrow> role_row op" where
  "edit_permissions sv now rid edit report typ src actor =
     bind_op (get_mutable_role ''Cannot modify system role permissions'' rid) (\<lambda>r.
     bind_op (read_db (\<lambda>d. role_snapshot d r)) (\<lambda>before.
     bind_op edit (\<lambda>_.
     bind_op (invalidate_role sv rid) (\<lambda>_.
     bind_op (current_role r) (\<lambda>r1.
     bind_op (read_db (\<lambda>d. role_snapshot d r1)) (\<lambda>after.
     bind_op (case report (fst (permission_name_delta before after)) (snd (permission_name_delta before after)) of
                None \<Rightarrow> ret ()
              | Some meta \<Rightarrow> record_role_event sv now rid typ src actor (Some before) after (Some meta)) (\<lambda>_.
     ret r1)))))))"

definition set_permissions_by_name ::
  "role_service \<Rightarrow> datetime \<Rightarrow> uuid \<Rightarrow> string list \<Rightarrow> uuid option \<Rightarrow> string \<Rightarrow> role_row op" where
  "set_permissions_by_name sv now rid names actor src =
     edit_permissions sv now rid (replace_by_name rid names)
       (\<lambda>added removed. if added = [] \<and> removed = [] then None
          else Some [(''added_permission_names'', strs added), (''removed_permission_names'', strs removed)])
       ''permissions_replaced'' src actor"

definition add_permissions_by_name ::
  "role_service \<Rightarrow> datetime \<Rightarrow> uuid \<Rightarrow> string list \<Rightarrow> uuid option \<Rightarrow> string \<Rightarrow> role_row op" where
  "add_permissions_by_name sv now rid names actor src =
     edit_permissions sv now rid (link_by_name rid names)
       (\<lambda>added _. if added = [] then None else Some [(''added_permission_names'', strs added)])
       ''permissions_added'' src actor"

definition remove_permissions_by_name ::
  "role_service \<Rightarrow> datetime \<Rightarrow> uuid \<Rightarrow> string list \<Rightarrow> uuid option \<Rightarrow> string \<Rightarrow> role_row op" where
  "remove_permissions_by_name sv now rid names actor src =
     edit_permissions sv now rid (write_db (unlink_by_name rid names))
       (\<lambda>_ removed. if removed = [] then None else Some [(''removed_permission_names'', strs removed)])
       ''permissions_removed'' src actor"

definition add_permissions :: "role_service \<Rightarrow> datetime \<Rightarrow> uuid \<Rightarrow> uuid list \<Rightarrow> uuid option \<Rightarrow> role_row op" where
  "add_permissions sv now rid ids actor =
     bind_op (read_db (\<lambda>d. resolve_permission_names_by_ids d ids)) (\<lambda>found.
     bind_op (lift_op found) (\<lambda>names.
     add_permissions_by_name sv now rid names actor ''role_service.add_permissions''))"

definition remove_permissions :: "role_service \<Rightarrow> datetime \<Rightarrow> uuid \<Rightarrow> uuid list \<Rightarrow> uuid option \<Rightarrow> role_row op" where
  "remove_permissions sv now rid ids actor =
     bind_op (read_db (\<lambda>d. resolve_permission_names_by_ids d ids)) (\<lambda>found.
     bind_op (lift_op found) (\<lambda>names.
     remove_permissions_by_name sv now rid names actor ''role_service.remove_permissions''))"

definition set_entity_type_permissions ::
  "role_service \<Rightarrow> datetime \<Rightarrow> uuid \<Rightarrow> (string \<times> string list) list option \<Rightarrow> uuid option \<Rightarrow> bool \<Rightarrow> string
     \<Rightarrow> role_row op" where
  "set_entity_type_permissions sv now rid overrides actor record_history src =
     bind_op (get_mutable_role ''Cannot modify system role permissions'' rid) (\<lambda>r.
     bind_op (read_db (\<lambda>d. role_snapshot d r)) (\<lambda>before.
     bind_op (apply_overrides rid overrides) (\<lambda>_.
     bind_op (invalidate_all_roles sv) (\<lambda>_.
     bind_op (current_role r) (\<lambda>r1.
     bind_op (read_db (\<lambda>d. role_snapshot d r1)) (\<lambda>after.
     bind_op (when_op (record_history
                \<and> map_of before ''entity_type_permissions'' \<noteq> map_of after ''entity_type_permissions'')
              (record_role_event sv now rid ''entity_type_permissions_replaced'' src actor (Some before) after None)) (\<lambda>_.
     ret r1)))))))"

definition get_role_permissions :: "db \<Rightarrow> uuid \<Rightarrow> err + permission list" where
  "get_role_permissions d rid =
     (case get_role_by_id d rid False of
        None \<Rightarrow> Inl (role_not_found rid)
      | Some r \<Rightarrow> Inr (filter (\<lambda>p. p_status p \<noteq> DArchived) (role_permissions d rid)))"

definition get_role_permission_names :: "db \<Rightarrow> uuid \<Rightarrow> err + string list" where
  "get_role_permission_names d rid = bindE (get_role_permissions d rid) (\<lambda>ps. Inr (map p_name ps))"

definition get_role_entity_type_permission_names :: "db \<Rightarrow> uuid \<Rightarrow> err + (string \<times> string list) list" where
  "get_role_entity_type_permission_names d rid =
     (case get_role_by_id d rid False of
        None \<Rightarrow> Inl (role_not_found rid)
      | Some r \<Rightarrow>
          let es = filter (\<lambda>e. permission_of d (et_permission e) \<noteq> None) (role_type_entries d rid) in
          Inr (map (\<lambda>t. (t, List.map_filter (\<lambda>e. map_option p_name (permission_of d (et_permission e)))
                             (filter (\<lambda>e. et_type e = t) es))) (dedup (map et_type es))))"

section \<open>Updating and archiving a role\<close>

record role_update =
  ru_display_name :: "string option"
  ru_description :: "string option"
  ru_global :: "bool option"
  ru_status :: "string option"
  ru_scope :: "role_scope option"
  ru_auto :: "bool option"
  ru_types :: "string list option"
  ru_permissions :: "string list option"

definition update_display :: "role_update \<Rightarrow> role_row \<Rightarrow> err + role_row" where
  "update_display u r =
     (case ru_display_name u of
        None \<Rightarrow> Inr r
      | Some n \<Rightarrow> bindE (validate_name n ''display_name'' 1 100) (\<lambda>display. Inr (r\<lparr>r_display_name := display\<rparr>)))"

definition update_status :: "role_update \<Rightarrow> role_row \<Rightarrow> err + role_row" where
  "update_status u r =
     (if ru_status u = None then Inr r
      else bindE (resolve_role_status (Some (r_status r)) (ru_status u) False) (\<lambda>st. Inr (r\<lparr>r_status := st\<rparr>)))"

definition update_global :: "role_update \<Rightarrow> role_row \<Rightarrow> err + role_row" where
  "update_global u r =
     (case ru_global u of
        None \<Rightarrow> Inr r
      | Some g \<Rightarrow>
          if g \<and> (r_root_entity r \<noteq> None \<or> r_scope_entity r \<noteq> None)
          then Inl (system_role_error ''Scoped roles cannot be converted to system-wide roles'' r)
          else if \<not> g \<and> r_root_entity r = None \<and> r_scope_entity r = None
          then Inl (system_role_error ''System-wide roles cannot be made non-global without a scope'' r)
          else Inr (r\<lparr>r_is_global := g\<rparr>))"

definition update_auto :: "role_update \<Rightarrow> role_row \<Rightarrow> err + role_row" where
  "update_auto u r =
     (case ru_auto u of
        None \<Rightarrow> Inr r
      | Some a \<Rightarrow>
          if a \<and> r_scope_entity r = None
          then Inl (system_role_error ''Auto-assigned roles must have a scope_entity_id'' r)
          else if a \<and> r_status r \<noteq> DActive
          then Inl (invalid_input ''Only active roles can be auto-assigned''
                 [(''role_id'', PStr (r_id r)), (''status'', PStr (definition_status_value (r_status r)))])
          else Inr (r\<lparr>r_auto_assigned := a\<rparr>))"

definition apply_role_update :: "role_update \<Rightarrow> role_row \<Rightarrow> err + role_row" where
  "apply_role_update u r0 =
     bindE (update_display u r0) (\<lambda>r1.
     let r2 = r1\<lparr>r_description := (case ru_description u of None \<Rightarrow> r_description r1 | Some x \<Rightarrow> Some x)\<rparr> in
     bindE (update_status u r2) (\<lambda>r3.
     bindE (update_global u r3) (\<lambda>r4.
     let r5 = r4\<lparr>r_scope := set_field (ru_scope u) (r_scope r4)\<rparr> in
     bindE (update_auto u r5) (\<lambda>r6.
     Inr (case ru_types u of None \<Rightarrow> r6
          | Some ts \<Rightarrow> r6\<lparr>r_assignable_types := normalize_assignable_types (Some ts)\<rparr>)))))"

definition put_role :: "role_row \<Rightarrow> db \<Rightarrow> db" where
  "put_role r d = d\<lparr>tb_roles := set_row r_id r (tb_roles d)\<rparr>"

definition update_role :: "role_service \<Rightarrow> datetime \<Rightarrow> uuid \<Rightarrow> role_update \<Rightarrow> uuid option \<Rightarrow> role_row op" where
  "update_role sv now rid u actor =
     bind_op (get_mutable_role ''Cannot modify system role'' rid) (\<lambda>r.
     bind_op (read_db (\<lambda>d. role_snapshot d r)) (\<lambda>before.
     bind_op (lift_op (apply_role_update u r)) (\<lambda>r1.
     bind_op (write_db (put_role r1)) (\<lambda>_.
     bind_op (case ru_permissions u of None \<Rightarrow> ret r1
              | Some ns \<Rightarrow> set_permissions_by_name sv now rid ns actor ''role_service.update_role'') (\<lambda>_.
     bind_op (current_role r1) (\<lambda>r2.
     bind_op (read_db (\<lambda>d. role_snapshot d r2)) (\<lambda>after.
     (let changed = changed_snapshot_fields role_definition_fields before after in
      bind_op (when_op (changed \<noteq> [])
        (record_role_event sv now rid ''updated'' ''role_service.update_role'' actor (Some before) after
          (Some [(''changed_fields'', strs changed)]))) (\<lambda>_.
      bind_op (invalidate_role sv rid) (\<lambda>_. ret r2))))))))))"

definition delete_role :: "role_service \<Rightarrow> datetime \<Rightarrow> uuid \<Rightarrow> uuid option \<Rightarrow> bool op" where
  "delete_role sv now rid actor =
     bind_op (read_db (\<lambda>d. get_role_by_id d rid True)) (\<lambda>found. case found of
       None \<Rightarrow> ret False
     | Some r \<Rightarrow>
         if r_status r = DArchived then ret False
         else if r_is_system r then raise_op (system_role_error ''Cannot delete system role'' r)
         else
           bind_op (read_db (\<lambda>d. role_snapshot d r)) (\<lambda>before.
           bind_op (write_db (put_role (r\<lparr>r_status := DArchived\<rparr>))) (\<lambda>_.
           bind_op (read_db (\<lambda>d. role_snapshot d (r\<lparr>r_status := DArchived\<rparr>))) (\<lambda>after.
           bind_op (record_role_event sv now rid ''deleted'' ''role_service.delete_role'' actor (Some before) after
                      (Some [(''archived'', PBool True)])) (\<lambda>_.
           bind_op (invalidate_all_roles sv) (\<lambda>_. ret True))))))"

section \<open>Conditions of a role\<close>

text \<open>An edit of a condition or a group: the write, then an event between the two snapshots.\<close>

definition edit_condition ::
  "role_service \<Rightarrow> datetime \<Rightarrow> role_row \<Rightarrow> (db \<Rightarrow> db) \<Rightarrow> string \<Rightarrow> string \<Rightarrow> uuid option \<Rightarrow> snapshot option
     \<Rightarrow> 'a \<Rightarrow> 'a op" where
  "edit_condition sv now r write typ src actor meta result =
     bind_op (read_db (\<lambda>d. role_snapshot d r)) (\<lambda>before.
     bind_op (write_db write) (\<lambda>_.
     bind_op (read_db (\<lambda>d. role_snapshot d r)) (\<lambda>after.
     case meta of
       None \<Rightarrow> ret result
     | Some m \<Rightarrow>
         bind_op (record_role_event sv now (r_id r) typ src actor (Some before) after (Some m)) (\<lambda>_.
         bind_op (invalidate_all_roles sv) (\<lambda>_. ret result)))))"

definition create_role_condition_group ::
  "role_service \<Rightarrow> datetime \<Rightarrow> uuid \<Rightarrow> uuid \<Rightarrow> string \<Rightarrow> string option \<Rightarrow> uuid option \<Rightarrow> condition_group_row op" where
  "create_role_condition_group sv now gid rid op desc actor =
     bind_op (get_mutable_role ''Cannot modify system role'' rid) (\<lambda>r.
     let g = \<lparr>g_id = gid, g_role = Some rid, g_permission = None, g_operator = op, g_description = desc\<rparr> in
     edit_condition sv now r (\<lambda>d. d\<lparr>tb_groups := tb_groups d @ [g]\<rparr>) ''condition_group_created''
       ''role_service.create_condition_group'' actor (Some [(''condition_group'', PDict (group_dict g))]) g)"

definition role_group :: "db \<Rightarrow> uuid \<Rightarrow> uuid \<Rightarrow> condition_group_row option" where
  "role_group d rid gid =
     (case group_of d gid of
        None \<Rightarrow> None
      | Some g \<Rightarrow> if g_role g \<noteq> Some rid then None else Some g)"

definition update_role_condition_group ::
  "role_service \<Rightarrow> datetime \<Rightarrow> uuid \<Rightarrow> uuid \<Rightarrow> string set \<Rightarrow> string option \<Rightarrow> string option \<Rightarrow> uuid option
     \<Rightarrow> condition_group_row option op" where
  "update_role_condition_group sv now rid gid fs op desc actor =
     bind_op (get_mutable_role ''Cannot modify system role'' rid) (\<lambda>r.
     bind_op (read_db (\<lambda>d. role_group d rid gid)) (\<lambda>found. case found of
       None \<Rightarrow> ret None
     | Some g \<Rightarrow>
         (let g1 = assign_group fs op desc g;
              changed = changed_snapshot_fields [''operator'', ''description''] (group_dict g) (group_dict g1) in
          edit_condition sv now r (\<lambda>d. d\<lparr>tb_groups := set_row g_id g1 (tb_groups d)\<rparr>) ''condition_group_updated''
            ''role_service.update_condition_group'' actor
            (if changed = [] then None
             else Some [(''changed_fields'', strs changed), (''before_group'', PDict (group_dict g)),
                        (''after_group'', PDict (group_dict g1))]) (Some g1))))"

definition delete_role_condition_group ::
  "role_service \<Rightarrow> datetime \<Rightarrow> uuid \<Rightarrow> uuid \<Rightarrow> uuid option \<Rightarrow> bool op" where
  "delete_role_condition_group sv now rid gid actor =
     bind_op (get_mutable_role ''Cannot modify system role'' rid) (\<lambda>r.
     bind_op (read_db (\<lambda>d. role_group d rid gid)) (\<lambda>found. case found of
       None \<Rightarrow> ret False
     | Some g \<Rightarrow>
         bind_op (read_db (\<lambda>d. filter (\<lambda>c. sc_group c = Some gid) (role_conditions d rid))) (\<lambda>gone.
         edit_condition sv now r (drop_group gid) ''condition_group_deleted''
           ''role_service.delete_condition_group'' actor
           (Some [(''deleted_group'', PDict (group_dict g)),
                  (''deleted_conditions'', PList (map (\<lambda>c. PDict (condition_dict c)) gone))]) True)))"

definition check_role_group :: "db \<Rightarrow> uuid \<Rightarrow> uuid option \<Rightarrow> err + unit" where
  "check_role_group d rid group_id =
     (case group_id of
        None \<Rightarrow> Inr ()
      | Some gid \<Rightarrow> requireE (role_group d rid gid \<noteq> None)
          (invalid_input ''Invalid condition_group_id'' [(''role_id'', PStr rid), (''condition_group_id'', PStr gid)]))"

definition role_condition :: "db \<Rightarrow> uuid \<Rightarrow> uuid \<Rightarrow> stored_condition option" where
  "role_condition d rid cid =
     (case row_by (\<lambda>(_, c). sc_id c) cid (tb_role_conditions d) of
        None \<Rightarrow> None
      | Some (owner, c) \<Rightarrow> if owner \<noteq> rid then None else Some c)"

definition create_role_condition ::
  "role_service \<Rightarrow> datetime \<Rightarrow> uuid \<Rightarrow> uuid \<Rightarrow> string \<Rightarrow> string \<Rightarrow> pyval \<Rightarrow> string \<Rightarrow> string option \<Rightarrow> uuid option
     \<Rightarrow> uuid option \<Rightarrow> stored_condition op" where
  "create_role_condition sv now cid rid attr op v value_type desc group_id actor =
     bind_op (get_mutable_role ''Cannot modify system role'' rid) (\<lambda>r.
     bind_op (read_db (\<lambda>d. check_role_group d rid group_id)) (\<lambda>grouped.
     bind_op (lift_op grouped) (\<lambda>_.
     bind_op (lift_op (validate_condition_definition (ro_rt sv) (ro_re_error sv) (PStr attr) (PStr op) v
                (PStr value_type))) (\<lambda>m.
     let c = new_condition_row (ro_rt sv) cid group_id attr m v value_type desc in
     edit_condition sv now r (\<lambda>d. d\<lparr>tb_role_conditions := tb_role_conditions d @ [(rid, c)]\<rparr>)
       ''condition_created'' ''role_service.create_condition'' actor
       (Some [(''condition'', PDict (condition_dict c))]) c))))"

definition condition_fields :: "string list" where
  "condition_fields =
     [''condition_group_id'', ''attribute'', ''operator'', ''value'', ''value_type'', ''description'']"

definition update_role_condition ::
  "role_service \<Rightarrow> datetime \<Rightarrow> uuid \<Rightarrow> uuid \<Rightarrow> condition_update \<Rightarrow> uuid option \<Rightarrow> stored_condition option op" where
  "update_role_condition sv now rid cid u actor =
     bind_op (get_mutable_role ''Cannot modify system role'' rid) (\<lambda>r.
     bind_op (read_db (\<lambda>d. role_condition d rid cid)) (\<lambda>found. case found of
       None \<Rightarrow> ret None
     | Some c \<Rightarrow>
         bind_op (read_db (\<lambda>d. check_role_group d rid
                    (if ''condition_group_id'' \<in> cu_fields u then cu_group u else None))) (\<lambda>grouped.
         bind_op (lift_op grouped) (\<lambda>_.
         bind_op (lift_op (validate_condition_update (ro_rt sv) (ro_re_error sv) c u)) (\<lambda>m.
         let c1 = apply_condition_update (ro_rt sv) c u m;
             changed = changed_snapshot_fields condition_fields (condition_dict c) (condition_dict c1) in
         edit_condition sv now r
           (\<lambda>d. d\<lparr>tb_role_conditions := set_row (\<lambda>(_, c). sc_id c) (rid, c1) (tb_role_conditions d)\<rparr>)
           ''condition_updated'' ''role_service.update_condition'' actor
           (if changed = [] then None
            else Some [(''changed_fields'', strs changed), (''before_condition'', PDict (condition_dict c)),
                       (''after_condition'', PDict (condition_dict c1))]) (Some c1))))))"

definition delete_role_condition :: "role_service \<Rightarrow> datetime \<Rightarrow> uuid \<Rightarrow> uuid \<Rightarrow> uuid option \<Rightarrow> bool op" where
  "delete_role_condition sv now rid cid actor =
     bind_op (get_mutable_role ''Cannot modify system role'' rid) (\<lambda>r.
     bind_op (read_db (\<lambda>d. role_condition d rid cid)) (\<lambda>found. case found of
       None \<Rightarrow> ret False
     | Some c \<Rightarrow>
         edit_condition sv now r
           (\<lambda>d. d\<lparr>tb_role_conditions := filter (\<lambda>(_, c). sc_id c \<noteq> cid) (tb_role_conditions d)\<rparr>)
           ''condition_deleted'' ''role_service.delete_condition'' actor
           (Some [(''deleted_condition'', PDict (condition_dict c))]) True))"

section \<open>Roles an entity may use\<close>

definition system_wide :: "role_row \<Rightarrow> bool" where
  "system_wide r \<longleftrightarrow> r_is_global r \<and> r_root_entity r = None \<and> r_scope_entity r = None"

text \<open>The root and the ancestors of a linked entity (\<open>None\<close> without closure rows).\<close>

definition ancestry :: "db \<Rightarrow> uuid \<Rightarrow> (uuid \<times> uuid set) option" where
  "ancestry d e = (case ancestor_rows d e of
     [] \<Rightarrow> None | r # _ \<Rightarrow> Some (cl_ancestor r, entity_ancestor_ids d e))"

definition local_role_available :: "uuid \<Rightarrow> uuid set \<Rightarrow> role_row \<Rightarrow> bool" where
  "local_role_available e anc r \<longleftrightarrow>
     (in_ids anc (r_scope_entity r) \<and> r_scope r = Hierarchy)
     \<or> (r_scope_entity r = Some e \<and> r_scope r = EntityOnly)"

definition available_in_query :: "bool \<Rightarrow> uuid \<Rightarrow> uuid \<Rightarrow> uuid set \<Rightarrow> role_row \<Rightarrow> bool" where
  "available_in_query include_global e root_id anc r \<longleftrightarrow> r_status r = DActive \<and>
     ((include_global \<and> system_wide r)
      \<or> (r_root_entity r = Some root_id \<and> r_scope_entity r = None)
      \<or> local_role_available e anc r)"

definition get_roles_for_entity ::
  "db \<Rightarrow> uuid \<Rightarrow> int \<Rightarrow> int \<Rightarrow> bool \<Rightarrow> bool \<Rightarrow> role_row list \<times> nat" where
  "get_roles_for_entity d e page limit include_global auto_only =
     (case entity_at d e of
        None \<Rightarrow> ([], 0)
      | Some en \<Rightarrow>
          (case ancestry d e of
             None \<Rightarrow> ([], 0)
           | Some (root_id, anc) \<Rightarrow>
               let hits = sort_key r_name (filter (\<lambda>r. available_in_query include_global e root_id anc r
                    \<and> (auto_only \<longrightarrow> r_auto_assigned r)
                    \<and> (r_assignable_types r = [] \<or> py_lower (e_type en) \<in> set (map py_lower (r_assignable_types r))))
                    (tb_roles d))
               in (page_of page limit hits, length hits)))"

text \<open>\<open>get_auto_assigned_roles_for_entity\<close> of this service does not filter by the type of the entity.\<close>

definition role_service_auto_roles :: "db \<Rightarrow> uuid \<Rightarrow> role_row list" where
  "role_service_auto_roles d e =
     (if entity_ancestor_ids d e = {} then []
      else sort_key r_name (filter (\<lambda>r. r_status r = DActive \<and> r_auto_assigned r
             \<and> local_role_available e (entity_ancestor_ids d e) r) (tb_roles d)))"

definition is_role_available_for_entity :: "db \<Rightarrow> role_row \<Rightarrow> uuid \<Rightarrow> bool" where
  "is_role_available_for_entity d r e \<longleftrightarrow>
     (case entity_at d e of
        None \<Rightarrow> False
      | Some en \<Rightarrow>
          if \<not> allows_entity_type r (Some (e_type en)) then False
          else if r_status r \<noteq> DActive then False
          else if system_wide r then True
          else (case ancestry d e of
                  None \<Rightarrow> False
                | Some (root_id, anc) \<Rightarrow>
                    (case r_scope_entity r of
                       None \<Rightarrow> (case r_root_entity r of None \<Rightarrow> False | Some home \<Rightarrow> home = root_id)
                     | Some sc \<Rightarrow> if r_scope r = Hierarchy then sc \<in> anc else sc = e)))"

record role_query =
  rq_search :: "string option"
  rq_global :: "bool option"
  rq_root :: "uuid option"
  rq_roots :: "uuid list option"
  rq_entities :: "uuid list option"
  rq_system :: bool

definition role_in_scope :: "role_query \<Rightarrow> role_row \<Rightarrow> bool" where
  "role_in_scope q r \<longleftrightarrow>
     (if rq_roots q = None \<and> rq_entities q = None \<and> rq_system q then True
      else (rq_system q \<and> system_wide r)
        \<or> (\<exists>rs \<in> set_option (rq_roots q). in_ids (set rs) (r_root_entity r) \<and> r_scope_entity r = None)
        \<or> (\<exists>es \<in> set_option (rq_entities q). in_ids (set es) (r_scope_entity r)))"

definition role_matches :: "(string \<Rightarrow> string \<Rightarrow> bool) \<Rightarrow> string option \<Rightarrow> role_row \<Rightarrow> bool" where
  "role_matches like search r \<longleftrightarrow>
     (case search of
        None \<Rightarrow> True
      | Some q \<Rightarrow> q = [] \<or> like q (r_name r) \<or> like q (r_display_name r)
          \<or> (case r_description r of None \<Rightarrow> False | Some t \<Rightarrow> like q t))"

definition list_roles ::
  "(string \<Rightarrow> string \<Rightarrow> bool) \<Rightarrow> db \<Rightarrow> role_query \<Rightarrow> int \<Rightarrow> int \<Rightarrow> role_row list \<times> nat" where
  "list_roles like d q page limit =
     (let hits = filter (\<lambda>r. r_status r \<noteq> DArchived \<and> role_matches like (rq_search q) r
            \<and> (\<forall>g \<in> set_option (rq_global q). r_is_global r = g)
            \<and> (\<forall>i \<in> set_option (rq_root q). r_root_entity r = Some i) \<and> role_in_scope q r) (tb_roles d)
      in (page_of page limit (sort_key r_name hits), length hits))"

section \<open>Assignments to users\<close>

definition user_role_snapshot :: "role_row \<Rightarrow> user_role_membership \<Rightarrow> snapshot" where
  "user_role_snapshot r m =
    [(''status'', PStr (membership_status_value (urm_status m))),
     (''assigned_at'', PDatetime (Aware (urm_assigned_at m))), (''assigned_by_id'', opt_str (urm_assigned_by m)),
     (''valid_from'', time_val (urm_from m)), (''valid_until'', time_val (urm_until m)),
     (''revoked_at'', time_val (urm_revoked_at m)), (''revoked_by_id'', opt_str (urm_revoked_by m)),
     (''revocation_reason'', opt_str (urm_reason m)), (''role_id'', PStr (urm_role m)),
     (''role_name'', PStr (r_name r)), (''role_display_name'', PStr (r_display_name r)),
     (''role_root_entity_id'', opt_str (r_root_entity r)), (''role_scope_entity_id'', opt_str (r_scope_entity r))]"

definition user_role_event ::
  "role_service \<Rightarrow> datetime \<Rightarrow> user_row \<Rightarrow> role_row \<Rightarrow> user_role_membership \<Rightarrow> string \<Rightarrow> string \<Rightarrow> uuid option
     \<Rightarrow> string option \<Rightarrow> snapshot option \<Rightarrow> snapshot \<Rightarrow> unit op" where
  "user_role_event sv now u r m typ src actor reason before meta =
     (if \<not> ro_audit sv then ret ()
      else audit_event (ro_iso sv) \<lparr>au_category = ''role'', au_type = typ, au_source = src,
        au_subject = Some (u_id u), au_email = u_email u, au_actor = actor,
        au_root = (case r_root_entity r of Some i \<Rightarrow> Some i | None \<Rightarrow> u_root_entity u),
        au_entity = r_scope_entity r, au_role = Some (r_id r), au_reason = reason, au_before = before,
        au_after = Some (user_role_snapshot r m),
        au_metadata = Some ([(''role_name'', PStr (r_name r)), (''role_display_name'', PStr (r_display_name r)),
          (''role_is_global'', PBool (r_is_global r)), (''role_root_entity_id'', opt_str (r_root_entity r)),
          (''role_scope_entity_id'', opt_str (r_scope_entity r))] @ meta), au_at = now\<rparr>)"

definition put_assignment :: "user_role_membership \<Rightarrow> db \<Rightarrow> db" where
  "put_assignment m d = d\<lparr>tb_user_roles := set_row urm_id m (tb_user_roles d)\<rparr>"

definition check_assignable :: "role_service \<Rightarrow> user_row \<Rightarrow> role_row \<Rightarrow> err + unit" where
  "check_assignable sv u r =
     (if r_status r \<noteq> DActive
      then Inl (invalid_input ''Only active roles can be assigned''
             [(''role_id'', PStr (r_id r)), (''status'', PStr (definition_status_value (r_status r)))])
      else case r_scope_entity r of
        Some sc \<Rightarrow> Inl (invalid_input ''Entity-local roles cannot be assigned via SimpleRBAC''
          [(''role_id'', PStr (r_id r)), (''scope_entity_id'', PStr sc)])
      | None \<Rightarrow> require_direct_role_root_match sv r (u_root_entity u))"

text \<open>A holder of a system-wide role of a hierarchical installation is protected.\<close>

definition protects_holder :: "role_service \<Rightarrow> role_row \<Rightarrow> bool" where
  "protects_holder sv r \<longleftrightarrow> ro_hierarchy sv \<and> system_wide r"

definition protect_user :: "user_row \<Rightarrow> db \<Rightarrow> db" where
  "protect_user u d = d\<lparr>tb_users := set_row u_id (u\<lparr>u_protected := Some True\<rparr>) (tb_users d)\<rparr>"

definition reassigned ::
  "datetime \<Rightarrow> uuid option \<Rightarrow> datetime option \<Rightarrow> datetime option \<Rightarrow> user_role_membership \<Rightarrow> user_role_membership" where
  "reassigned now actor from until m =
     m\<lparr>urm_assigned_at := now, urm_assigned_by := actor, urm_from := from, urm_until := until,
       urm_status := MActive, urm_revoked_at := None, urm_revoked_by := None, urm_reason := None\<rparr>"

definition new_assignment ::
  "datetime \<Rightarrow> uuid \<Rightarrow> uuid \<Rightarrow> uuid \<Rightarrow> uuid option \<Rightarrow> datetime option \<Rightarrow> datetime option \<Rightarrow> user_role_membership" where
  "new_assignment now i u rid actor from until =
     \<lparr>urm_id = i, urm_user = u, urm_role = rid, urm_assigned_at = now, urm_assigned_by = actor,
      urm_from = from, urm_until = until, urm_status = MActive, urm_revoked_at = None,
      urm_revoked_by = None, urm_reason = None\<rparr>"

definition assign_role_to_user ::
  "role_service \<Rightarrow> datetime \<Rightarrow> uuid \<Rightarrow> uuid \<Rightarrow> uuid \<Rightarrow> uuid option \<Rightarrow> datetime option \<Rightarrow> datetime option
     \<Rightarrow> user_role_membership op" where
  "assign_role_to_user sv now i u rid actor from until =
     bind_op (read_db (\<lambda>d. user_of d u)) (\<lambda>found. case found of
       None \<Rightarrow> raise_op (unknown_user u)
     | Some usr \<Rightarrow>
     bind_op (read_db (\<lambda>d. role_of d rid)) (\<lambda>found_role. case found_role of
       None \<Rightarrow> raise_op (role_not_found rid)
     | Some r \<Rightarrow>
     bind_op (lift_op (check_assignable sv usr r)) (\<lambda>_.
     bind_op (when_op (protects_holder sv r) (write_db (protect_user usr))) (\<lambda>_.
     bind_op (read_db (\<lambda>d. scalar_one_or_none (\<lambda>m. urm_user m = u \<and> urm_role m = rid) (tb_user_roles d))) (\<lambda>held.
     bind_op (lift_op held) (\<lambda>existing. case existing of
       Some m \<Rightarrow>
         if urm_status m = MActive
         then raise_op (invalid_input ''User already has this role assigned''
                [(''user_id'', PStr u), (''role_id'', PStr rid)])
         else
           (let m1 = reassigned now actor from until m in
            bind_op (write_db (put_assignment m1)) (\<lambda>_.
            bind_op (user_role_event sv now usr r m1 ''user.role_assigned'' ''role_service.assign_role_to_user'' actor
                       None (Some (user_role_snapshot r m)) [(''reactivated_existing_membership'', PBool True)]) (\<lambda>_.
            bind_op (invalidate_holder sv u) (\<lambda>_. ret m1))))
     | None \<Rightarrow>
         (let m1 = new_assignment now i u rid actor from until in
          bind_op (write_db (\<lambda>d. d\<lparr>tb_user_roles := tb_user_roles d @ [m1]\<rparr>)) (\<lambda>_.
          bind_op (user_role_event sv now usr r m1 ''user.role_assigned'' ''role_service.assign_role_to_user'' actor
                     None None [(''reactivated_existing_membership'', PBool False)]) (\<lambda>_.
          bind_op (invalidate_holder sv u) (\<lambda>_. ret m1))))))))))"

definition revocation_event ::
  "role_service \<Rightarrow> datetime \<Rightarrow> string \<Rightarrow> uuid option \<Rightarrow> string option \<Rightarrow> user_role_membership \<Rightarrow> unit op" where
  "revocation_event sv now src actor reason m =
     bind_op (read_db (\<lambda>d. (user_of d (urm_user m), role_of d (urm_role m)))) (\<lambda>ur. case ur of
       (Some u, Some r) \<Rightarrow> user_role_event sv now u r (urm_revoke now actor reason m) ''user.role_revoked'' src actor
          reason (Some (user_role_snapshot r m)) []
     | _ \<Rightarrow> ret ())"

definition revoke_role_from_user ::
  "role_service \<Rightarrow> datetime \<Rightarrow> uuid \<Rightarrow> uuid \<Rightarrow> uuid option \<Rightarrow> string option \<Rightarrow> bool op" where
  "revoke_role_from_user sv now u rid actor reason =
     bind_op (read_db (\<lambda>d. scalar_one_or_none (\<lambda>m. urm_user m = u \<and> urm_role m = rid \<and> urm_status m = MActive)
                (tb_user_roles d))) (\<lambda>held.
     bind_op (lift_op held) (\<lambda>existing. case existing of
       None \<Rightarrow> ret False
     | Some m \<Rightarrow>
         bind_op (write_db (put_assignment (urm_revoke now actor reason m))) (\<lambda>_.
         bind_op (revocation_event sv now ''role_service.revoke_role_from_user'' actor reason m) (\<lambda>_.
         bind_op (invalidate_holder sv u) (\<lambda>_. ret True)))))"

definition assignment_fields :: "string list" where
  "assignment_fields =
     [''status'', ''valid_from'', ''valid_until'', ''revoked_at'', ''revoked_by_id'', ''revocation_reason'']"

definition updated_assignment ::
  "datetime \<Rightarrow> uuid option \<Rightarrow> string option \<Rightarrow> datetime option option \<Rightarrow> datetime option option
     \<Rightarrow> membership_status option \<Rightarrow> user_role_membership \<Rightarrow> user_role_membership" where
  "updated_assignment now actor reason from until st m =
     (let m1 = m\<lparr>urm_from := set_field from (urm_from m), urm_until := set_field until (urm_until m)\<rparr> in
      case st of
        None \<Rightarrow> m1
      | Some MActive \<Rightarrow>
          m1\<lparr>urm_status := MActive, urm_revoked_at := None, urm_revoked_by := None, urm_reason := None\<rparr>
      | Some s \<Rightarrow>
          (if s = MRevoked \<or> s = MSuspended
           then m1\<lparr>urm_status := s,
                   urm_revoked_at := (case urm_revoked_at m of None \<Rightarrow> Some now | Some t \<Rightarrow> Some t),
                   urm_revoked_by := actor,
                   urm_reason := (case reason of None \<Rightarrow> urm_reason m | Some x \<Rightarrow> Some x)\<rparr>
           else m1\<lparr>urm_status := s\<rparr>))"

definition check_assignment_update ::
  "role_service \<Rightarrow> uuid \<Rightarrow> user_row \<Rightarrow> role_row \<Rightarrow> datetime option option \<Rightarrow> datetime option option
     \<Rightarrow> membership_status option \<Rightarrow> user_role_membership \<Rightarrow> err + unit" where
  "check_assignment_update sv u usr r from until st m =
     (let from1 = set_field from (urm_from m); until1 = set_field until (urm_until m) in
      if window_inverted from1 until1
      then Inl (invalid_input ''valid_until must be after valid_from''
             [(''user_id'', PStr u), (''membership_id'', PStr (urm_id m))])
      else if lifecycle_update_grants_access (urm_status m) (urm_from m) (urm_until m)
                (set_field st (urm_status m)) from1 until1
      then require_direct_role_root_match sv r (u_root_entity usr)
      else Inr ())"

definition update_user_role_membership ::
  "role_service \<Rightarrow> datetime \<Rightarrow> uuid \<Rightarrow> uuid \<Rightarrow> datetime option option \<Rightarrow> datetime option option
     \<Rightarrow> membership_status option \<Rightarrow> uuid option \<Rightarrow> string option \<Rightarrow> user_role_membership op" where
  "update_user_role_membership sv now u mid from until st actor reason =
     bind_op (read_db (\<lambda>d. List.find (\<lambda>m. urm_id m = mid \<and> urm_user m = u) (tb_user_roles d))) (\<lambda>found. case found of
       None \<Rightarrow> raise_op (Auth MembershipNotFoundError ''Role membership not found''
                [(''user_id'', PStr u), (''membership_id'', PStr mid)])
     | Some m \<Rightarrow>
     bind_op (read_db (\<lambda>d. user_of d u)) (\<lambda>found_user. case found_user of
       None \<Rightarrow> raise_op (unknown_user u)
     | Some usr \<Rightarrow>
     bind_op (read_db (\<lambda>d. role_of d (urm_role m))) (\<lambda>found_role. case found_role of
       None \<Rightarrow> raise_op (role_not_found (urm_role m))
     | Some r \<Rightarrow>
     bind_op (lift_op (check_assignment_update sv u usr r from until st m)) (\<lambda>_.
     (let m1 = updated_assignment now actor reason from until st m;
          changed = changed_snapshot_fields assignment_fields (user_role_snapshot r m) (user_role_snapshot r m1) in
      bind_op (write_db (put_assignment m1)) (\<lambda>_.
      bind_op (when_op (changed \<noteq> [])
        (bind_op (user_role_event sv now usr r m1 ''user.role_updated'' ''role_service.update_user_role_membership''
                   actor reason (Some (user_role_snapshot r m)) [(''changed_fields'', strs changed)]) (\<lambda>_.
         invalidate_holder sv u))) (\<lambda>_. ret m1)))))))"

text \<open>The two bulk revocations differ in the rows they select and in the users they invalidate.\<close>

definition revoke_assignments ::
  "role_service \<Rightarrow> datetime \<Rightarrow> (db \<Rightarrow> user_role_membership \<Rightarrow> bool) \<Rightarrow> string \<Rightarrow> uuid option \<Rightarrow> string option
     \<Rightarrow> nat op" where
  "revoke_assignments sv now p src actor reason =
     bind_op (read_db (\<lambda>d. filter (\<lambda>m. p d m \<and> urm_status m \<noteq> MRevoked) (tb_user_roles d))) (\<lambda>ms.
     bind_op (each_op (revocation_event sv now src actor reason) ms) (\<lambda>_.
     bind_op (write_db (\<lambda>d. d\<lparr>tb_user_roles := map (\<lambda>m. if p d m \<and> urm_status m \<noteq> MRevoked
                then urm_revoke now actor reason m else m) (tb_user_roles d)\<rparr>)) (\<lambda>_.
     bind_op (each_op (invalidate_holder sv) (first_occurrences (map urm_user ms))) (\<lambda>_.
     ret (length ms)))))"

definition revoke_all_roles_for_user ::
  "role_service \<Rightarrow> datetime \<Rightarrow> uuid \<Rightarrow> uuid option \<Rightarrow> string option \<Rightarrow> nat op" where
  "revoke_all_roles_for_user sv now u actor reason =
     revoke_assignments sv now (\<lambda>_ m. urm_user m = u) ''role_service.revoke_all_roles_for_user'' actor reason"

definition revoke_memberships_for_archived_entities ::
  "role_service \<Rightarrow> datetime \<Rightarrow> uuid list \<Rightarrow> uuid option \<Rightarrow> string option \<Rightarrow> nat op" where
  "revoke_memberships_for_archived_entities sv now es actor reason =
     (if es = [] then ret 0
      else revoke_assignments sv now (\<lambda>d m. anchored_role d (set es) (urm_role m))
             ''role_service.revoke_memberships_for_archived_entities'' actor reason)"

section \<open>Reading assignments\<close>

definition assigned_role :: "db \<Rightarrow> user_role_membership \<Rightarrow> role_row option" where
  "assigned_role d m = (case role_of d (urm_role m) of
     None \<Rightarrow> None | Some r \<Rightarrow> if r_status r = DArchived then None else Some r)"

definition get_user_roles :: "datetime \<Rightarrow> db \<Rightarrow> uuid \<Rightarrow> bool \<Rightarrow> role_row list" where
  "get_user_roles now d u include_inactive =
     List.map_filter (\<lambda>m. if urm_valid now m then assigned_role d m else None)
       (filter (\<lambda>m. urm_user m = u \<and> (include_inactive \<or> urm_status m = MActive)) (tb_user_roles d))"

definition get_user_role_memberships :: "db \<Rightarrow> uuid \<Rightarrow> bool \<Rightarrow> user_role_membership list" where
  "get_user_role_memberships d u include_inactive =
     filter (\<lambda>m. assigned_role d m \<noteq> None) (sort_key (\<lambda>m. - urm_assigned_at m)
       (filter (\<lambda>m. urm_user m = u \<and> (include_inactive \<or> urm_status m = MActive)) (tb_user_roles d)))"

definition user_permission_names :: "datetime \<Rightarrow> db \<Rightarrow> uuid \<Rightarrow> string list" where
  "user_permission_names now d u =
     remdups (concat (map (\<lambda>r. case get_role_permission_names d (r_id r) of Inl _ \<Rightarrow> [] | Inr ns \<Rightarrow> ns)
       (get_user_roles now d u False)))"

end
