(* ===== verification/RowState.thy ===== *)
theory RowState
  imports Session
begin

text \<open>
  The methods of the row classes that say whether a row is usable at an instant, and those that change
  it: \<open>User\<close>, \<open>Entity\<close>, \<open>APIKey\<close>, \<open>IntegrationPrincipal\<close>, \<open>RefreshToken\<close>, \<open>OAuthState\<close> and
  \<open>SocialAccount\<close> of \<open>outlabs_auth/models/sql/\<close>. The current time is an argument.
\<close>

section \<open>Users\<close>

definition is_locked :: "datetime \<Rightarrow> user_row \<Rightarrow> bool" where
  "is_locked now u = (case u_locked_until u of None \<Rightarrow> False | Some t \<Rightarrow> now < t)"

definition can_authenticate :: "datetime \<Rightarrow> user_row \<Rightarrow> bool" where
  "can_authenticate now u \<longleftrightarrow> (if u_status u \<noteq> ''active'' then False else \<not> is_locked now u)"

definition has_auth_method :: "user_row \<Rightarrow> string \<Rightarrow> bool" where
  "has_auth_method u m \<longleftrightarrow> py_upper m \<in> set (map py_upper (u_auth_methods u))"

definition full_name :: "user_row \<Rightarrow> string" where
  "full_name u =
     (let parts = filter (\<lambda>p. p \<noteq> []) (List.map_filter id [u_first_name u, u_last_name u])
      in if parts \<noteq> [] then join_with '' '' parts else hd (split_on (CHR ''@'') (u_email u)))"

section \<open>Entities\<close>

definition entity_active :: "datetime \<Rightarrow> entity_row \<Rightarrow> bool" where
  "entity_active now e \<longleftrightarrow>
     (if e_status e \<noteq> ''active'' then False
      else if (case e_from e of None \<Rightarrow> False | Some t \<Rightarrow> now < t) then False
      else if (case e_until e of None \<Rightarrow> False | Some t \<Rightarrow> t < now) then False
      else True)"

lemma entity_active_window:
  "entity_active now e \<longleftrightarrow> e_status e = ''active'' \<and> currently_valid now (e_from e) (e_until e)"
  by (auto simp: entity_active_def currently_valid_def split: option.splits)

section \<open>API keys and their principals\<close>

definition key_active :: "datetime \<Rightarrow> api_key_row \<Rightarrow> bool" where
  "key_active now k \<longleftrightarrow>
     (if k_status k \<noteq> KActive then False
      else if (case k_expires k of None \<Rightarrow> False | Some t \<Rightarrow> t < now) then False
      else True)"

definition owner_type :: "api_key_row \<Rightarrow> string" where
  "owner_type k = (if k_principal k \<noteq> None then ''integration_principal'' else ''user'')"

definition resolved_owner :: "api_key_row \<Rightarrow> uuid option" where
  "resolved_owner k = (case k_principal k of Some p \<Rightarrow> Some p | None \<Rightarrow> k_owner k)"

definition principal_active :: "principal_row \<Rightarrow> bool" where
  "principal_active p \<longleftrightarrow> ip_status p = PActive"

text \<open>\<open>ck_api_keys_exactly_one_owner\<close>, the check constraint of the table.\<close>

definition one_owner :: "api_key_row \<Rightarrow> bool" where
  "one_owner k \<longleftrightarrow> (k_owner k \<noteq> None \<and> k_principal k = None) \<or> (k_owner k = None \<and> k_principal k \<noteq> None)"

section \<open>Tokens and states\<close>

definition refresh_valid :: "datetime \<Rightarrow> refresh_token_row \<Rightarrow> bool" where
  "refresh_valid now t \<longleftrightarrow> (if rt_revoked t then False else now \<le> rt_expires t)"

definition refresh_expired :: "datetime \<Rightarrow> refresh_token_row \<Rightarrow> bool" where
  "refresh_expired now t \<longleftrightarrow> rt_expires t < now"

definition revoke_refresh :: "datetime \<Rightarrow> string \<Rightarrow> refresh_token_row \<Rightarrow> refresh_token_row" where
  "revoke_refresh now reason t =
     t\<lparr>rt_revoked := True, rt_revoked_at := Some now, rt_revoked_reason := Some reason\<rparr>"

definition record_refresh_usage :: "datetime \<Rightarrow> refresh_token_row \<Rightarrow> refresh_token_row" where
  "record_refresh_usage now t = t\<lparr>rt_last_used := Some now, rt_usage := rt_usage t + 1\<rparr>"

definition state_expired :: "datetime \<Rightarrow> oauth_state_row \<Rightarrow> bool" where
  "state_expired now x \<longleftrightarrow> os_expires x < now"

definition state_used :: "oauth_state_row \<Rightarrow> bool" where
  "state_used x \<longleftrightarrow> os_used_at x \<noteq> None"

definition state_valid :: "datetime \<Rightarrow> oauth_state_row \<Rightarrow> bool" where
  "state_valid now x \<longleftrightarrow> \<not> state_expired now x \<and> \<not> state_used x"

definition mark_state_used :: "datetime \<Rightarrow> oauth_state_row \<Rightarrow> oauth_state_row" where
  "mark_state_used now x = x\<lparr>os_used_at := Some now\<rparr>"

definition social_token_expired :: "datetime \<Rightarrow> social_row \<Rightarrow> bool" where
  "social_token_expired now a = (case so_token_expires a of None \<Rightarrow> False | Some t \<Rightarrow> t < now)"

definition update_social_tokens ::
  "datetime \<Rightarrow> string option \<Rightarrow> string option \<Rightarrow> datetime option \<Rightarrow> social_row \<Rightarrow> social_row" where
  "update_social_tokens now access refresh expires a =
     a\<lparr>so_access_token := (case access of None \<Rightarrow> so_access_token a | Some x \<Rightarrow> Some x),
       so_refresh_token := (case refresh of None \<Rightarrow> so_refresh_token a | Some x \<Rightarrow> Some x),
       so_token_expires := (case expires of None \<Rightarrow> so_token_expires a | Some x \<Rightarrow> Some x),
       so_refreshed_at := Some now\<rparr>"

definition record_social_login :: "datetime \<Rightarrow> social_row \<Rightarrow> social_row" where
  "record_social_login now a = a\<lparr>so_last_login := Some now\<rparr>"


definition put_user :: "user_row \<Rightarrow> db \<Rightarrow> db" where
  "put_user u d = d\<lparr>tb_users := set_row u_id u (tb_users d)\<rparr>"

end
