(* ===== verification/ApiKeyPolicy.thy ===== *)
theory ApiKeyPolicy
  imports RoleService RowState
begin

text \<open>
  The grant-time and run-time policy of API keys (\<open>outlabs_auth/services/api_key_policy.py\<close>). Every
  function reads one state of the database; permissions are checked by \<open>check_permission\<close> of the
  permission service, what its cache holds for a question being a parameter of the service record.
  The policy log is left out: it returns nothing.
\<close>

section \<open>The service\<close>

record key_policy =
  kp_hierarchy :: bool
  kp_allow_inherit :: bool
  kp_personal_prefixes :: "string list"
  kp_personal_excluded :: "string set"
  kp_system_prefixes :: "string list"
  kp_system_excluded :: "string set"
  kp_permissions :: bool
  kp_auth :: auth_config
  kp_cached :: "uuid \<Rightarrow> string \<Rightarrow> uuid option \<Rightarrow> cache_view"

definition lowered :: "string list \<Rightarrow> string list" where
  "lowered xs = map py_lower (filter (\<lambda>x. x \<noteq> []) xs)"

text \<open>The constructor: the action prefixes and resources of the configuration, in lower case.\<close>

definition make_key_policy ::
  "bool \<Rightarrow> bool \<Rightarrow> string list \<Rightarrow> string list \<Rightarrow> string list \<Rightarrow> string list \<Rightarrow> bool \<Rightarrow> auth_config
     \<Rightarrow> (uuid \<Rightarrow> string \<Rightarrow> uuid option \<Rightarrow> cache_view) \<Rightarrow> key_policy" where
  "make_key_policy hierarchy inherit personal personal_not system system_not permissions cfg cached =
     \<lparr>kp_hierarchy = hierarchy, kp_allow_inherit = inherit,
      kp_personal_prefixes = lowered personal, kp_personal_excluded = set (lowered personal_not),
      kp_system_prefixes = lowered system, kp_system_excluded = set (lowered system_not),
      kp_permissions = permissions, kp_auth = cfg, kp_cached = cached\<rparr>"

definition default_personal_prefixes :: "string list" where
  "default_personal_prefixes = [''read'', ''list'', ''search'', ''view'', ''get'', ''update'']"

definition policy_error :: "string \<Rightarrow> string \<Rightarrow> details \<Rightarrow> err" where
  "policy_error reason message ds = invalid_input message (ds @ [(''policy_reason'', PStr reason)])"

section \<open>Scopes\<close>

text \<open>\<open>scopes_allow_permission\<close> narrows an owner; \<open>principal_scopes_allow_permission\<close> is an envelope.\<close>

definition normalized_scopes :: "string list \<Rightarrow> string set" where
  "normalized_scopes scs = (\<lambda>s. if s = ''*'' then ''*:*'' else s) ` set (filter (\<lambda>s. s \<noteq> []) scs)"

definition scopes_allow_permission :: "string list \<Rightarrow> string \<Rightarrow> bool" where
  "scopes_allow_permission scs required =
     (if normalized_scopes scs = {} then True
      else permission_set_allows required (normalized_scopes scs))"

definition principal_scopes_allow_permission :: "string list \<Rightarrow> string \<Rightarrow> bool" where
  "principal_scopes_allow_permission scs required =
     (if normalized_scopes scs = {} then False
      else permission_set_allows required (normalized_scopes scs))"

text \<open>Which scopes a kind of key may carry at all.\<close>

definition action_allowed :: "string set \<Rightarrow> string list \<Rightarrow> string \<Rightarrow> bool" where
  "action_allowed excluded actions sc =
     (let (resource, action, _) = parse_permission_name sc in
      if py_lower resource \<in> excluded then False
      else list_ex (\<lambda>p. py_lower action = p \<or> py_startswith (py_lower action) (p @ ''_'')) actions)"

definition is_personal_scope_allowed :: "key_policy \<Rightarrow> string \<Rightarrow> bool" where
  "is_personal_scope_allowed kp = action_allowed (kp_personal_excluded kp) (kp_personal_prefixes kp)"

definition is_system_scope_allowed :: "key_policy \<Rightarrow> string \<Rightarrow> bool" where
  "is_system_scope_allowed kp = action_allowed (kp_system_excluded kp) (kp_system_prefixes kp)"

fun is_scope_allowed_for_key_kind :: "key_policy \<Rightarrow> key_kind \<Rightarrow> string \<Rightarrow> bool" where
  "is_scope_allowed_for_key_kind kp Personal sc = is_personal_scope_allowed kp sc"
| "is_scope_allowed_for_key_kind kp SystemIntegration sc = is_system_scope_allowed kp sc"

definition validate_scope_allowlist :: "key_policy \<Rightarrow> key_kind \<Rightarrow> string \<Rightarrow> err + unit" where
  "validate_scope_allowlist kp kind sc =
     (if CHR ''*'' \<in> set sc
      then Inl (policy_error ''wildcard_scope_disallowed''
             ''API keys do not allow wildcard scopes in this implementation slice'' [(''scope'', PStr sc)])
      else if kind = Personal \<and> \<not> is_personal_scope_allowed kp sc
      then Inl (policy_error ''scope_not_allowed_for_personal'' ''Scope is not allowed for personal API keys in v1''
             [(''scope'', PStr sc), (''allowed_action_prefixes'', strs (kp_personal_prefixes kp)),
              (''excluded_resources'', strs (sorted_list_of_set (kp_personal_excluded kp)))])
      else if kind = SystemIntegration \<and> \<not> is_system_scope_allowed kp sc
      then Inl (policy_error ''scope_not_allowed_for_system_integration''
             ''Scope is not allowed for system integration API keys in this slice''
             [(''scope'', PStr sc), (''allowed_action_prefixes'', strs (kp_system_prefixes kp)),
              (''excluded_resources'', strs (sorted_list_of_set (kp_system_excluded kp)))])
      else Inr ())"

section \<open>Principals\<close>

definition principal_of :: "db \<Rightarrow> uuid \<Rightarrow> principal_row option" where
  "principal_of d p = row_by ip_id p (tb_principals d)"

definition principal_role_ids :: "db \<Rightarrow> uuid \<Rightarrow> uuid list" where
  "principal_role_ids d p = sort (map snd (filter (\<lambda>(i, _). i = p) (tb_principal_roles d)))"

definition load_principal_role_ids :: "db \<Rightarrow> uuid list \<Rightarrow> (uuid \<times> uuid list) list" where
  "load_principal_role_ids d ps = map (\<lambda>p. (p, principal_role_ids d p)) (dedup ps)"

text \<open>\<open>get_permissions_for_roles\<close> of the permission service, and the names it gives.\<close>

definition role_scope_names :: "db \<Rightarrow> uuid list \<Rightarrow> string list" where
  "role_scope_names d rids =
     filter (\<lambda>n. n \<noteq> []) (map p_name (concat (map snd (get_permissions_for_roles d rids))))"

definition resolve_effective_scopes_for_assignments ::
  "key_policy \<Rightarrow> db \<Rightarrow> uuid list \<Rightarrow> string list \<Rightarrow> string list" where
  "resolve_effective_scopes_for_assignments kp d rids legacy =
     (let own = sort (remdups (filter (\<lambda>s. s \<noteq> []) legacy)) in
      if dedup rids = [] \<or> \<not> kp_permissions kp then own
      else sort (remdups (own @ role_scope_names d rids)))"

definition resolve_principal_effective_scopes :: "key_policy \<Rightarrow> db \<Rightarrow> principal_row \<Rightarrow> string list" where
  "resolve_principal_effective_scopes kp d p =
     sort (remdups (filter (\<lambda>s. s \<noteq> []) (ip_scopes p)
       @ (if kp_permissions kp then role_scope_names d (principal_role_ids d (ip_id p)) else [])))"

section \<open>What a user may grant\<close>

definition permits ::
  "key_policy \<Rightarrow> check_env \<Rightarrow> db \<Rightarrow> uuid \<Rightarrow> string \<Rightarrow> uuid option \<Rightarrow> user_row option \<Rightarrow> err + bool" where
  "permits kp env d u required e user =
     bindE (check_permission (kp_auth kp) d env (kp_cached kp u required e) (Some u) required e
              None None None user) (\<lambda>r. Inr (cr_granted r))"

definition policy_permission_names :: "db \<Rightarrow> string list" where
  "policy_permission_names d = sort (map p_name (filter (\<lambda>p. p_status p = DActive) (tb_permissions d)))"

definition filter_allowed_names :: "key_policy \<Rightarrow> key_kind \<Rightarrow> string list \<Rightarrow> string list" where
  "filter_allowed_names kp kind names = filter (is_scope_allowed_for_key_kind kp kind) names"

text \<open>The names a user holds, by the set query or, with attribute conditions, one check each.\<close>

definition held_names ::
  "key_policy \<Rightarrow> check_env \<Rightarrow> db \<Rightarrow> uuid \<Rightarrow> uuid option \<Rightarrow> string list \<Rightarrow> user_row option \<Rightarrow> err + string list" where
  "held_names kp env d u e names user =
     (if \<not> cfg_abac (kp_auth kp)
      then bindE (get_effective_permission_names (kp_auth kp) d env u e (Some names) user)
             (\<lambda>held. Inr (sorted_list_of_set held))
      else bindE (filterE (\<lambda>n. permits kp env d u n e user) names) (\<lambda>held. Inr (sort held)))"

definition calculate_user_grantable_scopes ::
  "key_policy \<Rightarrow> check_env \<Rightarrow> db \<Rightarrow> uuid \<Rightarrow> key_kind \<Rightarrow> uuid option \<Rightarrow> string list option \<Rightarrow> user_row option
     \<Rightarrow> err + string list" where
  "calculate_user_grantable_scopes kp env d u kind e candidates user =
     (let names = (case candidates of Some ns \<Rightarrow> ns | None \<Rightarrow> policy_permission_names d);
          allowed = filter_allowed_names kp kind names in
      if allowed = [] then Inr []
      else if \<not> kp_permissions kp then Inr (sort allowed)
      else held_names kp env d u e allowed user)"

definition validate_user_has_scope ::
  "key_policy \<Rightarrow> check_env \<Rightarrow> db \<Rightarrow> uuid \<Rightarrow> string \<Rightarrow> uuid option \<Rightarrow> err \<Rightarrow> err + unit" where
  "validate_user_has_scope kp env d u sc e refusal =
     (if \<not> kp_permissions kp then Inr ()
      else bindE (permits kp env d u sc e None) (\<lambda>ok. requireE ok refusal))"

section \<open>The grant context\<close>

definition load_actor_user :: "db \<Rightarrow> uuid \<Rightarrow> err + user_row" where
  "load_actor_user d u =
     (case user_of d u of
        None \<Rightarrow> Inl (policy_error ''actor_not_found'' ''Actor user not found'' [(''actor_user_id'', PStr u)])
      | Some x \<Rightarrow> Inr x)"

text \<open>Who owns the key: a user or an integration principal, exactly one of them.\<close>

type_synonym key_owner = "user_row option \<times> principal_row option"

record key_request =
  kq_actor :: "uuid option"
  kq_owner :: key_owner
  kq_kind :: key_kind
  kq_entity :: "uuid option"
  kq_inherit :: bool

definition owner_inactive :: "uuid \<Rightarrow> err" where
  "owner_inactive u = policy_error ''owner_inactive'' ''Personal API key owner must be active'' [(''owner_id'', PStr u)]"

definition cross_owner :: "uuid option \<Rightarrow> uuid \<Rightarrow> bool \<Rightarrow> err + unit" where
  "cross_owner actor owner_id allow_cross =
     (case actor of
        None \<Rightarrow> Inr ()
      | Some a \<Rightarrow> requireE (a = owner_id \<or> allow_cross)
          (policy_error ''cross_owner_personal_key_forbidden''
             ''Personal API keys can only be managed by their owner in v1''
             [(''actor_user_id'', PStr a), (''owner_id'', PStr owner_id)]))"

definition personal_anchor ::
  "datetime \<Rightarrow> db \<Rightarrow> user_row \<Rightarrow> uuid option \<Rightarrow> uuid \<Rightarrow> bool \<Rightarrow> err + unit" where
  "personal_anchor now d owner actor eid allow_cross =
     (case entity_of d eid of
        None \<Rightarrow> Inl (policy_error ''entity_anchor_not_found'' ''Entity anchor not found'' [(''entity_id'', PStr eid)])
      | Some e \<Rightarrow>
          if \<not> entity_active now e
          then Inl (policy_error ''entity_anchor_inactive'' ''Entity anchor must be active'' [(''entity_id'', PStr eid)])
          else bindE (cross_owner actor (u_id owner) allow_cross) (\<lambda>_.
            if \<not> can_authenticate now owner then Inl (owner_inactive (u_id owner))
            else if \<not> u_superuser owner \<and> u_root_entity owner \<noteq> Some (member_root d eid)
            then Inl (policy_error ''root_entity_mismatch'' (''Personal API keys must stay within the owner'' @ [CHR 0x27] @ ''s root entity'')
                   [(''owner_id'', PStr (u_id owner)), (''owner_root_entity_id'', opt_str (u_root_entity owner)),
                    (''entity_root_entity_id'', PStr (member_root d eid))])
            else Inr ()))"

definition personal_context ::
  "key_policy \<Rightarrow> datetime \<Rightarrow> db \<Rightarrow> key_request \<Rightarrow> user_row option \<Rightarrow> bool \<Rightarrow> err + unit" where
  "personal_context kp now d q owner allow_cross =
     (case owner of
        None \<Rightarrow> Inl (policy_error ''owner_required'' ''Personal API keys require a user owner'' [])
      | Some u \<Rightarrow>
          if kq_inherit q \<and> \<not> kp_allow_inherit kp
          then Inl (policy_error ''inherit_from_tree_disallowed''
                 ''Personal API keys cannot inherit descendant entity access in this configuration'' [])
          else if kq_inherit q \<and> kq_entity q = None
          then Inl (policy_error ''inherit_from_tree_requires_anchor'' ''inherit_from_tree requires an entity anchor'' [])
          else (case kq_entity q of
                  None \<Rightarrow>
                    if \<not> kp_hierarchy kp then Inr ()
                    else if \<not> can_authenticate now u then Inl (owner_inactive (u_id u))
                    else cross_owner (kq_actor q) (u_id u) allow_cross
                | Some e \<Rightarrow>
                    if \<not> kp_hierarchy kp
                    then Inl (policy_error ''entity_anchor_unsupported''
                           ''Entity anchors are not supported when entity hierarchy is disabled'' [(''entity_id'', PStr e)])
                    else personal_anchor now d u (kq_actor q) e allow_cross))"

text \<open>The anchor of a key of an entity-scoped principal must be the principal's, as must its tree flag.\<close>

definition principal_anchor ::
  "key_policy \<Rightarrow> datetime \<Rightarrow> db \<Rightarrow> key_request \<Rightarrow> user_row \<Rightarrow> principal_row \<Rightarrow> err + unit" where
  "principal_anchor kp now d q actor p =
     (if \<not> kp_hierarchy kp
      then Inl (policy_error ''entity_scoped_system_key_unsupported''
             ''Entity-scoped system integration API keys require EnterpriseRBAC''
             [(''key_kind'', PStr (key_kind_value (kq_kind q))), (''integration_principal_id'', PStr (ip_id p))])
      else case ip_anchor p of
        None \<Rightarrow> Inl (policy_error ''entity_anchor_required''
                  ''Entity-scoped integration principals require an anchor entity''
                  [(''integration_principal_id'', PStr (ip_id p))])
      | Some home \<Rightarrow>
          if kq_entity q \<noteq> Some home
          then Inl (policy_error ''entity_anchor_mismatch''
                 (''System integration API keys must use the principal'' @ [CHR 0x27] @ ''s anchor entity'')
                 [(''integration_principal_id'', PStr (ip_id p)), (''entity_id'', opt_str (kq_entity q)),
                  (''expected_entity_id'', PStr home)])
          else if kq_inherit q \<noteq> ip_inherit p
          then Inl (policy_error ''inherit_from_tree_mismatch''
                 ''System integration API keys must mirror the principal tree-scope setting''
                 [(''integration_principal_id'', PStr (ip_id p))])
          else (case entity_of d home of
                  None \<Rightarrow> Inl (policy_error ''entity_anchor_not_found'' ''Entity anchor not found'' [(''entity_id'', PStr home)])
                | Some e \<Rightarrow>
                    if \<not> entity_active now e
                    then Inl (policy_error ''entity_anchor_inactive'' ''Entity anchor must be active'' [(''entity_id'', PStr home)])
                    else if \<not> u_superuser actor \<and> u_root_entity actor \<noteq> Some (member_root d home)
                    then Inl (policy_error ''root_entity_mismatch''
                           (''Entity-scoped integration principals must stay within the actor'' @ [CHR 0x27] @ ''s root entity'')
                           [(''actor_user_id'', PStr (u_id actor)),
                            (''actor_root_entity_id'', opt_str (u_root_entity actor)),
                            (''entity_root_entity_id'', PStr (member_root d home))])
                    else Inr ()))"

definition system_context ::
  "key_policy \<Rightarrow> datetime \<Rightarrow> db \<Rightarrow> key_request \<Rightarrow> principal_row option \<Rightarrow> err + unit" where
  "system_context kp now d q owner =
     (case owner of
        None \<Rightarrow> Inl (policy_error ''invalid_owner_context''
                  ''System integration API keys cannot be owned by human users'' [])
      | Some p \<Rightarrow>
          (case kq_actor q of
             None \<Rightarrow> Inl (policy_error ''actor_required'' ''System integration API keys require an acting user'' [])
           | Some a \<Rightarrow> bindE (load_actor_user d a) (\<lambda>actor.
               if \<not> can_authenticate now actor
               then Inl (policy_error ''actor_inactive''
                      ''Only active users may manage system integration credentials'' [(''actor_user_id'', PStr a)])
               else if \<not> principal_active p
               then Inl (policy_error ''integration_principal_inactive'' ''Integration principal must be active''
                      [(''integration_principal_id'', PStr (ip_id p))])
               else if ip_kind p = PlatformGlobal
               then (if kq_entity q \<noteq> None
                     then Inl (policy_error ''entity_anchor_unsupported''
                            ''Platform-global integration principals cannot issue entity-anchored keys''
                            [(''entity_id'', opt_str (kq_entity q))])
                     else if kq_inherit q
                     then Inl (policy_error ''inherit_from_tree_disallowed''
                            ''Platform-global integration principals cannot inherit tree scope'' [])
                     else requireE (u_superuser actor \<or> \<not> kp_hierarchy kp)
                            (policy_error ''superuser_required''
                               ''Platform-global integration principals require a superuser actor''
                               [(''actor_user_id'', PStr a)]))
               else principal_anchor kp now d q actor p)))"

definition validate_grant_context ::
  "key_policy \<Rightarrow> datetime \<Rightarrow> db \<Rightarrow> key_request \<Rightarrow> bool \<Rightarrow> err + unit" where
  "validate_grant_context kp now d q allow_cross =
     (if (fst (kq_owner q) = None) = (snd (kq_owner q) = None)
      then Inl (policy_error ''invalid_owner_context'' ''Exactly one API key owner type must be provided''
             [(''key_kind'', PStr (key_kind_value (kq_kind q)))])
      else case kq_kind q of
        Personal \<Rightarrow> personal_context kp now d q (fst (kq_owner q)) allow_cross
      | SystemIntegration \<Rightarrow> system_context kp now d q (snd (kq_owner q)))"

section \<open>Grantable scopes\<close>

definition owner_required :: err where
  "owner_required = policy_error ''owner_required''
     ''Personal grantable-scope calculation requires a user owner'' []"

definition calculate_owner_grantable_scopes ::
  "key_policy \<Rightarrow> check_env \<Rightarrow> db \<Rightarrow> key_request \<Rightarrow> err + string list" where
  "calculate_owner_grantable_scopes kp env d q =
     (case fst (kq_owner q) of
        None \<Rightarrow> Inl owner_required
      | Some u \<Rightarrow>
          bindE (validate_grant_context kp (ce_now env) d (q\<lparr>kq_actor := Some (u_id u)\<rparr>) True) (\<lambda>_.
          calculate_user_grantable_scopes kp env d (u_id u) (kq_kind q) (kq_entity q) None (Some u)))"

definition calculate_actor_grantable_scopes ::
  "key_policy \<Rightarrow> check_env \<Rightarrow> db \<Rightarrow> uuid \<Rightarrow> key_request \<Rightarrow> err + string list" where
  "calculate_actor_grantable_scopes kp env d actor q =
     bindE (validate_grant_context kp (ce_now env) d (q\<lparr>kq_actor := Some actor\<rparr>) True) (\<lambda>_.
     calculate_user_grantable_scopes kp env d actor (kq_kind q) (kq_entity q) None None)"

definition calculate_grantable_scopes ::
  "key_policy \<Rightarrow> check_env \<Rightarrow> db \<Rightarrow> uuid \<Rightarrow> key_request \<Rightarrow> err + string list" where
  "calculate_grantable_scopes kp env d actor q =
     (case fst (kq_owner q) of
        None \<Rightarrow> Inl owner_required
      | Some u \<Rightarrow>
          bindE (validate_grant_context kp (ce_now env) d (q\<lparr>kq_actor := Some actor\<rparr>) False) (\<lambda>_.
          let names = policy_permission_names d in
          bindE (calculate_user_grantable_scopes kp env d (u_id u) (kq_kind q) (kq_entity q) (Some names) (Some u)) (\<lambda>own.
          if actor = u_id u then Inr (sort (remdups own))
          else bindE (calculate_user_grantable_scopes kp env d actor (kq_kind q) (kq_entity q) (Some names) None) (\<lambda>acting.
            Inr (sort (remdups (filter (\<lambda>n. n \<in> set acting) own)))))))"

definition calculate_system_integration_grantable_scopes ::
  "key_policy \<Rightarrow> check_env \<Rightarrow> db \<Rightarrow> uuid \<Rightarrow> uuid option \<Rightarrow> principal_scope \<Rightarrow> err + string list" where
  "calculate_system_integration_grantable_scopes kp env d actor_id home scope_kind =
     bindE (load_actor_user d actor_id) (\<lambda>actor.
     if \<not> can_authenticate (ce_now env) actor
     then Inl (policy_error ''actor_inactive'' ''Only active users may manage system integration credentials''
            [(''actor_user_id'', PStr actor_id)])
     else let allowed = filter_allowed_names kp SystemIntegration (policy_permission_names d) in
       if scope_kind = PlatformGlobal
       then (if u_superuser actor then Inr (sort allowed)
             else if kp_hierarchy kp
             then Inl (policy_error ''superuser_required''
                    ''Platform-global integration principals require a superuser actor'' [(''actor_user_id'', PStr actor_id)])
             else if \<not> kp_permissions kp then Inr []
             else bindE (get_effective_permission_names (kp_auth kp) d env actor_id None (Some allowed) (Some actor))
                    (\<lambda>held. Inr (sorted_list_of_set held)))
       else case home of
         None \<Rightarrow> Inl (policy_error ''entity_anchor_required''
                   ''Entity-scoped integration principals require an anchor entity'' [])
       | Some e \<Rightarrow>
           if \<not> (case entity_of d e of None \<Rightarrow> False | Some x \<Rightarrow> entity_active (ce_now env) x)
           then Inl (policy_error ''entity_anchor_invalid'' ''Entity anchor must exist and be active'' [(''entity_id'', PStr e)])
           else if \<not> u_superuser actor \<and> u_root_entity actor \<noteq> Some (member_root d e)
           then Inl (policy_error ''root_entity_mismatch''
                  (''Entity-scoped integration principals must stay within the actor'' @ [CHR 0x27] @ ''s root entity'')
                  [(''actor_user_id'', PStr actor_id), (''actor_root_entity_id'', opt_str (u_root_entity actor)),
                   (''entity_root_entity_id'', PStr (member_root d e))])
           else if \<not> kp_permissions kp \<or> u_superuser actor then Inr (sort allowed)
           else held_names kp env d actor_id (Some e) allowed (Some actor))"

fun within_grantable ::
  "key_policy \<Rightarrow> string list \<Rightarrow> uuid \<Rightarrow> uuid option \<Rightarrow> principal_scope \<Rightarrow> string list \<Rightarrow> err + unit" where
  "within_grantable kp grantable actor home kind [] = Inr ()"
| "within_grantable kp grantable actor home kind (sc # rest) =
     bindE (validate_scope_allowlist kp SystemIntegration sc) (\<lambda>_.
     if sc \<notin> set grantable
     then Inl (policy_error ''actor_scope_exceeded''
            (''Requested scope exceeds the actor'' @ [CHR 0x27] @ ''s current grantable system scopes'')
            [(''actor_user_id'', PStr actor), (''scope'', PStr sc), (''anchor_entity_id'', opt_str home),
             (''scope_kind'', PStr (principal_scope_value kind))])
     else within_grantable kp grantable actor home kind rest)"

definition validate_principal_allowed_scopes ::
  "key_policy \<Rightarrow> check_env \<Rightarrow> db \<Rightarrow> uuid \<Rightarrow> string list \<Rightarrow> uuid option \<Rightarrow> principal_scope \<Rightarrow> bool
     \<Rightarrow> err + string list" where
  "validate_principal_allowed_scopes kp env d actor allowed home kind allow_empty =
     (let wanted = sort (remdups (filter (\<lambda>s. s \<noteq> []) allowed)) in
      if wanted = []
      then (if allow_empty then Inr []
            else Inl (policy_error ''explicit_scopes_required''
                   ''Integration principals require at least one explicit scope'' []))
      else bindE (calculate_system_integration_grantable_scopes kp env d actor home kind) (\<lambda>grantable.
           bindE (within_grantable kp grantable actor home kind wanted) (\<lambda>_. Inr wanted)))"

section \<open>Creation and update\<close>

fun within_principal :: "string list \<Rightarrow> uuid \<Rightarrow> string list \<Rightarrow> err + unit" where
  "within_principal envelope pid [] = Inr ()"
| "within_principal envelope pid (sc # rest) =
     (if \<not> scopes_allow_permission envelope sc
      then Inl (policy_error ''principal_scope_exceeded''
             (''Requested scope exceeds the integration principal'' @ [CHR 0x27] @ ''s allowed scopes'')
             [(''integration_principal_id'', PStr pid), (''scope'', PStr sc)])
      else within_principal envelope pid rest)"

definition validate_system_scopes ::
  "key_policy \<Rightarrow> check_env \<Rightarrow> db \<Rightarrow> uuid \<Rightarrow> principal_row \<Rightarrow> string list \<Rightarrow> err + unit" where
  "validate_system_scopes kp env d actor p requested0 =
     (let envelope = resolve_principal_effective_scopes kp d p;
          requested = (if requested0 \<noteq> [] then requested0 else envelope) in
      if requested = []
      then Inl (policy_error ''principal_has_no_effective_scopes''
             ''System integration principals must have at least one effective permission before minting keys''
             [(''integration_principal_id'', PStr (ip_id p))])
      else bindE (validate_principal_allowed_scopes kp env d actor requested (ip_anchor p) (ip_kind p) False) (\<lambda>wanted.
           within_principal envelope (ip_id p) wanted))"

text \<open>Every scope of a personal key must be held by its owner, and by the actor when someone else acts.\<close>

fun validate_personal_scopes ::
  "key_policy \<Rightarrow> check_env \<Rightarrow> db \<Rightarrow> uuid \<Rightarrow> user_row \<Rightarrow> uuid option \<Rightarrow> string list \<Rightarrow> err + unit" where
  "validate_personal_scopes kp env d actor owner e [] = Inr ()"
| "validate_personal_scopes kp env d actor owner e (sc # rest) =
     bindE (validate_scope_allowlist kp Personal sc) (\<lambda>_.
     bindE (validate_user_has_scope kp env d (u_id owner) sc e
              (policy_error ''owner_scope_exceeded''
                 (''Requested scope exceeds the owner'' @ [CHR 0x27] @ ''s current permissions'')
                 [(''owner_id'', PStr (u_id owner)), (''scope'', PStr sc), (''entity_id'', opt_str e)])) (\<lambda>_.
     bindE (if actor \<noteq> u_id owner
            then validate_user_has_scope kp env d actor sc e
                   (policy_error ''actor_scope_exceeded''
                      (''Requested scope exceeds the actor'' @ [CHR 0x27] @ ''s current permissions'')
                      [(''actor_user_id'', PStr actor), (''scope'', PStr sc), (''entity_id'', opt_str e)])
            else Inr ()) (\<lambda>_.
     validate_personal_scopes kp env d actor owner e rest)))"

definition validate_key_policy ::
  "key_policy \<Rightarrow> check_env \<Rightarrow> db \<Rightarrow> key_request \<Rightarrow> string list \<Rightarrow> err + unit" where
  "validate_key_policy kp env d q scs =
     bindE (validate_grant_context kp (ce_now env) d q False) (\<lambda>_.
     case kq_kind q of
       SystemIntegration \<Rightarrow>
         (case (snd (kq_owner q), kq_actor q) of
            (None, _) \<Rightarrow> Inl (policy_error ''integration_principal_required''
               ''System integration API keys require an integration principal owner'' [])
          | (_, None) \<Rightarrow> Inl (policy_error ''actor_required''
               ''System integration API keys require an acting user'' [])
          | (Some p, Some a) \<Rightarrow> validate_system_scopes kp env d a p scs)
     | Personal \<Rightarrow>
         if \<not> kp_hierarchy kp then Inr ()
         else if scs = []
         then Inl (policy_error ''explicit_scopes_required''
                ''Personal API keys require at least one explicit scope in EnterpriseRBAC'' [])
         else (case fst (kq_owner q) of
                 None \<Rightarrow> Inl (policy_error ''owner_required'' ''Personal API keys require a user owner'' [])
               | Some u \<Rightarrow> validate_personal_scopes kp env d
                   (case kq_actor q of None \<Rightarrow> u_id u | Some a \<Rightarrow> a) u (kq_entity q) scs))"

text \<open>\<open>validate_create\<close> and \<open>validate_update\<close>: the latter with the kind of the stored key.\<close>

definition validate_create :: "key_policy \<Rightarrow> check_env \<Rightarrow> db \<Rightarrow> key_request \<Rightarrow> string list \<Rightarrow> err + unit" where
  "validate_create kp env d q scs = validate_key_policy kp env d q scs"

definition validate_update ::
  "key_policy \<Rightarrow> check_env \<Rightarrow> db \<Rightarrow> key_request \<Rightarrow> api_key_row \<Rightarrow> string list \<Rightarrow> err + unit" where
  "validate_update kp env d q k scs = validate_key_policy kp env d (q\<lparr>kq_kind := k_kind k\<rparr>) scs"

section \<open>Use\<close>

text \<open>The owner of a stored key, and whether it may act.\<close>

definition key_owner_usable :: "datetime \<Rightarrow> db \<Rightarrow> api_key_row \<Rightarrow> bool" where
  "key_owner_usable now d k =
     (case k_principal k of
        Some p \<Rightarrow> (case principal_of d p of None \<Rightarrow> False | Some x \<Rightarrow> principal_active x)
      | None \<Rightarrow> (case k_owner k of None \<Rightarrow> False
                | Some u \<Rightarrow> (case user_of d u of None \<Rightarrow> False | Some x \<Rightarrow> can_authenticate now x)))"

definition validate_runtime_use :: "datetime \<Rightarrow> db \<Rightarrow> api_key_row \<Rightarrow> bool" where
  "validate_runtime_use now d k =
     (if \<not> key_owner_usable now d k then False
      else case k_entity k of
        None \<Rightarrow> True
      | Some e \<Rightarrow> (case entity_of d e of None \<Rightarrow> False | Some x \<Rightarrow> entity_active now x))"

text \<open>The windows a run-time check observes, which bound how long its answer may be cached.\<close>

definition runtime_windows :: "db \<Rightarrow> api_key_row \<Rightarrow> (datetime option \<times> datetime option) list" where
  "runtime_windows d k =
     (case k_entity k of None \<Rightarrow> []
      | Some e \<Rightarrow> (case entity_of d e of None \<Rightarrow> [] | Some x \<Rightarrow> [(e_from x, e_until x)]))"

definition validate_runtime_permission ::
  "key_policy \<Rightarrow> check_env \<Rightarrow> db \<Rightarrow> api_key_row \<Rightarrow> string \<Rightarrow> uuid option \<Rightarrow> err + bool" where
  "validate_runtime_permission kp env d k required e =
     (case k_principal k of
        Some p \<Rightarrow> Inr (case principal_of d p of
            None \<Rightarrow> False
          | Some x \<Rightarrow> if \<not> principal_active x then False
                     else principal_scopes_allow_permission (resolve_principal_effective_scopes kp d x) required)
      | None \<Rightarrow>
          (case k_owner k of
             None \<Rightarrow> Inr True
           | Some u \<Rightarrow> if \<not> kp_permissions kp then Inr True else permits kp env d u required e None))"

section \<open>Effectiveness\<close>

definition key_status_reasons :: "datetime \<Rightarrow> api_key_row \<Rightarrow> string list" where
  "key_status_reasons now k =
     (case k_status k of
        KSuspended \<Rightarrow> [''key_suspended'']
      | KRevoked \<Rightarrow> [''key_revoked'']
      | KExpired \<Rightarrow> [''key_expired'']
      | KActive \<Rightarrow> (case k_expires k of None \<Rightarrow> [] | Some t \<Rightarrow> if t < now then [''key_expired''] else []))"

definition key_owner_reasons :: "datetime \<Rightarrow> db \<Rightarrow> api_key_row \<Rightarrow> string list" where
  "key_owner_reasons now d k =
     (case k_principal k of
        Some p \<Rightarrow> (case principal_of d p of
            None \<Rightarrow> [''integration_principal_missing'']
          | Some x \<Rightarrow> if principal_active x then [] else [''integration_principal_inactive''])
      | None \<Rightarrow> (case Option.bind (k_owner k) (user_of d) of
            None \<Rightarrow> [''owner_missing'']
          | Some x \<Rightarrow> if can_authenticate now x then [] else [''owner_inactive'']))"

definition key_anchor_reasons :: "datetime \<Rightarrow> db \<Rightarrow> api_key_row \<Rightarrow> string list" where
  "key_anchor_reasons now d k =
     (case k_entity k of
        None \<Rightarrow> []
      | Some e \<Rightarrow> (case entity_of d e of
            None \<Rightarrow> [''anchor_missing'']
          | Some x \<Rightarrow> if entity_active now x then [] else [''anchor_inactive'']))"

definition stored_scopes :: "db \<Rightarrow> uuid \<Rightarrow> string list" where
  "stored_scopes d kid = sort (map snd (filter (\<lambda>(i, _). i = kid) (tb_key_scopes d)))"

text \<open>What the owner can delegate to this key now; \<open>None\<close> when the grant context is no longer valid.\<close>

definition delegable :: "key_policy \<Rightarrow> check_env \<Rightarrow> db \<Rightarrow> api_key_row \<Rightarrow> err + string list option" where
  "delegable kp env d k =
     (case k_principal k of
        Some p \<Rightarrow> Inr (Some (case principal_of d p of None \<Rightarrow> []
                      | Some x \<Rightarrow> resolve_principal_effective_scopes kp d x))
      | None \<Rightarrow>
          (case calculate_owner_grantable_scopes kp env d
                  \<lparr>kq_actor = None, kq_owner = (Option.bind (k_owner k) (user_of d), None), kq_kind = k_kind k,
                   kq_entity = k_entity k, kq_inherit = k_inherit k\<rparr> of
             Inr scs \<Rightarrow> Inr (Some scs)
           | Inl (Auth InvalidInputError _ _) \<Rightarrow> Inr None
           | Inl e \<Rightarrow> Inl e))"

text \<open>The result is the list of the reasons why the key is not effective.\<close>

definition evaluate_effectiveness ::
  "key_policy \<Rightarrow> check_env \<Rightarrow> db \<Rightarrow> api_key_row \<Rightarrow> string list option \<Rightarrow> err + string list" where
  "evaluate_effectiveness kp env d k scs =
     (let reasons = key_status_reasons (ce_now env) k @ key_owner_reasons (ce_now env) d k
                    @ key_anchor_reasons (ce_now env) d k in
      if reasons \<noteq> [] then Inr reasons
      else if \<not> kp_hierarchy kp then Inr []
      else bindE (delegable kp env d k) (\<lambda>grantable. case grantable of
             None \<Rightarrow> Inr [''policy_invalid'']
           | Some names \<Rightarrow>
               let own = (case scs of None \<Rightarrow> stored_scopes d (k_id k) | Some given_scopes \<Rightarrow> given_scopes) in
               if list_ex (scopes_allow_permission own) names then Inr []
               else Inr [''no_effective_scopes'']))"

fun evaluate_effectiveness_map ::
  "key_policy \<Rightarrow> check_env \<Rightarrow> db \<Rightarrow> (uuid \<times> string list) list \<Rightarrow> api_key_row list
     \<Rightarrow> err + (uuid \<times> string list) list" where
  "evaluate_effectiveness_map kp env d known [] = Inr []"
| "evaluate_effectiveness_map kp env d known (k # ks) =
     bindE (evaluate_effectiveness kp env d k (map_of known (k_id k))) (\<lambda>reasons.
     bindE (evaluate_effectiveness_map kp env d known ks) (\<lambda>rest. Inr ((k_id k, reasons) # rest)))"

end
