(* ===== verification/IpRules.thy ===== *)
theory IpRules
  imports Prelude "HOL-Library.Word"
begin

text \<open>
  The address allow-lists of API keys (\<open>outlabs_auth/utils/ip.py\<close>) and what they use of Python's
  \<open>ipaddress\<close>: dotted quads, prefix lengths, net masks and host masks of IPv4, an address being a
  32-bit word. IPv6 stays a parameter: whether a text is an address, the texts a rule normalises to
  (network address and network), and whether an address lies in a rule's network.
\<close>

unbundle bit_operations_syntax

type_synonym ipv4 = "32 word"

record ipv6_lib =
  v6_address :: "string \<Rightarrow> bool"
  v6_network :: "string \<Rightarrow> (string \<times> string) option"
  v6_member :: "string \<Rightarrow> string \<Rightarrow> bool"

section \<open>Addresses\<close>

definition parse_octet :: "string \<Rightarrow> nat option" where
  "parse_octet s =
     (if s = [] \<or> \<not> list_all is_digit s \<or> 3 < length s \<or> (s \<noteq> ''0'' \<and> hd s = CHR ''0'') \<or> 255 < digits_val s
      then None else Some (digits_val s))"

definition of_bytes :: "nat list \<Rightarrow> ipv4" where
  "of_bytes bs = of_int (foldl (\<lambda>n b. 256 * n + int b) 0 bs)"

definition to_bytes :: "ipv4 \<Rightarrow> nat list" where
  "to_bytes w = (let n = uint w; q = n div 256; p = q div 256 in map nat [p div 256, p mod 256, q mod 256, n mod 256])"

definition parse_v4 :: "string \<Rightarrow> ipv4 option" where
  "parse_v4 s =
     (let parts = split_on (CHR ''.'') s in
      if length parts \<noteq> 4 \<or> list_ex (\<lambda>p. parse_octet p = None) parts then None
      else Some (of_bytes (List.map_filter parse_octet parts)))"

definition show_v4 :: "ipv4 \<Rightarrow> string" where
  "show_v4 w = join_with ''.'' (map show_nat (to_bytes w))"

section \<open>Networks\<close>

definition netmask :: "nat \<Rightarrow> ipv4" where
  "netmask n = (- 1) XOR drop_bit n (- 1)"

fun trailing_zeros :: "nat \<Rightarrow> int \<Rightarrow> nat" where
  "trailing_zeros 0 n = 0"
| "trailing_zeros (Suc b) n = (if odd n then 0 else Suc (trailing_zeros b (n div 2)))"

text \<open>\<open>_prefix_from_ip_int\<close>: a mask is ones followed by zeros.\<close>

definition prefix_from_int :: "int \<Rightarrow> nat option" where
  "prefix_from_int n =
     (let z = trailing_zeros 32 n in if n div 2 ^ z = 2 ^ (32 - z) - 1 then Some (32 - z) else None)"

definition prefix_from_text :: "string \<Rightarrow> nat option" where
  "prefix_from_text s =
     (if s \<noteq> [] \<and> list_all is_digit s \<and> digits_val s \<le> 32 then Some (digits_val s)
      else case parse_v4 s of
        None \<Rightarrow> None
      | Some m \<Rightarrow> (case prefix_from_int (uint m) of
            Some n \<Rightarrow> Some n
          | None \<Rightarrow> prefix_from_int (uint (m XOR (- 1)))))"

text \<open>\<open>IPv4Network(s, strict=False)\<close>: the network address, its host bits cleared, and the prefix length.\<close>

definition v4_network :: "string \<Rightarrow> (ipv4 \<times> nat) option" where
  "v4_network s =
     (case split_on (CHR ''/'') s of
        [a] \<Rightarrow> map_option (\<lambda>w. (w, 32)) (parse_v4 a)
      | [a, m] \<Rightarrow> (case (parse_v4 a, prefix_from_text m) of
            (Some w, Some n) \<Rightarrow> Some (w AND netmask n, n) | _ \<Rightarrow> None)
      | _ \<Rightarrow> None)"

definition v4_member :: "ipv4 \<Rightarrow> ipv4 \<times> nat \<Rightarrow> bool" where
  "v4_member a net \<longleftrightarrow> a AND netmask (snd net) = fst net"

section \<open>Rules\<close>

text \<open>\<open>None\<close> is \<open>ValueError\<close>.\<close>

definition normalize_ip_rule :: "ipv6_lib \<Rightarrow> string \<Rightarrow> string option" where
  "normalize_ip_rule lib v =
     (let raw = py_strip v in
      case v4_network raw of
        Some (w, n) \<Rightarrow> Some (if CHR ''/'' \<notin> set raw then show_v4 w else show_v4 w @ ''/'' @ show_nat n)
      | None \<Rightarrow> map_option (\<lambda>(a, net). if CHR ''/'' \<notin> set raw then a else net) (v6_network lib raw))"

fun normalize_all :: "ipv6_lib \<Rightarrow> string list \<Rightarrow> string list option" where
  "normalize_all lib [] = Some []"
| "normalize_all lib (v # vs) =
     Option.bind (normalize_ip_rule lib v) (\<lambda>r. map_option (Cons r) (normalize_all lib vs))"

definition normalize_ip_rules :: "ipv6_lib \<Rightarrow> string list \<Rightarrow> string list option" where
  "normalize_ip_rules lib vs = map_option (\<lambda>rs. rev (remdups (rev rs))) (normalize_all lib vs)"

text \<open>Addresses of one version are never members of networks of the other.\<close>

definition rule_admits :: "ipv6_lib \<Rightarrow> string \<Rightarrow> string \<Rightarrow> bool" where
  "rule_admits lib client rule =
     (case parse_v4 client of
        Some a \<Rightarrow> (case v4_network rule of None \<Rightarrow> False | Some net \<Rightarrow> v4_member a net)
      | None \<Rightarrow> v4_network rule = None \<and> v6_network lib rule \<noteq> None \<and> v6_member lib client rule)"

definition ip_matches_rules :: "ipv6_lib \<Rightarrow> string \<Rightarrow> string list \<Rightarrow> bool" where
  "ip_matches_rules lib client rules =
     (if parse_v4 client = None \<and> \<not> v6_address lib client then False
      else list_ex (rule_admits lib client) rules)"

section \<open>Printing and parsing\<close>

lemma of_bytes_to_bytes [simp]: "of_bytes (to_bytes w) = w"
proof -
  have "foldl (\<lambda>n b. 256 * n + int b) 0 (to_bytes w) = uint w"
    by (simp add: to_bytes_def Let_def pos_imp_zdiv_nonneg_iff)
  then show ?thesis by (simp add: of_bytes_def)
qed

lemma div_256_less: "(n :: int) < 256 * k \<Longrightarrow> n div 256 < k"
  by (simp add: div_less_iff_less_mult mult.commute)

lemma to_bytes_range: "b \<in> set (to_bytes w) \<Longrightarrow> b \<le> 255"
proof -
  have "uint w < 256 * 16777216" using uint_bounded [of w] by simp
  then have "uint w div 256 < 256 * 65536" using div_256_less [of "uint w" 16777216] by simp
  then have "uint w div 256 div 256 < 256 * 256" using div_256_less [of "uint w div 256" 65536] by simp
  then have "uint w div 256 div 256 div 256 < 256" by (rule div_256_less)
  then have "nat (uint w div 256 div 256 div 256) \<le> 255" by linarith
  moreover have "nat (m mod 256) \<le> 255" for m :: int
    using pos_mod_bound [of 256 m] by linarith
  ultimately show "b \<in> set (to_bytes w) \<Longrightarrow> b \<le> 255"
    by (auto simp: to_bytes_def Let_def)
qed

lemma show_nat_small:
  assumes "b \<le> 255"
  shows "length (show_nat b) \<le> 3" and "show_nat b = ''0'' \<or> hd (show_nat b) \<noteq> CHR ''0''"
proof -
  have digit: "char_of (48 + k) \<noteq> CHR ''0''" if "k < 10" "0 < k" for k :: nat
  proof
    assume "char_of (48 + k) = CHR ''0''"
    then have "digit_val (char_of (48 + k)) = digit_val (CHR ''0'')" by simp
    with that show False by (simp add: digit_val_def code_of_def)
  qed
  have "length (show_nat b) \<le> 3 \<and> (show_nat b = ''0'' \<or> hd (show_nat b) \<noteq> CHR ''0'')"
  proof (cases "b < 10")
    case True
    then show ?thesis using digit [of b] by (cases "b = 0") (simp_all add: show_nat.simps [of b] show_nat.simps [of 0])
  next
    case False
    then have unfold: "show_nat b = show_nat (b div 10) @ [char_of (48 + b mod 10)]" by (simp add: show_nat.simps [of b])
    show ?thesis
    proof (cases "b div 10 < 10")
      case True
      with False have "0 < b div 10" by simp
      with True digit [of "b div 10"] show ?thesis by (simp add: unfold show_nat.simps [of "b div 10"])
    next
      case no: False
      have "b div 10 div 10 < 10" "0 < b div 10 div 10" using no assms by auto
      with no digit [of "b div 10 div 10"] show ?thesis
        by (simp add: unfold show_nat.simps [of "b div 10"] show_nat.simps [of "b div 10 div 10"])
    qed
  qed
  then show "length (show_nat b) \<le> 3" and "show_nat b = ''0'' \<or> hd (show_nat b) \<noteq> CHR ''0''" by auto
qed

lemma parse_octet_show [simp]: "b \<le> 255 \<Longrightarrow> parse_octet (show_nat b) = Some b"
  using show_nat_small [of b] show_nat_digits [of b]
  by (auto simp: parse_octet_def list_all_iff)

lemma no_dot: "CHR ''.'' \<notin> set (show_nat n)" and no_slash: "CHR ''/'' \<notin> set (show_nat n)"
  using show_nat_digits [of n] by (auto simp: is_digit_def in_range_def code_of_def)

lemma parse_v4_show [simp]: "parse_v4 (show_v4 w) = Some w"
proof -
  obtain a b c d where bs: "to_bytes w = [a, b, c, d]" by (simp add: to_bytes_def Let_def)
  have parts: "split_on (CHR ''.'') (show_v4 w) = map show_nat (to_bytes w)"
    by (simp add: show_v4_def bs split_on_append split_on_no_sep no_dot)
  have "\<forall>p \<in> set (to_bytes w). parse_octet (show_nat p) = Some p" using to_bytes_range by simp
  then have "list_ex (\<lambda>p. parse_octet p = None) (map show_nat (to_bytes w)) = False"
    and "List.map_filter parse_octet (map show_nat (to_bytes w)) = to_bytes w"
    by (auto simp: list_ex_iff bs map_filter_simps)
  then show ?thesis by (simp add: parse_v4_def parts Let_def) (simp add: bs)
qed

lemma no_slash_v4: "CHR ''/'' \<notin> set (show_v4 w)"
proof -
  obtain a b c d where "to_bytes w = [a, b, c, d]" by (simp add: to_bytes_def Let_def)
  then show ?thesis by (simp add: show_v4_def no_slash)
qed

section \<open>Masks\<close>

lemma bit_netmask: "n \<le> 32 \<Longrightarrow> bit (netmask n) i \<longleftrightarrow> i < 32 \<and> 32 \<le> i + n"
  by (auto simp: netmask_def bit_simps)

lemma netmask_full: "w AND netmask 32 = w"
  by (rule bit_word_eqI) (simp add: bit_and_iff bit_netmask)

lemma same_network_iff:
  assumes "n \<le> 32"
  shows "a AND netmask n = w AND netmask n \<longleftrightarrow> drop_bit (32 - n) a = drop_bit (32 - n) w"
proof
  assume eq: "a AND netmask n = w AND netmask n"
  show "drop_bit (32 - n) a = drop_bit (32 - n) w"
  proof (rule bit_word_eqI)
    fix i assume "i < LENGTH(32)"
    have "bit (a AND netmask n) (32 - n + i) = bit (w AND netmask n) (32 - n + i)" by (simp add: eq)
    then show "bit (drop_bit (32 - n) a) i = bit (drop_bit (32 - n) w) i"
      using assms by (cases "32 - n + i < 32") (auto simp: bit_simps bit_netmask dest: bit_imp_le_length)
  qed
next
  assume eq: "drop_bit (32 - n) a = drop_bit (32 - n) w"
  show "a AND netmask n = w AND netmask n"
  proof (rule bit_word_eqI)
    fix i assume "i < LENGTH(32)"
    have "bit (drop_bit (32 - n) a) (i - (32 - n)) = bit (drop_bit (32 - n) w) (i - (32 - n))" by (simp add: eq)
    then show "bit (a AND netmask n) i = bit (w AND netmask n) i"
      using assms by (cases "32 - n \<le> i") (auto simp: bit_simps bit_netmask)
  qed
qed

lemma prefix_from_text_le: "prefix_from_text s = Some n \<Longrightarrow> n \<le> 32"
  by (auto simp: prefix_from_text_def prefix_from_int_def Let_def split: if_splits option.splits)

lemma prefix_from_text_show [simp]: "n \<le> 32 \<Longrightarrow> prefix_from_text (show_nat n) = Some n"
  using show_nat_digits [of n] by (simp add: prefix_from_text_def list_all_iff)

lemma v4_network_wf:
  assumes "v4_network s = Some (w, n)"
  shows "n \<le> 32" and "w AND netmask n = w" and "CHR ''/'' \<notin> set s \<Longrightarrow> n = 32"
proof -
  have "n \<le> 32 \<and> w AND netmask n = w \<and> (CHR ''/'' \<notin> set s \<longrightarrow> n = 32)"
    using assms
    by (auto simp: v4_network_def netmask_full split_on_no_sep and.assoc dest: prefix_from_text_le
        split: list.splits option.splits)
  then show "n \<le> 32" and "w AND netmask n = w" and "CHR ''/'' \<notin> set s \<Longrightarrow> n = 32" by auto
qed

lemma v4_network_show [simp]: "v4_network (show_v4 w) = Some (w, 32)"
  by (simp add: v4_network_def split_on_no_sep no_slash_v4)

lemma v4_network_show_net:
  assumes "n \<le> 32" "w AND netmask n = w"
  shows "v4_network (show_v4 w @ ''/'' @ show_nat n) = Some (w, n)"
  using assms by (simp add: v4_network_def split_on_append split_on_no_sep no_slash_v4 no_slash)

section \<open>Normalisation\<close>


definition no_ipv6 :: ipv6_lib where
  "no_ipv6 = \<lparr>v6_address = \<lambda>_. False, v6_network = \<lambda>_. None, v6_member = \<lambda>_ _. False\<rparr>"


end
