(* ===== verification/ApiKeys.thy ===== *)
theory ApiKeys
  imports ApiKeyPolicy IpRules
begin

text \<open>
  API keys (\<open>outlabs_auth/services/api_key.py\<close>): creation, verification, update, rotation, revocation
  and the queries. The key material and its SHA-256 hash are parameters. Redis is a parameter of
  verification: whether it is available, the counts its pipeline returns, and a cached relation between
  two entities. The observation of versions for the snapshot cache is in the theory of the snapshots.
\<close>

section \<open>The service\<close>

record key_service =
  ak_policy :: "key_policy option"
  ak_audit :: bool
  ak_redis :: bool
  ak_redis_enabled :: bool
  ak_fail_closed :: bool
  ak_iso :: "pydatetime \<Rightarrow> string"
  ak_env :: check_env
  ak_hash :: "string \<Rightarrow> string"
  ak_ip6 :: ipv6_lib

section \<open>Owners\<close>

text \<open>\<open>ResolvedAPIKeyOwner\<close>: the user or the principal.\<close>

definition resolve_api_key_owner :: "db \<Rightarrow> api_key_row \<Rightarrow> key_owner option" where
  "resolve_api_key_owner d k =
     (case k_principal k of
        Some p \<Rightarrow> map_option (\<lambda>x. (None, Some x)) (principal_of d p)
      | None \<Rightarrow> (case k_owner k of
            Some u \<Rightarrow> map_option (\<lambda>x. (Some x, None)) (user_of d u)
          | None \<Rightarrow> None))"

definition resolve_requested_owner :: "db \<Rightarrow> uuid option \<Rightarrow> uuid option \<Rightarrow> err + key_owner" where
  "resolve_requested_owner d owner principal_id =
     (if (owner = None) = (principal_id = None)
      then Inl (invalid_input ''Exactly one API key owner must be specified''
             [(''owner_id'', opt_str owner), (''integration_principal_id'', opt_str principal_id)])
      else case principal_id of
        Some p \<Rightarrow> (case principal_of d p of
            None \<Rightarrow> Inl (invalid_input ''Integration principal not found'' [(''integration_principal_id'', PStr p)])
          | Some x \<Rightarrow> Inr (None, Some x))
      | None \<Rightarrow> (case Option.bind owner (user_of d) of
            None \<Rightarrow> Inl (Auth UserNotFoundError ''User not found'' [(''user_id'', opt_str owner)])
          | Some u \<Rightarrow> Inr (Some u, None)))"

section \<open>Rows of a key\<close>

definition key_of :: "db \<Rightarrow> uuid \<Rightarrow> api_key_row option" where
  "key_of d kid = row_by k_id kid (tb_api_keys d)"

definition put_key :: "api_key_row \<Rightarrow> db \<Rightarrow> db" where
  "put_key k d = d\<lparr>tb_api_keys := set_row k_id k (tb_api_keys d)\<rparr>"

definition linked_values :: "(uuid \<times> string) list \<Rightarrow> uuid \<Rightarrow> string list" where
  "linked_values links kid = map snd (filter (\<lambda>(i, _). i = kid) links)"

text \<open>The queries order by the value.\<close>

definition get_api_key_scopes :: "db \<Rightarrow> uuid \<Rightarrow> string list" where
  "get_api_key_scopes d kid = sort (linked_values (tb_key_scopes d) kid)"

definition get_api_key_ip_whitelist :: "db \<Rightarrow> uuid \<Rightarrow> string list" where
  "get_api_key_ip_whitelist d kid = sort (linked_values (tb_key_ips d) kid)"

text \<open>Insertion into a junction table: its primary key is the pair.\<close>

definition link_all :: "uuid \<Rightarrow> string list \<Rightarrow> (uuid \<times> string) list \<Rightarrow> err + (uuid \<times> string) list" where
  "link_all kid vs links =
     (if \<not> distinct vs \<or> list_ex (\<lambda>v. (kid, v) \<in> set links) vs then Inl (Builtin IntegrityError)
      else Inr (links @ map (Pair kid) vs))"

definition add_scopes :: "uuid \<Rightarrow> string list \<Rightarrow> unit op" where
  "add_scopes kid scs =
     bind_op (read_db (\<lambda>d. link_all kid scs (tb_key_scopes d))) (\<lambda>linked.
     bind_op (lift_op linked) (\<lambda>rows. write_db (\<lambda>d. d\<lparr>tb_key_scopes := rows\<rparr>)))"

definition add_ips :: "uuid \<Rightarrow> string list \<Rightarrow> unit op" where
  "add_ips kid ips =
     bind_op (read_db (\<lambda>d. link_all kid ips (tb_key_ips d))) (\<lambda>linked.
     bind_op (lift_op linked) (\<lambda>rows. write_db (\<lambda>d. d\<lparr>tb_key_ips := rows\<rparr>)))"

definition clear_scopes :: "uuid \<Rightarrow> db \<Rightarrow> db" where
  "clear_scopes kid d = d\<lparr>tb_key_scopes := filter (\<lambda>(i, _). i \<noteq> kid) (tb_key_scopes d)\<rparr>"

definition clear_ips :: "uuid \<Rightarrow> db \<Rightarrow> db" where
  "clear_ips kid d = d\<lparr>tb_key_ips := filter (\<lambda>(i, _). i \<noteq> kid) (tb_key_ips d)\<rparr>"

section \<open>Audit and invalidation\<close>

definition key_snapshot :: "(pydatetime \<Rightarrow> string) \<Rightarrow> api_key_row \<Rightarrow> string list \<Rightarrow> string list \<Rightarrow> snapshot" where
  "key_snapshot fmt k scs ips =
     [(''key_id'', PStr (k_id k)), (''name'', PStr (k_name k)), (''description'', opt_str (k_description k)),
      (''prefix'', PStr (k_prefix k)), (''key_kind'', PStr (key_kind_value (k_kind k))),
      (''owner_type'', PStr (owner_type k)), (''owner_id'', opt_str (resolved_owner k)),
      (''status'', PStr (key_status_value (k_status k))), (''scopes'', strs (sort scs)),
      (''ip_whitelist'', strs (sort ips)), (''entity_id'', opt_str (k_entity k)),
      (''inherit_from_tree'', PBool (k_inherit k)), (''rate_limit_per_minute'', PInt (k_per_minute k)),
      (''rate_limit_per_hour'', opt_int (k_per_hour k)), (''rate_limit_per_day'', opt_int (k_per_day k)),
      (''expires_at'', opt_time fmt (k_expires k))]"

definition key_snapshot_from_db :: "(pydatetime \<Rightarrow> string) \<Rightarrow> db \<Rightarrow> api_key_row \<Rightarrow> snapshot" where
  "key_snapshot_from_db fmt d k = key_snapshot fmt k (get_api_key_scopes d (k_id k)) (get_api_key_ip_whitelist d (k_id k))"

definition record_key_event ::
  "key_service \<Rightarrow> datetime \<Rightarrow> user_row \<Rightarrow> api_key_row \<Rightarrow> string \<Rightarrow> string \<Rightarrow> uuid option \<Rightarrow> snapshot option
     \<Rightarrow> snapshot option \<Rightarrow> string option \<Rightarrow> snapshot \<Rightarrow> unit op" where
  "record_key_event sv occ u k typ src actor before after reason meta =
     bind_op (read_db (\<lambda>d. case k_entity k of None \<Rightarrow> u_root_entity u | Some e \<Rightarrow> Some (member_root d e))) (\<lambda>home.
     when_op (ak_audit sv) (audit_event (ak_iso sv)
       \<lparr>au_category = ''credential'', au_type = typ, au_source = src, au_subject = Some (u_id u),
        au_email = u_email u, au_actor = actor, au_root = home, au_entity = k_entity k, au_role = None,
        au_reason = reason, au_before = before, au_after = after,
        au_metadata = Some ([(''api_key_id'', PStr (k_id k)), (''api_key_prefix'', PStr (k_prefix k))] @ meta),
        au_at = occ\<rparr>))"

text \<open>\<open>invalidate_api_key_auth_snapshot\<close>: without Redis nothing is published.\<close>

definition invalidate_key_snapshot :: "key_service \<Rightarrow> api_key_row \<Rightarrow> unit op" where
  "invalidate_key_snapshot sv k =
     bind_op mark_change (\<lambda>_. when_op (ak_redis sv) (publish_later [BumpKey (k_hash k)]))"

section \<open>Creation\<close>

record key_spec =
  ks_name :: string
  ks_scopes :: "string list"
  ks_per_minute :: int
  ks_per_hour :: "int option"
  ks_per_day :: "int option"
  ks_entity :: "uuid option"
  ks_inherit :: bool
  ks_kind :: key_kind
  ks_ips :: "string list"
  ks_days :: "int option"
  ks_description :: "string option"

definition key_expiry :: "datetime \<Rightarrow> int option \<Rightarrow> datetime option" where
  "key_expiry now days =
     (case days of None \<Rightarrow> None | Some n \<Rightarrow> if n = 0 then None else Some (now + n * day_usec))"

definition kind_matches_owner :: "key_owner \<Rightarrow> key_kind \<Rightarrow> err + unit" where
  "kind_matches_owner owner kind =
     (if snd owner = None \<and> kind \<noteq> Personal
      then Inl (invalid_input ''Human users may only own personal API keys'' [(''key_kind'', PStr (key_kind_value kind))])
      else if snd owner \<noteq> None \<and> kind \<noteq> SystemIntegration
      then Inl (invalid_input ''Integration principals may only own system integration API keys''
             [(''key_kind'', PStr (key_kind_value kind))])
      else Inr ())"

definition checked_ips :: "key_service \<Rightarrow> string list \<Rightarrow> err + string list" where
  "checked_ips sv ips =
     (case normalize_ip_rules (ak_ip6 sv) ips of
        None \<Rightarrow> Inl (invalid_input ''IP whitelist entries must be valid IP addresses or CIDR ranges''
                  [(''ip_whitelist'', strs ips)])
      | Some rules \<Rightarrow> Inr rules)"

text \<open>A key of a principal takes the principal's anchor.\<close>

definition anchored_spec :: "key_owner \<Rightarrow> key_spec \<Rightarrow> key_spec" where
  "anchored_spec owner x =
     (case snd owner of None \<Rightarrow> x | Some p \<Rightarrow> x\<lparr>ks_entity := ip_anchor p, ks_inherit := ip_inherit p\<rparr>)"

definition acting_user :: "uuid option \<Rightarrow> key_owner \<Rightarrow> uuid option" where
  "acting_user actor owner = (case actor of Some a \<Rightarrow> Some a | None \<Rightarrow> map_option u_id (fst owner))"

definition key_request_of :: "uuid option \<Rightarrow> key_owner \<Rightarrow> key_spec \<Rightarrow> key_request" where
  "key_request_of actor owner x =
     \<lparr>kq_actor = actor, kq_owner = owner, kq_kind = ks_kind x, kq_entity = ks_entity x, kq_inherit = ks_inherit x\<rparr>"

definition new_key_row :: "key_service \<Rightarrow> datetime \<Rightarrow> uuid \<Rightarrow> string \<Rightarrow> key_owner \<Rightarrow> key_spec \<Rightarrow> api_key_row" where
  "new_key_row sv now kid full_key owner x =
     \<lparr>k_id = kid, k_name = ks_name x, k_description = ks_description x, k_prefix = take 16 full_key,
      k_hash = ak_hash sv full_key, k_owner = map_option u_id (fst owner),
      k_principal = map_option ip_id (snd owner), k_kind = ks_kind x, k_status = KActive,
      k_expires = key_expiry now (ks_days x), k_last_used = None, k_usage = 0,
      k_per_minute = ks_per_minute x, k_per_hour = ks_per_hour x, k_per_day = ks_per_day x,
      k_entity = ks_entity x, k_inherit = ks_inherit x\<rparr>"

text \<open>\<open>uq_api_keys_prefix\<close>\<close>

definition insert_key :: "api_key_row \<Rightarrow> unit op" where
  "insert_key k =
     bind_op (read_db (\<lambda>d. k_prefix k \<in> k_prefix ` set (tb_api_keys d))) (\<lambda>taken.
     if taken then raise_op (Builtin IntegrityError)
     else write_db (\<lambda>d. d\<lparr>tb_api_keys := tb_api_keys d @ [k]\<rparr>))"

definition check_new_key ::
  "key_service \<Rightarrow> db \<Rightarrow> uuid option \<Rightarrow> uuid option \<Rightarrow> key_spec \<Rightarrow> uuid option
     \<Rightarrow> err + key_owner \<times> key_spec" where
  "check_new_key sv d owner_id principal_id x0 actor =
     bindE (resolve_requested_owner d owner_id principal_id) (\<lambda>owner.
     bindE (kind_matches_owner owner (ks_kind x0)) (\<lambda>_.
     let x = anchored_spec owner x0 in
     bindE (checked_ips sv (ks_ips x)) (\<lambda>ips.
     bindE (case ak_policy sv of
              None \<Rightarrow> Inr ()
            | Some kp \<Rightarrow> validate_create kp (ak_env sv) d (key_request_of (acting_user actor owner) owner x) (ks_scopes x))
       (\<lambda>_. Inr (owner, x\<lparr>ks_ips := ips\<rparr>)))))"

definition create_api_key ::
  "key_service \<Rightarrow> uuid \<Rightarrow> string \<Rightarrow> uuid option \<Rightarrow> uuid option \<Rightarrow> key_spec \<Rightarrow> uuid option \<Rightarrow> string \<Rightarrow> bool
     \<Rightarrow> (string \<times> api_key_row) op" where
  "create_api_key sv kid full_key owner_id principal_id x0 actor src record_audit =
     (let now = ce_now (ak_env sv) in
     bind_op (read_db (\<lambda>d. check_new_key sv d owner_id principal_id x0 actor)) (\<lambda>checked.
     bind_op (lift_op checked) (\<lambda>(owner, x).
     let k = new_key_row sv now kid full_key owner x in
     bind_op (insert_key k) (\<lambda>_.
     bind_op (add_scopes kid (ks_scopes x)) (\<lambda>_.
     bind_op (add_ips kid (ks_ips x)) (\<lambda>_.
     bind_op (case fst owner of
                None \<Rightarrow> ret ()
              | Some u \<Rightarrow> when_op record_audit
                  (record_key_event sv now u k ''user.api_key_created'' src (acting_user actor owner) None
                     (Some (key_snapshot (ak_iso sv) k (ks_scopes x) (ks_ips x))) None [(''created_via'', PStr ''service'')])) (\<lambda>_.
     ret (full_key, k))))))))"

section \<open>Verification\<close>

text \<open>
  What Redis answers during one verification: the counts of the usage pipeline, whether it is still
  available after a failed pipeline (the breaker), and a cached relation.
\<close>

record key_redis =
  kr_available :: bool
  kr_after :: bool
  kr_counts :: "string \<Rightarrow> string list \<Rightarrow> (string \<Rightarrow> int option) option"
  kr_relation :: "uuid \<Rightarrow> uuid \<Rightarrow> bool option"

definition check_ip :: "key_service \<Rightarrow> db \<Rightarrow> uuid \<Rightarrow> string \<Rightarrow> bool" where
  "check_ip sv d kid ip =
     (let rules = linked_values (tb_key_ips d) kid in
      if rules = [] then True else ip_matches_rules (ak_ip6 sv) ip rules)"

definition check_scope :: "db \<Rightarrow> uuid \<Rightarrow> string \<Rightarrow> bool" where
  "check_scope d kid required = scopes_allow_permission (linked_values (tb_key_scopes d) kid) required"

text \<open>A relation is a row of the closure with a positive depth; the cache answers first when it holds it.\<close>

definition strict_descendant :: "db \<Rightarrow> uuid \<Rightarrow> uuid \<Rightarrow> bool" where
  "strict_descendant d a x =
     list_ex (\<lambda>r. cl_ancestor r = a \<and> cl_descendant r = x \<and> 0 < cl_depth r) (tb_closure d)"

definition check_entity_access_with_tree :: "(uuid \<Rightarrow> uuid \<Rightarrow> bool option) \<Rightarrow> db \<Rightarrow> api_key_row \<Rightarrow> uuid \<Rightarrow> bool" where
  "check_entity_access_with_tree cached d k target =
     (case k_entity k of
        None \<Rightarrow> True
      | Some e \<Rightarrow>
          if e = target then True
          else if k_inherit k
          then (case cached e target of Some b \<Rightarrow> b | None \<Rightarrow> strict_descendant d e target)
          else False)"

definition require_rate_limit_backend :: "key_service \<Rightarrow> bool \<Rightarrow> err + unit" where
  "require_rate_limit_backend sv available =
     (if ak_redis_enabled sv \<and> \<not> available \<and> ak_fail_closed sv
      then Inl (Auth AuthenticationInfrastructureError
             ''API-key authentication is temporarily unavailable because rate limiting is unavailable''
             [(''control'', PStr ''api_key_rate_limit''), (''retry_after_seconds'', PInt 5)])
      else Inr ())"

text \<open>The windows with a limit: \<open>_RATE_LIMIT_WINDOW_TTLS\<close>, and the Redis keys.\<close>

type_synonym rate_window = "string \<times> int \<times> int"

definition limited_window :: "string \<Rightarrow> int \<Rightarrow> int option \<Rightarrow> rate_window list" where
  "limited_window name ttl limit = (case limit of None \<Rightarrow> [] | Some n \<Rightarrow> if n = 0 then [] else [(name, ttl, n)])"

definition api_key_rate_windows :: "api_key_row \<Rightarrow> rate_window list" where
  "api_key_rate_windows k =
     limited_window ''minute'' 60 (Some (k_per_minute k)) @ limited_window ''hour'' 3600 (k_per_hour k)
     @ limited_window ''day'' 86400 (k_per_day k)"

definition usage_counter_key :: "string \<Rightarrow> string" where
  "usage_counter_key kid = ''apikey:'' @ kid @ '':usage''"

definition last_used_key :: "string \<Rightarrow> string" where
  "last_used_key kid = ''apikey:'' @ kid @ '':last_used''"

definition rate_limit_key :: "string \<Rightarrow> string \<Rightarrow> string" where
  "rate_limit_key kid window_name = ''apikey:'' @ kid @ '':ratelimit:'' @ window_name"

definition limit_exceeded :: "string \<Rightarrow> int \<Rightarrow> int \<Rightarrow> int \<Rightarrow> err" where
  "limit_exceeded window_name ttl limit count =
     Auth RateLimitError (''Rate limit exceeded: '' @ show_int limit @ '' requests per '' @ window_name)
       [(''limit'', PInt limit), (''current'', PInt count), (''window'', PStr window_name),
        (''retry_after_seconds'', PInt ttl)]"

fun enforce_rate_limit_counts :: "string \<Rightarrow> (string \<Rightarrow> int option) \<Rightarrow> rate_window list \<Rightarrow> err + unit" where
  "enforce_rate_limit_counts kid counts [] = Inr ()"
| "enforce_rate_limit_counts kid counts ((name, ttl, limit) # rest) =
     (let count = (case counts (rate_limit_key kid name) of None \<Rightarrow> 0 | Some n \<Rightarrow> n) in
      if count \<le> limit then enforce_rate_limit_counts kid counts rest
      else Inl (limit_exceeded name ttl limit count))"

text \<open>Counting a use: one Redis pipeline, or the row itself when Redis is not available.\<close>

definition record_use :: "key_service \<Rightarrow> key_redis \<Rightarrow> api_key_row \<Rightarrow> (api_key_row option \<times> int) op" where
  "record_use sv r k =
     (if kr_available r
      then (case kr_counts r (usage_counter_key (k_id k))
                   (map (\<lambda>w. rate_limit_key (k_id k) (fst w)) (api_key_rate_windows k)) of
              None \<Rightarrow> bind_op (lift_op (require_rate_limit_backend sv (kr_after r))) (\<lambda>_. ret (Some k, 0))
            | Some counts \<Rightarrow>
                bind_op (lift_op (enforce_rate_limit_counts (k_id k) counts (api_key_rate_windows k))) (\<lambda>_.
                ret (Some k, case counts (usage_counter_key (k_id k)) of None \<Rightarrow> 0 | Some n \<Rightarrow> n)))
      else let k1 = k\<lparr>k_usage := k_usage k + 1, k_last_used := Some (ce_now (ak_env sv))\<rparr> in
           bind_op (write_db (put_key k1)) (\<lambda>_. ret (Some k1, k_usage k1)))"

text \<open>The checks after the key has been found, in their order; \<open>False\<close> is the answer \<open>(None, 0)\<close>.\<close>

definition key_admitted ::
  "key_service \<Rightarrow> key_redis \<Rightarrow> db \<Rightarrow> api_key_row \<Rightarrow> string option \<Rightarrow> uuid option \<Rightarrow> string option \<Rightarrow> err + bool" where
  "key_admitted sv r d k required entity ip =
     (if \<not> key_active (ce_now (ak_env sv)) k then Inr False
      else if (case ak_policy sv of None \<Rightarrow> False | Some kp \<Rightarrow> \<not> validate_runtime_use (ce_now (ak_env sv)) d k)
      then Inr False
      else bindE (case required of
             None \<Rightarrow> Inr True
           | Some sc \<Rightarrow>
               if sc = [] then Inr True
               else bindE (case ak_policy sv of
                      None \<Rightarrow> Inr True
                    | Some kp \<Rightarrow> validate_runtime_permission kp (ak_env sv) d k sc
                        (case entity of Some e \<Rightarrow> Some e | None \<Rightarrow> k_entity k)) (\<lambda>ok.
                    Inr (ok \<and> check_scope d (k_id k) sc))) (\<lambda>ok.
           if \<not> ok then Inr False
           else if (case entity of None \<Rightarrow> False
                    | Some e \<Rightarrow> \<not> check_entity_access_with_tree (kr_relation r) d k e) then Inr False
           else Inr (case ip of None \<Rightarrow> True | Some a \<Rightarrow> a = [] \<or> check_ip sv d (k_id k) a)))"

definition found_key :: "db \<Rightarrow> string \<Rightarrow> string \<Rightarrow> err + api_key_row option" where
  "found_key d pre h = scalar_one_or_none (\<lambda>k. k_prefix k = pre \<and> k_hash k = h) (tb_api_keys d)"

definition verify_api_key ::
  "key_service \<Rightarrow> key_redis \<Rightarrow> string \<Rightarrow> string option \<Rightarrow> uuid option \<Rightarrow> string option
     \<Rightarrow> (api_key_row option \<times> int) op" where
  "verify_api_key sv r key required entity ip =
     (if length key < 16 then ret (None, 0)
      else bind_op (read_db (\<lambda>d. found_key d (take 16 key) (ak_hash sv key))) (\<lambda>found.
           bind_op (lift_op found) (\<lambda>row. case row of
             None \<Rightarrow> ret (None, 0)
           | Some k \<Rightarrow>
               bind_op (read_db (\<lambda>d. key_admitted sv r d k required entity ip)) (\<lambda>verdict.
               bind_op (lift_op verdict) (\<lambda>ok.
               if \<not> ok then ret (None, 0)
               else bind_op (lift_op (require_rate_limit_backend sv (kr_available r))) (\<lambda>_.
                    record_use sv r k))))))"

section \<open>Queries\<close>

definition list_user_api_keys :: "db \<Rightarrow> uuid \<Rightarrow> key_status option \<Rightarrow> api_key_row list" where
  "list_user_api_keys d u st =
     take 1000 (filter (\<lambda>k. k_owner k = Some u \<and> (\<forall>s \<in> set_option st. k_status k = s)) (tb_api_keys d))"

text \<open>\<open>ilike\<close> is the parameter; the newest row is the last one inserted.\<close>

definition key_text_matches :: "(string \<Rightarrow> string \<Rightarrow> bool) \<Rightarrow> string option \<Rightarrow> api_key_row \<Rightarrow> bool" where
  "key_text_matches like search k \<longleftrightarrow>
     (case search of
        None \<Rightarrow> True
      | Some s \<Rightarrow> s = [] \<or> like (''%'' @ py_strip s @ ''%'') (k_name k)
          \<or> (\<exists>x \<in> set_option (k_description k). like (''%'' @ py_strip s @ ''%'') x)
          \<or> like (''%'' @ py_strip s @ ''%'') (k_prefix k))"

definition list_entity_api_keys_paginated ::
  "(string \<Rightarrow> string \<Rightarrow> bool) \<Rightarrow> db \<Rightarrow> uuid \<Rightarrow> uuid option \<Rightarrow> key_status option \<Rightarrow> key_kind option \<Rightarrow> string option
     \<Rightarrow> int \<Rightarrow> int \<Rightarrow> api_key_row list \<times> nat" where
  "list_entity_api_keys_paginated like d e owner st kind search page limit =
     (let hits = filter (\<lambda>k. k_entity k = Some e
            \<and> (\<forall>o1 \<in> set_option owner. k_owner k = Some o1 \<or> k_principal k = Some o1)
            \<and> (\<forall>s \<in> set_option st. k_status k = s) \<and> (\<forall>x \<in> set_option kind. k_kind k = x)
            \<and> key_text_matches like search k) (tb_api_keys d)
      in (page_of page limit (rev hits), length hits))"

definition list_entity_api_keys ::
  "(string \<Rightarrow> string \<Rightarrow> bool) \<Rightarrow> db \<Rightarrow> uuid \<Rightarrow> uuid option \<Rightarrow> key_status option \<Rightarrow> key_kind option \<Rightarrow> api_key_row list" where
  "list_entity_api_keys like d e owner st kind =
     fst (list_entity_api_keys_paginated like d e owner st kind None 1 1000)"

definition list_principal_api_keys_paginated ::
  "(string \<Rightarrow> string \<Rightarrow> bool) \<Rightarrow> db \<Rightarrow> uuid \<Rightarrow> key_status option \<Rightarrow> string option \<Rightarrow> int \<Rightarrow> int
     \<Rightarrow> api_key_row list \<times> nat" where
  "list_principal_api_keys_paginated like d p st search page limit =
     (let hits = filter (\<lambda>k. k_principal k = Some p \<and> (\<forall>s \<in> set_option st. k_status k = s)
            \<and> key_text_matches like search k) (tb_api_keys d)
      in (page_of page limit (rev hits), length hits))"

definition list_principal_api_keys ::
  "(string \<Rightarrow> string \<Rightarrow> bool) \<Rightarrow> db \<Rightarrow> uuid \<Rightarrow> key_status option \<Rightarrow> api_key_row list" where
  "list_principal_api_keys like d p st = fst (list_principal_api_keys_paginated like d p st None 1 1000)"

section \<open>Revocation\<close>

definition revoke_api_key_model ::
  "key_service \<Rightarrow> api_key_row \<Rightarrow> uuid option \<Rightarrow> string option \<Rightarrow> string \<Rightarrow> bool \<Rightarrow> unit op" where
  "revoke_api_key_model sv k actor reason src record_audit =
     bind_op (read_db (\<lambda>d. resolve_api_key_owner d k)) (\<lambda>owner.
     bind_op (read_db (\<lambda>d. if ak_audit sv \<and> record_audit then Some (key_snapshot_from_db (ak_iso sv) d k) else None)) (\<lambda>before.
     let k1 = k\<lparr>k_status := KRevoked\<rparr> in
     bind_op (write_db (put_key k1)) (\<lambda>_.
     bind_op (invalidate_key_snapshot sv k1) (\<lambda>_.
     case Option.bind owner fst of
       None \<Rightarrow> ret ()
     | Some u \<Rightarrow>
         bind_op (read_db (\<lambda>d. key_snapshot_from_db (ak_iso sv) d k1)) (\<lambda>after.
         when_op record_audit
           (record_key_event sv (ce_now (ak_env sv)) u k1 ''user.api_key_revoked'' src actor before (Some after) reason []))))))"

definition revoke_api_key ::
  "key_service \<Rightarrow> uuid \<Rightarrow> uuid option \<Rightarrow> string option \<Rightarrow> string \<Rightarrow> bool op" where
  "revoke_api_key sv kid actor reason src =
     bind_op (read_db (\<lambda>d. key_of d kid)) (\<lambda>found. case found of
       None \<Rightarrow> ret False
     | Some k \<Rightarrow>
         bind_op (read_db (\<lambda>d. resolve_api_key_owner d k)) (\<lambda>owner. case owner of
           None \<Rightarrow> ret False
         | Some o1 \<Rightarrow>
             bind_op (revoke_api_key_model sv k (acting_user actor o1) reason src True) (\<lambda>_. ret True)))"

text \<open>The three bulk revocations differ in their filter.\<close>

definition revoke_keys_where ::
  "key_service \<Rightarrow> (api_key_row \<Rightarrow> bool) \<Rightarrow> uuid option \<Rightarrow> string option \<Rightarrow> string \<Rightarrow> nat op" where
  "revoke_keys_where sv p actor reason src =
     bind_op (read_db (\<lambda>d. filter (\<lambda>k. p k \<and> k_status k \<noteq> KRevoked) (tb_api_keys d))) (\<lambda>ks.
     bind_op (each_op (\<lambda>k. revoke_api_key_model sv k actor reason src True) ks) (\<lambda>_. ret (length ks)))"

definition revoke_user_api_keys ::
  "key_service \<Rightarrow> uuid \<Rightarrow> uuid option \<Rightarrow> string option \<Rightarrow> string \<Rightarrow> nat op" where
  "revoke_user_api_keys sv u = revoke_keys_where sv (\<lambda>k. k_owner k = Some u)"

definition revoke_integration_principal_api_keys ::
  "key_service \<Rightarrow> uuid \<Rightarrow> uuid option \<Rightarrow> string option \<Rightarrow> string \<Rightarrow> nat op" where
  "revoke_integration_principal_api_keys sv p = revoke_keys_where sv (\<lambda>k. k_principal k = Some p)"

definition revoke_entity_api_keys ::
  "key_service \<Rightarrow> uuid \<Rightarrow> uuid option \<Rightarrow> string option \<Rightarrow> string \<Rightarrow> nat op" where
  "revoke_entity_api_keys sv e = revoke_keys_where sv (\<lambda>k. k_entity k = Some e)"

definition delete_api_key :: "key_service \<Rightarrow> uuid \<Rightarrow> bool op" where
  "delete_api_key sv kid =
     bind_op (read_db (\<lambda>d. key_of d kid)) (\<lambda>found. case found of
       None \<Rightarrow> ret False
     | Some k \<Rightarrow>
         bind_op (write_db (\<lambda>d. clear_ips kid (clear_scopes kid
            (d\<lparr>tb_api_keys := filter (\<lambda>x. k_id x \<noteq> kid) (tb_api_keys d)\<rparr>)))) (\<lambda>_.
         bind_op (invalidate_key_snapshot sv k) (\<lambda>_. ret True)))"

section \<open>Update\<close>

text \<open>The keyword arguments given: \<open>None\<close> is an absent one.\<close>

record key_update =
  ku_name :: "string option"
  ku_description :: "string option option"
  ku_per_minute :: "int option"
  ku_per_hour :: "int option option"
  ku_per_day :: "int option option"
  ku_status :: "key_status option"
  ku_expires :: "datetime option option"
  ku_entity :: "uuid option option"
  ku_inherit :: "bool option"
  ku_scopes :: "string list option"
  ku_ips :: "string list option"

definition updated_fields :: "key_update \<Rightarrow> string list" where
  "updated_fields u = map fst (filter snd
     [(''description'', ku_description u \<noteq> None), (''entity_id'', ku_entity u \<noteq> None),
      (''expires_at'', ku_expires u \<noteq> None), (''inherit_from_tree'', ku_inherit u \<noteq> None),
      (''ip_whitelist'', ku_ips u \<noteq> None), (''name'', ku_name u \<noteq> None),
      (''rate_limit_per_day'', ku_per_day u \<noteq> None), (''rate_limit_per_hour'', ku_per_hour u \<noteq> None),
      (''rate_limit_per_minute'', ku_per_minute u \<noteq> None), (''scopes'', ku_scopes u \<noteq> None),
      (''status'', ku_status u \<noteq> None)])"

definition grant_fields_changed :: "key_update \<Rightarrow> bool" where
  "grant_fields_changed u \<longleftrightarrow> ku_scopes u \<noteq> None \<or> ku_entity u \<noteq> None \<or> ku_inherit u \<noteq> None"

definition updated_key :: "key_update \<Rightarrow> api_key_row \<Rightarrow> api_key_row" where
  "updated_key u k =
     k\<lparr>k_name := set_field (ku_name u) (k_name k), k_description := set_field (ku_description u) (k_description k),
       k_per_minute := set_field (ku_per_minute u) (k_per_minute k),
       k_per_hour := set_field (ku_per_hour u) (k_per_hour k), k_per_day := set_field (ku_per_day u) (k_per_day k),
       k_status := set_field (ku_status u) (k_status k), k_expires := set_field (ku_expires u) (k_expires k),
       k_entity := set_field (ku_entity u) (k_entity k), k_inherit := set_field (ku_inherit u) (k_inherit k)\<rparr>"

definition check_key_update ::
  "key_service \<Rightarrow> db \<Rightarrow> api_key_row \<Rightarrow> key_update \<Rightarrow> uuid option \<Rightarrow> err + key_owner \<times> key_update" where
  "check_key_update sv d k u actor =
     (case resolve_api_key_owner d k of
        None \<Rightarrow> Inl (invalid_input ''API key owner could not be resolved'' [(''key_id'', PStr (k_id k))])
      | Some owner \<Rightarrow>
          if snd owner \<noteq> None \<and> (ku_entity u \<noteq> None \<or> ku_inherit u \<noteq> None)
          then Inl (invalid_input ''System integration API keys inherit entity scope from their integration principal''
                 [(''key_id'', PStr (k_id k))])
          else bindE (case ku_ips u of None \<Rightarrow> Inr None
                  | Some ips \<Rightarrow> bindE (checked_ips sv ips) (\<lambda>rules. Inr (Some rules))) (\<lambda>ips.
            bindE (case ak_policy sv of
                None \<Rightarrow> Inr ()
              | Some kp \<Rightarrow>
                  if grant_fields_changed u
                  then validate_update kp (ak_env sv) d
                         \<lparr>kq_actor = acting_user actor owner, kq_owner = owner, kq_kind = k_kind k,
                          kq_entity = set_field (ku_entity u) (k_entity k),
                          kq_inherit = set_field (ku_inherit u) (k_inherit k)\<rparr> k
                         (case ku_scopes u of Some scs \<Rightarrow> scs | None \<Rightarrow> get_api_key_scopes d (k_id k))
                  else Inr ()) (\<lambda>_.
            Inr (owner, u\<lparr>ku_ips := ips\<rparr>))))"

definition update_api_key ::
  "key_service \<Rightarrow> uuid \<Rightarrow> key_update \<Rightarrow> uuid option \<Rightarrow> string \<Rightarrow> api_key_row option op" where
  "update_api_key sv kid u0 actor src =
     bind_op (read_db (\<lambda>d. key_of d kid)) (\<lambda>found. case found of
       None \<Rightarrow> ret None
     | Some k \<Rightarrow>
         bind_op (read_db (\<lambda>d. check_key_update sv d k u0 actor)) (\<lambda>checked.
         bind_op (lift_op checked) (\<lambda>(owner, u).
         bind_op (read_db (\<lambda>d. if ak_audit sv then Some (key_snapshot_from_db (ak_iso sv) d k) else None)) (\<lambda>before.
         let k1 = updated_key u k in
         bind_op (write_db (put_key k1)) (\<lambda>_.
         bind_op (case ku_scopes u of None \<Rightarrow> ret ()
                  | Some scs \<Rightarrow> bind_op (write_db (clear_scopes kid)) (\<lambda>_. add_scopes kid scs)) (\<lambda>_.
         bind_op (case ku_ips u of None \<Rightarrow> ret ()
                  | Some ips \<Rightarrow> bind_op (write_db (clear_ips kid)) (\<lambda>_. add_ips kid ips)) (\<lambda>_.
         bind_op (read_db (\<lambda>d. key_snapshot_from_db (ak_iso sv) d k1)) (\<lambda>after.
         bind_op (case fst owner of
                    None \<Rightarrow> ret ()
                  | Some usr \<Rightarrow> record_key_event sv (ce_now (ak_env sv)) usr k1 ''user.api_key_updated'' src
                      (acting_user actor owner) before (Some after) None
                      [(''updated_fields'', strs (updated_fields u0))]) (\<lambda>_.
         bind_op (invalidate_key_snapshot sv k1) (\<lambda>_. ret (Some k1)))))))))))"

section \<open>Rotation\<close>

text \<open>The days a rotated key gets: the time left, rounded up, when there is some.\<close>

definition remaining_days :: "datetime \<Rightarrow> datetime option \<Rightarrow> int option" where
  "remaining_days now expires =
     (case expires of
        None \<Rightarrow> None
      | Some t \<Rightarrow> if now < t then Some (max 1 (- ((now - t) div day_usec))) else None)"

definition key_prefix_type :: "string \<Rightarrow> string" where
  "key_prefix_type pre = (if py_startswith pre ''sk_test_'' then ''sk_test'' else ''sk_live'')"

definition rotated_spec :: "datetime \<Rightarrow> api_key_row \<Rightarrow> string list \<Rightarrow> string list \<Rightarrow> key_spec" where
  "rotated_spec now k scs ips =
     \<lparr>ks_name = k_name k, ks_scopes = scs, ks_per_minute = k_per_minute k, ks_per_hour = k_per_hour k,
      ks_per_day = k_per_day k, ks_entity = k_entity k, ks_inherit = k_inherit k, ks_kind = k_kind k,
      ks_ips = ips, ks_days = remaining_days now (k_expires k), ks_description = k_description k\<rparr>"

text \<open>\<open>fresh\<close> is the key material of a prefix type.\<close>

definition rotate_api_key ::
  "key_service \<Rightarrow> uuid \<Rightarrow> (string \<Rightarrow> string) \<Rightarrow> uuid \<Rightarrow> uuid option \<Rightarrow> string \<Rightarrow> (string \<times> api_key_row) op" where
  "rotate_api_key sv new_id fresh kid actor src =
     (let now = ce_now (ak_env sv) in
     bind_op (read_db (\<lambda>d. key_of d kid)) (\<lambda>found. case found of
       None \<Rightarrow> raise_op (invalid_input ''API key not found'' [(''key_id'', PStr kid)])
     | Some k \<Rightarrow>
         bind_op (read_db (\<lambda>d. resolve_api_key_owner d k)) (\<lambda>resolved. case resolved of
           None \<Rightarrow> raise_op (invalid_input ''API key owner could not be resolved'' [(''key_id'', PStr kid)])
         | Some owner \<Rightarrow>
             bind_op (read_db (\<lambda>d. rotated_spec now k (get_api_key_scopes d kid) (get_api_key_ip_whitelist d kid))) (\<lambda>x.
             bind_op (read_db (\<lambda>d. key_snapshot_from_db (ak_iso sv) d k)) (\<lambda>before.
             bind_op (create_api_key sv new_id (fresh (key_prefix_type (k_prefix k))) (k_owner k) (k_principal k) x
                        (acting_user actor owner) src False) (\<lambda>(full_key, k1).
             bind_op (revoke_api_key_model sv k (acting_user actor owner) (Some ''API key rotated'') src False) (\<lambda>_.
             bind_op (read_db (\<lambda>d. key_snapshot_from_db (ak_iso sv) d k1)) (\<lambda>after.
             bind_op (case fst owner of
                        None \<Rightarrow> ret ()
                      | Some u \<Rightarrow> record_key_event sv now u k1 ''user.api_key_rotated'' src (acting_user actor owner)
                          (Some before) (Some after) (Some ''API key rotated'')
                          [(''rotated_from_key_id'', PStr kid), (''rotated_from_prefix'', PStr (k_prefix k)),
                           (''rotated_to_key_id'', PStr (k_id k1)), (''rotated_to_prefix'', PStr (k_prefix k1))]) (\<lambda>_.
             ret (full_key, k1))))))))))"

end
