(* ===== verification/ApiKeyUsage.thy ===== *)
theory ApiKeyUsage
  imports ApiKeys
begin

text \<open>
  The durable transfer of API-key usage counters from Redis to the table (\<open>sync_usage_counters_to_db\<close>
  and its helpers in \<open>outlabs_auth/services/api_key.py\<close>, the counter operations of
  \<open>outlabs_auth/services/redis_client.py\<close>). The counters of Redis are an association list from physical
  keys to counts. A request increments a live counter; the worker renames live counters to the keys of a
  batch, applies the batch with a receipt in one transaction, and only then deletes the staged keys.
\<close>

section \<open>Keys\<close>

definition redis_key :: "string \<Rightarrow> string \<Rightarrow> string" where
  "redis_key p key = (if key = p \<or> py_startswith key (p @ '':'') then key else p @ '':'' @ key)"

definition strip_redis_key :: "string \<Rightarrow> string \<Rightarrow> string" where
  "strip_redis_key p key = (if py_startswith key (p @ '':'') then drop (length p + 1) key else key)"

text \<open>\<open>f"usage-sync:{batch}:{logical key}"\<close>\<close>

definition staged_counter_key :: "string \<Rightarrow> uuid \<Rightarrow> string \<Rightarrow> string" where
  "staged_counter_key p b source = redis_key p (''usage-sync:'' @ b @ '':'' @ strip_redis_key p source)"

text \<open>\<open>read\<close> is \<open>UUID(...)\<close>.\<close>

definition parse_usage_counter_key :: "(string \<Rightarrow> uuid option) \<Rightarrow> string \<Rightarrow> string \<Rightarrow> uuid option" where
  "parse_usage_counter_key read p key =
     (let parts0 = split_on (CHR '':'') (strip_redis_key p key);
          parts = (if 5 \<le> length parts0 \<and> hd parts0 = ''usage-sync'' then drop 2 parts0 else parts0) in
      case parts of
        [a, kid, z] \<Rightarrow> if a = ''apikey'' \<and> z = ''usage'' then read kid else None
      | _ \<Rightarrow> None)"

definition parse_staged_usage_counter_key ::
  "(string \<Rightarrow> uuid option) \<Rightarrow> string \<Rightarrow> string \<Rightarrow> (uuid \<times> uuid) option" where
  "parse_staged_usage_counter_key read p key =
     (case split_on (CHR '':'') (strip_redis_key p key) of
        [s, b, a, kid, z] \<Rightarrow>
          if s = ''usage-sync'' \<and> a = ''apikey'' \<and> z = ''usage''
          then Option.bind (read b) (\<lambda>x. map_option (Pair x) (read kid)) else None
      | _ \<Rightarrow> None)"

section \<open>Batches\<close>

type_synonym counters = "(string \<times> int) list"

text \<open>\<open>INCRBY\<close>\<close>

definition increment_counter :: "string \<Rightarrow> counters \<Rightarrow> counters" where
  "increment_counter key store =
     (if key \<in> set (map fst store) then map (\<lambda>(k, n). if k = key then (k, n + 1) else (k, n)) store
      else store @ [(key, 1)])"

text \<open>The keys that match \<open>apikey:*:usage\<close>.\<close>

definition is_live_key :: "string \<Rightarrow> string \<Rightarrow> bool" where
  "is_live_key p key \<longleftrightarrow>
     py_startswith key (redis_key p ''apikey:'') \<and> py_endswith (drop (length (redis_key p ''apikey:'')) key) '':usage''"

text \<open>\<open>stage_counters_atomically\<close>: \<open>RENAMENX\<close> each live counter; the positive ones are the batch.\<close>

definition staged_name :: "string \<Rightarrow> uuid \<Rightarrow> counters \<Rightarrow> string \<Rightarrow> string" where
  "staged_name p b store key =
     (if is_live_key p key \<and> staged_counter_key p b key \<notin> set (map fst store)
      then staged_counter_key p b key else key)"

definition stage_store :: "string \<Rightarrow> uuid \<Rightarrow> counters \<Rightarrow> counters" where
  "stage_store p b store = map (\<lambda>(key, n). (staged_name p b store key, n)) store"

definition stage_counters :: "string \<Rightarrow> uuid \<Rightarrow> counters \<Rightarrow> counters" where
  "stage_counters p b store =
     List.map_filter (\<lambda>(key, n). if staged_name p b store key \<noteq> key \<and> 0 < n
        then Some (staged_name p b store key, n) else None) store"

text \<open>The staged counters of one batch that a later collection finds, and all batches in order.\<close>

definition staged_batch :: "(string \<Rightarrow> uuid option) \<Rightarrow> string \<Rightarrow> uuid \<Rightarrow> counters \<Rightarrow> counters" where
  "staged_batch read p b store =
     filter (\<lambda>(key, n). 0 < n \<and> (case parse_staged_usage_counter_key read p key of
        None \<Rightarrow> False | Some (x, _) \<Rightarrow> x = b)) store"

definition staged_batch_ids :: "(string \<Rightarrow> uuid option) \<Rightarrow> string \<Rightarrow> counters \<Rightarrow> uuid list" where
  "staged_batch_ids read p store =
     dedup (List.map_filter (\<lambda>(key, n). if n \<le> 0 then None
        else map_option fst (parse_staged_usage_counter_key read p key)) store)"

definition collect_usage_counter_batches ::
  "(string \<Rightarrow> uuid option) \<Rightarrow> string \<Rightarrow> uuid \<Rightarrow> counters \<Rightarrow> (uuid \<times> counters) list \<times> counters" where
  "collect_usage_counter_batches read p b store =
     (let old = map (\<lambda>x. (x, staged_batch read p x store)) (staged_batch_ids read p store);
          fresh = stage_counters p b store in
      (if fresh = [] then old else old @ [(b, fresh)], stage_store p b store))"

section \<open>Applying a batch\<close>

record sync_stats =
  sy_keys :: nat
  sy_total :: int
  sy_errors :: nat

definition no_stats :: sync_stats where
  "no_stats = \<lparr>sy_keys = 0, sy_total = 0, sy_errors = 0\<rparr>"

definition parse_last_used :: "(string \<Rightarrow> datetime option) \<Rightarrow> datetime \<Rightarrow> string option \<Rightarrow> datetime" where
  "parse_last_used read_time now raw =
     (case raw of
        None \<Rightarrow> now
      | Some s \<Rightarrow> if s = [] then now
          else (case read_time (strip_char (CHR 0x22) s) of None \<Rightarrow> now | Some t \<Rightarrow> t))"

definition usage_entries :: "(string \<Rightarrow> uuid option) \<Rightarrow> string \<Rightarrow> counters \<Rightarrow> (uuid \<times> int) list" where
  "usage_entries read p cs =
     List.map_filter (\<lambda>(key, n). map_option (\<lambda>kid. (kid, n)) (parse_usage_counter_key read p key)) cs"

definition add_usage :: "(uuid \<Rightarrow> datetime) \<Rightarrow> uuid \<times> int \<Rightarrow> api_key_row list \<Rightarrow> api_key_row list" where
  "add_usage used e rows =
     map (\<lambda>k. if k_id k = fst e then k\<lparr>k_usage := k_usage k + snd e, k_last_used := Some (used (fst e))\<rparr> else k) rows"

text \<open>The insertion of the receipt decides whether the batch is applied: a second one does nothing.\<close>

definition has_receipt :: "db \<Rightarrow> uuid \<Rightarrow> bool" where
  "has_receipt d b \<longleftrightarrow> b \<in> ub_id ` set (tb_usage_batches d)"

definition persist_usage_counter_batch ::
  "(string \<Rightarrow> uuid option) \<Rightarrow> string \<Rightarrow> (uuid \<Rightarrow> datetime) \<Rightarrow> uuid \<Rightarrow> counters \<Rightarrow> db \<times> sync_stats \<Rightarrow> db \<times> sync_stats" where
  "persist_usage_counter_batch read p used b cs ds =
     (let d = fst ds; stats = snd ds in
      if has_receipt d b then (d, stats)
      else let entries = usage_entries read p cs;
               known = filter (\<lambda>e. fst e \<in> k_id ` set (tb_api_keys d)) entries in
        (d\<lparr>tb_usage_batches := tb_usage_batches d @ [\<lparr>ub_id = b, ub_keys = int (length cs), ub_total = sum_list (map snd cs)\<rparr>],
           tb_api_keys := fold (add_usage used) known (tb_api_keys d)\<rparr>,
         stats\<lparr>sy_keys := sy_keys stats + length known, sy_total := sy_total stats + sum_list (map snd known),
               sy_errors := sy_errors stats + (length cs - length entries)\<rparr>))"

definition acknowledge_batch :: "string list \<Rightarrow> counters \<Rightarrow> counters" where
  "acknowledge_batch acked store = filter (\<lambda>(key, _). key \<notin> set acked) store"

text \<open>One run of the worker that no failure interrupts.\<close>

fun sync_batches ::
  "(string \<Rightarrow> uuid option) \<Rightarrow> string \<Rightarrow> (uuid \<Rightarrow> datetime) \<Rightarrow> (uuid \<times> counters) list \<Rightarrow> counters \<times> db \<times> sync_stats
     \<Rightarrow> counters \<times> db \<times> sync_stats" where
  "sync_batches read p used [] w = w"
| "sync_batches read p used ((b, cs) # rest) (store, ds) =
     sync_batches read p used rest
       (acknowledge_batch (map fst cs) store, persist_usage_counter_batch read p used b cs ds)"

definition sync_usage_counters_to_db ::
  "(string \<Rightarrow> uuid option) \<Rightarrow> string \<Rightarrow> (uuid \<Rightarrow> datetime) \<Rightarrow> uuid \<Rightarrow> counters \<Rightarrow> db \<Rightarrow> counters \<times> db \<times> sync_stats" where
  "sync_usage_counters_to_db read p used b store d =
     (let (batches, store1) = collect_usage_counter_batches read p b store in
      sync_batches read p used batches (store1, d, no_stats))"

section \<open>Histories\<close>

text \<open>
  The first part of the deployment's key prefix is not one of the two words that keys begin with (a key
  that begins with the prefix is taken for one that already has it).
\<close>

definition first_part :: "string \<Rightarrow> string" where
  "first_part p = takeWhile (\<lambda>c. c \<noteq> CHR '':'') p"

definition prefix_ok :: "string \<Rightarrow> bool" where
  "prefix_ok p \<longleftrightarrow> first_part p \<notin> {''apikey'', ''usage-sync''}"

text \<open>
  The durable state and, as a ghost, the uses each key has had. A crash of the worker loses nothing but
  the step it did not make, so it is not a step. Batch identifiers are fresh.
\<close>

record usage_world =
  uw_store :: counters
  uw_db :: db
  uw_uses :: "uuid \<Rightarrow> int"

definition id_ok :: "(string \<Rightarrow> uuid option) \<Rightarrow> uuid \<Rightarrow> bool" where
  "id_ok read i \<longleftrightarrow> CHR '':'' \<notin> set i \<and> read i = Some i"

definition unused_batch :: "(string \<Rightarrow> uuid option) \<Rightarrow> string \<Rightarrow> usage_world \<Rightarrow> uuid \<Rightarrow> bool" where
  "unused_batch read p w b \<longleftrightarrow> id_ok read b \<and> \<not> has_receipt (uw_db w) b
     \<and> b \<notin> set (staged_batch_ids read p (uw_store w))"

inductive usage_reach :: "(string \<Rightarrow> uuid option) \<Rightarrow> string \<Rightarrow> (uuid \<Rightarrow> datetime) \<Rightarrow> db \<Rightarrow> usage_world \<Rightarrow> bool"
  for read p used d0 where
  start: "usage_reach read p used d0 \<lparr>uw_store = [], uw_db = d0, uw_uses = (\<lambda>_. 0)\<rparr>"
| use: "usage_reach read p used d0 w \<Longrightarrow> id_ok read kid \<Longrightarrow>
    usage_reach read p used d0
      (w\<lparr>uw_store := increment_counter (redis_key p (usage_counter_key kid)) (uw_store w),
         uw_uses := (uw_uses w)(kid := uw_uses w kid + 1)\<rparr>)"
| stage: "usage_reach read p used d0 w \<Longrightarrow> unused_batch read p w b \<Longrightarrow>
    usage_reach read p used d0 (w\<lparr>uw_store := stage_store p b (uw_store w)\<rparr>)"
| persist: "usage_reach read p used d0 w \<Longrightarrow>
    usage_reach read p used d0
      (w\<lparr>uw_db := fst (persist_usage_counter_batch read p used b (staged_batch read p b (uw_store w)) (uw_db w, st))\<rparr>)"
| acknowledge: "usage_reach read p used d0 w \<Longrightarrow>
    (\<forall>key \<in> set acked. \<exists>b kid. parse_staged_usage_counter_key read p key = Some (b, kid) \<and> has_receipt (uw_db w) b) \<Longrightarrow>
    usage_reach read p used d0 (w\<lparr>uw_store := acknowledge_batch acked (uw_store w)\<rparr>)"

section \<open>The two forms of a key\<close>

definition live_key :: "string \<Rightarrow> uuid \<Rightarrow> string" where
  "live_key p kid = p @ '':'' @ ''apikey:'' @ kid @ '':usage''"

definition batch_key :: "string \<Rightarrow> uuid \<Rightarrow> uuid \<Rightarrow> string" where
  "batch_key p b kid = p @ '':usage-sync:'' @ b @ '':apikey:'' @ kid @ '':usage''"

lemma first_part_append: "first_part (p @ CHR '':'' # r) = first_part p"
  by (induction p) (auto simp: first_part_def)

lemma not_prefixed:
  assumes "first_part p \<noteq> first_part key"
  shows "redis_key p key = p @ '':'' @ key"
proof -
  have "\<not> py_startswith key (p @ '':'')"
    using assms first_part_append [of p] by (auto simp: py_startswith_iff prefix_def)
  then show ?thesis using assms by (auto simp: redis_key_def)
qed

lemma first_parts: "first_part (''apikey:'' @ x) = ''apikey''" "first_part (''usage-sync:'' @ x) = ''usage-sync''"
  by (simp_all add: first_part_def)

lemma redis_key_usage:
  assumes "prefix_ok p"
  shows "redis_key p (usage_counter_key kid) = live_key p kid"
  using assms not_prefixed [of p "usage_counter_key kid"]
  by (simp add: usage_counter_key_def first_parts live_key_def prefix_ok_def del: append.simps)

lemma strip_redis [simp]: "strip_redis_key p (p @ CHR '':'' # x) = x"
  by (simp add: strip_redis_key_def py_startswith_def)

lemma strip_live: "strip_redis_key p (live_key p kid) = ''apikey:'' @ kid @ '':usage''"
  using strip_redis [of p "''apikey:'' @ kid @ '':usage''"] by (simp add: live_key_def)

lemma strip_batch: "strip_redis_key p (batch_key p b kid) = ''usage-sync:'' @ b @ '':apikey:'' @ kid @ '':usage''"
  using strip_redis [of p "''usage-sync:'' @ b @ '':apikey:'' @ kid @ '':usage''"] by (simp add: batch_key_def)

lemma staged_live:
  assumes "prefix_ok p"
  shows "staged_counter_key p b (live_key p kid) = batch_key p b kid"
  using assms not_prefixed [of p "''usage-sync:'' @ b @ '':apikey:'' @ kid @ '':usage''"]
  by (simp add: staged_counter_key_def strip_live first_part_def batch_key_def prefix_ok_def)

lemma split_live:
  assumes "CHR '':'' \<notin> set kid"
  shows "split_on (CHR '':'') (''apikey:'' @ kid @ '':usage'') = [''apikey'', kid, ''usage'']"
  using assms split_on_append [of "CHR '':''" "''apikey''" "kid @ '':usage''"]
    split_on_append [of "CHR '':''" kid "''usage''"] by simp

lemma split_batch:
  assumes "CHR '':'' \<notin> set b" "CHR '':'' \<notin> set kid"
  shows "split_on (CHR '':'') (''usage-sync:'' @ b @ '':apikey:'' @ kid @ '':usage'')
    = [''usage-sync'', b, ''apikey'', kid, ''usage'']"
  using assms split_live [of kid] split_on_append [of "CHR '':''" "''usage-sync''" "b @ '':apikey:'' @ kid @ '':usage''"]
    split_on_append [of "CHR '':''" b "''apikey:'' @ kid @ '':usage''"] by simp

lemma parse_live:
  assumes "id_ok read kid"
  shows "parse_usage_counter_key read p (live_key p kid) = Some kid"
    and "parse_staged_usage_counter_key read p (live_key p kid) = None"
  using assms split_live [of kid]
  by (simp_all add: parse_usage_counter_key_def parse_staged_usage_counter_key_def strip_live id_ok_def
      del: append.simps)

lemma parse_batch:
  assumes "id_ok read b" "id_ok read kid"
  shows "parse_usage_counter_key read p (batch_key p b kid) = Some kid"
    and "parse_staged_usage_counter_key read p (batch_key p b kid) = Some (b, kid)"
  using assms split_batch [of b kid]
  by (simp_all add: parse_usage_counter_key_def parse_staged_usage_counter_key_def strip_batch id_ok_def
      del: append.simps)

lemma live_is_live:
  assumes "prefix_ok p"
  shows "is_live_key p (live_key p kid)" and "\<not> is_live_key p (batch_key p b kid)"
proof -
  have k: "redis_key p ''apikey:'' = p @ '':apikey:''"
    using assms not_prefixed [of p "''apikey:''"] first_parts(1) [of "[]"] by (simp add: prefix_ok_def)
  show "is_live_key p (live_key p kid)"
    by (simp add: is_live_key_def k live_key_def py_startswith_def py_endswith_iff suffix_def)
  show "\<not> is_live_key p (batch_key p b kid)"
    by (simp add: is_live_key_def k batch_key_def py_startswith_iff prefix_def)
qed

section \<open>Every use is counted once\<close>

definition store_ok :: "(string \<Rightarrow> uuid option) \<Rightarrow> string \<Rightarrow> counters \<Rightarrow> bool" where
  "store_ok read p store \<longleftrightarrow> distinct (map fst store) \<and>
     (\<forall>(key, n) \<in> set store. 0 < n \<and>
        ((\<exists>kid. id_ok read kid \<and> key = live_key p kid) \<or>
         (\<exists>b kid. id_ok read b \<and> id_ok read kid \<and> key = batch_key p b kid)))"

text \<open>The uses of a key still in Redis that no receipt accounts for, and those in the table.\<close>

definition counted :: "(string \<Rightarrow> uuid option) \<Rightarrow> string \<Rightarrow> db \<Rightarrow> uuid \<Rightarrow> string \<Rightarrow> bool" where
  "counted read p d kid key \<longleftrightarrow> parse_usage_counter_key read p key = Some kid \<and>
     (case parse_staged_usage_counter_key read p key of None \<Rightarrow> True | Some (b, _) \<Rightarrow> \<not> has_receipt d b)"

definition total_of :: "(string \<Rightarrow> bool) \<Rightarrow> counters \<Rightarrow> int" where
  "total_of c store = (\<Sum>(key, n) \<leftarrow> store. if c key then n else 0)"

definition pending_uses :: "(string \<Rightarrow> uuid option) \<Rightarrow> string \<Rightarrow> usage_world \<Rightarrow> uuid \<Rightarrow> int" where
  "pending_uses read p w kid = total_of (counted read p (uw_db w) kid) (uw_store w)"

definition usage_of :: "db \<Rightarrow> uuid \<Rightarrow> int" where
  "usage_of d kid = (case key_of d kid of None \<Rightarrow> 0 | Some k \<Rightarrow> k_usage k)"

lemma total_of_simps [simp]:
  "total_of c [] = 0"
  "total_of c ((key, n) # store) = (if c key then n else 0) + total_of c store"
  "total_of c (xs @ ys) = total_of c xs + total_of c ys"
  by (simp_all add: total_of_def)

lemma increment_absent:
  "key \<notin> set (map fst xs) \<Longrightarrow> map (\<lambda>(k, n :: int). if k = key then (k, n + 1) else (k, n)) xs = xs"
  by (induction xs) auto

lemma total_of_bump:
  "key \<in> set (map fst xs) \<Longrightarrow> distinct (map fst xs) \<Longrightarrow>
     total_of c (map (\<lambda>(k, n). if k = key then (k, n + 1) else (k, n)) xs) = total_of c xs + (if c key then 1 else 0)"
proof (induction xs)
  case (Cons x xs)
  obtain k n where x: "x = (k, n)" by (cases x)
  show ?case
  proof (cases "k = key")
    case True
    with Cons.prems x have "key \<notin> set (map fst xs)" by auto
    from increment_absent [OF this] True x show ?thesis by simp
  next
    case False
    with Cons.prems x have "key \<in> set (map fst xs)" "distinct (map fst xs)" by auto
    from Cons.IH [OF this] False x show ?thesis by simp
  qed
qed simp

lemma total_of_increment:
  assumes "distinct (map fst store)"
  shows "total_of c (increment_counter key store) = total_of c store + (if c key then 1 else 0)"
  using total_of_bump [OF _ assms, of key c] by (simp add: increment_counter_def)

lemma total_of_rename:
  assumes "\<forall>(key, n) \<in> set store. c (f key) = c key"
  shows "total_of c (map (\<lambda>(key, n). (f key, n)) store) = total_of c store"
  using assms by (induction store) auto

lemma total_of_filter:
  assumes "\<forall>key \<in> set acked. \<not> c key"
  shows "total_of c (acknowledge_batch acked store) = total_of c store"
  using assms by (induction store) (auto simp: acknowledge_batch_def)

lemma store_okE:
  assumes "store_ok read p store" "(key, n) \<in> set store"
  obtains (live) kid where "id_ok read kid" "key = live_key p kid" "0 < n"
    | (staged) b kid where "id_ok read b" "id_ok read kid" "key = batch_key p b kid" "0 < n"
  using assms unfolding store_ok_def by blast

definition entry_ok :: "(string \<Rightarrow> uuid option) \<Rightarrow> string \<Rightarrow> string \<times> int \<Rightarrow> bool" where
  "entry_ok read p e \<longleftrightarrow> 0 < snd e \<and>
     ((\<exists>kid. id_ok read kid \<and> fst e = live_key p kid) \<or>
      (\<exists>b kid. id_ok read b \<and> id_ok read kid \<and> fst e = batch_key p b kid))"

lemma store_ok_entries: "store_ok read p store \<longleftrightarrow> distinct (map fst store) \<and> (\<forall>e \<in> set store. entry_ok read p e)"
  by (simp add: store_ok_def entry_ok_def split_def)

lemma increment_counter_mem:
  "e \<in> set (increment_counter key store) \<Longrightarrow> e \<in> set store \<or> e = (key, 1) \<or> (\<exists>n. (key, n) \<in> set store \<and> e = (key, n + 1))"
  by (auto simp: increment_counter_def split: if_splits)

lemma increment_counter_keys:
  "map fst (increment_counter key store) =
     (if key \<in> set (map fst store) then map fst store else map fst store @ [key])"
proof -
  have "map fst (map (\<lambda>(k, n). if k = key then (k, n + 1) else (k, n)) store) = map fst store"
    by (simp add: case_prod_beta')
  then show ?thesis by (simp add: increment_counter_def)
qed

lemma store_ok_increment:
  assumes "store_ok read p store" "id_ok read kid"
  shows "store_ok read p (increment_counter (live_key p kid) store)"
  unfolding store_ok_entries
proof (intro conjI ballI)
  show "distinct (map fst (increment_counter (live_key p kid) store))"
    using assms(1) by (simp add: increment_counter_keys store_ok_entries)
  fix e assume "e \<in> set (increment_counter (live_key p kid) store)"
  then consider "e \<in> set store" | "e = (live_key p kid, 1)" | n where "(live_key p kid, n) \<in> set store" "e = (live_key p kid, n + 1)"
    using increment_counter_mem by blast
  then show "entry_ok read p e"
  proof cases
    case 1
    with assms(1) show ?thesis by (simp add: store_ok_entries)
  next
    case 2
    with assms(2) show ?thesis by (auto simp: entry_ok_def)
  next
    case (3 n)
    with assms(1) have "entry_ok read p (live_key p kid, n)" by (simp add: store_ok_entries)
    with 3 assms(2) show ?thesis by (auto simp: entry_ok_def)
  qed
qed

lemma staged_name_cases:
  assumes "prefix_ok p" "store_ok read p store" "(key, n) \<in> set store" "id_ok read b"
  obtains (moved) kid where "id_ok read kid" "key = live_key p kid" "staged_name p b store key = batch_key p b kid"
      "batch_key p b kid \<notin> set (map fst store)"
    | (kept) "staged_name p b store key = key"
proof (cases rule: store_okE [OF assms(2,3)])
  case (1 kid)
  show thesis
  proof (cases "batch_key p b kid \<in> set (map fst store)")
    case True
    with 1 show thesis by (intro kept) (simp add: staged_name_def staged_live [OF assms(1)])
  next
    case False
    with 1 live_is_live(1) [OF assms(1)] show thesis
      by (intro moved [of kid]) (simp_all add: staged_name_def staged_live [OF assms(1)])
  qed
next
  case (2 b kid)
  with live_is_live(2) [OF assms(1)] show thesis by (intro kept) (simp add: staged_name_def)
qed

lemma staged_name_inj:
  assumes "prefix_ok p" "store_ok read p store" "id_ok read b"
  shows "inj_on (staged_name p b store) (set (map fst store))"
proof (rule inj_onI)
  fix x y assume x: "x \<in> set (map fst store)" and y: "y \<in> set (map fst store)"
    and eq: "staged_name p b store x = staged_name p b store y"
  from x y obtain n m where xn: "(x, n) \<in> set store" and ym: "(y, m) \<in> set store" by auto
  show "x = y"
  proof (cases rule: staged_name_cases [OF assms(1,2) xn assms(3)])
    case (1 kid)
    note mx = this
    show ?thesis
    proof (cases rule: staged_name_cases [OF assms(1,2) ym assms(3)])
      case (1 other)
      with mx eq assms(3) have "kid = other" using parse_batch(1) [of read b _ p] by (metis option.inject)
      with mx 1 show ?thesis by simp
    next
      case 2
      with mx eq y show ?thesis by simp
    qed
  next
    case 2
    note kx = this
    show ?thesis
      by (cases rule: staged_name_cases [OF assms(1,2) ym assms(3)]) (use kx eq x in auto)
  qed
qed

lemma store_ok_stage:
  assumes "prefix_ok p" "store_ok read p store" "id_ok read b"
  shows "store_ok read p (stage_store p b store)"
  unfolding store_ok_entries
proof (intro conjI ballI)
  have "map fst (stage_store p b store) = map (staged_name p b store) (map fst store)"
    by (simp add: stage_store_def case_prod_beta')
  then show "distinct (map fst (stage_store p b store))"
    using staged_name_inj [OF assms] assms(2) by (simp only: distinct_map store_ok_entries simp_thms)
  fix e assume "e \<in> set (stage_store p b store)"
  then obtain k n where k: "(k, n) \<in> set store" "e = (staged_name p b store k, n)" by (auto simp: stage_store_def)
  then have kn: "entry_ok read p (k, n)" using assms(2) by (simp add: store_ok_entries)
  show "entry_ok read p e"
  proof (cases rule: staged_name_cases [OF assms(1,2) k(1) assms(3)])
    case (1 kid)
    with kn k(2) assms(3) show ?thesis by (auto simp: entry_ok_def)
  next
    case 2
    with kn k(2) show ?thesis by simp
  qed
qed

lemma counted_stage:
  assumes "prefix_ok p" "store_ok read p store" "id_ok read b" "\<not> has_receipt d b"
  shows "total_of (counted read p d kid) (stage_store p b store) = total_of (counted read p d kid) store"
  unfolding stage_store_def
proof (rule total_of_rename, clarify)
  fix key n assume mem: "(key, n) \<in> set store"
  show "counted read p d kid (staged_name p b store key) = counted read p d kid key"
    by (cases rule: staged_name_cases [OF assms(1,2) mem assms(3)])
      (use assms(3,4) in \<open>auto simp: counted_def parse_live parse_batch\<close>)
qed

text \<open>Applying a batch moves its uses from Redis to the table.\<close>

definition uses_in :: "uuid \<Rightarrow> (uuid \<times> int) list \<Rightarrow> int" where
  "uses_in kid es = (\<Sum>(i, n) \<leftarrow> es. if i = kid then n else 0)"

lemma uses_in_simps [simp]:
  "uses_in kid [] = 0" "uses_in kid ((i, n) # es) = (if i = kid then n else 0) + uses_in kid es"
  by (simp_all add: uses_in_def)

lemma key_of_add_usage:
  "row_by k_id kid (add_usage used e rows) =
     map_option (\<lambda>k. if kid = fst e then k\<lparr>k_usage := k_usage k + snd e, k_last_used := Some (used (fst e))\<rparr> else k)
       (row_by k_id kid rows)"
  by (induction rows) (auto simp: row_by_def add_usage_def)

lemma usage_after_fold:
  "map_option k_usage (row_by k_id kid (fold (add_usage used) es rows)) =
     map_option (\<lambda>k. k_usage k + uses_in kid es) (row_by k_id kid rows)"
proof (induction es arbitrary: rows)
  case Nil
  then show ?case by (cases "row_by k_id kid rows") simp_all
next
  case (Cons e es)
  show ?case
    by (cases e; cases "row_by k_id kid rows")
      (simp_all add: Cons.IH key_of_add_usage)
qed

lemma ids_add_usage: "map k_id (add_usage used e rows) = map k_id rows"
  by (simp add: add_usage_def)

lemma ids_fold: "map k_id (fold (add_usage used) es rows) = map k_id rows"
  by (induction es arbitrary: rows) (simp_all add: ids_add_usage)

lemma uses_in_known:
  assumes "kid \<in> ids"
  shows "uses_in kid (filter (\<lambda>e. fst e \<in> ids) es) = uses_in kid es"
  using assms by (induction es) auto

lemma usage_of_persist:
  assumes "kid \<in> k_id ` set (tb_api_keys d)" "\<not> has_receipt d b"
  shows "usage_of (fst (persist_usage_counter_batch read p used b cs (d, st))) kid
    = usage_of d kid + uses_in kid (usage_entries read p cs)"
proof -
  obtain k where k: "row_by k_id kid (tb_api_keys d) = Some k"
    using assms(1) by (cases "row_by k_id kid (tb_api_keys d)") (auto simp: row_by_None)
  then show ?thesis
    using usage_after_fold [of kid used "filter (\<lambda>e. fst e \<in> k_id ` set (tb_api_keys d)) (usage_entries read p cs)" "tb_api_keys d"]
    using assms
    by (auto simp: persist_usage_counter_batch_def Let_def usage_of_def key_of_def uses_in_known split: option.splits)
qed

lemma persist_receipt:
  "has_receipt (fst (persist_usage_counter_batch read p used b cs (d, st))) x \<longleftrightarrow> has_receipt d x \<or> x = b"
  by (auto simp: persist_usage_counter_batch_def Let_def has_receipt_def)

lemma persist_ids:
  "map k_id (tb_api_keys (fst (persist_usage_counter_batch read p used b cs (d, st)))) = map k_id (tb_api_keys d)"
  by (simp add: persist_usage_counter_batch_def Let_def ids_fold)

lemma persist_again:
  "has_receipt d b \<Longrightarrow> fst (persist_usage_counter_batch read p used b cs (d, st)) = d"
  by (simp add: persist_usage_counter_batch_def)

lemma batch_uses:
  assumes "\<forall>e \<in> set store. entry_ok read p e" "\<not> has_receipt d b" "\<And>x. has_receipt d' x \<longleftrightarrow> has_receipt d x \<or> x = b"
  shows "total_of (counted read p d' kid) store + uses_in kid (usage_entries read p (staged_batch read p b store))
    = total_of (counted read p d kid) store"
  using assms(1)
proof (induction store)
  case Nil
  then show ?case by (simp add: staged_batch_def usage_entries_def map_filter_simps)
next
  case (Cons e store)
  obtain key n where e: "e = (key, n)" by (cases e)
  have ok: "entry_ok read p (key, n)" using Cons.prems e by simp
  have IH: "total_of (counted read p d' kid) store + uses_in kid (usage_entries read p (staged_batch read p b store))
      = total_of (counted read p d kid) store"
    using Cons.IH Cons.prems by simp
  let ?rest = "usage_entries read p (staged_batch read p b store)"
  consider (live) x where "id_ok read x" "key = live_key p x" "0 < n"
    | (staged) c x where "id_ok read c" "id_ok read x" "key = batch_key p c x" "0 < n"
    using ok by (auto simp: entry_ok_def)
  then show ?case
  proof cases
    case live
    then have "usage_entries read p (staged_batch read p b (e # store)) = ?rest"
      by (simp add: e staged_batch_def parse_live)
    moreover have "counted read p d' kid key = counted read p d kid key"
      using live by (simp add: counted_def parse_live)
    ultimately show ?thesis using IH by (simp add: e)
  next
    case (staged c x)
    show ?thesis
    proof (cases "c = b")
      case True
      then have "usage_entries read p (staged_batch read p b (e # store)) = (x, n) # ?rest"
        using staged by (simp add: e staged_batch_def usage_entries_def parse_batch map_filter_simps)
      moreover have "\<not> counted read p d' kid key" and "counted read p d kid key \<longleftrightarrow> x = kid"
        using staged assms(2,3) True by (auto simp: counted_def parse_batch)
      ultimately show ?thesis using IH by (simp add: e)
    next
      case False
      then have "usage_entries read p (staged_batch read p b (e # store)) = ?rest"
        using staged by (simp add: e staged_batch_def parse_batch)
      moreover have "counted read p d' kid key = counted read p d kid key"
        using staged assms(3) False by (simp add: counted_def parse_batch)
      ultimately show ?thesis using IH by (simp add: e)
    qed
  qed
qed

definition usage_inv :: "(string \<Rightarrow> uuid option) \<Rightarrow> string \<Rightarrow> db \<Rightarrow> usage_world \<Rightarrow> bool" where
  "usage_inv read p d0 w \<longleftrightarrow> store_ok read p (uw_store w)
     \<and> map k_id (tb_api_keys (uw_db w)) = map k_id (tb_api_keys d0)
     \<and> (\<forall>kid \<in> k_id ` set (tb_api_keys d0).
          usage_of (uw_db w) kid + pending_uses read p w kid = usage_of d0 kid + uw_uses w kid)"

lemma usage_reach_inv:
  assumes "prefix_ok p" and "usage_reach read p used d0 w"
  shows "usage_inv read p d0 w"
  using assms(2)
proof (induction rule: usage_reach.induct)
  case start
  then show ?case by (simp add: usage_inv_def store_ok_def pending_uses_def)
next
  case (use w kid)
  then have dist: "distinct (map fst (uw_store w))" by (simp add: usage_inv_def store_ok_def)
  have "counted read p (uw_db w) i (live_key p kid) \<longleftrightarrow> i = kid" for i
    using use.hyps(2) by (auto simp: counted_def parse_live)
  with use.IH use.hyps(2) show ?case
    by (auto simp: usage_inv_def redis_key_usage [OF assms(1)] store_ok_increment pending_uses_def
        total_of_increment [OF dist])
next
  case (stage w b)
  then show ?case
    by (simp add: usage_inv_def unused_batch_def pending_uses_def store_ok_stage [OF assms(1)] counted_stage [OF assms(1)])
next
  case (persist w b st)
  let ?cs = "staged_batch read p b (uw_store w)"
  let ?d = "fst (persist_usage_counter_batch read p used b ?cs (uw_db w, st))"
  show ?case
  proof (cases "has_receipt (uw_db w) b")
    case True
    with persist.IH show ?thesis by (simp add: persist_again)
  next
    case False
    have ids: "k_id ` set (tb_api_keys (uw_db w)) = k_id ` set (tb_api_keys d0)"
      using persist.IH unfolding usage_inv_def by (metis list.set_map)
    have "usage_of ?d kid + total_of (counted read p ?d kid) (uw_store w) = usage_of d0 kid + uw_uses w kid"
      if "kid \<in> k_id ` set (tb_api_keys d0)" for kid
    proof -
      have "usage_of (uw_db w) kid + total_of (counted read p (uw_db w) kid) (uw_store w) = usage_of d0 kid + uw_uses w kid"
        using bspec [OF conjunct2 [OF conjunct2 [OF persist.IH [unfolded usage_inv_def pending_uses_def]]] that] .
      moreover have "usage_of ?d kid = usage_of (uw_db w) kid + uses_in kid (usage_entries read p ?cs)"
        by (rule usage_of_persist [OF _ False]) (simp only: ids that)
      moreover have "total_of (counted read p ?d kid) (uw_store w) + uses_in kid (usage_entries read p ?cs)
          = total_of (counted read p (uw_db w) kid) (uw_store w)"
        by (rule batch_uses [OF _ False persist_receipt]) (use persist.IH in \<open>simp add: usage_inv_def store_ok_entries\<close>)
      ultimately show ?thesis by linarith
    qed
    with persist.IH show ?thesis by (simp add: usage_inv_def pending_uses_def persist_ids)
  qed
next
  case (acknowledge w acked)
  have "store_ok read p (acknowledge_batch acked (uw_store w))"
    using acknowledge.IH by (auto simp: usage_inv_def store_ok_entries acknowledge_batch_def distinct_map inj_on_def)
  moreover have "total_of (counted read p (uw_db w) kid) (acknowledge_batch acked (uw_store w))
      = total_of (counted read p (uw_db w) kid) (uw_store w)" for kid
    by (rule total_of_filter) (use acknowledge.hyps(2) in \<open>auto simp: counted_def\<close>)
  ultimately show ?case using acknowledge.IH by (simp add: usage_inv_def pending_uses_def)
qed

section \<open>The worker\<close>

definition batch_of :: "(string \<Rightarrow> uuid option) \<Rightarrow> string \<Rightarrow> string \<Rightarrow> uuid option" where
  "batch_of read p key = map_option fst (parse_staged_usage_counter_key read p key)"

lemma staged_batch_alt: "staged_batch read p b store = filter (\<lambda>(key, n). 0 < n \<and> batch_of read p key = Some b) store"
  unfolding staged_batch_def batch_of_def by (intro filter_cong) (auto split: option.splits)

lemma staged_batch_after_ack:
  assumes "x \<noteq> y"
  shows "staged_batch read p y (acknowledge_batch (map fst (staged_batch read p x store)) store) = staged_batch read p y store"
  unfolding staged_batch_alt acknowledge_batch_def filter_filter
  by (rule filter_cong) (use assms in auto)

lemma set_ack:
  assumes "distinct (map fst store)" "\<forall>e \<in> set store. 0 < snd e"
  shows "set (acknowledge_batch (map fst (staged_batch read p x store)) store)
    = {e \<in> set store. batch_of read p (fst e) \<noteq> Some x}"
proof -
  have "fst e \<in> set (map fst (staged_batch read p x store)) \<longleftrightarrow> batch_of read p (fst e) = Some x" if "e \<in> set store" for e
  proof
    assume "batch_of read p (fst e) = Some x"
    then have "e \<in> set (staged_batch read p x store)" using that assms(2) by (simp add: staged_batch_alt split_def)
    then show "fst e \<in> set (map fst (staged_batch read p x store))" by simp
  qed (auto simp: staged_batch_alt)
  then show ?thesis by (auto simp: acknowledge_batch_def split_def)
qed

lemma sync_batches_reach:
  assumes "prefix_ok p" "usage_reach read p used d0 \<lparr>uw_store = store, uw_db = d, uw_uses = u\<rparr>"
    and "distinct (map fst batches)" "\<forall>(x, cs) \<in> set batches. cs = staged_batch read p x store"
    and "sync_batches read p used batches (store, d, st) = (store', d', st')"
  shows "usage_reach read p used d0 \<lparr>uw_store = store', uw_db = d', uw_uses = u\<rparr>
    \<and> set store' = {e \<in> set store. \<forall>x \<in> fst ` set batches. batch_of read p (fst e) \<noteq> Some x}"
  using assms(2-5)
proof (induction batches arbitrary: store d st)
  case Nil
  then show ?case by simp
next
  case (Cons bc batches)
  obtain x cs where bc: "bc = (x, cs)" by (cases bc)
  with Cons.prems have cs: "cs = staged_batch read p x store" by simp
  let ?ds = "persist_usage_counter_batch read p used x cs (d, st)"
  let ?store = "acknowledge_batch (map fst cs) store"
  have "usage_reach read p used d0 \<lparr>uw_store = store, uw_db = fst ?ds, uw_uses = u\<rparr>"
    using usage_reach.persist [OF Cons.prems(1), of x st] by (simp add: cs)
  moreover have "\<forall>key \<in> set (map fst cs). \<exists>b kid. parse_staged_usage_counter_key read p key = Some (b, kid) \<and> has_receipt (fst ?ds) b"
    by (auto simp: cs staged_batch_alt batch_of_def persist_receipt)
  ultimately have reach: "usage_reach read p used d0 \<lparr>uw_store = ?store, uw_db = fst ?ds, uw_uses = u\<rparr>"
    using usage_reach.acknowledge [of read p used d0 "\<lparr>uw_store = store, uw_db = fst ?ds, uw_uses = u\<rparr>" "map fst cs"] by simp
  have ok: "store_ok read p store" using usage_reach_inv [OF assms(1) Cons.prems(1)] by (simp add: usage_inv_def)
  have "sync_batches read p used batches (?store, fst ?ds, snd ?ds) = (store', d', st')"
    using Cons.prems(4) by (simp add: bc)
  moreover have "\<forall>(y, cs) \<in> set batches. cs = staged_batch read p y ?store"
  proof (rule ballI)
    fix e assume e: "e \<in> set batches"
    then have "snd e = staged_batch read p (fst e) store" using Cons.prems(3) by (auto split: prod.splits)
    moreover have "x \<noteq> fst e" using Cons.prems(2) e by (auto simp: bc)
    ultimately show "case e of (y, cs) \<Rightarrow> cs = staged_batch read p y ?store"
      by (simp add: cs staged_batch_after_ack split_def)
  qed
  moreover have "distinct (map fst batches)" using Cons.prems(2) by simp
  ultimately have "usage_reach read p used d0 \<lparr>uw_store = store', uw_db = d', uw_uses = u\<rparr>
      \<and> set store' = {e \<in> set ?store. \<forall>y \<in> fst ` set batches. batch_of read p (fst e) \<noteq> Some y}"
    using Cons.IH [OF reach] by blast
  moreover have "set ?store = {e \<in> set store. batch_of read p (fst e) \<noteq> Some x}"
    unfolding cs by (rule set_ack) (use ok in \<open>auto simp: store_ok_entries entry_ok_def\<close>)
  ultimately show ?case by (auto simp: bc)
qed

lemma batch_of_staged:
  assumes "prefix_ok p" "store_ok read p store" "id_ok read b" "b \<notin> set (staged_batch_ids read p store)" "(key, n) \<in> set store"
  shows "batch_of read p (staged_name p b store key) = Some (case batch_of read p key of None \<Rightarrow> b | Some c \<Rightarrow> c)"
    and "staged_name p b store key \<noteq> key \<longleftrightarrow> batch_of read p key = None"
proof -
  have fresh: "batch_key p b x \<notin> set (map fst store)" if "id_ok read x" for x
  proof
    assume "batch_key p b x \<in> set (map fst store)"
    then obtain m where m: "(batch_key p b x, m) \<in> set store" by auto
    then have "0 < m" using assms(2) by (auto simp: store_ok_entries entry_ok_def)
    with m have "b \<in> set (staged_batch_ids read p store)"
      using parse_batch(2) [OF assms(3) that, of p]
      by (force simp: staged_batch_ids_def dedup_def List.map_filter_def)
    with assms(4) show False by simp
  qed
  have "batch_of read p (staged_name p b store key) = Some (case batch_of read p key of None \<Rightarrow> b | Some c \<Rightarrow> c)
      \<and> (staged_name p b store key \<noteq> key \<longleftrightarrow> batch_of read p key = None)"
  proof (cases rule: store_okE [OF assms(2,5)])
    case (1 x)
    then have "staged_name p b store key = batch_key p b x"
      using fresh [OF 1(1)] live_is_live(1) [OF assms(1)] by (simp add: staged_name_def staged_live [OF assms(1)])
    moreover have "batch_key p b x \<noteq> key"
      using parse_batch(2) [OF assms(3) 1(1), of p] parse_live(2) [OF 1(1), of p] 1(2) by auto
    ultimately show ?thesis using 1 by (simp add: batch_of_def parse_live parse_batch assms(3))
  next
    case (2 c x)
    then show ?thesis
      using live_is_live(2) [OF assms(1)] by (simp add: staged_name_def batch_of_def parse_batch)
  qed
  then show "batch_of read p (staged_name p b store key) = Some (case batch_of read p key of None \<Rightarrow> b | Some c \<Rightarrow> c)"
    and "staged_name p b store key \<noteq> key \<longleftrightarrow> batch_of read p key = None" by auto
qed


lemma staged_batch_stage:
  assumes "prefix_ok p" "store_ok read p store" "id_ok read b" "b \<notin> set (staged_batch_ids read p store)"
  shows "x \<noteq> b \<Longrightarrow> staged_batch read p x (stage_store p b store) = staged_batch read p x store"
    and "staged_batch read p b (stage_store p b store) = stage_counters p b store"
proof -
  have "(x \<noteq> b \<longrightarrow> staged_batch read p x (map (\<lambda>(key, n). (staged_name p b store key, n)) es) = staged_batch read p x es)
      \<and> staged_batch read p b (map (\<lambda>(key, n). (staged_name p b store key, n)) es)
        = List.map_filter (\<lambda>(key, n). if staged_name p b store key \<noteq> key \<and> 0 < n
            then Some (staged_name p b store key, n) else None) es"
    if "set es \<subseteq> set store" for es
    using that
  proof (induction es)
    case Nil
    then show ?case by (simp add: staged_batch_alt map_filter_simps)
  next
    case (Cons e es)
    obtain key n where e: "e = (key, n)" by (cases e)
    then have mem: "(key, n) \<in> set store" using Cons.prems by simp
    have pos: "0 < n" using assms(2) mem by (auto simp: store_ok_entries entry_ok_def)
    have old: "batch_of read p key \<noteq> Some b"
      using mem pos assms(4) by (force simp: staged_batch_ids_def set_dedup batch_of_def List.map_filter_def)
    note names = batch_of_staged [OF assms mem]
    have IH: "(x \<noteq> b \<longrightarrow> staged_batch read p x (map (\<lambda>(key, n). (staged_name p b store key, n)) es) = staged_batch read p x es)
      \<and> staged_batch read p b (map (\<lambda>(key, n). (staged_name p b store key, n)) es)
        = List.map_filter (\<lambda>(key, n). if staged_name p b store key \<noteq> key \<and> 0 < n
            then Some (staged_name p b store key, n) else None) es"
      using Cons.IH Cons.prems by simp
    show ?case
    proof (cases "batch_of read p key")
      case None
      with names pos IH show ?thesis by (auto simp: e staged_batch_alt map_filter_simps)
    next
      case (Some c)
      with names pos IH old show ?thesis by (auto simp: e staged_batch_alt map_filter_simps)
    qed
  qed
  from this [of store]
  show "x \<noteq> b \<Longrightarrow> staged_batch read p x (stage_store p b store) = staged_batch read p x store"
    and "staged_batch read p b (stage_store p b store) = stage_counters p b store"
    by (auto simp: stage_store_def stage_counters_def)
qed

lemma collected_batches:
  assumes "prefix_ok p" "store_ok read p store" "id_ok read b" "b \<notin> set (staged_batch_ids read p store)"
    and "collect_usage_counter_batches read p b store = (batches, store1)"
  shows "store1 = stage_store p b store" and "distinct (map fst batches)"
    and "\<forall>(x, cs) \<in> set batches. cs = staged_batch read p x store1"
    and "\<And>e. e \<in> set store1 \<Longrightarrow> \<exists>x \<in> fst ` set batches. batch_of read p (fst e) = Some x"
proof -
  let ?old = "map (\<lambda>x. (x, staged_batch read p x store)) (staged_batch_ids read p store)"
  let ?fresh = "stage_counters p b store"
  have bs: "batches = (if ?fresh = [] then ?old else ?old @ [(b, ?fresh)])" and st: "store1 = stage_store p b store"
    using assms(5) by (auto simp: collect_usage_counter_batches_def Let_def split: if_splits)
  note moved = staged_batch_stage [OF assms(1-4)]
  show "store1 = stage_store p b store" by (rule st)
  show "distinct (map fst batches)"
    using assms(4) by (simp add: bs o_def) (simp add: staged_batch_ids_def distinct_dedup)
  show "\<forall>(x, cs) \<in> set batches. cs = staged_batch read p x store1"
  proof (rule ballI)
    fix e assume "e \<in> set batches"
    then consider x where "x \<in> set (staged_batch_ids read p store)" "e = (x, staged_batch read p x store)"
      | "e = (b, ?fresh)"
      by (auto simp: bs split: if_splits)
    then show "case e of (x, cs) \<Rightarrow> cs = staged_batch read p x store1"
    proof cases
      case (1 x)
      with assms(4) have "x \<noteq> b" by auto
      with 1 moved(1) show ?thesis by (simp add: st)
    next
      case 2
      with moved(2) show ?thesis by (simp add: st)
    qed
  qed
  fix e assume "e \<in> set store1"
  then obtain key n where k: "(key, n) \<in> set store" and e: "e = (staged_name p b store key, n)"
    by (auto simp: st stage_store_def)
  have pos: "0 < n" using assms(2) k by (auto simp: store_ok_entries entry_ok_def)
  note names = batch_of_staged [OF assms(1-4) k]
  show "\<exists>x \<in> fst ` set batches. batch_of read p (fst e) = Some x"
  proof (cases "batch_of read p key")
    case None
    with names k pos have "(staged_name p b store key, n) \<in> set ?fresh"
      by (force simp: stage_counters_def List.map_filter_def)
    then have "b \<in> fst ` set batches" by (auto simp: bs)
    with names None show ?thesis by (auto simp: e)
  next
    case (Some c)
    with k pos have "c \<in> set (staged_batch_ids read p store)"
      by (force simp: staged_batch_ids_def set_dedup batch_of_def List.map_filter_def)
    then have "c \<in> fst ` set batches" by (auto simp: bs image_iff)
    with names Some show ?thesis by (auto simp: e)
  qed
qed

text \<open>
  C26. A run of the worker brings the table up to date. From any reachable state, however many batches
  earlier runs left behind, one uninterrupted run with a fresh batch empties Redis of usage counters and
  leaves in the table, for every key, exactly the initial usage and the uses made so far.
\<close>

theorem sync_catches_up:
  assumes "prefix_ok p" and "usage_reach read p used d0 w" and "unused_batch read p w b"
    and "sync_usage_counters_to_db read p used b (uw_store w) (uw_db w) = (store', d', st)"
    and "kid \<in> k_id ` set (tb_api_keys d0)"
  shows "store' = [] \<and> usage_of d' kid = usage_of d0 kid + uw_uses w kid"
proof -
  have ok: "store_ok read p (uw_store w)"
    using usage_reach_inv [OF assms(1,2)] by (simp add: usage_inv_def)
  obtain batches store1 where col: "collect_usage_counter_batches read p b (uw_store w) = (batches, store1)"
    by fastforce
  have fresh: "id_ok read b" "b \<notin> set (staged_batch_ids read p (uw_store w))"
    using assms(3) by (simp_all add: unused_batch_def)
  note bs = collected_batches [OF assms(1) ok fresh col]
  have start: "usage_reach read p used d0 \<lparr>uw_store = store1, uw_db = uw_db w, uw_uses = uw_uses w\<rparr>"
    using usage_reach.stage [OF assms(2,3)] by (simp add: bs(1)) (cases w, simp)
  have run: "sync_batches read p used batches (store1, uw_db w, no_stats) = (store', d', st)"
    using assms(4) by (simp add: sync_usage_counters_to_db_def col)
  have finished: "usage_reach read p used d0 \<lparr>uw_store = store', uw_db = d', uw_uses = uw_uses w\<rparr>"
    and left: "set store' = {e \<in> set store1. \<forall>x \<in> fst ` set batches. batch_of read p (fst e) \<noteq> Some x}"
    using sync_batches_reach [OF assms(1) start bs(2,3) run] by auto
  have "e \<notin> set store'" for e using left bs(4) [of e] by auto
  then have "store' = []" by (metis list.set_intros(1) neq_Nil_conv)
  moreover have "usage_of d' kid = usage_of d0 kid + uw_uses w kid"
    using usage_reach_inv [OF assms(1) finished] assms(5) \<open>store' = []\<close>
    unfolding usage_inv_def by (auto simp: pending_uses_def)
  ultimately show ?thesis by simp
qed

section \<open>An example\<close>

definition plain_ids :: "string \<Rightarrow> uuid option" where
  "plain_ids s = (if CHR '':'' \<in> set s then None else Some s)"

definition sample_key :: "uuid \<Rightarrow> api_key_row" where
  "sample_key i = \<lparr>k_id = i, k_name = i, k_description = None, k_prefix = i, k_hash = i, k_owner = Some ''u'',
     k_principal = None, k_kind = Personal, k_status = KActive, k_expires = None, k_last_used = None, k_usage = 5,
     k_per_minute = 60, k_per_hour = None, k_per_day = None, k_entity = None, k_inherit = False\<rparr>"

definition sample_keys_db :: db where
  "sample_keys_db = empty_db\<lparr>tb_api_keys := [sample_key ''k'', sample_key ''l'']\<rparr>"

definition used_once :: usage_world where
  "used_once = \<lparr>uw_store = increment_counter (redis_key ''app'' (usage_counter_key ''k'')) [],
     uw_db = sample_keys_db, uw_uses = (\<lambda>_. 0)(''k'' := 1)\<rparr>"

lemma used_once_reach: "usage_reach plain_ids ''app'' (\<lambda>_. 0) sample_keys_db used_once"
  using usage_reach.use [OF usage_reach.start, of plain_ids "''k''" "''app''" "\<lambda>_. 0" sample_keys_db]
  by (simp add: used_once_def id_ok_def plain_ids_def)

lemma used_once_facts:
  "prefix_ok ''app''" "''k'' \<in> k_id ` set (tb_api_keys sample_keys_db)" "usage_of sample_keys_db ''k'' = 5"
  "unused_batch plain_ids ''app'' used_once ''b''" "uw_uses used_once ''k'' = 1"
proof -
  show "prefix_ok ''app''" by code_simp
  show "''k'' \<in> k_id ` set (tb_api_keys sample_keys_db)" by (simp add: sample_keys_db_def sample_key_def)
  show "usage_of sample_keys_db ''k'' = 5" by code_simp
  show "uw_uses used_once ''k'' = 1" by (simp add: used_once_def)
  have "staged_batch_ids plain_ids ''app'' (uw_store used_once) = []" by code_simp
  then show "unused_batch plain_ids ''app'' used_once ''b''"
    by (simp add: unused_batch_def id_ok_def plain_ids_def used_once_def sample_keys_db_def empty_db_def has_receipt_def)
qed


theorem sync_catches_up_witness:
  "fst (sync_usage_counters_to_db plain_ids ''app'' (\<lambda>_. 0) ''b'' (uw_store used_once) (uw_db used_once)) = []
   \<and> usage_of (fst (snd (sync_usage_counters_to_db plain_ids ''app'' (\<lambda>_. 0) ''b'' (uw_store used_once) (uw_db used_once)))) ''k'' = 6"
  using sync_catches_up [OF used_once_facts(1) used_once_reach used_once_facts(4) _ used_once_facts(2)]
    used_once_facts(3,5)
  by (metis add_Suc_right numeral_plus_one one_add_one prod.collapse semiring_norm(2,5,8))

text \<open>
  The renaming of several counters is not one transaction, so another worker can find half of a batch,
  apply it and acknowledge it. The receipt then makes the first worker discard the other half.
\<close>

definition rename_counter :: "string \<Rightarrow> uuid \<Rightarrow> string \<Rightarrow> counters \<Rightarrow> counters" where
  "rename_counter p b key store = map (\<lambda>(k, n). (if k = key then staged_counter_key p b k else k, n)) store"

lemma concurrent_workers_lose_usage:
  "let live = (\<lambda>i. redis_key ''app'' (usage_counter_key i));
       store0 = [(live ''k'', 1), (live ''l'', 1)];
       store1 = rename_counter ''app'' ''b'' (live ''k'') store0;
       half = staged_batch plain_ids ''app'' ''b'' store1;
       d1 = fst (persist_usage_counter_batch plain_ids ''app'' (\<lambda>_. 0) ''b'' half (sample_keys_db, no_stats));
       store2 = rename_counter ''app'' ''b'' (live ''l'') (acknowledge_batch (map fst half) store1);
       whole = stage_counters ''app'' ''b'' store0;
       d2 = fst (persist_usage_counter_batch plain_ids ''app'' (\<lambda>_. 0) ''b'' whole (d1, no_stats))
   in acknowledge_batch (map fst whole) store2 = [] \<and> usage_of d2 ''k'' = 6 \<and> usage_of d2 ''l'' = 5"
  by code_simp

end
