(* ===== verification/IntegrationPrincipals.thy ===== *)
theory IntegrationPrincipals
  imports ApiKeys
begin

text \<open>
  Integration principals, the non-human owners of system keys
  (\<open>outlabs_auth/services/integration_principal.py\<close>): creation and update under the grant policy of API
  keys, archiving with the revocation of the keys, and archiving of the principals of an entity.
\<close>

record principal_service =
  ps_hierarchy :: bool
  ps_policy :: "key_policy option"
  ps_keys :: "key_service option"
  ps_cache :: bool
  ps_env :: check_env

section \<open>Validation\<close>

definition load_actor :: "db \<Rightarrow> uuid option \<Rightarrow> err + user_row option" where
  "load_actor d actor =
     (case actor of
        None \<Rightarrow> Inr None
      | Some a \<Rightarrow> (case user_of d a of
            None \<Rightarrow> Inl (Auth UserNotFoundError ''User not found'' [(''user_id'', PStr a)])
          | Some u \<Rightarrow> Inr (Some u)))"

text \<open>Always called with \<open>allow_empty\<close>.\<close>

definition normalize_principal_scopes :: "string list \<Rightarrow> string list" where
  "normalize_principal_scopes scs = sort (remdups (map py_strip (filter (\<lambda>s. s \<noteq> [] \<and> py_strip s \<noteq> []) scs)))"

definition validate_scope_context ::
  "principal_service \<Rightarrow> db \<Rightarrow> principal_scope \<Rightarrow> uuid option \<Rightarrow> bool \<Rightarrow> err + unit" where
  "validate_scope_context sv d kind home inherit =
     (case kind of
        PlatformGlobal \<Rightarrow>
          (case home of
             Some e \<Rightarrow> Inl (invalid_input ''Platform-global principals cannot have an anchor entity''
                        [(''anchor_entity_id'', PStr e)])
           | None \<Rightarrow>
               if inherit then Inl (invalid_input ''Platform-global principals cannot inherit from entity trees''
                                [(''scope_kind'', PStr (principal_scope_value kind))])
               else Inr ())
      | EntityScope \<Rightarrow>
          if \<not> ps_hierarchy sv
          then Inl (invalid_input ''Entity-scoped integration principals require EnterpriseRBAC''
                 [(''scope_kind'', PStr (principal_scope_value kind))])
          else (case home of
             None \<Rightarrow> Inl (invalid_input ''Entity-scoped principals require an anchor entity''
                       [(''scope_kind'', PStr (principal_scope_value kind))])
           | Some e \<Rightarrow>
               (case entity_of d e of
                  None \<Rightarrow> Inl (invalid_input ''Anchor entity not found'' [(''anchor_entity_id'', PStr e)])
                | Some x \<Rightarrow>
                    if \<not> entity_active (ce_now (ps_env sv)) x
                    then Inl (invalid_input ''Anchor entity must be active'' [(''anchor_entity_id'', PStr e)])
                    else Inr ())))"

definition load_principal_roles :: "db \<Rightarrow> uuid list \<Rightarrow> err + role_row list" where
  "load_principal_roles d rids =
     (let missing = filter (\<lambda>r. case role_of d r of None \<Rightarrow> True | Some x \<Rightarrow> r_status x \<noteq> DActive) rids in
      if missing \<noteq> []
      then Inl (invalid_input ''One or more roles were not found or are not active'' [(''role_ids'', strs missing)])
      else Inr (List.map_filter (role_of d) rids))"

definition validate_role_assignments :: "role_row list \<Rightarrow> principal_scope \<Rightarrow> uuid option \<Rightarrow> err + unit" where
  "validate_role_assignments rs kind home =
     (if rs = [] then Inr ()
      else case kind of
        PlatformGlobal \<Rightarrow>
          let invalid = map r_name (filter (\<lambda>r. \<not> r_is_global r) rs) in
          if invalid \<noteq> []
          then Inl (invalid_input ''Platform-global integration principals may only use global roles''
                 [(''role_names'', strs invalid)])
          else Inr ()
      | EntityScope \<Rightarrow>
          if home = None
          then Inl (invalid_input ''Entity-scoped integration principals require an anchor entity''
                 [(''scope_kind'', PStr (principal_scope_value kind))])
          else Inr ())"

definition resolve_assigned_scopes :: "principal_service \<Rightarrow> db \<Rightarrow> role_row list \<Rightarrow> string list \<Rightarrow> err + string list" where
  "resolve_assigned_scopes sv d rs legacy =
     (let scs = (case ps_policy sv of
            Some kp \<Rightarrow> resolve_effective_scopes_for_assignments kp d (map r_id rs) legacy
          | None \<Rightarrow> sort (remdups (legacy @ filter (\<lambda>n. n \<noteq> [])
              (map p_name (concat (map (\<lambda>r. role_permissions d (r_id r)) rs)))))) in
      if scs = []
      then Inl (invalid_input ''Integration principals require at least one role or allowed scope''
             [(''allowed_scopes'', strs legacy), (''role_ids'', strs (map r_id rs))])
      else Inr scs)"

text \<open>With a policy and an actor, the effective scopes must be the actor's to grant.\<close>

definition check_principal_grant ::
  "principal_service \<Rightarrow> db \<Rightarrow> uuid option \<Rightarrow> string list \<Rightarrow> uuid option \<Rightarrow> principal_scope \<Rightarrow> err + unit" where
  "check_principal_grant sv d actor scs home kind =
     (case (ps_policy sv, actor) of
        (Some kp, Some a) \<Rightarrow>
          bindE (validate_principal_allowed_scopes kp (ps_env sv) d a scs home kind True) (\<lambda>_. Inr ())
      | _ \<Rightarrow> Inr ())"

section \<open>Creation and update\<close>

record principal_spec =
  pi_name :: string
  pi_description :: "string option"
  pi_kind :: principal_scope
  pi_anchor :: "uuid option"
  pi_inherit :: bool
  pi_scopes :: "string list"
  pi_roles :: "uuid list"

definition new_principal :: "uuid \<Rightarrow> principal_spec \<Rightarrow> uuid option \<Rightarrow> principal_row" where
  "new_principal i x actor =
     \<lparr>ip_id = i, ip_name = pi_name x, ip_description = pi_description x, ip_status = PActive, ip_kind = pi_kind x,
      ip_anchor = pi_anchor x, ip_inherit = pi_inherit x, ip_scopes = normalize_principal_scopes (pi_scopes x),
      ip_created_by = actor\<rparr>"

definition check_new_principal :: "principal_service \<Rightarrow> db \<Rightarrow> principal_spec \<Rightarrow> uuid option \<Rightarrow> err + role_row list" where
  "check_new_principal sv d x actor =
     bindE (load_actor d actor) (\<lambda>_.
     bindE (validate_scope_context sv d (pi_kind x) (pi_anchor x) (pi_inherit x)) (\<lambda>_.
     bindE (load_principal_roles d (dedup (pi_roles x))) (\<lambda>rs.
     bindE (validate_role_assignments rs (pi_kind x) (pi_anchor x)) (\<lambda>_.
     bindE (resolve_assigned_scopes sv d rs (normalize_principal_scopes (pi_scopes x))) (\<lambda>scs.
     bindE (check_principal_grant sv d actor scs (pi_anchor x) (pi_kind x)) (\<lambda>_. Inr rs))))))"

definition link_principal_roles :: "uuid \<Rightarrow> role_row list \<Rightarrow> db \<Rightarrow> db" where
  "link_principal_roles i rs d =
     d\<lparr>tb_principal_roles := filter (\<lambda>(p, _). p \<noteq> i) (tb_principal_roles d) @ map (\<lambda>r. (i, r_id r)) rs\<rparr>"

definition create_principal :: "principal_service \<Rightarrow> uuid \<Rightarrow> principal_spec \<Rightarrow> uuid option \<Rightarrow> principal_row op" where
  "create_principal sv i x actor =
     bind_op (read_db (\<lambda>d. check_new_principal sv d x actor)) (\<lambda>checked.
     bind_op (lift_op checked) (\<lambda>rs.
     bind_op (write_db (\<lambda>d. link_principal_roles i rs (d\<lparr>tb_principals := tb_principals d @ [new_principal i x actor]\<rparr>))) (\<lambda>_.
     ret (new_principal i x actor))))"

definition invalidate_principal_snapshot :: "principal_service \<Rightarrow> uuid \<Rightarrow> unit op" where
  "invalidate_principal_snapshot sv i = publish_change (ps_cache sv) [BumpPrincipalKeys i]"

definition put_principal :: "principal_row \<Rightarrow> db \<Rightarrow> db" where
  "put_principal p d = d\<lparr>tb_principals := set_row ip_id p (tb_principals d)\<rparr>"

definition revoke_principal_keys ::
  "principal_service \<Rightarrow> uuid \<Rightarrow> uuid option \<Rightarrow> string \<Rightarrow> string \<Rightarrow> unit op" where
  "revoke_principal_keys sv i actor reason src =
     (case ps_keys sv of
        None \<Rightarrow> ret ()
      | Some ks \<Rightarrow> bind_op (revoke_integration_principal_api_keys ks i actor (Some reason) src) (\<lambda>_. ret ()))"

record principal_update =
  pu_name :: "string option"
  pu_description :: "string option"
  pu_status :: "principal_status option"
  pu_scopes :: "string list option"
  pu_roles :: "uuid list option"
  pu_inherit :: "bool option"

definition principal_roles :: "db \<Rightarrow> uuid \<Rightarrow> role_row list" where
  "principal_roles d i = List.map_filter (role_of d) (map snd (filter (\<lambda>(p, _). p = i) (tb_principal_roles d)))"

definition check_principal_update ::
  "principal_service \<Rightarrow> db \<Rightarrow> principal_row \<Rightarrow> principal_update \<Rightarrow> uuid option
     \<Rightarrow> err + string list \<times> role_row list" where
  "check_principal_update sv d p u actor =
     bindE (load_actor d actor) (\<lambda>_.
     bindE (requireE (\<not> (ip_kind p = PlatformGlobal \<and> pu_inherit u = Some True))
              (invalid_input ''Platform-global principals cannot inherit from entity trees''
                 [(''principal_id'', PStr (ip_id p))])) (\<lambda>_.
     let scs = (case pu_scopes u of Some s \<Rightarrow> normalize_principal_scopes s | None \<Rightarrow> ip_scopes p) in
     bindE (case pu_roles u of Some rids \<Rightarrow> load_principal_roles d (dedup rids)
            | None \<Rightarrow> Inr (principal_roles d (ip_id p))) (\<lambda>rs.
     bindE (validate_role_assignments rs (ip_kind p) (ip_anchor p)) (\<lambda>_.
     bindE (resolve_assigned_scopes sv d rs scs) (\<lambda>effective.
     bindE (check_principal_grant sv d actor effective (ip_anchor p) (ip_kind p)) (\<lambda>_. Inr (scs, rs)))))))"

definition updated_principal :: "principal_update \<Rightarrow> string list \<Rightarrow> principal_row \<Rightarrow> principal_row" where
  "updated_principal u scs p =
     p\<lparr>ip_name := set_field (pu_name u) (ip_name p),
       ip_description := (case pu_description u of None \<Rightarrow> ip_description p | Some x \<Rightarrow> Some x),
       ip_inherit := set_field (pu_inherit u) (ip_inherit p),
       ip_scopes := (if pu_scopes u = None then ip_scopes p else scs),
       ip_status := set_field (pu_status u) (ip_status p)\<rparr>"

definition update_principal ::
  "principal_service \<Rightarrow> uuid \<Rightarrow> principal_update \<Rightarrow> uuid option \<Rightarrow> principal_row option op" where
  "update_principal sv i u actor =
     bind_op (read_db (\<lambda>d. principal_of d i)) (\<lambda>found. case found of
       None \<Rightarrow> ret None
     | Some p \<Rightarrow>
         bind_op (read_db (\<lambda>d. check_principal_update sv d p u actor)) (\<lambda>checked.
         bind_op (lift_op checked) (\<lambda>(scs, rs).
         let p1 = updated_principal u scs p in
         bind_op (write_db (put_principal p1)) (\<lambda>_.
         bind_op (when_op (pu_roles u \<noteq> None) (write_db (link_principal_roles i rs))) (\<lambda>_.
         bind_op (invalidate_principal_snapshot sv i) (\<lambda>_.
         bind_op (when_op (ip_status p1 \<noteq> ip_status p \<and> ip_status p1 \<noteq> PActive)
           (revoke_principal_keys sv i actor
              (''Integration principal status changed to '' @ principal_status_value (ip_status p1))
              ''integration_principal_service.update_principal'')) (\<lambda>_.
         ret (Some p1))))))))"

section \<open>Archiving\<close>

definition archive_principal :: "principal_service \<Rightarrow> uuid \<Rightarrow> uuid option \<Rightarrow> string option \<Rightarrow> bool op" where
  "archive_principal sv i actor reason =
     bind_op (read_db (\<lambda>d. principal_of d i)) (\<lambda>found. case found of
       None \<Rightarrow> ret False
     | Some p \<Rightarrow>
         bind_op (write_db (put_principal (p\<lparr>ip_status := PArchived\<rparr>))) (\<lambda>_.
         bind_op (invalidate_principal_snapshot sv i) (\<lambda>_.
         bind_op (revoke_principal_keys sv i actor
                    (case reason of Some r \<Rightarrow> if r = [] then ''Integration principal archived'' else r
                     | None \<Rightarrow> ''Integration principal archived'')
                    ''integration_principal_service.archive_principal'') (\<lambda>_. ret True))))"

definition principal_batch :: nat where
  "principal_batch = 10000"

definition archive_entity_principals ::
  "principal_service \<Rightarrow> uuid \<Rightarrow> uuid option \<Rightarrow> string option \<Rightarrow> nat op" where
  "archive_entity_principals sv e actor reason =
     bind_op (read_db (\<lambda>d. take principal_batch
        (filter (\<lambda>p. ip_anchor p = Some e \<and> ip_status p \<noteq> PArchived) (tb_principals d)))) (\<lambda>ps.
     bind_op (each_op (\<lambda>p. bind_op (archive_principal sv (ip_id p) actor
        (Some (case reason of Some r \<Rightarrow> if r = [] then ''Anchor entity archived'' else r
               | None \<Rightarrow> ''Anchor entity archived''))) (\<lambda>_. ret ())) ps) (\<lambda>_.
     ret (length ps)))"

text \<open>\<open>list_principals\<close>, with \<open>ilike\<close> a parameter and the newest row last in the table.\<close>

record principal_query =
  pq_kind :: "principal_scope option"
  pq_anchor :: "uuid option"
  pq_status :: "principal_status option"
  pq_search :: "string option"

definition principal_matches :: "(string \<Rightarrow> string \<Rightarrow> bool) \<Rightarrow> principal_query \<Rightarrow> principal_row \<Rightarrow> bool" where
  "principal_matches like q p \<longleftrightarrow>
     (\<forall>k \<in> set_option (pq_kind q). ip_kind p = k) \<and> (\<forall>e \<in> set_option (pq_anchor q). ip_anchor p = Some e)
     \<and> (\<forall>s \<in> set_option (pq_status q). ip_status p = s)
     \<and> (case pq_search q of
          None \<Rightarrow> True
        | Some s \<Rightarrow> s = [] \<or> like (''%'' @ py_strip s @ ''%'') (ip_name p)
            \<or> (\<exists>x \<in> set_option (ip_description p). like (''%'' @ py_strip s @ ''%'') x))"

definition list_principals ::
  "(string \<Rightarrow> string \<Rightarrow> bool) \<Rightarrow> db \<Rightarrow> principal_query \<Rightarrow> int \<Rightarrow> int \<Rightarrow> principal_row list \<times> nat" where
  "list_principals like d q page limit =
     (let hits = filter (principal_matches like q) (tb_principals d) in (page_of page limit (rev hits), length hits))"

end
