(* ===== verification/EntityArchive.thy ===== *)
theory EntityArchive
  imports EntityTreeProps IntegrationPrincipals PermCheckProps ApiKeyUsage
begin

text \<open>
  What archiving an entity does to the access it carries: the calls \<open>delete_entity\<close>
  (\<open>outlabs_auth/services/entity.py\<close>) makes to the services of memberships, roles, API keys and integration
  principals, as the hook of the hierarchy's archive. The lemmas show that these services only take access
  away and leave the tree alone, so that a cascade ends and no access is left at an archived entity.
\<close>

section \<open>The hook\<close>

record archive_services =
  ar_members :: "membership_service option"
  ar_roles :: "role_service option"
  ar_keys :: "key_service option"
  ar_principals :: "principal_service option"
  ar_now :: datetime

definition with_service :: "'s option \<Rightarrow> ('s \<Rightarrow> 'a op) \<Rightarrow> unit op" where
  "with_service sv f = (case sv of None \<Rightarrow> ret () | Some x \<Rightarrow> bind_op (f x) (\<lambda>_. ret ()))"

definition archive_access :: "archive_services \<Rightarrow> archive_hook" where
  "archive_access ar e actor reason =
     bind_op (with_service (ar_members ar)
       (\<lambda>sv. archive_memberships_for_entity sv (ar_now ar) e actor (Some reason) ''entity_service.delete_entity'')) (\<lambda>_.
     bind_op (with_service (ar_roles ar)
       (\<lambda>sv. revoke_memberships_for_archived_entities sv (ar_now ar) [e] actor (Some reason))) (\<lambda>_.
     bind_op (with_service (ar_keys ar)
       (\<lambda>sv. revoke_entity_api_keys sv e actor (Some reason) ''entity_service.delete_entity'')) (\<lambda>_.
     with_service (ar_principals ar) (\<lambda>sv. archive_entity_principals sv e actor (Some reason)))))"

section \<open>Operations that only take access away\<close>

definition live_members :: "db \<Rightarrow> entity_membership set" where
  "live_members d = {m \<in> set (tb_entity_members d). em_status m \<noteq> MRevoked}"

definition live_assignments :: "db \<Rightarrow> user_role_membership set" where
  "live_assignments d = {m \<in> set (tb_user_roles d). urm_status m \<noteq> MRevoked}"

definition live_keys :: "db \<Rightarrow> api_key_row set" where
  "live_keys d = {k \<in> set (tb_api_keys d). k_status k \<noteq> KRevoked}"

definition live_principals :: "db \<Rightarrow> principal_row set" where
  "live_principals d = {p \<in> set (tb_principals d). ip_status p \<noteq> PArchived}"

definition other_tables :: "db \<Rightarrow> db" where
  "other_tables d = d\<lparr>tb_entity_members := [], tb_user_roles := [], tb_api_keys := [], tb_principals := []\<rparr>"

definition anchored_count :: "uuid \<Rightarrow> db \<Rightarrow> nat" where
  "anchored_count e d = length (filter (\<lambda>p. ip_anchor p = Some e \<and> ip_status p \<noteq> PArchived) (tb_principals d))"

definition cut :: "db \<Rightarrow> db \<Rightarrow> bool" where
  "cut d d' \<longleftrightarrow> other_tables d' = other_tables d \<and> live_members d' \<subseteq> live_members d
     \<and> live_assignments d' \<subseteq> live_assignments d \<and> live_keys d' \<subseteq> live_keys d
     \<and> live_principals d' \<subseteq> live_principals d \<and> (\<forall>e. anchored_count e d' \<le> anchored_count e d)"

lemma cut_refl [simp]: "cut d d"
  by (simp add: cut_def)

lemma cut_trans: "cut d e \<Longrightarrow> cut e f \<Longrightarrow> cut d f"
  unfolding cut_def by (auto intro: order_trans)

lemma cut_tables:
  assumes "cut d d'"
  shows "tb_entities d' = tb_entities d" and "tb_closure d' = tb_closure d" and "tb_roles d' = tb_roles d"
proof -
  from assms have *: "other_tables d' = other_tables d" by (simp add: cut_def)
  show "tb_entities d' = tb_entities d" using arg_cong [OF *, of tb_entities] by (simp add: other_tables_def)
  show "tb_closure d' = tb_closure d" using arg_cong [OF *, of tb_closure] by (simp add: other_tables_def)
  show "tb_roles d' = tb_roles d" using arg_cong [OF *, of tb_roles] by (simp add: other_tables_def)
qed

definition cuts :: "'a op \<Rightarrow> bool" where
  "cuts m \<longleftrightarrow> (\<forall>s. cut (ss_db s) (ss_db (snd (m s))))"

named_theorems cuts_intros "operations that only take access away"

lemma cutsD: "cuts m \<Longrightarrow> m s = (r, t) \<Longrightarrow> cut (ss_db s) (ss_db t)"
  by (metis cuts_def snd_conv)

lemma cuts_quiet: "quiet m \<Longrightarrow> cuts m"
  by (simp add: quiet_def cuts_def)

lemma cuts_ret [cuts_intros]: "cuts (ret x)"
  and cuts_read_db [cuts_intros]: "cuts (read_db q)"
  by (simp_all add: cuts_def)

lemma cuts_write: "(\<And>d. cut d (w d)) \<Longrightarrow> cuts (write_db w)"
  by (simp add: cuts_def)

lemma cuts_bind [cuts_intros]:
  assumes "cuts m" and "\<And>x. cuts (k x)"
  shows "cuts (bind_op m k)"
  unfolding cuts_def
proof
  fix s
  obtain r t where m: "m s = (r, t)" by (cases "m s")
  have "cut (ss_db s) (ss_db t)" by (rule cutsD [OF assms(1) m])
  then show "cut (ss_db s) (ss_db (snd (bind_op m k s)))"
    using assms(2) m by (cases r) (auto simp: bind_op_def cuts_def intro: cut_trans)
qed

lemma cuts_if [cuts_intros]: "cuts m \<Longrightarrow> cuts n \<Longrightarrow> cuts (if b then m else n)"
  by auto

lemma cuts_case_option [cuts_intros]:
  "cuts m \<Longrightarrow> (\<And>y. cuts (n y)) \<Longrightarrow> cuts (case x of None \<Rightarrow> m | Some y \<Rightarrow> n y)"
  by (cases x) auto

lemma cuts_each [cuts_intros]: "(\<And>x. cuts (f x)) \<Longrightarrow> cuts (each_op f xs)"
  by (induction xs) (auto intro: cuts_intros)

lemma cuts_with_service [cuts_intros]: "(\<And>x. cuts (f x)) \<Longrightarrow> cuts (with_service sv f)"
  unfolding with_service_def by (intro cuts_intros)

lemma returns_with_service [returns_intros]: "(\<And>x. returns (f x)) \<Longrightarrow> returns (with_service sv f)"
  unfolding with_service_def by (intro returns_intros)

text \<open>What each element achieves, and nothing undoes, holds of all of them in the end.\<close>

lemma each_op_achieves:
  assumes "\<And>x. cuts (f x)" and "\<And>x. returns (f x)"
    and "\<And>x s. Q x (ss_db (snd (f x s)))" and "\<And>x d e. Q x d \<Longrightarrow> cut d e \<Longrightarrow> Q x e"
  shows "x \<in> set xs \<Longrightarrow> Q x (ss_db (snd (each_op f xs s)))"
proof (induction xs arbitrary: s)
  case (Cons y ys)
  obtain t where t: "f y s = (Inr (), t)" using returnsD [OF assms(2)] by fastforce
  have run: "each_op f (y # ys) s = each_op f ys t"
    by (simp add: bind_op_run [where m = "f y", OF t])
  show ?case
  proof (cases "x \<in> set ys")
    case False
    then have "Q x (ss_db t)" using Cons.prems assms(3) [of x s] t by simp
    moreover have "cut (ss_db t) (ss_db (snd (each_op f ys t)))"
      using cuts_each [of f ys] assms(1) by (simp add: cuts_def)
    ultimately show ?thesis unfolding run by (rule assms(4))
  qed (unfold run, rule Cons.IH)
qed simp

section \<open>The four services\<close>

lemma quiet_membership_events [quiet_intros]:
  shows "quiet (record_membership_history sv now m typ src actor reason prev cur)"
    and "quiet (record_revocation sv now typ src actor reason mp)" and "quiet (invalidate_member sv u)"
proof -
  show *: "quiet (record_membership_history sv now m typ src actor reason prev cur)" for m prev cur
    unfolding record_membership_history_def membership_audit_def
    by (intro quiet_intros quiet_modify) simp_all
  show "quiet (record_revocation sv now typ src actor reason mp)"
    unfolding record_revocation_def by (cases mp) (simp, intro quiet_intros *)
  show "quiet (invalidate_member sv u)"
    unfolding invalidate_member_def by (rule quiet_intros)
qed

lemma returns_membership_events [returns_intros]:
  shows "returns (record_membership_history sv now m typ src actor reason prev cur)"
    and "returns (record_revocation sv now typ src actor reason mp)" and "returns (invalidate_member sv u)"
proof -
  show *: "returns (record_membership_history sv now m typ src actor reason prev cur)" for m prev cur
    unfolding record_membership_history_def membership_audit_def by (intro returns_intros)
  show "returns (record_revocation sv now typ src actor reason mp)"
    unfolding record_revocation_def by (cases mp) (simp, intro returns_intros *)
  show "returns (invalidate_member sv u)"
    unfolding invalidate_member_def by (rule returns_intros)
qed

lemma quiet_role_events [quiet_intros]:
  shows "quiet (revocation_event sv now src actor reason m)" and "quiet (invalidate_holder sv u)"
proof -
  show "quiet (revocation_event sv now src actor reason m)"
    unfolding revocation_event_def user_role_event_def by (intro quiet_intros)
  show "quiet (invalidate_holder sv u)"
    unfolding invalidate_holder_def by (rule quiet_intros)
qed

lemma returns_case_prod [returns_intros]: "(\<And>a b. returns (f a b)) \<Longrightarrow> returns (case p of (a, b) \<Rightarrow> f a b)"
  by (cases p) auto

lemma returns_role_events [returns_intros]:
  shows "returns (revocation_event sv now src actor reason m)" and "returns (invalidate_holder sv u)"
proof -
  show "returns (revocation_event sv now src actor reason m)"
    unfolding revocation_event_def user_role_event_def by (intro returns_intros)
  show "returns (invalidate_holder sv u)"
    unfolding invalidate_holder_def by (rule returns_intros)
qed

lemma quiet_key_events [quiet_intros]:
  shows "quiet (record_key_event sv occ u k typ src actor before after reason meta)"
    and "quiet (invalidate_key_snapshot sv k)"
proof -
  show "quiet (record_key_event sv occ u k typ src actor before after reason meta)"
    unfolding record_key_event_def by (intro quiet_intros)
  show "quiet (invalidate_key_snapshot sv k)"
    unfolding invalidate_key_snapshot_def mark_change_def publish_later_def
    by (intro quiet_intros quiet_modify) simp_all
qed

lemma returns_key_events [returns_intros]:
  shows "returns (record_key_event sv occ u k typ src actor before after reason meta)"
    and "returns (invalidate_key_snapshot sv k)"
proof -
  show "returns (record_key_event sv occ u k typ src actor before after reason meta)"
    unfolding record_key_event_def by (intro returns_intros)
  show "returns (invalidate_key_snapshot sv k)"
    unfolding invalidate_key_snapshot_def mark_change_def publish_later_def by (intro returns_intros)
qed

lemma quiet_db: "quiet m \<Longrightarrow> ss_db (snd (m s)) = ss_db s"
  by (simp add: quiet_def)

text \<open>Memberships of an entity.\<close>

lemma cut_revoke_rows: "cut d (revoke_rows p now revoker reason d)"
  by (auto simp: cut_def other_tables_def revoke_rows_def live_members_def live_assignments_def
      live_keys_def live_principals_def anchored_count_def em_revoke_def)

lemma archive_memberships_db:
  "ss_db (snd (archive_memberships_for_entity sv now e actor reason src s)) =
     revoke_rows (\<lambda>m. em_entity m = e) now actor reason (ss_db s)"
  unfolding archive_memberships_for_entity_def revoke_all_def
  by (simp only: bind_op_simps) (subst quiet_db, (intro quiet_intros)?, simp)

lemma live_after_map:
  assumes "m \<in> set (map (\<lambda>x. if p x \<and> live x then f x else x) xs)" and "live m" and "\<And>x. \<not> live (f x)"
  shows "m \<in> set xs \<and> \<not> p m"
  using assms by (auto split: if_splits)

lemma live_after_revoke_rows:
  assumes "m \<in> live_members (revoke_rows p now actor reason d)"
  shows "\<not> p m"
proof -
  have "tb_entity_members (revoke_rows p now actor reason d) =
      map (\<lambda>m. if p m \<and> em_status m \<noteq> MRevoked then em_revoke now actor reason m else m) (tb_entity_members d)"
    by (simp add: revoke_rows_def)
  from this have "m \<in> set (map (\<lambda>m. if p m \<and> em_status m \<noteq> MRevoked then em_revoke now actor reason m else m) (tb_entity_members d)) \<and> em_status m \<noteq> MRevoked"
    using assms unfolding live_members_def mem_Collect_eq by (simp only: simp_thms)
  note * = conjunct1 [OF this] conjunct2 [OF this]
  show ?thesis
    by (rule conjunct2 [OF live_after_map [where live = "\<lambda>m. em_status m \<noteq> MRevoked", OF *]]) (simp add: em_revoke_def)
qed

lemma cuts_archive_memberships [cuts_intros]: "cuts (archive_memberships_for_entity sv now e actor reason src)"
  by (simp add: cuts_def archive_memberships_db cut_revoke_rows)

lemma returns_archive_memberships [returns_intros]:
  "returns (archive_memberships_for_entity sv now e actor reason src)"
  unfolding archive_memberships_for_entity_def revoke_all_def by (intro returns_intros)

text \<open>Assignments anchored at an entity.\<close>

definition revoke_urm_rows ::
  "(user_role_membership \<Rightarrow> bool) \<Rightarrow> datetime \<Rightarrow> uuid option \<Rightarrow> string option \<Rightarrow> db \<Rightarrow> db" where
  "revoke_urm_rows p now actor reason d =
     d\<lparr>tb_user_roles := map (\<lambda>m. if p m \<and> urm_status m \<noteq> MRevoked then urm_revoke now actor reason m else m)
        (tb_user_roles d)\<rparr>"

lemma cut_revoke_urm_rows: "cut d (revoke_urm_rows p now actor reason d)"
  by (auto simp: cut_def other_tables_def revoke_urm_rows_def live_members_def live_assignments_def
      live_keys_def live_principals_def anchored_count_def urm_revoke_def)

lemma live_after_revoke_urm_rows:
  assumes "m \<in> live_assignments (revoke_urm_rows p now actor reason d)"
  shows "\<not> p m"
proof -
  have "tb_user_roles (revoke_urm_rows p now actor reason d) =
      map (\<lambda>m. if p m \<and> urm_status m \<noteq> MRevoked then urm_revoke now actor reason m else m) (tb_user_roles d)"
    by (simp add: revoke_urm_rows_def)
  from this have "m \<in> set (map (\<lambda>m. if p m \<and> urm_status m \<noteq> MRevoked then urm_revoke now actor reason m else m) (tb_user_roles d)) \<and> urm_status m \<noteq> MRevoked"
    using assms unfolding live_assignments_def mem_Collect_eq by (simp only: simp_thms)
  note * = conjunct1 [OF this] conjunct2 [OF this]
  show ?thesis
    by (rule conjunct2 [OF live_after_map [where live = "\<lambda>m. urm_status m \<noteq> MRevoked", OF *]]) (simp add: urm_revoke_def)
qed

lemma revoke_assignments_db:
  "ss_db (snd (revoke_assignments sv now p src actor reason s)) =
     revoke_urm_rows (p (ss_db s)) now actor reason (ss_db s)"
proof -
  let ?ms = "filter (\<lambda>m. p (ss_db s) m \<and> urm_status m \<noteq> MRevoked) (tb_user_roles (ss_db s))"
  let ?ev = "each_op (revocation_event sv now src actor reason) ?ms"
  obtain u where u: "?ev s = (Inr (), u)" using returnsD [of ?ev s] by (fastforce intro: returns_intros)
  have "quiet ?ev" by (intro quiet_intros)
  then have du: "ss_db u = ss_db s" using u by (rule quietD)
  show ?thesis
    unfolding revoke_assignments_def revoke_urm_rows_def
    by (simp only: bind_op_simps bind_op_run [where m = ?ev, OF u])
      (subst quiet_db, (intro quiet_intros)?, simp add: du)
qed

lemma cuts_archived_assignments [cuts_intros]:
  "cuts (revoke_memberships_for_archived_entities sv now es actor reason)"
proof -
  have "cuts (revoke_assignments sv now p src actor reason)" for p src
    by (simp add: cuts_def revoke_assignments_db cut_revoke_urm_rows)
  then show ?thesis unfolding revoke_memberships_for_archived_entities_def by (intro cuts_intros)
qed

lemma returns_archived_assignments [returns_intros]:
  "returns (revoke_memberships_for_archived_entities sv now es actor reason)"
  unfolding revoke_memberships_for_archived_entities_def revoke_assignments_def by (intro returns_intros)

text \<open>Keys: a revocation writes a revoked row over the key's.\<close>

lemma cut_put_key: "k_status k = KRevoked \<Longrightarrow> cut d (put_key k d)"
  by (auto simp: cut_def other_tables_def put_key_def live_members_def live_assignments_def
      live_keys_def live_principals_def anchored_count_def set_set_row split: if_splits)

lemma cuts_revoke_key [cuts_intros]: "cuts (revoke_api_key_model sv k actor reason src rec)"
proof -
  have "cuts (write_db (put_key (k\<lparr>k_status := KRevoked\<rparr>)))"
    by (rule cuts_write) (simp add: cut_put_key)
  then show ?thesis
    unfolding revoke_api_key_model_def Let_def
    by (intro cuts_intros cuts_quiet [OF quiet_when] quiet_key_events
        cuts_quiet [OF quiet_key_events(2)])
qed

lemma returns_revoke_key [returns_intros]: "returns (revoke_api_key_model sv k actor reason src rec)"
  unfolding revoke_api_key_model_def Let_def by (intro returns_intros)

text \<open>No live key has the identifier of a revoked one.\<close>

definition key_dead :: "api_key_row \<Rightarrow> db \<Rightarrow> bool" where
  "key_dead k d \<longleftrightarrow> (\<forall>x \<in> live_keys d. k_id x \<noteq> k_id k)"

lemma key_dead_cut: "key_dead k d \<Longrightarrow> cut d e \<Longrightarrow> key_dead k e"
  by (auto simp: key_dead_def cut_def)

lemma revoke_key_dead: "key_dead k (ss_db (snd (revoke_api_key_model sv k actor reason src rec s)))"
proof -
  let ?k = "k\<lparr>k_status := KRevoked\<rparr>" and ?d = "ss_db s"
  have "k_id x \<noteq> k_id k" if "x \<in> live_keys (put_key ?k ?d)" for x
    using that by (auto simp: live_keys_def put_key_def set_set_row split: if_splits)
  then have "key_dead k (put_key ?k ?d)" by (simp add: key_dead_def)
  moreover have "ss_db (snd (revoke_api_key_model sv k actor reason src rec s)) = put_key ?k ?d"
    unfolding revoke_api_key_model_def Let_def
    by (simp only: bind_op_simps) (subst quiet_db, (intro quiet_intros)?, simp)
  ultimately show ?thesis by simp
qed

lemma cuts_revoke_keys [cuts_intros]: "cuts (revoke_keys_where sv p actor reason src)"
  unfolding revoke_keys_where_def by (intro cuts_intros)

lemma returns_revoke_keys [returns_intros]: "returns (revoke_keys_where sv p actor reason src)"
  unfolding revoke_keys_where_def by (intro returns_intros)

lemma after_each_ret: "returns (each_op f xs) \<Longrightarrow> snd (bind_op (each_op f xs) (\<lambda>_. ret y) s) = snd (each_op f xs s)"
  using returnsD [of "each_op f xs" s] by (auto simp: bind_op_def ret_def)

lemma revoke_keys_dead:
  assumes "x \<in> live_keys (ss_db (snd (revoke_keys_where sv p actor reason src s)))"
  shows "\<not> p x"
proof
  assume "p x"
  let ?ks = "filter (\<lambda>k. p k \<and> k_status k \<noteq> KRevoked) (tb_api_keys (ss_db s))"
  let ?each = "each_op (\<lambda>k. revoke_api_key_model sv k actor reason src True) ?ks"
  have end_: "snd (revoke_keys_where sv p actor reason src s) = snd (?each s)"
    unfolding revoke_keys_where_def bind_op_simps by (rule after_each_ret) (intro returns_intros)
  have "cut (ss_db s) (ss_db (snd (revoke_keys_where sv p actor reason src s)))"
    using cuts_revoke_keys by (simp add: cuts_def)
  then have "x \<in> live_keys (ss_db s)" using assms by (auto simp: cut_def)
  then have mem: "x \<in> set ?ks" using \<open>p x\<close> by (simp add: live_keys_def)
  have "key_dead x (ss_db (snd (?each s)))"
    by (rule each_op_achieves [where Q = key_dead and f = "\<lambda>k. revoke_api_key_model sv k actor reason src True",
          OF cuts_revoke_key returns_revoke_key revoke_key_dead key_dead_cut mem])
  then show False using assms unfolding end_ key_dead_def by blast
qed

text \<open>Principals.\<close>

lemma cut_put_principal:
  assumes "ip_status p = PArchived"
  shows "cut d (put_principal p d)"
proof -
  have "y \<in> live_principals d" if "y \<in> live_principals (put_principal p d)" for y
    using that assms by (cases "y = p") (simp_all add: live_principals_def put_principal_def set_set_row split: if_splits)
  moreover have "anchored_count e (put_principal p d) \<le> anchored_count e d" for e
  proof -
    have "length (filter Q (set_row ip_id p ps)) \<le> length (filter Q ps)" if "\<not> Q p" for Q ps
      using that by (induction ps) (auto simp: set_row_def)
    then show ?thesis using assms by (simp add: anchored_count_def put_principal_def)
  qed
  ultimately show ?thesis
    by (auto simp: cut_def other_tables_def put_principal_def live_members_def live_assignments_def live_keys_def)
qed

lemma principal_steps:
  shows cuts_revoke_principal_keys [cuts_intros]: "cuts (revoke_principal_keys sv i actor reason src)"
    and returns_revoke_principal_keys [returns_intros]: "returns (revoke_principal_keys sv i actor reason src)"
    and quiet_principal_snapshot [quiet_intros]: "quiet (invalidate_principal_snapshot sv i)"
    and returns_principal_snapshot [returns_intros]: "returns (invalidate_principal_snapshot sv i)"
  unfolding revoke_principal_keys_def revoke_integration_principal_api_keys_def invalidate_principal_snapshot_def
  by (intro cuts_intros, intro returns_intros, intro quiet_intros, intro returns_intros)

definition principal_dead :: "uuid \<Rightarrow> db \<Rightarrow> bool" where
  "principal_dead i d \<longleftrightarrow> (\<forall>p \<in> live_principals d. ip_id p \<noteq> i)"

lemma principal_dead_cut: "principal_dead i d \<Longrightarrow> cut d e \<Longrightarrow> principal_dead i e"
  by (auto simp: principal_dead_def cut_def)

lemma cuts_archive_principal [cuts_intros]: "cuts (archive_principal sv i actor reason)"
proof -
  have "cuts (write_db (put_principal (p\<lparr>ip_status := PArchived\<rparr>)))" for p
    by (rule cuts_write) (simp add: cut_put_principal)
  then show ?thesis
    unfolding archive_principal_def
    by (intro cuts_intros cuts_quiet [OF quiet_principal_snapshot])
qed

lemma returns_archive_principal [returns_intros]: "returns (archive_principal sv i actor reason)"
  unfolding archive_principal_def by (intro returns_intros)

lemma archive_principal_dead: "principal_dead i (ss_db (snd (archive_principal sv i actor reason s)))"
proof (cases "principal_of (ss_db s) i")
  case None
  then have "principal_dead i (ss_db s)"
    by (auto simp: principal_dead_def live_principals_def principal_of_def row_by_None)
  with None show ?thesis by (simp add: archive_principal_def)
next
  case (Some p)
  let ?p = "p\<lparr>ip_status := PArchived\<rparr>" and ?d = "ss_db s"
  let ?why = "case reason of Some r \<Rightarrow> if r = [] then ''Integration principal archived'' else r
     | None \<Rightarrow> ''Integration principal archived''"
  let ?rest = "bind_op (invalidate_principal_snapshot sv i) (\<lambda>_. bind_op (revoke_principal_keys sv i actor ?why
     ''integration_principal_service.archive_principal'') (\<lambda>_. ret True))"
  have "ip_id p = i" using Some row_by_SomeD unfolding principal_of_def by metis
  then have "ip_id x \<noteq> i" if "x \<in> live_principals (put_principal ?p ?d)" for x
    using that by (cases "x = ?p") (simp_all add: live_principals_def put_principal_def set_set_row split: if_splits)
  then have dead: "principal_dead i (put_principal ?p ?d)" by (auto simp: principal_dead_def)
  let ?s = "s\<lparr>ss_db := put_principal ?p ?d\<rparr>"
  have "cuts ?rest" by (intro cuts_intros cuts_quiet [OF quiet_principal_snapshot])
  then have "cut (ss_db ?s) (ss_db (snd (?rest ?s)))" unfolding cuts_def by blast
  moreover have "archive_principal sv i actor reason s = ?rest ?s"
    using Some by (simp add: archive_principal_def)
  ultimately have "cut (put_principal ?p ?d) (ss_db (snd (archive_principal sv i actor reason s)))" by simp
  with dead show ?thesis by (rule principal_dead_cut)
qed

lemma cuts_archive_principals [cuts_intros]: "cuts (archive_entity_principals sv e actor reason)"
  and returns_archive_principals [returns_intros]: "returns (archive_entity_principals sv e actor reason)"
  unfolding archive_entity_principals_def by (intro cuts_intros, intro returns_intros)

lemma archive_principals_dead:
  assumes few: "anchored_count e (ss_db s) \<le> principal_batch"
    and x: "x \<in> live_principals (ss_db (snd (archive_entity_principals sv e actor reason s)))"
  shows "ip_anchor x \<noteq> Some e"
proof
  assume here: "ip_anchor x = Some e"
  let ?why = "Some (case reason of Some r \<Rightarrow> if r = [] then ''Anchor entity archived'' else r
     | None \<Rightarrow> ''Anchor entity archived'')"
  let ?f = "\<lambda>p. bind_op (archive_principal sv (ip_id p) actor ?why) (\<lambda>_. ret ())"
  let ?ps = "take principal_batch (filter (\<lambda>p. ip_anchor p = Some e \<and> ip_status p \<noteq> PArchived) (tb_principals (ss_db s)))"
  have cuts: "cuts (?f p)" and rets: "returns (?f p)" for p
    by (intro cuts_intros, intro returns_intros)
  have dead: "principal_dead (ip_id p) (ss_db (snd (?f p t)))" for p t
  proof -
    obtain y u where u: "archive_principal sv (ip_id p) actor ?why t = (Inr y, u)"
      using returnsD [OF returns_archive_principal] by blast
    then have "?f p t = (Inr (), u)"
      by (simp add: bind_op_run [where m = "archive_principal sv (ip_id p) actor ?why", OF u])
    then show ?thesis using archive_principal_dead [of "ip_id p" sv actor ?why t] u by simp
  qed
  have end_: "snd (archive_entity_principals sv e actor reason s) = snd (each_op ?f ?ps s)"
    unfolding archive_entity_principals_def bind_op_simps by (rule after_each_ret) (intro returns_intros)
  have "cut (ss_db s) (ss_db (snd (archive_entity_principals sv e actor reason s)))"
    using cuts_archive_principals by (simp add: cuts_def)
  then have "x \<in> live_principals (ss_db s)" using x by (auto simp: cut_def)
  then have mem: "x \<in> set ?ps" using here few by (simp add: live_principals_def anchored_count_def)
  have "principal_dead (ip_id x) (ss_db (snd (each_op ?f ?ps s)))"
    by (rule each_op_achieves [where Q = "\<lambda>p. principal_dead (ip_id p)" and f = ?f,
          OF cuts rets dead principal_dead_cut mem])
  then show False using x unfolding end_ principal_dead_def by blast
qed

section \<open>The hook keeps the laws of an archive\<close>

lemma cuts_archive_access [cuts_intros]: "cuts (archive_access ar e actor reason)"
  unfolding archive_access_def revoke_entity_api_keys_def by (intro cuts_intros)

lemma returns_archive_access: "returns (archive_access ar e actor reason)"
  unfolding archive_access_def revoke_entity_api_keys_def by (intro returns_intros)

lemma archive_access_tables:
  "tb_entities (ss_db (snd (archive_access ar e actor reason s))) = tb_entities (ss_db s)"
  "tb_closure (ss_db (snd (archive_access ar e actor reason s))) = tb_closure (ss_db s)"
  using cuts_archive_access cut_tables unfolding cuts_def by blast+

interpretation access: archive_service "archive_access ar" for ar
  by unfold_locales (simp_all add: archive_access_tables returns_archive_access)

section \<open>No access is left\<close>

definition no_access_at :: "uuid \<Rightarrow> db \<Rightarrow> bool" where
  "no_access_at x d \<longleftrightarrow>
     (\<forall>m \<in> live_members d. em_entity m \<noteq> x) \<and> (\<forall>m \<in> live_assignments d. \<not> anchored_role d {x} (urm_role m))
     \<and> (\<forall>k \<in> live_keys d. k_entity k \<noteq> Some x) \<and> (\<forall>p \<in> live_principals d. ip_anchor p \<noteq> Some x)"

lemma no_access_cut: "no_access_at x d \<Longrightarrow> cut d e \<Longrightarrow> no_access_at x e"
  using cut_tables(3) [of d e] unfolding no_access_at_def cut_def anchored_role_def by auto

lemma no_access_cong:
  assumes "tb_entity_members d = tb_entity_members e" and "tb_user_roles d = tb_user_roles e"
    and "tb_api_keys d = tb_api_keys e" and "tb_principals d = tb_principals e" and "tb_roles d = tb_roles e"
  shows "no_access_at x d = no_access_at x e"
  by (simp add: no_access_at_def live_members_def live_assignments_def live_keys_def live_principals_def
      anchored_role_def assms)

lemma archive_access_settles:
  assumes "ar_members ar = Some mb" and "ar_roles ar = Some ro" and "ar_keys ar = Some ks" and "ar_principals ar = Some ps"
    and few: "anchored_count e (ss_db s) \<le> principal_batch"
  shows "no_access_at e (ss_db (snd (archive_access ar e actor reason s)))"
proof -
  let ?f1 = "archive_memberships_for_entity mb (ar_now ar) e actor (Some reason) ''entity_service.delete_entity''"
  let ?f2 = "revoke_memberships_for_archived_entities ro (ar_now ar) [e] actor (Some reason)"
  let ?f3 = "revoke_keys_where ks (\<lambda>k. k_entity k = Some e) actor (Some reason) ''entity_service.delete_entity''"
  let ?f4 = "archive_entity_principals ps e actor (Some reason)"
  have c: "cuts ?f1" "cuts ?f2" "cuts ?f3" "cuts ?f4" by (intro cuts_intros)+
  obtain x1 s1 where 1: "?f1 s = (Inr x1, s1)" using returnsD [OF returns_archive_memberships] by blast
  obtain x2 s2 where 2: "?f2 s1 = (Inr x2, s2)" using returnsD [OF returns_archived_assignments] by blast
  obtain x3 s3 where 3: "?f3 s2 = (Inr x3, s3)" using returnsD [OF returns_revoke_keys] by blast
  obtain x4 s4 where 4: "?f4 s3 = (Inr x4, s4)" using returnsD [OF returns_archive_principals] by blast
  note steps = cutsD [OF c(1) 1] cutsD [OF c(2) 2] cutsD [OF c(3) 3] cutsD [OF c(4) 4]
  have run: "archive_access ar e actor reason s = (Inr (), s4)"
    unfolding archive_access_def with_service_def revoke_entity_api_keys_def
    by (simp add: assms(1-4) bind_op_assoc bind_op_run [where m = ?f1, OF 1] bind_op_run [where m = ?f2, OF 2]
        bind_op_run [where m = ?f3, OF 3] bind_op_run [where m = ?f4, OF 4])
  have m: "em_entity m \<noteq> e" if "m \<in> live_members (ss_db s1)" for m
    using that 1 archive_memberships_db [of mb "ar_now ar" e actor "Some reason" "''entity_service.delete_entity''" s]
      live_after_revoke_rows by fastforce
  have a: "\<not> anchored_role (ss_db s2) {e} (urm_role m)" if "m \<in> live_assignments (ss_db s2)" for m
  proof -
    have "ss_db s2 = revoke_urm_rows (\<lambda>m. anchored_role (ss_db s1) {e} (urm_role m)) (ar_now ar) actor (Some reason) (ss_db s1)"
      using 2 revoke_assignments_db [of ro "ar_now ar" "\<lambda>d m. anchored_role d (set [e]) (urm_role m)"
        "''role_service.revoke_memberships_for_archived_entities''" actor "Some reason" s1]
      by (simp add: revoke_memberships_for_archived_entities_def)
    with that have "\<not> anchored_role (ss_db s1) {e} (urm_role m)" using live_after_revoke_urm_rows by metis
    then show ?thesis using cut_tables(3) [OF steps(2)] by (simp add: anchored_role_def)
  qed
  have k: "k_entity k \<noteq> Some e" if "k \<in> live_keys (ss_db s3)" for k
    using that revoke_keys_dead [of k ks "\<lambda>k. k_entity k = Some e" actor "Some reason"
        "''entity_service.delete_entity''" s2] unfolding 3 snd_conv by simp
  have "anchored_count e (ss_db s3) \<le> principal_batch"
    using few cut_trans [OF cut_trans [OF steps(1,2)] steps(3)] unfolding cut_def by (meson order_trans)
  then have p: "ip_anchor p \<noteq> Some e" if "p \<in> live_principals (ss_db s4)" for p
    using that 4 archive_principals_dead [of e s3 p ps actor "Some reason"] by simp
  have c14: "cut (ss_db s1) (ss_db s4)" and c24: "cut (ss_db s2) (ss_db s4)"
    using steps cut_trans by blast+
  have "live_members (ss_db s4) \<subseteq> live_members (ss_db s1)" "live_assignments (ss_db s4) \<subseteq> live_assignments (ss_db s2)"
    "live_keys (ss_db s4) \<subseteq> live_keys (ss_db s3)"
    using c14 c24 steps(4) unfolding cut_def by blast+
  moreover have "anchored_role (ss_db s4) {e} = anchored_role (ss_db s2) {e}"
    by (simp add: fun_eq_iff anchored_role_def cut_tables(3) [OF c24])
  ultimately have "no_access_at e (ss_db s4)"
    using m a k p unfolding no_access_at_def by auto
  then show ?thesis by (simp add: run)
qed

section \<open>A cascade\<close>

definition is_archived :: "uuid \<Rightarrow> db \<Rightarrow> bool" where
  "is_archived x d \<longleftrightarrow> (\<exists>e. entity_at d x = Some e \<and> e_status e = ''archived'')"

text \<open>Of the entities of a set, those archived carry no access.\<close>

definition archived_clean :: "uuid set \<Rightarrow> db \<Rightarrow> bool" where
  "archived_clean A d \<longleftrightarrow>
     (\<forall>x \<in> A. is_archived x d \<longrightarrow> no_access_at x d) \<and> (\<forall>x. anchored_count x d \<le> principal_batch)"

definition all_services :: "archive_services \<Rightarrow> bool" where
  "all_services ar \<longleftrightarrow> ar_members ar \<noteq> None \<and> ar_roles ar \<noteq> None \<and> ar_keys ar \<noteq> None \<and> ar_principals ar \<noteq> None"

lemma archive_entity_db:
  "\<exists>t. archive_access ar (e_id e) actor (''Entity '' @ squote (e_display_name e) @ '' archived'')
      (s\<lparr>ss_db := set_archived (e_id e) (ss_db s)\<rparr>) = (Inr (), t)
     \<and> ss_db (snd (archive_entity sv (archive_access ar) now e cascade actor s)) = delete_closure_records (e_id e) (ss_db t)"
proof -
  let ?s1 = "s\<lparr>ss_db := set_archived (e_id e) (ss_db s)\<rparr>"
  let ?hook = "archive_access ar (e_id e) actor (''Entity '' @ squote (e_display_name e) @ '' archived'')"
  let ?rec = "record_entity_event sv now e ''archived'' actor (Some [(''status'', PStr (e_status e))])
                (Some [(''status'', PStr ''archived'')]) [(''cascade'', PBool cascade)] (resolve_root_entity_id (ss_db s) e)"
  obtain u where h: "?hook ?s1 = (Inr (), u)" using returnsD [OF returns_archive_access] by fastforce
  obtain v where r: "?rec u = (Inr (), v)" using returnsD [OF returns_entity(2)] by fastforce
  have uv: "ss_db v = ss_db u" by (rule quietD [OF quiet_entity_writes(2) r])
  have "quiet (invalidate_permission_cache sv (e_id e) True)" by (rule quiet_intros)
  then have "ss_db (snd (archive_entity sv (archive_access ar) now e cascade actor s)) = delete_closure_records (e_id e) (ss_db v)"
    unfolding archive_entity_def
    by (simp only: bind_op_simps bind_op_run [where m = ?hook, OF h] bind_op_run [where m = ?rec, OF r] quiet_db) simp
  with h uv show ?thesis by auto
qed

lemma archive_entity_clean:
  assumes "all_services ar" and clean: "archived_clean A (ss_db s)"
  shows "archived_clean A (ss_db (snd (archive_entity sv (archive_access ar) now e cascade actor s)))"
proof -
  let ?d1 = "set_archived (e_id e) (ss_db s)"
  let ?why = "''Entity '' @ squote (e_display_name e) @ '' archived''"
  obtain t where h: "archive_access ar (e_id e) actor ?why (s\<lparr>ss_db := ?d1\<rparr>) = (Inr (), t)"
    and db: "ss_db (snd (archive_entity sv (archive_access ar) now e cascade actor s)) = delete_closure_records (e_id e) (ss_db t)"
    using archive_entity_db by blast
  have same1: "no_access_at x ?d1 = no_access_at x (ss_db s)" "anchored_count x ?d1 = anchored_count x (ss_db s)" for x
    by (rule no_access_cong) (simp_all add: set_archived_def anchored_count_def)
  have same2: "no_access_at x (delete_closure_records (e_id e) (ss_db t)) = no_access_at x (ss_db t)"
    "anchored_count x (delete_closure_records (e_id e) (ss_db t)) = anchored_count x (ss_db t)" for x
    by (rule no_access_cong) (simp_all add: delete_closure_records_def anchored_count_def)
  have cut: "cut ?d1 (ss_db t)" using cutsD [OF cuts_archive_access h] by simp
  have few: "anchored_count x ?d1 \<le> principal_batch" for x using clean by (simp add: archived_clean_def same1(2))
  have new: "no_access_at (e_id e) (ss_db t)"
    using archive_access_settles [of ar _ _ _ _ "e_id e" "s\<lparr>ss_db := ?d1\<rparr>" actor ?why] assms(1) few h
    by (auto simp: all_services_def)
  have status: "is_archived x (ss_db s)" if "is_archived x (ss_db t)" "x \<noteq> e_id e" for x
  proof -
    have "entity_at (ss_db t) x = entity_at ?d1 x"
      using cut_tables(1) [OF cut] by (simp add: entity_at_def)
    also have "\<dots> = entity_at (ss_db s) x"
      using that(2) unfolding entity_at_def set_archived_def
      by (cases "row_by e_id x (tb_entities (ss_db s))") (auto simp: row_by_map dest: row_by_SomeD)
    finally show ?thesis using that(1) by (simp add: is_archived_def)
  qed
  have "no_access_at x (ss_db t)" if "x \<in> A" "is_archived x (ss_db t)" for x
  proof (cases "x = e_id e")
    case False
    then have "no_access_at x ?d1" using that status clean by (simp add: archived_clean_def same1(1))
    then show ?thesis using cut by (rule no_access_cut)
  qed (simp add: new)
  moreover have "anchored_count x (ss_db t) \<le> principal_batch" for x
    using cut few order_trans unfolding cut_def by blast
  moreover have "is_archived x (delete_closure_records (e_id e) (ss_db t)) = is_archived x (ss_db t)" for x
    by (simp add: is_archived_def entity_at_def delete_closure_records_def)
  ultimately show ?thesis unfolding db archived_clean_def same2 by simp
qed

text \<open>What every archive of one entity keeps, a whole deletion keeps.\<close>

lemma delete_entity_keeps:
  assumes step: "\<And>e c s. I (ss_db s) \<Longrightarrow> I (ss_db (snd (archive_entity sv hook now e c actor s)))"
  shows "delete_entity sv hook now fuel cascade actor i s = Some (r, t) \<Longrightarrow> I (ss_db s) \<Longrightarrow> I (ss_db t)"
proof (induction fuel arbitrary: cascade i s r t)
  case (Suc fuel)
  have each: "each_child (delete_entity sv hook now fuel True actor) ks u = Some (q, v) \<Longrightarrow> I (ss_db u) \<Longrightarrow> I (ss_db v)"
    for ks u q v
  proof (induction ks arbitrary: u)
    case (Cons k ks)
    then show ?case using Suc.IH by (auto split: option.splits prod.splits sum.splits)
  qed simp
  obtain g where g: "get_entity i s = (g, s)"
    by (cases "entity_at (ss_db s) i") (auto simp: get_entity_def)
  have last: "I (ss_db t)" if "bind_op (archive_entity sv hook now e cascade actor) (\<lambda>_. ret True) u = (r, t)"
    and "I (ss_db u)" for e u
    using that step [OF that(2), of e cascade]
    by (auto simp: bind_op_def split: prod.splits sum.splits)
  show ?case
    using Suc.prems g each last
    by (auto simp: Let_def split: sum.splits if_splits option.splits prod.splits)
qed simp

lemma archived_clean_start:
  assumes "\<forall>x \<in> A. \<not> is_archived x d" and "\<forall>x. anchored_count x d \<le> principal_batch"
  shows "archived_clean A d"
  using assms by (simp add: archived_clean_def)

lemma card_below_le:
  assumes "i \<in> dom (entity_at d)"
  shows "card (below (parent_map d) i) \<le> length (tb_entities d)"
proof -
  have "below (parent_map d) i \<subseteq> e_id ` set (tb_entities d)"
    unfolding dom_entity_of [symmetric]
    by (rule below_subset [OF _ assms]) (auto simp: parent_map_def split: option.splits)
  then have "card (below (parent_map d) i) \<le> card (e_id ` set (tb_entities d))"
    by (rule card_mono [rotated]) simp
  also have "\<dots> \<le> length (tb_entities d)"
    using card_image_le [of "set (tb_entities d)" e_id] card_length [of "tb_entities d"] by simp
  finally show ?thesis .
qed

lemma delete_entity_hierarchy_ok:
  assumes "hierarchy_ok (ss_db s)"
    and "delete_entity sv (archive_access ar) now fuel cascade actor i s = Some (r, t)"
  shows "hierarchy_ok (ss_db t)"
proof (rule delete_entity_keeps [where I = hierarchy_ok and hook = "archive_access ar", OF _ assms(2,1)])
  fix e :: entity_row and c and s :: session_state assume ok: "hierarchy_ok (ss_db s)"
  have "hierarchy_ok (delete_closure_records (e_id e) (set_archived (e_id e) (ss_db s)))"
    by (rule unlink_hierarchy_ok(1) [OF set_archived_ok [OF ok]])
  then show "hierarchy_ok (ss_db (snd (archive_entity sv (archive_access ar) now e c actor s)))"
    using access.archive_entity_tree [where e = e and s = s] hierarchy_ok_cong
    unfolding same_tree_def by blast
qed

lemma cascade_run:
  assumes "tree_ok (ss_db s)" and "i \<in> dom (entity_at (ss_db s))"
    and "cascade \<or> active_children (ss_db s) i = []" and "length (tb_entities (ss_db s)) \<le> fuel"
  shows "\<exists>t. delete_entity sv (archive_access ar) now fuel cascade actor i s = Some (Inr True, t)
    \<and> same_tree (ss_db t) (archived_set (cascade_set (ss_db s) i) (ss_db s))"
proof -
  have "same_tree (ss_db s) (archived_set {} (ss_db s))" by (simp add: same_tree_def archived_set_def)
  moreover have "card (below (parent_map (ss_db s)) i) \<le> fuel"
    using card_below_le [OF assms(2)] assms(4) by (rule order_trans)
  ultimately show ?thesis
    using access.delete_entity_run [where A = "{}" and d = "ss_db s" and s = s, OF assms(1,2)] assms(3) by auto
qed

section \<open>Histories of the hierarchy\<close>

text \<open>
  The states that the writes of the entity service can reach from an empty hierarchy, one writer at a time:
  new identifiers are fresh, and a parent that is given is in the closure table (an archived one is not).
  Other services may change anything else in between.
\<close>

inductive tree_reach :: "session_state \<Rightarrow> bool" where
  tree_start: "tb_entities (ss_db s) = [] \<Longrightarrow> tb_closure (ss_db s) = [] \<Longrightarrow> tree_reach s"
| tree_create: "tree_reach s \<Longrightarrow> i \<notin> dom (entity_at (ss_db s)) \<Longrightarrow> set_option parent \<subseteq> linked_ids (ss_db s)
    \<Longrightarrow> create_entity sv now i name display cls typ parent descr slug x actor s = (r, t) \<Longrightarrow> tree_reach t"
| tree_update: "tree_reach s \<Longrightarrow> update_entity sv now i u actor s = (r', t) \<Longrightarrow> tree_reach t"
| tree_move: "tree_reach s \<Longrightarrow> set_option q \<subseteq> linked_ids (ss_db s)
    \<Longrightarrow> move_entity sv now i q actor s = (r', t) \<Longrightarrow> tree_reach t"
| tree_delete: "tree_reach s
    \<Longrightarrow> delete_entity sv (archive_access ar) now fuel cascade actor i s = Some (r'', t) \<Longrightarrow> tree_reach t"
| tree_other: "tree_reach s \<Longrightarrow> same_tree (ss_db s) (ss_db t) \<Longrightarrow> tree_reach t"

lemma tree_reach_hierarchy: "tree_reach s \<Longrightarrow> hierarchy_ok (ss_db s)"
proof (induction rule: tree_reach.induct)
  case (tree_start s)
  have "entity_at (ss_db s) = Map.empty"
    by (simp add: fun_eq_iff entity_at_def row_by_def tree_start)
  moreover from this have "parent_map (ss_db s) = Map.empty" by (simp add: fun_eq_iff parent_map_def)
  moreover have "up Map.empty (Suc n) i = None" for n and i :: uuid by simp
  ultimately show ?case
    using tree_start
    by (simp add: hierarchy_ok_def tree_ok_def table_ok_def labels_ok_def linked_ids_def closure_set_def
        closure_pairs_def acyclic_parents_def closure_rel_def labelled_def)
qed (metis create_hierarchy_ok, metis update_entity_hierarchy_ok, metis move_entity_hierarchy_ok,
    metis delete_entity_hierarchy_ok, metis hierarchy_ok_cong same_tree_def)

section \<open>Properties\<close>


text \<open>
  C9. An archived entity carries no access. When the four services are installed and no entity anchors more
  principals than one batch holds, every entity that a deletion archived, at whatever depth of the cascade
  and whether or not the deletion as a whole succeeded, is left without a membership, a direct assignment of
  a role scoped to it, an API key or an integration principal that still grants anything.
\<close>

theorem archived_entity_carries_no_access:
  assumes "all_services ar" and "\<forall>e. anchored_count e (ss_db s) \<le> principal_batch"
    and run: "delete_entity sv (archive_access ar) now fuel cascade actor i s = Some (r, t)"
    and "\<not> is_archived x (ss_db s)" and "is_archived x (ss_db t)"
  shows "(\<forall>m \<in> set (tb_entity_members (ss_db t)). em_entity m = x \<longrightarrow> em_status m = MRevoked)
    \<and> (\<forall>m \<in> set (tb_user_roles (ss_db t)). anchored_role (ss_db t) {x} (urm_role m) \<longrightarrow> urm_status m = MRevoked)
    \<and> (\<forall>k \<in> set (tb_api_keys (ss_db t)). k_entity k = Some x \<longrightarrow> k_status k = KRevoked)
    \<and> (\<forall>p \<in> set (tb_principals (ss_db t)). ip_anchor p = Some x \<longrightarrow> ip_status p = PArchived)"
proof -
  have "archived_clean {x} (ss_db s)" using assms(2,4) by (intro archived_clean_start) simp_all
  from delete_entity_keeps [where I = "archived_clean {x}", OF archive_entity_clean [OF assms(1)] run this]
  have "archived_clean {x} (ss_db t)" .
  then have "no_access_at x (ss_db t)" using assms(5) by (simp add: archived_clean_def)
  then show ?thesis
    by (auto simp: no_access_at_def live_members_def live_assignments_def live_keys_def live_principals_def)
qed

lemma closure_exact:
  assumes "tree_reach s" and "a \<in> linked_ids (ss_db s)" and "b \<in> linked_ids (ss_db s)"
  shows "is_ancestor_of (ss_db s) a b \<longleftrightarrow> (\<exists>n > 0. up (parent_map (ss_db s)) n b = Some a)"
    and "\<forall>n. up (parent_map (ss_db s)) n b = Some a \<longrightarrow> depth_at (ss_db s) b = depth_at (ss_db s) a + int n
           \<and> (\<exists>rest. path_at (ss_db s) b = path_at (ss_db s) a @ rest)"
proof -
  note ok = hierarchy_okD [OF tree_reach_hierarchy [OF assms(1)]]
  note rel = closure_relD [OF ok(5)]
  have "is_ancestor_of (ss_db s) a b \<longleftrightarrow> (\<exists>n > 0. (a, b, n) \<in> closure_set (ss_db s))"
    by (force simp: is_ancestor_of_def closure_set_def)
  also have "\<dots> \<longleftrightarrow> (\<exists>n > 0. up (parent_map (ss_db s)) n b = Some a)"
  proof
    assume "\<exists>n > 0. (a, b, n) \<in> closure_set (ss_db s)"
    then show "\<exists>n > 0. up (parent_map (ss_db s)) n b = Some a" using rel by (metis zero_less_nat_eq)
  next
    assume "\<exists>n > 0. up (parent_map (ss_db s)) n b = Some a"
    then obtain n where "0 < n" "up (parent_map (ss_db s)) n b = Some a" by blast
    then have "(a, b, int n) \<in> closure_set (ss_db s)" using rel assms(2,3) by simp
    then show "\<exists>n > 0. (a, b, n) \<in> closure_set (ss_db s)" using \<open>0 < n\<close> by (metis of_nat_0_less_iff)
  qed
  finally show "is_ancestor_of (ss_db s) a b \<longleftrightarrow> (\<exists>n > 0. up (parent_map (ss_db s)) n b = Some a)" .
  show "\<forall>n. up (parent_map (ss_db s)) n b = Some a \<longrightarrow> depth_at (ss_db s) b = depth_at (ss_db s) a + int n
      \<and> (\<exists>rest. path_at (ss_db s) b = path_at (ss_db s) a @ rest)"
  proof (intro allI impI)
    fix n assume "up (parent_map (ss_db s)) n b = Some a"
    then have "(a, b, int n) \<in> closure_set (ss_db s)" using rel assms(2,3) by simp
    from labelledD [OF ok(7) this] show "depth_at (ss_db s) b = depth_at (ss_db s) a + int n
      \<and> (\<exists>rest. path_at (ss_db s) b = path_at (ss_db s) a @ rest)" by blast
  qed
qed


section \<open>Witnesses\<close>

definition plain_entities :: entity_service where
  "plain_entities = \<lparr>en_max_depth = 10, en_hierarchy = True, en_enforce = False, en_redis = False,
     en_root_types = None, en_match = (\<lambda>_. None), en_re_error = (\<lambda>_. []), en_audit = False, en_cache = False,
     en_iso = (\<lambda>_. [])\<rparr>"

definition no_extra :: entity_extra where
  "no_extra = \<lparr>ex_status = ''active'', ex_from = None, ex_until = None, ex_child_classes = [], ex_child_types = [],
     ex_max_members = None, ex_name_pattern = None, ex_display_pattern = None, ex_slug_pattern = None,
     ex_guidance = None\<rparr>"

definition with_org :: session_state where
  "with_org = snd (create_entity plain_entities 0 ''org'' ''org'' ''Org'' Structural ''organization'' None None None
     no_extra None (start_session empty_db))"

definition with_team :: session_state where
  "with_team = snd (create_entity plain_entities 0 ''team'' ''team'' ''Team'' AccessGroup ''team'' (Some ''org'') None None
     no_extra None with_org)"

lemma org_tables:
  "map (\<lambda>r. (cl_ancestor r, cl_descendant r, cl_depth r)) (tb_closure (ss_db with_org)) = [(''org'', ''org'', 0)]"
  "map (\<lambda>r. (cl_ancestor r, cl_descendant r, cl_depth r)) (tb_closure (ss_db with_team)) =
     [(''org'', ''org'', 0), (''team'', ''team'', 0), (''org'', ''team'', 1)]"
  "map (\<lambda>e. (e_id e, e_parent e, e_status e)) (tb_entities (ss_db with_team)) =
     [(''org'', None, ''active''), (''team'', Some ''org'', ''active'')]"
  by code_simp+

lemma with_team_reach: "tree_reach with_team"
proof -
  have start: "tree_reach (start_session empty_db)"
    by (rule tree_start) (simp_all add: start_session_def empty_db_def)
  have org: "tree_reach with_org"
    unfolding with_org_def
    by (rule tree_create [OF start _ _ surjective_pairing, where parent = None])
      (simp_all add: start_session_def empty_db_def entity_at_def row_by_def dom_def)
  have linked: "''org'' \<in> linked_ids (ss_db with_org)"
    unfolding linked_ids_def closure_set_def set_map [symmetric] org_tables(1) by simp
  have "''team'' \<notin> dom (entity_at (ss_db with_org))"
    unfolding dom_entity_of by code_simp
  then show ?thesis
    unfolding with_team_def
    by (rule tree_create [OF org _ _ surjective_pairing, where parent = "Some ''org''"]) (simp add: linked)
qed

lemma team_linked: "''org'' \<in> linked_ids (ss_db with_team)" "''team'' \<in> linked_ids (ss_db with_team)"
proof -
  have "closure_set (ss_db with_team) = {(''org'', ''org'', 0), (''team'', ''team'', 0), (''org'', ''team'', 1)}"
    unfolding closure_set_def set_map [symmetric] org_tables(2) by simp
  then show "''org'' \<in> linked_ids (ss_db with_team)" "''team'' \<in> linked_ids (ss_db with_team)"
    by (simp_all add: linked_ids_def)
qed


definition plain_archive :: archive_services where
  "plain_archive = \<lparr>
     ar_members = Some \<lparr>mb_hierarchy = True, mb_enforce = False, mb_audit = False, mb_cache = False, mb_iso = (\<lambda>_. [])\<rparr>,
     ar_roles = Some \<lparr>ro_hierarchy = True, ro_enforce = False, ro_history = False, ro_audit = False, ro_cache = False,
       ro_iso = (\<lambda>_. []), ro_rt = plain_rt, ro_re_error = (\<lambda>_. [])\<rparr>,
     ar_keys = Some \<lparr>ak_policy = None, ak_audit = False, ak_redis = False, ak_redis_enabled = False,
       ak_fail_closed = False, ak_iso = (\<lambda>_. []), ak_env = sample_env, ak_hash = (\<lambda>k. k), ak_ip6 = no_ipv6\<rparr>,
     ar_principals = Some \<lparr>ps_hierarchy = True, ps_policy = None, ps_keys = None, ps_cache = False, ps_env = sample_env\<rparr>,
     ar_now = 0\<rparr>"

definition team_with_key :: session_state where
  "team_with_key = with_team\<lparr>ss_db := (ss_db with_team)\<lparr>tb_api_keys := [(sample_key ''k'')\<lparr>k_entity := Some ''team''\<rparr>]\<rparr>\<rparr>"

lemma team_with_key_facts:
  "tree_ok (ss_db team_with_key)" "''org'' \<in> dom (entity_at (ss_db team_with_key))"
  "length (tb_entities (ss_db team_with_key)) \<le> 2" "tree_ok (ss_db with_team)"
proof -
  show "tree_ok (ss_db with_team)" using tree_reach_hierarchy [OF with_team_reach] by (simp add: hierarchy_ok_def)
  have "tree_reach team_with_key"
    by (rule tree_other [OF with_team_reach]) (simp add: same_tree_def team_with_key_def)
  then show "tree_ok (ss_db team_with_key)" using tree_reach_hierarchy by (simp add: hierarchy_ok_def)
  show "''org'' \<in> dom (entity_at (ss_db team_with_key))" unfolding dom_entity_of by code_simp
  show "length (tb_entities (ss_db team_with_key)) \<le> 2" by code_simp
qed


theorem archived_entity_carries_no_access_witness:
  "\<exists>t. delete_entity plain_entities (archive_access plain_archive) 0 2 True None ''org'' team_with_key = Some (Inr True, t)
     \<and> (\<forall>k \<in> set (tb_api_keys (ss_db t)). k_entity k = Some ''team'' \<longrightarrow> k_status k = KRevoked)"
proof -
  obtain t where t: "delete_entity plain_entities (archive_access plain_archive) 0 2 True None ''org'' team_with_key = Some (Inr True, t)"
    and tree: "same_tree (ss_db t) (archived_set (cascade_set (ss_db team_with_key) ''org'') (ss_db team_with_key))"
    using cascade_run [OF team_with_key_facts(1,2) _ team_with_key_facts(3)] by blast
  have "map e_id (active_children (ss_db team_with_key) ''org'') = [''team'']" by code_simp
  then have "''team'' \<in> cascade_set (ss_db team_with_key) ''org''"
    unfolding cascade_set_unfold [of _ "''org''"] by (auto simp: default_limit_def map_eq_Cons_conv intro: cascade_top)
  moreover have "entity_at (ss_db team_with_key) ''team'' \<noteq> None" by code_simp
  ultimately have "is_archived ''team'' (ss_db t)"
    using tree archived_entity_of [of "cascade_set (ss_db team_with_key) ''org''" "ss_db team_with_key" "''team''"]
    by (auto simp: same_tree_def is_archived_def entity_at_def)
  moreover have "\<not> is_archived ''team'' (ss_db team_with_key)"
  proof -
    have "map_option e_status (entity_at (ss_db team_with_key) ''team'') = Some ''active''" by code_simp
    then show ?thesis by (auto simp: is_archived_def)
  qed
  moreover have "tb_principals (ss_db team_with_key) = []" by code_simp
  then have "\<forall>e. anchored_count e (ss_db team_with_key) \<le> principal_batch" by (simp add: anchored_count_def)
  moreover have "all_services plain_archive" by (simp add: all_services_def plain_archive_def)
  ultimately show ?thesis using archived_entity_carries_no_access [OF _ _ t] t by blast
qed

end
