(* ===== verification/Urls.thy ===== *)
theory Urls
  imports PyValue
begin

text \<open>
  What the program uses of \<open>urllib.parse\<close>: \<open>urlsplit\<close>, \<open>urlunsplit\<close>, \<open>quote\<close> and the attributes of a split
  URL. Texts are Latin-1. Whether a bracketed host is a literal IPv6 address is the parameter \<open>bracket_ok\<close>.
\<close>

section \<open>Splitting\<close>

record split_url =
  su_scheme :: string
  su_netloc :: string
  su_path :: string
  su_query :: string
  su_fragment :: string

definition py_partition :: "char \<Rightarrow> string \<Rightarrow> string \<times> bool \<times> string" where
  "py_partition c s = (if c \<in> set s then (fst (split_first c s), True, snd (split_first c s)) else (s, False, []))"

definition py_rpartition :: "char \<Rightarrow> string \<Rightarrow> string \<times> bool \<times> string" where
  "py_rpartition c s = (if c \<in> set s then (fst (split_last c s), True, snd (split_last c s)) else ([], False, s))"

definition is_ascii_letter :: "char \<Rightarrow> bool" where
  "is_ascii_letter c \<longleftrightarrow> is_ascii_upper c \<or> is_ascii_lower c"

definition scheme_char :: "char \<Rightarrow> bool" where
  "scheme_char c \<longleftrightarrow> is_ascii_letter c \<or> is_digit c \<or> c \<in> {CHR ''+'', CHR ''-'', CHR ''.''}"

text \<open>Leading control characters and blanks go, tabs and line ends go everywhere.\<close>

definition clean_url :: "string \<Rightarrow> string" where
  "clean_url url = filter (\<lambda>c. code_of c \<notin> {9, 10, 13}) (dropWhile (\<lambda>c. code_of c \<le> 32) url)"

definition split_scheme :: "string \<Rightarrow> string \<times> string" where
  "split_scheme url =
     (let (before, found, after) = py_partition (CHR '':'') url in
      if found \<and> before \<noteq> [] \<and> is_ascii_letter (hd url) \<and> list_all scheme_char before
      then (py_lower before, after) else ([], url))"

definition netloc_char :: "char \<Rightarrow> bool" where
  "netloc_char c \<longleftrightarrow> c \<notin> {CHR ''/'', CHR ''?'', CHR ''#''}"

definition bracketed :: "string \<Rightarrow> string" where
  "bracketed netloc = fst (py_partition (CHR '']'') (snd (snd (py_partition (CHR ''['') netloc))))"

definition split_netloc :: "(string \<Rightarrow> bool) \<Rightarrow> string \<Rightarrow> (string \<times> string) option" where
  "split_netloc bracket_ok url =
     (if take 2 url = ''//''
      then let netloc = takeWhile netloc_char (drop 2 url) in
        if (CHR ''['' \<in> set netloc) \<noteq> (CHR '']'' \<in> set netloc)
           \<or> CHR ''['' \<in> set netloc \<and> \<not> bracket_ok (bracketed netloc)
        then None else Some (netloc, dropWhile netloc_char (drop 2 url))
      else Some ([], url))"

text \<open>\<open>None\<close> is a \<open>ValueError\<close>.\<close>

definition urlsplit :: "(string \<Rightarrow> bool) \<Rightarrow> string \<Rightarrow> split_url option" where
  "urlsplit bracket_ok url =
     (let (scheme, rest) = split_scheme (clean_url url) in
      case split_netloc bracket_ok rest of
        None \<Rightarrow> None
      | Some (netloc, tail) \<Rightarrow>
          let (before, _, fragment) = py_partition (CHR ''#'') tail;
              (path, _, query) = py_partition (CHR ''?'') before
          in Some \<lparr>su_scheme = scheme, su_netloc = netloc, su_path = path, su_query = query, su_fragment = fragment\<rparr>)"

section \<open>The parts of a network location\<close>

definition su_hostinfo :: "split_url \<Rightarrow> string \<times> string option" where
  "su_hostinfo u =
     (let hostinfo = snd (snd (py_rpartition (CHR ''@'') (su_netloc u)));
          (_, opened, inner) = py_partition (CHR ''['') hostinfo;
          (host, port) = (if opened
             then let (h, _, p) = py_partition (CHR '']'') inner in (h, snd (snd (py_partition (CHR '':'') p)))
             else let (h, _, p) = py_partition (CHR '':'') hostinfo in (h, p))
      in (host, if port = [] then None else Some port))"

definition su_hostname :: "split_url \<Rightarrow> string option" where
  "su_hostname u =
     (let host = fst (su_hostinfo u); (name, percent, zone) = py_partition (CHR ''%'') host in
      if host = [] then None else Some (py_lower name @ (if percent then CHR ''%'' # zone else [])))"

text \<open>\<open>Inl\<close> is a \<open>ValueError\<close>.\<close>

definition su_port :: "split_url \<Rightarrow> pyerr + nat option" where
  "su_port u =
     (case snd (su_hostinfo u) of
        None \<Rightarrow> Inr None
      | Some p \<Rightarrow>
          if list_all is_digit p \<and> length p \<le> int_max_str_digits \<and> digits_val p \<le> 65535
          then Inr (Some (digits_val p)) else Inl ValueError)"

definition su_username :: "split_url \<Rightarrow> string option" where
  "su_username u =
     (let (userinfo, have, _) = py_rpartition (CHR ''@'') (su_netloc u) in
      if have then Some (fst (py_partition (CHR '':'') userinfo)) else None)"

definition su_password :: "split_url \<Rightarrow> string option" where
  "su_password u =
     (let (userinfo, have, _) = py_rpartition (CHR ''@'') (su_netloc u);
          (_, have_password, password) = py_partition (CHR '':'') userinfo in
      if have \<and> have_password then Some password else None)"

section \<open>Joining and quoting\<close>

text \<open>\<open>urlunsplit\<close>, for the schemes that take a network location.\<close>

definition urlunsplit :: "string \<Rightarrow> string \<Rightarrow> string \<Rightarrow> string \<Rightarrow> string \<Rightarrow> string" where
  "urlunsplit scheme netloc path query fragment =
     (let path1 = (if path \<noteq> [] \<and> hd path \<noteq> CHR ''/'' then CHR ''/'' # path else path) in
      scheme @ ''://'' @ netloc @ path1
        @ (if query \<noteq> [] then CHR ''?'' # query else []) @ (if fragment \<noteq> [] then CHR ''#'' # fragment else []))"

definition always_safe :: "char \<Rightarrow> bool" where
  "always_safe c \<longleftrightarrow> is_ascii_letter c \<or> is_digit c \<or> c \<in> {CHR ''_'', CHR ''.'', CHR ''-'', CHR ''~''}"

definition utf8_bytes :: "char \<Rightarrow> nat list" where
  "utf8_bytes c = (let n = code_of c in if n < 128 then [n] else [192 + n div 64, 128 + n mod 64])"

definition hex_digit :: "nat \<Rightarrow> char" where
  "hex_digit n = char_of (if n < 10 then 48 + n else 55 + n)"

definition quote_char :: "char \<Rightarrow> string" where
  "quote_char c = (if always_safe c then [c]
     else concat (map (\<lambda>b. [CHR ''%'', hex_digit (b div 16), hex_digit (b mod 16)]) (utf8_bytes c)))"

text \<open>\<open>quote(text, safe="")\<close>\<close>

definition quote :: "string \<Rightarrow> string" where
  "quote s = concat (map quote_char s)"

end
