(* ===== verification/Frontend.thy ===== *)
theory Frontend
  imports Urls Session
begin

text \<open>
  Frontend profiles (\<open>outlabs_auth/frontend/\<close>): the flows and routes of a frontend, the redirect policy, the
  registry, the resolution of a profile, and the sign-in gate. The host's resolver is a parameter, a function
  of the typed context; the text \<open>repr\<close> gives a name in a message is one too. Configuration errors carry no
  message here.
\<close>

section \<open>Flows and routes\<close>

datatype frontend_flow =
    Invite
  | PasswordReset
  | PasswordResetConfirmation
  | AccessGranted
  | MagicLinkFlow
  | AccessCodeFlow
  | OauthLogin
  | OauthAssociate
  | SignIn

fun flow_value :: "frontend_flow \<Rightarrow> string" where
  "flow_value Invite = ''invite''"
| "flow_value PasswordReset = ''password_reset''"
| "flow_value PasswordResetConfirmation = ''password_reset_confirmation''"
| "flow_value AccessGranted = ''access_granted''"
| "flow_value MagicLinkFlow = ''magic_link''"
| "flow_value AccessCodeFlow = ''access_code''"
| "flow_value OauthLogin = ''oauth_login''"
| "flow_value OauthAssociate = ''oauth_associate''"
| "flow_value SignIn = ''sign_in''"

definition token_flows :: "frontend_flow set" where
  "token_flows = {Invite, PasswordReset, MagicLinkFlow}"

text \<open>\<open>FrontendConfigurationError\<close>, its two subclasses, and a \<open>ValueError\<close> of \<open>urlsplit\<close>.\<close>

datatype frontend_error = BadConfiguration | UnknownProfile | RouteUnsupported | BadUrl

definition token_placeholder :: string where
  "token_placeholder = ''{token}''"

fun count_token :: "string \<Rightarrow> nat" where
  "count_token [] = 0"
| "count_token (c # s) =
     (if py_startswith (c # s) token_placeholder then Suc (count_token (drop 6 s)) else count_token s)"

fun replace_token :: "string \<Rightarrow> string \<Rightarrow> string" where
  "replace_token r [] = []"
| "replace_token r (c # s) =
     (if py_startswith (c # s) token_placeholder then r @ replace_token r (drop 6 s) else c # replace_token r s)"

record frontend_routes =
  fr_login :: "string option"
  fr_password_reset :: "string option"
  fr_accept_invite :: "string option"
  fr_magic_link :: "string option"
  fr_access_code :: "string option"
  fr_oauth_success :: "string option"
  fr_oauth_error :: "string option"
  fr_oauth_associate :: "string option"

definition no_routes :: frontend_routes where
  "no_routes = \<lparr>fr_login = None, fr_password_reset = None, fr_accept_invite = None, fr_magic_link = None,
     fr_access_code = None, fr_oauth_success = None, fr_oauth_error = None, fr_oauth_associate = None\<rparr>"

definition token_routes :: "frontend_routes \<Rightarrow> string list" where
  "token_routes r = List.map_filter id [fr_password_reset r, fr_accept_invite r, fr_magic_link r]"

definition plain_routes :: "frontend_routes \<Rightarrow> string list" where
  "plain_routes r = List.map_filter id
     [fr_login r, fr_access_code r, fr_oauth_success r, fr_oauth_error r, fr_oauth_associate r]"

text \<open>\<open>FrontendRoutes.__post_init__\<close>\<close>

definition check_routes :: "frontend_routes \<Rightarrow> frontend_error + unit" where
  "check_routes r =
     (if list_ex (\<lambda>t. \<not> py_startswith t ''/'') (token_routes r @ plain_routes r) then Inl BadConfiguration
      else if list_ex (\<lambda>t. count_token t \<noteq> 1) (token_routes r) then Inl BadConfiguration
      else if list_ex (\<lambda>t. count_token t \<noteq> 0) (plain_routes r) then Inl BadConfiguration
      else Inr ())"

fun route_for :: "frontend_routes \<Rightarrow> frontend_flow \<Rightarrow> string option" where
  "route_for r Invite = fr_accept_invite r"
| "route_for r PasswordReset = fr_password_reset r"
| "route_for r PasswordResetConfirmation = None"
| "route_for r AccessGranted = fr_login r"
| "route_for r MagicLinkFlow = fr_magic_link r"
| "route_for r AccessCodeFlow = fr_access_code r"
| "route_for r OauthLogin = fr_oauth_success r"
| "route_for r OauthAssociate = fr_oauth_associate r"
| "route_for r SignIn = fr_login r"

definition error_route_for :: "frontend_routes \<Rightarrow> frontend_flow \<Rightarrow> string option" where
  "error_route_for r f =
     (if f = OauthLogin \<or> f = OauthAssociate
      then (case fr_oauth_error r of Some t \<Rightarrow> if t \<noteq> [] then Some t else fr_login r | None \<Rightarrow> fr_login r)
      else None)"

section \<open>Profiles\<close>

record redirect_policy =
  rp_relative :: bool
  rp_extra :: "string list"
  rp_default :: string

definition default_policy :: redirect_policy where
  "default_policy = \<lparr>rp_relative = True, rp_extra = [], rp_default = ''/''\<rparr>"

definition check_policy :: "redirect_policy \<Rightarrow> frontend_error + unit" where
  "check_policy p =
     (if \<not> py_startswith (rp_default p) ''/'' \<or> py_startswith (rp_default p) ''//'' then Inl BadConfiguration
      else Inr ())"

record frontend_profile =
  fp_key :: string
  fp_app_name :: string
  fp_origins :: "string list"
  fp_routes :: frontend_routes
  fp_policy :: redirect_policy
  fp_audiences :: "string list"
  fp_support :: "string option"

text \<open>\<open>^[a-z0-9][a-z0-9-]*$\<close>: the dollar also matches before a final line end.\<close>

definition key_head :: "char \<Rightarrow> bool" where
  "key_head c \<longleftrightarrow> is_ascii_lower c \<or> is_digit c"

definition profile_key_ok :: "string \<Rightarrow> bool" where
  "profile_key_ok key =
     (let body = (if key \<noteq> [] \<and> last key = newline then butlast key else key) in
      body \<noteq> [] \<and> key_head (hd body) \<and> list_all (\<lambda>c. key_head c \<or> c = CHR ''-'') body)"

definition validate_profile_key :: "string \<Rightarrow> frontend_error + string" where
  "validate_profile_key key = (if profile_key_ok key then Inr key else Inl BadConfiguration)"

definition local_dev_hosts :: "string set" where
  "local_dev_hosts = {''localhost'', ''127.0.0.1'', ''::1''}"

definition rstrip_slash :: "string \<Rightarrow> string" where
  "rstrip_slash s = rev (dropWhile (\<lambda>c. c = CHR ''/'') (rev s))"

definition nonempty_opt :: "string option \<Rightarrow> bool" where
  "nonempty_opt x \<longleftrightarrow> x \<noteq> None \<and> x \<noteq> Some []"

definition is_local_host :: "string \<Rightarrow> bool" where
  "is_local_host host \<longleftrightarrow> host \<in> local_dev_hosts \<or> py_endswith host ''.localhost''"

definition web_scheme :: "string \<Rightarrow> bool" where
  "web_scheme s \<longleftrightarrow> s = ''https'' \<or> s = ''http''"

definition validate_public_origin :: "(string \<Rightarrow> bool) \<Rightarrow> string \<Rightarrow> bool \<Rightarrow> frontend_error + string" where
  "validate_public_origin bracket_ok origin local_dev =
     (if py_strip origin = [] then Inl BadConfiguration
      else case urlsplit bracket_ok (rstrip_slash (py_strip origin)) of
        None \<Rightarrow> Inl BadUrl
      | Some u \<Rightarrow>
          if \<not> web_scheme (su_scheme u) \<or> su_netloc u = [] then Inl BadConfiguration
          else if su_path u \<noteq> [] \<or> su_query u \<noteq> [] \<or> su_fragment u \<noteq> [] then Inl BadConfiguration
          else if nonempty_opt (su_username u) \<or> nonempty_opt (su_password u) then Inl BadConfiguration
          else if su_scheme u = ''http''
              \<and> \<not> (local_dev \<and> is_local_host (case su_hostname u of None \<Rightarrow> [] | Some h \<Rightarrow> py_lower h))
          then Inl BadConfiguration
          else Inr (urlunsplit (su_scheme u) (py_lower (su_netloc u)) [] [] []))"

definition check_profile :: "frontend_profile \<Rightarrow> frontend_error + unit" where
  "check_profile p =
     bindE (validate_profile_key (fp_key p)) (\<lambda>_.
     if py_strip (fp_app_name p) = [] then Inl BadConfiguration
     else if fp_origins p = [] then Inl BadConfiguration
     else if list_ex (\<lambda>a. py_strip a = []) (fp_audiences p) then Inl BadConfiguration
     else Inr ())"

definition primary_origin :: "frontend_profile \<Rightarrow> string" where
  "primary_origin p = hd (fp_origins p)"

definition render_url :: "frontend_profile \<Rightarrow> frontend_flow \<Rightarrow> string option \<Rightarrow> frontend_error + string" where
  "render_url p f token =
     (case route_for (fp_routes p) f of
        None \<Rightarrow> Inl RouteUnsupported
      | Some t \<Rightarrow>
          if f \<in> token_flows
          then (case token of
                  None \<Rightarrow> Inl RouteUnsupported
                | Some x \<Rightarrow> Inr (primary_origin p @ replace_token (quote x) t))
          else Inr (primary_origin p @ t))"

definition allowed_origins :: "frontend_profile \<Rightarrow> string set" where
  "allowed_origins p = set (fp_origins p) \<union> set (rp_extra (fp_policy p))"

definition blank :: "string option \<Rightarrow> bool" where
  "blank t \<longleftrightarrow> (case t of None \<Rightarrow> True | Some s \<Rightarrow> py_strip s = [])"

text \<open>The network location that is kept: the host in lower case and an explicit port.\<close>

definition kept_netloc :: "split_url \<Rightarrow> pyerr + string" where
  "kept_netloc u =
     (let host = (case su_hostname u of None \<Rightarrow> [] | Some h \<Rightarrow> h) in
      bindE (su_port u) (\<lambda>port. Inr (case port of None \<Rightarrow> host | Some n \<Rightarrow> host @ CHR '':'' # show_nat n)))"

definition absolute_target :: "(string \<Rightarrow> bool) \<Rightarrow> string set \<Rightarrow> string \<Rightarrow> pyerr + string option" where
  "absolute_target bracket_ok origins candidate =
     (case urlsplit bracket_ok candidate of
        None \<Rightarrow> Inl ValueError
      | Some u \<Rightarrow>
          if \<not> web_scheme (su_scheme u) \<or> su_netloc u = [] then Inr None
          else if urlunsplit (su_scheme u) (py_lower (su_netloc u)) [] [] [] \<notin> origins then Inr None
          else bindE (kept_netloc u) (\<lambda>netloc.
            Inr (Some (urlunsplit (su_scheme u) (py_lower netloc) (if su_path u = [] then ''/'' else su_path u)
                         (su_query u) (su_fragment u)))))"

definition normalize_return_target ::
  "(string \<Rightarrow> bool) \<Rightarrow> frontend_profile \<Rightarrow> string option \<Rightarrow> pyerr + string option" where
  "normalize_return_target bracket_ok p target =
     (if blank target then Inr (Some (primary_origin p @ rp_default (fp_policy p)))
      else let candidate = py_strip (case target of None \<Rightarrow> [] | Some t \<Rightarrow> t) in
        if py_startswith candidate ''/'' \<and> \<not> py_startswith candidate ''//''
        then Inr (if rp_relative (fp_policy p) then Some (primary_origin p @ candidate) else None)
        else absolute_target bracket_ok (allowed_origins p) candidate)"

section \<open>The registry\<close>

record frontend_registry =
  rg_profiles :: "(string \<times> frontend_profile) list"
  rg_default :: "string option"
  rg_local_dev :: bool

fun normalize_origins ::
  "(string \<Rightarrow> bool) \<Rightarrow> bool \<Rightarrow> string list \<Rightarrow> string list \<Rightarrow> frontend_error + string list" where
  "normalize_origins bracket_ok local_dev [] seen = Inr seen"
| "normalize_origins bracket_ok local_dev (x # xs) seen =
     bindE (validate_public_origin bracket_ok x local_dev) (\<lambda>n.
     if n \<in> set seen then Inl BadConfiguration else normalize_origins bracket_ok local_dev xs (seen @ [n]))"

fun add_profiles ::
  "(string \<Rightarrow> bool) \<Rightarrow> bool \<Rightarrow> frontend_profile list \<Rightarrow> (string \<times> frontend_profile) list
     \<Rightarrow> frontend_error + (string \<times> frontend_profile) list" where
  "add_profiles bracket_ok local_dev [] acc = Inr acc"
| "add_profiles bracket_ok local_dev (p # ps) acc =
     (if fp_key p \<in> set (map fst acc) then Inl BadConfiguration
      else bindE (normalize_origins bracket_ok local_dev (fp_origins p) []) (\<lambda>xs.
        add_profiles bracket_ok local_dev ps (acc @ [(fp_key p, p\<lparr>fp_origins := xs\<rparr>)])))"

definition make_registry ::
  "(string \<Rightarrow> bool) \<Rightarrow> frontend_profile list \<Rightarrow> string option \<Rightarrow> bool \<Rightarrow> frontend_error + frontend_registry" where
  "make_registry bracket_ok profiles default_key local_dev =
     bindE (add_profiles bracket_ok local_dev profiles []) (\<lambda>ps.
     if ps = [] then Inl BadConfiguration
     else bindE (case default_key of
                   None \<Rightarrow> Inr ()
                 | Some k \<Rightarrow> bindE (validate_profile_key k) (\<lambda>_.
                     if k \<in> set (map fst ps) then Inr () else Inl UnknownProfile))
            (\<lambda>_. Inr \<lparr>rg_profiles = ps, rg_default = default_key, rg_local_dev = local_dev\<rparr>))"

definition registered :: "frontend_registry \<Rightarrow> string \<Rightarrow> bool" where
  "registered rg k \<longleftrightarrow> map_of (rg_profiles rg) k \<noteq> None"

definition get_profile :: "frontend_registry \<Rightarrow> string \<Rightarrow> frontend_error + frontend_profile" where
  "get_profile rg k = (case map_of (rg_profiles rg) k of None \<Rightarrow> Inl UnknownProfile | Some p \<Rightarrow> Inr p)"

definition single_profile :: "frontend_registry \<Rightarrow> frontend_profile option" where
  "single_profile rg = (case rg_profiles rg of [(_, p)] \<Rightarrow> Some p | _ \<Rightarrow> None)"

definition default_profile :: "frontend_registry \<Rightarrow> frontend_profile option" where
  "default_profile rg = (case rg_default rg of
     None \<Rightarrow> None | Some k \<Rightarrow> if k = [] then None else map_of (rg_profiles rg) k)"

definition require_route :: "frontend_registry \<Rightarrow> string \<Rightarrow> frontend_flow \<Rightarrow> frontend_error + string" where
  "require_route rg k f =
     bindE (get_profile rg k) (\<lambda>p. case route_for (fp_routes p) f of None \<Rightarrow> Inl RouteUnsupported | Some t \<Rightarrow> Inr t)"

definition public_origins_union :: "frontend_registry \<Rightarrow> string list" where
  "public_origins_union rg = rev (remdups (rev (concat (map (\<lambda>(_, p). fp_origins p) (rg_profiles rg)))))"

section \<open>Resolution\<close>

record resolution_context =
  rc_flow :: frontend_flow
  rc_user :: "uuid option"
  rc_email :: "string option"
  rc_root :: "uuid option"
  rc_root_slug :: "string option"
  rc_root_type :: "string option"
  rc_requested :: "string option"

record frontend_resolution =
  re_profile :: string
  re_audience :: "string option"
  re_source :: string

text \<open>What the host's resolver does: a value, or an exception by its class.\<close>

datatype host_outcome =
    HostNone
  | HostKey string
  | HostResolution string "string option"
  | HostUnresolved
  | HostResolutionError string string details
  | HostUnknownProfile
  | HostFailed string

record frontend_resolver =
  rs_registry :: frontend_registry
  rs_host :: "(resolution_context \<Rightarrow> host_outcome) option"
  rs_default :: "string option"
  rs_repr :: "string \<Rightarrow> string"

definition make_resolver ::
  "frontend_registry \<Rightarrow> (resolution_context \<Rightarrow> host_outcome) option \<Rightarrow> string option \<Rightarrow> (string \<Rightarrow> string)
     \<Rightarrow> frontend_error + frontend_resolver" where
  "make_resolver rg host default_key repr =
     (if default_key \<noteq> None \<and> rg_default rg \<noteq> None \<and> default_key \<noteq> rg_default rg then Inl BadConfiguration
      else let effective = (case default_key of Some k \<Rightarrow> if k = [] then rg_default rg else Some k | None \<Rightarrow> rg_default rg) in
        if (\<exists>k \<in> set_option effective. \<not> registered rg k) then Inl UnknownProfile
        else Inr \<lparr>rs_registry = rg, rs_host = host, rs_default = effective, rs_repr = repr\<rparr>)"

definition default_or_raise :: "frontend_resolver \<Rightarrow> resolution_context \<Rightarrow> err + frontend_resolution" where
  "default_or_raise rs c =
     (case rs_default rs of
        Some k \<Rightarrow> Inr \<lparr>re_profile = k, re_audience = None, re_source = ''default''\<rparr>
      | None \<Rightarrow> Inl (Resolution ''frontend_unresolved''
          ''Frontend profile could not be resolved and no default is declared'' [(''flow'', PStr (flow_value (rc_flow c)))]))"

definition validate_requested :: "frontend_resolver \<Rightarrow> string option \<Rightarrow> err + string option" where
  "validate_requested rs requested =
     (case requested of
        None \<Rightarrow> Inr None
      | Some k \<Rightarrow> if registered (rs_registry rs) k then Inr (Some k)
          else Inl (Resolution ''frontend_profile_unknown''
             (''Requested frontend profile '' @ rs_repr rs k @ '' is not registered'') [(''profile_key'', PStr k)]))"

definition resolve_without_host ::
  "frontend_resolver \<Rightarrow> resolution_context \<Rightarrow> string option \<Rightarrow> err + frontend_resolution" where
  "resolve_without_host rs c requested =
     (case requested of
        Some k \<Rightarrow> Inr \<lparr>re_profile = k, re_audience = None, re_source = ''requested''\<rparr>
      | None \<Rightarrow> (case single_profile (rs_registry rs) of
            Some p \<Rightarrow> Inr \<lparr>re_profile = fp_key p, re_audience = None, re_source = ''single''\<rparr>
          | None \<Rightarrow> default_or_raise rs c))"

definition from_host :: "frontend_resolver \<Rightarrow> resolution_context \<Rightarrow> string \<Rightarrow> string option \<Rightarrow> err + frontend_resolution" where
  "from_host rs c k audience =
     (if registered (rs_registry rs) k
      then Inr \<lparr>re_profile = k, re_audience = audience, re_source = ''resolver''\<rparr>
      else Inl (Resolution ''frontend_profile_unregistered''
             (''Frontend resolver returned unregistered profile key '' @ rs_repr rs k)
             [(''flow'', PStr (flow_value (rc_flow c))), (''profile_key'', PStr k)]))"

definition resolve_profile :: "frontend_resolver \<Rightarrow> resolution_context \<Rightarrow> err + frontend_resolution" where
  "resolve_profile rs c =
     bindE (validate_requested rs (rc_requested c)) (\<lambda>requested.
     case rs_host rs of
       None \<Rightarrow> resolve_without_host rs c requested
     | Some host \<Rightarrow>
         (case host c of
            HostNone \<Rightarrow> default_or_raise rs c
          | HostUnresolved \<Rightarrow> default_or_raise rs c
          | HostKey k \<Rightarrow> from_host rs c k None
          | HostResolution k audience \<Rightarrow> from_host rs c k audience
          | HostResolutionError reason message ds \<Rightarrow> Inl (Resolution reason message ds)
          | HostUnknownProfile \<Rightarrow> Inl (Builtin ValueError)
          | HostFailed cls \<Rightarrow> Inl (Resolution ''frontend_resolver_failed'' ''Frontend resolver raised; failing closed''
               [(''flow'', PStr (flow_value (rc_flow c))), (''error_type'', PStr cls)])))"

text \<open>The two resolvers the library offers to a host.\<close>

definition given_text :: "string option \<Rightarrow> string option" where
  "given_text x = (case x of None \<Rightarrow> None | Some s \<Rightarrow> if s = [] then None else Some s)"

definition requested_or_none :: "resolution_context \<Rightarrow> bool \<Rightarrow> string option" where
  "requested_or_none c honor = (if honor then given_text (rc_requested c) else None)"

definition identity_or_requested ::
  "(string \<Rightarrow> string) \<Rightarrow> resolution_context \<Rightarrow> string option \<Rightarrow> bool \<Rightarrow> string option \<Rightarrow> host_outcome" where
  "identity_or_requested repr c identity honor on_unresolved =
     (let requested = requested_or_none c honor;
          answer = (\<lambda>x. case x of None \<Rightarrow> HostNone | Some k \<Rightarrow> HostKey k) in
      case identity of
        Some k \<Rightarrow>
          (case requested of
             Some r \<Rightarrow> if r \<noteq> k
               then HostResolutionError ''frontend_profile_mismatch''
                      (''Requested profile '' @ repr r @ '' contradicts identity-derived profile '' @ repr k)
                      [(''flow'', PStr (flow_value (rc_flow c))), (''requested'', PStr r), (''identity_profile'', PStr k)]
               else HostKey k
           | None \<Rightarrow> HostKey k)
      | None \<Rightarrow> (case requested of Some r \<Rightarrow> HostKey r | None \<Rightarrow> answer on_unresolved))"

definition route_by_root_slug ::
  "(string \<Rightarrow> string) \<Rightarrow> (string \<times> string) list \<Rightarrow> bool \<Rightarrow> string option \<Rightarrow> resolution_context \<Rightarrow> host_outcome" where
  "route_by_root_slug repr mapping honor on_unresolved c =
     identity_or_requested repr c (Option.bind (given_text (rc_root_slug c)) (map_of mapping)) honor on_unresolved"

definition route_by_root_type ::
  "(string \<Rightarrow> string) \<Rightarrow> (string \<times> string) list \<Rightarrow> (string \<times> string) list \<Rightarrow> bool \<Rightarrow> string option
     \<Rightarrow> resolution_context \<Rightarrow> host_outcome" where
  "route_by_root_type repr mapping overrides honor on_unresolved c =
     (let override = Option.bind (given_text (rc_root_slug c)) (map_of overrides) in
      identity_or_requested repr c
        (if override \<noteq> None then override else Option.bind (given_text (rc_root_type c)) (map_of mapping))
        honor on_unresolved)"

section \<open>Dispatch of a challenge and the sign-in gate\<close>

text \<open>\<open>_root_context\<close>; within a request its values are remembered.\<close>

definition root_context :: "db \<Rightarrow> user_row \<Rightarrow> uuid option \<times> string option \<times> string option" where
  "root_context d u =
     (case u_root_entity u of
        None \<Rightarrow> (None, None, None)
      | Some r \<Rightarrow> (let e = row_by e_id r (tb_entities d) in (Some r, map_option e_slug e, map_option e_type e)))"

definition context_for :: "db \<Rightarrow> user_row \<Rightarrow> frontend_flow \<Rightarrow> string option \<Rightarrow> resolution_context" where
  "context_for d u f requested =
     (let (r, slug, typ) = root_context d u in
      \<lparr>rc_flow = f, rc_user = Some (u_id u), rc_email = Some (u_email u), rc_root = r, rc_root_slug = slug,
       rc_root_type = typ, rc_requested = requested\<rparr>)"

record challenge_dispatch =
  cd_deliver :: bool
  cd_profile :: "string option"
  cd_next :: "string option"
  cd_reason :: "string option"

definition refuse_dispatch :: "string option \<Rightarrow> string \<Rightarrow> challenge_dispatch" where
  "refuse_dispatch profile reason = \<lparr>cd_deliver = False, cd_profile = profile, cd_next = None, cd_reason = Some reason\<rparr>"

definition profile_dispatch ::
  "(string \<Rightarrow> bool) \<Rightarrow> frontend_profile \<Rightarrow> frontend_flow \<Rightarrow> string option \<Rightarrow> err + challenge_dispatch" where
  "profile_dispatch bracket_ok p f redirect =
     (if f = MagicLinkFlow \<and> fr_magic_link (fp_routes p) = None
      then Inr (refuse_dispatch (Some (fp_key p)) ''frontend_flow_unsupported'')
      else let provided = (if blank redirect then None else map_option py_strip redirect) in
        (case normalize_return_target bracket_ok p provided of
           Inl e \<Rightarrow> Inl (Builtin e)
         | Inr canonical \<Rightarrow>
             Inr (if provided \<noteq> None \<and> canonical = None
                  then refuse_dispatch (Some (fp_key p)) ''invalid_return_target''
                  else \<lparr>cd_deliver = True, cd_profile = Some (fp_key p), cd_next = canonical, cd_reason = None\<rparr>)))"

definition prepare_challenge_dispatch ::
  "(string \<Rightarrow> bool) \<Rightarrow> frontend_resolver option \<Rightarrow> db \<Rightarrow> user_row \<Rightarrow> frontend_flow \<Rightarrow> string option \<Rightarrow> string option
     \<Rightarrow> err + challenge_dispatch" where
  "prepare_challenge_dispatch bracket_ok rs d u f requested redirect =
     (case rs of
        None \<Rightarrow> Inr \<lparr>cd_deliver = True, cd_profile = None, cd_next = None, cd_reason = None\<rparr>
      | Some x \<Rightarrow>
          (case resolve_profile x (context_for d u f (given_text requested)) of
             Inl (Resolution reason _ _) \<Rightarrow> Inr (refuse_dispatch None reason)
           | Inl e \<Rightarrow> Inl e
           | Inr r \<Rightarrow>
               (case get_profile (rs_registry x) (re_profile r) of
                  Inl _ \<Rightarrow> Inl (Builtin ValueError)
                | Inr p \<Rightarrow> profile_dispatch bracket_ok p f redirect)))"

definition wrong_application :: "string \<Rightarrow> details \<Rightarrow> err" where
  "wrong_application message ds = Resolution ''wrong_application'' message ds"

text \<open>The audience of a resolution: the explicit one, else the profile.\<close>

definition resolved_audience :: "frontend_resolution \<Rightarrow> string" where
  "resolved_audience r =
     (case re_audience r of Some a \<Rightarrow> if a \<noteq> [] then a else re_profile r | None \<Rightarrow> re_profile r)"

definition audience_gate ::
  "frontend_resolver \<Rightarrow> db \<Rightarrow> user_row \<Rightarrow> string \<Rightarrow> frontend_flow \<Rightarrow> string list \<Rightarrow> err + unit" where
  "audience_gate x d u app f audiences =
     (case resolve_profile x (context_for d u f (Some app)) of
        Inl (Resolution reason message ds) \<Rightarrow>
          Inl (if reason = ''wrong_application'' then Resolution reason message ds
               else wrong_application (''Account is not eligible to sign in to application '' @ rs_repr x app)
                      [(''app'', PStr app), (''reason'', PStr reason)])
      | Inl e \<Rightarrow> Inl e
      | Inr r \<Rightarrow>
          requireE (resolved_audience r \<in> set audiences)
            (wrong_application (''Account audience '' @ rs_repr x (resolved_audience r)
                 @ '' is not accepted by application '' @ rs_repr x app)
               [(''app'', PStr app), (''audience'', PStr (resolved_audience r))]))"

definition enforce_sign_in_gate ::
  "frontend_resolver option \<Rightarrow> db \<Rightarrow> user_row \<Rightarrow> string option \<Rightarrow> frontend_flow \<Rightarrow> err + unit" where
  "enforce_sign_in_gate rs d u app f =
     (case (rs, given_text app) of
        (Some x, Some a) \<Rightarrow>
          (case map_of (rg_profiles (rs_registry x)) a of
             None \<Rightarrow> Inl (wrong_application (''Unknown application '' @ rs_repr x a) [(''app'', PStr a)])
           | Some p \<Rightarrow> if fp_audiences p = [] then Inr () else audience_gate x d u a f (fp_audiences p))
      | _ \<Rightarrow> Inr ())"

text \<open>\<open>require_app\<close>: the session's authorized party must be one of those named.\<close>

definition require_app :: "string list \<Rightarrow> string option \<Rightarrow> bool" where
  "require_app allowed azp \<longleftrightarrow> (\<exists>a \<in> set_option azp. a \<in> set allowed)"

section \<open>Values carried through a request\<close>

text \<open>The carriers in the request-scoped memo; consuming one clears it.\<close>

record carriers =
  cr_profile :: "string option"
  cr_next :: "string option"
  cr_verified :: "(string option \<times> string option) option"

definition stash_send_profile :: "string option \<Rightarrow> carriers \<Rightarrow> carriers" where
  "stash_send_profile k c = c\<lparr>cr_profile := k\<rparr>"

definition consume_send_profile :: "carriers \<Rightarrow> string option \<times> carriers" where
  "consume_send_profile c = (cr_profile c, c\<lparr>cr_profile := None\<rparr>)"

definition stash_send_next_url :: "string option \<Rightarrow> carriers \<Rightarrow> carriers" where
  "stash_send_next_url n c = c\<lparr>cr_next := n\<rparr>"

definition consume_send_next_url :: "carriers \<Rightarrow> string option \<times> carriers" where
  "consume_send_next_url c = (cr_next c, c\<lparr>cr_next := None\<rparr>)"

definition stash_verified_challenge :: "string option \<Rightarrow> string option \<Rightarrow> carriers \<Rightarrow> carriers" where
  "stash_verified_challenge p n c = c\<lparr>cr_verified := Some (p, n)\<rparr>"

definition consume_verified_challenge :: "carriers \<Rightarrow> (string option \<times> string option) option \<times> carriers" where
  "consume_verified_challenge c = (cr_verified c, c\<lparr>cr_verified := None\<rparr>)"

section \<open>Route contracts\<close>

definition template_path :: "string \<Rightarrow> string" where
  "template_path t = (let p = fst (py_partition (CHR ''?'') t) in if p = [] then ''/'' else p)"

definition declared_route_paths :: "frontend_routes \<Rightarrow> (string \<times> string) list" where
  "declared_route_paths r = List.map_filter (\<lambda>(n, t). map_option (\<lambda>x. (n, template_path x)) t)
     [(''login'', fr_login r), (''password_reset'', fr_password_reset r), (''accept_invite'', fr_accept_invite r),
      (''magic_link'', fr_magic_link r), (''access_code'', fr_access_code r), (''oauth_success'', fr_oauth_success r),
      (''oauth_error'', fr_oauth_error r), (''oauth_associate_success'', fr_oauth_associate r)]"

definition missing_frontend_routes :: "frontend_routes \<Rightarrow> string list \<Rightarrow> string list \<Rightarrow> (string \<times> string) list" where
  "missing_frontend_routes r available ignore =
     filter (\<lambda>(n, p). n \<notin> set ignore \<and> p \<notin> set (map template_path available)) (declared_route_paths r)"

definition route_segment :: "string \<Rightarrow> string" where
  "route_segment s = (case s of [] \<Rightarrow> [] | c # t \<Rightarrow> if c = CHR ''$'' then ''{'' @ t @ ''}'' else s)"

text \<open>One file of a TanStack routes directory, by its stem.\<close>

definition tanstack_route :: "string \<Rightarrow> string option" where
  "tanstack_route stem =
     (if py_startswith stem ''__'' then None
      else let segments = map route_segment (filter (\<lambda>s. s \<noteq> [] \<and> s \<noteq> ''index'') (split_on (CHR ''.'') stem)) in
        Some (if segments \<noteq> [] then ''/'' @ join_with ''/'' segments else ''/''))"

end
