(* ===== verification/FrontendProps.thy ===== *)
theory FrontendProps
  imports Frontend
begin

text \<open>
  What the frontend registry promises: a profile that a resolution names is registered, and the address a
  challenge carries lies on one of that profile's origins.
\<close>

section \<open>Plain origins\<close>

definition host_char :: "char \<Rightarrow> bool" where
  "host_char c \<longleftrightarrow> is_ascii_lower c \<or> is_digit c \<or> c \<in> {CHR ''.'', CHR ''-''}"

text \<open>An origin as a browser writes it: a scheme, a host and, where it is not the usual one, a port.\<close>

definition netloc_of :: "string \<Rightarrow> nat option \<Rightarrow> string" where
  "netloc_of host port = host @ (case port of None \<Rightarrow> [] | Some n \<Rightarrow> CHR '':'' # show_nat n)"

definition origin_of :: "string \<Rightarrow> string \<Rightarrow> nat option \<Rightarrow> string" where
  "origin_of scheme host port = scheme @ ''://'' @ netloc_of host port"

definition plain_origin :: "string \<Rightarrow> bool" where
  "plain_origin a \<longleftrightarrow> (\<exists>scheme host port. a = origin_of scheme host port \<and> web_scheme scheme
     \<and> host \<noteq> [] \<and> list_all host_char host \<and> (\<forall>n \<in> set_option port. n \<le> 65535))"

section \<open>Letters\<close>

lemma lower_char_below: "code_of (lower_char c) < 97 \<Longrightarrow> lower_char c = c"
  by (auto simp: lower_char_def in_range_def split: if_splits)

lemma mem_py_lower: "d \<in> set s \<Longrightarrow> lower_char d = d \<Longrightarrow> d \<in> set (py_lower s)"
  by (force simp: py_lower_def image_iff)

lemma lower_marks [simp]:
  "lower_char (CHR ''@'') = CHR ''@''" "lower_char (CHR ''['') = CHR ''[''"
  "lower_char (CHR ''%'') = CHR ''%''" "lower_char (CHR '':'') = CHR '':''"
  by (simp_all add: lower_char_def in_range_def code_of_def)

lemma py_lower_append [simp]: "py_lower (a @ b) = py_lower a @ py_lower b"
  and py_lower_Cons [simp]: "py_lower (c # s) = lower_char c # py_lower s"
  by (simp_all add: py_lower_def)

lemma py_lower_digits: "list_all is_digit (py_lower s) \<Longrightarrow> py_lower s = s"
proof (induction s)
  case (Cons c s)
  then have "code_of (lower_char c) < 97" by (simp add: is_digit_def in_range_def)
  then have "lower_char c = c" by (rule lower_char_below)
  with Cons show ?case by simp
qed simp

lemma is_digit_lower [simp]: "is_digit c \<Longrightarrow> lower_char c = c"
  by (auto simp: is_digit_def lower_char_def in_range_def)

lemma show_nat_lower [simp]: "py_lower (show_nat n) = show_nat n"
  using show_nat_digits [of n] by (simp add: py_lower_def map_idI)

lemma length_show_nat: "n < 10 ^ k \<Longrightarrow> 0 < k \<Longrightarrow> length (show_nat n) \<le> k"
proof (induction k arbitrary: n)
  case (Suc k)
  show ?case
  proof (cases "n < 10")
    case True then show ?thesis by (simp add: show_nat.simps)
  next
    case False
    with Suc.prems have "0 < k" by (cases k) simp_all
    moreover from Suc.prems have "n div 10 < 10 ^ k" by (simp add: div_less_iff_less_mult mult.commute)
    ultimately show ?thesis using Suc.IH [of "n div 10"] False by (simp add: show_nat.simps [of n])
  qed
qed simp

lemma port_digits: "n \<le> 65535 \<Longrightarrow> length (show_nat n) \<le> int_max_str_digits"
  using length_show_nat [of n 5] by (simp add: int_max_str_digits_def)

section \<open>The network location of a plain origin\<close>

lemma host_char_code: "host_char c \<Longrightarrow> c \<notin> {CHR ''@'', CHR ''['', CHR ''%'', CHR '':''}"
  by (auto simp: host_char_def is_ascii_lower_def is_digit_def in_range_def code_of_def)

lemma netloc_of_marks:
  assumes "list_all host_char host"
  shows "CHR ''@'' \<notin> set (netloc_of host port)" "CHR ''['' \<notin> set (netloc_of host port)"
    "CHR ''%'' \<notin> set (netloc_of host port)" "CHR '':'' \<notin> set host"
proof -
  have h: "c \<notin> set host" if "c \<in> {CHR ''@'', CHR ''['', CHR ''%'', CHR '':''}" for c
    using assms host_char_code [of c] that by (auto simp: list_all_iff)
  have p: "c \<notin> set (show_nat n)" if "c \<in> {CHR ''@'', CHR ''['', CHR ''%''}" for c n
    using show_nat_digits [of n] that by (auto simp: is_digit_def in_range_def code_of_def)
  show "CHR ''@'' \<notin> set (netloc_of host port)" "CHR ''['' \<notin> set (netloc_of host port)"
    "CHR ''%'' \<notin> set (netloc_of host port)" "CHR '':'' \<notin> set host"
    using h p by (auto simp: netloc_of_def split: option.splits)
qed

text \<open>A network location that is a plain one in lower case is kept as it is.\<close>

lemma kept_netloc_plain:
  assumes low: "py_lower (su_netloc u) = netloc_of host port"
    and host: "host \<noteq> []" "list_all host_char host" and port: "\<forall>n \<in> set_option port. n \<le> 65535"
  shows "\<exists>k. kept_netloc u = Inr k \<and> py_lower k = netloc_of host port"
proof -
  let ?n = "su_netloc u"
  have marks: "CHR ''@'' \<notin> set ?n" "CHR ''['' \<notin> set ?n" "CHR ''%'' \<notin> set ?n"
    using netloc_of_marks(1-3) [OF host(2), of port] mem_py_lower [of _ ?n] low by auto
  obtain h p where hp: "?n = h @ p" "py_lower h = host"
      "py_lower p = (case port of None \<Rightarrow> [] | Some n \<Rightarrow> CHR '':'' # show_nat n)"
    using low unfolding netloc_of_def py_lower_def by (auto simp: map_eq_append_conv)
  have colon: "CHR '':'' \<notin> set h"
    using netloc_of_marks(4) [OF host(2)] mem_py_lower [of "CHR '':''" h] hp(2) by auto
  from hp(2) host(1) have "h \<noteq> []" by auto
  have name: "py_lower h = host" "CHR ''%'' \<notin> set h" using hp marks by auto
  show ?thesis
  proof (cases port)
    case None
    with hp have n: "?n = h" by simp
    then have "su_hostinfo u = (h, None)"
      using marks colon by (simp add: su_hostinfo_def py_rpartition_def py_partition_def)
    with name \<open>h \<noteq> []\<close> have "kept_netloc u = Inr host"
      by (simp add: kept_netloc_def su_hostname_def su_port_def py_partition_def)
    moreover have "py_lower host = host" using hp(2) by (metis py_lower_idem)
    ultimately show ?thesis using None by (auto simp: netloc_of_def)
  next
    case (Some m)
    with hp(3) obtain c d where p: "p = c # d" "lower_char c = CHR '':''" "py_lower d = show_nat m"
      by (auto simp: py_lower_def)
    have "c = CHR '':''" using p(2) lower_char_below [of c] by (simp add: code_of_def)
    moreover have d: "d = show_nat m"
      using p(3) py_lower_digits [of d] show_nat_digits [of m] by (simp add: list_all_iff)
    ultimately have n: "?n = h @ CHR '':'' # show_nat m" using hp(1) p(1) by simp
    then have info: "su_hostinfo u = (h, Some (show_nat m))"
      using marks colon by (simp add: su_hostinfo_def py_rpartition_def py_partition_def)
    have "m \<le> 65535" using port Some by simp
    then have "su_port u = Inr (Some m)"
      using show_nat_digits [of m] by (simp add: su_port_def info port_digits list_all_iff)
    with info name \<open>h \<noteq> []\<close> have "kept_netloc u = Inr (host @ CHR '':'' # show_nat m)"
      by (simp add: kept_netloc_def su_hostname_def py_partition_def)
    moreover have "py_lower host = host" using hp(2) by (metis py_lower_idem)
    ultimately show ?thesis using Some by (auto simp: netloc_of_def)
  qed
qed

section \<open>Targets\<close>

lemma urlunsplit_plain: "urlunsplit s n [] [] [] = s @ ''://'' @ n"
  by (simp add: urlunsplit_def)

lemma web_origin_inject:
  "web_scheme s \<Longrightarrow> web_scheme t \<Longrightarrow> s @ ''://'' @ m = t @ ''://'' @ n \<longleftrightarrow> s = t \<and> m = n"
  by (auto simp: web_scheme_def)

text \<open>An address below an origin: the origin, a slash and the rest.\<close>

definition below_origin :: "string set \<Rightarrow> string \<Rightarrow> bool" where
  "below_origin origins url \<longleftrightarrow> (\<exists>a \<in> origins. \<exists>rest. url = a @ CHR ''/'' # rest)"

lemma below_originI: "a \<in> origins \<Longrightarrow> py_startswith rest ''/'' \<Longrightarrow> below_origin origins (a @ rest)"
  by (cases rest) (auto simp: below_origin_def py_startswith_def)

lemma absolute_target_below:
  assumes plain: "\<forall>a \<in> origins. plain_origin a"
    and run: "absolute_target bracket_ok origins candidate = Inr (Some url)"
  shows "below_origin origins url"
proof -
  from run obtain u where u: "web_scheme (su_scheme u)"
      "urlunsplit (su_scheme u) (py_lower (su_netloc u)) [] [] [] \<in> origins"
    and tail: "bindE (kept_netloc u) (\<lambda>netloc. Inr (Some (urlunsplit (su_scheme u) (py_lower netloc)
        (if su_path u = [] then ''/'' else su_path u) (su_query u) (su_fragment u)))) = Inr (Some url)"
    unfolding absolute_target_def by (auto split: option.splits if_splits)
  from plain u(2) obtain s h q where made: "urlunsplit (su_scheme u) (py_lower (su_netloc u)) [] [] [] = origin_of s h q"
    and s: "web_scheme s" and h: "h \<noteq> []" "list_all host_char h" and q: "\<forall>n \<in> set_option q. n \<le> 65535"
    unfolding plain_origin_def by metis
  then have same: "su_scheme u = s" "py_lower (su_netloc u) = netloc_of h q"
    using made web_origin_inject [OF u(1) s] unfolding urlunsplit_plain origin_of_def by blast+
  obtain k where k: "kept_netloc u = Inr k" "py_lower k = netloc_of h q"
    using kept_netloc_plain [OF same(2) h q] by blast
  let ?path = "if su_path u = [] then ''/'' else su_path u"
  have "\<exists>rest. url = (s @ ''://'' @ netloc_of h q) @ CHR ''/'' # rest"
    using tail k same by (cases ?path) (auto simp: urlunsplit_def Let_def split: if_splits)
  moreover have "s @ ''://'' @ netloc_of h q \<in> origins" using u(2) made by (simp add: origin_of_def)
  ultimately show ?thesis unfolding below_origin_def by blast
qed

lemma return_target_below:
  assumes "\<forall>a \<in> allowed_origins p. plain_origin a" and "fp_origins p \<noteq> []" and "check_policy (fp_policy p) = Inr ()"
    and "normalize_return_target bracket_ok p target = Inr (Some url)"
  shows "below_origin (allowed_origins p) url"
proof -
  have prim: "primary_origin p \<in> allowed_origins p"
    using assms(2) by (simp add: primary_origin_def allowed_origins_def)
  have def: "py_startswith (rp_default (fp_policy p)) ''/''"
    using assms(3) by (auto simp: check_policy_def split: if_splits)
  let ?c = "py_strip (case target of None \<Rightarrow> [] | Some t \<Rightarrow> t)"
  show ?thesis
  proof (cases "blank target")
    case True
    then have "url = primary_origin p @ rp_default (fp_policy p)" using assms(4) by (simp add: normalize_return_target_def)
    with prim def show ?thesis by (simp add: below_originI)
  next
    case False
    then have run: "(if py_startswith ?c ''/'' \<and> \<not> py_startswith ?c ''//''
        then Inr (if rp_relative (fp_policy p) then Some (primary_origin p @ ?c) else None)
        else absolute_target bracket_ok (allowed_origins p) ?c) = Inr (Some url)"
      using assms(4) by (simp only: normalize_return_target_def if_False Let_def)
    show ?thesis
    proof (cases "py_startswith ?c ''/'' \<and> \<not> py_startswith ?c ''//''")
      case True
      with run have "url = primary_origin p @ ?c" by (cases "rp_relative (fp_policy p)") simp_all
      with True prim show ?thesis by (simp add: below_originI)
    next
      case False
      with run show ?thesis by (simp only: if_False absolute_target_below [OF assms(1)])
    qed
  qed
qed

section \<open>The registry\<close>

lemma normalize_origins_grows: "normalize_origins b ld xs seen = Inr ys \<Longrightarrow> \<exists>zs. ys = seen @ zs \<and> length zs = length xs"
proof (induction xs arbitrary: seen)
  case (Cons x xs)
  then obtain n where "normalize_origins b ld xs (seen @ [n]) = Inr ys"
    by (auto simp: bindE_def split: sum.splits if_splits)
  with Cons.IH [of "seen @ [n]"] show ?case by auto
qed simp

text \<open>Every registered profile is one of those given, with its origins normalised, under its own key.\<close>

definition made_from :: "frontend_profile list \<Rightarrow> string \<times> frontend_profile \<Rightarrow> bool" where
  "made_from ps kp \<longleftrightarrow> (\<exists>p \<in> set ps. \<exists>xs. length xs = length (fp_origins p) \<and> kp = (fp_key p, p\<lparr>fp_origins := xs\<rparr>))"

lemma add_profiles_made:
  "add_profiles b ld ps acc = Inr out \<Longrightarrow> list_all (made_from qs) acc \<Longrightarrow> set ps \<subseteq> set qs \<Longrightarrow> list_all (made_from qs) out"
proof (induction ps arbitrary: acc)
  case (Cons p ps)
  then obtain xs where xs: "normalize_origins b ld (fp_origins p) [] = Inr xs"
    and rest: "add_profiles b ld ps (acc @ [(fp_key p, p\<lparr>fp_origins := xs\<rparr>)]) = Inr out"
    by (auto simp: bindE_def split: sum.splits if_splits)
  have "length xs = length (fp_origins p)" using normalize_origins_grows [OF xs] by auto
  then have "made_from qs (fp_key p, p\<lparr>fp_origins := xs\<rparr>)" using Cons.prems(3) by (auto simp: made_from_def)
  then show ?case using Cons.IH [OF rest] Cons.prems by simp
qed simp

lemma make_registry_profiles:
  assumes "make_registry b ps dk ld = Inr rg"
  shows "list_all (made_from ps) (rg_profiles rg)" and "rg_profiles rg \<noteq> []"
proof -
  obtain out where "add_profiles b ld ps [] = Inr out" "rg_profiles rg = out" "out \<noteq> []"
    using assms unfolding make_registry_def
    by (auto simp: bindE_def split: sum.splits if_splits option.splits)
  then show "list_all (made_from ps) (rg_profiles rg)" and "rg_profiles rg \<noteq> []"
    using add_profiles_made [of b ld ps "[]" out ps] by auto
qed

lemma resolve_profile_registered:
  assumes "list_all (made_from ps) (rg_profiles rg)" and "make_resolver rg host dk repr = Inr rs"
    and "resolve_profile rs c = Inr r"
  shows "registered rg (re_profile r)"
proof -
  have rs: "rs_registry rs = rg" "\<forall>k \<in> set_option (rs_default rs). registered rg k"
    using assms(2) by (auto simp: make_resolver_def Let_def split: if_splits)
  have single: "registered rg (fp_key p)" if "single_profile rg = Some p" for p
  proof -
    from that obtain k where "rg_profiles rg = [(k, p)]"
      by (auto simp: single_profile_def split: list.splits)
    with assms(1) show ?thesis by (auto simp: registered_def made_from_def)
  qed
  have def: "registered rg (re_profile x)" if "default_or_raise rs c = Inr x" for x
    using that rs by (auto simp: default_or_raise_def split: option.splits)
  have noh: "registered rg (re_profile x)"
    if "resolve_without_host rs c q = Inr x" "\<forall>k \<in> set_option q. registered rg k" for x q
    using that rs single def by (auto simp: resolve_without_host_def split: option.splits)
  have req: "\<forall>k \<in> set_option q. registered rg k" if "validate_requested rs (rc_requested c) = Inr q" for q
    using that rs by (auto simp: validate_requested_def split: option.splits if_splits)
  have fh: "registered rg (re_profile x)" if "from_host rs c k a = Inr x" for k a x
    using that rs by (auto simp: from_host_def split: if_splits)
  show ?thesis
    using assms(3) noh req def fh unfolding resolve_profile_def
    by (auto simp: bindE_def split: sum.splits option.splits host_outcome.splits)
qed

section \<open>Property\<close>

lemma delivered_dispatch:
  assumes "prepare_challenge_dispatch bracket_ok (Some rs) d u f requested redirect = Inr c" and "cd_deliver c"
  obtains r p provided where "resolve_profile rs (context_for d u f (given_text requested)) = Inr r"
    "get_profile (rs_registry rs) (re_profile r) = Inr p" "cd_profile c = Some (fp_key p)"
    "normalize_return_target bracket_ok p provided = Inr (cd_next c)" "cd_next c \<noteq> None"
proof -
  obtain r p where r: "resolve_profile rs (context_for d u f (given_text requested)) = Inr r"
    and p: "get_profile (rs_registry rs) (re_profile r) = Inr p"
    and run: "profile_dispatch bracket_ok p f redirect = Inr c"
    using assms unfolding prepare_challenge_dispatch_def
    by (auto simp: refuse_dispatch_def split: sum.splits err.splits)
  let ?provided = "if blank redirect then None else map_option py_strip redirect"
  have out: "cd_profile c = Some (fp_key p)" "normalize_return_target bracket_ok p ?provided = Inr (cd_next c)"
      "?provided \<noteq> None \<longrightarrow> cd_next c \<noteq> None"
    using run assms(2) unfolding profile_dispatch_def Let_def
    by (auto simp: refuse_dispatch_def split: sum.splits if_splits)
  moreover have "cd_next c \<noteq> None" if "?provided = None"
  proof -
    have "normalize_return_target bracket_ok p None = Inr (cd_next c)" using out(2) that by simp
    then have "Some (primary_origin p @ rp_default (fp_policy p)) = cd_next c"
      by (simp add: normalize_return_target_def blank_def)
    then show ?thesis by (metis option.distinct(1))
  qed
  ultimately show thesis using r p that by blast
qed

text \<open>
  C18. Where a challenge may send its user. A challenge that is delivered names a registered profile, and the
  address it carries is below one of the origins of that profile, whatever return target the request asked
  for and whatever the host's resolver answers. Origins are plain: a scheme, a host in lower case and a port
  without leading zeros.
\<close>

theorem delivered_challenge_stays_on_registered_origin:
  assumes "make_registry bracket_ok profiles default_key local_dev = Inr rg"
    and "make_resolver rg host chosen repr = Inr rs"
    and "\<forall>p \<in> set profiles. check_profile p = Inr () \<and> check_policy (fp_policy p) = Inr ()"
    and "\<forall>(k, p) \<in> set (rg_profiles rg). \<forall>a \<in> allowed_origins p. plain_origin a"
    and "prepare_challenge_dispatch bracket_ok (Some rs) d u f requested redirect = Inr c"
    and "cd_deliver c"
  shows "\<exists>k p url. cd_profile c = Some k \<and> get_profile rg k = Inr p
     \<and> cd_next c = Some url \<and> below_origin (allowed_origins p) url"
proof -
  note made = make_registry_profiles(1) [OF assms(1)]
  have same: "rs_registry rs = rg" using assms(2) by (auto simp: make_resolver_def Let_def split: if_splits)
  from assms(5,6) show ?thesis
  proof (rule delivered_dispatch)
    fix r p provided
    assume "get_profile (rs_registry rs) (re_profile r) = Inr p" and key: "cd_profile c = Some (fp_key p)"
      and out: "normalize_return_target bracket_ok p provided = Inr (cd_next c)" "cd_next c \<noteq> None"
    then have r: "get_profile rg (re_profile r) = Inr p" unfolding same by simp
    then have mem: "(re_profile r, p) \<in> set (rg_profiles rg)"
      by (auto simp: get_profile_def dest: map_of_SomeD split: option.splits)
    with made have "made_from profiles (re_profile r, p)" unfolding list_all_iff by blast
    then obtain q xs where q: "q \<in> set profiles" "re_profile r = fp_key q" "p = q\<lparr>fp_origins := xs\<rparr>"
        "length xs = length (fp_origins q)"
      unfolding made_from_def by blast
    have "check_profile q = Inr ()" and policy: "check_policy (fp_policy q) = Inr ()" using assms(3) q(1) by blast+
    then have "fp_origins q \<noteq> []" by (auto simp: check_profile_def bindE_def split: sum.splits if_splits)
    with policy have "fp_origins p \<noteq> []" "check_policy (fp_policy p) = Inr ()" using q(3,4) by auto
    moreover have "\<forall>a \<in> allowed_origins p. plain_origin a" using assms(4) mem by blast
    moreover obtain url where url: "cd_next c = Some url" using out(2) by blast
    ultimately have "below_origin (allowed_origins p) url"
      using return_target_below [of p bracket_ok provided] out(1) by simp
    moreover have "get_profile rg (fp_key p) = Inr p" using q r by simp
    ultimately show ?thesis using key url by blast
  qed
qed

definition shop_profile :: frontend_profile where
  "shop_profile = \<lparr>fp_key = ''shop'', fp_app_name = ''Shop'', fp_origins = [''https://Shop.example.com/''],
     fp_routes = no_routes\<lparr>fr_login := Some ''/login''\<rparr>, fp_policy = default_policy, fp_audiences = [], fp_support = None\<rparr>"

definition shop_registry :: frontend_registry where
  "shop_registry = \<lparr>rg_profiles = [(''shop'', shop_profile\<lparr>fp_origins := [''https://shop.example.com'']\<rparr>)],
     rg_default = None, rg_local_dev = False\<rparr>"

definition shop_resolver :: frontend_resolver where
  "shop_resolver = \<lparr>rs_registry = shop_registry, rs_host = None, rs_default = None, rs_repr = squote\<rparr>"

lemma shop_origin_plain: "plain_origin ''https://shop.example.com''"
  unfolding plain_origin_def
  by (rule exI [of _ "''https''"], rule exI [of _ "''shop.example.com''"], rule exI [of _ None])
    (simp add: origin_of_def netloc_of_def web_scheme_def host_char_def is_ascii_lower_def is_digit_def in_range_def code_of_def)

lemma delivered_challenge_stays_on_registered_origin_witness:
  "\<exists>k p url. get_profile shop_registry k = Inr p \<and> url = ''https://shop.example.com/cart'' \<and> below_origin (allowed_origins p) url"
proof -
  let ?c = "\<lparr>cd_deliver = True, cd_profile = Some ''shop'', cd_next = Some ''https://shop.example.com/cart'', cd_reason = None\<rparr>"
  have a: "make_registry (\<lambda>_. False) [shop_profile] None False = Inr shop_registry" by code_simp
  have b: "make_resolver shop_registry None None squote = Inr shop_resolver" by (simp add: make_resolver_def shop_registry_def shop_resolver_def)
  have c: "\<forall>p \<in> set [shop_profile]. check_profile p = Inr () \<and> check_policy (fp_policy p) = Inr ()" by code_simp
  have d: "\<forall>(k, p) \<in> set (rg_profiles shop_registry). \<forall>a \<in> allowed_origins p. plain_origin a"
    using shop_origin_plain by (simp add: shop_registry_def shop_profile_def allowed_origins_def default_policy_def)
  have e: "prepare_challenge_dispatch (\<lambda>_. False) (Some shop_resolver) empty_db (new_user ''u'' ''u@x.org'') AccessCodeFlow None
      (Some '' https://SHOP.example.com/cart '') = Inr ?c" by code_simp
  show ?thesis
    using delivered_challenge_stays_on_registered_origin [OF a b c d e] by force
qed

end
