(* ===== verification/Tokens.thy ===== *)
theory Tokens
  imports Session
begin

text \<open>
  Signed tokens (\<open>outlabs_auth/utils/jwt.py\<close>), the security generation of an account
  (\<open>core/session_security.py\<close>) and service tokens (\<open>services/service_token.py\<close>). PyJWT is a parameter: a
  token is a text made of claims and a key, and decoding answers the claims, an expired signature or any
  other failure with its text.
\<close>

section \<open>The token library\<close>

type_synonym claims = "(string \<times> pyval) list"

datatype jwt_result = Decoded claims | ExpiredSignature | BadToken string

text \<open>
  \<open>jl_decode key audience issuer required now token\<close>. \<open>jl_millis\<close> is \<open>int(timestamp() * 1000)\<close>, in floats,
  and \<open>jl_at_millis\<close> and \<open>jl_at\<close> read an instant back; \<open>jl_show\<close> is \<open>str\<close>; \<open>jl_hmac\<close> is a keyed digest.
\<close>

record jwt_lib =
  jl_encode :: "string \<Rightarrow> claims \<Rightarrow> string"
  jl_decode :: "string \<Rightarrow> string option \<Rightarrow> string option \<Rightarrow> string list \<Rightarrow> datetime \<Rightarrow> string \<Rightarrow> jwt_result"
  jl_peek :: "string \<Rightarrow> string + claims"
  jl_millis :: "datetime \<Rightarrow> int"
  jl_at_millis :: "pyval \<Rightarrow> pyerr + datetime"
  jl_at :: "pyval \<Rightarrow> pyerr + datetime"
  jl_show :: "pyval \<Rightarrow> string"
  jl_hmac :: "string \<Rightarrow> string \<Rightarrow> string"

definition claim :: "claims \<Rightarrow> string \<Rightarrow> pyval" where
  "claim c k = (case map_of c k of None \<Rightarrow> PNone | Some v \<Rightarrow> v)"

text \<open>\<open>dict.update\<close>\<close>

definition update_claims :: "claims \<Rightarrow> claims \<Rightarrow> claims" where
  "update_claims c new = foldl (\<lambda>m (k, v). AList.update k v m) c new"

definition minute_usec :: int where
  "minute_usec = 60000000"

section \<open>Access and refresh tokens\<close>

text \<open>The claims every token gets: its expiry, three forms of its issue time, type, audience, identifier.\<close>

definition stamp :: "jwt_lib \<Rightarrow> datetime \<Rightarrow> datetime \<Rightarrow> string \<Rightarrow> string \<Rightarrow> string \<Rightarrow> claims" where
  "stamp jl now expire typ audience jti =
     [(''exp'', PDatetime (Aware expire)), (''iat'', PDatetime (Aware now)), (''iat_ms'', PInt (jl_millis jl now)),
      (''iat_us'', PInt (now div 1000000 * 1000000 + now mod 1000000)), (''type'', PStr typ),
      (''aud'', PStr audience), (''jti'', PStr jti)]"

text \<open>A lifetime of zero is false, and then the default applies.\<close>

definition lifetime_or :: "int \<Rightarrow> int option \<Rightarrow> int" where
  "lifetime_or usual delta = (case delta of None \<Rightarrow> usual | Some x \<Rightarrow> if x = 0 then usual else x)"

definition create_access_token ::
  "jwt_lib \<Rightarrow> string \<Rightarrow> datetime \<Rightarrow> string \<Rightarrow> claims \<Rightarrow> int option \<Rightarrow> string \<Rightarrow> string" where
  "create_access_token jl key now jti data delta audience =
     jl_encode jl key (update_claims data
       (stamp jl now (now + lifetime_or (15 * minute_usec) delta) ''access'' audience jti))"

definition create_refresh_token ::
  "jwt_lib \<Rightarrow> string \<Rightarrow> datetime \<Rightarrow> string \<Rightarrow> claims \<Rightarrow> int option \<Rightarrow> string \<Rightarrow> string" where
  "create_refresh_token jl key now jti data delta audience =
     jl_encode jl key (update_claims data
       (stamp jl now (now + lifetime_or (30 * day_usec) delta) ''refresh'' audience jti))"

record token_spec =
  ts_user :: uuid
  ts_access_minutes :: int
  ts_refresh_days :: int
  ts_claims :: claims
  ts_audience :: string
  ts_azp :: "string option"
  ts_session_expires :: "datetime option"

definition azp_claim :: "token_spec \<Rightarrow> claims" where
  "azp_claim t = (case ts_azp t of None \<Rightarrow> [] | Some a \<Rightarrow> if a = [] then [] else [(''azp'', PStr a)])"

definition access_claims :: "token_spec \<Rightarrow> claims" where
  "access_claims t = update_claims ((''sub'', PStr (ts_user t)) # azp_claim t) (ts_claims t)"

definition refresh_claims :: "token_spec \<Rightarrow> claims" where
  "refresh_claims t = (''sub'', PStr (ts_user t))
     # (case map_of (ts_claims t) ''security_epoch'' of None \<Rightarrow> [] | Some v \<Rightarrow> [(''security_epoch'', v)])
     @ azp_claim t
     @ (case ts_session_expires t of None \<Rightarrow> [] | Some x \<Rightarrow> [(''session_exp'', PInt (x div 1000000))])"

text \<open>The refresh token never outlives the session; a session that is over is a \<open>ValueError\<close>.\<close>

definition refresh_lifetime :: "datetime \<Rightarrow> token_spec \<Rightarrow> err + int" where
  "refresh_lifetime now t =
     (let rolling = ts_refresh_days t * day_usec in
      case ts_session_expires t of
        None \<Rightarrow> Inr rolling
      | Some x \<Rightarrow> if x - now \<le> 0 then Inl (Builtin ValueError) else Inr (min rolling (x - now)))"

definition create_token_pair ::
  "jwt_lib \<Rightarrow> string \<Rightarrow> datetime \<Rightarrow> string \<Rightarrow> string \<Rightarrow> token_spec \<Rightarrow> err + string \<times> string" where
  "create_token_pair jl key now access_jti refresh_jti t =
     bindE (refresh_lifetime now t) (\<lambda>delta.
       Inr (create_access_token jl key now access_jti (access_claims t) (Some (ts_access_minutes t * minute_usec)) (ts_audience t),
            create_refresh_token jl key now refresh_jti (refresh_claims t) (Some delta) (ts_audience t)))"

definition verify_token ::
  "jwt_lib \<Rightarrow> string \<Rightarrow> datetime \<Rightarrow> string \<Rightarrow> string option \<Rightarrow> string option \<Rightarrow> err + claims" where
  "verify_token jl key now token expected audience =
     (case jl_decode jl key (case audience of None \<Rightarrow> None | Some a \<Rightarrow> if a = [] then None else Some a) None [''exp''] now token of
        ExpiredSignature \<Rightarrow> Inl (Auth TokenExpiredError ''Token has expired'' [(''token_expired'', PBool True)])
      | BadToken e \<Rightarrow> Inl (Auth TokenInvalidError (''Invalid token: '' @ e) [(''jwt_error'', PStr e)])
      | Decoded c \<Rightarrow>
          (case expected of
             None \<Rightarrow> Inr c
           | Some typ \<Rightarrow>
               if typ \<noteq> [] \<and> claim c ''type'' \<noteq> PStr typ
               then Inl (Auth TokenInvalidError
                      (''Invalid token type: expected '' @ typ @ '', got '' @ jl_show jl (claim c ''type''))
                      [(''expected_type'', PStr typ), (''actual_type'', claim c ''type'')])
               else Inr c))"

definition decode_token_without_verification :: "jwt_lib \<Rightarrow> string \<Rightarrow> err + claims" where
  "decode_token_without_verification jl token =
     (case jl_peek jl token of
        Inl e \<Rightarrow> Inl (Auth TokenInvalidError (''Cannot decode token: '' @ e) [(''jwt_error'', PStr e)])
      | Inr c \<Rightarrow> Inr c)"

section \<open>The security generation of an account\<close>

definition epoch :: "user_row \<Rightarrow> int" where
  "epoch u = (case u_epoch u of None \<Rightarrow> 0 | Some n \<Rightarrow> n)"

text \<open>A claim that is missing counts as generation 0.\<close>

definition proof_is_current :: "claims \<Rightarrow> user_row \<Rightarrow> bool" where
  "proof_is_current c u =
     (case (case map_of c ''security_epoch'' of None \<Rightarrow> PInt 0 | Some v \<Rightarrow> v) of
        PInt n \<Rightarrow> 0 \<le> n \<and> n = epoch u
      | _ \<Rightarrow> False)"

definition bump_epoch :: "uuid \<Rightarrow> db \<Rightarrow> db" where
  "bump_epoch i d = d\<lparr>tb_users := map (\<lambda>u. if u_id u = i then u\<lparr>u_epoch := Some (epoch u + 1)\<rparr> else u) (tb_users d)\<rparr>"

definition advance_epoch :: "uuid \<Rightarrow> int op" where
  "advance_epoch i =
     bind_op (write_db (bump_epoch i)) (\<lambda>_.
     bind_op (read_db (\<lambda>d. row_by u_id i (tb_users d))) (\<lambda>found.
     case found of
       None \<Rightarrow> ret 0
     | Some u \<Rightarrow> bind_op mark_change (\<lambda>_. ret (epoch u))))"

section \<open>Service tokens\<close>

record service_token_config =
  sc_secret :: string
  sc_own_secret :: "string option"
  sc_jwt_audience :: string
  sc_own_audience :: "string option"
  sc_own_issuer :: "string option"
  sc_max_days :: int

definition or_default :: "string option \<Rightarrow> string \<Rightarrow> string" where
  "or_default x def = (case x of None \<Rightarrow> def | Some s \<Rightarrow> if s = [] then def else s)"

definition service_audience :: "service_token_config \<Rightarrow> string" where
  "service_audience c = or_default (sc_own_audience c) (sc_jwt_audience c @ '':service'')"

definition service_issuer :: "service_token_config \<Rightarrow> string" where
  "service_issuer c = or_default (sc_own_issuer c) (sc_jwt_audience c @ '':service'')"

definition service_signing_key :: "jwt_lib \<Rightarrow> service_token_config \<Rightarrow> string" where
  "service_signing_key jl c = or_default (sc_own_secret c) (jl_hmac jl (sc_secret c) ''outlabs-auth:service-token:v1'')"

definition create_service_token ::
  "jwt_lib \<Rightarrow> service_token_config \<Rightarrow> datetime \<Rightarrow> string \<Rightarrow> string \<Rightarrow> string \<Rightarrow> string list \<Rightarrow> int \<Rightarrow> claims option
     \<Rightarrow> err + string" where
  "create_service_token jl c now jti service_id service_name permissions days metadata =
     (if \<not> (1 \<le> days \<and> days \<le> sc_max_days c) then Inl (Builtin ValueError)
      else Inr (jl_encode jl (service_signing_key jl c)
        ([(''sub'', PStr service_id), (''type'', PStr ''service''), (''aud'', PStr (service_audience c)),
          (''iss'', PStr (service_issuer c)), (''jti'', PStr jti), (''service_name'', PStr service_name),
          (''permissions'', PList (map PStr permissions)), (''iat'', PDatetime (Aware now)),
          (''exp'', PDatetime (Aware (now + days * day_usec)))]
         @ (case metadata of None \<Rightarrow> [] | Some m \<Rightarrow> if m = [] then [] else [(''metadata'', PDict m)]))))"

definition service_required :: "string list" where
  "service_required = [''exp'', ''iat'', ''aud'', ''iss'', ''jti'', ''sub'', ''type'', ''permissions'']"

definition validate_service_token :: "jwt_lib \<Rightarrow> service_token_config \<Rightarrow> datetime \<Rightarrow> string \<Rightarrow> err + claims" where
  "validate_service_token jl c now token =
     (case jl_decode jl (service_signing_key jl c) (Some (service_audience c)) (Some (service_issuer c)) service_required now token of
        ExpiredSignature \<Rightarrow> Inl (Auth TokenInvalidError ''Service token has expired'' [(''expired'', PBool True)])
      | BadToken e \<Rightarrow> Inl (Auth TokenInvalidError (''Invalid service token: '' @ e) [(''error'', PStr e)])
      | Decoded p \<Rightarrow>
          if claim p ''type'' \<noteq> PStr ''service''
          then Inl (Auth TokenInvalidError ''Token is not a service token'' [(''token_type'', claim p ''type'')])
          else Inr p)"

text \<open>A single star means everything; anything but a text is no permission name.\<close>

definition granted_text :: "pyval \<Rightarrow> string option" where
  "granted_text v = (case v of PStr s \<Rightarrow> if s = [] then None else Some (if s = ''*'' then ''*:*'' else s) | _ \<Rightarrow> None)"

definition claimed_list :: "pyval \<Rightarrow> pyval list" where
  "claimed_list v = (case v of PList xs \<Rightarrow> xs | _ \<Rightarrow> [])"

definition check_service_permission :: "claims \<Rightarrow> string \<Rightarrow> bool" where
  "check_service_permission p required =
     permission_set_allows required (set (List.map_filter granted_text (claimed_list (claim p ''permissions''))))"

definition get_service_permissions :: "claims \<Rightarrow> pyval" where
  "get_service_permissions p = (case map_of p ''permissions'' of None \<Rightarrow> PList [] | Some v \<Rightarrow> v)"

definition get_service_metadata :: "claims \<Rightarrow> pyval" where
  "get_service_metadata p = (case map_of p ''metadata'' of None \<Rightarrow> PDict [] | Some v \<Rightarrow> v)"

definition get_service_info :: "claims \<Rightarrow> claims" where
  "get_service_info p =
     [(''service_id'', claim p ''sub''), (''service_name'', claim p ''service_name''), (''token_type'', claim p ''type''),
      (''issued_at'', claim p ''iat''), (''expires_at'', claim p ''exp''), (''permissions'', get_service_permissions p),
      (''metadata'', get_service_metadata p)]"

text \<open>\<open>title\<close> is \<open>str.title\<close>.\<close>

definition create_api_service_token ::
  "jwt_lib \<Rightarrow> service_token_config \<Rightarrow> (string \<Rightarrow> string) \<Rightarrow> datetime \<Rightarrow> string \<Rightarrow> string \<Rightarrow> string list \<Rightarrow> int \<Rightarrow> err + string" where
  "create_api_service_token jl c title now jti api permissions days =
     create_service_token jl c now jti (''api-'' @ api) (title api @ '' API'') permissions days
       (Some [(''service_type'', PStr ''api'')])"

definition create_worker_service_token ::
  "jwt_lib \<Rightarrow> service_token_config \<Rightarrow> (string \<Rightarrow> string) \<Rightarrow> datetime \<Rightarrow> string \<Rightarrow> string \<Rightarrow> string list \<Rightarrow> int \<Rightarrow> err + string" where
  "create_worker_service_token jl c title now jti worker permissions days =
     create_service_token jl c now jti (''worker-'' @ worker) (title worker @ '' Worker'') permissions days
       (Some [(''service_type'', PStr ''worker'')])"

section \<open>Facts about generations\<close>

lemma row_by_mapped:
  assumes "\<And>x. key (f x) = key x"
  shows "row_by key k (map f rows) = map_option f (row_by key k rows)"
  unfolding row_by_def by (induction rows) (simp_all add: assms)

lemma user_after_bump:
  "row_by u_id i (tb_users (bump_epoch i d)) = map_option (\<lambda>u. u\<lparr>u_epoch := Some (epoch u + 1)\<rparr>) (row_by u_id i (tb_users d))"
proof -
  let ?f = "\<lambda>u. if u_id u = i then u\<lparr>u_epoch := Some (epoch u + 1)\<rparr> else u"
  have "row_by u_id i (map ?f (tb_users d)) = map_option ?f (row_by u_id i (tb_users d))"
    by (rule row_by_mapped) simp
  moreover have "map_option ?f (row_by u_id i (tb_users d)) = map_option (\<lambda>u. u\<lparr>u_epoch := Some (epoch u + 1)\<rparr>) (row_by u_id i (tb_users d))"
    using row_by_SomeD [of u_id i "tb_users d"] by (cases "row_by u_id i (tb_users d)") simp_all
  ultimately show ?thesis by (simp add: bump_epoch_def)
qed

lemma proof_of_old_generation:
  assumes "proof_is_current c u" and "epoch v \<noteq> epoch u"
  shows "\<not> proof_is_current c v"
  using assms by (auto simp: proof_is_current_def split: option.splits pyval.splits)

end
