(* ===== verification/AuthService.thy ===== *)
theory AuthService
  imports Tokens Frontend RowState Password
begin

text \<open>
  Authentication (\<open>outlabs_auth/services/auth.py\<close>): login with lockout, sessions and their rotation,
  password resets, invitations and one-time challenges. Hashing, signing, randomness and the clock are
  parameters: one operation reads the clock once, and the values it draws at random are in its \<open>draw\<close>.
  Notifications, activity tracking and metrics are left out.
\<close>

section \<open>The service\<close>

record auth_service =
  as_jwt :: jwt_lib
  as_secret :: string
  as_audience :: string
  as_access_minutes :: int
  as_refresh_days :: int
  as_absolute_days :: "int option"
  as_max_attempts :: int
  as_lockout_minutes :: int
  as_store :: bool
  as_blacklist :: bool
  as_magic_minutes :: int
  as_code_minutes :: int
  as_code_length :: nat
  as_audit :: bool
  as_resolver :: "frontend_resolver option"
  as_hasher :: hasher
  as_password :: password_config
  as_sha256 :: "string \<Rightarrow> string"
  as_iso :: "pydatetime \<Rightarrow> string"

text \<open>What an operation draws: the time, identifiers of new rows, token identifiers, secrets.\<close>

record draw =
  dr_now :: datetime
  dr_family :: uuid
  dr_row :: uuid
  dr_access_jti :: string
  dr_refresh_jti :: string
  dr_token :: string
  dr_nonce :: string
  dr_number :: nat

record client =
  ci_device :: "string option"
  ci_ip :: "string option"
  ci_agent :: "string option"

record token_pair =
  tp_access :: string
  tp_refresh :: string
  tp_type :: string
  tp_expires_in :: int

definition token_pair_to_dict :: "token_pair \<Rightarrow> snapshot" where
  "token_pair_to_dict p = [(''access_token'', PStr (tp_access p)), (''refresh_token'', PStr (tp_refresh p)),
     (''token_type'', PStr (tp_type p)), (''expires_in'', PInt (tp_expires_in p))]"

definition iso :: "auth_service \<Rightarrow> datetime \<Rightarrow> string" where
  "iso sv t = as_iso sv (Aware t)"

definition hash_token :: "auth_service \<Rightarrow> string \<Rightarrow> string" where
  "hash_token sv token = as_sha256 sv token"

definition new_family_expiry :: "auth_service \<Rightarrow> datetime \<Rightarrow> datetime option" where
  "new_family_expiry sv started = map_option (\<lambda>days. started + days * day_usec) (as_absolute_days sv)"

definition refresh_row_expiry :: "auth_service \<Rightarrow> datetime \<Rightarrow> datetime option \<Rightarrow> datetime" where
  "refresh_row_expiry sv now family =
     (let rolling = now + as_refresh_days sv * day_usec in case family of None \<Rightarrow> rolling | Some f \<Rightarrow> min rolling f)"

section \<open>Errors\<close>

definition invalid_credentials :: err where
  "invalid_credentials = Auth InvalidCredentialsError ''Invalid email or password'' []"

definition refresh_invalid :: "string \<Rightarrow> string \<Rightarrow> details \<Rightarrow> err" where
  "refresh_invalid message reason ds = Auth RefreshTokenInvalidError message ((''reason'', PStr reason) # ds)"

definition token_invalid :: "string \<Rightarrow> string \<Rightarrow> err" where
  "token_invalid message reason = Auth TokenInvalidError message [(''reason'', PStr reason)]"

definition user_missing :: "string \<Rightarrow> err" where
  "user_missing i = Auth UserNotFoundError ''User not found'' [(''user_id'', PStr i)]"

definition account_locked :: "auth_service \<Rightarrow> user_row \<Rightarrow> err" where
  "account_locked sv u =
     (let till = map_option (iso sv) (u_locked_until u) in
      Auth AccountLockedError (''Account is locked until '' @ (case till of None \<Rightarrow> ''unknown'' | Some t \<Rightarrow> t))
        [(''locked_until'', opt_str till), (''reason'', PStr ''Too many failed login attempts'')])"

text \<open>\<open>_check_user_status\<close>\<close>

definition check_user_status :: "auth_service \<Rightarrow> user_row \<Rightarrow> err + unit" where
  "check_user_status sv u =
     (let status = u_status u; bad = (\<lambda>m ds. Inl (Auth AccountInactiveError m ((''status'', PStr status) # ds))) in
      if status = ''active'' then Inr ()
      else if status = ''invited''
      then bad ''Account has not been activated yet. Please check your email for the invitation link.'' []
      else if status = ''suspended''
      then (let till = map_option (iso sv) (u_suspended_until u) in
            bad (''Account is suspended'' @ (case till of None \<Rightarrow> [] | Some t \<Rightarrow> '' until '' @ t))
              [(''suspended_until'', opt_str till)])
      else if status = ''banned'' then bad ''Account is permanently banned'' []
      else if status = ''deleted''
      then bad ''Account has been deleted'' [(''deleted_at'', opt_str (map_option (iso sv) (u_deleted_at u)))]
      else bad (''Account is '' @ status) [])"

section \<open>Rows\<close>

text \<open>\<open>scalar_one_or_none()\<close> of the users that satisfy the filters.\<close>

definition find_user :: "(user_row \<Rightarrow> bool) \<Rightarrow> user_row option op" where
  "find_user p = bind_op (read_db tb_users) (\<lambda>us. lift_op (scalar_one_or_none p us))"

definition find_refresh :: "(refresh_token_row \<Rightarrow> bool) \<Rightarrow> refresh_token_row option op" where
  "find_refresh p = bind_op (read_db tb_refresh_tokens) (\<lambda>ts. lift_op (scalar_one_or_none p ts))"

definition save_user :: "user_row \<Rightarrow> unit op" where
  "save_user u = write_db (put_user u)"

definition add_refresh :: "refresh_token_row \<Rightarrow> db \<Rightarrow> db" where
  "add_refresh t d = d\<lparr>tb_refresh_tokens := tb_refresh_tokens d @ [t]\<rparr>"

definition update_refresh :: "(refresh_token_row \<Rightarrow> bool) \<Rightarrow> (refresh_token_row \<Rightarrow> refresh_token_row) \<Rightarrow> db \<Rightarrow> db" where
  "update_refresh p f d = d\<lparr>tb_refresh_tokens := map (\<lambda>t. if p t then f t else t) (tb_refresh_tokens d)\<rparr>"

text \<open>A change of the row that was loaded, by its key.\<close>

definition change_refresh :: "refresh_token_row \<Rightarrow> (refresh_token_row \<Rightarrow> refresh_token_row) \<Rightarrow> db \<Rightarrow> db" where
  "change_refresh t f = update_refresh (\<lambda>x. rt_id x = rt_id t) f"

definition user_event ::
  "auth_service \<Rightarrow> string \<Rightarrow> string \<Rightarrow> string \<Rightarrow> user_row \<Rightarrow> snapshot option \<Rightarrow> snapshot option \<Rightarrow> snapshot option
     \<Rightarrow> datetime \<Rightarrow> unit op" where
  "user_event sv category typ src u before after meta at_time =
     when_op (as_audit sv) (audit_event (as_iso sv)
       \<lparr>au_category = category, au_type = typ, au_source = ''auth_service.'' @ src, au_subject = Some (u_id u),
        au_email = u_email u, au_actor = None, au_root = u_root_entity u, au_entity = None, au_role = None,
        au_reason = None, au_before = before, au_after = after, au_metadata = meta, au_at = at_time\<rparr>)"

definition lock_state :: "user_row \<Rightarrow> snapshot" where
  "lock_state u = [(''failed_login_attempts'', PInt (u_failed_logins u)), (''locked_until'', time_val (u_locked_until u))]"

definition unlocked :: "user_row \<Rightarrow> user_row" where
  "unlocked u = u\<lparr>u_failed_logins := 0, u_locked_until := None\<rparr>"

section \<open>Sessions\<close>

text \<open>The sign-in gate, on the database of the session.\<close>

definition sign_in_gate :: "auth_service \<Rightarrow> user_row \<Rightarrow> string option \<Rightarrow> unit op" where
  "sign_in_gate sv u app =
     bind_op (read_db (\<lambda>d. enforce_sign_in_gate (as_resolver sv) d u app SignIn)) lift_op"

definition session_spec :: "auth_service \<Rightarrow> user_row \<Rightarrow> uuid option \<Rightarrow> string option \<Rightarrow> datetime option \<Rightarrow> token_spec" where
  "session_spec sv u family app family_expires =
     \<lparr>ts_user = u_id u, ts_access_minutes = as_access_minutes sv, ts_refresh_days = as_refresh_days sv,
      ts_claims = (case family of None \<Rightarrow> [] | Some f \<Rightarrow> [(''sid'', PStr f)]) @ [(''security_epoch'', PInt (epoch u))],
      ts_audience = as_audience sv, ts_azp = app, ts_session_expires = family_expires\<rparr>"

definition mint :: "auth_service \<Rightarrow> draw \<Rightarrow> token_spec \<Rightarrow> (string \<times> string) op" where
  "mint sv dr t = lift_op (create_token_pair (as_jwt sv) (as_secret sv) (dr_now dr) (dr_access_jti dr) (dr_refresh_jti dr) t)"

definition new_refresh_row ::
  "auth_service \<Rightarrow> draw \<Rightarrow> uuid \<Rightarrow> uuid \<Rightarrow> string \<Rightarrow> datetime option \<Rightarrow> client \<Rightarrow> string option \<Rightarrow> refresh_token_row" where
  "new_refresh_row sv dr user family token family_expires cl app =
     \<lparr>rt_id = dr_row dr, rt_user = user, rt_hash = hash_token sv token, rt_family = family, rt_azp = app,
      rt_replaced_by = None, rt_expires = refresh_row_expiry sv (dr_now dr) family_expires,
      rt_family_expires = family_expires, rt_created = dr_now dr, rt_revoked = False, rt_revoked_at = None,
      rt_revoked_reason = None, rt_device_name = ci_device cl, rt_fingerprint = None, rt_ip = ci_ip cl,
      rt_user_agent = ci_agent cl, rt_last_used = None, rt_usage = 0\<rparr>"

definition pair_of :: "auth_service \<Rightarrow> string \<times> string \<Rightarrow> token_pair" where
  "pair_of sv p = \<lparr>tp_access = fst p, tp_refresh = snd p, tp_type = ''bearer'', tp_expires_in = as_access_minutes sv * 60\<rparr>"

text \<open>A new session: the pair of tokens, and the row of its refresh token where rows are kept.\<close>

definition open_session ::
  "auth_service \<Rightarrow> draw \<Rightarrow> user_row \<Rightarrow> client \<Rightarrow> string option \<Rightarrow> token_pair op" where
  "open_session sv dr u cl app =
     (let expires = new_family_expiry sv (dr_now dr) in
      bind_op (mint sv dr (session_spec sv u (Some (dr_family dr)) app expires)) (\<lambda>pair.
      bind_op (when_op (as_store sv)
        (write_db (add_refresh (new_refresh_row sv dr (u_id u) (dr_family dr) (snd pair) expires cl app)))) (\<lambda>_.
      ret (pair_of sv pair))))"

section \<open>Login\<close>

definition failed_user :: "auth_service \<Rightarrow> datetime \<Rightarrow> user_row \<Rightarrow> user_row" where
  "failed_user sv now u =
     (let n = u_failed_logins u + 1 in
      u\<lparr>u_failed_logins := n,
        u_locked_until := (if as_max_attempts sv \<le> n then Some (now + as_lockout_minutes sv * minute_usec)
                           else u_locked_until u)\<rparr>)"

text \<open>A wrong password is counted and committed before the error is raised.\<close>

definition login_failed :: "auth_service \<Rightarrow> draw \<Rightarrow> user_row \<Rightarrow> 'a op" where
  "login_failed sv dr u =
     (let v = failed_user sv (dr_now dr) u in
      bind_op (save_user v) (\<lambda>_.
      bind_op (user_event sv ''authentication'' ''user.login_failed'' ''login'' v (Some (lock_state u)) (Some (lock_state v))
        (Some [(''failure_reason'', PStr ''invalid_password''), (''max_attempts'', PInt (as_max_attempts sv)),
               (''was_locked'', PBool (as_max_attempts sv \<le> u_failed_logins v))]) (dr_now dr)) (\<lambda>_.
      bind_op commit_op (\<lambda>_. raise_op invalid_credentials))))"

definition logged_in :: "datetime \<Rightarrow> string option \<Rightarrow> user_row \<Rightarrow> user_row" where
  "logged_in now upgraded u = (unlocked u)\<lparr>u_last_login := Some now,
     u_hashed_password := (case upgraded of None \<Rightarrow> u_hashed_password u | Some h \<Rightarrow> if h = [] then u_hashed_password u else Some h)\<rparr>"

definition login_state :: "user_row \<Rightarrow> snapshot" where
  "login_state u = (''last_login'', time_val (u_last_login u)) # lock_state u"

definition login_succeeded ::
  "auth_service \<Rightarrow> draw \<Rightarrow> user_row \<Rightarrow> string option \<Rightarrow> client \<Rightarrow> string option \<Rightarrow> (user_row \<times> token_pair) op" where
  "login_succeeded sv dr u upgraded cl app =
     (let v = logged_in (dr_now dr) upgraded u in
      bind_op (save_user v) (\<lambda>_.
      bind_op (sign_in_gate sv v app) (\<lambda>_.
      bind_op (open_session sv dr v cl app) (\<lambda>pair.
      bind_op (user_event sv ''authentication'' ''user.login'' ''login'' v (Some (login_state u)) (Some (login_state v))
        (Some [(''auth_method'', PStr ''password''), (''device_name'', opt_str (ci_device cl)),
               (''refresh_token_stored'', PBool (as_store sv))]) (dr_now dr)) (\<lambda>_.
      ret (v, pair))))))"

definition password_verdict :: "auth_service \<Rightarrow> user_row \<Rightarrow> string \<Rightarrow> bool \<times> string option" where
  "password_verdict sv u password =
     (case u_hashed_password u of
        None \<Rightarrow> (False, None)
      | Some h \<Rightarrow> if h = [] then (False, None) else verify_and_upgrade_password (as_hasher sv) password h)"

text \<open>A locked account answers as an unknown one does; the status is looked at before the password.\<close>

definition login ::
  "auth_service \<Rightarrow> draw \<Rightarrow> string \<Rightarrow> string \<Rightarrow> client \<Rightarrow> string option \<Rightarrow> (user_row \<times> token_pair) op" where
  "login sv dr email password cl app =
     bind_op (lift_op (validate_email email)) (\<lambda>address.
     bind_op (find_user (\<lambda>u. u_email u = address)) (\<lambda>found.
     case found of
       None \<Rightarrow> raise_op invalid_credentials
     | Some u \<Rightarrow>
         if is_locked (dr_now dr) u then raise_op invalid_credentials
         else bind_op (lift_op (check_user_status sv u)) (\<lambda>_.
           let (ok, upgraded) = password_verdict sv u password in
           if \<not> ok then login_failed sv dr u else login_succeeded sv dr u upgraded cl app)))"

definition verify_user_password :: "auth_service \<Rightarrow> user_row \<Rightarrow> string \<Rightarrow> bool" where
  "verify_user_password sv u password =
     (case u_hashed_password u of
        None \<Rightarrow> False
      | Some h \<Rightarrow> if h = [] then False else verify_password (as_hasher sv) password h)"

section \<open>Sessions for an authenticated user\<close>

definition given_or :: "string option \<Rightarrow> string \<Rightarrow> string" where
  "given_or x def = (case x of None \<Rightarrow> def | Some s \<Rightarrow> if s = [] then def else s)"

definition create_tokens_for_user ::
  "auth_service \<Rightarrow> draw \<Rightarrow> user_row \<Rightarrow> client \<Rightarrow> string option \<Rightarrow> string option \<Rightarrow> token_pair op" where
  "create_tokens_for_user sv dr u cl auth_method app =
     (if is_locked (dr_now dr) u then raise_op (account_locked sv u)
      else bind_op (lift_op (check_user_status sv u)) (\<lambda>_.
        bind_op (sign_in_gate sv u app) (\<lambda>_.
        let v = u\<lparr>u_last_login := Some (dr_now dr)\<rparr> in
        bind_op (save_user v) (\<lambda>_.
        bind_op (open_session sv dr v cl app) (\<lambda>pair.
        bind_op (user_event sv ''authentication'' ''user.login'' ''create_tokens_for_user'' v
          (Some [(''last_login'', time_val (u_last_login u))]) (Some [(''last_login'', time_val (u_last_login v))])
          (Some [(''auth_method'', PStr (given_or auth_method (given_or (ci_device cl) ''token_exchange''))),
                 (''device_name'', opt_str (ci_device cl)), (''refresh_token_stored'', PBool (as_store sv))]) (dr_now dr)) (\<lambda>_.
        ret pair))))))"

text \<open>
  \<open>logout\<close>. \<open>redis\<close> is what the blacklist write answers when Redis is available; only a stateless service
  reports it, and its key and its lifetime in seconds are the second result.
\<close>

definition blacklist_entry ::
  "auth_service \<Rightarrow> bool \<Rightarrow> string option \<Rightarrow> bool option \<Rightarrow> (string \<times> int) option" where
  "blacklist_entry sv requested jti redis =
     (case jti of
        None \<Rightarrow> None
      | Some j \<Rightarrow> if requested \<and> j \<noteq> [] \<and> as_blacklist sv \<and> redis \<noteq> None
          then Some (''blacklist:jwt:'' @ j, as_access_minutes sv * 60) else None)"

definition logout ::
  "auth_service \<Rightarrow> draw \<Rightarrow> string \<Rightarrow> bool \<Rightarrow> string option \<Rightarrow> bool option \<Rightarrow> (bool \<times> (string \<times> int) option) op" where
  "logout sv dr token requested jti redis =
     (let entry = blacklist_entry sv requested jti redis in
      if \<not> as_store sv then ret (entry \<noteq> None \<and> redis = Some True, entry)
      else bind_op (find_refresh (\<lambda>t. rt_hash t = hash_token sv token)) (\<lambda>found.
        case found of
          None \<Rightarrow> ret (False, None)
        | Some t \<Rightarrow>
            if rt_revoked t then ret (False, None)
            else bind_op (write_db (change_refresh t (revoke_refresh (dr_now dr) ''User logout''))) (\<lambda>_. ret (True, entry))))"

text \<open>Revoking every session: without an excluded family the security generation advances as well.\<close>

definition revoke_all_user_tokens ::
  "auth_service \<Rightarrow> datetime \<Rightarrow> uuid \<Rightarrow> string \<Rightarrow> uuid option \<Rightarrow> nat op" where
  "revoke_all_user_tokens sv now user reason keep =
     bind_op (if keep = None then bind_op (advance_epoch user) (\<lambda>_. ret ()) else ret ()) (\<lambda>_.
     if \<not> as_store sv then ret 0
     else (let hit = (\<lambda>t. rt_user t = user \<and> \<not> rt_revoked t \<and> (keep = None \<or> Some (rt_family t) \<noteq> keep)) in
       bind_op (read_db (\<lambda>d. length (filter hit (tb_refresh_tokens d)))) (\<lambda>n.
       bind_op (write_db (update_refresh hit (revoke_refresh now reason))) (\<lambda>_. ret n))))"

text \<open>Newest activity first; rows of equal activity keep the order of the table.\<close>

definition list_user_sessions :: "auth_service \<Rightarrow> datetime \<Rightarrow> uuid \<Rightarrow> db \<Rightarrow> refresh_token_row list" where
  "list_user_sessions sv now user d =
     (if \<not> as_store sv then []
      else sort_key (\<lambda>t. - (case rt_last_used t of None \<Rightarrow> rt_created t | Some x \<Rightarrow> x))
        (filter (\<lambda>t. rt_user t = user \<and> \<not> rt_revoked t \<and> now < rt_expires t) (tb_refresh_tokens d)))"

definition revoke_user_session :: "auth_service \<Rightarrow> datetime \<Rightarrow> uuid \<Rightarrow> uuid \<Rightarrow> string \<Rightarrow> nat op" where
  "revoke_user_session sv now user token_id reason =
     (if \<not> as_store sv then ret 0
      else bind_op (find_refresh (\<lambda>t. rt_id t = token_id)) (\<lambda>found.
        case (case found of
                None \<Rightarrow> None
              | Some t \<Rightarrow> if rt_user t \<noteq> user \<or> rt_revoked t \<or> rt_expires t \<le> now then None else Some t) of
          None \<Rightarrow> raise_op (Auth TokenInvalidError ''Session not found''
                   [(''reason'', PStr ''session_not_found''), (''session_id'', PStr token_id)])
        | Some t \<Rightarrow>
            (let hit = (\<lambda>x. rt_user x = user \<and> rt_family x = rt_family t \<and> \<not> rt_revoked x) in
             bind_op (read_db (\<lambda>d. length (filter hit (tb_refresh_tokens d)))) (\<lambda>n.
             bind_op (write_db (update_refresh hit (revoke_refresh now reason))) (\<lambda>_. ret n)))))"

section \<open>Claims against the account\<close>

text \<open>\<open>_normalize_token_timestamp\<close> of the claims; an \<open>OverflowError\<close> of the two older forms propagates.\<close>

definition instant_range :: "int \<Rightarrow> bool" where
  "instant_range us \<longleftrightarrow> - 62135596800 \<le> us div 1000000 \<and> us div 1000000 \<le> 253402300799"

definition tolerant_instant :: "pyerr + datetime \<Rightarrow> err + datetime option" where
  "tolerant_instant r =
     (case r of
        Inr t \<Rightarrow> Inr (Some t)
      | Inl e \<Rightarrow> if e = TypeError \<or> e = ValueError then Inr None else Inl (Builtin e))"

definition normalize_token_timestamp :: "auth_service \<Rightarrow> claims \<Rightarrow> err + datetime option" where
  "normalize_token_timestamp sv c =
     (if claim c ''iat_us'' \<noteq> PNone
      then Inr (case claim c ''iat_us'' of PInt us \<Rightarrow> if instant_range us then Some us else None | _ \<Rightarrow> None)
      else if claim c ''iat_ms'' \<noteq> PNone then tolerant_instant (jl_at_millis (as_jwt sv) (claim c ''iat_ms''))
      else (case claim c ''iat'' of
              PNone \<Rightarrow> Inr None
            | PDatetime t \<Rightarrow> Inr (Some (case t of Aware x \<Rightarrow> x | Naive x \<Rightarrow> x))
            | v \<Rightarrow> tolerant_instant (jl_at (as_jwt sv) v)))"

definition token_is_stale :: "auth_service \<Rightarrow> claims \<Rightarrow> datetime option \<Rightarrow> err + bool" where
  "token_is_stale sv c changed =
     (case changed of
        None \<Rightarrow> Inr False
      | Some t \<Rightarrow> bindE (normalize_token_timestamp sv c) (\<lambda>issued.
          Inr (case issued of None \<Rightarrow> True | Some x \<Rightarrow> x < t)))"

text \<open>The \<open>sub\<close> claim as an identifier: falsy is missing; what is not a UUID is a \<open>ValueError\<close>.\<close>

definition claimed_user :: "claims \<Rightarrow> err \<Rightarrow> err + uuid" where
  "claimed_user c missing =
     (case claim c ''sub'' of
        PStr i \<Rightarrow> if i = [] then Inl missing else Inr i
      | v \<Rightarrow> if py_truthy v then Inl (Builtin ValueError) else Inl missing)"

definition get_current_user :: "auth_service \<Rightarrow> datetime \<Rightarrow> string \<Rightarrow> user_row op" where
  "get_current_user sv now token =
     bind_op (lift_op (verify_token (as_jwt sv) (as_secret sv) now token (Some ''access'') (Some (as_audience sv)))) (\<lambda>c.
     bind_op (lift_op (claimed_user c (Auth TokenInvalidError ''Invalid token: missing user ID'' [(''payload'', PDict c)]))) (\<lambda>i.
     bind_op (find_user (\<lambda>u. u_id u = i)) (\<lambda>found.
     case found of
       None \<Rightarrow> raise_op (user_missing i)
     | Some u \<Rightarrow>
         bind_op (lift_op (check_user_status sv u)) (\<lambda>_.
         if \<not> proof_is_current c u
         then raise_op (token_invalid ''Token is no longer valid'' ''security_epoch_changed'')
         else bind_op (lift_op (token_is_stale sv c (u_last_password_change u))) (\<lambda>stale.
           if stale then raise_op (token_invalid ''Token is no longer valid'' ''password_changed'') else ret u)))))"

section \<open>Refreshing a session\<close>

text \<open>
  A rotated token that is used again: the request's work is rolled back, and in a transaction of its own
  every session of the account is revoked, before the error is raised.
\<close>

definition contain_reuse :: "auth_service \<Rightarrow> datetime \<Rightarrow> refresh_token_row \<Rightarrow> 'a op" where
  "contain_reuse sv now t =
     bind_op rollback_op (\<lambda>_.
     bind_op (revoke_all_user_tokens sv now (rt_user t) ''Refresh token reuse detected'' None) (\<lambda>n.
     bind_op commit_op (\<lambda>_.
     raise_op (refresh_invalid ''Refresh token reuse detected; all sessions were revoked'' ''reuse_detected''
       [(''family_id'', PStr (rt_family t)), (''revoked_session_count'', PInt (int n))]))))"

definition refuse_refresh_row :: "auth_service \<Rightarrow> datetime \<Rightarrow> refresh_token_row \<Rightarrow> 'a op" where
  "refuse_refresh_row sv now t =
     (if rt_revoked t
      then if rt_revoked_reason t = Some ''rotated'' then contain_reuse sv now t
        else raise_op (refresh_invalid ''Refresh token has been revoked'' ''revoked''
          [(''revoked_at'', opt_str (map_option (iso sv) (rt_revoked_at t))), (''revoked_reason'', opt_str (rt_revoked_reason t))])
      else raise_op (refresh_invalid ''Refresh token has expired'' ''expired'' [(''expires_at'', PStr (iso sv (rt_expires t)))]))"

text \<open>The row of the token, where rows are kept; without one of a usable row there is no refresh.\<close>

definition usable_refresh_row :: "auth_service \<Rightarrow> datetime \<Rightarrow> string \<Rightarrow> refresh_token_row option op" where
  "usable_refresh_row sv now token =
     (if \<not> as_store sv then ret None
      else bind_op (find_refresh (\<lambda>t. rt_hash t = hash_token sv token)) (\<lambda>found.
        case found of
          None \<Rightarrow> raise_op (refresh_invalid ''Refresh token not found'' ''Token not in database'' [])
        | Some t \<Rightarrow> if refresh_valid now t then ret (Some t) else refuse_refresh_row sv now t))"

text \<open>
  The deadlines a session has: the claim, the column, and the start of the family where the column is
  empty. \<open>int(session_exp)\<close> of anything but an integer is left to \<open>jl_at\<close>.
\<close>

definition claimed_deadline :: "auth_service \<Rightarrow> claims \<Rightarrow> err + datetime list" where
  "claimed_deadline sv c =
     (let bad = refresh_invalid ''Invalid refresh token'' ''invalid_session_expiry'' [] in
      case claim c ''session_exp'' of
        PNone \<Rightarrow> Inr []
      | PInt n \<Rightarrow> if instant_range (n * 1000000) then Inr [n * 1000000] else Inl bad
      | v \<Rightarrow> (case jl_at (as_jwt sv) v of Inr t \<Rightarrow> Inr [t div 1000000 * 1000000] | Inl _ \<Rightarrow> Inl bad))"

definition family_started :: "uuid \<Rightarrow> db \<Rightarrow> datetime option" where
  "family_started f d =
     (case map rt_created (filter (\<lambda>t. rt_family t = f) (tb_refresh_tokens d)) of
        [] \<Rightarrow> None
      | t # ts \<Rightarrow> Some (foldl min t ts))"

definition stored_deadlines :: "auth_service \<Rightarrow> refresh_token_row option \<Rightarrow> db \<Rightarrow> datetime list" where
  "stored_deadlines sv held d =
     (case held of
        None \<Rightarrow> []
      | Some t \<Rightarrow>
          (case (rt_family_expires t, as_absolute_days sv) of
             (Some x, _) \<Rightarrow> [x]
           | (None, Some days) \<Rightarrow>
               (case family_started (rt_family t) d of None \<Rightarrow> [] | Some s \<Rightarrow> [s + days * day_usec])
           | (None, None) \<Rightarrow> []))"

definition earliest :: "datetime list \<Rightarrow> datetime option" where
  "earliest ts = (case ts of [] \<Rightarrow> None | t # us \<Rightarrow> Some (foldl min t us))"

definition revoke_family :: "datetime \<Rightarrow> string \<Rightarrow> uuid \<Rightarrow> unit op" where
  "revoke_family now reason f =
     write_db (update_refresh (\<lambda>x. rt_family x = f \<and> \<not> rt_revoked x) (revoke_refresh now reason))"

definition session_over :: "datetime \<Rightarrow> refresh_token_row option \<Rightarrow> 'a op" where
  "session_over now held =
     bind_op (case held of None \<Rightarrow> ret () | Some t \<Rightarrow> revoke_family now ''Absolute session lifetime expired'' (rt_family t)) (\<lambda>_.
     raise_op (refresh_invalid ''Refresh session has expired'' ''absolute_session_expired'' []))"

text \<open>The account behind the token must still be active, of the same generation, with the same password.\<close>

definition check_refresh_user ::
  "auth_service \<Rightarrow> datetime \<Rightarrow> claims \<Rightarrow> uuid \<Rightarrow> user_row option \<Rightarrow> refresh_token_row option \<Rightarrow> user_row op" where
  "check_refresh_user sv now c i found held =
     (case found of
        None \<Rightarrow> raise_op (user_missing i)
      | Some u \<Rightarrow>
          bind_op (lift_op (check_user_status sv u)) (\<lambda>_.
          if \<not> proof_is_current c u
          then raise_op (refresh_invalid ''Refresh token is no longer valid'' ''security_epoch_changed'' [])
          else bind_op (lift_op (token_is_stale sv c (u_last_password_change u))) (\<lambda>stale.
            if stale
            then bind_op (case held of None \<Rightarrow> ret () | Some t \<Rightarrow> write_db (change_refresh t (revoke_refresh now ''Password changed''))) (\<lambda>_.
              raise_op (refresh_invalid ''Refresh token is no longer valid'' ''password_changed'' []))
            else ret u)))"

definition session_azp :: "claims \<Rightarrow> refresh_token_row option \<Rightarrow> string option" where
  "session_azp c held =
     given_text (case held of Some t \<Rightarrow> rt_azp t | None \<Rightarrow> (case claim c ''azp'' of PStr a \<Rightarrow> Some a | _ \<Rightarrow> None))"

definition replacement_row ::
  "auth_service \<Rightarrow> draw \<Rightarrow> user_row \<Rightarrow> refresh_token_row \<Rightarrow> string \<Rightarrow> datetime option \<Rightarrow> string option \<Rightarrow> refresh_token_row" where
  "replacement_row sv dr u t token family_expires azp =
     (new_refresh_row sv dr (u_id u) (rt_family t) token family_expires
        \<lparr>ci_device = rt_device_name t, ci_ip = rt_ip t, ci_agent = rt_user_agent t\<rparr> azp)\<lparr>rt_fingerprint := rt_fingerprint t\<rparr>"

definition retired_row :: "draw \<Rightarrow> refresh_token_row \<Rightarrow> refresh_token_row" where
  "retired_row dr t =
     (revoke_refresh (dr_now dr) ''rotated'' (record_refresh_usage (dr_now dr) t))\<lparr>rt_replaced_by := Some (dr_row dr)\<rparr>"

definition rotate_session ::
  "auth_service \<Rightarrow> draw \<Rightarrow> user_row \<Rightarrow> refresh_token_row option \<Rightarrow> datetime option \<Rightarrow> string option \<Rightarrow> token_pair op" where
  "rotate_session sv dr u held family_expires azp =
     bind_op (mint sv dr (session_spec sv u (map_option rt_family held) azp family_expires)) (\<lambda>pair.
     bind_op (case held of
                None \<Rightarrow> ret ()
              | Some t \<Rightarrow> bind_op (write_db (add_refresh (replacement_row sv dr u t (snd pair) family_expires azp))) (\<lambda>_.
                  write_db (change_refresh t (retired_row dr)))) (\<lambda>_.
     ret (pair_of sv pair)))"

definition refresh_claims_of :: "auth_service \<Rightarrow> datetime \<Rightarrow> string \<Rightarrow> err + claims" where
  "refresh_claims_of sv now token =
     (case verify_token (as_jwt sv) (as_secret sv) now token (Some ''refresh'') (Some (as_audience sv)) of
        Inl (Auth TokenInvalidError _ _) \<Rightarrow> Inl (refresh_invalid ''Invalid refresh token'' ''Token verification failed'' [])
      | r \<Rightarrow> r)"

text \<open>With the row at hand: the deadlines of the session, the account, the application, the rotation.\<close>

definition continue_session ::
  "auth_service \<Rightarrow> draw \<Rightarrow> claims \<Rightarrow> uuid \<Rightarrow> user_row option \<Rightarrow> refresh_token_row option \<Rightarrow> token_pair op" where
  "continue_session sv dr c i found held =
     (let now = dr_now dr in
      bind_op (lift_op (claimed_deadline sv c)) (\<lambda>claimed.
      bind_op (read_db (stored_deadlines sv held)) (\<lambda>stored.
      let family_expires = earliest (claimed @ stored) in
      if (case family_expires of None \<Rightarrow> False | Some x \<Rightarrow> x \<le> now) then session_over now held
      else bind_op (check_refresh_user sv now c i found held) (\<lambda>u.
        let azp = session_azp c held in
        bind_op (sign_in_gate sv u azp) (\<lambda>_.
        rotate_session sv dr u held family_expires azp)))))"

definition refresh_access_token :: "auth_service \<Rightarrow> draw \<Rightarrow> string \<Rightarrow> token_pair op" where
  "refresh_access_token sv dr token =
     bind_op (lift_op (refresh_claims_of sv (dr_now dr) token)) (\<lambda>c.
     bind_op (lift_op (claimed_user c (refresh_invalid ''Invalid refresh token: missing user ID'' ''No user ID in token'' []))) (\<lambda>i.
     bind_op (find_user (\<lambda>u. u_id u = i)) (\<lambda>found.
     bind_op (usable_refresh_row sv (dr_now dr) token) (\<lambda>held.
     continue_session sv dr c i found held))))"

section \<open>One-time challenges\<close>

text \<open>Issuing and consuming a challenge first locks the account's row, which must be active.\<close>

definition lock_active_challenge_user :: "auth_service \<Rightarrow> uuid \<Rightarrow> user_row op" where
  "lock_active_challenge_user sv i =
     bind_op (find_user (\<lambda>u. u_id u = i)) (\<lambda>found.
     case found of
       None \<Rightarrow> raise_op (user_missing i)
     | Some u \<Rightarrow> bind_op (lift_op (check_user_status sv u)) (\<lambda>_. ret u))"

text \<open>The codes: zero-padded numbers, hashed under a nonce and bound to their recipient.\<close>

definition generate_code :: "auth_service \<Rightarrow> draw \<Rightarrow> string" where
  "generate_code sv dr =
     (let s = show_nat (dr_number dr mod 10 ^ as_code_length sv) in replicate (as_code_length sv - length s) CHR ''0'' @ s)"

definition access_code_digest :: "auth_service \<Rightarrow> string \<Rightarrow> string \<Rightarrow> string \<Rightarrow> string" where
  "access_code_digest sv code recipient nonce =
     jl_hmac (as_jwt sv) (as_secret sv) (''access_code:'' @ nonce @ '':'' @ py_lower recipient @ '':'' @ code)"

definition phone_verify_digest :: "auth_service \<Rightarrow> string \<Rightarrow> string \<Rightarrow> string \<Rightarrow> string" where
  "phone_verify_digest sv code phone nonce =
     jl_hmac (as_jwt sv) (as_secret sv) (''phone_verify:'' @ nonce @ '':'' @ phone @ '':'' @ code)"

definition stored_code :: "string \<Rightarrow> string \<Rightarrow> string" where
  "stored_code nonce digest = ''v1:'' @ nonce @ CHR '':'' # digest"

definition hash_access_code :: "auth_service \<Rightarrow> draw \<Rightarrow> string \<Rightarrow> string \<Rightarrow> string" where
  "hash_access_code sv dr code recipient = stored_code (dr_nonce dr) (access_code_digest sv code recipient (dr_nonce dr))"

definition hash_phone_verify_code :: "auth_service \<Rightarrow> draw \<Rightarrow> string \<Rightarrow> string \<Rightarrow> string" where
  "hash_phone_verify_code sv dr code phone = stored_code (dr_nonce dr) (phone_verify_digest sv code phone (dr_nonce dr))"

text \<open>\<open>split(":", 2)\<close> into three parts; \<open>digest\<close> computes what the third must be.\<close>

definition code_matches :: "(string \<Rightarrow> string) \<Rightarrow> string \<Rightarrow> bool" where
  "code_matches digest stored =
     (let (version, one, rest) = py_partition (CHR '':'') stored; (nonce, two, expected) = py_partition (CHR '':'') rest in
      one \<and> two \<and> version = ''v1'' \<and> nonce \<noteq> [] \<and> expected \<noteq> [] \<and> digest nonce = expected)"

definition verify_access_code_hash :: "auth_service \<Rightarrow> string \<Rightarrow> string \<Rightarrow> string \<Rightarrow> bool" where
  "verify_access_code_hash sv code recipient stored = code_matches (access_code_digest sv code recipient) stored"

definition verify_phone_verify_code_hash :: "auth_service \<Rightarrow> string \<Rightarrow> string \<Rightarrow> string \<Rightarrow> bool" where
  "verify_phone_verify_code_hash sv code phone stored = code_matches (phone_verify_digest sv code phone) stored"

definition normalize_access_code :: "string \<Rightarrow> string" where
  "normalize_access_code code = filter (\<lambda>c. c \<notin> {CHR '' '', CHR ''-'', CHR 9, CHR 10}) (py_strip code)"

definition append_auth_method :: "string \<Rightarrow> user_row \<Rightarrow> user_row" where
  "append_auth_method method u =
     (let m = py_upper method in if m \<in> set (u_auth_methods u) then u else u\<lparr>u_auth_methods := u_auth_methods u @ [m]\<rparr>)"

record challenge_spec =
  cs_redirect :: "string option"
  cs_profile :: "string option"
  cs_next :: "string option"
  cs_ip :: "string option"
  cs_agent :: "string option"

definition new_challenge ::
  "draw \<Rightarrow> uuid \<Rightarrow> challenge_type \<Rightarrow> string \<Rightarrow> string \<Rightarrow> int \<Rightarrow> challenge_spec \<Rightarrow> challenge_row" where
  "new_challenge dr user typ token_hash recipient minutes cs =
     \<lparr>ac_id = dr_row dr, ac_user = user, ac_type = typ, ac_hash = token_hash, ac_recipient = recipient,
      ac_expires = dr_now dr + minutes * minute_usec, ac_used_at = None, ac_redirect = cs_redirect cs,
      ac_profile = cs_profile cs, ac_next = cs_next cs, ac_ip = cs_ip cs, ac_agent = cs_agent cs\<rparr>"

definition update_challenge :: "(challenge_row \<Rightarrow> bool) \<Rightarrow> (challenge_row \<Rightarrow> challenge_row) \<Rightarrow> db \<Rightarrow> db" where
  "update_challenge p f d = d\<lparr>tb_challenges := map (\<lambda>c. if p c then f c else c) (tb_challenges d)\<rparr>"

definition use_challenge :: "datetime \<Rightarrow> challenge_row \<Rightarrow> challenge_row" where
  "use_challenge now c = c\<lparr>ac_used_at := Some now\<rparr>"

text \<open>Outstanding challenges of the same kind are used up, so that only the newest stays valid.\<close>

definition issue_challenge :: "datetime \<Rightarrow> challenge_row \<Rightarrow> db \<Rightarrow> db" where
  "issue_challenge now c d =
     (let e = update_challenge (\<lambda>x. ac_user x = ac_user c \<and> ac_type x = ac_type c \<and> ac_used_at x = None \<and> now < ac_expires x)
                (use_challenge now) d
      in e\<lparr>tb_challenges := tb_challenges e @ [c]\<rparr>)"

definition generate_reset_token :: "auth_service \<Rightarrow> draw \<Rightarrow> uuid \<Rightarrow> string op" where
  "generate_reset_token sv dr i =
     bind_op (lock_active_challenge_user sv i) (\<lambda>u.
     let v = u\<lparr>u_reset_token := Some (hash_token sv (dr_token dr)), u_reset_expires := Some (dr_now dr + 60 * minute_usec)\<rparr> in
     bind_op (save_user v) (\<lambda>_.
     bind_op (user_event sv ''credential'' ''user.password_reset_requested'' ''generate_reset_token'' v
       (Some [(''password_reset_requested'', PBool (u_reset_expires u \<noteq> None)), (''password_reset_expires'', time_val (u_reset_expires u))])
       (Some [(''password_reset_requested'', PBool True), (''password_reset_expires'', time_val (u_reset_expires v))])
       (Some [(''delivery_channel'', PStr ''email'')]) (dr_now dr)) (\<lambda>_. ret (dr_token dr))))"

definition delivery_meta :: "string \<Rightarrow> challenge_spec \<Rightarrow> snapshot" where
  "delivery_meta channel cs = [(''delivery_channel'', PStr channel), (''redirect_url'', opt_str (cs_redirect cs)),
     (''profile_id'', opt_str (cs_profile cs)), (''next_url'', opt_str (cs_next cs))]"

definition generate_magic_link_token :: "auth_service \<Rightarrow> draw \<Rightarrow> uuid \<Rightarrow> challenge_spec \<Rightarrow> string op" where
  "generate_magic_link_token sv dr i cs =
     bind_op (lock_active_challenge_user sv i) (\<lambda>u.
     let c = new_challenge dr (u_id u) MagicLink (hash_token sv (dr_token dr)) (u_email u) (as_magic_minutes sv) cs in
     bind_op (write_db (issue_challenge (dr_now dr) c)) (\<lambda>_.
     bind_op (user_event sv ''authentication'' ''user.magic_link_requested'' ''generate_magic_link_token'' u None
       (Some [(''magic_link_expires_at'', time_val (Some (ac_expires c))), (''recipient'', PStr (u_email u))])
       (Some (delivery_meta ''email'' cs)) (dr_now dr)) (\<lambda>_. ret (dr_token dr))))"

text \<open>The channel of a code: a recipient in E.164 form takes WhatsApp or SMS, any other e-mail.\<close>

definition norm_channel :: "string option \<Rightarrow> string option" where
  "norm_channel channel = (case channel of None \<Rightarrow> None | Some s \<Rightarrow> given_text (Some (py_lower (py_strip s))))"

definition phone_channel :: "string option \<Rightarrow> err + string \<times> challenge_type" where
  "phone_channel channel =
     (let chosen = (case channel of None \<Rightarrow> ''whatsapp'' | Some s \<Rightarrow> s) in
      if chosen = ''whatsapp'' then Inr (chosen, WhatsappOtp)
      else if chosen = ''sms'' then Inr (chosen, SmsOtp)
      else Inl (invalid_input ''Phone access codes must use channel=whatsapp or channel=sms''
             [(''field'', PStr ''channel''), (''channel'', PStr chosen)]))"

definition code_channel :: "string \<Rightarrow> string option \<Rightarrow> err + string \<times> challenge_type" where
  "code_channel recipient channel =
     (if py_startswith recipient ''+'' then phone_channel channel
      else if channel = None \<or> channel = Some ''email'' then Inr (''email'', AccessCode)
      else Inl (invalid_input ''Email access codes must use channel=email or omit channel''
             [(''field'', PStr ''channel''), (''channel'', opt_str channel)]))"

definition generate_access_code ::
  "auth_service \<Rightarrow> draw \<Rightarrow> uuid \<Rightarrow> string option \<Rightarrow> string option \<Rightarrow> challenge_spec \<Rightarrow> string op" where
  "generate_access_code sv dr i recipient channel cs =
     bind_op (lock_active_challenge_user sv i) (\<lambda>u.
     let target = py_strip (given_or recipient (u_email u)) in
     if target = [] then raise_op (invalid_input ''Access code recipient is required'' [(''field'', PStr ''recipient'')])
     else bind_op (lift_op (code_channel target (norm_channel channel))) (\<lambda>(delivery, typ).
       let code = generate_code sv dr;
           c = new_challenge dr (u_id u) typ (hash_access_code sv dr code target) target (as_code_minutes sv) cs in
       bind_op (write_db (issue_challenge (dr_now dr) c)) (\<lambda>_.
       bind_op (user_event sv ''authentication'' ''user.access_code_requested'' ''generate_access_code'' u None
         (Some [(''access_code_expires_at'', time_val (Some (ac_expires c))), (''recipient'', PStr target),
                (''challenge_type'', PStr (challenge_type_value typ))])
         (Some (delivery_meta delivery cs)) (dr_now dr)) (\<lambda>_. ret code))))"

definition user_phone :: "user_row \<Rightarrow> string" where
  "user_phone u = py_strip (case u_phone u of None \<Rightarrow> [] | Some p \<Rightarrow> p)"

definition phone_required :: err where
  "phone_required = invalid_input ''Phone number is required before verification'' [(''field'', PStr ''phone'')]"

definition bare_spec :: "client \<Rightarrow> challenge_spec" where
  "bare_spec cl = \<lparr>cs_redirect = None, cs_profile = None, cs_next = None, cs_ip = ci_ip cl, cs_agent = ci_agent cl\<rparr>"

definition generate_phone_verify_code :: "auth_service \<Rightarrow> draw \<Rightarrow> uuid \<Rightarrow> client \<Rightarrow> string op" where
  "generate_phone_verify_code sv dr i cl =
     bind_op (lock_active_challenge_user sv i) (\<lambda>u.
     let phone = user_phone u in
     if phone = [] then raise_op phone_required
     else let code = generate_code sv dr;
              c = new_challenge dr (u_id u) PhoneVerify (hash_phone_verify_code sv dr code phone) phone (as_code_minutes sv)
                    (bare_spec cl) in
       bind_op (write_db (issue_challenge (dr_now dr) c)) (\<lambda>_.
       bind_op (user_event sv ''profile'' ''user.phone_verify_requested'' ''generate_phone_verify_code'' u None
         (Some [(''phone_verify_expires_at'', time_val (Some (ac_expires c))), (''recipient'', PStr phone)])
         (Some [(''delivery_channel'', PStr ''whatsapp'')]) (dr_now dr)) (\<lambda>_. ret code)))"

section \<open>Using a challenge\<close>

definition invalid_code :: err where
  "invalid_code = token_invalid ''Invalid or expired access code'' ''token_not_found''"

definition challenge_expired :: "auth_service \<Rightarrow> string \<Rightarrow> challenge_row \<Rightarrow> err" where
  "challenge_expired sv message c = Auth TokenExpiredError message [(''expired_at'', PStr (iso sv (ac_expires c)))]"

text \<open>The newest unused challenge of the wanted kinds that accepts the code.\<close>

definition matching_challenge :: "uuid \<Rightarrow> challenge_type list \<Rightarrow> (string \<Rightarrow> bool) \<Rightarrow> db \<Rightarrow> challenge_row option" where
  "matching_challenge user types accepts d =
     List.find (\<lambda>c. ac_user c = user \<and> ac_type c \<in> set types \<and> ac_used_at c = None \<and> accepts (ac_hash c))
       (rev (tb_challenges d))"

definition method_of :: "challenge_type \<Rightarrow> string" where
  "method_of t = (case t of WhatsappOtp \<Rightarrow> ''WHATSAPP_OTP'' | SmsOtp \<Rightarrow> ''SMS_OTP'' | _ \<Rightarrow> ''ACCESS_CODE'')"

record code_target =
  ct_recipient :: string
  ct_delivery :: string
  ct_types :: "challenge_type list"
  ct_email :: bool

definition text_given :: "string option \<Rightarrow> bool" where
  "text_given x \<longleftrightarrow> (case x of None \<Rightarrow> False | Some s \<Rightarrow> py_strip s \<noteq> [])"

definition the_text :: "string option \<Rightarrow> string" where
  "the_text x = (case x of None \<Rightarrow> [] | Some s \<Rightarrow> s)"

text \<open>Exactly one of e-mail and phone; a phone also accepts the older codes without a channel of their own.\<close>

definition code_target_of :: "string option \<Rightarrow> string option \<Rightarrow> string option \<Rightarrow> err + code_target" where
  "code_target_of email phone channel =
     (if text_given email = text_given phone
      then Inl (invalid_input ''Provide exactly one of email or phone'' [(''fields'', PList [PStr ''email'', PStr ''phone''])])
      else if text_given email
      then bindE (validate_email (the_text email)) (\<lambda>e.
        Inr \<lparr>ct_recipient = e, ct_delivery = ''email'', ct_types = [AccessCode], ct_email = True\<rparr>)
      else bindE (validate_phone (the_text phone) ''phone'') (\<lambda>p.
        bindE (phone_channel (norm_channel channel)) (\<lambda>(delivery, typ).
          Inr \<lparr>ct_recipient = p, ct_delivery = delivery, ct_types = [typ, AccessCode], ct_email = False\<rparr>)))"

definition addressed_user :: "code_target \<Rightarrow> user_row \<Rightarrow> bool" where
  "addressed_user ct u \<longleftrightarrow>
     (if ct_email ct then u_email u = ct_recipient ct else u_phone u = Some (ct_recipient ct) \<and> u_phone_verified u)"

definition consumed :: "datetime \<Rightarrow> uuid \<Rightarrow> db \<Rightarrow> db" where
  "consumed now i = update_challenge (\<lambda>c. ac_id c = i) (use_challenge now)"

definition challenge_user :: "bool \<Rightarrow> string \<Rightarrow> user_row \<Rightarrow> user_row" where
  "challenge_user verifies method u =
     append_auth_method method ((unlocked u)\<lparr>u_email_verified := (u_email_verified u \<or> verifies)\<rparr>)"

definition verified_state :: "user_row \<Rightarrow> snapshot" where
  "verified_state u = (''email_verified'', PBool (u_email_verified u)) # lock_state u"

text \<open>A valid challenge: the account is unlocked, and a session is opened for the challenge's application.\<close>

definition challenge_session ::
  "auth_service \<Rightarrow> draw \<Rightarrow> user_row \<Rightarrow> challenge_row \<Rightarrow> bool \<Rightarrow> string \<Rightarrow> string \<Rightarrow> string \<Rightarrow> string \<Rightarrow> snapshot \<Rightarrow> client
     \<Rightarrow> string \<Rightarrow> string \<Rightarrow> (user_row \<times> token_pair) op" where
  "challenge_session sv dr u c verifies method typ src used_key meta cl device auth_method =
     (let v = challenge_user verifies method u in
      bind_op (save_user v) (\<lambda>_.
      bind_op (user_event sv ''authentication'' typ src v (Some (verified_state u))
        (Some (verified_state v @ [(used_key, time_val (Some (dr_now dr)))])) (Some meta) (dr_now dr)) (\<lambda>_.
      bind_op (create_tokens_for_user sv dr v (cl\<lparr>ci_device := Some (given_or (ci_device cl) device)\<rparr>) (Some auth_method) (ac_profile c)) (\<lambda>pair.
      ret (v\<lparr>u_last_login := Some (dr_now dr)\<rparr>, pair)))))"

definition accept_challenge ::
  "auth_service \<Rightarrow> draw \<Rightarrow> user_row \<Rightarrow> challenge_row \<Rightarrow> bool \<Rightarrow> string \<Rightarrow> string \<Rightarrow> string \<Rightarrow> string \<Rightarrow> snapshot \<Rightarrow> client
     \<Rightarrow> string \<Rightarrow> string \<Rightarrow> (user_row \<times> token_pair) op" where
  "accept_challenge sv dr u c verifies method typ src used_key meta cl device auth_method =
     (if is_locked (dr_now dr) u then raise_op (account_locked sv u)
      else bind_op (lift_op (check_user_status sv u)) (\<lambda>_.
        bind_op (write_db (consumed (dr_now dr) (ac_id c))) (\<lambda>_.
        challenge_session sv dr u c verifies method typ src used_key meta cl device auth_method)))"

definition verify_access_code ::
  "auth_service \<Rightarrow> draw \<Rightarrow> string option \<Rightarrow> string option \<Rightarrow> string \<Rightarrow> string option \<Rightarrow> client \<Rightarrow> (user_row \<times> token_pair) op" where
  "verify_access_code sv dr email phone code channel cl =
     bind_op (lift_op (code_target_of email phone channel)) (\<lambda>ct.
     bind_op (find_user (addressed_user ct)) (\<lambda>found.
     case found of
       None \<Rightarrow> raise_op invalid_code
     | Some u \<Rightarrow>
         bind_op (read_db (matching_challenge (u_id u) (ct_types ct)
           (verify_access_code_hash sv (normalize_access_code code) (ct_recipient ct)))) (\<lambda>match.
         case match of
           None \<Rightarrow> raise_op invalid_code
         | Some c \<Rightarrow>
             if ac_expires c < dr_now dr then raise_op (challenge_expired sv ''Access code has expired'' c)
             else accept_challenge sv dr u c (ct_email ct) (method_of (ac_type c)) ''user.access_code_verified'' ''verify_access_code''
               ''access_code_used_at''
               [(''redirect_url'', opt_str (ac_redirect c)), (''requested_ip_address'', opt_str (ac_ip c)), (''identifier'', PStr (if ct_email ct then ''email'' else ''phone'')),
                (''recipient'', PStr (ct_recipient ct)), (''delivery_channel'', PStr (ct_delivery ct)),
                (''challenge_type'', PStr (challenge_type_value (ac_type c)))]
               cl ''access_code'' (''access_code:'' @ ct_delivery ct))))"

definition verify_phone_verify_code :: "auth_service \<Rightarrow> draw \<Rightarrow> uuid \<Rightarrow> string \<Rightarrow> user_row op" where
  "verify_phone_verify_code sv dr i code =
     bind_op (lock_active_challenge_user sv i) (\<lambda>u.
     let phone = user_phone u; bad = (\<lambda>reason. token_invalid ''Invalid or expired verification code'' reason) in
     if phone = [] then raise_op phone_required
     else bind_op (read_db (matching_challenge (u_id u) [PhoneVerify] (verify_phone_verify_code_hash sv (normalize_access_code code) phone))) (\<lambda>match.
       case match of
         None \<Rightarrow> raise_op (bad ''token_not_found'')
       | Some c \<Rightarrow>
           if ac_expires c < dr_now dr then raise_op (challenge_expired sv ''Verification code has expired'' c)
           else if ac_recipient c \<noteq> phone then raise_op (bad ''phone_mismatch'')
           else let v = u\<lparr>u_phone_verified := True\<rparr> in
             bind_op (write_db (consumed (dr_now dr) (ac_id c))) (\<lambda>_.
             bind_op (save_user v) (\<lambda>_.
             bind_op (user_event sv ''profile'' ''user.phone_verified'' ''verify_phone_verify_code'' v
               (Some [(''phone_verified'', PBool (u_phone_verified u)), (''phone'', PStr phone)])
               (Some [(''phone_verified'', PBool True), (''phone'', PStr phone)])
               (Some [(''phone_verify_used_at'', time_val (Some (dr_now dr)))]) (dr_now dr)) (\<lambda>_. ret v)))))"

definition magic_link_of :: "auth_service \<Rightarrow> string \<Rightarrow> challenge_row \<Rightarrow> bool" where
  "magic_link_of sv token c \<longleftrightarrow> ac_hash c = hash_token sv token \<and> ac_type c = MagicLink"

definition find_challenge :: "(challenge_row \<Rightarrow> bool) \<Rightarrow> challenge_row option op" where
  "find_challenge p = bind_op (read_db tb_challenges) (\<lambda>cs. lift_op (scalar_one_or_none p cs))"

definition verify_magic_link :: "auth_service \<Rightarrow> draw \<Rightarrow> string \<Rightarrow> client \<Rightarrow> (user_row \<times> token_pair) op" where
  "verify_magic_link sv dr token cl =
     bind_op (find_challenge (magic_link_of sv token)) (\<lambda>owner.
     case owner of
       None \<Rightarrow> raise_op (token_invalid ''Invalid or expired magic link'' ''token_not_found'')
     | Some o0 \<Rightarrow>
         bind_op (lock_active_challenge_user sv (ac_user o0)) (\<lambda>u.
         bind_op (find_challenge (magic_link_of sv token)) (\<lambda>found.
         case found of
           None \<Rightarrow> raise_op (token_invalid ''Invalid or expired magic link'' ''token_not_found'')
         | Some c \<Rightarrow>
             if ac_used_at c \<noteq> None then raise_op (token_invalid ''Magic link has already been used'' ''token_used'')
             else if ac_expires c < dr_now dr then raise_op (challenge_expired sv ''Magic link has expired'' c)
             else accept_challenge sv dr u c True ''MAGIC_LINK'' ''user.magic_link_verified'' ''verify_magic_link'' ''magic_link_used_at''
               [(''redirect_url'', opt_str (ac_redirect c)), (''requested_ip_address'', opt_str (ac_ip c))] cl ''magic_link'' ''magic_link'')))"

text \<open>What a verified challenge hands to the response: its profile and the address to go to.\<close>

definition verified_context :: "challenge_row \<Rightarrow> carriers \<Rightarrow> carriers" where
  "verified_context c k =
     (if ac_profile c \<noteq> None \<or> ac_next c \<noteq> None then stash_verified_challenge (ac_profile c) (ac_next c) k else k)"

section \<open>Passwords and invitations\<close>

definition reset_row :: "datetime \<Rightarrow> string \<Rightarrow> user_row \<Rightarrow> user_row" where
  "reset_row now hashed u = (unlocked u)\<lparr>u_hashed_password := Some hashed, u_last_password_change := Some now,
     u_reset_token := None, u_reset_expires := None\<rparr>"

definition reset_state :: "user_row \<Rightarrow> snapshot" where
  "reset_state u = (''last_password_change'', time_val (u_last_password_change u)) # lock_state u
     @ [(''password_reset_expires'', time_val (u_reset_expires u))]"

text \<open>The row after the generation has advanced; its other columns are those just written.\<close>

definition reset_password :: "auth_service \<Rightarrow> draw \<Rightarrow> string \<Rightarrow> string \<Rightarrow> user_row op" where
  "reset_password sv dr token new_password =
     (let now = dr_now dr in
      bind_op (find_user (\<lambda>u. u_reset_token u = Some (hash_token sv token))) (\<lambda>found.
      case found of
        None \<Rightarrow> raise_op (token_invalid ''Invalid or expired reset token'' ''token_not_found'')
      | Some u \<Rightarrow>
          bind_op (lift_op (check_user_status sv u)) (\<lambda>_.
          if (case u_reset_expires u of None \<Rightarrow> True | Some t \<Rightarrow> t < now)
          then bind_op (save_user (u\<lparr>u_reset_token := None, u_reset_expires := None\<rparr>)) (\<lambda>_.
            bind_op commit_op (\<lambda>_. raise_op (Auth TokenExpiredError ''Reset token has expired'' [(''expired_at'', PNone)])))
          else bind_op (lift_op (generate_password_hash (as_hasher sv) new_password (as_password sv))) (\<lambda>hashed.
            let v = reset_row now hashed u in
            bind_op (save_user v) (\<lambda>_.
            bind_op (revoke_all_user_tokens sv now (u_id u) ''Password reset'' None) (\<lambda>n.
            bind_op (user_event sv ''credential'' ''user.password_reset_completed'' ''reset_password'' v (Some (reset_state u))
              (Some (reset_state v)) (Some [(''revoked_refresh_token_count'', PInt (int n))]) now) (\<lambda>_.
            ret (v\<lparr>u_epoch := Some (epoch v + 1)\<rparr>))))))))"

definition accepted_row :: "datetime \<Rightarrow> string \<Rightarrow> user_row \<Rightarrow> user_row" where
  "accepted_row now hashed u = u\<lparr>u_hashed_password := Some hashed, u_status := ''active'', u_email_verified := True,
     u_last_password_change := Some now, u_invite_token := None, u_invite_expires := None\<rparr>"

definition invite_state :: "user_row \<Rightarrow> snapshot" where
  "invite_state u = [(''status'', PStr (u_status u)), (''email_verified'', PBool (u_email_verified u)),
     (''invite_token_expires'', time_val (u_invite_expires u))]"

text \<open>An expired invitation is cleared but not committed, and the error reads the cleared date.\<close>

definition accept_invite :: "auth_service \<Rightarrow> draw \<Rightarrow> string \<Rightarrow> string \<Rightarrow> user_row op" where
  "accept_invite sv dr token new_password =
     (let now = dr_now dr in
      bind_op (find_user (\<lambda>u. u_invite_token u = Some (hash_token sv token))) (\<lambda>found.
      case found of
        None \<Rightarrow> raise_op (token_invalid ''Invalid or expired invite token'' ''token_not_found'')
      | Some u \<Rightarrow>
          if (case u_invite_expires u of None \<Rightarrow> True | Some t \<Rightarrow> t < now)
          then bind_op (save_user (u\<lparr>u_invite_token := None, u_invite_expires := None\<rparr>)) (\<lambda>_.
            raise_op (Auth TokenExpiredError ''Invite token has expired'' [(''expired_at'', PNone)]))
          else if u_status u \<noteq> ''invited''
          then raise_op (Auth AccountInactiveError ''This invitation has already been accepted'' [(''status'', PStr (u_status u))])
          else bind_op (lift_op (generate_password_hash (as_hasher sv) new_password (as_password sv))) (\<lambda>hashed.
            let v = accepted_row now hashed u in
            bind_op (save_user v) (\<lambda>_.
            bind_op (user_event sv ''invitation'' ''user.invite_accepted'' ''accept_invite'' v (Some (invite_state u))
              (Some (invite_state v)) None now) (\<lambda>_. ret v)))))"

end
