(* ===== verification/AuthProps.thy ===== *)
theory AuthProps
  imports AuthService
begin

text \<open>
  The properties of authentication, over histories of requests: lockout after failed logins, one session for
  one challenge, the containment of a reused refresh token, and the absolute lifetime of a session.
\<close>

section \<open>Requests\<close>

datatype auth_request =
    LoginRequest draw string string client "string option"
  | LogoutRequest draw string bool "string option" "bool option"
  | RefreshRequest draw string
  | RevokeAllRequest datetime uuid string "uuid option"
  | RevokeSessionRequest datetime uuid uuid string
  | ResetTokenRequest draw uuid
  | LinkRequest draw uuid challenge_spec
  | CodeRequest draw uuid "string option" "string option" challenge_spec
  | PhoneCodeRequest draw uuid client
  | ResetRequest draw string string
  | VerifyCodeRequest draw "string option" "string option" string "string option" client
  | VerifyPhoneRequest draw uuid string
  | VerifyLinkRequest draw string client
  | InviteRequest draw string string

definition run_op :: "'a op \<Rightarrow> unit op" where
  "run_op m = bind_op m (\<lambda>_. ret ())"

fun auth_op :: "auth_service \<Rightarrow> auth_request \<Rightarrow> unit op" where
  "auth_op sv (LoginRequest dr email password cl app) = run_op (login sv dr email password cl app)"
| "auth_op sv (LogoutRequest dr token requested jti redis) = run_op (logout sv dr token requested jti redis)"
| "auth_op sv (RefreshRequest dr token) = run_op (refresh_access_token sv dr token)"
| "auth_op sv (RevokeAllRequest now user reason keep) = run_op (revoke_all_user_tokens sv now user reason keep)"
| "auth_op sv (RevokeSessionRequest now user i reason) = run_op (revoke_user_session sv now user i reason)"
| "auth_op sv (ResetTokenRequest dr i) = run_op (generate_reset_token sv dr i)"
| "auth_op sv (LinkRequest dr i cs) = run_op (generate_magic_link_token sv dr i cs)"
| "auth_op sv (CodeRequest dr i recipient channel cs) = run_op (generate_access_code sv dr i recipient channel cs)"
| "auth_op sv (PhoneCodeRequest dr i cl) = run_op (generate_phone_verify_code sv dr i cl)"
| "auth_op sv (ResetRequest dr token password) = run_op (reset_password sv dr token password)"
| "auth_op sv (VerifyCodeRequest dr email phone code channel cl) = run_op (verify_access_code sv dr email phone code channel cl)"
| "auth_op sv (VerifyPhoneRequest dr i code) = run_op (verify_phone_verify_code sv dr i code)"
| "auth_op sv (VerifyLinkRequest dr token cl) = run_op (verify_magic_link sv dr token cl)"
| "auth_op sv (InviteRequest dr token password) = run_op (accept_invite sv dr token password)"

text \<open>Requests one after the other, each in a unit of work of its own.\<close>

definition auth_run :: "auth_service \<Rightarrow> auth_request list \<Rightarrow> session_state \<Rightarrow> session_state" where
  "auth_run sv rs s = foldl (\<lambda>t r. snd (unit_of_work True (auth_op sv r) t)) s rs"

section \<open>What the tables keep\<close>

text \<open>A predicate of the tables that holds of the session and of what a rollback returns to.\<close>

definition durable :: "(db \<Rightarrow> bool) \<Rightarrow> session_state \<Rightarrow> bool" where
  "durable P s \<longleftrightarrow> P (ss_db s) \<and> P (st_db (ss_saved s))"

named_theorems durable_intros "operations that keep a predicate of the tables, across rollbacks"

lemma durable_write: "(\<And>d. P d \<Longrightarrow> P (w d)) \<Longrightarrow> preserves (durable P) (write_db w)"
  by (simp add: preserves_def durable_def)

lemma durable_commit [durable_intros]: "preserves (durable P) commit_op"
  and durable_rollback [durable_intros]: "preserves (durable P) rollback_op"
  by (simp_all add: preserves_def durable_def)

lemma durable_audit [durable_intros]: "preserves (durable P) (audit_event fmt ev)"
  and durable_mark [durable_intros]: "preserves (durable P) mark_change"
  by (simp_all add: audit_event_def mark_change_def preserves_def durable_def)

lemma durable_unit_of_work:
  assumes "preserves (durable P) m" and "durable P s"
  shows "durable P (snd (unit_of_work w m s))"
proof -
  obtain r t where m: "m s = (r, t)" by (cases "m s")
  with assms have "durable P t" by (rule preservesD)
  then show ?thesis using m by (auto simp: unit_of_work_def durable_def split: sum.split)
qed

lemma durable_run:
  "(\<And>r. preserves (durable P) (auth_op sv r)) \<Longrightarrow> durable P s \<Longrightarrow> durable P (auth_run sv rs s)"
  unfolding auth_run_def by (induction rs arbitrary: s) (auto intro: durable_unit_of_work)

lemma preserves_case_prod [inv_intros]: "(\<And>a b. preserves I (f a b)) \<Longrightarrow> preserves I (case p of (a, b) \<Rightarrow> f a b)"
  by (cases p) auto

lemmas auth_base_defs = find_user_def find_refresh_def find_challenge_def save_user_def user_event_def sign_in_gate_def
  login_failed_def login_succeeded_def login_def create_tokens_for_user_def logout_def advance_epoch_def revoke_all_user_tokens_def
  revoke_user_session_def lock_active_challenge_user_def generate_reset_token_def
  generate_magic_link_token_def generate_access_code_def generate_phone_verify_code_def accept_challenge_def challenge_session_def verify_access_code_def
  verify_phone_verify_code_def verify_magic_link_def reset_password_def accept_invite_def run_op_def

lemmas auth_defs = auth_base_defs mint_def open_session_def contain_reuse_def refuse_refresh_row_def usable_refresh_row_def
  revoke_family_def session_over_def check_refresh_user_def rotate_session_def continue_session_def refresh_access_token_def

section \<open>Lookups\<close>

text \<open>A lookup leaves the session alone: what follows continues in the same one.\<close>

lemma bind_find [simp]:
  "bind_op (find_user p) k s = (case scalar_one_or_none p (tb_users (ss_db s)) of Inl e \<Rightarrow> (Inl e, s) | Inr x \<Rightarrow> k x s)"
  "bind_op (find_refresh q) l s = (case scalar_one_or_none q (tb_refresh_tokens (ss_db s)) of Inl e \<Rightarrow> (Inl e, s) | Inr x \<Rightarrow> l x s)"
  "bind_op (find_challenge r) m s = (case scalar_one_or_none r (tb_challenges (ss_db s)) of Inl e \<Rightarrow> (Inl e, s) | Inr x \<Rightarrow> m x s)"
  by (simp_all add: find_user_def find_refresh_def find_challenge_def bind_op_def split: sum.split)

lemma scalar_found: "scalar_one_or_none p rows = Inr (Some x) \<Longrightarrow> x \<in> set rows \<and> p x"
proof -
  assume "scalar_one_or_none p rows = Inr (Some x)"
  then have "filter p rows = [x]" by (auto simp: scalar_one_or_none_def split: list.splits)
  then have "x \<in> set (filter p rows)" by simp
  then show ?thesis by simp
qed

lemma scalar_unique: "filter p rows = [x] \<Longrightarrow> scalar_one_or_none p rows = Inr (Some x)"
  by (simp add: scalar_one_or_none_def)

lemma scalar_key:
  assumes "distinct (map key rows)"
  shows "\<exists>x. scalar_one_or_none (\<lambda>r. key r = i) rows = Inr x"
proof -
  have "length (filter (\<lambda>r. key r = i) rows) \<le> 1"
    using assms by (induction rows) (auto simp: filter_empty_conv image_iff dest: sym)
  then show ?thesis by (cases "filter (\<lambda>r. key r = i) rows" rule: remdups_adj.cases) (auto simp: scalar_one_or_none_def)
qed

lemma lock_active_simps [simp]:
  "bind_op (lock_active_challenge_user sv i) k s =
     (case scalar_one_or_none (\<lambda>u. u_id u = i) (tb_users (ss_db s)) of
        Inl e \<Rightarrow> (Inl e, s)
      | Inr None \<Rightarrow> (Inl (user_missing i), s)
      | Inr (Some u) \<Rightarrow> (case check_user_status sv u of Inl e \<Rightarrow> (Inl e, s) | Inr _ \<Rightarrow> k u s))"
  by (simp add: lock_active_challenge_user_def bind_op_assoc split: sum.split option.split)

section \<open>One challenge, one session\<close>

text \<open>A used magic link stays used: no operation clears the mark, and no row is deleted.\<close>

definition link_used :: "string \<Rightarrow> db \<Rightarrow> bool" where
  "link_used h d \<longleftrightarrow> (\<exists>c \<in> set (tb_challenges d). ac_hash c = h \<and> ac_type c = MagicLink \<and> ac_used_at c \<noteq> None)"

lemma link_used_other [simp]:
  "link_used h (put_user u d) = link_used h d"
  "link_used h (bump_epoch i d) = link_used h d"
  "link_used h (change_refresh t f d) = link_used h d"
  "link_used h (add_refresh t d) = link_used h d"
  "link_used h (update_refresh p f d) = link_used h d"
  by (simp_all add: link_used_def put_user_def bump_epoch_def change_refresh_def add_refresh_def update_refresh_def)

lemma link_used_update: "link_used h d \<Longrightarrow> link_used h (update_challenge p (use_challenge now) d)"
proof -
  assume "link_used h d"
  then obtain c where c: "c \<in> set (tb_challenges d)" "ac_hash c = h" "ac_type c = MagicLink" "ac_used_at c \<noteq> None"
    unfolding link_used_def by blast
  let ?c = "if p c then use_challenge now c else c"
  have "?c \<in> set (tb_challenges (update_challenge p (use_challenge now) d))" using c(1) by (auto simp: update_challenge_def)
  moreover have "ac_hash ?c = h \<and> ac_type ?c = MagicLink \<and> ac_used_at ?c \<noteq> None" using c by (simp add: use_challenge_def)
  ultimately show ?thesis unfolding link_used_def by blast
qed

lemma link_used_marked:
  assumes "c \<in> set (tb_challenges d)" "p c" "ac_hash c = h" "ac_type c = MagicLink"
  shows "link_used h (update_challenge p (use_challenge now) d)"
proof -
  have "use_challenge now c \<in> set (tb_challenges (update_challenge p (use_challenge now) d))"
    using assms(1,2) by (force simp: update_challenge_def)
  moreover have "ac_hash (use_challenge now c) = h \<and> ac_type (use_challenge now c) = MagicLink
      \<and> ac_used_at (use_challenge now c) \<noteq> None" using assms(3,4) by (simp add: use_challenge_def)
  ultimately show ?thesis unfolding link_used_def by blast
qed

lemma link_used_issue: "link_used h d \<Longrightarrow> link_used h (issue_challenge now c d)"
  using link_used_update [of h d _ now] by (fastforce simp: link_used_def issue_challenge_def Let_def)

lemma link_used_consumed: "link_used h d \<Longrightarrow> link_used h (consumed now i d)"
  unfolding consumed_def by (rule link_used_update)

lemma link_used_writes [durable_intros]:
  "preserves (durable (link_used h)) (write_db (put_user u))"
  "preserves (durable (link_used h)) (write_db (bump_epoch i))"
  "preserves (durable (link_used h)) (write_db (change_refresh t f))"
  "preserves (durable (link_used h)) (write_db (add_refresh t))"
  "preserves (durable (link_used h)) (write_db (update_refresh p f))"
  "preserves (durable (link_used h)) (write_db (issue_challenge now c))"
  "preserves (durable (link_used h)) (write_db (consumed now i))"
  by (simp_all add: durable_write link_used_issue link_used_consumed)

lemma link_used_op: "preserves (durable (link_used h)) (auth_op sv r)"
  apply (cases r)
  apply (simp_all only: auth_op.simps auth_defs Let_def)
  apply (intro inv_intros durable_intros)+
  done

text \<open>What the later steps of an operation keep, whatever was saved before.\<close>

named_theorems table_intros "steps that keep a predicate of the tables"

lemma table_audit [table_intros]: "preserves (\<lambda>s. P (ss_db s)) (audit_event fmt ev)"
  and table_write: "(\<And>d. P d \<Longrightarrow> P (w d)) \<Longrightarrow> preserves (\<lambda>s. P (ss_db s)) (write_db w)"
  by (simp_all add: audit_event_def preserves_def)

lemma table_run: "preserves (\<lambda>s. P (ss_db s)) m \<Longrightarrow> m s = (r, t) \<Longrightarrow> P (ss_db s) \<Longrightarrow> P (ss_db t)"
  unfolding preserves_def by (metis snd_conv)

lemma link_used_steps [table_intros]:
  "preserves (\<lambda>s. link_used h (ss_db s)) (write_db (put_user u))"
  "preserves (\<lambda>s. link_used h (ss_db s)) (write_db (add_refresh t))"
  by (simp_all add: table_write)

lemma accept_challenge_uses:
  assumes "accept_challenge sv dr u c verifies method typ src key meta cl device auth s = (Inr r, t)"
    and "c \<in> set (tb_challenges (ss_db s))" and "ac_hash c = h" and "ac_type c = MagicLink"
  shows "link_used h (ss_db t)"
proof -
  have used: "link_used h (consumed (dr_now dr) (ac_id c) (ss_db s))"
    unfolding consumed_def by (rule link_used_marked [OF assms(2) refl assms(3,4)])
  have run: "challenge_session sv dr u c verifies method typ src key meta cl device auth
      (s\<lparr>ss_db := consumed (dr_now dr) (ac_id c) (ss_db s)\<rparr>) = (Inr r, t)"
    using assms(1) unfolding accept_challenge_def
    by (cases "check_user_status sv u") (auto split: if_splits)
  have pres: "preserves (\<lambda>s. link_used h (ss_db s)) (challenge_session sv dr u c verifies method typ src key meta cl device auth)"
    unfolding auth_defs Let_def by (intro inv_intros table_intros)
  show ?thesis by (rule table_run [OF pres run]) (simp add: used)
qed

lemma magic_link_accepted:
  assumes "verify_magic_link sv dr token cl s = (Inr r, q)"
  shows "link_used (hash_token sv token) (ss_db q)"
proof -
  obtain u c where c: "c \<in> set (tb_challenges (ss_db s))" "magic_link_of sv token c"
    and run: "accept_challenge sv dr u c True ''MAGIC_LINK'' ''user.magic_link_verified'' ''verify_magic_link'' ''magic_link_used_at''
       [(''redirect_url'', opt_str (ac_redirect c)), (''requested_ip_address'', opt_str (ac_ip c))] cl ''magic_link'' ''magic_link'' s = (Inr r, q)"
    using assms scalar_found [of "magic_link_of sv token" "tb_challenges (ss_db s)"] unfolding verify_magic_link_def
    by (auto split: sum.splits option.splits if_splits)
  from run c show ?thesis by (auto simp: magic_link_of_def intro: accept_challenge_uses)
qed

lemma used_link_refused:
  assumes "link_used (hash_token sv token) (ss_db s)"
  shows "\<exists>e. fst (verify_magic_link sv dr token cl s) = Inl e"
proof -
  obtain c where c: "c \<in> set (tb_challenges (ss_db s))" "magic_link_of sv token c" "ac_used_at c \<noteq> None"
    using assms unfolding link_used_def magic_link_of_def by blast
  have found: "x = c" if "scalar_one_or_none (magic_link_of sv token) (tb_challenges (ss_db s)) = Inr (Some x)" for x
  proof -
    from that have "filter (magic_link_of sv token) (tb_challenges (ss_db s)) = [x]"
      by (auto simp: scalar_one_or_none_def split: list.splits)
    moreover have "c \<in> set (filter (magic_link_of sv token) (tb_challenges (ss_db s)))" using c by simp
    ultimately show ?thesis by simp
  qed
  show ?thesis using c(3) found unfolding verify_magic_link_def
    by (auto split: sum.splits option.splits)
qed

text \<open>
  C16. A magic link opens at most one session: once a link has been accepted, every later attempt with the
  same link raises, whatever requests are served in between.
\<close>

theorem magic_link_opens_one_session:
  assumes "unit_of_work True (verify_magic_link sv dr token cl) s = (Inr r, t)"
  shows "\<exists>e. fst (unit_of_work True (verify_magic_link sv later token cl') (auth_run sv rs t)) = Inl e"
proof -
  let ?h = "hash_token sv token" and ?u = "auth_run sv rs t"
  obtain q where "verify_magic_link sv dr token cl s = (Inr r, q)" and t: "t = committed q"
    using assms by (auto simp: unit_of_work_def split: prod.splits sum.splits)
  then have "link_used ?h (ss_db q)" by (intro magic_link_accepted)
  then have "durable (link_used ?h) t" by (simp add: t durable_def)
  then have "durable (link_used ?h) ?u" by (rule durable_run [OF link_used_op])
  then obtain e where "fst (verify_magic_link sv later token cl' ?u) = Inl e"
    using used_link_refused unfolding durable_def by blast
  then show ?thesis by (cases "verify_magic_link sv later token cl' ?u") (auto simp: unit_of_work_def)
qed

section \<open>Lockout\<close>

text \<open>The one account with an address, in the session and in the tables a rollback returns to.\<close>

definition account_at :: "string \<Rightarrow> user_row \<Rightarrow> session_state \<Rightarrow> bool" where
  "account_at address u s \<longleftrightarrow> distinct (map u_id (tb_users (ss_db s)))
     \<and> filter (\<lambda>x. u_email x = address) (tb_users (ss_db s)) = [u] \<and> st_db (ss_saved s) = ss_db s"

lemma account_after_write:
  assumes "account_at address u s" and "u_id v = u_id u" and "u_email v = u_email u"
    and "ss_db t = put_user v (ss_db s)" and "st_db (ss_saved t) = ss_db t"
  shows "account_at address v t"
proof -
  let ?us = "tb_users (ss_db s)"
  from assms(1) have one: "filter (\<lambda>x. u_email x = address) ?us = [u]" and d: "distinct (map u_id ?us)"
    by (simp_all add: account_at_def)
  then have u: "u \<in> set ?us" "u_email u = address" by (auto simp: filter_eq_Cons_iff)
  have same: "filter (\<lambda>x. u_email x = address) (set_row u_id v ?us)
      = map (\<lambda>y. if u_id y = u_id v then v else y) (filter (\<lambda>x. u_email x = address) ?us)"
    unfolding set_row_def filter_map
    by (rule arg_cong [where f = "map _"], rule filter_cong)
      (use d u assms(2,3) in \<open>auto simp: distinct_map dest: inj_onD\<close>)
  with assms(2) have "filter (\<lambda>x. u_email x = address) (set_row u_id v ?us) = [v]" by (simp add: one)
  with d assms(4,5) show ?thesis by (simp add: account_at_def put_user_def)
qed

text \<open>One failed login, as a request: the failure is counted although the request ends in an error.\<close>

lemma failed_login:
  assumes "validate_email email = Inr address" and "account_at address u s" and "\<not> is_locked (dr_now dr) u"
    and "u_status u = ''active''" and "\<not> fst (password_verdict sv u password)"
  shows "fst (unit_of_work True (login sv dr email password cl app) s) = Inl invalid_credentials"
    and "account_at address (failed_user sv (dr_now dr) u) (snd (unit_of_work True (login sv dr email password cl app) s))"
proof -
  let ?v = "failed_user sv (dr_now dr) u"
  have "filter (\<lambda>x. u_email x = address) (tb_users (ss_db s)) = [u]" using assms(2) by (simp add: account_at_def)
  then have step: "login sv dr email password cl app s = login_failed sv dr u s"
    using assms by (cases "password_verdict sv u password") (simp add: login_def scalar_unique check_user_status_def)
  obtain t where t: "(login_failed sv dr u :: (user_row \<times> token_pair) op) s = (Inl invalid_credentials, committed t)" "ss_db t = put_user ?v (ss_db s)"
    by (cases "as_audit sv") (simp_all add: login_failed_def save_user_def user_event_def audit_event_def Let_def)
  with step have run: "unit_of_work True (login sv dr email password cl app) s = (Inl invalid_credentials, rolled_back (committed t))"
    by (simp add: unit_of_work_def)
  then show "fst (unit_of_work True (login sv dr email password cl app) s) = Inl invalid_credentials" by simp
  have "ss_db (rolled_back (committed t)) = put_user ?v (ss_db s)" using t(2) by simp
  then show "account_at address ?v (snd (unit_of_work True (login sv dr email password cl app) s))"
    using account_after_write [OF assms(2), of ?v] by (simp add: run failed_user_def Let_def)
qed

type_synonym attempt = "draw \<times> string \<times> client \<times> string option"

definition attempts :: "auth_service \<Rightarrow> string \<Rightarrow> attempt list \<Rightarrow> session_state \<Rightarrow> session_state" where
  "attempts sv email tries s = foldl (\<lambda>t (dr, password, cl, app). snd (unit_of_work True (login sv dr email password cl app) t)) s tries"

definition wrong_tries :: "auth_service \<Rightarrow> user_row \<Rightarrow> attempt list \<Rightarrow> bool" where
  "wrong_tries sv u tries \<longleftrightarrow> list_all (\<lambda>(dr, password, cl, app). \<not> fst (password_verdict sv u password)) tries"

text \<open>Below the limit nothing is locked; the attempt that reaches it locks.\<close>

lemma wrong_attempts:
  assumes "validate_email email = Inr address" and "account_at address u s" and "u_status u = ''active''"
    and "u_locked_until u = None" and "wrong_tries sv u tries" and "u_failed_logins u + int (length tries) \<le> as_max_attempts sv"
  shows "\<exists>v. account_at address v (attempts sv email tries s) \<and> u_failed_logins v = u_failed_logins u + int (length tries)
     \<and> u_hashed_password v = u_hashed_password u \<and> u_status v = ''active''
     \<and> u_locked_until v = (if tries \<noteq> [] \<and> u_failed_logins u + int (length tries) = as_max_attempts sv
          then Some (dr_now (fst (last tries)) + as_lockout_minutes sv * minute_usec) else None)"
  using assms(2-)
proof (induction tries arbitrary: u s)
  case Nil
  then show ?case by (auto simp: attempts_def)
next
  case (Cons x tries)
  obtain dr password cl app where x: "x = (dr, password, cl, app)" by (cases x) auto
  let ?v = "failed_user sv (dr_now dr) u" and ?t = "snd (unit_of_work True (login sv dr email password cl app) s)"
  have "\<not> is_locked (dr_now dr) u" using Cons.prems by (simp add: is_locked_def)
  moreover have "\<not> fst (password_verdict sv u password)" using Cons.prems x by (simp add: wrong_tries_def)
  ultimately have at_v: "account_at address ?v ?t" using failed_login(2) [OF assms(1)] Cons.prems by blast
  have step: "attempts sv email (x # tries) s = attempts sv email tries ?t" by (simp add: attempts_def x)
  have v: "u_failed_logins ?v = u_failed_logins u + 1" "u_hashed_password ?v = u_hashed_password u" "u_status ?v = ''active''"
    using Cons.prems by (simp_all add: failed_user_def Let_def)
  show ?case
  proof (cases "tries = []")
    case True
    then show ?thesis using at_v Cons.prems v
      by (auto simp: step x attempts_def failed_user_def Let_def intro!: exI [of _ ?v])
  next
    case False
    then have "u_failed_logins u + 1 < as_max_attempts sv" using Cons.prems by (cases tries) auto
    then have "u_locked_until ?v = None" using Cons.prems by (simp add: failed_user_def Let_def)
    moreover have "wrong_tries sv ?v tries"
      using Cons.prems v by (simp add: wrong_tries_def password_verdict_def)
    ultimately show ?thesis
      using Cons.IH [OF at_v] Cons.prems v False by (auto simp: step algebra_simps)
  qed
qed

lemma locked_login:
  assumes "validate_email email = Inr address" and "account_at address u s" and "is_locked (dr_now dr) u"
  shows "login sv dr email password cl app s = (Inl invalid_credentials, s)"
proof -
  have "filter (\<lambda>x. u_email x = address) (tb_users (ss_db s)) = [u]" using assms(2) by (simp add: account_at_def)
  then show ?thesis using assms(1,3) by (simp add: login_def scalar_unique)
qed


section \<open>Signing out everywhere\<close>

text \<open>No refresh token of the account is left, and its security generation has moved on.\<close>

definition signed_out :: "uuid \<Rightarrow> db \<Rightarrow> db \<Rightarrow> bool" where
  "signed_out i d e \<longleftrightarrow> (\<forall>t \<in> set (tb_refresh_tokens e). rt_user t = i \<longrightarrow> rt_revoked t)
     \<and> (\<forall>v \<in> set (tb_users e). u_id v = i \<longrightarrow> (\<exists>u \<in> set (tb_users d). u_id u = i \<and> epoch v = epoch u + 1))"

lemma advance_epoch_run:
  "\<exists>n t. advance_epoch i s = (Inr n, t) \<and> ss_db t = bump_epoch i (ss_db s) \<and> ss_saved t = ss_saved s"
  by (auto simp: advance_epoch_def mark_change_def split: option.split)

lemma revoke_all_run:
  assumes "as_store sv"
  shows "\<exists>n t. revoke_all_user_tokens sv now i reason None s = (Inr n, t) \<and> ss_saved t = ss_saved s
    \<and> ss_db t = update_refresh (\<lambda>x. rt_user x = i \<and> \<not> rt_revoked x) (revoke_refresh now reason) (bump_epoch i (ss_db s))"
proof -
  obtain n t where "advance_epoch i s = (Inr n, t)" "ss_db t = bump_epoch i (ss_db s)" "ss_saved t = ss_saved s"
    using advance_epoch_run by blast
  then show ?thesis using assms by (simp add: revoke_all_user_tokens_def bind_op_assoc bind_op_run Let_def)
qed

lemma signed_out_revoke_all:
  "signed_out i d (update_refresh (\<lambda>x. rt_user x = i \<and> \<not> rt_revoked x) (revoke_refresh now reason) (bump_epoch i d))"
proof -
  have "rt_revoked (if rt_user x = i \<and> \<not> rt_revoked x then revoke_refresh now reason x else x)"
    if "rt_user (if rt_user x = i \<and> \<not> rt_revoked x then revoke_refresh now reason x else x) = i" for x
    using that by (simp add: revoke_refresh_def split: if_splits)
  then have tokens: "rt_user t = i \<longrightarrow> rt_revoked t"
    if "t \<in> set (map (\<lambda>x. if rt_user x = i \<and> \<not> rt_revoked x then revoke_refresh now reason x else x) (tb_refresh_tokens d))" for t
    using that by (auto simp only: set_map)
  have users: "u_id v = i \<longrightarrow> (\<exists>u \<in> set (tb_users d). u_id u = i \<and> epoch v = epoch u + 1)"
    if v: "v \<in> set (map (\<lambda>u. if u_id u = i then u\<lparr>u_epoch := Some (epoch u + 1)\<rparr> else u) (tb_users d))" for v
  proof
    assume "u_id v = i"
    moreover obtain u where "u \<in> set (tb_users d)" "v = (if u_id u = i then u\<lparr>u_epoch := Some (epoch u + 1)\<rparr> else u)"
      using v by (auto simp only: set_map)
    ultimately show "\<exists>u \<in> set (tb_users d). u_id u = i \<and> epoch v = epoch u + 1"
      by (cases "u_id u = i") (auto simp: epoch_def intro!: bexI [of _ u])
  qed
  let ?e = "update_refresh (\<lambda>x. rt_user x = i \<and> \<not> rt_revoked x) (revoke_refresh now reason) (bump_epoch i d)"
  have rows: "tb_refresh_tokens ?e = map (\<lambda>x. if rt_user x = i \<and> \<not> rt_revoked x then revoke_refresh now reason x else x) (tb_refresh_tokens d)"
    and accounts: "tb_users ?e = map (\<lambda>u. if u_id u = i then u\<lparr>u_epoch := Some (epoch u + 1)\<rparr> else u) (tb_users d)"
    by (simp_all add: update_refresh_def bump_epoch_def)
  show ?thesis
    unfolding signed_out_def rows accounts by (intro conjI ballI tokens users)
qed

text \<open>Whoever is signed out has no access token and no refresh token that still works.\<close>

definition token_refused :: "auth_service \<Rightarrow> datetime \<Rightarrow> string \<Rightarrow> session_state \<Rightarrow> bool" where
  "token_refused sv now token s \<longleftrightarrow> isl (fst (get_current_user sv now token s))"

lemma stale_access_refused:
  assumes "verify_token (as_jwt sv) (as_secret sv) now token (Some ''access'') (Some (as_audience sv)) = Inr c"
    and "claim c ''sub'' = PStr i" and "\<forall>v \<in> set (tb_users (ss_db s)). u_id v = i \<longrightarrow> \<not> proof_is_current c v"
  shows "token_refused sv now token s"
proof (cases "i = []")
  case True
  then show ?thesis using assms(1,2) by (simp add: token_refused_def get_current_user_def claimed_user_def)
next
  case False
  have current: "\<not> proof_is_current c v" if "scalar_one_or_none (\<lambda>u. u_id u = i) (tb_users (ss_db s)) = Inr (Some v)" for v
    using scalar_found [OF that] assms(3) by blast
  show ?thesis
  proof (cases "scalar_one_or_none (\<lambda>u. u_id u = i) (tb_users (ss_db s))")
    case (Inl e)
    then show ?thesis using False assms(1,2) by (simp add: token_refused_def get_current_user_def claimed_user_def)
  next
    case (Inr found)
    show ?thesis
    proof (cases found)
      case None
      then show ?thesis using Inr False assms(1,2) by (simp add: token_refused_def get_current_user_def claimed_user_def)
    next
      case (Some v)
      with Inr current have "\<not> proof_is_current c v" by simp
      then show ?thesis using Some Inr False assms(1,2)
        by (cases "check_user_status sv v") (simp_all add: token_refused_def get_current_user_def claimed_user_def)
    qed
  qed
qed

lemma revoked_refresh_refused:
  assumes "as_store sv" and "\<forall>t \<in> set (tb_refresh_tokens (ss_db s)). rt_hash t = hash_token sv token \<longrightarrow> rt_revoked t"
  shows "isl (fst (refresh_access_token sv dr token s))"
proof -
  have "isl (fst (usable_refresh_row sv (dr_now dr) token s))"
  proof (cases "scalar_one_or_none (\<lambda>t. rt_hash t = hash_token sv token) (tb_refresh_tokens (ss_db s))")
    case (Inl e)
    then show ?thesis using assms(1) by (simp add: usable_refresh_row_def)
  next
    case (Inr found)
    show ?thesis
    proof (cases found)
      case None
      then show ?thesis using Inr assms(1) by (simp add: usable_refresh_row_def)
    next
      case (Some t)
      have "t \<in> set (tb_refresh_tokens (ss_db s)) \<and> rt_hash t = hash_token sv token"
        by (rule scalar_found [OF Inr [unfolded Some]])
      with assms(2) have revoked: "rt_revoked t" by blast
      obtain n u where "revoke_all_user_tokens sv (dr_now dr) (rt_user t) ''Refresh token reuse detected'' None (rolled_back s) = (Inr n, u)"
        using revoke_all_run [OF assms(1)] by blast
      then have "isl (fst ((contain_reuse sv (dr_now dr) t :: refresh_token_row option op) s))" by (simp add: contain_reuse_def bind_op_run)
      then have "isl (fst ((refuse_refresh_row sv (dr_now dr) t :: refresh_token_row option op) s))" using revoked by (simp add: refuse_refresh_row_def)
      then show ?thesis using assms(1) Inr Some revoked by (simp add: usable_refresh_row_def refresh_valid_def)
    qed
  qed
  then have "isl (fst (bind_op (usable_refresh_row sv (dr_now dr) token) k s))" for k :: "refresh_token_row option \<Rightarrow> 'a op"
    by (auto simp: bind_op_def split: prod.split sum.split)
  then have refused: "isl (fst (bind_op (usable_refresh_row sv (dr_now dr) token) (continue_session sv dr c i found) s))" for c i found .
  show ?thesis
  proof (cases "refresh_claims_of sv (dr_now dr) token")
    case (Inl e)
    then show ?thesis by (simp add: refresh_access_token_def)
  next
    case (Inr c)
    show ?thesis
    proof (cases "claimed_user c (refresh_invalid ''Invalid refresh token: missing user ID'' ''No user ID in token'' [])")
      case (Inl e)
      then show ?thesis by (simp add: refresh_access_token_def \<open>refresh_claims_of sv (dr_now dr) token = Inr c\<close>)
    next
      case (Inr i)
      then show ?thesis using refused
        by (simp add: refresh_access_token_def \<open>refresh_claims_of sv (dr_now dr) token = Inr c\<close> split: sum.split)
    qed
  qed
qed

lemma signed_out_access:
  assumes "signed_out i d (ss_db s)" and "distinct (map u_id (tb_users d))" and "u \<in> set (tb_users d)" and "u_id u = i"
    and "verify_token (as_jwt sv) (as_secret sv) now token (Some ''access'') (Some (as_audience sv)) = Inr c"
    and "claim c ''sub'' = PStr i" and "proof_is_current c u"
  shows "token_refused sv now token s"
proof (rule stale_access_refused [OF assms(5,6)], intro ballI impI)
  fix v assume "v \<in> set (tb_users (ss_db s))" "u_id v = i"
  with assms(1) obtain w where "w \<in> set (tb_users d)" "u_id w = i" "epoch v = epoch w + 1" unfolding signed_out_def by blast
  moreover from this assms(2-4) have "w = u" by (auto simp: distinct_map dest: inj_onD)
  ultimately show "\<not> proof_is_current c v" using proof_of_old_generation [OF assms(7), of v] by simp
qed

text \<open>A rotated refresh token that is used again: the containment is what the request leaves behind.\<close>

lemma contained_reuse:
  assumes "as_store sv" and "refresh_claims_of sv (dr_now dr) token = Inr c" and "claim c ''sub'' = PStr i" and "i \<noteq> []"
    and "distinct (map u_id (tb_users (ss_db s)))"
    and "filter (\<lambda>t. rt_hash t = hash_token sv token) (tb_refresh_tokens (ss_db s)) = [t]"
    and "rt_revoked t" and "rt_revoked_reason t = Some ''rotated''" and "st_db (ss_saved s) = ss_db s"
  shows "\<exists>e. fst (unit_of_work True (refresh_access_token sv dr token) s) = Inl e"
    and "signed_out (rt_user t) (ss_db s) (ss_db (snd (unit_of_work True (refresh_access_token sv dr token) s)))"
proof -
  obtain n u where u: "revoke_all_user_tokens sv (dr_now dr) (rt_user t) ''Refresh token reuse detected'' None (rolled_back s) = (Inr n, u)"
    "ss_db u = update_refresh (\<lambda>x. rt_user x = rt_user t \<and> \<not> rt_revoked x) (revoke_refresh (dr_now dr) ''Refresh token reuse detected'')
        (bump_epoch (rt_user t) (ss_db s))"
    using revoke_all_run [OF assms(1), of "dr_now dr" "rt_user t" "''Refresh token reuse detected''" "rolled_back s"] assms(9) by auto
  have users: "\<exists>x. scalar_one_or_none (\<lambda>u. u_id u = i) (tb_users (ss_db s)) = Inr x"
    using assms(5) by (rule scalar_key)
  obtain e where "refresh_access_token sv dr token s = (Inl e, committed u)"
    using users u(1) assms(1-4,6-8) scalar_unique [OF assms(6)]
    by (auto simp: refresh_access_token_def claimed_user_def usable_refresh_row_def bind_op_assoc refresh_valid_def
        refuse_refresh_row_def contain_reuse_def bind_op_run)
  then have run: "unit_of_work True (refresh_access_token sv dr token) s = (Inl e, rolled_back (committed u))"
    by (simp add: unit_of_work_def)
  then show "\<exists>e. fst (unit_of_work True (refresh_access_token sv dr token) s) = Inl e" by simp
  show "signed_out (rt_user t) (ss_db s) (ss_db (snd (unit_of_work True (refresh_access_token sv dr token) s)))"
    using u(2) signed_out_revoke_all by (simp add: run)
qed

text \<open>
  C12. Reuse of a rotated refresh token signs the account out everywhere. The request is refused, and although
  it ends in an error the tables afterwards have no refresh token of the account that can be refreshed and
  no access token that was valid before is accepted.
\<close>

theorem reuse_signs_out_everywhere:
  assumes "as_store sv" and "refresh_claims_of sv (dr_now dr) token = Inr c" and "claim c ''sub'' = PStr i" and "i \<noteq> []"
    and "distinct (map u_id (tb_users (ss_db s)))" and "u \<in> set (tb_users (ss_db s))" and "u_id u = rt_user t"
    and "filter (\<lambda>t. rt_hash t = hash_token sv token) (tb_refresh_tokens (ss_db s)) = [t]"
    and "rt_revoked t" and "rt_revoked_reason t = Some ''rotated''" and "st_db (ss_saved s) = ss_db s"
    and "verify_token (as_jwt sv) (as_secret sv) now access (Some ''access'') (Some (as_audience sv)) = Inr a"
    and "claim a ''sub'' = PStr (u_id u)" and "proof_is_current a u"
    and "after = snd (unit_of_work True (refresh_access_token sv dr token) s)"
    and "\<forall>x \<in> set (tb_refresh_tokens (ss_db after)). rt_hash x = hash_token sv other \<longrightarrow> rt_user x = u_id u"
  shows "isl (fst (unit_of_work True (refresh_access_token sv dr token) s)) \<and> token_refused sv now access after
     \<and> isl (fst (refresh_access_token sv later other after))"
proof -
  note contained = contained_reuse [OF assms(1-5,8-11)]
  then have out: "signed_out (u_id u) (ss_db s) (ss_db after)" by (simp add: assms(7,15))
  have "isl (fst (unit_of_work True (refresh_access_token sv dr token) s))" using contained(1) by auto
  moreover have "token_refused sv now access after" using signed_out_access [OF out assms(5,6) refl assms(12-14)] .
  moreover have "isl (fst (refresh_access_token sv later other after))"
    using revoked_refresh_refused [OF assms(1)] out assms(16) by (auto simp: signed_out_def)
  ultimately show ?thesis by blast
qed

section \<open>The absolute lifetime of a session\<close>

text \<open>The sign-in of a request: the session it opens, and when.\<close>

fun sign_in_of :: "auth_request \<Rightarrow> (uuid \<times> datetime) option" where
  "sign_in_of (LoginRequest dr email password cl app) = Some (dr_family dr, dr_now dr)"
| "sign_in_of (VerifyCodeRequest dr email phone code channel cl) = Some (dr_family dr, dr_now dr)"
| "sign_in_of (VerifyLinkRequest dr token cl) = Some (dr_family dr, dr_now dr)"
| "sign_in_of _ = None"

text \<open>Every refresh token ends at the deadline of its session, which a sign-in of that session set.\<close>

definition row_within :: "int \<Rightarrow> (uuid \<times> datetime) set \<Rightarrow> refresh_token_row \<Rightarrow> bool" where
  "row_within days opened t \<longleftrightarrow> (\<exists>q x. (rt_family t, q) \<in> opened \<and> rt_family_expires t = Some x
     \<and> x \<le> q + days * day_usec \<and> rt_expires t \<le> x)"

definition in_time :: "int \<Rightarrow> (uuid \<times> datetime) set \<Rightarrow> db \<Rightarrow> bool" where
  "in_time days opened d \<longleftrightarrow> (\<forall>t \<in> set (tb_refresh_tokens d). row_within days opened t)"

lemma in_time_other [simp]:
  "in_time days opened (put_user u d) = in_time days opened d"
  "in_time days opened (bump_epoch i d) = in_time days opened d"
  "in_time days opened (issue_challenge now c d) = in_time days opened d"
  "in_time days opened (consumed now i d) = in_time days opened d"
  by (simp_all add: in_time_def put_user_def bump_epoch_def issue_challenge_def consumed_def update_challenge_def Let_def)

lemma row_within_revoked [simp]: "row_within days opened (revoke_refresh now reason t) = row_within days opened t"
  and row_within_retired [simp]: "row_within days opened (retired_row dr t) = row_within days opened t"
  by (simp_all add: row_within_def revoke_refresh_def retired_row_def record_refresh_usage_def)

lemma in_time_update: "(\<And>t. row_within days opened (f t) = row_within days opened t) \<Longrightarrow> in_time days opened d
    \<Longrightarrow> in_time days opened (update_refresh p f d)"
  by (auto simp: in_time_def update_refresh_def)

lemma in_time_add: "row_within days opened t \<Longrightarrow> in_time days opened d \<Longrightarrow> in_time days opened (add_refresh t d)"
  by (auto simp: in_time_def add_refresh_def)

lemma in_time_writes [durable_intros]:
  "preserves (durable (in_time days opened)) (write_db (put_user u))"
  "preserves (durable (in_time days opened)) (write_db (bump_epoch i))"
  "preserves (durable (in_time days opened)) (write_db (issue_challenge now c))"
  "preserves (durable (in_time days opened)) (write_db (consumed now i))"
  "preserves (durable (in_time days opened)) (write_db (update_refresh p (revoke_refresh now reason)))"
  "preserves (durable (in_time days opened)) (write_db (change_refresh t (revoke_refresh now reason)))"
  by (simp_all add: durable_write in_time_update change_refresh_def)

lemma new_row_within:
  assumes "as_absolute_days sv = Some days" and "(dr_family dr, dr_now dr) \<in> opened"
  shows "row_within days opened (new_refresh_row sv dr u (dr_family dr) token (new_family_expiry sv (dr_now dr)) cl app)"
  using assms by (auto simp: row_within_def new_refresh_row_def new_family_expiry_def refresh_row_expiry_def)

lemma in_time_open_session [durable_intros]:
  assumes "as_absolute_days sv = Some days" and "(dr_family dr, dr_now dr) \<in> opened"
  shows "preserves (durable (in_time days opened)) (open_session sv dr u cl app)"
  unfolding open_session_def mint_def Let_def
  by (intro inv_intros durable_write in_time_add new_row_within assms)

lemma foldl_min_le: "foldl min (t :: int) us \<le> t \<and> (\<forall>z \<in> set us. foldl min t us \<le> z)"
proof (induction us arbitrary: t)
  case (Cons a us)
  from Cons.IH [of "min t a"] show ?case by auto
qed simp

lemma earliest_le: "x \<in> set ts \<Longrightarrow> \<exists>y. earliest ts = Some y \<and> y \<le> x"
  using foldl_min_le by (cases ts) (auto simp: earliest_def)

lemma stored_deadline: "held = Some t \<Longrightarrow> rt_family_expires t = Some x \<Longrightarrow> x \<in> set (stored_deadlines sv held d)"
  by (simp add: stored_deadlines_def)

lemma check_refresh_ok: "check_refresh_user sv now c i found held s = (Inr u, t) \<Longrightarrow> t = s"
  by (auto simp: check_refresh_user_def bind_op_def split: option.splits prod.splits sum.splits if_splits)

lemma sign_in_gate_same: "snd (sign_in_gate sv u app s) = s"
  by (simp add: sign_in_gate_def)

lemma in_time_checks [durable_intros]:
  "preserves (durable (in_time days opened)) (check_refresh_user sv now c i found held)"
  "preserves (durable (in_time days opened)) (session_over now held)"
  "preserves (durable (in_time days opened)) (usable_refresh_row sv now token)"
  unfolding check_refresh_user_def session_over_def usable_refresh_row_def revoke_family_def find_refresh_def refuse_refresh_row_def
    contain_reuse_def revoke_all_user_tokens_def advance_epoch_def Let_def
  by (intro inv_intros durable_intros)+

lemma in_time_rotate:
  assumes "in_time days opened (ss_db s)" and "\<forall>t \<in> set_option held. t \<in> set (tb_refresh_tokens (ss_db s))"
    and "fe = earliest (claimed @ stored_deadlines sv held (ss_db s))"
  shows "preserves (durable (in_time days opened)) (rotate_session sv dr u held fe azp)"
proof (cases held)
  case None
  then show ?thesis unfolding rotate_session_def mint_def None option.case by (intro inv_intros)
next
  case (Some t)
  with assms(1,2) have "row_within days opened t" by (simp add: in_time_def)
  then obtain q x where qx: "(rt_family t, q) \<in> opened" "rt_family_expires t = Some x" "x \<le> q + days * day_usec"
    unfolding row_within_def by blast
  have "x \<in> set (claimed @ stored_deadlines sv held (ss_db s))" using stored_deadline [OF Some qx(2)] by simp
  then obtain y where y: "fe = Some y" "y \<le> x" using earliest_le assms(3) by blast
  have "row_within days opened (replacement_row sv dr u t token fe azp)" for token
    using qx y by (auto simp: row_within_def replacement_row_def new_refresh_row_def refresh_row_expiry_def intro!: exI [of _ q])
  then show ?thesis unfolding rotate_session_def mint_def Some option.case
    by (intro inv_intros durable_write in_time_add) (simp_all add: change_refresh_def in_time_update)
qed

text \<open>What the first half of a refresh yields: the row of the token, still in the table.\<close>

lemma usable_row:
  assumes "usable_refresh_row sv now token s = (Inr held, t)"
  shows "t = s" and "\<forall>x \<in> set_option held. x \<in> set (tb_refresh_tokens (ss_db s))"
    and "as_store sv \<Longrightarrow> \<exists>x. held = Some x \<and> rt_hash x = hash_token sv token"
proof -
  let ?p = "\<lambda>t. rt_hash t = hash_token sv token"
  have "t = s \<and> (held = None \<and> \<not> as_store sv \<or> (\<exists>x. held = Some x \<and> scalar_one_or_none ?p (tb_refresh_tokens (ss_db s)) = Inr (Some x)))"
  proof (cases "as_store sv")
    case True
    show ?thesis
    proof (cases "scalar_one_or_none ?p (tb_refresh_tokens (ss_db s))")
      case (Inr found)
      with assms True have run: "(case found of None \<Rightarrow> raise_op (refresh_invalid ''Refresh token not found'' ''Token not in database'' [])
          | Some x \<Rightarrow> if refresh_valid now x then ret (Some x) else refuse_refresh_row sv now x) s = (Inr held, t)"
        by (simp add: usable_refresh_row_def)
      have refused: "refuse_refresh_row sv now x s \<noteq> (Inr y, u)" for x u and y :: "refresh_token_row option"
      proof -
        obtain n v where "revoke_all_user_tokens sv now (rt_user x) ''Refresh token reuse detected'' None (rolled_back s) = (Inr n, v)"
          using revoke_all_run [OF True] by blast
        then have "(contain_reuse sv now x :: refresh_token_row option op) s \<noteq> (Inr y, u)"
          by (simp add: contain_reuse_def bind_op_run)
        then show ?thesis by (simp add: refuse_refresh_row_def)
      qed
      from run refused show ?thesis by (cases found) (auto simp: Inr split: if_splits)
    qed (use assms True in \<open>simp add: usable_refresh_row_def\<close>)
  qed (use assms in \<open>simp add: usable_refresh_row_def\<close>)
  then show "t = s" and "\<forall>x \<in> set_option held. x \<in> set (tb_refresh_tokens (ss_db s))"
    and "as_store sv \<Longrightarrow> \<exists>x. held = Some x \<and> rt_hash x = hash_token sv token"
    using scalar_found [of ?p "tb_refresh_tokens (ss_db s)"] by auto
qed

text \<open>The second half, from a state whose table holds the row.\<close>

lemma continue_session_in_time:
  assumes "durable (in_time days opened) s" and "\<forall>t \<in> set_option held. t \<in> set (tb_refresh_tokens (ss_db s))"
  shows "durable (in_time days opened) (snd (continue_session sv dr c i found held s))"
proof (cases "claimed_deadline sv c")
  case (Inl e)
  then show ?thesis using assms(1) by (simp add: continue_session_def)
next
  case (Inr claimed)
  let ?fe = "earliest (claimed @ stored_deadlines sv held (ss_db s))"
  show ?thesis
  proof (cases "case ?fe of None \<Rightarrow> False | Some x \<Rightarrow> x \<le> dr_now dr")
    case True
    then have "continue_session sv dr c i found held s = session_over (dr_now dr) held s"
      by (simp add: continue_session_def Inr Let_def)
    then show ?thesis using in_time_checks(2) assms(1) by (metis preserves_def)
  next
    case False
    let ?rest = "\<lambda>u. bind_op (sign_in_gate sv u (session_azp c held)) (\<lambda>_. rotate_session sv dr u held ?fe (session_azp c held))"
    from False have run: "continue_session sv dr c i found held s = bind_op (check_refresh_user sv (dr_now dr) c i found held) ?rest s"
      by (simp add: continue_session_def Inr Let_def)
    obtain r t where r: "check_refresh_user sv (dr_now dr) c i found held s = (r, t)"
      by (cases "check_refresh_user sv (dr_now dr) c i found held s")
    show ?thesis
    proof (cases r)
      case (Inl e)
      then have "snd (continue_session sv dr c i found held s) = snd (check_refresh_user sv (dr_now dr) c i found held s)"
        by (simp add: run r bind_op_def)
      then show ?thesis using in_time_checks(1) assms(1) by (metis preserves_def)
    next
      case (Inr u)
      with r have "t = s" using check_refresh_ok by blast
      then have "continue_session sv dr c i found held s = ?rest u s" using r Inr by (simp add: run bind_op_run)
      moreover have "preserves (durable (in_time days opened)) (?rest u)"
      proof (rule preserves_bind)
        show "preserves (durable (in_time days opened)) (sign_in_gate sv u (session_azp c held))"
          unfolding sign_in_gate_def by (intro inv_intros)
        have "in_time days opened (ss_db s)" using assms(1) by (simp add: durable_def)
        then show "preserves (durable (in_time days opened)) (rotate_session sv dr u held ?fe (session_azp c held))"
          by (rule in_time_rotate [where s = s and claimed = claimed]) (use assms(2) in simp_all)
      qed
      ultimately show ?thesis using assms(1) unfolding preserves_def by simp
    qed
  qed
qed

lemma refresh_in_time [durable_intros]: "preserves (durable (in_time days opened)) (refresh_access_token sv dr token)"
proof -
  have found: "preserves (durable (in_time days opened)) (find_user p)" for p
    unfolding find_user_def by (intro inv_intros)
  have rest: "preserves (durable (in_time days opened)) (bind_op (usable_refresh_row sv (dr_now dr) token) (continue_session sv dr c i found))"
    for c i found
    unfolding preserves_def
  proof (intro allI impI)
    fix s assume s: "durable (in_time days opened) s"
    obtain r t where r: "usable_refresh_row sv (dr_now dr) token s = (r, t)" by (cases "usable_refresh_row sv (dr_now dr) token s")
    show "durable (in_time days opened) (snd (bind_op (usable_refresh_row sv (dr_now dr) token) (continue_session sv dr c i found) s))"
    proof (cases r)
      case (Inl e)
      have "durable (in_time days opened) t" using in_time_checks(3) s r by (rule preservesD)
      then show ?thesis using r Inl by (simp add: bind_op_def)
    next
      case (Inr held)
      with r show ?thesis using continue_session_in_time [OF s] usable_row(1,2) [of sv "dr_now dr" token s held t]
        by (simp add: bind_op_run)
    qed
  qed
  show ?thesis
    unfolding refresh_access_token_def
    by (rule preserves_bind, rule preserves_lift, rule preserves_bind, rule preserves_lift, rule preserves_bind, rule found, rule rest)
qed

lemma in_time_op:
  assumes "as_absolute_days sv = Some days" and "set_option (sign_in_of r) \<subseteq> opened"
  shows "preserves (durable (in_time days opened)) (auth_op sv r)"
  using assms
  apply (cases r)
  apply (simp_all only: auth_op.simps auth_base_defs Let_def sign_in_of.simps option.set empty_subsetI insert_subset)
  apply (intro inv_intros durable_intros | simp)+
  done

lemma in_time_run:
  assumes "as_absolute_days sv = Some days" and "durable (in_time days opened) s"
    and "\<forall>r \<in> set rs. set_option (sign_in_of r) \<subseteq> opened"
  shows "durable (in_time days opened) (auth_run sv rs s)"
  using assms(2,3) unfolding auth_run_def
  by (induction rs arbitrary: s) (auto intro: durable_unit_of_work in_time_op [OF assms(1)])

lemma refresh_before_deadline:
  assumes "refresh_access_token sv dr token s = (Inr p, t)" and "as_store sv"
  shows "\<exists>held \<in> set (tb_refresh_tokens (ss_db s)). rt_hash held = hash_token sv token
     \<and> (\<forall>x. rt_family_expires held = Some x \<longrightarrow> dr_now dr < x)"
proof -
  obtain c i found held u where u: "usable_refresh_row sv (dr_now dr) token s = (Inr held, u)"
    and run: "continue_session sv dr c i found held u = (Inr p, t)"
    using assms(1) unfolding refresh_access_token_def
    by (auto simp: bind_op_ret_iff lift_op_def find_user_def simp del: bind_find)
  obtain row where row: "held = Some row" "rt_hash row = hash_token sv token" using usable_row(3) [OF u assms(2)] by blast
  moreover have "row \<in> set (tb_refresh_tokens (ss_db s))" using usable_row(2) [OF u] row(1) by simp
  moreover have "dr_now dr < x" if x: "rt_family_expires row = Some x" for x
  proof -
    obtain claimed where claimed: "claimed_deadline sv c = Inr claimed"
      using run by (cases "claimed_deadline sv c") (simp_all add: continue_session_def)
    have "x \<in> set (claimed @ stored_deadlines sv held (ss_db u))" using stored_deadline [OF row(1) x] by simp
    then obtain y where y: "earliest (claimed @ stored_deadlines sv held (ss_db u)) = Some y" "y \<le> x" using earliest_le by blast
    have "\<not> y \<le> dr_now dr"
      using run by (auto simp: continue_session_def claimed y Let_def session_over_def bind_op_ret_iff split: if_splits)
    with y(2) show ?thesis by simp
  qed
  ultimately show ?thesis by blast
qed

text \<open>
  C15. No session outlives its absolute lifetime. In every history of requests, a refresh that succeeds belongs
  to a session some sign-in of the history opened, less than the configured number of days before, however
  often the session was refreshed in between.
\<close>

theorem session_ends_in_time:
  assumes "as_absolute_days sv = Some days" and "as_store sv"
    and "tb_refresh_tokens (ss_db s) = []" and "tb_refresh_tokens (st_db (ss_saved s)) = []"
    and "refresh_access_token sv dr token (auth_run sv rs s) = (Inr p, t)"
  shows "\<exists>r \<in> set rs. \<exists>family started. sign_in_of r = Some (family, started) \<and> dr_now dr < started + days * day_usec
     \<and> (\<exists>row \<in> set (tb_refresh_tokens (ss_db (auth_run sv rs s))). rt_hash row = hash_token sv token \<and> rt_family row = family)"
proof -
  let ?opened = "\<Union>r \<in> set rs. set_option (sign_in_of r)"
  have "durable (in_time days ?opened) s" using assms(3,4) by (simp add: durable_def in_time_def)
  then have "durable (in_time days ?opened) (auth_run sv rs s)" by (rule in_time_run [OF assms(1)]) blast
  then have kept: "\<forall>row \<in> set (tb_refresh_tokens (ss_db (auth_run sv rs s))). row_within days ?opened row"
    by (simp add: durable_def in_time_def)
  obtain row where row: "row \<in> set (tb_refresh_tokens (ss_db (auth_run sv rs s)))" "rt_hash row = hash_token sv token"
    and early: "\<forall>x. rt_family_expires row = Some x \<longrightarrow> dr_now dr < x"
    using refresh_before_deadline [OF assms(5,2)] by blast
  with kept obtain q x where q: "(rt_family row, q) \<in> ?opened" and x: "rt_family_expires row = Some x" "x \<le> q + days * day_usec"
    unfolding row_within_def by blast
  from early x have "dr_now dr < q + days * day_usec" by (metis less_le_trans)
  moreover obtain r where "r \<in> set rs" "sign_in_of r = Some (rt_family row, q)" using q by auto
  ultimately show ?thesis using row by blast
qed

section \<open>A small service\<close>

text \<open>
  A service for examples: every key opens every text; what begins with \<open>access\<close> is an access token and
  anything else a refresh token, of the account \<open>u\<close> and of generation 0. Every hash is the text itself.
\<close>

definition small_claims :: "string \<Rightarrow> claims" where
  "small_claims typ = [(''sub'', PStr ''u''), (''type'', PStr typ), (''iat_us'', PInt 5)]"

definition small_jwt :: jwt_lib where
  "small_jwt = \<lparr>jl_encode = (\<lambda>k c. k @ concat (map fst c)),
     jl_decode = (\<lambda>k a i rs now t. Decoded (small_claims (if take 6 t = ''access'' then ''access'' else ''refresh''))),
     jl_peek = (\<lambda>t. Inr []), jl_millis = (\<lambda>t. t div 1000), jl_at_millis = (\<lambda>v. Inl TypeError), jl_at = (\<lambda>v. Inl TypeError),
     jl_show = (\<lambda>v. []), jl_hmac = (\<lambda>k m. m)\<rparr>"

definition small_auth :: auth_service where
  "small_auth = \<lparr>as_jwt = small_jwt, as_secret = ''key'', as_audience = ''app'', as_access_minutes = 15, as_refresh_days = 30,
     as_absolute_days = Some 90, as_max_attempts = 2, as_lockout_minutes = 30, as_store = True, as_blacklist = False,
     as_magic_minutes = 15, as_code_minutes = 10, as_code_length = 6, as_audit = True, as_resolver = None,
     as_hasher = \<lparr>hash = (\<lambda>p. p), verify = (\<lambda>p h. Some (p = h)), verify_and_update = (\<lambda>p h. Some (p = h, None))\<rparr>,
     as_password = \<lparr>password_min_length = 1, require_uppercase = False, require_digit = False, require_special_char = False\<rparr>,
     as_sha256 = (\<lambda>t. t), as_iso = (\<lambda>t. [])\<rparr>"

definition small_draw :: "datetime \<Rightarrow> draw" where
  "small_draw now = \<lparr>dr_now = now, dr_family = ''f'', dr_row = ''r'', dr_access_jti = ''a'', dr_refresh_jti = ''b'',
     dr_token = ''t'', dr_nonce = ''n'', dr_number = 7\<rparr>"

definition no_client :: client where
  "no_client = \<lparr>ci_device = None, ci_ip = None, ci_agent = None\<rparr>"

definition small_account :: user_row where
  "small_account = (new_user ''u'' ''u@example.com'')\<lparr>u_hashed_password := Some ''secret''\<rparr>"

definition small_challenge :: challenge_row where
  "small_challenge = \<lparr>ac_id = ''c'', ac_user = ''u'', ac_type = MagicLink, ac_hash = ''link'', ac_recipient = ''u@example.com'',
     ac_expires = 100, ac_used_at = None, ac_redirect = None, ac_profile = None, ac_next = None, ac_ip = None, ac_agent = None\<rparr>"

definition small_session :: session_state where
  "small_session = start_session (empty_db\<lparr>tb_users := [small_account], tb_challenges := [small_challenge]\<rparr>)"

lemma magic_link_opens_one_session_witness:
  "\<exists>e. fst (unit_of_work True (verify_magic_link small_auth (small_draw 20) ''link'' no_client)
     (auth_run small_auth [LinkRequest (small_draw 15) ''u'' (bare_spec no_client)]
       (snd (unit_of_work True (verify_magic_link small_auth (small_draw 10) ''link'' no_client) small_session)))) = Inl e"
proof -
  let ?first = "unit_of_work True (verify_magic_link small_auth (small_draw 10) ''link'' no_client) small_session"
  have "isl (fst ?first) = False" by code_simp
  then obtain r where "fst ?first = Inr r" by (cases "fst ?first") simp_all
  then have "?first = (Inr r, snd ?first)" by (metis prod.collapse)
  then show ?thesis by (rule magic_link_opens_one_session)
qed


text \<open>A session opened at 10, refreshed at 20, and the first refresh token used again at 30.\<close>

definition small_login :: auth_request where
  "small_login = LoginRequest (small_draw 10) ''u@example.com'' ''secret'' no_client None"

definition first_refresh :: string where
  "first_refresh = ''keysubsecurity_epochsession_expexpiatiat_msiat_ustypeaudjti''"

definition rotated_token :: refresh_token_row where
  "rotated_token = \<lparr>rt_id = ''r'', rt_user = ''u'', rt_hash = ''refreshX'', rt_family = ''f'', rt_azp = None, rt_replaced_by = Some ''r2'',
     rt_expires = 100, rt_family_expires = Some 100, rt_created = 10, rt_revoked = True, rt_revoked_at = Some 20,
     rt_revoked_reason = Some ''rotated'', rt_device_name = None, rt_fingerprint = None, rt_ip = None, rt_user_agent = None,
     rt_last_used = Some 20, rt_usage = 1\<rparr>"

definition reuse_session :: session_state where
  "reuse_session = start_session (empty_db\<lparr>tb_users := [small_account], tb_refresh_tokens :=
     [rotated_token, rotated_token\<lparr>rt_id := ''r2'', rt_hash := ''refreshY'', rt_revoked := False, rt_revoked_reason := None\<rparr>]\<rparr>)"

lemma reuse_signs_out_everywhere_witness:
  "isl (fst (refresh_access_token small_auth (small_draw 40) ''refreshY''
     (snd (unit_of_work True (refresh_access_token small_auth (small_draw 30) ''refreshX'') reuse_session))))"
proof -
  let ?after = "snd (unit_of_work True (refresh_access_token small_auth (small_draw 30) ''refreshX'') reuse_session)"
  have c: "refresh_claims_of small_auth (dr_now (small_draw 30)) ''refreshX'' = Inr (small_claims ''refresh'')" by code_simp
  have s: "claim (small_claims ''refresh'') ''sub'' = PStr ''u''" "claim (small_claims ''access'') ''sub'' = PStr (u_id small_account)" by code_simp+
  have f: "filter (\<lambda>t. rt_hash t = hash_token small_auth ''refreshX'') (tb_refresh_tokens (ss_db reuse_session)) = [rotated_token]"
    by code_simp
  have a: "verify_token (as_jwt small_auth) (as_secret small_auth) 35 ''access!'' (Some ''access'') (Some (as_audience small_auth))
      = Inr (small_claims ''access'')" by code_simp
  have p: "proof_is_current (small_claims ''access'') small_account" by code_simp
  have o: "\<forall>x \<in> set (tb_refresh_tokens (ss_db ?after)). rt_hash x = hash_token small_auth ''refreshY'' \<longrightarrow> rt_user x = u_id small_account"
    by code_simp
  have "as_store small_auth" "distinct (map u_id (tb_users (ss_db reuse_session)))" "small_account \<in> set (tb_users (ss_db reuse_session))"
    "st_db (ss_saved reuse_session) = ss_db reuse_session" "u_id small_account = rt_user rotated_token"
    "rt_revoked rotated_token" "rt_revoked_reason rotated_token = Some ''rotated''"
    by (simp_all add: small_auth_def reuse_session_def start_session_def rotated_token_def small_account_def new_user_def)
  then show ?thesis
    using reuse_signs_out_everywhere [OF _ c s(1) _ _ _ _ f _ _ _ a s(2) p refl o] by simp
qed

lemma session_ends_in_time_witness:
  "\<exists>r \<in> set [small_login]. \<exists>family started. sign_in_of r = Some (family, started) \<and> 20 < started + 90 * day_usec"
proof -
  let ?s = "auth_run small_auth [small_login] small_session" and ?m = "refresh_access_token small_auth (small_draw 20) first_refresh"
  have "isl (fst (?m ?s)) = False" by code_simp
  then obtain p where "fst (?m ?s) = Inr p" by (cases "fst (?m ?s)") simp_all
  then have run: "?m ?s = (Inr p, snd (?m ?s))" by (metis prod.collapse)
  have "as_absolute_days small_auth = Some 90" "as_store small_auth" "tb_refresh_tokens (ss_db small_session) = []"
    "tb_refresh_tokens (st_db (ss_saved small_session)) = []" "dr_now (small_draw 20) = 20"
    by (simp_all add: small_auth_def small_session_def start_session_def small_draw_def empty_db_def)
  then show ?thesis using session_ends_in_time [OF _ _ _ _ run, of 90] by fastforce
qed

end
