(* ===== verification/UserService.thy ===== *)
theory UserService
  imports AuthService RoleService ApiKeys
begin

text \<open>
  Accounts (\<open>outlabs_auth/services/user.py\<close>): creation and invitation, profile and password changes, the
  status machine, retained deletion and identity-only restore, superuser privileges, listing and search, and
  the messages handed to the mail and messaging services. The lifecycle hooks a host overrides, the
  notifications and the logging are left out; the identifier of a new row, the time and the drawn secret are
  in the \<open>draw\<close>, as for the authentication service.
\<close>

section \<open>The service\<close>

record user_service =
  us_password :: password_config
  us_hasher :: hasher
  us_sha256 :: "string \<Rightarrow> string"
  us_iso :: "pydatetime \<Rightarrow> string"
  us_hierarchy :: bool
  us_invite_days :: int
  us_magic_minutes :: int
  us_code_minutes :: int
  us_audit :: bool
  us_cache :: bool
  us_auth :: "auth_service option"
  us_members :: "membership_service option"
  us_roles :: "role_service option"
  us_keys :: "key_service option"

definition missing_user :: "uuid \<Rightarrow> err" where
  "missing_user i = Auth UserNotFoundError ''User not found'' [(''user_id'', PStr i)]"

definition email_taken :: "string \<Rightarrow> err" where
  "email_taken email =
     Auth UserAlreadyExistsError (''User with email '' @ email @ '' already exists'') [(''email'', PStr email)]"

definition account_event ::
  "user_service \<Rightarrow> string \<Rightarrow> string \<Rightarrow> string \<Rightarrow> uuid option \<Rightarrow> user_row \<Rightarrow> string option \<Rightarrow> snapshot option
     \<Rightarrow> snapshot option \<Rightarrow> snapshot option \<Rightarrow> datetime \<Rightarrow> unit op" where
  "account_event sv category typ src actor u reason before after meta at_time =
     when_op (us_audit sv) (audit_event (us_iso sv)
       \<lparr>au_category = category, au_type = typ, au_source = ''user_service.'' @ src, au_subject = Some (u_id u),
        au_email = u_email u, au_actor = actor, au_root = u_root_entity u, au_entity = None, au_role = None,
        au_reason = reason, au_before = before, au_after = after, au_metadata = meta, au_at = at_time\<rparr>)"

definition invalidate_user_auth_snapshot :: "user_service \<Rightarrow> uuid \<Rightarrow> unit op" where
  "invalidate_user_auth_snapshot sv i = publish_change (us_cache sv) [BumpUserKeys i]"

section \<open>Lookups\<close>

text \<open>By key, with or without a lock.\<close>

definition get_user_by_id :: "uuid \<Rightarrow> user_row option op" where
  "get_user_by_id i = read_db (\<lambda>d. user_of d i)"

definition get_user_by_email :: "string \<Rightarrow> user_row option op" where
  "get_user_by_email email =
     bind_op (lift_op (validate_email email)) (\<lambda>address. find_user (\<lambda>u. u_email u = address))"

definition get_user_by_verified_phone :: "string \<Rightarrow> user_row option op" where
  "get_user_by_verified_phone phone =
     bind_op (lift_op (validate_phone phone ''phone'')) (\<lambda>p. find_user (\<lambda>u. u_phone u = Some p \<and> u_phone_verified u))"

text \<open>The account, or the error every operation on one raises.\<close>

definition required_user :: "uuid \<Rightarrow> user_row op" where
  "required_user i = bind_op (get_user_by_id i) (\<lambda>found. case found of
     None \<Rightarrow> raise_op (missing_user i) | Some u \<Rightarrow> ret u)"

section \<open>Creation and invitation\<close>

text \<open>A name that is absent or empty is stored as it is.\<close>

definition checked_name :: "string option \<Rightarrow> string \<Rightarrow> err + string option" where
  "checked_name name field =
     (case name of
        None \<Rightarrow> Inr None
      | Some n \<Rightarrow> if n = [] then Inr (Some n) else bindE (validate_name n field 1 100) (\<lambda>x. Inr (Some x)))"

definition unused_email :: "string \<Rightarrow> unit op" where
  "unused_email address = bind_op (find_user (\<lambda>u. u_email u = address)) (\<lambda>found.
     case found of None \<Rightarrow> ret () | Some _ \<Rightarrow> raise_op (email_taken address))"

definition check_root_entity :: "(entity_row \<Rightarrow> uuid \<Rightarrow> details) \<Rightarrow> uuid option \<Rightarrow> db \<Rightarrow> err + unit" where
  "check_root_entity extra target d =
     (case target of
        None \<Rightarrow> Inr ()
      | Some r \<Rightarrow>
          (case entity_at d r of
             None \<Rightarrow> Inl (Auth EntityNotFoundError ''Root entity not found'' [(''root_entity_id'', PStr r)])
           | Some e \<Rightarrow>
               (case e_parent e of
                  None \<Rightarrow> Inr ()
                | Some p \<Rightarrow> Inl (invalid_input ''User can only be assigned to root entities (entities with no parent)''
                    ((''root_entity_id'', PStr r) # extra e p)))))"

definition add_user :: "user_row \<Rightarrow> db \<Rightarrow> db" where
  "add_user u d = d\<lparr>tb_users := tb_users d @ [u]\<rparr>"

text \<open>The primary key and \<open>uq_users_email\<close>.\<close>

definition insert_user :: "user_row \<Rightarrow> unit op" where
  "insert_user u = bind_op (read_db (\<lambda>d. \<exists>x \<in> set (tb_users d). u_id x = u_id u \<or> u_email x = u_email u)) (\<lambda>taken.
     if taken then raise_op (Builtin IntegrityError) else write_db (add_user u))"

record new_account =
  na_email :: string
  na_first :: "string option"
  na_last :: "string option"
  na_superuser :: bool
  na_root :: "uuid option"

definition base_account :: "uuid \<Rightarrow> string \<Rightarrow> new_account \<Rightarrow> string option \<Rightarrow> string option \<Rightarrow> user_row" where
  "base_account i address a first last_name = (new_user i address)\<lparr>u_first_name := first, u_last_name := last_name,
     u_superuser := na_superuser a, u_protected := (if na_superuser a then Some True else None),
     u_root_entity := na_root a\<rparr>"

definition create_user :: "user_service \<Rightarrow> draw \<Rightarrow> new_account \<Rightarrow> string \<Rightarrow> user_row op" where
  "create_user sv dr a password =
     bind_op (lift_op (validate_email (na_email a))) (\<lambda>address.
     bind_op (unused_email address) (\<lambda>_.
     bind_op (lift_op (checked_name (na_first a) ''first_name'')) (\<lambda>first.
     bind_op (lift_op (checked_name (na_last a) ''last_name'')) (\<lambda>last_name.
     bind_op (lift_op (generate_password_hash (us_hasher sv) password (us_password sv))) (\<lambda>hashed.
     bind_op (bind_op (read_db (check_root_entity (\<lambda>e p. [(''entity_name'', PStr (e_name e)), (''parent_id'', PStr p)]) (na_root a)))
       lift_op) (\<lambda>_.
     let u = (base_account (dr_row dr) address a first last_name)\<lparr>u_hashed_password := Some hashed\<rparr> in
     bind_op (insert_user u) (\<lambda>_. ret u)))))))"

definition invite_expiry :: "user_service \<Rightarrow> draw \<Rightarrow> datetime" where
  "invite_expiry sv dr = dr_now dr + us_invite_days sv * day_usec"

definition invite_user :: "user_service \<Rightarrow> draw \<Rightarrow> new_account \<Rightarrow> uuid option \<Rightarrow> (user_row \<times> string) op" where
  "invite_user sv dr a inviter =
     bind_op (lift_op (validate_email (na_email a))) (\<lambda>address.
     bind_op (unused_email address) (\<lambda>_.
     bind_op (lift_op (checked_name (na_first a) ''first_name'')) (\<lambda>first.
     bind_op (lift_op (checked_name (na_last a) ''last_name'')) (\<lambda>last_name.
     bind_op (bind_op (read_db (check_root_entity (\<lambda>_ _. []) (na_root a))) lift_op) (\<lambda>_.
     let u = (base_account (dr_row dr) address a first last_name)\<lparr>u_status := ''invited'', u_invite_token := Some (us_sha256 sv (dr_token dr)),
               u_invite_expires := Some (invite_expiry sv dr), u_invited_by := inviter\<rparr> in
     bind_op (insert_user u) (\<lambda>_.
     bind_op (account_event sv ''invitation'' ''user.invited'' ''invite_user'' inviter u None None
       (Some [(''status'', PStr (u_status u)), (''is_superuser'', PBool (u_superuser u)),
              (''invite_token_expires'', time_val (u_invite_expires u)), (''email_verified'', PBool (u_email_verified u))])
       (Some [(''invited_by_id'', opt_str inviter), (''root_entity_id'', opt_str (u_root_entity u))]) (dr_now dr)) (\<lambda>_.
     ret (u, dr_token dr))))))))"

definition resend_invite :: "user_service \<Rightarrow> draw \<Rightarrow> uuid \<Rightarrow> uuid option \<Rightarrow> (user_row \<times> string) op" where
  "resend_invite sv dr i actor =
     bind_op (required_user i) (\<lambda>u.
     if u_status u \<noteq> ''invited''
     then raise_op (invalid_input ''Can only resend invitations for users with INVITED status''
            [(''user_id'', PStr i), (''current_status'', PStr (u_status u))])
     else let v = u\<lparr>u_invite_token := Some (us_sha256 sv (dr_token dr)), u_invite_expires := Some (invite_expiry sv dr)\<rparr>;
              view = (\<lambda>x. [(''status'', PStr (u_status x)), (''invite_token_expires'', time_val (u_invite_expires x))]) in
       bind_op (save_user v) (\<lambda>_.
       bind_op (account_event sv ''invitation'' ''user.invite_resent'' ''resend_invite'' actor v None (Some (view u)) (Some (view v))
         None (dr_now dr)) (\<lambda>_.
       ret (v, dr_token dr))))"

section \<open>Profile\<close>

definition update_user :: "uuid \<Rightarrow> string option \<Rightarrow> string option \<Rightarrow> user_row op" where
  "update_user i first last_name =
     bind_op (required_user i) (\<lambda>u.
     bind_op (lift_op (case first of None \<Rightarrow> Inr (u_first_name u) | Some n \<Rightarrow> bindE (validate_name n ''first_name'' 1 100) (\<lambda>x. Inr (Some x)))) (\<lambda>fst_name.
     bind_op (lift_op (case last_name of None \<Rightarrow> Inr (u_last_name u) | Some n \<Rightarrow> bindE (validate_name n ''last_name'' 1 100) (\<lambda>x. Inr (Some x)))) (\<lambda>lst_name.
     let v = u\<lparr>u_first_name := fst_name, u_last_name := lst_name\<rparr> in
     bind_op (save_user v) (\<lambda>_. ret v))))"

record profile_change =
  pc_email :: "string option"
  pc_first :: "string option"
  pc_last :: "string option"
  pc_phone :: "string option"
  pc_phone_given :: bool

text \<open>An address that is already the account's own is no change; a deleted account keeps its address.\<close>

definition changed_email :: "profile_change \<Rightarrow> user_row \<Rightarrow> user_row op" where
  "changed_email c u =
     (case pc_email c of
        None \<Rightarrow> ret u
      | Some e \<Rightarrow> bind_op (lift_op (validate_email e)) (\<lambda>address.
          if address = u_email u then ret u
          else if u_status u = ''deleted''
          then raise_op (invalid_input ''Authentication identifiers on retained-deleted accounts cannot be changed'' [(''user_id'', PStr (u_id u))])
          else bind_op (unused_email address) (\<lambda>_. ret (u\<lparr>u_email := address, u_email_verified := False\<rparr>))))"

definition renamed_account :: "profile_change \<Rightarrow> user_row \<Rightarrow> err + user_row" where
  "renamed_account c u =
     bindE (case pc_first c of None \<Rightarrow> Inr (u_first_name u) | Some n \<Rightarrow> bindE (validate_name n ''first_name'' 1 100) (\<lambda>x. Inr (Some x))) (\<lambda>first.
     bindE (case pc_last c of None \<Rightarrow> Inr (u_last_name u) | Some n \<Rightarrow> bindE (validate_name n ''last_name'' 1 100) (\<lambda>x. Inr (Some x))) (\<lambda>last_name.
     Inr (u\<lparr>u_first_name := first, u_last_name := last_name\<rparr>)))"

definition changed_phone :: "profile_change \<Rightarrow> user_row \<Rightarrow> err + user_row" where
  "changed_phone c u =
     (if \<not> pc_phone_given c then Inr u
      else bindE (case pc_phone c of
                    None \<Rightarrow> Inr None
                  | Some p \<Rightarrow> if py_strip p = [] then Inr None else bindE (validate_phone p ''phone'') (\<lambda>x. Inr (Some x)))
             (\<lambda>target. Inr (if target \<noteq> u_phone u then u\<lparr>u_phone := target, u_phone_verified := False\<rparr> else u)))"

definition profile_view :: "bool \<Rightarrow> user_row \<Rightarrow> snapshot" where
  "profile_view phone u = [(''first_name'', opt_str (u_first_name u)), (''last_name'', opt_str (u_last_name u))]
     @ (if phone then [(''phone'', opt_str (u_phone u)), (''phone_verified'', PBool (u_phone_verified u))] else [])"

definition changed_profile_fields :: "user_row \<Rightarrow> user_row \<Rightarrow> string list" where
  "changed_profile_fields u v =
     (if u_first_name v \<noteq> u_first_name u then [''first_name''] else [])
     @ (if u_last_name v \<noteq> u_last_name u then [''last_name''] else [])
     @ (if u_phone v \<noteq> u_phone u then [''phone''] else [])"

definition update_user_fields :: "user_service \<Rightarrow> datetime \<Rightarrow> uuid \<Rightarrow> profile_change \<Rightarrow> uuid option \<Rightarrow> user_row op" where
  "update_user_fields sv now i c actor =
     bind_op (required_user i) (\<lambda>u.
     bind_op (changed_email c u) (\<lambda>u1.
     bind_op (lift_op (renamed_account c u1)) (\<lambda>u2.
     bind_op (lift_op (changed_phone c u2)) (\<lambda>v.
     let email = (\<lambda>x. [(''email'', PStr (u_email x)), (''email_verified'', PBool (u_email_verified x))]);
         changed = changed_profile_fields u v; phone = u_phone v \<noteq> u_phone u in
     bind_op (save_user v) (\<lambda>_.
     bind_op (when_op (u_email v \<noteq> u_email u)
       (account_event sv ''profile'' ''user.email_changed'' ''update_user_fields'' actor v None (Some (email u)) (Some (email v))
         (Some [(''changed_fields'', strs [''email''])]) now)) (\<lambda>_.
     bind_op (when_op (changed \<noteq> [])
       (account_event sv ''profile'' ''user.profile_updated'' ''update_user_fields'' actor v None (Some (profile_view phone u))
         (Some (profile_view phone v)) (Some [(''changed_fields'', strs changed)]) now)) (\<lambda>_.
     ret v)))))))"

definition verify_email :: "uuid \<Rightarrow> user_row op" where
  "verify_email i = bind_op (required_user i) (\<lambda>u.
     let v = u\<lparr>u_email_verified := True\<rparr> in bind_op (save_user v) (\<lambda>_. ret v))"

text \<open>A failed login is only counted here; the authentication service is the one that locks.\<close>

definition record_login :: "datetime \<Rightarrow> user_row \<Rightarrow> bool \<Rightarrow> unit op" where
  "record_login now u success =
     save_user (if success then (unlocked u)\<lparr>u_last_login := Some now\<rparr> else u\<lparr>u_failed_logins := u_failed_logins u + 1\<rparr>)"

section \<open>Passwords\<close>

text \<open>The row as the database holds it after updates by statement.\<close>

definition reloaded :: "user_row \<Rightarrow> user_row op" where
  "reloaded u = read_db (\<lambda>d. case user_of d (u_id u) of None \<Rightarrow> u | Some v \<Rightarrow> v)"

definition end_sessions :: "user_service \<Rightarrow> datetime \<Rightarrow> uuid \<Rightarrow> string \<Rightarrow> nat op" where
  "end_sessions sv now i reason =
     (case us_auth sv of
        Some au \<Rightarrow> revoke_all_user_tokens au now i reason None
      | None \<Rightarrow> bind_op (advance_epoch i) (\<lambda>_. ret 0))"

definition credential_view :: "user_row \<Rightarrow> snapshot" where
  "credential_view u = (''last_password_change'', time_val (u_last_password_change u)) # lock_state u"

definition change_password :: "user_service \<Rightarrow> datetime \<Rightarrow> uuid \<Rightarrow> string \<Rightarrow> uuid option \<Rightarrow> user_row op" where
  "change_password sv now i new_password actor =
     bind_op (required_user i) (\<lambda>u.
     bind_op (lift_op (generate_password_hash (us_hasher sv) new_password (us_password sv))) (\<lambda>hashed.
     let v = (unlocked u)\<lparr>u_hashed_password := Some hashed, u_last_password_change := Some now\<rparr> in
     bind_op (save_user v) (\<lambda>_.
     bind_op (end_sessions sv now (u_id u) ''Password changed'') (\<lambda>n.
     bind_op (account_event sv ''credential'' ''user.password_changed'' ''change_password'' actor v None (Some (credential_view u))
       (Some (credential_view v)) (Some [(''revoked_refresh_token_count'', PInt (int n))]) now) (\<lambda>_.
     reloaded v)))))"

definition change_password_with_current ::
  "user_service \<Rightarrow> datetime \<Rightarrow> uuid \<Rightarrow> string \<Rightarrow> string \<Rightarrow> user_row op" where
  "change_password_with_current sv now i current new_password =
     bind_op (required_user i) (\<lambda>u.
     if (case u_hashed_password u of None \<Rightarrow> True | Some h \<Rightarrow> h = [] \<or> \<not> verify_password (us_hasher sv) current h)
     then raise_op (Auth InvalidCredentialsError ''Current password is incorrect'' [])
     else change_password sv now i new_password (Some i))"

section \<open>Status\<close>

definition restatused :: "string \<Rightarrow> datetime option \<Rightarrow> user_row \<Rightarrow> user_row" where
  "restatused status till u = u\<lparr>u_status := status,
     u_suspended_until := (if status = ''suspended'' then till else if status = ''active'' then None else u_suspended_until u)\<rparr>"

definition status_view :: "user_row \<Rightarrow> snapshot" where
  "status_view u = [(''status'', PStr (u_status u)), (''suspended_until'', time_val (u_suspended_until u))]"

text \<open>Leaving the active status, or changing between two others, ends every session at once.\<close>

definition update_user_status ::
  "user_service \<Rightarrow> datetime \<Rightarrow> uuid \<Rightarrow> string \<Rightarrow> datetime option \<Rightarrow> uuid option \<Rightarrow> string option \<Rightarrow> user_row op" where
  "update_user_status sv now i status till actor reason =
     bind_op (required_user i) (\<lambda>u.
     if u_status u = ''deleted''
     then raise_op (invalid_input ''Deleted users must be restored via the restore workflow'' [(''user_id'', PStr i), (''status'', PStr (u_status u))])
     else if status = ''deleted''
     then raise_op (invalid_input ''Use the delete workflow to revoke access and retain the identity'' [])
     else let v = restatused status till u in
       bind_op (save_user v) (\<lambda>_.
       bind_op (if status \<noteq> ''active'' \<and> u_status u \<noteq> status then bind_op (advance_epoch (u_id u)) (\<lambda>_. ret ()) else ret ()) (\<lambda>_.
       bind_op (invalidate_user_auth_snapshot sv (u_id u)) (\<lambda>_.
       bind_op (account_event sv ''status'' ''user.status_changed'' ''update_user_status'' actor v reason (Some (status_view u))
         (Some (status_view v)) None now) (\<lambda>_.
       reloaded v)))))"

section \<open>Retained deletion and restore\<close>

text \<open>A platform role is global and belongs to no entity; any assignment of one, revoked or not, counts.\<close>

definition held_platform_role :: "uuid \<Rightarrow> db \<Rightarrow> bool" where
  "held_platform_role i d \<longleftrightarrow>
     (\<exists>m \<in> set (tb_user_roles d). urm_user m = i
        \<and> (\<exists>r \<in> set (tb_roles d). r_id r = urm_role m \<and> r_is_global r \<and> r_root_entity r = None \<and> r_scope_entity r = None))"

definition retain_platform_classification :: "user_service \<Rightarrow> user_row \<Rightarrow> user_row op" where
  "retain_platform_classification sv u =
     read_db (\<lambda>d. if u_superuser u \<or> (us_hierarchy sv \<and> held_platform_role (u_id u) d) then u\<lparr>u_protected := Some True\<rparr> else u)"

definition without_proofs :: "user_row \<Rightarrow> user_row" where
  "without_proofs u = u\<lparr>u_reset_token := None, u_reset_expires := None, u_invite_token := None, u_invite_expires := None,
     u_verify_token := None, u_verify_expires := None\<rparr>"

definition withdraw_retained_access :: "datetime \<Rightarrow> uuid \<Rightarrow> string \<Rightarrow> db \<Rightarrow> db" where
  "withdraw_retained_access now i reason d = d\<lparr>
     tb_users := map (\<lambda>u. if u_id u = i then without_proofs u else u) (tb_users d),
     tb_challenges := map (\<lambda>c. if ac_user c = i \<and> ac_used_at c = None then c\<lparr>ac_used_at := Some now\<rparr> else c) (tb_challenges d),
     tb_user_roles := map (\<lambda>m. if urm_user m = i \<and> urm_status m \<noteq> MRevoked
        then m\<lparr>urm_status := MRevoked, urm_revoked_at := Some now, urm_reason := Some reason\<rparr> else m) (tb_user_roles d),
     tb_entity_members := map (\<lambda>m. if em_user m = i \<and> em_status m \<noteq> MRevoked
        then m\<lparr>em_status := MRevoked, em_revoked_at := Some now, em_reason := Some reason\<rparr> else m) (tb_entity_members d),
     tb_refresh_tokens := map (\<lambda>t. if rt_user t = i \<and> \<not> rt_revoked t then revoke_refresh now reason t else t) (tb_refresh_tokens d),
     tb_api_keys := map (\<lambda>k. if k_owner k = Some i \<and> k_status k \<noteq> KRevoked then k\<lparr>k_status := KRevoked\<rparr> else k) (tb_api_keys d)\<rparr>"

definition settled :: "string \<Rightarrow> datetime option \<Rightarrow> user_row \<Rightarrow> user_row" where
  "settled status deleted_at u = u\<lparr>u_status := status, u_deleted_at := deleted_at, u_suspended_until := None, u_locked_until := None\<rparr>"

definition access_view :: "user_row \<Rightarrow> snapshot" where
  "access_view u = [(''status'', PStr (u_status u)), (''deleted_at'', time_val (u_deleted_at u)),
     (''is_superuser'', PBool (u_superuser u))]"

definition epoch_view :: "user_row \<Rightarrow> snapshot" where
  "epoch_view u = [(''session_security_epoch'', opt_int (u_epoch u))]"

definition protected_view :: "user_row \<Rightarrow> snapshot" where
  "protected_view u = [(''platform_protected'', case u_protected u of None \<Rightarrow> PNone | Some b \<Rightarrow> PBool b)]"

text \<open>The retained row takes its new status; what the statements changed in it is kept.\<close>

definition settle_user :: "user_service \<Rightarrow> string \<Rightarrow> datetime option \<Rightarrow> user_row \<Rightarrow> user_row op" where
  "settle_user sv status deleted_at u =
     bind_op (reloaded u) (\<lambda>w.
     let v = settled status deleted_at w in
     bind_op (save_user v) (\<lambda>_.
     bind_op (invalidate_user_auth_snapshot sv (u_id u)) (\<lambda>_. ret v)))"

definition restore_user :: "user_service \<Rightarrow> datetime \<Rightarrow> uuid \<Rightarrow> uuid option \<Rightarrow> user_row op" where
  "restore_user sv now i actor =
     bind_op (required_user i) (\<lambda>u.
     if u_status u \<noteq> ''deleted''
     then raise_op (invalid_input ''Only deleted users can be restored'' [(''user_id'', PStr i), (''status'', PStr (u_status u))])
     else bind_op (retain_platform_classification sv u) (\<lambda>u1.
       bind_op (save_user (u1\<lparr>u_superuser := False\<rparr>)) (\<lambda>_.
       bind_op (advance_epoch (u_id u)) (\<lambda>_.
       bind_op (write_db (withdraw_retained_access now (u_id u) ''Identity-only restore'')) (\<lambda>_.
       bind_op (settle_user sv ''active'' None u) (\<lambda>v.
       bind_op (account_event sv ''status'' ''user.restored'' ''restore_user'' actor v None
         (Some (access_view u @ epoch_view u)) (Some (access_view v @ protected_view v @ epoch_view v)) None now) (\<lambda>_.
       ret v)))))))"

definition counted_by :: "'s option \<Rightarrow> ('s \<Rightarrow> nat op) \<Rightarrow> nat op" where
  "counted_by sv f = (case sv of None \<Rightarrow> ret 0 | Some x \<Rightarrow> f x)"

text \<open>What the services take away, and how much: memberships, roles, sessions, keys.\<close>

definition revoke_user_access :: "user_service \<Rightarrow> datetime \<Rightarrow> uuid \<Rightarrow> uuid option \<Rightarrow> (nat \<times> nat \<times> nat \<times> nat) op" where
  "revoke_user_access sv now i actor =
     bind_op (counted_by (us_members sv) (\<lambda>mb. bind_op
       (revoke_memberships_for_user mb now i actor (Some ''User deleted'') ''user_service.delete_user'') (\<lambda>ms. ret (length ms)))) (\<lambda>members.
     bind_op (counted_by (us_roles sv) (\<lambda>ro. revoke_all_roles_for_user ro now i actor (Some ''User deleted''))) (\<lambda>roles.
     bind_op (end_sessions sv now i ''User deleted'') (\<lambda>tokens.
     bind_op (counted_by (us_keys sv) (\<lambda>ks. revoke_user_api_keys ks i actor (Some ''User deleted'') ''user_service.delete_user'')) (\<lambda>keys.
     ret (members, roles, tokens, keys)))))"

definition revoked_counts :: "nat \<times> nat \<times> nat \<times> nat \<Rightarrow> snapshot" where
  "revoked_counts c = (case c of (members, roles, tokens, keys) \<Rightarrow>
     [(''revoked_membership_count'', PInt (int members)), (''revoked_direct_role_count'', PInt (int roles)),
      (''revoked_refresh_token_count'', PInt (int tokens)), (''revoked_api_key_count'', PInt (int keys))])"

definition delete_user :: "user_service \<Rightarrow> datetime \<Rightarrow> uuid \<Rightarrow> uuid option \<Rightarrow> bool op" where
  "delete_user sv now i actor =
     bind_op (get_user_by_id i) (\<lambda>found. case found of
       None \<Rightarrow> ret False
     | Some u \<Rightarrow>
         if u_status u = ''deleted'' then ret False
         else bind_op (retain_platform_classification sv u) (\<lambda>u1.
           bind_op (save_user (u1\<lparr>u_superuser := False\<rparr>)) (\<lambda>_.
           bind_op (revoke_user_access sv now (u_id u) actor) (\<lambda>counts.
           bind_op (write_db (withdraw_retained_access now (u_id u) ''User deleted'')) (\<lambda>_.
           bind_op (settle_user sv ''deleted'' (Some now) u) (\<lambda>v.
           bind_op (account_event sv ''status'' ''user.deleted'' ''delete_user'' actor v None
             (Some ((access_view (u\<lparr>u_deleted_at := None\<rparr>)) @ epoch_view u)) (Some (access_view v @ protected_view v @ epoch_view v))
             (Some (revoked_counts counts)) now) (\<lambda>_.
           ret True)))))))"

section \<open>Superuser privileges\<close>

definition active_superusers :: "db \<Rightarrow> user_row list" where
  "active_superusers d = filter (\<lambda>u. u_superuser u \<and> u_status u = ''active'') (tb_users d)"

definition update_superuser_status ::
  "user_service \<Rightarrow> datetime \<Rightarrow> uuid \<Rightarrow> bool \<Rightarrow> uuid option \<Rightarrow> string option \<Rightarrow> user_row op" where
  "update_superuser_status sv now i super actor reason =
     bind_op (required_user i) (\<lambda>u.
     if u_status u = ''deleted''
     then raise_op (invalid_input ''Deleted users must be restored before changing superuser privileges''
            [(''user_id'', PStr i), (''status'', PStr (u_status u))])
     else if u_superuser u = super then ret u
     else bind_op (read_db (\<lambda>d. length (active_superusers d))) (\<lambda>n.
       if u_superuser u \<and> \<not> super \<and> n \<le> 1
       then raise_op (invalid_input ''Cannot revoke the final active superuser'' [(''user_id'', PStr i)])
       else let v = u\<lparr>u_superuser := super, u_protected := (if super \<or> u_superuser u then Some True else u_protected u)\<rparr> in
         bind_op (save_user v) (\<lambda>_.
         bind_op (invalidate_user_auth_snapshot sv (u_id u)) (\<lambda>_.
         bind_op (account_event sv ''privilege'' (if super then ''user.superuser_granted'' else ''user.superuser_revoked'')
           ''update_superuser_status'' actor v reason (Some [(''is_superuser'', PBool (u_superuser u))])
           (Some [(''is_superuser'', PBool (u_superuser v))]) (Some [(''changed_fields'', strs [''is_superuser''])]) now) (\<lambda>_.
         ret v)))))"

section \<open>Listing and search\<close>

record user_query =
  uq_status :: "string option"
  uq_superuser :: "bool option"
  uq_root :: "uuid option"
  uq_scope :: "uuid list option"

text \<open>Rooted in the scope, or a member in it whose membership counts now.\<close>

definition scope_filter :: "datetime \<Rightarrow> db \<Rightarrow> uuid list \<Rightarrow> user_row \<Rightarrow> bool" where
  "scope_filter now d es u \<longleftrightarrow>
     (\<exists>r \<in> set es. u_root_entity u = Some r)
     \<or> (\<exists>m \<in> set (tb_entity_members d). em_user m = u_id u \<and> em_entity m \<in> set es \<and> em_can_grant now m)"

definition account_matches :: "datetime \<Rightarrow> db \<Rightarrow> user_query \<Rightarrow> user_row \<Rightarrow> bool" where
  "account_matches now d q u \<longleftrightarrow>
     (\<forall>s \<in> set_option (uq_status q). u_status u = s)
     \<and> (\<forall>b \<in> set_option (uq_superuser q). u_superuser u = b)
     \<and> (\<forall>r \<in> set_option (uq_root q). u_root_entity u = Some r)
     \<and> (\<forall>es \<in> set_option (uq_scope q). scope_filter now d es u)"

text \<open>Newest first: the newest row is the last of the table.\<close>

definition list_users :: "datetime \<Rightarrow> db \<Rightarrow> user_query \<Rightarrow> int \<Rightarrow> int \<Rightarrow> user_row list \<times> nat" where
  "list_users now d q page limit =
     (let hits = filter (account_matches now d q) (tb_users d) in (page_of page limit (rev hits), length hits))"

definition search_matches :: "(string \<Rightarrow> string \<Rightarrow> bool) \<Rightarrow> string \<Rightarrow> user_row \<Rightarrow> bool" where
  "search_matches like term u \<longleftrightarrow>
     (let pattern = ''%'' @ term @ ''%'' in
      like (u_email u) pattern \<or> (\<exists>n \<in> set_option (u_first_name u). like n pattern) \<or> (\<exists>n \<in> set_option (u_last_name u). like n pattern))"

definition search_users_with_total ::
  "(string \<Rightarrow> string \<Rightarrow> bool) \<Rightarrow> datetime \<Rightarrow> db \<Rightarrow> string \<Rightarrow> user_query \<Rightarrow> nat \<Rightarrow> nat \<Rightarrow> bool \<Rightarrow> user_row list \<times> nat" where
  "search_users_with_total like now d term q skip limit include_total =
     (let hits = filter (\<lambda>u. search_matches like term u \<and> account_matches now d q u) (tb_users d)
      in (take limit (drop skip (sort_key u_email hits)), if include_total then length hits else 0))"

definition search_users ::
  "(string \<Rightarrow> string \<Rightarrow> bool) \<Rightarrow> datetime \<Rightarrow> db \<Rightarrow> string \<Rightarrow> user_query \<Rightarrow> nat \<Rightarrow> user_row list" where
  "search_users like now d term q limit = fst (search_users_with_total like now d term q 0 limit False)"

section \<open>Phone verification\<close>

definition phone_unavailable :: err where
  "phone_unavailable = invalid_input ''Phone verification is unavailable'' [(''reason'', PStr ''auth_service_missing'')]"

definition request_phone_verification :: "user_service \<Rightarrow> draw \<Rightarrow> uuid \<Rightarrow> client \<Rightarrow> (user_row \<times> string) op" where
  "request_phone_verification sv dr i cl =
     bind_op (required_user i) (\<lambda>u.
     if user_phone u = []
     then raise_op (invalid_input ''Add a phone number before requesting verification'' [(''field'', PStr ''phone'')])
     else case us_auth sv of
       None \<Rightarrow> raise_op phone_unavailable
     | Some au \<Rightarrow> bind_op (generate_phone_verify_code au dr (u_id u) cl) (\<lambda>code. ret (u, code)))"

definition confirm_phone_verification :: "user_service \<Rightarrow> draw \<Rightarrow> uuid \<Rightarrow> string \<Rightarrow> user_row op" where
  "confirm_phone_verification sv dr i code =
     bind_op (required_user i) (\<lambda>u.
     case us_auth sv of
       None \<Rightarrow> raise_op phone_unavailable
     | Some au \<Rightarrow> verify_phone_verify_code au dr (u_id u) code)"

end
