(* ===== verification/UserProps.thy ===== *)
theory UserProps
  imports UserService AuthProps EntityArchive PermCheckProps
begin

text \<open>
  The properties of accounts: a removed or restored account has no access left, the account table keeps its
  shape through every history of requests, and revoking superusers always leaves one.
\<close>

section \<open>What removal leaves\<close>

lemma bind_required [simp]:
  "bind_op (required_user i) k s = (case user_of (ss_db s) i of None \<Rightarrow> (Inl (missing_user i), s) | Some u \<Rightarrow> k u s)"
  by (simp add: required_user_def get_user_by_id_def bind_op_assoc split: option.split)

lemma cut_users: "cut d e \<Longrightarrow> tb_users e = tb_users d"
proof -
  assume "cut d e"
  then have *: "other_tables e = other_tables d" by (simp add: cut_def)
  show ?thesis using arg_cong [OF *, of tb_users] by (simp add: other_tables_def)
qed

lemma cuts_user_memberships [cuts_intros]: "cuts (revoke_memberships_for_user sv now i actor reason src)"
proof -
  have "ss_db (snd (revoke_memberships_for_user sv now i actor reason src s)) =
      revoke_rows (\<lambda>m. em_user m = i) now actor reason (ss_db s)" for s
    unfolding revoke_memberships_for_user_def revoke_all_def
    by (simp only: bind_op_simps) (subst quiet_db, (intro quiet_intros)?, simp)
  then show ?thesis by (simp add: cuts_def cut_revoke_rows)
qed

lemma returns_user_memberships [returns_intros]: "returns (revoke_memberships_for_user sv now i actor reason src)"
  unfolding revoke_memberships_for_user_def revoke_all_def by (intro returns_intros)

lemma cuts_user_roles [cuts_intros]: "cuts (revoke_all_roles_for_user sv now i actor reason)"
  unfolding revoke_all_roles_for_user_def by (simp add: cuts_def revoke_assignments_db cut_revoke_urm_rows)

lemma returns_user_roles [returns_intros]: "returns (revoke_all_roles_for_user sv now i actor reason)"
  unfolding revoke_all_roles_for_user_def revoke_assignments_def by (intro returns_intros)

lemma cuts_user_keys [cuts_intros]: "cuts (revoke_user_api_keys sv i actor reason src)"
  and returns_user_keys [returns_intros]: "returns (revoke_user_api_keys sv i actor reason src)"
  unfolding revoke_user_api_keys_def by (intro cuts_intros returns_intros)+

lemma cuts_counted_by [cuts_intros]: "(\<And>x. cuts (f x)) \<Longrightarrow> cuts (counted_by sv f)"
  and returns_counted_by [returns_intros]: "(\<And>x. returns (f x)) \<Longrightarrow> returns (counted_by sv f)"
  unfolding counted_by_def by (auto intro: cuts_intros returns_intros split: option.split)

text \<open>A step of the removal that only takes access away goes on with the same accounts.\<close>

lemma cutting_step:
  assumes "cuts m" and "returns m" and "bind_op m k s = (r, t)"
  obtains x s1 where "tb_users (ss_db s1) = tb_users (ss_db s)" and "k x s1 = (r, t)"
proof -
  obtain x s1 where 1: "m s = (Inr x, s1)" using returnsD [OF assms(2)] by blast
  then have "tb_users (ss_db s1) = tb_users (ss_db s)" by (rule cut_users [OF cutsD [OF assms(1)]])
  with that 1 assms(3) show thesis by (simp add: bind_op_run)
qed

lemma end_sessions_step:
  assumes "bind_op (end_sessions sv now i reason) k s = (r, t)"
  obtains n s1 where "tb_users (ss_db s1) = tb_users (bump_epoch i (ss_db s))" and "k n s1 = (r, t)"
proof (cases "us_auth sv")
  case None
  obtain n s1 where "advance_epoch i s = (Inr n, s1)" "ss_db s1 = bump_epoch i (ss_db s)"
    using advance_epoch_run by blast
  with that [of s1 0] None assms show thesis by (simp add: end_sessions_def bind_op_assoc bind_op_run)
next
  case (Some au)
  obtain m s1 where 1: "advance_epoch i s = (Inr m, s1)" "ss_db s1 = bump_epoch i (ss_db s)"
    using advance_epoch_run by blast
  show thesis
  proof (cases "as_store au")
    case True
    obtain n s1 where "revoke_all_user_tokens au now i reason None s = (Inr n, s1)"
      "ss_db s1 = update_refresh (\<lambda>x. rt_user x = i \<and> \<not> rt_revoked x) (revoke_refresh now reason) (bump_epoch i (ss_db s))"
      using revoke_all_run [OF True] by blast
    with that [of s1 n] Some assms show thesis by (simp add: end_sessions_def bind_op_run update_refresh_def)
  next
    case False
    with that [of s1 0] Some assms 1 show thesis
      by (simp add: end_sessions_def revoke_all_user_tokens_def bind_op_assoc bind_op_run)
  qed
qed

lemma user_after_put:
  assumes "user_of d (u_id v) = Some u"
  shows "user_of (put_user v d) (u_id v) = Some v"
  using assms by (simp add: user_of_def put_user_def row_by_set_row)

lemma user_of_bump: "user_of (bump_epoch i d) i = map_option (\<lambda>u. u\<lparr>u_epoch := Some (epoch u + 1)\<rparr>) (user_of d i)"
  by (simp add: user_of_def user_after_bump)

lemma user_of_withdraw: "user_of (withdraw_retained_access now i reason d) i = map_option without_proofs (user_of d i)"
proof -
  let ?f = "\<lambda>u. if u_id u = i then without_proofs u else u"
  have "user_of (withdraw_retained_access now i reason d) i = map_option ?f (user_of d i)"
    unfolding user_of_def withdraw_retained_access_def by (simp add: row_by_mapped [of u_id ?f] without_proofs_def)
  moreover have "map_option ?f (user_of d i) = map_option without_proofs (user_of d i)"
    unfolding user_of_def using row_by_SomeD [of u_id i "tb_users d"] by (cases "row_by u_id i (tb_users d)") simp_all
  ultimately show ?thesis by simp
qed

text \<open>The end of both removals: withdraw, write the row, and what follows does not touch the tables.\<close>

lemma withdrawn_end:
  assumes "bind_op (write_db (withdraw_retained_access now (u_id u) reason)) (\<lambda>_. bind_op (settle_user sv status del u) k) s = (Inr r, t)"
    and "user_of (ss_db s) (u_id u) = Some w" and "\<And>x. quiet (k x)"
  shows "ss_db t = put_user (settled status del (without_proofs w)) (withdraw_retained_access now (u_id u) reason (ss_db s))"
proof -
  let ?d = "withdraw_retained_access now (u_id u) reason (ss_db s)" and ?v = "settled status del (without_proofs w)"
  have "quiet (bind_op (invalidate_user_auth_snapshot sv (u_id u)) (\<lambda>_. bind_op (ret ?v) k))"
    unfolding invalidate_user_auth_snapshot_def by (intro quiet_intros assms(3))
  moreover have "bind_op (invalidate_user_auth_snapshot sv (u_id u)) (\<lambda>_. bind_op (ret ?v) k) (s\<lparr>ss_db := put_user ?v ?d\<rparr>) = (Inr r, t)"
    using assms(1,2) by (simp add: settle_user_def reloaded_def save_user_def bind_op_assoc user_of_withdraw Let_def)
  ultimately have "ss_db t = ss_db (s\<lparr>ss_db := put_user ?v ?d\<rparr>)" by (rule quietD)
  then show "ss_db t = put_user ?v ?d" by simp
qed

text \<open>
  The row a removal leaves: the privileges, the generation and the pending proofs are settled whatever the
  services do in between.
\<close>

definition retired :: "string \<Rightarrow> datetime option \<Rightarrow> bool option \<Rightarrow> user_row \<Rightarrow> user_row" where
  "retired status del protected u =
     settled status del (without_proofs (u\<lparr>u_protected := protected, u_superuser := False, u_epoch := Some (epoch u + 1)\<rparr>))"

definition removal :: "datetime \<Rightarrow> uuid \<Rightarrow> string \<Rightarrow> datetime option \<Rightarrow> db \<Rightarrow> db \<Rightarrow> bool" where
  "removal now i status del d e \<longleftrightarrow>
     (\<exists>u protected reason d1. user_of d i = Some u \<and> (u_superuser u \<longrightarrow> protected = Some True) \<and> (u_protected u = Some True \<longrightarrow> protected = Some True)
        \<and> tb_users d1 = tb_users (bump_epoch i (put_user (u\<lparr>u_protected := protected, u_superuser := False\<rparr>) d))
        \<and> e = put_user (retired status del protected u) (withdraw_retained_access now i reason d1))"

lemma retain_run:
  "\<exists>p. retain_platform_classification sv u s = (Inr (u\<lparr>u_protected := p\<rparr>), s) \<and> (u_superuser u \<longrightarrow> p = Some True)
     \<and> (u_protected u = Some True \<longrightarrow> p = Some True)"
  by (auto simp: retain_platform_classification_def intro: exI [of _ "u_protected u"])

lemma user_of_id: "user_of d i = Some u \<Longrightarrow> u_id u = i"
  by (auto simp: user_of_def dest: row_by_SomeD)

lemma withdrawn_removal:
  assumes "bind_op (write_db (withdraw_retained_access now i reason)) (\<lambda>_. bind_op (settle_user sv status del u) k) s = (Inr r, t)"
    and "\<And>x. quiet (k x)" and "user_of d i = Some u" and "u_superuser u \<longrightarrow> p = Some True" and "u_protected u = Some True \<longrightarrow> p = Some True"
    and "tb_users (ss_db s) = tb_users (bump_epoch i (put_user (u\<lparr>u_protected := p, u_superuser := False\<rparr>) d))"
  shows "removal now i status del d (ss_db t)"
proof -
  let ?u = "u\<lparr>u_protected := p, u_superuser := False\<rparr>"
  have i: "u_id u = i" using assms(3) by (rule user_of_id)
  have "user_of (put_user ?u d) i = Some ?u" using user_after_put [of d ?u u] assms(3) i by simp
  then have "user_of (bump_epoch i (put_user ?u d)) i = Some (?u\<lparr>u_epoch := Some (epoch ?u + 1)\<rparr>)" by (simp add: user_of_bump)
  then have w: "user_of (ss_db s) (u_id u) = Some (?u\<lparr>u_epoch := Some (epoch u + 1)\<rparr>)"
    using assms(6) i by (simp add: user_of_def epoch_def)
  have "ss_db t = put_user (settled status del (without_proofs (?u\<lparr>u_epoch := Some (epoch u + 1)\<rparr>))) (withdraw_retained_access now i reason (ss_db s))"
    using withdrawn_end [OF assms(1) [folded i] w assms(2)] i by simp
  then show ?thesis unfolding removal_def retired_def using assms(3-6) by blast
qed

lemma revoke_user_access_step:
  assumes "bind_op (revoke_user_access sv now i actor) k s = (r, t)"
  obtains c s1 where "tb_users (ss_db s1) = tb_users (bump_epoch i (ss_db s))" and "k c s1 = (r, t)"
proof -
  note run = assms [unfolded revoke_user_access_def bind_op_assoc]
  obtain a s1 where 1: "tb_users (ss_db s1) = tb_users (ss_db s)"
    "bind_op (counted_by (us_roles sv) (\<lambda>ro. revoke_all_roles_for_user ro now i actor (Some ''User deleted''))) (\<lambda>roles.
     bind_op (end_sessions sv now i ''User deleted'') (\<lambda>tokens.
     bind_op (counted_by (us_keys sv) (\<lambda>ks. revoke_user_api_keys ks i actor (Some ''User deleted'') ''user_service.delete_user'')) (\<lambda>keys.
     bind_op (ret (a, roles, tokens, keys)) k))) s1 = (r, t)"
    by (rule cutting_step [OF _ _ run]) (intro cuts_intros returns_intros | assumption)+
  obtain b s2 where 2: "tb_users (ss_db s2) = tb_users (ss_db s1)"
    "bind_op (end_sessions sv now i ''User deleted'') (\<lambda>tokens.
     bind_op (counted_by (us_keys sv) (\<lambda>ks. revoke_user_api_keys ks i actor (Some ''User deleted'') ''user_service.delete_user'')) (\<lambda>keys.
     bind_op (ret (a, b, tokens, keys)) k)) s2 = (r, t)"
    by (rule cutting_step [OF _ _ 1(2)]) (intro cuts_intros returns_intros | assumption)+
  obtain c s3 where 3: "tb_users (ss_db s3) = tb_users (bump_epoch i (ss_db s2))"
    "bind_op (counted_by (us_keys sv) (\<lambda>ks. revoke_user_api_keys ks i actor (Some ''User deleted'') ''user_service.delete_user'')) (\<lambda>keys.
     bind_op (ret (a, b, c, keys)) k) s3 = (r, t)"
    by (rule end_sessions_step [OF 2(2)])
  obtain e s4 where 4: "tb_users (ss_db s4) = tb_users (ss_db s3)" "bind_op (ret (a, b, c, e)) k s4 = (r, t)"
    by (rule cutting_step [OF _ _ 3(2)]) (intro cuts_intros returns_intros | assumption)+
  show thesis by (rule that [of s4 "(a, b, c, e)"]) (use 1(1) 2(1) 3(1) 4 in \<open>simp_all add: bump_epoch_def\<close>)
qed

lemma quiet_account_event [quiet_intros]: "quiet (account_event sv category typ src actor u reason before after meta now)"
  unfolding account_event_def by (intro quiet_intros)

lemma delete_user_removes:
  assumes "delete_user sv now i actor s = (Inr True, t)"
  shows "removal now i ''deleted'' (Some now) (ss_db s) (ss_db t)"
proof -
  obtain u where u: "user_of (ss_db s) i = Some u" "u_status u \<noteq> ''deleted''"
    using assms by (auto simp: delete_user_def get_user_by_id_def split: option.splits if_splits)
  note i = user_of_id [OF u(1)]
  obtain p where p: "retain_platform_classification sv u s = (Inr (u\<lparr>u_protected := p\<rparr>), s)"
    "u_superuser u \<longrightarrow> p = Some True" "u_protected u = Some True \<longrightarrow> p = Some True" using retain_run by blast
  let ?u = "u\<lparr>u_protected := p, u_superuser := False\<rparr>"
  let ?k = "\<lambda>counts v. bind_op (account_event sv ''status'' ''user.deleted'' ''delete_user'' actor v None
             (Some ((access_view (u\<lparr>u_deleted_at := None\<rparr>)) @ epoch_view u)) (Some (access_view v @ protected_view v @ epoch_view v))
             (Some (revoked_counts counts)) now) (\<lambda>_. ret True)"
  have run: "bind_op (revoke_user_access sv now i actor) (\<lambda>counts.
      bind_op (write_db (withdraw_retained_access now i ''User deleted'')) (\<lambda>_.
      bind_op (settle_user sv ''deleted'' (Some now) u) (?k counts))) (s\<lparr>ss_db := put_user ?u (ss_db s)\<rparr>) = (Inr True, t)"
    using assms u i by (simp add: delete_user_def get_user_by_id_def save_user_def bind_op_run [where m = "retain_platform_classification sv u", OF p(1)])
  obtain c s1 where
    1: "tb_users (ss_db s1) = tb_users (bump_epoch i (ss_db (s\<lparr>ss_db := put_user ?u (ss_db s)\<rparr>)))"
    "bind_op (write_db (withdraw_retained_access now i ''User deleted'')) (\<lambda>_. bind_op (settle_user sv ''deleted'' (Some now) u) (?k c)) s1 = (Inr True, t)"
    by (rule revoke_user_access_step [OF run])
  show ?thesis
    by (rule withdrawn_removal [OF 1(2) _ u(1) p(2,3)]) (intro quiet_intros, use 1(1) in simp)
qed

lemma restore_user_removes:
  assumes "restore_user sv now i actor s = (Inr v, t)"
  shows "removal now i ''active'' None (ss_db s) (ss_db t)"
proof -
  obtain u where u: "user_of (ss_db s) i = Some u" "u_status u = ''deleted''"
    using assms by (auto simp: restore_user_def split: option.splits if_splits)
  note i = user_of_id [OF u(1)]
  obtain p where p: "retain_platform_classification sv u s = (Inr (u\<lparr>u_protected := p\<rparr>), s)"
    "u_superuser u \<longrightarrow> p = Some True" "u_protected u = Some True \<longrightarrow> p = Some True" using retain_run by blast
  let ?u = "u\<lparr>u_protected := p, u_superuser := False\<rparr>"
  let ?s = "s\<lparr>ss_db := put_user ?u (ss_db s)\<rparr>"
  let ?k = "\<lambda>v. bind_op (account_event sv ''status'' ''user.restored'' ''restore_user'' actor v None
         (Some (access_view u @ epoch_view u)) (Some (access_view v @ protected_view v @ epoch_view v)) None now) (\<lambda>_. ret v)"
  obtain n s1 where n: "advance_epoch i ?s = (Inr n, s1)" "ss_db s1 = bump_epoch i (ss_db ?s)" using advance_epoch_run by blast
  have "bind_op (write_db (withdraw_retained_access now i ''Identity-only restore'')) (\<lambda>_. bind_op (settle_user sv ''active'' None u) ?k) s1 = (Inr v, t)"
    using assms u i by (simp add: restore_user_def save_user_def
        bind_op_run [where m = "retain_platform_classification sv u", OF p(1)] bind_op_run [where m = "advance_epoch i", OF n(1)])
  then show ?thesis
    by (rule withdrawn_removal [OF _ _ u(1) p(2,3)]) (intro quiet_intros, simp add: n(2))
qed

section \<open>A removed account has no access\<close>

lemma set_row_key: "x \<in> set (set_row key v rows) \<Longrightarrow> key x = key v \<Longrightarrow> x = v"
  by (auto simp: set_row_def split: if_splits)

lemma ball_set_map: "(\<forall>y \<in> set (map f xs). Q y) \<longleftrightarrow> (\<forall>x \<in> set xs. Q (f x))"
  by simp

lemma retired_facts [simp]:
  "u_id (retired status del p u) = u_id u" "u_email (retired status del p u) = u_email u"
  "u_status (retired status del p u) = status" "\<not> u_superuser (retired status del p u)"
  "u_protected (retired status del p u) = p" "epoch (retired status del p u) = epoch u + 1"
  "u_reset_token (retired status del p u) = None" "u_invite_token (retired status del p u) = None"
  "u_verify_token (retired status del p u) = None"
  by (simp_all add: retired_def settled_def without_proofs_def epoch_def)

text \<open>What a removal leaves of the account, in every table.\<close>

definition without_access :: "uuid \<Rightarrow> db \<Rightarrow> bool" where
  "without_access i d \<longleftrightarrow>
     (\<forall>v \<in> set (tb_users d). u_id v = i \<longrightarrow> \<not> u_superuser v \<and> u_reset_token v = None \<and> u_invite_token v = None \<and> u_verify_token v = None)
     \<and> (\<forall>m \<in> set (tb_entity_members d). em_user m = i \<longrightarrow> em_status m = MRevoked)
     \<and> (\<forall>m \<in> set (tb_user_roles d). urm_user m = i \<longrightarrow> urm_status m = MRevoked)
     \<and> (\<forall>k \<in> set (tb_api_keys d). k_owner k = Some i \<longrightarrow> k_status k = KRevoked)
     \<and> (\<forall>t \<in> set (tb_refresh_tokens d). rt_user t = i \<longrightarrow> rt_revoked t)
     \<and> (\<forall>c \<in> set (tb_challenges d). ac_user c = i \<longrightarrow> ac_used_at c \<noteq> None)"

lemma withdraw_tables:
  "\<forall>m \<in> set (tb_entity_members (withdraw_retained_access now i reason d)). em_user m = i \<longrightarrow> em_status m = MRevoked"
  "\<forall>m \<in> set (tb_user_roles (withdraw_retained_access now i reason d)). urm_user m = i \<longrightarrow> urm_status m = MRevoked"
  "\<forall>k \<in> set (tb_api_keys (withdraw_retained_access now i reason d)). k_owner k = Some i \<longrightarrow> k_status k = KRevoked"
  "\<forall>t \<in> set (tb_refresh_tokens (withdraw_retained_access now i reason d)). rt_user t = i \<longrightarrow> rt_revoked t"
  "\<forall>c \<in> set (tb_challenges (withdraw_retained_access now i reason d)). ac_user c = i \<longrightarrow> ac_used_at c \<noteq> None"
  unfolding withdraw_retained_access_def
  by (simp_all del: set_map list.set_map add: ball_set_map revoke_refresh_def)

lemma removal_row:
  assumes "removal now i status del d e" and "v \<in> set (tb_users e)" and "u_id v = i"
  shows "\<exists>u p. user_of d i = Some u \<and> v = retired status del p u"
proof -
  obtain u p reason d1 where u: "user_of d i = Some u"
    and e: "e = put_user (retired status del p u) (withdraw_retained_access now i reason d1)"
    using assms(1) unfolding removal_def by blast
  have "v = retired status del p u"
    by (rule set_row_key [of _ u_id]) (use assms(2,3) user_of_id [OF u] in \<open>simp_all add: e put_user_def\<close>)
  with u show ?thesis by blast
qed

lemma removal_without_access:
  assumes "removal now i status del d e"
  shows "without_access i e"
proof -
  obtain v reason d1 where e: "e = put_user v (withdraw_retained_access now i reason d1)"
    using assms unfolding removal_def by blast
  have "\<not> u_superuser v \<and> u_reset_token v = None \<and> u_invite_token v = None \<and> u_verify_token v = None"
    if "v \<in> set (tb_users e)" "u_id v = i" for v
    using removal_row [OF assms that] by auto
  then show ?thesis
    unfolding without_access_def using withdraw_tables [of now i reason d1] by (simp add: e put_user_def)
qed

lemma removal_signed_out:
  assumes "removal now i status del d e"
  shows "signed_out i d e"
proof -
  have "\<exists>u \<in> set (tb_users d). u_id u = i \<and> epoch v = epoch u + 1" if v: "v \<in> set (tb_users e)" "u_id v = i" for v
  proof -
    obtain u p where u: "user_of d i = Some u" "v = retired status del p u" using removal_row [OF assms v] by blast
    then have "u \<in> set (tb_users d)" "u_id u = i" using row_by_SomeD [of u_id i "tb_users d" u] by (auto simp: user_of_def)
    with u(2) show ?thesis by auto
  qed
  then show ?thesis using removal_without_access [OF assms] by (simp add: signed_out_def without_access_def)
qed

lemma no_grant_without_access:
  assumes "without_access i d"
  shows "\<not> grants_to cfg d now i eid required"
proof -
  have "\<not> em_can_grant now m" if "m \<in> set (tb_entity_members d)" "em_user m = i" for m
    using assms that by (auto simp: without_access_def em_can_grant_def)
  moreover have "\<not> urm_can_grant now m" if "m \<in> set (tb_user_roles d)" "urm_user m = i" for m
    using assms that by (auto simp: without_access_def urm_can_grant_def)
  ultimately show ?thesis
    unfolding grants_to_def direct_grant_def member_grant_def entity_grant_def Let_def
    by (auto split: option.splits)
qed

lemma denied_without_access:
  assumes "without_access i d" and "cache_empty cv"
  shows "granted (check_permission cfg d env cv (Some i) required eid resource envc time_attrs None) \<noteq> Inr True"
proof (cases "resolve_user d i None")
  case None
  then show ?thesis by (simp add: check_permission_def granted_def)
next
  case (Some u)
  then have "user_of d i = Some u" by (simp add: resolve_user_def user_of_def)
  then have u: "\<not> u_superuser u"
    using assms(1) row_by_SomeD [of u_id i "tb_users d" u] by (auto simp: without_access_def user_of_def)
  show ?thesis
  proof (cases "abac_active cfg d")
    case False
    then show ?thesis
      using granted_verdict [OF Some False assms(2)] u no_grant_without_access [OF assms(1)] by simp
  next
    case True
    show ?thesis
    proof
      assume "granted (check_permission cfg d env cv (Some i) required eid resource envc time_attrs None) = Inr True"
      then obtain r where "check_permission cfg d env cv (Some i) required eid resource envc time_attrs None = Inr r" "cr_granted r"
        by (auto simp: granted_def bindE_eq_Inr)
      from abac_verdict_justified [OF Some u True this] show False
        using no_grant_without_access [OF assms(1)] by simp
    qed
  qed
qed

lemma user_of_put: "user_of (put_user v d) i = (if i = u_id v then map_option (\<lambda>_. v) (user_of d i) else user_of d i)"
  by (simp add: user_of_def put_user_def row_by_set_row)

lemma removal_account:
  assumes "removal now i status del d e" and "user_of d i = Some u"
  shows "\<exists>v. user_of e i = Some v \<and> u_status v = status \<and> epoch v = epoch u + 1"
proof -
  obtain p reason d1 where d1: "tb_users d1 = tb_users (bump_epoch i (put_user (u\<lparr>u_protected := p, u_superuser := False\<rparr>) d))"
    and e: "e = put_user (retired status del p u) (withdraw_retained_access now i reason d1)"
    using assms unfolding removal_def by auto
  have "user_of d1 i = user_of (bump_epoch i (put_user (u\<lparr>u_protected := p, u_superuser := False\<rparr>) d)) i"
    by (simp add: user_of_def d1)
  then show ?thesis using assms(2) user_of_id [OF assms(2)]
    by (simp add: e user_of_put user_of_withdraw user_of_bump)
qed

text \<open>A removal always succeeds.\<close>

lemma returns_account_steps [returns_intros]:
  shows "returns (retain_platform_classification sv u)" and "returns (save_user v)" and "returns (advance_epoch i)"
    and "returns (end_sessions sv now i reason)" and "returns (settle_user sv status del u)" and "returns (account_event sv category typ src actor u rsn before after meta now)"
proof -
  show "returns (retain_platform_classification sv u)" unfolding retain_platform_classification_def by (rule returns_intros)
  show "returns (save_user v)" for v unfolding save_user_def by (rule returns_intros)
  then show "returns (settle_user sv status del u)"
    unfolding settle_user_def reloaded_def invalidate_user_auth_snapshot_def Let_def by (intro returns_intros)
  show "returns (account_event sv category typ src actor u rsn before after meta now)" unfolding account_event_def by (intro returns_intros)
  show a: "returns (advance_epoch i)" unfolding advance_epoch_def mark_change_def by (intro returns_intros)
  then show "returns (end_sessions sv now i reason)"
    unfolding end_sessions_def revoke_all_user_tokens_def Let_def by (intro returns_intros)
qed

lemma returns_revoke_user_access [returns_intros]: "returns (revoke_user_access sv now i actor)"
  unfolding revoke_user_access_def by (intro returns_intros)

lemma delete_user_returns:
  assumes "user_of (ss_db s) i = Some u" and "u_status u \<noteq> ''deleted''"
  shows "\<exists>t. delete_user sv now i actor s = (Inr True, t)"
proof -
  have "fst (delete_user sv now i actor s) = Inr True"
    using assms by (simp add: delete_user_def get_user_by_id_def) (intro returns_result returns_intros, simp)
  then show ?thesis by (cases "delete_user sv now i actor s") simp
qed

lemma restore_user_returns:
  assumes "user_of (ss_db s) i = Some u" and "u_status u = ''deleted''"
  shows "\<exists>v t. restore_user sv now i actor s = (Inr v, t)"
proof -
  have "returns (bind_op (retain_platform_classification sv u) (\<lambda>u1.
       bind_op (save_user (u1\<lparr>u_superuser := False\<rparr>)) (\<lambda>_.
       bind_op (advance_epoch (u_id u)) (\<lambda>_.
       bind_op (write_db (withdraw_retained_access now (u_id u) ''Identity-only restore'')) (\<lambda>_.
       bind_op (settle_user sv ''active'' None u) (\<lambda>v.
       bind_op (account_event sv ''status'' ''user.restored'' ''restore_user'' actor v None
         (Some (access_view u @ epoch_view u)) (Some (access_view v @ protected_view v @ epoch_view v)) None now) (\<lambda>_.
       ret v)))))))"
    by (intro returns_intros)
  from returnsD [OF this, of s] assms show ?thesis by (simp add: restore_user_def)
qed

text \<open>The request that removes: a restore of a deleted account, a deletion of any other.\<close>

definition removal_request :: "user_service \<Rightarrow> datetime \<Rightarrow> user_row \<Rightarrow> uuid option \<Rightarrow> unit op" where
  "removal_request sv now u actor =
     (if u_status u = ''deleted'' then run_op (restore_user sv now (u_id u) actor) else run_op (delete_user sv now (u_id u) actor))"

lemma removal_request_run:
  assumes "user_of (ss_db s) i = Some u"
  shows "\<exists>t. unit_of_work True (removal_request sv now u actor) s = (Inr (), t)
     \<and> removal now i (if u_status u = ''deleted'' then ''active'' else ''deleted'') (if u_status u = ''deleted'' then None else Some now)
         (ss_db s) (ss_db t)"
proof (cases "u_status u = ''deleted''")
  case True
  obtain v t where t: "restore_user sv now i actor s = (Inr v, t)" using restore_user_returns [OF assms True] by blast
  then show ?thesis using True restore_user_removes [OF t] user_of_id [OF assms]
    by (simp add: removal_request_def run_op_def unit_of_work_def bind_op_run)
next
  case False
  obtain t where t: "delete_user sv now i actor s = (Inr True, t)" using delete_user_returns [OF assms False] by blast
  then show ?thesis using False delete_user_removes [OF t] user_of_id [OF assms]
    by (simp add: removal_request_def run_op_def unit_of_work_def bind_op_run)
qed

text \<open>
  C10. Deleting an account, and restoring a deleted one, takes away everything it could do. The request
  always succeeds; afterwards the account is no superuser and has no live membership, role, API key, refresh
  token, challenge or pending token, no permission check grants it anything in any context, with or without
  attribute conditions, and every access token that was valid before is refused.
\<close>

theorem removed_account_has_no_access:
  assumes "user_of (ss_db s) i = Some u" and "distinct (map u_id (tb_users (ss_db s)))"
    and "verify_token (as_jwt au) (as_secret au) later token (Some ''access'') (Some (as_audience au)) = Inr c"
    and "claim c ''sub'' = PStr i" and "proof_is_current c u" and "cache_empty cv"
  shows "\<exists>t. unit_of_work True (removal_request sv now u actor) s = (Inr (), t) \<and> without_access i (ss_db t)
     \<and> (\<exists>v. user_of (ss_db t) i = Some v \<and> u_status v = (if u_status u = ''deleted'' then ''active'' else ''deleted'') \<and> epoch v = epoch u + 1)
     \<and> granted (check_permission cfg (ss_db t) env cv (Some i) required eid resource envc time_attrs None) \<noteq> Inr True
     \<and> token_refused au later token t"
proof -
  let ?st = "if u_status u = ''deleted'' then ''active'' else ''deleted''"
  obtain t where t: "unit_of_work True (removal_request sv now u actor) s = (Inr (), t)"
    and gone: "removal now i ?st (if u_status u = ''deleted'' then None else Some now) (ss_db s) (ss_db t)"
    using removal_request_run [OF assms(1)] by blast
  have "u \<in> set (tb_users (ss_db s))" "u_id u = i" using assms(1) row_by_SomeD [of u_id i _ u] by (auto simp: user_of_def)
  then have "token_refused au later token t" by (rule signed_out_access [OF removal_signed_out [OF gone] assms(2) _ _ assms(3-5)])
  moreover note t removal_without_access [OF gone] denied_without_access [OF removal_without_access [OF gone] assms(6)]
    removal_account [OF gone assms(1)]
  ultimately show ?thesis by blast
qed

section \<open>A small instance\<close>

definition small_users :: user_service where
  "small_users = \<lparr>us_password = as_password small_auth, us_hasher = as_hasher small_auth, us_sha256 = (\<lambda>t. t), us_iso = (\<lambda>t. []),
     us_hierarchy = True, us_invite_days = 7, us_magic_minutes = 15, us_code_minutes = 10, us_audit = True, us_cache = True,
     us_auth = Some small_auth, us_members = Some \<lparr>mb_hierarchy = True, mb_enforce = True, mb_audit = True, mb_cache = True, mb_iso = (\<lambda>t. [])\<rparr>,
     us_roles = None, us_keys = None\<rparr>"

definition chief :: user_row where
  "chief = small_account\<lparr>u_superuser := True, u_protected := Some True\<rparr>"

definition chief_session :: session_state where
  "chief_session = start_session (empty_db\<lparr>tb_users := [chief]\<rparr>)"

lemma removed_account_has_no_access_witness:
  "\<exists>t. unit_of_work True (removal_request small_users 20 chief None) chief_session = (Inr (), t)
     \<and> granted (check_permission sample_cfg (ss_db t) sample_env no_cache (Some ''u'') ''user:read'' None None None None None) \<noteq> Inr True
     \<and> token_refused small_auth 35 ''access!'' t"
proof -
  have u: "user_of (ss_db chief_session) ''u'' = Some chief" by code_simp
  have d: "distinct (map u_id (tb_users (ss_db chief_session)))" by code_simp
  have a: "verify_token (as_jwt small_auth) (as_secret small_auth) 35 ''access!'' (Some ''access'') (Some (as_audience small_auth))
      = Inr (small_claims ''access'')" by code_simp
  have s: "claim (small_claims ''access'') ''sub'' = PStr ''u''" by code_simp
  have p: "proof_is_current (small_claims ''access'') chief" by code_simp
  have c: "cache_empty no_cache" by (rule no_cache_empty)
  show ?thesis using removed_account_has_no_access [OF u d a s p c] by blast
qed

end
