(* ===== verification/AccountHistory.thy ===== *)
theory AccountHistory
  imports UserProps
begin

text \<open>
  Histories of requests to the user service and the authentication service together: the account table keeps
  its keys, its addresses and its privileges in order, and nobody who ever was a superuser loses the
  classification that says so.
\<close>

section \<open>Requests\<close>

datatype account_request =
    CreateAccount draw new_account string
  | InviteAccount draw new_account "uuid option"
  | ResendInvite draw uuid "uuid option"
  | RenameAccount uuid "string option" "string option"
  | ChangeFields datetime uuid profile_change "uuid option"
  | VerifyEmail uuid
  | ChangePassword datetime uuid string "uuid option"
  | ChangeOwnPassword datetime uuid string string
  | ChangeStatus datetime uuid string "datetime option" "uuid option" "string option"
  | RestoreAccount datetime uuid "uuid option"
  | ChangeSuperuser datetime uuid bool "uuid option" "string option"
  | DeleteAccount datetime uuid "uuid option"
  | RequestPhone draw uuid client
  | ConfirmPhone draw uuid string
  | Authenticate auth_request

fun account_op :: "user_service \<Rightarrow> auth_service \<Rightarrow> account_request \<Rightarrow> unit op" where
  "account_op sv au (CreateAccount dr a password) = run_op (create_user sv dr a password)"
| "account_op sv au (InviteAccount dr a inviter) = run_op (invite_user sv dr a inviter)"
| "account_op sv au (ResendInvite dr i actor) = run_op (resend_invite sv dr i actor)"
| "account_op sv au (RenameAccount i first last_name) = run_op (update_user i first last_name)"
| "account_op sv au (ChangeFields now i c actor) = run_op (update_user_fields sv now i c actor)"
| "account_op sv au (VerifyEmail i) = run_op (verify_email i)"
| "account_op sv au (ChangePassword now i password actor) = run_op (change_password sv now i password actor)"
| "account_op sv au (ChangeOwnPassword now i current password) = run_op (change_password_with_current sv now i current password)"
| "account_op sv au (ChangeStatus now i status till actor reason) = run_op (update_user_status sv now i status till actor reason)"
| "account_op sv au (RestoreAccount now i actor) = run_op (restore_user sv now i actor)"
| "account_op sv au (ChangeSuperuser now i super actor reason) = run_op (update_superuser_status sv now i super actor reason)"
| "account_op sv au (DeleteAccount now i actor) = run_op (delete_user sv now i actor)"
| "account_op sv au (RequestPhone dr i cl) = run_op (request_phone_verification sv dr i cl)"
| "account_op sv au (ConfirmPhone dr i code) = run_op (confirm_phone_verification sv dr i code)"
| "account_op sv au (Authenticate r) = auth_op au r"

definition account_run :: "user_service \<Rightarrow> auth_service \<Rightarrow> account_request list \<Rightarrow> session_state \<Rightarrow> session_state" where
  "account_run sv au rs s = foldl (\<lambda>t r. snd (unit_of_work True (account_op sv au r) t)) s rs"

section \<open>What identifies an account\<close>

definition ident :: "user_row \<Rightarrow> uuid \<times> string \<times> bool \<times> bool option \<times> bool" where
  "ident u = (u_id u, u_email u, u_superuser u, u_protected u, u_status u = ''deleted'')"

definition idents :: "db \<Rightarrow> (uuid \<times> string \<times> bool \<times> bool option \<times> bool) list" where
  "idents d = map ident (tb_users d)"

definition idents_are :: "(uuid \<times> string \<times> bool \<times> bool option \<times> bool) list \<Rightarrow> db \<Rightarrow> bool" where
  "idents_are L d \<longleftrightarrow> idents d = L"

text \<open>Rules that remember what an earlier step of the operation read.\<close>

definition yields :: "(session_state \<Rightarrow> bool) \<Rightarrow> 'a op \<Rightarrow> 'a \<Rightarrow> bool" where
  "yields I m x \<longleftrightarrow> (\<exists>s t. I s \<and> m s = (Inr x, t))"

lemma preserves_bind_from:
  assumes "preserves I m" and "\<And>x. yields I m x \<Longrightarrow> preserves I (k x)"
  shows "preserves I (bind_op m k)"
  unfolding preserves_def
proof (intro allI impI)
  fix s assume s: "I s"
  obtain r t where m: "m s = (r, t)" by (cases "m s")
  then have t: "I t" by (rule preservesD [OF assms(1) s])
  show "I (snd (bind_op m k s))"
  proof (cases r)
    case (Inl e)
    with m t show ?thesis by (simp add: bind_op_def)
  next
    case (Inr x)
    then have "yields I m x" unfolding yields_def using s m by blast
    from assms(2) [OF this] t m Inr show ?thesis by (simp add: bind_op_def preserves_def)
  qed
qed

lemma yields_known:
  assumes "yields (durable (idents_are L)) m x" and "\<And>s t. m s = (Inr x, t) \<Longrightarrow> u \<in> set (tb_users (ss_db s))"
  shows "ident u \<in> set L"
  using assms unfolding yields_def durable_def idents_are_def idents_def by force

lemma yields_find: "yields (durable (idents_are L)) (find_user p) (Some u) \<Longrightarrow> ident u \<in> set L"
proof (erule yields_known)
  fix s t assume "find_user p s = (Inr (Some u), t)"
  then have "scalar_one_or_none p (tb_users (ss_db s)) = Inr (Some u)" by (auto simp: find_user_def)
  then show "u \<in> set (tb_users (ss_db s))" using scalar_found [of p "tb_users (ss_db s)" u] by simp
qed

lemma yields_required: "yields (durable (idents_are L)) (required_user i) u \<Longrightarrow> ident u \<in> set L"
proof (erule yields_known)
  fix s t assume "required_user i s = (Inr u, t)"
  then have "user_of (ss_db s) i = Some u" by (simp add: required_user_def get_user_by_id_def split: option.splits)
  then show "u \<in> set (tb_users (ss_db s))" using row_by_SomeD [of u_id i _ u] by (simp add: user_of_def)
qed

lemma yields_lock: "yields (durable (idents_are L)) (lock_active_challenge_user sv i) u \<Longrightarrow> ident u \<in> set L"
proof (erule yields_known)
  fix s t assume "lock_active_challenge_user sv i s = (Inr u, t)"
  then have "scalar_one_or_none (\<lambda>u. u_id u = i) (tb_users (ss_db s)) = Inr (Some u)"
    by (auto simp: lock_active_challenge_user_def find_user_def bind_op_def split: sum.splits option.splits prod.splits)
  then show "u \<in> set (tb_users (ss_db s))" using scalar_found [of _ "tb_users (ss_db s)" u] by simp
qed

lemma idents_writes [simp]:
  "idents (bump_epoch i d) = idents d" "idents (change_refresh t f d) = idents d" "idents (add_refresh t d) = idents d"
  "idents (update_refresh p f d) = idents d" "idents (issue_challenge now c d) = idents d" "idents (consumed now i d) = idents d"
  by (auto simp: idents_def ident_def bump_epoch_def change_refresh_def add_refresh_def update_refresh_def issue_challenge_def
      consumed_def update_challenge_def Let_def)

lemma idents_put:
  assumes "distinct (map fst L)" and "idents_are L d" and "ident v \<in> set L"
  shows "idents_are L (put_user v d)"
proof -
  have "ident (if u_id y = u_id v then v else y) = ident y" if y: "y \<in> set (tb_users d)" for y
  proof (cases "u_id y = u_id v")
    case True
    have "ident y \<in> set L" using y assms(2) by (auto simp: idents_are_def idents_def)
    moreover have "fst (ident y) = fst (ident v)" using True by (simp add: ident_def)
    ultimately show ?thesis using assms(1,3) True by (auto simp: distinct_map dest: inj_onD)
  qed simp
  then have *: "map (\<lambda>y. ident (if u_id y = u_id v then v else y)) (tb_users d) = map ident (tb_users d)"
    by (intro map_cong) simp_all
  have "idents (put_user v d) = map (\<lambda>y. ident (if u_id y = u_id v then v else y)) (tb_users d)"
    by (simp add: idents_def put_user_def set_row_def comp_def)
  also note *
  finally show ?thesis using assms(2) by (simp add: idents_are_def idents_def)
qed

lemma idents_quiet:
  shows "preserves (durable (idents_are L)) (audit_event fmt ev)" and "preserves (durable (idents_are L)) mark_change"
    and "preserves (durable (idents_are L)) (publish_change cached acts)"
  by (simp_all add: durable_audit durable_mark)
    (simp add: publish_change_def publish_later_def mark_change_def when_op_def preserves_def durable_def)

lemmas ident_writes = durable_write [where P = "idents_are L" and w = "bump_epoch i" for L i]
  durable_write [where P = "idents_are L" and w = "change_refresh t f" for L t f]
  durable_write [where P = "idents_are L" and w = "add_refresh t" for L t]
  durable_write [where P = "idents_are L" and w = "update_refresh p f" for L p f]
  durable_write [where P = "idents_are L" and w = "issue_challenge now c" for L now c]
  durable_write [where P = "idents_are L" and w = "consumed now i" for L now i]

lemma ident_save:
  assumes "distinct (map fst L)" and "ident v \<in> set L"
  shows "preserves (durable (idents_are L)) (save_user v)"
  unfolding save_user_def by (rule durable_write) (rule idents_put [OF assms(1) _ assms(2)])

lemma ident_lookups:
  "preserves (durable (idents_are L)) (find_user p)" "preserves (durable (idents_are L)) (required_user i)"
  "preserves (durable (idents_are L)) (lock_active_challenge_user sv i)"
  unfolding find_user_def required_user_def get_user_by_id_def lock_active_challenge_user_def by (intro inv_intros)+


lemmas from_intros = preserves_bind_from preserves_ret preserves_raise preserves_gets preserves_read_db preserves_lift
  preserves_when preserves_if preserves_case_option preserves_case_prod preserves_let
  durable_commit durable_rollback idents_quiet ident_lookups

text \<open>A step that writes other tables or the generation of an account.\<close>

lemma ident_steps:
  "preserves (durable (idents_are L)) (advance_epoch i)"
  "preserves (durable (idents_are L)) (revoke_all_user_tokens au now i reason keep)"
  "preserves (durable (idents_are L)) (revoke_family now reason g)"
  "preserves (durable (idents_are L)) (open_session au dr u cl app)"
  "preserves (durable (idents_are L)) (write_db (issue_challenge now c))"
  "preserves (durable (idents_are L)) (write_db (consumed now i))"
  "preserves (durable (idents_are L)) (write_db (change_refresh t f))"
  "preserves (durable (idents_are L)) (write_db (update_refresh p f))"
  "preserves (durable (idents_are L)) (write_db (add_refresh t))"
proof -
  note w = durable_write [of "idents_are L"]
  have b: "preserves (durable (idents_are L)) (write_db (bump_epoch i))" for i by (rule w) (simp add: idents_are_def)
  show u: "preserves (durable (idents_are L)) (write_db (update_refresh p f))" for p f by (rule w) (simp add: idents_are_def)
  show r: "preserves (durable (idents_are L)) (write_db (add_refresh t))" for t by (rule w) (simp add: idents_are_def)
  show "preserves (durable (idents_are L)) (write_db (issue_challenge now c))"
    and "preserves (durable (idents_are L)) (write_db (consumed now i))"
    and "preserves (durable (idents_are L)) (write_db (change_refresh t f))" by (rule w, simp add: idents_are_def)+
  show a: "preserves (durable (idents_are L)) (advance_epoch i)" for i
    unfolding advance_epoch_def by (intro from_intros b)
  show "preserves (durable (idents_are L)) (revoke_all_user_tokens au now i reason keep)"
    unfolding revoke_all_user_tokens_def by (intro from_intros a u)
  show "preserves (durable (idents_are L)) (revoke_family now reason g)" unfolding revoke_family_def by (rule u)
  show "preserves (durable (idents_are L)) (open_session au dr u cl app)"
    unfolding open_session_def mint_def by (intro from_intros r)
qed

lemmas ident_intros = from_intros ident_steps

text \<open>The steps of authentication that write the row of an account they were given.\<close>

lemma ident_sign_in:
  assumes "distinct (map fst L)" and "ident u \<in> set L"
  shows "preserves (durable (idents_are L)) (login_failed au dr u)"
    and "preserves (durable (idents_are L)) (login_succeeded au dr u upgraded cl app)"
    and "preserves (durable (idents_are L)) (create_tokens_for_user au dr u cl am app)"
    and "preserves (durable (idents_are L)) (accept_challenge au dr u c verifies m typ src key meta cl device auth)"
proof -
  have same: "ident (failed_user au (dr_now dr) u) = ident u" "ident (logged_in (dr_now dr) upgraded u) = ident u"
    "ident (u\<lparr>u_last_login := Some (dr_now dr)\<rparr>) = ident u" "ident (challenge_user verifies m u) = ident u" for u :: user_row and verifies m
    by (simp_all add: ident_def failed_user_def logged_in_def unlocked_def challenge_user_def append_auth_method_def Let_def)
  show "preserves (durable (idents_are L)) (login_failed au dr u)"
    unfolding login_failed_def user_event_def Let_def
    by (intro ident_intros ident_save) (simp_all add: assms same)
  show "preserves (durable (idents_are L)) (login_succeeded au dr u upgraded cl app)"
    unfolding login_succeeded_def user_event_def sign_in_gate_def Let_def
    by (intro ident_intros ident_save) (simp_all add: assms same)
  have tokens: "preserves (durable (idents_are L)) (create_tokens_for_user au dr v cl am app)" if "ident v \<in> set L" for v cl am app
    unfolding create_tokens_for_user_def user_event_def sign_in_gate_def Let_def
    by (intro ident_intros ident_save) (simp_all add: assms that same)
  show "preserves (durable (idents_are L)) (create_tokens_for_user au dr u cl am app)" by (rule tokens [OF assms(2)])
  show "preserves (durable (idents_are L)) (accept_challenge au dr u c verifies m typ src key meta cl device auth)"
    unfolding accept_challenge_def challenge_session_def user_event_def Let_def
    by (intro ident_intros ident_save tokens) (simp_all add: assms same)
qed

lemma ident_run: "preserves I m \<Longrightarrow> preserves I (run_op m)"
  unfolding run_op_def by (intro preserves_bind preserves_ret)

lemma ident_auth_requests:
  assumes "distinct (map fst L)"
  shows "preserves (durable (idents_are L)) (login au dr email password cl app)"
    and "preserves (durable (idents_are L)) (logout au dr token requested jti redis)"
    and "preserves (durable (idents_are L)) (refresh_access_token au dr token)"
    and "preserves (durable (idents_are L)) (revoke_user_session au now user i reason)"
    and "preserves (durable (idents_are L)) (generate_reset_token au dr i)"
    and "preserves (durable (idents_are L)) (generate_magic_link_token au dr i cs)"
    and "preserves (durable (idents_are L)) (generate_access_code au dr i recipient channel cs)"
    and "preserves (durable (idents_are L)) (generate_phone_verify_code au dr i cl)"
    and "preserves (durable (idents_are L)) (reset_password au dr token password)"
    and "preserves (durable (idents_are L)) (verify_access_code au dr mail phone code channel cl)"
    and "preserves (durable (idents_are L)) (verify_phone_verify_code au dr i code)"
    and "preserves (durable (idents_are L)) (verify_magic_link au dr token cl)"
    and "preserves (durable (idents_are L)) (accept_invite au dr token password)"
proof -
  note step = ident_intros ident_save [OF assms] ident_sign_in [OF assms]
  note known = yields_find yields_lock yields_required
  show "preserves (durable (idents_are L)) (login au dr email password cl app)"
    unfolding login_def by (intro step) (auto dest: known)
  show "preserves (durable (idents_are L)) (logout au dr token requested jti redis)"
    unfolding logout_def find_refresh_def Let_def by (intro step)
  show "preserves (durable (idents_are L)) (refresh_access_token au dr token)"
    unfolding refresh_access_token_def usable_refresh_row_def find_refresh_def refuse_refresh_row_def contain_reuse_def
      continue_session_def session_over_def check_refresh_user_def sign_in_gate_def rotate_session_def mint_def Let_def
    by (intro step)
  show "preserves (durable (idents_are L)) (revoke_user_session au now user i reason)"
    unfolding revoke_user_session_def find_refresh_def Let_def by (intro step)
  show "preserves (durable (idents_are L)) (generate_reset_token au dr i)"
    unfolding generate_reset_token_def user_event_def Let_def by (intro step) (auto dest: known simp: ident_def)
  show "preserves (durable (idents_are L)) (generate_magic_link_token au dr i cs)"
    unfolding generate_magic_link_token_def user_event_def Let_def by (intro step)
  show "preserves (durable (idents_are L)) (generate_access_code au dr i recipient channel cs)"
    unfolding generate_access_code_def user_event_def Let_def by (intro step)
  show "preserves (durable (idents_are L)) (generate_phone_verify_code au dr i cl)"
    unfolding generate_phone_verify_code_def user_event_def Let_def by (intro step)
  show "preserves (durable (idents_are L)) (reset_password au dr token password)"
    unfolding reset_password_def user_event_def Let_def
    by (intro step) (auto dest: known simp: ident_def reset_row_def unlocked_def)
  show "preserves (durable (idents_are L)) (verify_access_code au dr mail phone code channel cl)"
    unfolding verify_access_code_def by (intro step) (auto dest: known)
  show "preserves (durable (idents_are L)) (verify_phone_verify_code au dr i code)"
    unfolding verify_phone_verify_code_def user_event_def Let_def by (intro step) (auto dest: known simp: ident_def)
  show "preserves (durable (idents_are L)) (verify_magic_link au dr token cl)"
    unfolding verify_magic_link_def find_challenge_def by (intro step) (auto dest: known)
  show "preserves (durable (idents_are L)) (accept_invite au dr token password)"
    unfolding accept_invite_def user_event_def Let_def
    by (intro step) (auto dest: known simp: ident_def accepted_row_def)
qed

lemma ident_auth_op:
  assumes "distinct (map fst L)"
  shows "preserves (durable (idents_are L)) (auth_op au r)"
  using ident_auth_requests [OF assms] ident_steps by (cases r) (auto intro: ident_run)


text \<open>The requests to the user service that leave what identifies an account.\<close>

lemma ident_account_requests:
  assumes "distinct (map fst L)"
  shows "preserves (durable (idents_are L)) (resend_invite sv dr i actor)"
    and "preserves (durable (idents_are L)) (update_user i first last_name)"
    and "preserves (durable (idents_are L)) (verify_email i)"
    and "preserves (durable (idents_are L)) (change_password sv now i password actor)"
    and "preserves (durable (idents_are L)) (change_password_with_current sv now i current password)"
    and "preserves (durable (idents_are L)) (update_user_status sv now i status till actor reason)"
    and "preserves (durable (idents_are L)) (request_phone_verification sv dr i cl)"
    and "preserves (durable (idents_are L)) (confirm_phone_verification sv dr i code)"
proof -
  note step = ident_intros ident_save [OF assms] ident_auth_requests [OF assms]
  note known = yields_find yields_lock yields_required
  show "preserves (durable (idents_are L)) (resend_invite sv dr i actor)"
    unfolding resend_invite_def account_event_def Let_def by (intro step) (auto dest: known simp: ident_def)
  show "preserves (durable (idents_are L)) (update_user i first last_name)"
    unfolding update_user_def Let_def by (intro step) (auto dest: known simp: ident_def)
  show "preserves (durable (idents_are L)) (verify_email i)"
    unfolding verify_email_def Let_def by (intro step) (auto dest: known simp: ident_def)
  have password: "preserves (durable (idents_are L)) (change_password sv now i password actor)" for actor
    unfolding change_password_def end_sessions_def account_event_def reloaded_def Let_def
    by (intro step) (auto dest: known simp: ident_def unlocked_def)
  then show "preserves (durable (idents_are L)) (change_password sv now i password actor)" .
  show "preserves (durable (idents_are L)) (change_password_with_current sv now i current password)"
    unfolding change_password_with_current_def by (intro step password)
  show "preserves (durable (idents_are L)) (update_user_status sv now i status till actor reason)"
    unfolding update_user_status_def account_event_def invalidate_user_auth_snapshot_def reloaded_def Let_def
    by (intro step) (auto dest: known simp: ident_def restatused_def)
  show "preserves (durable (idents_are L)) (request_phone_verification sv dr i cl)"
    unfolding request_phone_verification_def by (intro step)
  show "preserves (durable (idents_are L)) (confirm_phone_verification sv dr i code)"
    unfolding confirm_phone_verification_def by (intro step)
qed

section \<open>The invariant\<close>

text \<open>
  Keys and addresses are unique, superusers are classified as protected, deleted accounts are no superusers,
  and the accounts of \<open>S\<close> are there and protected.
\<close>

definition accounts_ok :: "uuid set \<Rightarrow> db \<Rightarrow> bool" where
  "accounts_ok S d \<longleftrightarrow> distinct (map u_id (tb_users d)) \<and> distinct (map u_email (tb_users d))
     \<and> (\<forall>u \<in> set (tb_users d). (u_superuser u \<longrightarrow> u_protected u = Some True) \<and> (u_status u = ''deleted'' \<longrightarrow> \<not> u_superuser u))
     \<and> (\<forall>i \<in> S. \<exists>u \<in> set (tb_users d). u_id u = i \<and> u_protected u = Some True)"

lemma accounts_ok_list:
  "accounts_ok S d \<longleftrightarrow> distinct (map fst (idents d)) \<and> distinct (map (\<lambda>x. fst (snd x)) (idents d))
     \<and> (\<forall>(i, e, s, p, del) \<in> set (idents d). (s \<longrightarrow> p = Some True) \<and> (del \<longrightarrow> \<not> s))
     \<and> (\<forall>i \<in> S. \<exists>(j, e, s, p, del) \<in> set (idents d). j = i \<and> p = Some True)"
  by (simp add: accounts_ok_def idents_def ident_def comp_def)

lemma accounts_ok_idents: "idents e = idents d \<Longrightarrow> accounts_ok S e = accounts_ok S d"
  by (simp only: accounts_ok_list)

text \<open>A new row, and a changed one.\<close>

lemma accounts_ok_add:
  assumes "accounts_ok S d" and "\<not> (\<exists>x \<in> set (tb_users d). u_id x = u_id u \<or> u_email x = u_email u)"
    and "u_superuser u \<longrightarrow> u_protected u = Some True" and "u_status u \<noteq> ''deleted''"
  shows "accounts_ok S (add_user u d)"
  using assms by (auto simp: accounts_ok_def add_user_def)

lemma same_key: "distinct (map key rows) \<Longrightarrow> x \<in> set rows \<Longrightarrow> y \<in> set rows \<Longrightarrow> key x = key y \<Longrightarrow> x = y"
  by (simp add: distinct_map inj_on_def)

lemma accounts_ok_put:
  assumes "accounts_ok S d" and "user_of d (u_id v) = Some u"
    and "u_email v = u_email u \<or> (\<forall>x \<in> set (tb_users d). u_email x \<noteq> u_email v)"
    and "u_superuser v \<longrightarrow> u_protected v = Some True" and "u_status v = ''deleted'' \<longrightarrow> \<not> u_superuser v"
    and "u_protected u = Some True \<longrightarrow> u_protected v = Some True"
  shows "accounts_ok S (put_user v d)"
proof -
  let ?us = "tb_users d" and ?f = "\<lambda>y. if u_id y = u_id v then v else y"
  have u: "u \<in> set ?us" "u_id u = u_id v" using assms(2) row_by_SomeD [of u_id "u_id v" ?us u] by (auto simp: user_of_def)
  have ids: "distinct (map u_id ?us)" and mails: "distinct (map u_email ?us)" using assms(1) by (simp_all add: accounts_ok_def)
  have only: "y = u" if "y \<in> set ?us" "u_id y = u_id v" for y
    by (rule same_key [OF ids that(1) u(1)]) (simp add: that(2) u(2))
  have rows: "tb_users (put_user v d) = map ?f ?us" by (simp add: put_user_def set_row_def)
  have other: "u_email y \<noteq> u_email v" if y: "y \<in> set ?us" "u_id y \<noteq> u_id v" for y
    using assms(3)
  proof
    assume "u_email v = u_email u"
    moreover have "u_email y \<noteq> u_email u" using same_key [OF mails y(1) u(1)] y(2) u(2) by auto
    ultimately show ?thesis by simp
  qed (use y in simp)
  have inj: "x = y" if x: "x \<in> set ?us" and y: "y \<in> set ?us" and eq: "u_email (?f x) = u_email (?f y)" for x y
  proof (cases "u_id x = u_id v")
    case True
    with eq other [OF y] have "u_id y = u_id v" by (metis (full_types))
    with only [OF x True] only [OF y] show ?thesis by simp
  next
    case False
    with eq other [OF x] have "u_id y \<noteq> u_id v" by (metis (full_types))
    with False eq show ?thesis by (intro same_key [OF mails x y]) simp
  qed
  have "distinct (map u_email (map ?f ?us))"
    unfolding distinct_map map_map comp_def
  proof
    show "distinct ?us" using mails by (simp add: distinct_map)
    show "inj_on (\<lambda>x. u_email (?f x)) (set ?us)" by (rule inj_onI) (rule inj)
  qed
  moreover have "distinct (map u_id (map ?f ?us))" using ids by (simp add: comp_def if_distrib cong: if_cong map_cong)
  moreover have "(u_superuser x \<longrightarrow> u_protected x = Some True) \<and> (u_status x = ''deleted'' \<longrightarrow> \<not> u_superuser x)" if "x \<in> set (map ?f ?us)" for x
    using that assms(1,4,5) by (auto simp: accounts_ok_def split: if_splits)
  moreover have "\<exists>x \<in> set (map ?f ?us). u_id x = i \<and> u_protected x = Some True" if i: "i \<in> S" for i
  proof -
    obtain y where y: "y \<in> set ?us" "u_id y = i" "u_protected y = Some True" using assms(1) i by (auto simp: accounts_ok_def)
    then have "?f y \<in> set (map ?f ?us)" "u_id (?f y) = i" "u_protected (?f y) = Some True" using only [of y] assms(6) by auto
    then show ?thesis by blast
  qed
  ultimately show ?thesis unfolding accounts_ok_def rows by blast
qed

lemma accounts_ok_removal:
  assumes "accounts_ok S d" and "removal now i status del d e"
  shows "accounts_ok S e"
proof -
  obtain u p reason d1 where u: "user_of d i = Some u" and p: "u_superuser u \<longrightarrow> p = Some True" "u_protected u = Some True \<longrightarrow> p = Some True"
    and d1: "tb_users d1 = tb_users (bump_epoch i (put_user (u\<lparr>u_protected := p, u_superuser := False\<rparr>) d))"
    and e: "e = put_user (retired status del p u) (withdraw_retained_access now i reason d1)"
    using assms(2) unfolding removal_def by blast
  note i = user_of_id [OF u]
  let ?u = "u\<lparr>u_protected := p, u_superuser := False\<rparr>"
  let ?d = "withdraw_retained_access now i reason d1"
  have "accounts_ok S (put_user ?u d)"
    by (rule accounts_ok_put [OF assms(1), of _ u]) (use u i p in simp_all)
  moreover have "idents ?d = idents (put_user ?u d)"
  proof -
    have "idents ?d = idents d1"
      unfolding idents_def withdraw_retained_access_def
      by (simp add: ident_def without_proofs_def)
    also have "\<dots> = idents (bump_epoch i (put_user ?u d))" by (simp only: idents_def d1)
    finally show ?thesis by simp
  qed
  ultimately have ok: "accounts_ok S ?d" by (rule iffD2 [OF accounts_ok_idents, rotated])
  have "user_of d1 i = user_of (bump_epoch i (put_user ?u d)) i" by (simp add: user_of_def d1)
  then have w: "user_of ?d (u_id (retired status del p u)) = Some (without_proofs (?u\<lparr>u_epoch := Some (epoch ?u + 1)\<rparr>))"
    using u i by (simp add: user_of_withdraw user_of_bump user_of_put)
  show ?thesis unfolding e
    by (rule accounts_ok_put [OF ok w]) (use p in \<open>simp_all add: without_proofs_def\<close>)
qed

section \<open>Every request keeps the invariant\<close>

text \<open>Between requests the session shows what was saved.\<close>

definition in_order :: "uuid set \<Rightarrow> session_state \<Rightarrow> bool" where
  "in_order S s \<longleftrightarrow> accounts_ok S (ss_db s) \<and> st_db (ss_saved s) = ss_db s"

lemma in_order_request:
  assumes "in_order S s" and "durable (accounts_ok S) (snd (m s))"
  shows "in_order S (snd (unit_of_work True m s))"
  using assms by (auto simp: in_order_def durable_def unit_of_work_def split: prod.split sum.split)

lemma in_order_returned:
  assumes "m s = (Inr x, t)" and "accounts_ok S (ss_db t)"
  shows "in_order S (snd (unit_of_work True m s))"
  using assms by (simp add: in_order_def unit_of_work_def)

lemma in_order_durable: "in_order S s \<Longrightarrow> durable (accounts_ok S) s"
  by (simp add: in_order_def durable_def)

lemma durable_rest: "durable P t \<Longrightarrow> preserves (durable P) m \<Longrightarrow> durable P (snd (m t))"
  by (simp add: preserves_def)

lemma durable_set [simp]: "durable P (s\<lparr>ss_db := d\<rparr>) \<longleftrightarrow> P d \<and> P (st_db (ss_saved s))"
  by (simp add: durable_def)

lemma durable_calm [durable_intros]:
  "preserves (durable P) (publish_change cached acts)" "preserves (durable P) (invalidate_user_auth_snapshot sv i)"
  "preserves (durable P) (account_event sv category typ src actor u reason before after meta now)"
  unfolding invalidate_user_auth_snapshot_def account_event_def
  by (simp_all add: publish_change_def publish_later_def mark_change_def audit_event_def when_op_def preserves_def durable_def)

lemma durable_insert:
  assumes "u_superuser u \<longrightarrow> u_protected u = Some True" and "u_status u \<noteq> ''deleted''"
  shows "preserves (durable (accounts_ok S)) (insert_user u)"
  using accounts_ok_add [of S _ u] assms unfolding insert_user_def preserves_def durable_def by auto

lemma base_account_facts [simp]:
  "u_superuser (base_account i address a first last_name) = na_superuser a"
  "u_protected (base_account i address a first last_name) = (if na_superuser a then Some True else None)"
  "u_status (base_account i address a first last_name) = ''active''"
  by (simp_all add: base_account_def new_user_def)

lemma create_keeps: "preserves (durable (accounts_ok S)) (create_user sv dr a password)"
  unfolding create_user_def unused_email_def find_user_def Let_def
  by (intro inv_intros durable_insert) simp_all

lemma invite_keeps: "preserves (durable (accounts_ok S)) (invite_user sv dr a inviter)"
  unfolding invite_user_def unused_email_def find_user_def Let_def
  by (intro inv_intros durable_insert durable_intros) simp_all

lemma superuser_keeps:
  assumes "durable (accounts_ok S) s"
  shows "durable (accounts_ok S) (snd (update_superuser_status sv now i super actor reason s))"
proof (cases "user_of (ss_db s) i")
  case None
  then show ?thesis using assms by (simp add: update_superuser_status_def)
next
  case (Some u)
  have ok: "accounts_ok S (ss_db s)" using assms by (simp add: durable_def)
  have "accounts_ok S (put_user (u\<lparr>u_superuser := super, u_protected := (if super \<or> u_superuser u then Some True else u_protected u)\<rparr>) (ss_db s))"
    if "u_status u \<noteq> ''deleted''"
    by (rule accounts_ok_put [OF ok, of _ u]) (use Some user_of_id [OF Some] that in simp_all)
  moreover have "accounts_ok S (st_db (ss_saved s))" using assms by (simp add: durable_def)
  ultimately show ?thesis using assms Some unfolding update_superuser_status_def save_user_def Let_def
    by (auto intro!: durable_rest inv_intros durable_intros)
qed

text \<open>A changed address is nobody else's.\<close>

lemma changed_email_run:
  assumes "changed_email c u s = (r, t)"
  shows "t = s \<and> (\<forall>v. r = Inr v \<longrightarrow> ident (v\<lparr>u_email := u_email u\<rparr>) = ident u
     \<and> (u_email v = u_email u \<or> (\<forall>x \<in> set (tb_users (ss_db s)). u_email x \<noteq> u_email v)))"
proof -
  have fresh: "\<forall>x \<in> set us. u_email x \<noteq> address" if "scalar_one_or_none (\<lambda>u. u_email u = address) us = Inr None" for address us
    using that by (auto simp: scalar_one_or_none_def filter_empty_conv split: list.splits)
  show ?thesis
  proof (cases "pc_email c")
    case None
    then show ?thesis using assms by (auto simp: changed_email_def)
  next
    case (Some e)
    show ?thesis
    proof (cases "validate_email e")
      case (Inl x)
      then show ?thesis using assms Some by (auto simp: changed_email_def)
    next
      case (Inr address)
      then show ?thesis
        using assms Some fresh [of address "tb_users (ss_db s)"]
        by (auto simp: changed_email_def unused_email_def bind_op_assoc ident_def split: if_splits sum.splits option.splits)
    qed
  qed
qed

lemma changed_rest:
  assumes "renamed_account c u = Inr v" and "changed_phone c v = Inr w"
  shows "ident w = ident u"
  using assms by (auto simp: renamed_account_def changed_phone_def bindE_eq_Inr ident_def split: if_splits)

lemma fields_keeps:
  assumes "durable (accounts_ok S) s"
  shows "durable (accounts_ok S) (snd (update_user_fields sv now i c actor s))"
proof (cases "user_of (ss_db s) i")
  case None
  then show ?thesis using assms by (simp add: update_user_fields_def)
next
  case (Some u)
  have ok: "accounts_ok S (ss_db s)" using assms by (simp add: durable_def)
  obtain r t where run: "changed_email c u s = (r, t)" by (cases "changed_email c u s")
  note email = changed_email_run [OF run]
  show ?thesis
  proof (cases r)
    case (Inl e)
    then show ?thesis using assms Some run email by (simp add: update_user_fields_def bind_op_def [of "changed_email c u"])
  next
    case (Inr u1)
    have "accounts_ok S (put_user w (ss_db s))" if "renamed_account c u1 = Inr v" "changed_phone c v = Inr w" for v w
    proof -
      have same: "ident w = ident u1" "ident (u1\<lparr>u_email := u_email u\<rparr>) = ident u" using changed_rest [OF that] email Inr by simp_all
      have u: "u \<in> set (tb_users (ss_db s))" using Some row_by_SomeD [of u_id i _ u] by (simp add: user_of_def)
      show ?thesis
        by (rule accounts_ok_put [OF ok, of _ u])
          (use Some user_of_id [OF Some] same email Inr ok u in \<open>auto simp: ident_def accounts_ok_def\<close>)
    qed
    moreover have "accounts_ok S (st_db (ss_saved s))" using assms by (simp add: durable_def)
    ultimately show ?thesis using assms Some email Inr unfolding update_user_fields_def save_user_def Let_def
      by (auto simp: bind_op_run [where m = "changed_email c u", OF run [unfolded Inr]] bind_op_def [of "lift_op _"]
          split: sum.split intro!: durable_rest inv_intros durable_intros)
  qed
qed

lemma idents_request:
  assumes "in_order S s" and "\<And>L. distinct (map fst L) \<Longrightarrow> preserves (durable (idents_are L)) m"
  shows "in_order S (snd (unit_of_work True m s))"
proof -
  let ?L = "idents (ss_db s)"
  have "distinct (map fst ?L)" using assms(1) by (simp add: in_order_def accounts_ok_list)
  moreover have "durable (idents_are ?L) s" using assms(1) by (simp add: in_order_def durable_def idents_are_def)
  ultimately have kept: "durable (idents_are ?L) (snd (m s))" using assms(2) by (simp add: preserves_def)
  have ok: "accounts_ok S (ss_db s)" using assms(1) by (simp add: in_order_def)
  have "accounts_ok S d" if "idents d = ?L" for d by (rule iffD2 [OF accounts_ok_idents [OF that] ok])
  then show ?thesis using kept by (intro in_order_request [OF assms(1)]) (simp add: durable_def idents_are_def)
qed

lemma in_order_step:
  assumes "in_order S s"
  shows "in_order S (snd (unit_of_work True (account_op sv au r) s))"
proof -
  note same = idents_request [OF assms] and ok = in_order_durable [OF assms]
  have whole: "in_order S (snd (unit_of_work True (run_op m) s))" if "durable (accounts_ok S) (snd (m s))" for m :: "'a op"
    by (rule in_order_request [OF assms]) (use that in \<open>cases "m s"; auto simp: run_op_def bind_op_def split: sum.split\<close>)
  show ?thesis
  proof (cases r)
    case (CreateAccount dr a password)
    show ?thesis unfolding CreateAccount account_op.simps
      by (rule whole) (use create_keeps ok in \<open>simp add: preserves_def\<close>)
  next
    case (InviteAccount dr a inviter)
    show ?thesis unfolding InviteAccount account_op.simps
      by (rule whole) (use invite_keeps ok in \<open>simp add: preserves_def\<close>)
  next
    case (ChangeFields now i c actor)
    show ?thesis unfolding ChangeFields account_op.simps by (rule whole, rule fields_keeps [OF ok])
  next
    case (ChangeSuperuser now i super actor reason)
    show ?thesis unfolding ChangeSuperuser account_op.simps by (rule whole, rule superuser_keeps [OF ok])
  next
    case (RestoreAccount now i actor)
    show ?thesis
    proof (cases "\<exists>v t. restore_user sv now i actor s = (Inr v, t)")
      case True
      then obtain v t where t: "restore_user sv now i actor s = (Inr v, t)" by blast
      show ?thesis unfolding RestoreAccount account_op.simps
        by (rule in_order_returned [of _ _ "()" t])
          (use t accounts_ok_removal [OF _ restore_user_removes [OF t]] assms in \<open>simp_all add: run_op_def bind_op_run in_order_def\<close>)
    next
      case False
      then have "restore_user sv now i actor s = (fst (restore_user sv now i actor s), s)"
        using restore_user_returns [of s i _ sv now actor] by (auto simp: restore_user_def split: option.splits)
      then show ?thesis unfolding RestoreAccount account_op.simps by (intro whole) (metis ok snd_conv)
    qed
  next
    case (DeleteAccount now i actor)
    show ?thesis
    proof (cases "\<exists>t. delete_user sv now i actor s = (Inr True, t)")
      case True
      then obtain t where t: "delete_user sv now i actor s = (Inr True, t)" by blast
      show ?thesis unfolding DeleteAccount account_op.simps
        by (rule in_order_returned [of _ _ "()" t])
          (use t accounts_ok_removal [OF _ delete_user_removes [OF t]] assms in \<open>simp_all add: run_op_def bind_op_run in_order_def\<close>)
    next
      case False
      then have "delete_user sv now i actor s = (Inr False, s)"
        using delete_user_returns [of s i _ sv now actor] by (auto simp: delete_user_def get_user_by_id_def split: option.splits)
      then show ?thesis unfolding DeleteAccount account_op.simps by (intro whole) (simp add: ok)
    qed
  qed (simp only: account_op.simps, rule same, (rule ident_run)?, (erule ident_account_requests | erule ident_auth_op))+
qed

lemma in_order_run: "in_order S s \<Longrightarrow> in_order S (account_run sv au rs s)"
  unfolding account_run_def by (induction rs arbitrary: s) (auto intro: in_order_step)

section \<open>Properties\<close>

text \<open>
  C11. In every history of requests to the user service and the authentication service, failed and successful
  ones, the accounts keep distinct keys and distinct addresses, so that a lookup by address never finds
  two; every superuser is classified as protected, no deleted account is a superuser, and an account that
  was protected once stays protected, through loss of the privilege, deletion and restore.
\<close>

theorem accounts_stay_in_order:
  assumes "in_order S s"
  shows "in_order S (account_run sv au rs s)
     \<and> (\<exists>x. fst (find_user (\<lambda>u. u_email u = address) (account_run sv au rs s)) = Inr x)"
proof -
  have *: "in_order S (account_run sv au rs s)" using assms by (rule in_order_run)
  then have "distinct (map u_email (tb_users (ss_db (account_run sv au rs s))))" by (simp add: in_order_def accounts_ok_def)
  from scalar_key [OF this, of address] * show ?thesis by (auto simp: find_user_def)
qed

lemma accounts_stay_in_order_witness:
  "in_order {''u''} (account_run small_users small_auth
     [InviteAccount (small_draw 10) \<lparr>na_email = ''v@example.com'', na_first = None, na_last = None, na_superuser = True, na_root = None\<rparr> (Some ''u''),
      Authenticate (InviteRequest (small_draw 20) ''t'' ''secret''), ChangeSuperuser 30 ''u'' False None None, DeleteAccount 40 ''u'' None,
      RestoreAccount 50 ''u'' None] chief_session)"
proof -
  have "in_order {''u''} chief_session" by code_simp
  from accounts_stay_in_order [OF this] show ?thesis by blast
qed

text \<open>Revoking the privilege counts the active superusers first.\<close>

lemma active_after_put:
  assumes "distinct (map u_id us)" and "length (filter p us) > 1"
  shows "filter p (set_row u_id v us) \<noteq> []"
proof -
  obtain x y where xy: "x \<in> set us" "y \<in> set us" "p x" "p y" "x \<noteq> y"
  proof -
    obtain x y zs where z: "filter p us = x # y # zs" using assms(2) by (cases "filter p us" rule: remdups_adj.cases) auto
    moreover have "distinct (filter p us)" using assms(1) by (simp add: distinct_map)
    ultimately have "x \<noteq> y" by auto
    moreover have "x \<in> set (filter p us)" "y \<in> set (filter p us)" using z by auto
    ultimately show thesis using that by auto
  qed
  then have "u_id x \<noteq> u_id y" using same_key [OF assms(1)] by blast
  then obtain z where z: "z \<in> set us" "p z" "u_id z \<noteq> u_id v" using xy by (cases "u_id x = u_id v") auto
  then have "z \<in> set (set_row u_id v us)" by (force simp: set_row_def)
  with z(2) show ?thesis by (auto simp: filter_empty_conv)
qed

text \<open>
  C17. Revoking superuser privileges never leaves the platform without an active superuser: a request that
  succeeds leaves at least one, one that would leave none is refused and changes nothing.
\<close>

theorem revocation_leaves_a_superuser:
  assumes "distinct (map u_id (tb_users (ss_db s)))" and "active_superusers (ss_db s) \<noteq> []" and "st_db (ss_saved s) = ss_db s"
  shows "active_superusers (ss_db (snd (unit_of_work True (update_superuser_status sv now i False actor reason) s))) \<noteq> []"
proof -
  let ?m = "update_superuser_status sv now i False actor reason"
  have kept: "durable (\<lambda>d. active_superusers d \<noteq> []) (snd (?m s))"
  proof (cases "user_of (ss_db s) i")
    case None
    then show ?thesis using assms by (simp add: update_superuser_status_def durable_def)
  next
    case (Some u)
    have "active_superusers (put_user v (ss_db s)) \<noteq> []" if "\<not> length (active_superusers (ss_db s)) \<le> Suc 0" for v
      using active_after_put [OF assms(1), of "\<lambda>u. u_superuser u \<and> u_status u = ''active''" v] that
      by (simp add: active_superusers_def put_user_def)
    then show ?thesis using assms Some unfolding update_superuser_status_def save_user_def Let_def
      by (auto simp: durable_def [of _ s] intro!: durable_rest inv_intros durable_intros)
  qed
  then show ?thesis by (auto simp: unit_of_work_def durable_def split: prod.split sum.split)
qed

lemma revocation_leaves_a_superuser_witness:
  "active_superusers (ss_db (snd (unit_of_work True (update_superuser_status small_users 20 ''u'' False None None) chief_session))) \<noteq> []"
proof -
  have "distinct (map u_id (tb_users (ss_db chief_session)))" "active_superusers (ss_db chief_session) \<noteq> []"
    "st_db (ss_saved chief_session) = ss_db chief_session" by code_simp+
  then show ?thesis by (rule revocation_leaves_a_superuser)
qed

text \<open>Nothing of the kind guards deletion and suspension: both take the last one.\<close>

lemma last_superuser_can_be_removed:
  "active_superusers (ss_db (snd (unit_of_work True (delete_user small_users 20 ''u'' None) chief_session))) = []"
  "active_superusers (ss_db (snd (unit_of_work True (update_user_status small_users 20 ''u'' ''suspended'' None None None) chief_session))) = []"
  by code_simp+

end
