(* ===== verification/AdminScope.thy ===== *)
theory AdminScope
  imports PermCheckProps
begin

text \<open>
  The decision on an administrative operation at a target entity, \<open>outlabs_auth/services/administrative_scope.py\<close>:
  from the grants of the actor, the validated maps of roots, descendants and groups, the outcomes of
  conditions and the boundary of a key. A mapping is a partial function, a set a list.
\<close>

section \<open>Data\<close>

datatype target_kind = TargetEntity | TargetSubtree | TargetGroup

datatype decision_reason =
  Allowed | UntrustedActor | InvalidTarget | InvalidTime | OutsideKeyBoundary | NoMatchingGrant

fun decision_reason_value :: "decision_reason \<Rightarrow> string" where
  "decision_reason_value Allowed = ''allowed''"
| "decision_reason_value UntrustedActor = ''untrusted_actor''"
| "decision_reason_value InvalidTarget = ''invalid_target''"
| "decision_reason_value InvalidTime = ''invalid_time''"
| "decision_reason_value OutsideKeyBoundary = ''outside_key_boundary''"
| "decision_reason_value NoMatchingGrant = ''no_matching_grant''"

record administrative_actor =
  aa_user :: uuid
  aa_root :: "uuid option"
  aa_status :: string

record administrative_role =
  ag_role_id :: uuid
  ag_permissions :: "string list"
  ag_role_status :: definition_status
  ag_conditions :: bool

record administrative_grant =
  ag_id :: uuid
  ag_user :: uuid
  ag_role :: administrative_role
  ag_kind :: target_kind
  ag_target :: uuid
  ag_status :: membership_status
  ag_from :: "pydatetime option"
  ag_until :: "pydatetime option"

record administrative_target =
  at_entity :: uuid
  at_root :: uuid
  at_whole_root :: bool
  at_conditions :: bool

record condition_outcome =
  co_user :: uuid
  co_grant :: uuid
  co_role :: uuid
  co_entity :: uuid
  co_permission :: string
  co_allowed :: bool

record administrative_decision =
  ad_allowed :: bool
  ad_reason :: decision_reason
  ad_checked :: "uuid option"
  ad_grant :: "uuid option"

definition decided :: "bool \<Rightarrow> decision_reason \<Rightarrow> uuid option \<Rightarrow> uuid option \<Rightarrow> administrative_decision" where
  "decided b why checked grant = \<lparr>ad_allowed = b, ad_reason = why, ad_checked = checked, ad_grant = grant\<rparr>"

text \<open>The maps the caller has validated.\<close>

record entity_maps =
  mp_root :: "uuid \<Rightarrow> uuid option"
  mp_below :: "uuid \<Rightarrow> uuid list option"
  mp_groups :: "uuid \<Rightarrow> uuid list option"

section \<open>Grants\<close>

fun aware_instant :: "pydatetime \<Rightarrow> datetime option" where
  "aware_instant (Naive t) = None"
| "aware_instant (Aware t) = Some t"

text \<open>The ends of a grant whose times are aware; \<open>None\<close> when one of them is naive.\<close>

definition grant_window :: "administrative_grant \<Rightarrow> (datetime option \<times> datetime option) option" where
  "grant_window g =
     (let from = map_option aware_instant (ag_from g); until = map_option aware_instant (ag_until g)
      in if from = Some None \<or> until = Some None then None
         else Some (Option.bind from id, Option.bind until id))"

definition grant_is_current :: "administrative_grant \<Rightarrow> datetime \<Rightarrow> bool" where
  "grant_is_current g now \<longleftrightarrow>
     (if ag_status g \<noteq> MActive \<or> ag_role_status (ag_role g) \<noteq> DActive then False
      else case grant_window g of
        None \<Rightarrow> False
      | Some (from, until) \<Rightarrow>
          if (case (from, until) of (Some f, Some u) \<Rightarrow> u < f | _ \<Rightarrow> False) then False
          else (case from of None \<Rightarrow> True | Some f \<Rightarrow> f \<le> now) \<and> (case until of None \<Rightarrow> True | Some u \<Rightarrow> now \<le> u))"

definition selector_holds_entity ::
  "entity_maps \<Rightarrow> uuid \<Rightarrow> administrative_grant \<Rightarrow> uuid \<Rightarrow> uuid \<Rightarrow> bool" where
  "selector_holds_entity mp internal g e home \<longleftrightarrow>
     (if ag_kind g = TargetGroup
      then (case mp_groups mp (ag_target g) of
              None \<Rightarrow> False
            | Some members \<Rightarrow>
                let customers = filter (\<lambda>r. r \<noteq> internal) members in
                if list_ex (\<lambda>r. mp_root mp r \<noteq> Some r) customers then False
                else if home \<notin> set customers then False
                else if e = home then True
                else (case mp_below mp home of None \<Rightarrow> False | Some below \<Rightarrow> e \<in> set below))
      else case mp_root mp (ag_target g) of
        None \<Rightarrow> False
      | Some anchor \<Rightarrow>
          if anchor = internal \<or> anchor \<noteq> home then False
          else if ag_kind g = TargetEntity then ag_target g = e
          else (case mp_below mp (ag_target g) of
                  None \<Rightarrow> False
                | Some below \<Rightarrow> ag_target g \<in> set below \<and> e \<in> set below))"

text \<open>The single outcome of a grant at the checked entity: none, or contradictory ones, refuse.\<close>

definition outcome_met ::
  "condition_outcome list \<Rightarrow> administrative_actor \<Rightarrow> administrative_grant \<Rightarrow> uuid \<Rightarrow> string \<Rightarrow> bool" where
  "outcome_met outcomes actor g checked permission \<longleftrightarrow>
     (case filter (\<lambda>o'. co_user o' = aa_user actor \<and> co_grant o' = ag_id g \<and> co_role o' = ag_role_id (ag_role g)
             \<and> co_entity o' = checked \<and> co_permission o' = permission) outcomes of
        [x] \<Rightarrow> co_allowed x
      | _ \<Rightarrow> False)"

definition grant_allows ::
  "entity_maps \<Rightarrow> uuid \<Rightarrow> condition_outcome list \<Rightarrow> administrative_actor \<Rightarrow> administrative_target \<Rightarrow> uuid \<Rightarrow> string
     \<Rightarrow> datetime \<Rightarrow> administrative_grant \<Rightarrow> bool" where
  "grant_allows mp internal outcomes actor target checked permission now g \<longleftrightarrow>
     (if ag_user g \<noteq> aa_user actor \<or> \<not> grant_is_current g now then False
      else if \<not> selector_holds_entity mp internal g checked (at_root target) then False
      else if \<not> matcher_allows (make_matcher (ag_permissions (ag_role g))) permission then False
      else if ag_conditions (ag_role g) \<or> at_conditions target
           then outcome_met outcomes actor g checked permission
           else True)"

section \<open>The decision\<close>

definition trusted_actor :: "entity_maps \<Rightarrow> uuid option \<Rightarrow> administrative_actor \<Rightarrow> bool" where
  "trusted_actor mp internal actor \<longleftrightarrow>
     (case internal of
        None \<Rightarrow> False
      | Some i \<Rightarrow> aa_root actor = internal \<and> aa_status actor = ''active'' \<and> mp_root mp i = Some i)"

definition customer_target :: "entity_maps \<Rightarrow> uuid \<Rightarrow> administrative_target \<Rightarrow> bool" where
  "customer_target mp internal target \<longleftrightarrow>
     mp_root mp (at_entity target) = Some (at_root target) \<and> mp_root mp (at_root target) = Some (at_root target)
     \<and> at_root target \<noteq> internal"

definition evaluate_administrative_permission ::
  "administrative_actor \<Rightarrow> administrative_target \<Rightarrow> string \<Rightarrow> administrative_grant list \<Rightarrow> pydatetime \<Rightarrow> uuid option
     \<Rightarrow> entity_maps \<Rightarrow> condition_outcome list \<Rightarrow> uuid list option \<Rightarrow> administrative_decision" where
  "evaluate_administrative_permission actor target permission gs now internal mp outcomes boundary =
     (if \<not> trusted_actor mp internal actor then decided False UntrustedActor None None
      else case aware_instant now of
        None \<Rightarrow> decided False InvalidTime None None
      | Some t \<Rightarrow>
          if permission = [] \<or> \<not> customer_target mp (the internal) target then decided False InvalidTarget None None
          else let checked = (if at_whole_root target then at_root target else at_entity target) in
            if (case boundary of None \<Rightarrow> False | Some ids \<Rightarrow> at_entity target \<notin> set ids \<or> checked \<notin> set ids)
            then decided False OutsideKeyBoundary (Some checked) None
            else case List.find (grant_allows mp (the internal) outcomes actor target checked permission t) gs of
                   Some g \<Rightarrow> decided True Allowed (Some checked) (Some (ag_id g))
                 | None \<Rightarrow> decided False NoMatchingGrant (Some checked) None)"

section \<open>What a decision rests on\<close>

text \<open>The entities a selector stands for among those of a customer root.\<close>

definition selected_area :: "entity_maps \<Rightarrow> uuid \<Rightarrow> administrative_grant \<Rightarrow> uuid \<Rightarrow> uuid set" where
  "selected_area mp internal g home =
     (case ag_kind g of
        TargetGroup \<Rightarrow> {e. home \<noteq> internal \<and> (\<exists>members. mp_groups mp (ag_target g) = Some members \<and> home \<in> set members
            \<and> (\<forall>r \<in> set members - {internal}. mp_root mp r = Some r))
            \<and> (e = home \<or> (\<exists>ids. mp_below mp home = Some ids \<and> e \<in> set ids))}
      | TargetEntity \<Rightarrow> {e. home \<noteq> internal \<and> mp_root mp (ag_target g) = Some home \<and> e = ag_target g}
      | TargetSubtree \<Rightarrow> {e. home \<noteq> internal \<and> mp_root mp (ag_target g) = Some home
            \<and> (\<exists>ids. mp_below mp (ag_target g) = Some ids \<and> ag_target g \<in> set ids \<and> e \<in> set ids)})"

lemma selector_area: "selector_holds_entity mp internal g e home \<longleftrightarrow> e \<in> selected_area mp internal g home"
  by (cases "ag_kind g")
    (auto simp: selector_holds_entity_def selected_area_def list_ex_iff Let_def split: option.splits)

text \<open>A grant in force: active, with an active role, at an instant within its aware window.\<close>

definition in_force :: "administrative_grant \<Rightarrow> datetime \<Rightarrow> bool" where
  "in_force g now \<longleftrightarrow> ag_status g = MActive \<and> ag_role_status (ag_role g) = DActive
     \<and> (\<forall>x \<in> set_option (ag_from g). \<exists>t \<le> now. x = Aware t) \<and> (\<forall>x \<in> set_option (ag_until g). \<exists>t \<ge> now. x = Aware t)"

lemma aware_instant_iff: "aware_instant x = Some t \<longleftrightarrow> x = Aware t"
  by (cases x) simp_all

lemma grant_current: "grant_is_current g now \<longleftrightarrow> in_force g now"
proof -
  have naive: "aware_instant x = None \<longleftrightarrow> (\<forall>t. x \<noteq> Aware t)" for x by (cases x) simp_all
  show ?thesis
    by (cases "ag_from g"; cases "ag_until g"; cases "the (ag_from g)"; cases "the (ag_until g)")
      (auto simp: grant_is_current_def grant_window_def in_force_def Let_def)
qed

text \<open>The single outcome for a grant at the checked entity, when its role or the target asks for conditions.\<close>

definition outcome_for ::
  "administrative_actor \<Rightarrow> administrative_grant \<Rightarrow> uuid \<Rightarrow> string \<Rightarrow> condition_outcome \<Rightarrow> bool" where
  "outcome_for actor g checked permission x \<longleftrightarrow> co_user x = aa_user actor \<and> co_grant x = ag_id g
     \<and> co_role x = ag_role_id (ag_role g) \<and> co_entity x = checked \<and> co_permission x = permission"

lemma outcome_met_iff:
  "outcome_met outcomes actor g checked permission \<longleftrightarrow>
     (\<exists>x. filter (outcome_for actor g checked permission) outcomes = [x] \<and> co_allowed x)"
  by (auto simp: outcome_met_def outcome_for_def [abs_def] split: list.splits)

definition justifies ::
  "entity_maps \<Rightarrow> uuid \<Rightarrow> condition_outcome list \<Rightarrow> administrative_actor \<Rightarrow> administrative_target \<Rightarrow> uuid \<Rightarrow> string
     \<Rightarrow> datetime \<Rightarrow> administrative_grant \<Rightarrow> bool" where
  "justifies mp internal outcomes actor target checked permission now g \<longleftrightarrow>
     ag_user g = aa_user actor \<and> in_force g now \<and> checked \<in> selected_area mp internal g (at_root target)
     \<and> (\<exists>n \<in> set (ag_permissions (ag_role g)). covers n permission)
     \<and> (ag_conditions (ag_role g) \<or> at_conditions target \<longrightarrow>
          (\<exists>x. filter (outcome_for actor g checked permission) outcomes = [x] \<and> co_allowed x))"

lemma grant_allows_iff:
  assumes "permission \<noteq> []"
  shows "grant_allows mp internal outcomes actor target checked permission now g \<longleftrightarrow>
    justifies mp internal outcomes actor target checked permission now g"
  using matcher_allows_iff [OF assms] permission_set_allows_iff
  unfolding grant_allows_def justifies_def grant_current selector_area outcome_met_iff by auto

lemma find_grant: "(\<exists>g. List.find P gs = Some g) \<longleftrightarrow> (\<exists>g \<in> set gs. P g)"
  by (simp only: not_None_eq [symmetric] find_None_iff not_not) (simp add: Bex_def)

text \<open>
  C13. An administrative operation is allowed exactly when one grant justifies it: the actor belongs to the trusted
  internal root and is active, the time is aware, the target lies in a customer root, the key's boundary (if
  any) holds both the target and the entity the decision is about, and one grant of that actor is in force, its
  selector holds that entity, its role covers the permission and the conditions asked for have one positive outcome. In
  particular nothing is ever allowed in the internal tree, and permissions of two grants are never combined.
\<close>

theorem administrative_decision_exact:
  "ad_allowed (evaluate_administrative_permission actor target permission gs now internal mp outcomes boundary) \<longleftrightarrow>
     (\<exists>i t checked g. internal = Some i \<and> aa_root actor = Some i \<and> aa_status actor = ''active'' \<and> mp_root mp i = Some i
        \<and> now = Aware t \<and> permission \<noteq> [] \<and> mp_root mp (at_entity target) = Some (at_root target)
        \<and> mp_root mp (at_root target) = Some (at_root target) \<and> at_root target \<noteq> i
        \<and> checked = (if at_whole_root target then at_root target else at_entity target)
        \<and> (\<forall>ids. boundary = Some ids \<longrightarrow> at_entity target \<in> set ids \<and> checked \<in> set ids)
        \<and> g \<in> set gs \<and> justifies mp i outcomes actor target checked permission t g)"
proof (cases "trusted_actor mp internal actor \<and> permission \<noteq> [] \<and> aware_instant now \<noteq> None \<and> customer_target mp (the internal) target")
  case False
  then show ?thesis
    by (auto simp: evaluate_administrative_permission_def decided_def trusted_actor_def customer_target_def
        split: option.split)
next
  case True
  then obtain i t where i: "internal = Some i" and t: "now = Aware t" "aware_instant now = Some t"
    by (auto simp: trusted_actor_def aware_instant_iff split: option.splits)
  define checked where "checked = (if at_whole_root target then at_root target else at_entity target)"
  note allows = grant_allows_iff [of permission mp i outcomes actor target checked t]
  have "ad_allowed (evaluate_administrative_permission actor target permission gs now internal mp outcomes boundary) \<longleftrightarrow>
      (\<forall>ids. boundary = Some ids \<longrightarrow> at_entity target \<in> set ids \<and> checked \<in> set ids)
      \<and> (\<exists>g \<in> set gs. grant_allows mp i outcomes actor target checked permission t g)"
    using True find_grant [of "grant_allows mp i outcomes actor target checked permission t" gs]
    unfolding evaluate_administrative_permission_def Let_def checked_def [symmetric] i t(2)
    by (auto simp: decided_def i split: option.splits)
  also have "\<dots> \<longleftrightarrow> (\<forall>ids. boundary = Some ids \<longrightarrow> at_entity target \<in> set ids \<and> checked \<in> set ids)
      \<and> (\<exists>g \<in> set gs. justifies mp i outcomes actor target checked permission t g)"
    using True allows by simp
  finally show ?thesis
    using True unfolding i t(1) checked_def by (auto simp: trusted_actor_def customer_target_def i)
qed

section \<open>Witness\<close>

text \<open>An internal root, a customer root with an office below it, and a grant over the customer's subtree.\<close>

definition sample_maps :: entity_maps where
  "sample_maps = \<lparr>mp_root = [''internal'' \<mapsto> ''internal'', ''acme'' \<mapsto> ''acme'', ''office'' \<mapsto> ''acme''],
     mp_below = [''acme'' \<mapsto> [''acme'', ''office'']], mp_groups = Map.empty\<rparr>"

definition staff :: administrative_actor where
  "staff = \<lparr>aa_user = ''s'', aa_root = Some ''internal'', aa_status = ''active''\<rparr>"

definition staff_grant :: administrative_grant where
  "staff_grant = \<lparr>ag_id = ''g'', ag_user = ''s'',
     ag_role = \<lparr>ag_role_id = ''r'', ag_permissions = [''user:*''], ag_role_status = DActive, ag_conditions = False\<rparr>,
     ag_kind = TargetSubtree, ag_target = ''acme'', ag_status = MActive, ag_from = None, ag_until = Some (Aware 9)\<rparr>"

definition office_target :: administrative_target where
  "office_target = \<lparr>at_entity = ''office'', at_root = ''acme'', at_whole_root = False, at_conditions = False\<rparr>"

theorem administrative_decision_exact_witness:
  "justifies sample_maps ''internal'' [] staff office_target ''office'' ''user:read'' 5 staff_grant
   \<and> \<not> justifies sample_maps ''internal'' [] staff office_target ''office'' ''user:read'' 10 staff_grant"
proof -
  let ?decide = "\<lambda>t. ad_allowed (evaluate_administrative_permission staff office_target ''user:read'' [staff_grant] (Aware t)
      (Some ''internal'') sample_maps [] (Some [''office'']))"
  have yes: "?decide 5" and no: "\<not> ?decide 10" by code_simp+
  have facts: "aa_root staff = Some ''internal''" "aa_status staff = ''active''" "mp_root sample_maps ''internal'' = Some ''internal''"
    "mp_root sample_maps (at_entity office_target) = Some (at_root office_target)" "at_entity office_target = ''office''"
    "mp_root sample_maps (at_root office_target) = Some (at_root office_target)" "at_root office_target \<noteq> ''internal''"
    "\<not> at_whole_root office_target"
    by code_simp+
  show ?thesis
    using yes [unfolded administrative_decision_exact] no [unfolded administrative_decision_exact] facts by auto
qed

end
