(* ===== verification/AccessScope.thy ===== *)
theory AccessScope
  imports RoleService ApiKeys
begin

text \<open>
  Which part of the entity forest a principal reaches (\<open>outlabs_auth/services/access_scope.py\<close>), and the
  guards the routers put in front of an operation: tenant visibility and tenant ownership
  (\<open>outlabs_auth/routers/_scope.py\<close>), and the containment of delegated permissions
  (\<open>outlabs_auth/routers/_authz_utils.py\<close>).

  Everything here reads one state of the database at one instant. A set of identifiers the code collects is a
  list, sorted where the code sorts it. A scope in the form of a dictionary is the record with the defaults
  of the keys the dictionary leaves out.
\<close>

section \<open>Scopes\<close>

record entity_scope =
  es_source :: string
  es_global :: bool
  es_user :: "uuid option"
  es_key :: "uuid option"
  es_key_entity :: "uuid option"
  es_descendants :: bool
  es_direct :: "uuid list"
  es_roots :: "uuid list"
  es_entities :: "uuid list"
  es_members :: "uuid list"

definition scope_from :: "string \<Rightarrow> entity_scope" where
  "scope_from source = \<lparr>es_source = source, es_global = False, es_user = None, es_key = None,
     es_key_entity = None, es_descendants = False, es_direct = [], es_roots = [], es_entities = [],
     es_members = []\<rparr>"

definition global_scope :: "string \<Rightarrow> entity_scope" where
  "global_scope source = (scope_from source)\<lparr>es_global := True\<rparr>"

definition empty_scope :: "string \<Rightarrow> entity_scope" where
  "empty_scope source = scope_from source"

definition sorted_ids :: "uuid list \<Rightarrow> uuid list" where
  "sorted_ids ids = sort (remdups ids)"

lemma set_sorted_ids [simp]: "set (sorted_ids ids) = set ids"
  by (simp add: sorted_ids_def)

text \<open>
  A text where an identifier is expected: the canonical text of one, or a text that \<open>UUID\<close> refuses.
\<close>

datatype id_text = Id uuid | Malformed string

definition coerce_uuid :: "id_text option \<Rightarrow> uuid option" where
  "coerce_uuid v = (case v of Some (Id i) \<Rightarrow> Some i | _ \<Rightarrow> None)"

text \<open>The dictionary of \<open>AuthDeps.require_auth()\<close>; the last two fields are entries of its metadata.\<close>

record auth_result =
  ar_source :: "string option"
  ar_user :: "user_row option"
  ar_user_id :: "id_text option"
  ar_key :: "api_key_row option"
  ar_key_id :: "id_text option"
  ar_key_entity :: "string option"

definition no_auth :: auth_result where
  "no_auth = \<lparr>ar_source = None, ar_user = None, ar_user_id = None, ar_key = None, ar_key_id = None,
     ar_key_entity = None\<rparr>"

definition auth_source :: "auth_result \<Rightarrow> string" where
  "auth_source r = (case ar_source r of None \<Rightarrow> ''unknown'' | Some s \<Rightarrow> if s = [] then ''unknown'' else s)"

section \<open>The access scope of a principal\<close>

definition with_principal_member :: "entity_scope \<Rightarrow> bool \<Rightarrow> entity_scope" where
  "with_principal_member sc include_members =
     (case es_user sc of
        None \<Rightarrow> sc
      | Some i \<Rightarrow> if \<not> include_members then sc
                  else sc\<lparr>es_members := sorted_ids (es_members sc @ [i])\<rparr>)"

definition user_has_active_system_wide_role :: "db \<Rightarrow> datetime \<Rightarrow> uuid \<Rightarrow> bool" where
  "user_has_active_system_wide_role d now i \<longleftrightarrow>
     list_ex (\<lambda>m. urm_user m = i \<and> urm_status m = MActive \<and> currently_valid now (urm_from m) (urm_until m)
       \<and> list_ex (\<lambda>r. r_id r = urm_role m \<and> system_wide r \<and> r_status r = DActive) (tb_roles d)) (tb_user_roles d)"

definition user_has_system_wide_role_grant :: "db \<Rightarrow> uuid \<Rightarrow> bool" where
  "user_has_system_wide_role_grant d i \<longleftrightarrow>
     list_ex (\<lambda>m. urm_user m = i \<and> list_ex (\<lambda>r. r_id r = urm_role m \<and> system_wide r) (tb_roles d)) (tb_user_roles d)"

definition descendants_of :: "db \<Rightarrow> uuid \<Rightarrow> uuid list" where
  "descendants_of d a = map cl_descendant (filter (\<lambda>r. cl_ancestor r = a) (tb_closure d))"

definition descendants_by_ancestor :: "db \<Rightarrow> uuid list \<Rightarrow> (uuid \<times> uuid list) list" where
  "descendants_by_ancestor d ids = map (\<lambda>a. (a, descendants_of d a)) (remdups ids)"

definition expand_descendant_ids :: "db \<Rightarrow> uuid list \<Rightarrow> uuid list" where
  "expand_descendant_ids d ids = concat (map snd (descendants_by_ancestor d ids))"

text \<open>The query's two sources: a given user's own root (else the row's), and the active memberships.\<close>

definition resolve_user_scope_inputs ::
  "db \<Rightarrow> uuid \<Rightarrow> user_row option \<Rightarrow> bool \<Rightarrow> uuid list \<times> uuid list \<times> (uuid \<times> uuid list) list" where
  "resolve_user_scope_inputs d i user expand =
     (let roots = (case user of
            Some u \<Rightarrow> (case u_root_entity u of None \<Rightarrow> [] | Some e \<Rightarrow> [e])
          | None \<Rightarrow> List.map_filter u_root_entity (filter (\<lambda>u. u_id u = i) (tb_users d)));
          direct = map em_entity (filter (\<lambda>m. em_user m = i \<and> em_status m = MActive) (tb_entity_members d))
      in (roots, direct, if expand then descendants_by_ancestor d (roots @ direct) else []))"

definition resolve_member_user_ids :: "db \<Rightarrow> datetime \<Rightarrow> uuid list \<Rightarrow> bool \<Rightarrow> uuid list" where
  "resolve_member_user_ids d now ids include_descendants =
     (if ids = [] then []
      else let scoped = ids @ (if include_descendants then expand_descendant_ids d ids else []) in
        sorted_ids (map em_user (filter (\<lambda>m. em_entity m \<in> set scoped \<and> em_status m = MActive
          \<and> currently_valid now (em_from m) (em_until m)) (tb_entity_members d))))"

definition looked_up :: "uuid \<Rightarrow> (uuid \<times> uuid list) list \<Rightarrow> uuid list" where
  "looked_up a table = (case map_of table a of None \<Rightarrow> [] | Some ids \<Rightarrow> ids)"

definition select_member_projection :: "entity_scope \<Rightarrow> (uuid \<times> uuid list) list \<Rightarrow> uuid list" where
  "select_member_projection sc table =
     (if es_direct sc \<noteq> []
      then sorted_ids (es_direct sc @
             (if es_descendants sc \<and> table \<noteq> [] then concat (map (\<lambda>a. looked_up a table) (es_direct sc)) else []))
      else sorted_ids (es_entities sc))"

definition resolve_for_user ::
  "auth_config \<Rightarrow> db \<Rightarrow> datetime \<Rightarrow> uuid \<Rightarrow> string \<Rightarrow> user_row option \<Rightarrow> bool \<Rightarrow> entity_scope" where
  "resolve_for_user cfg d now i source user include_members =
     (if user_has_active_system_wide_role d now i
      then with_principal_member ((global_scope source)\<lparr>es_user := Some i\<rparr>) include_members
      else let (roots, direct, table) = resolve_user_scope_inputs d i user (cfg_hierarchy cfg);
               seeds = roots @ direct;
               below = seeds \<noteq> [] \<and> cfg_hierarchy cfg;
               sc = (scope_from source)\<lparr>es_user := Some i, es_descendants := below, es_direct := sorted_ids direct,
                      es_roots := sorted_ids roots,
                      es_entities := sorted_ids (seeds @ (if below then concat (map snd table) else []))\<rparr>;
               sc1 = (if include_members
                      then sc\<lparr>es_members := resolve_member_user_ids d now (select_member_projection sc table) False\<rparr>
                      else sc)
           in with_principal_member sc1 include_members)"

definition resolve_for_api_key ::
  "auth_config \<Rightarrow> db \<Rightarrow> datetime \<Rightarrow> api_key_row option \<Rightarrow> uuid option \<Rightarrow> bool \<Rightarrow> entity_scope" where
  "resolve_for_api_key cfg d now key user include_members =
     (case key of
        None \<Rightarrow> with_principal_member ((scope_from ''api_key'')\<lparr>es_user := user\<rparr>) include_members
      | Some k \<Rightarrow>
          (case k_entity k of
             None \<Rightarrow> with_principal_member ((global_scope ''api_key'')\<lparr>es_user := user, es_key := Some (k_id k)\<rparr>)
                       include_members
           | Some e \<Rightarrow>
               let below = cfg_hierarchy cfg \<and> k_inherit k;
                   table = (if below then descendants_by_ancestor d [e] else []);
                   sc = (scope_from ''api_key'')\<lparr>es_user := user, es_key := Some (k_id k), es_key_entity := Some e,
                          es_descendants := below, es_direct := [e], es_entities := sorted_ids (e # looked_up e table)\<rparr>;
                   sc1 = (if include_members
                          then sc\<lparr>es_members := resolve_member_user_ids d now (select_member_projection sc table) False\<rparr>
                          else sc)
               in with_principal_member sc1 include_members))"

definition resolve_for_auth_result ::
  "auth_config \<Rightarrow> db \<Rightarrow> datetime \<Rightarrow> auth_result option \<Rightarrow> bool \<Rightarrow> entity_scope" where
  "resolve_for_auth_result cfg d now auth include_members =
     (case auth of
        None \<Rightarrow> with_principal_member (scope_from ''anonymous'') include_members
      | Some r \<Rightarrow>
          let source = auth_source r;
              i = coerce_uuid (case ar_user_id r of Some t \<Rightarrow> Some t | None \<Rightarrow> map_option (\<lambda>u. Id (u_id u)) (ar_user r))
          in if (case ar_user r of None \<Rightarrow> False | Some u \<Rightarrow> u_superuser u)
             then with_principal_member ((global_scope source)\<lparr>es_user := i\<rparr>) include_members
             else if source = ''api_key'' then resolve_for_api_key cfg d now (ar_key r) i include_members
             else case i of
                    None \<Rightarrow> with_principal_member (scope_from source) include_members
                  | Some j \<Rightarrow> resolve_for_user cfg d now j source (ar_user r) include_members)"

section \<open>What the routers raise\<close>

text \<open>An \<open>HTTPException\<close> with its status and detail, or an exception of the library.\<close>

datatype route_error = HttpError int string | Raised err

type_synonym 'a routed = "route_error + 'a"

definition routeE :: "err + 'a \<Rightarrow> 'a routed" where
  "routeE m = (case m of Inl e \<Rightarrow> Inl (Raised e) | Inr x \<Rightarrow> Inr x)"

definition no_such_user :: route_error where
  "no_such_user = HttpError 404 ''User not found''"

definition no_such_entity :: route_error where
  "no_such_entity = HttpError 404 ''Entity not found''"

definition no_such_role :: route_error where
  "no_such_role = HttpError 404 ''Role not found''"

definition account_managed_elsewhere :: route_error where
  "account_managed_elsewhere =
     HttpError 403 ''Only the account's own tenant or a global administrator can modify this account''"

definition membership_write_outside_tenant :: route_error where
  "membership_write_outside_tenant =
     HttpError 403 ''Only the entity's own tenant or a global administrator can grant access in this entity''"

definition role_write_outside_tenant :: route_error where
  "role_write_outside_tenant =
     HttpError 403 ''Only the role's own tenant or a global administrator can change this role''"

section \<open>The scope of a request\<close>

text \<open>The part of \<open>OutlabsAuth\<close> the guards use: its configuration, and whether there are API keys.\<close>

record scope_host =
  sh_config :: auth_config
  sh_keys :: bool
  sh_roles :: role_service

definition scope_enforced :: "scope_host \<Rightarrow> bool" where
  "scope_enforced h \<longleftrightarrow> cfg_hierarchy (sh_config h) \<and> cfg_enforce_scope (sh_config h)"

definition resolve_user_scope :: "scope_host \<Rightarrow> db \<Rightarrow> datetime \<Rightarrow> user_row \<Rightarrow> entity_scope" where
  "resolve_user_scope h d now u =
     (if \<not> cfg_hierarchy (sh_config h) then global_scope ''jwt''
      else resolve_for_auth_result (sh_config h) d now
             (Some (no_auth\<lparr>ar_source := Some ''jwt'', ar_user_id := Some (Id (u_id u)), ar_user := Some u\<rparr>)) False)"

definition load_auth_result_api_key :: "scope_host \<Rightarrow> db \<Rightarrow> auth_result \<Rightarrow> api_key_row option" where
  "load_auth_result_api_key h d r =
     (case ar_key r of
        Some k \<Rightarrow> Some k
      | None \<Rightarrow> if ar_key_id r = None \<or> \<not> sh_keys h then None
                else case coerce_uuid (ar_key_id r) of None \<Rightarrow> None | Some i \<Rightarrow> key_of d i)"

definition intersect_user_and_key_scope :: "entity_scope \<Rightarrow> entity_scope \<Rightarrow> entity_scope" where
  "intersect_user_and_key_scope us ks =
     (if es_global us then ks
      else let allowed = sorted_ids (filter (\<lambda>e. e \<in> set (es_entities ks)) (es_entities us)) in
        us\<lparr>es_global := False, es_key := es_key ks, es_key_entity := es_key_entity ks, es_entities := allowed,
           es_roots := filter (\<lambda>e. e \<in> set allowed) (es_roots us),
           es_direct := filter (\<lambda>e. e \<in> set allowed) (es_direct us)\<rparr>)"

text \<open>The user of the request: the one loaded already, or the row of its identifier.\<close>

definition request_user :: "db \<Rightarrow> auth_result \<Rightarrow> user_row option" where
  "request_user d r =
     (case ar_user r of
        Some u \<Rightarrow> Some u
      | None \<Rightarrow> (case coerce_uuid (ar_user_id r) of None \<Rightarrow> None | Some i \<Rightarrow> user_of d i))"

definition key_anchored :: "auth_result \<Rightarrow> bool" where
  "key_anchored r \<longleftrightarrow>
     (case ar_key r of
        Some k \<Rightarrow> k_entity k \<noteq> None
      | None \<Rightarrow> (case ar_key_entity r of None \<Rightarrow> False | Some t \<Rightarrow> t \<noteq> []))"

definition resolve_principal_scope :: "scope_host \<Rightarrow> db \<Rightarrow> datetime \<Rightarrow> auth_result option \<Rightarrow> entity_scope" where
  "resolve_principal_scope h d now auth =
     (if \<not> cfg_hierarchy (sh_config h) then global_scope ''simple''
      else case auth of
        None \<Rightarrow> empty_scope ''anonymous''
      | Some r \<Rightarrow>
          let source = auth_source r in
          (case request_user d r of
             Some u \<Rightarrow>
               let us = resolve_user_scope h d now u in
               if source \<noteq> ''api_key'' \<or> u_superuser u then us
               else if \<not> key_anchored r then us
               else (case load_auth_result_api_key h d r of
                       None \<Rightarrow> empty_scope source
                     | Some k \<Rightarrow> intersect_user_and_key_scope us
                                    (resolve_for_api_key (sh_config h) d now (Some k) None False))
           | None \<Rightarrow>
               if source = ''service_token'' then global_scope source
               else if source = ''api_key''
               then (case load_auth_result_api_key h d r of
                       None \<Rightarrow> empty_scope source
                     | Some k \<Rightarrow> resolve_for_api_key (sh_config h) d now (Some k) None False)
               else empty_scope source))"

section \<open>Visibility\<close>

definition entity_in_scope :: "entity_scope \<Rightarrow> uuid option \<Rightarrow> bool" where
  "entity_in_scope sc e \<longleftrightarrow> es_global sc \<or> (case e of None \<Rightarrow> False | Some i \<Rightarrow> i \<in> set (es_entities sc))"

text \<open>The climb from an entity that is not active to its nearest parent in scope.\<close>

fun archived_visible :: "db \<Rightarrow> entity_scope \<Rightarrow> nat \<Rightarrow> entity_row option \<Rightarrow> bool" where
  "archived_visible d sc 0 current = False"
| "archived_visible d sc (Suc n) current =
     (case current of
        None \<Rightarrow> False
      | Some e \<Rightarrow>
          if e_status e = ''active'' then False
          else case e_parent e of
                 None \<Rightarrow> False
               | Some p \<Rightarrow> if entity_in_scope sc (Some p) then True
                           else archived_visible d sc n (entity_of d p))"

definition entity_visible_in_scope :: "db \<Rightarrow> entity_scope \<Rightarrow> uuid option \<Rightarrow> bool" where
  "entity_visible_in_scope d sc e \<longleftrightarrow>
     (if entity_in_scope sc e then True
      else if es_entities sc = [] then False
      else archived_visible d sc 64 (case e of None \<Rightarrow> None | Some i \<Rightarrow> entity_of d i))"

definition target_user_in_scope :: "db \<Rightarrow> datetime \<Rightarrow> user_row \<Rightarrow> entity_scope \<Rightarrow> bool" where
  "target_user_in_scope d now u sc \<longleftrightarrow>
     (if es_global sc then True
      else if es_entities sc = [] then False
      else if (case u_root_entity u of None \<Rightarrow> False | Some e \<Rightarrow> e \<in> set (es_entities sc)) then True
      else list_ex (\<lambda>m. em_user m = u_id u \<and> em_status m = MActive
             \<and> currently_valid now (em_from m) (em_until m) \<and> em_entity m \<in> set (es_entities sc)) (tb_entity_members d))"

definition target_user_rooted_in_scope :: "user_row \<Rightarrow> entity_scope \<Rightarrow> bool" where
  "target_user_rooted_in_scope u sc \<longleftrightarrow>
     es_global sc \<or> (case u_root_entity u of None \<Rightarrow> False | Some e \<Rightarrow> e \<in> set (es_entities sc))"

section \<open>Ownership\<close>

text \<open>An entity lies in the tree of the actor's own root.\<close>

definition entity_in_users_tenant :: "db \<Rightarrow> user_row \<Rightarrow> uuid option \<Rightarrow> bool" where
  "entity_in_users_tenant d actor e \<longleftrightarrow>
     (case (u_root_entity actor, e) of
        (Some r, Some i) \<Rightarrow> r = i \<or> list_ex (\<lambda>c. cl_ancestor c = r \<and> cl_descendant c = i) (tb_closure d)
      | _ \<Rightarrow> False)"

definition account_in_users_tenant :: "db \<Rightarrow> user_row \<Rightarrow> user_row \<Rightarrow> bool" where
  "account_in_users_tenant d actor u \<longleftrightarrow> entity_in_users_tenant d actor (u_root_entity u)"

definition same_id :: "id_text option \<Rightarrow> uuid \<Rightarrow> bool" where
  "same_id t i \<longleftrightarrow> t = Some (Id i)"

definition auth_or_none :: "auth_result option \<Rightarrow> auth_result" where
  "auth_or_none auth = (case auth of None \<Rightarrow> no_auth | Some r \<Rightarrow> r)"

text \<open>The owner of an anchored key who spans every tree keeps that reach.\<close>

definition global_key_owner :: "scope_host \<Rightarrow> db \<Rightarrow> datetime \<Rightarrow> auth_result \<Rightarrow> user_row \<Rightarrow> bool" where
  "global_key_owner h d now r u \<longleftrightarrow>
     ar_source r = Some ''api_key'' \<and> (u_superuser u \<or> es_global (resolve_user_scope h d now u))"

definition require_account_managed_by_principal ::
  "scope_host \<Rightarrow> db \<Rightarrow> datetime \<Rightarrow> auth_result option \<Rightarrow> user_row \<Rightarrow> entity_scope \<Rightarrow> unit routed" where
  "require_account_managed_by_principal h d now auth target sc =
     (let r = auth_or_none auth in
      if \<not> scope_enforced h \<or> es_global sc then Inr ()
      else if same_id (ar_user_id r) (u_id target) then Inr ()
      else case request_user d r of
        Some u \<Rightarrow> if account_in_users_tenant d u target then Inr ()
                  else if global_key_owner h d now r u then Inr ()
                  else Inl account_managed_elsewhere
      | None \<Rightarrow> if ar_user_id r = None \<and> target_user_rooted_in_scope target sc then Inr ()
                else Inl account_managed_elsewhere)"

definition principal_tenant_holds_entity ::
  "scope_host \<Rightarrow> db \<Rightarrow> datetime \<Rightarrow> auth_result option \<Rightarrow> uuid option \<Rightarrow> bool" where
  "principal_tenant_holds_entity h d now auth e \<longleftrightarrow>
     (let r = auth_or_none auth in
      case request_user d r of
        None \<Rightarrow> ar_user_id r = None
      | Some u \<Rightarrow> if entity_in_users_tenant d u e then True else global_key_owner h d now r u)"

definition require_membership_write_in_principal_tenant ::
  "scope_host \<Rightarrow> db \<Rightarrow> datetime \<Rightarrow> auth_result option \<Rightarrow> uuid option \<Rightarrow> entity_scope \<Rightarrow> unit routed" where
  "require_membership_write_in_principal_tenant h d now auth e sc =
     (if \<not> scope_enforced h \<or> es_global sc then Inr ()
      else if principal_tenant_holds_entity h d now auth e then Inr ()
      else Inl membership_write_outside_tenant)"

definition require_role_write_in_principal_tenant ::
  "scope_host \<Rightarrow> db \<Rightarrow> datetime \<Rightarrow> auth_result option \<Rightarrow> uuid option \<Rightarrow> entity_scope \<Rightarrow> unit routed" where
  "require_role_write_in_principal_tenant h d now auth e sc =
     (if e = None \<or> \<not> scope_enforced h \<or> es_global sc then Inr ()
      else if principal_tenant_holds_entity h d now auth e then Inr ()
      else Inl role_write_outside_tenant)"

section \<open>Guards of a request\<close>

definition get_visible_user_or_404 ::
  "scope_host \<Rightarrow> db \<Rightarrow> datetime \<Rightarrow> auth_result option \<Rightarrow> uuid \<Rightarrow> entity_scope option \<Rightarrow> user_row routed" where
  "get_visible_user_or_404 h d now auth i scope =
     (case user_of d i of
        None \<Rightarrow> Inl no_such_user
      | Some u \<Rightarrow>
          if \<not> scope_enforced h then Inr u
          else if same_id (ar_user_id (auth_or_none auth)) (u_id u) then Inr u
          else let sc = (case scope of Some s \<Rightarrow> s | None \<Rightarrow> resolve_principal_scope h d now auth) in
            if es_global sc then Inr u
            else if \<not> target_user_in_scope d now u sc then Inl no_such_user
            else Inr u)"

definition user_is_global_account :: "scope_host \<Rightarrow> db \<Rightarrow> user_row \<Rightarrow> bool" where
  "user_is_global_account h d u \<longleftrightarrow>
     (if u_superuser u \<or> u_protected u = Some True then True
      else if \<not> cfg_hierarchy (sh_config h) then False
      else user_has_system_wide_role_grant d (u_id u))"

definition role_visible_in_scope :: "role_row \<Rightarrow> entity_scope \<Rightarrow> bool" where
  "role_visible_in_scope r sc \<longleftrightarrow>
     (if es_global sc then True
      else if system_wide r then False
      else case r_scope_entity r of
             Some e \<Rightarrow> e \<in> set (es_entities sc)
           | None \<Rightarrow> (case r_root_entity r of Some e \<Rightarrow> e \<in> set (es_roots sc) | None \<Rightarrow> False))"

definition resolve_grantor_scope ::
  "scope_host \<Rightarrow> db \<Rightarrow> datetime \<Rightarrow> user_row option \<Rightarrow> auth_result option \<Rightarrow> entity_scope" where
  "resolve_grantor_scope h d now actor auth =
     (case actor of
        Some u \<Rightarrow> if u_superuser u then global_scope ''superuser'' else resolve_user_scope h d now u
      | None \<Rightarrow> resolve_principal_scope h d now auth)"

definition require_global_actor_for_system_wide_roles ::
  "scope_host \<Rightarrow> db \<Rightarrow> datetime \<Rightarrow> user_row option \<Rightarrow> uuid list \<Rightarrow> auth_result option \<Rightarrow> unit routed" where
  "require_global_actor_for_system_wide_roles h d now actor ids auth =
     (let wide = sort (map r_id (filter (\<lambda>r. r_id r \<in> set ids \<and> system_wide r) (tb_roles d))) in
      if \<not> scope_enforced h then Inr ()
      else if ids = [] then Inr ()
      else if wide = [] then Inr ()
      else if (case actor of
                 Some u \<Rightarrow> u_superuser u \<or> es_global (resolve_user_scope h d now u)
               | None \<Rightarrow> auth \<noteq> None \<and> es_global (resolve_principal_scope h d now auth)) then Inr ()
      else Inl (Raised (permission_denied ''Only global administrators can grant system-wide roles directly''
                  [(''system_wide_role_ids'', PList (map PStr wide))])))"

definition direct_root_match :: "scope_host \<Rightarrow> role_row \<Rightarrow> uuid option \<Rightarrow> unit routed" where
  "direct_root_match h r home =
     routeE (require_direct_role_root_match
       ((sh_roles h)\<lparr>ro_hierarchy := cfg_hierarchy (sh_config h), ro_enforce := cfg_enforce_scope (sh_config h)\<rparr>) r home)"

fun each_routed :: "('a \<Rightarrow> unit routed) \<Rightarrow> 'a list \<Rightarrow> unit routed" where
  "each_routed f [] = Inr ()"
| "each_routed f (x # xs) = bindE (f x) (\<lambda>_. each_routed f xs)"

definition require_direct_role_grants_in_scope ::
  "scope_host \<Rightarrow> db \<Rightarrow> datetime \<Rightarrow> role_row list \<Rightarrow> user_row option \<Rightarrow> auth_result option \<Rightarrow> uuid option
     \<Rightarrow> bool \<Rightarrow> unit routed" where
  "require_direct_role_grants_in_scope h d now roles actor auth target_root check_root =
     (if \<not> scope_enforced h then Inr ()
      else if roles = [] then Inr ()
      else bindE (require_global_actor_for_system_wide_roles h d now actor (map r_id roles) auth) (\<lambda>_.
        let sc = resolve_grantor_scope h d now actor auth in
        bindE (requireE (es_global sc \<or> list_all (\<lambda>r. system_wide r \<or> role_visible_in_scope r sc) roles) no_such_role) (\<lambda>_.
        if check_root then each_routed (\<lambda>r. direct_root_match h r target_root) roles else Inr ())))"

definition require_entity_visible_or_404 ::
  "scope_host \<Rightarrow> db \<Rightarrow> datetime \<Rightarrow> auth_result option \<Rightarrow> uuid option \<Rightarrow> entity_scope option \<Rightarrow> entity_scope routed" where
  "require_entity_visible_or_404 h d now auth e scope =
     (if scope = None \<and> \<not> scope_enforced h then Inr (global_scope ''unscoped'')
      else let sc = (case scope of Some s \<Rightarrow> s | None \<Rightarrow> resolve_principal_scope h d now auth) in
        if es_global sc then Inr sc
        else if \<not> entity_visible_in_scope d sc e then Inl no_such_entity
        else Inr sc)"

text \<open>The dependency, on the value it finds in the request.\<close>

definition entity_scope_guard ::
  "scope_host \<Rightarrow> db \<Rightarrow> datetime \<Rightarrow> auth_result option \<Rightarrow> id_text option \<Rightarrow> unit routed" where
  "entity_scope_guard h d now auth raw =
     (if \<not> scope_enforced h then Inr ()
      else case coerce_uuid raw of
             None \<Rightarrow> Inr ()
           | Some e \<Rightarrow> bindE (require_entity_visible_or_404 h d now auth (Some e) None) (\<lambda>_. Inr ()))"

definition actor_is_global :: "scope_host \<Rightarrow> db \<Rightarrow> datetime \<Rightarrow> auth_result option \<Rightarrow> bool" where
  "actor_is_global h d now auth \<longleftrightarrow>
     \<not> cfg_hierarchy (sh_config h) \<or> es_global (resolve_principal_scope h d now auth)"

definition resolve_root_for_scoped_create ::
  "scope_host \<Rightarrow> db \<Rightarrow> datetime \<Rightarrow> user_row option \<Rightarrow> auth_result option \<Rightarrow> uuid option \<Rightarrow> uuid option routed" where
  "resolve_root_for_scoped_create h d now actor auth requested =
     (if \<not> scope_enforced h then Inr requested
      else if (case actor of None \<Rightarrow> False | Some u \<Rightarrow> u_superuser u) then Inr requested
      else let sc = (case actor of Some u \<Rightarrow> resolve_user_scope h d now u | None \<Rightarrow> resolve_principal_scope h d now auth) in
        if es_global sc then Inr requested
        else case requested of
          None \<Rightarrow>
            let own = (case actor of None \<Rightarrow> None | Some u \<Rightarrow> u_root_entity u) in
            if own \<noteq> None \<and> entity_in_scope sc own then Inr own
            else Inl (Raised (permission_denied
                   (''Tenant-scoped administrators must place new accounts inside their own scope: ''
                    @ ''provide a root entity (or an entity membership) within your accessible scope'')
                   [(''reason'', PStr ''root_entity_required'')]))
        | Some e \<Rightarrow>
            if \<not> entity_in_scope sc (Some e)
            then Inl (Raised (permission_denied ''Root entity is outside your accessible entity scope''
                   [(''root_entity_id'', PStr e)]))
            else let r = auth_or_none auth;
                     tenant = (case actor of None \<Rightarrow> r
                                | Some u \<Rightarrow> r\<lparr>ar_user := Some u, ar_user_id := Some (Id (u_id u))\<rparr>)
                 in if \<not> principal_tenant_holds_entity h d now (Some tenant) (Some e)
                    then Inl (Raised (permission_denied
                           ''Only the root entity's own tenant or a global administrator can create accounts in it''
                           [(''root_entity_id'', PStr e), (''reason'', PStr ''root_entity_outside_tenant'')]))
                    else Inr (Some e))"

section \<open>Containment of delegated permissions\<close>

definition grantor_missing_permissions :: "string list \<Rightarrow> string set \<Rightarrow> string list" where
  "grantor_missing_permissions required held =
     sort (remdups (filter (\<lambda>p. \<not> permission_set_allows p held) required))"

definition require_can_delegate_permissions ::
  "auth_config \<Rightarrow> db \<Rightarrow> check_env \<Rightarrow> uuid \<Rightarrow> string list \<Rightarrow> uuid option \<Rightarrow> err + unit" where
  "require_can_delegate_permissions cfg d env actor wanted eid =
     (let names = filter (\<lambda>p. p \<noteq> []) wanted in
      if names = [] then Inr ()
      else bindE (get_effective_permission_names cfg d env actor eid (Some names) None) (\<lambda>held.
        let missing = sort (remdups (filter (\<lambda>n. n \<notin> held) names)) in
        requireE (missing = []) (permission_denied ''You cannot grant permissions you do not hold''
          [(''missing_permissions'', PList (map PStr missing))])))"

definition entries_of :: "(string \<times> string list) list \<Rightarrow> string list" where
  "entries_of table = concat (map snd table)"

text \<open>The names a role carries: its own, and the contextual ones of a type, or of every type.\<close>

definition carried_names :: "db \<Rightarrow> string option \<Rightarrow> uuid \<Rightarrow> err + string list" where
  "carried_names d typ rid =
     bindE (get_role_permission_names d rid) (\<lambda>own.
     bindE (get_role_entity_type_permission_names d rid) (\<lambda>table.
     Inr (own @ (case typ of
                   None \<Rightarrow> entries_of table
                 | Some t \<Rightarrow> (case map_of table t of None \<Rightarrow> [] | Some ns \<Rightarrow> ns)))))"

fun all_carried :: "db \<Rightarrow> string option \<Rightarrow> uuid list \<Rightarrow> err + string list" where
  "all_carried d typ [] = Inr []"
| "all_carried d typ (rid # ids) =
     bindE (carried_names d typ rid) (\<lambda>ns. bindE (all_carried d typ ids) (\<lambda>ms. Inr (ns @ ms)))"

definition target_type :: "db \<Rightarrow> uuid option \<Rightarrow> string option" where
  "target_type d eid =
     (case eid of
        None \<Rightarrow> None
      | Some e \<Rightarrow> (case entity_of d e of
                     None \<Rightarrow> None
                   | Some x \<Rightarrow> if e_type x = [] then None else Some (py_lower (e_type x))))"

definition require_can_delegate_roles ::
  "auth_config \<Rightarrow> db \<Rightarrow> check_env \<Rightarrow> uuid \<Rightarrow> uuid list \<Rightarrow> uuid option \<Rightarrow> err + unit" where
  "require_can_delegate_roles cfg d env actor ids eid =
     bindE (all_carried d (target_type d eid) (remdups ids)) (\<lambda>names.
     require_can_delegate_permissions cfg d env actor names eid)"

definition direct_role_grant_context :: "auth_config \<Rightarrow> role_row \<Rightarrow> uuid option" where
  "direct_role_grant_context cfg r =
     (if \<not> (cfg_hierarchy cfg \<and> cfg_enforce_scope cfg) then None
      else case r_scope_entity r of Some e \<Rightarrow> Some e | None \<Rightarrow> r_root_entity r)"

fun require_can_delegate_direct_roles ::
  "auth_config \<Rightarrow> db \<Rightarrow> check_env \<Rightarrow> uuid \<Rightarrow> role_row list \<Rightarrow> err + unit" where
  "require_can_delegate_direct_roles cfg d env actor [] = Inr ()"
| "require_can_delegate_direct_roles cfg d env actor (r # rs) =
     bindE (carried_names d None (r_id r)) (\<lambda>names.
     bindE (require_can_delegate_permissions cfg d env actor names (direct_role_grant_context cfg r)) (\<lambda>_.
     require_can_delegate_direct_roles cfg d env actor rs))"

end
