(* ===== verification/ScopeProps.thy ===== *)
theory ScopeProps
  imports AccessScope EntityArchive PermCheckProps
begin

text \<open>
  What the guards of the routers guarantee: a tenant's principal neither sees nor changes anything outside
  the tree of its tenant, a key never reaches past its owner, and nobody hands out a permission it lacks.
\<close>

section \<open>The scope of a user\<close>

text \<open>The entities a user is placed at: the root entity, and those of active memberships.\<close>

definition seeds_of :: "db \<Rightarrow> user_row \<Rightarrow> uuid set" where
  "seeds_of d u = set_option (u_root_entity u)
     \<union> em_entity ` {m \<in> set (tb_entity_members d). em_user m = u_id u \<and> em_status m = MActive}"

definition listed_below :: "db \<Rightarrow> uuid \<Rightarrow> uuid set" where
  "listed_below d a = cl_descendant ` {c \<in> set (tb_closure d). cl_ancestor c = a}"

lemma set_descendants_of: "set (descendants_of d a) = listed_below d a"
  by (auto simp: descendants_of_def listed_below_def)

lemma descendants_table:
  "set (concat (map snd (descendants_by_ancestor d ids))) = (\<Union>a \<in> set ids. listed_below d a)"
  by (simp add: descendants_by_ancestor_def set_descendants_of comp_def)

lemma looked_up_descendants:
  "set (looked_up e (descendants_by_ancestor d [e])) = listed_below d e"
  by (simp add: looked_up_def descendants_by_ancestor_def set_descendants_of)

definition spans_all :: "db \<Rightarrow> datetime \<Rightarrow> user_row \<Rightarrow> bool" where
  "spans_all d now u \<longleftrightarrow> u_superuser u \<or> user_has_active_system_wide_role d now (u_id u)"

lemma resolve_user_scope_unfold:
  assumes "cfg_hierarchy (sh_config h)"
  shows "resolve_user_scope h d now u =
    (if spans_all d now u then (global_scope ''jwt'')\<lparr>es_user := Some (u_id u)\<rparr>
     else let (roots, direct, table) = resolve_user_scope_inputs d (u_id u) (Some u) True; seeds = roots @ direct in
       (scope_from ''jwt'')\<lparr>es_user := Some (u_id u), es_descendants := seeds \<noteq> [], es_direct := sorted_ids direct,
         es_roots := sorted_ids roots,
         es_entities := sorted_ids (seeds @ (if seeds \<noteq> [] then concat (map snd table) else []))\<rparr>)"
  using assms
  by (simp add: resolve_user_scope_def resolve_for_auth_result_def no_auth_def auth_source_def coerce_uuid_def
      resolve_for_user_def with_principal_member_def spans_all_def scope_from_def global_scope_def Let_def
      split: prod.split)

lemma seeds_list:
  "set (case u_root_entity u of None \<Rightarrow> [] | Some e \<Rightarrow> [e]) \<union>
     set (map em_entity (filter (\<lambda>m. em_user m = u_id u \<and> em_status m = MActive) (tb_entity_members d))) = seeds_of d u"
  by (auto simp: seeds_of_def split: option.split)

lemma user_scope:
  assumes "cfg_hierarchy (sh_config h)"
  shows "es_global (resolve_user_scope h d now u) \<longleftrightarrow> spans_all d now u"
    and "\<not> spans_all d now u \<Longrightarrow>
      set (es_entities (resolve_user_scope h d now u)) = seeds_of d u \<union> (\<Union>a \<in> seeds_of d u. listed_below d a)"
    and "\<not> spans_all d now u \<Longrightarrow> set (es_roots (resolve_user_scope h d now u)) = set_option (u_root_entity u)"
proof -
  define roots where "roots = (case u_root_entity u of None \<Rightarrow> [] | Some e \<Rightarrow> [e])"
  define direct where "direct = map em_entity (filter (\<lambda>m. em_user m = u_id u \<and> em_status m = MActive) (tb_entity_members d))"
  have seeds: "set (roots @ direct) = seeds_of d u"
    using seeds_list [of u d] unfolding roots_def [symmetric] direct_def [symmetric] by simp
  have roots: "set roots = set_option (u_root_entity u)" by (cases "u_root_entity u") (simp_all add: roots_def)
  have inputs: "resolve_user_scope_inputs d (u_id u) (Some u) True = (roots, direct, descendants_by_ancestor d (roots @ direct))"
    by (simp add: resolve_user_scope_inputs_def roots_def direct_def Let_def)
  have table: "set (concat (map snd (descendants_by_ancestor d (roots @ direct)))) = (\<Union>a \<in> seeds_of d u. listed_below d a)"
    unfolding descendants_table seeds by simp
  note scope = resolve_user_scope_unfold [OF assms, of d now u, unfolded inputs]
  show "es_global (resolve_user_scope h d now u) \<longleftrightarrow> spans_all d now u"
    unfolding scope by (simp add: global_scope_def scope_from_def Let_def)
  assume spans: "\<not> spans_all d now u"
  show "set (es_roots (resolve_user_scope h d now u)) = set_option (u_root_entity u)"
    unfolding scope using spans roots by (simp add: scope_from_def Let_def)
  have "es_entities (resolve_user_scope h d now u) = sorted_ids ((roots @ direct) @
      (if roots @ direct \<noteq> [] then concat (map snd (descendants_by_ancestor d (roots @ direct))) else []))"
    unfolding scope using spans by (simp only: if_False Let_def prod.case scope_from_def entity_scope.update_convs entity_scope.select_convs)
  then have "set (es_entities (resolve_user_scope h d now u)) = set (roots @ direct) \<union>
      (if roots @ direct \<noteq> [] then set (concat (map snd (descendants_by_ancestor d (roots @ direct)))) else {})"
    by (simp only: set_sorted_ids set_append [of "roots @ direct"] if_distrib [of set] list.set(1))
  then show "set (es_entities (resolve_user_scope h d now u)) = seeds_of d u \<union> (\<Union>a \<in> seeds_of d u. listed_below d a)"
    unfolding table seeds using seeds by (cases "roots @ direct") auto
qed

text \<open>The scope of an anchored key.\<close>

lemma key_scope:
  assumes "k_entity k = Some e"
  shows "es_global (resolve_for_api_key cfg d now (Some k) None False) = False"
    and "set (es_entities (resolve_for_api_key cfg d now (Some k) None False)) =
      insert e (if cfg_hierarchy cfg \<and> k_inherit k then listed_below d e else {})"
  using assms looked_up_descendants [of e d]
  by (auto simp: resolve_for_api_key_def with_principal_member_def scope_from_def Let_def looked_up_def)

lemma free_key_scope:
  assumes "k_entity k = None"
  shows "es_global (resolve_for_api_key cfg d now (Some k) None False)"
    and "es_entities (resolve_for_api_key cfg d now (Some k) None False) = []"
  using assms by (simp_all add: resolve_for_api_key_def with_principal_member_def scope_from_def global_scope_def)

section \<open>Keys and their owners\<close>

definition scope_within :: "entity_scope \<Rightarrow> entity_scope \<Rightarrow> bool" where
  "scope_within a b \<longleftrightarrow> es_global b \<or> (\<not> es_global a \<and> set (es_entities a) \<subseteq> set (es_entities b)
     \<and> set (es_roots a) \<subseteq> set (es_roots b) \<and> set (es_direct a) \<subseteq> set (es_direct b))"

lemma within_self [simp]: "scope_within a a"
  by (simp add: scope_within_def)

lemma within_empty [simp]: "scope_within (empty_scope source) b"
  by (simp add: scope_within_def empty_scope_def scope_from_def)

lemma within_intersect: "scope_within (intersect_user_and_key_scope us ks) us"
  by (auto simp: scope_within_def intersect_user_and_key_scope_def Let_def)

lemma intersect_entities:
  "set (es_entities (intersect_user_and_key_scope us ks)) \<subseteq> set (es_entities ks)"
  by (auto simp: intersect_user_and_key_scope_def Let_def)

lemma principal_scope_user:
  assumes "cfg_hierarchy (sh_config h)" and "request_user d r = Some u"
  shows "resolve_principal_scope h d now (Some r) =
    (if auth_source r \<noteq> ''api_key'' \<or> u_superuser u \<or> \<not> key_anchored r then resolve_user_scope h d now u
     else case load_auth_result_api_key h d r of None \<Rightarrow> empty_scope (auth_source r)
       | Some k \<Rightarrow> intersect_user_and_key_scope (resolve_user_scope h d now u)
                     (resolve_for_api_key (sh_config h) d now (Some k) None False))"
  using assms by (simp add: resolve_principal_scope_def Let_def)

lemma principal_scope_within:
  assumes "cfg_hierarchy (sh_config h)" and "request_user d r = Some u"
  shows "scope_within (resolve_principal_scope h d now (Some r)) (resolve_user_scope h d now u)"
  unfolding principal_scope_user [OF assms] by (simp add: within_intersect split: option.split)

text \<open>The reach an anchor allows: the entity, and with the flag what the closure table lists below it.\<close>

definition anchor_reach :: "auth_config \<Rightarrow> db \<Rightarrow> api_key_row \<Rightarrow> uuid set" where
  "anchor_reach cfg d k =
     (case k_entity k of None \<Rightarrow> {}
      | Some e \<Rightarrow> insert e (if cfg_hierarchy cfg \<and> k_inherit k then listed_below d e else {}))"

lemma anchored_key_entities:
  "set (es_entities (resolve_for_api_key cfg d now (Some k) None False)) = anchor_reach cfg d k"
  by (cases "k_entity k") (simp_all add: key_scope free_key_scope anchor_reach_def)


section \<open>Tenants\<close>

text \<open>In every history the closure table lists only what lies below an entity.\<close>

lemma listed_below_tree:
  assumes "hierarchy_ok d" and "b \<in> listed_below d a"
  shows "b \<in> below (parent_map d) a"
proof -
  from assms(2) obtain c where "c \<in> set (tb_closure d)" "cl_ancestor c = a" "cl_descendant c = b"
    by (auto simp: listed_below_def)
  then have "(a, b, cl_depth c) \<in> closure_set d" by (force simp: closure_set_def)
  then show ?thesis using closure_relD [OF hierarchy_okD(5) [OF assms(1)]] by (auto simp: below_def)
qed

lemma below_trans: "b \<in> below P a \<Longrightarrow> c \<in> below P b \<Longrightarrow> c \<in> below P a"
  by (auto simp: below_def dest: up_trans)

lemma user_scope_tree:
  assumes "hierarchy_ok d" and "cfg_hierarchy (sh_config h)" and "\<not> spans_all d now u"
    and "seeds_of d u \<subseteq> below (parent_map d) R"
  shows "set (es_entities (resolve_user_scope h d now u)) \<subseteq> below (parent_map d) R"
  unfolding user_scope(2) [OF assms(2,3)]
  using assms(4) listed_below_tree [OF assms(1)] by (blast intro: below_trans)

lemma parent_below: "parent_map d i = Some p \<Longrightarrow> p \<in> below (parent_map d) R \<Longrightarrow> i \<in> below (parent_map d) R"
proof -
  assume "parent_map d i = Some p" "p \<in> below (parent_map d) R"
  then obtain n where "up (parent_map d) n p = Some R" by (auto simp: below_def)
  with \<open>parent_map d i = Some p\<close> have "up (parent_map d) (Suc n) i = Some R" by simp
  then show ?thesis unfolding below_def by blast
qed

lemma archived_visible_tree:
  assumes "archived_visible d sc n (entity_of d i)" and "\<not> es_global sc"
    and "set (es_entities sc) \<subseteq> below (parent_map d) R"
  shows "i \<in> below (parent_map d) R"
  using assms(1)
proof (induction n arbitrary: i)
  case (Suc n)
  from Suc.prems obtain e p where e: "entity_of d i = Some e" "e_parent e = Some p"
    and vis: "p \<in> set (es_entities sc) \<or> archived_visible d sc n (entity_of d p)"
    using assms(2) by (auto simp: entity_in_scope_def split: option.splits if_splits)
  then have "p \<in> below (parent_map d) R" using Suc.IH assms(3) by blast
  moreover have "parent_map d i = Some p" using e by (simp add: parent_map_def entity_at_def entity_of_def)
  ultimately show ?case by (rule parent_below [rotated])
qed simp

lemma visible_tree:
  assumes "entity_visible_in_scope d sc (Some i)" and "\<not> es_global sc"
    and "set (es_entities sc) \<subseteq> below (parent_map d) R"
  shows "i \<in> below (parent_map d) R"
  using assms archived_visible_tree [OF _ assms(2,3), of 64 i]
  by (auto simp: entity_visible_in_scope_def entity_in_scope_def split: if_splits)

text \<open>A user of one tenant: the root entity and every active membership lie in one tree.\<close>

definition tenant_principal ::
  "scope_host \<Rightarrow> db \<Rightarrow> datetime \<Rightarrow> auth_result \<Rightarrow> user_row \<Rightarrow> uuid \<Rightarrow> bool" where
  "tenant_principal h d now r u R \<longleftrightarrow>
     scope_enforced h \<and> request_user d r = Some u \<and> \<not> spans_all d now u \<and> seeds_of d u \<subseteq> below (parent_map d) R"

text \<open>An account of another tenant: neither its root nor a current membership lies in the tree.\<close>

definition outside_account :: "db \<Rightarrow> datetime \<Rightarrow> user_row \<Rightarrow> uuid \<Rightarrow> bool" where
  "outside_account d now v R \<longleftrightarrow>
     set_option (u_root_entity v) \<inter> below (parent_map d) R = {}
     \<and> (\<forall>m \<in> set (tb_entity_members d). em_user m = u_id v \<and> em_can_grant now m \<longrightarrow> em_entity m \<notin> below (parent_map d) R)"

lemma tenant_scope:
  assumes "hierarchy_ok d" and "tenant_principal h d now r u R"
  defines "sc \<equiv> resolve_principal_scope h d now (Some r)"
  shows "\<not> es_global sc" and "set (es_entities sc) \<subseteq> below (parent_map d) R"
    and "set (es_roots sc) \<subseteq> below (parent_map d) R"
proof -
  have h: "cfg_hierarchy (sh_config h)" and u: "request_user d r = Some u" "\<not> spans_all d now u"
    and seeds: "seeds_of d u \<subseteq> below (parent_map d) R"
    using assms(2) by (simp_all add: tenant_principal_def scope_enforced_def)
  note within = principal_scope_within [OF h u(1), of now, folded sc_def, unfolded scope_within_def user_scope(1) [OF h]]
  show "\<not> es_global sc" using within u(2) by simp
  show "set (es_entities sc) \<subseteq> below (parent_map d) R"
    using within u(2) user_scope_tree [OF assms(1) h u(2) seeds] by blast
  show "set (es_roots sc) \<subseteq> below (parent_map d) R"
    using within u(2) user_scope(3) [OF h u(2)] seeds by (auto simp: seeds_of_def)
qed

lemma outside_account_hidden:
  assumes "outside_account d now v R" and "\<not> es_global sc" and "set (es_entities sc) \<subseteq> below (parent_map d) R"
  shows "\<not> target_user_in_scope d now v sc"
  using assms
  by (auto simp: outside_account_def target_user_in_scope_def list_ex_iff em_can_grant_def em_valid_def
      split: option.splits if_splits)

definition outside_role :: "db \<Rightarrow> role_row \<Rightarrow> uuid \<Rightarrow> bool" where
  "outside_role d ro R \<longleftrightarrow>
     (case r_scope_entity ro of
        Some e \<Rightarrow> e \<notin> below (parent_map d) R
      | None \<Rightarrow> set_option (r_root_entity ro) \<inter> below (parent_map d) R = {})"

lemma outside_role_hidden:
  assumes "outside_role d ro R"
    and "\<not> es_global sc" and "set (es_entities sc) \<subseteq> below (parent_map d) R" and "set (es_roots sc) \<subseteq> below (parent_map d) R"
  shows "\<not> role_visible_in_scope ro sc"
  using assms by (auto simp: outside_role_def role_visible_in_scope_def split: option.splits if_splits)

lemma isolation:
  assumes "hierarchy_ok d" and "tenant_principal h d now r u R"
  shows "e \<notin> below (parent_map d) R \<Longrightarrow> require_entity_visible_or_404 h d now (Some r) (Some e) None = Inl no_such_entity"
    and "(\<And>v. user_of d i = Some v \<Longrightarrow> outside_account d now v R \<and> \<not> same_id (ar_user_id r) i) \<Longrightarrow>
      get_visible_user_or_404 h d now (Some r) i None = Inl no_such_user"
    and "outside_role d ro R \<Longrightarrow> \<not> role_visible_in_scope ro (resolve_principal_scope h d now (Some r))"
proof -
  note sc = tenant_scope [OF assms]
  have enforced: "scope_enforced h" using assms(2) by (simp add: tenant_principal_def)
  show "require_entity_visible_or_404 h d now (Some r) (Some e) None = Inl no_such_entity"
    if "e \<notin> below (parent_map d) R"
    using that sc(1) visible_tree [OF _ sc(1,2)] enforced by (auto simp: require_entity_visible_or_404_def Let_def)
  show "get_visible_user_or_404 h d now (Some r) i None = Inl no_such_user"
    if that: "\<And>v. user_of d i = Some v \<Longrightarrow> outside_account d now v R \<and> \<not> same_id (ar_user_id r) i"
  proof (cases "user_of d i")
    case (Some v)
    then have "u_id v = i" by (auto simp: user_of_def dest: row_by_SomeD)
    with Some that [OF Some] outside_account_hidden [OF _ sc(1,2)] sc(1) enforced show ?thesis
      by (auto simp: get_visible_user_or_404_def auth_or_none_def Let_def)
  qed (simp add: get_visible_user_or_404_def)
  show "\<not> role_visible_in_scope ro (resolve_principal_scope h d now (Some r))" if "outside_role d ro R"
    by (rule outside_role_hidden [OF that sc])
qed


section \<open>Writes\<close>

lemma tenant_entity:
  assumes "hierarchy_ok d" and "entity_in_users_tenant d u (Some e)"
  shows "\<exists>root. u_root_entity u = Some root \<and> e \<in> below (parent_map d) root"
proof -
  from assms(2) obtain root where "u_root_entity u = Some root" "root = e \<or> e \<in> listed_below d root"
    by (auto simp: entity_in_users_tenant_def listed_below_def list_ex_iff split: option.splits)
  then show ?thesis using listed_below_tree [OF assms(1)] by auto
qed

lemma no_global_owner:
  assumes "scope_enforced h" and "\<not> spans_all d now u"
  shows "\<not> global_key_owner h d now r u"
  using assms user_scope(1) [of h d now u] by (auto simp: global_key_owner_def scope_enforced_def spans_all_def)

lemma tenant_holds:
  assumes "hierarchy_ok d" and "scope_enforced h" and "request_user d r = Some u" and "\<not> spans_all d now u"
    and "principal_tenant_holds_entity h d now (Some r) (Some e)"
  shows "\<exists>root. u_root_entity u = Some root \<and> e \<in> below (parent_map d) root"
  using assms(3,5) no_global_owner [OF assms(2,4)] tenant_entity [OF assms(1)]
  by (auto simp: principal_tenant_holds_entity_def auth_or_none_def Let_def split: if_splits)

lemma scoped_create_home:
  assumes "hierarchy_ok d" and "scope_enforced h" and "\<not> spans_all d now u"
    and "resolve_root_for_scoped_create h d now (Some u) auth wanted = Inr x"
  shows "\<exists>root e. u_root_entity u = Some root \<and> x = Some e \<and> e \<in> below (parent_map d) root"
proof -
  have no: "\<not> u_superuser u" "\<not> es_global (resolve_user_scope h d now u)"
    using assms(2,3) user_scope(1) [of h d now u] by (auto simp: spans_all_def scope_enforced_def)
  note run = assms(4) [unfolded resolve_root_for_scoped_create_def]
  show ?thesis
  proof (cases wanted)
    case None
    then obtain root where "u_root_entity u = Some root" "x = Some root"
      using run no assms(2) by (auto simp: Let_def split: if_splits)
    then show ?thesis by simp
  next
    case (Some e)
    define r where "r = (auth_or_none auth)\<lparr>ar_user := Some u, ar_user_id := Some (Id (u_id u))\<rparr>"
    have "principal_tenant_holds_entity h d now (Some r) (Some e)" "x = Some e"
      using run Some no assms(2) by (auto simp: Let_def r_def split: if_splits)
    moreover have "request_user d r = Some u" by (simp add: r_def request_user_def)
    ultimately show ?thesis using tenant_holds [OF assms(1,2) _ assms(3)] by blast
  qed
qed

text \<open>
  C6. What a tenant writes stays in its tenant. In every history of the entity tree, for a principal whose user
  spans no other tree: a membership or a role is only written at an entity below the user's own root, only
  accounts rooted there are modified (and one's own), and a new account is always rooted there, whatever the
  memberships, the scope of the request and the credential are.
\<close>

theorem tenant_writes_stay_home:
  assumes "tree_reach s" and "scope_enforced h" and "request_user (ss_db s) r = Some u" and "\<not> spans_all (ss_db s) now u"
    and "\<not> es_global sc"
  defines "home \<equiv> \<lambda>e. \<exists>root. u_root_entity u = Some root \<and> e \<in> below (parent_map (ss_db s)) root"
  shows "(\<forall>e. require_membership_write_in_principal_tenant h (ss_db s) now (Some r) (Some e) sc = Inr () \<longrightarrow> home e)
    \<and> (\<forall>e. require_role_write_in_principal_tenant h (ss_db s) now (Some r) (Some e) sc = Inr () \<longrightarrow> home e)
    \<and> (\<forall>v. require_account_managed_by_principal h (ss_db s) now (Some r) v sc = Inr () \<longrightarrow>
         same_id (ar_user_id r) (u_id v) \<or> (\<exists>e. u_root_entity v = Some e \<and> home e))
    \<and> (\<forall>wanted x. resolve_root_for_scoped_create h (ss_db s) now (Some u) (Some r) wanted = Inr x \<longrightarrow>
         (\<exists>e. x = Some e \<and> home e))"
proof -
  note ok = tree_reach_hierarchy [OF assms(1)]
  have no_tenant: "\<not> entity_in_users_tenant d u None" for d
    by (simp add: entity_in_users_tenant_def split: option.split)
  have holds: "home e" if "principal_tenant_holds_entity h (ss_db s) now (Some r) (Some e)" for e
    unfolding home_def by (rule tenant_holds [OF ok assms(2-4) that])
  have accounts: "same_id (ar_user_id r) (u_id v) \<or> (\<exists>e. u_root_entity v = Some e \<and> home e)"
    if "require_account_managed_by_principal h (ss_db s) now (Some r) v sc = Inr ()" for v
    using that assms(2,3,5) no_global_owner [OF assms(2,4)] tenant_entity [OF ok, of u]
    by (cases "u_root_entity v")
      (auto simp: require_account_managed_by_principal_def auth_or_none_def account_in_users_tenant_def home_def
        no_tenant Let_def split: if_splits)
  have created: "\<exists>e. x = Some e \<and> home e"
    if "resolve_root_for_scoped_create h (ss_db s) now (Some u) (Some r) wanted = Inr x" for wanted x
    using scoped_create_home [OF ok assms(2,4) that] unfolding home_def by blast
  show ?thesis
    using holds accounts created assms(2,5)
    by (auto simp: require_membership_write_in_principal_tenant_def require_role_write_in_principal_tenant_def
        split: if_splits)
qed

section \<open>Delegation\<close>

lemma delegation_checked:
  assumes "require_can_delegate_permissions cfg d env actor wanted eid = Inr ()" and "n \<in> set wanted" and "n \<noteq> []"
    and "eid = None \<Longrightarrow> \<not> cfg_hierarchy cfg \<Longrightarrow> active_entity_memberships d actor = []"
  shows "granted (check_permission cfg d env no_cache (Some actor) n eid None None None None) = Inr True"
proof -
  let ?names = "filter (\<lambda>p. p \<noteq> []) wanted"
  have n: "n \<in> set ?names" using assms(2,3) by simp
  then have "?names \<noteq> []" by force
  then obtain held where held: "get_effective_permission_names cfg d env actor eid (Some ?names) None = Inr held"
    and "sort (remdups (filter (\<lambda>n. n \<notin> held) ?names)) = []"
    using assms(1) unfolding require_can_delegate_permissions_def Let_def by (auto simp: bindE_eq_Inr)
  then have "set (sort (remdups (filter (\<lambda>n. n \<notin> held) ?names))) = {}" by simp
  with n have "n \<in> held" by auto
  with effective_names_agree [OF held n _ assms(4)] show ?thesis by simp
qed

lemma carried_by_role:
  assumes "carried_names d None (r_id ro) = Inr names" and "n \<in> set (role_permission_names_for_context cfg d ro ty)"
  shows "n \<in> set names"
proof -
  obtain own table where own: "get_role_permission_names d (r_id ro) = Inr own"
    and table: "get_role_entity_type_permission_names d (r_id ro) = Inr table" and names: "names = own @ entries_of table"
    using assms(1) by (auto simp: carried_names_def bindE_eq_Inr)
  obtain p where p: "p \<in> set (role_permissions_for_context cfg d ro ty)" "n = p_name p"
    using assms(2) by (auto simp: role_permission_names_for_context_def)
  have base: "p_name q \<in> set own" if "q \<in> set (role_permissions d (r_id ro))" "permission_live q" for q
    using own that by (auto simp: get_role_permission_names_def get_role_permissions_def bindE_eq_Inr
        permission_live_def split: option.splits)
  have entry: "p_name q \<in> set (entries_of table)"
    if x: "x \<in> set (role_type_entries d (r_id ro))" and q: "permission_of d (et_permission x) = Some q" for x q
  proof -
    define es where "es = filter (\<lambda>e. permission_of d (et_permission e) \<noteq> None) (role_type_entries d (r_id ro))"
    define names where "names = (\<lambda>t. List.map_filter (\<lambda>e. map_option p_name (permission_of d (et_permission e)))
        (filter (\<lambda>e. et_type e = t) es))"
    have "table = map (\<lambda>t. (t, names t)) (dedup (map et_type es))"
      using table by (simp add: get_role_entity_type_permission_names_def es_def names_def Let_def split: option.splits)
    moreover have "x \<in> set es" using x q by (simp add: es_def)
    moreover from this have "p_name q \<in> set (names (et_type x))"
      using q by (force simp: names_def map_filter_def)
    ultimately show ?thesis by (auto simp: entries_of_def)
  qed
  have "p_name p \<in> set own \<union> set (entries_of table)"
  proof (cases "p \<in> set (role_permissions d (r_id ro)) \<and> permission_live p")
    case False
    then obtain x where "x \<in> set (role_type_entries d (r_id ro))" "permission_of d (et_permission x) = Some p"
      using p(1) unfolding role_permissions_for_context_def live_permissions_def
      by (force simp: Let_def split: if_splits option.splits)
    then show ?thesis using entry by blast
  qed (use base in blast)
  then show ?thesis by (simp add: names p(2))
qed

lemma delegated_roles:
  assumes "require_can_delegate_direct_roles cfg d env actor roles = Inr ()" and "ro \<in> set roles"
  shows "\<exists>names. carried_names d None (r_id ro) = Inr names
    \<and> require_can_delegate_permissions cfg d env actor names (direct_role_grant_context cfg ro) = Inr ()"
  using assms by (induction cfg d env actor roles rule: require_can_delegate_direct_roles.induct)
    (auto simp: bindE_eq_Inr)

text \<open>
  C5. Nobody grants what they do not hold. When the containment check lets an actor hand out roles directly,
  every permission one of those roles can grant, at an entity of any type, is one that a permission check
  grants the actor itself, at the entity where the role takes effect. The side condition is about hosts
  without a hierarchy, where memberships of entities are stray rows.
\<close>

theorem delegated_roles_are_contained:
  assumes "require_can_delegate_direct_roles cfg d env actor roles = Inr ()" and "ro \<in> set roles"
    and "n \<in> set (role_permission_names_for_context cfg d ro ty)"
    and "cfg_hierarchy cfg \<or> active_entity_memberships d actor = []"
  shows "granted (check_permission cfg d env no_cache (Some actor) n (direct_role_grant_context cfg ro)
      None None None None) = Inr True"
proof -
  from delegated_roles [OF assms(1,2)] obtain names where names: "carried_names d None (r_id ro) = Inr names"
    and "require_can_delegate_permissions cfg d env actor names (direct_role_grant_context cfg ro) = Inr ()" by blast
  moreover have "n \<noteq> []" using assms(3) by (simp add: role_permission_names_for_context_def)
  ultimately show ?thesis using delegation_checked carried_by_role [OF names assms(3)] assms(4) by blast
qed

section \<open>Witnesses\<close>

text \<open>An organization with a team below it, a user rooted at the team, another rooted at the organization.\<close>

definition team_user :: user_row where
  "team_user = (new_user ''u'' ''u@x.io'')\<lparr>u_root_entity := Some ''team''\<rparr>"

definition org_user :: user_row where
  "org_user = (new_user ''v'' ''v@x.io'')\<lparr>u_root_entity := Some ''org''\<rparr>"

definition tenants :: session_state where
  "tenants = with_team\<lparr>ss_db := (ss_db with_team)\<lparr>tb_users := [team_user, org_user]\<rparr>\<rparr>"

definition scoped_host :: scope_host where
  "scoped_host = \<lparr>sh_config = sample_cfg, sh_keys = True, sh_roles = the (ar_roles plain_archive)\<rparr>"

definition team_login :: auth_result where
  "team_login = no_auth\<lparr>ar_source := Some ''jwt'', ar_user := Some team_user\<rparr>"

lemma tenants_reach: "tree_reach tenants"
  by (rule tree_other [OF with_team_reach]) (simp add: same_tree_def tenants_def)

lemma team_user_facts:
  "scope_enforced scoped_host" "request_user (ss_db tenants) team_login = Some team_user"
  "\<not> spans_all (ss_db tenants) 0 team_user"
  "set (map em_entity (tb_entity_members (ss_db tenants))) = {}"
  "parent_map (ss_db tenants) ''org'' = None"
  "map_option u_root_entity (user_of (ss_db tenants) ''v'') = Some (Some ''org'')"
  by code_simp+

lemma org_outside: "''org'' \<notin> below (parent_map (ss_db tenants)) ''team''"
proof
  assume "''org'' \<in> below (parent_map (ss_db tenants)) ''team''"
  then obtain n where "up (parent_map (ss_db tenants)) n ''org'' = Some ''team''" by (auto simp: below_def)
  then show False using team_user_facts(5) by (cases n) simp_all
qed

lemma team_principal: "tenant_principal scoped_host (ss_db tenants) 0 team_login team_user ''team''"
proof -
  have "seeds_of (ss_db tenants) team_user \<subseteq> {''team''}"
    using team_user_facts(4) by (auto simp: seeds_of_def team_user_def)
  then show ?thesis using team_user_facts(1-3) by (auto simp: tenant_principal_def)
qed


theorem tenant_writes_stay_home_witness:
  "resolve_root_for_scoped_create scoped_host (ss_db tenants) 0 (Some team_user) (Some team_login) None = Inr (Some ''team'')
   \<and> ''team'' \<in> below (parent_map (ss_db tenants)) ''team''
   \<and> require_membership_write_in_principal_tenant scoped_host (ss_db tenants) 0 (Some team_login) (Some ''org'')
        (empty_scope ''jwt'') \<noteq> Inr ()"
proof -
  have "\<not> es_global (empty_scope ''jwt'')" by code_simp
  note home = tenant_writes_stay_home [OF tenants_reach team_user_facts(1-3) this]
  have made: "resolve_root_for_scoped_create scoped_host (ss_db tenants) 0 (Some team_user) (Some team_login) None = Inr (Some ''team'')"
    by code_simp
  have "u_root_entity team_user = Some ''team''" by (simp add: team_user_def)
  with made home org_outside show ?thesis by auto
qed

text \<open>A key of the same user, anchored at the organization with everything below it.\<close>

definition org_key :: api_key_row where
  "org_key = (sample_key ''k'')\<lparr>k_entity := Some ''org'', k_inherit := True\<rparr>"

definition key_login :: auth_result where
  "key_login = no_auth\<lparr>ar_source := Some ''api_key'', ar_user := Some team_user, ar_key := Some org_key\<rparr>"


theorem delegated_roles_are_contained_witness:
  "sample_check sample_db ''user:list'' (Some ''org'') = Inr True
   \<and> require_can_delegate_direct_roles sample_cfg sample_db sample_env ''alice'' [sample_role ''lister'' (Some ''rival'')] \<noteq> Inr ()"
proof -
  let ?r = "sample_role ''lister'' (Some ''org'')"
  have "require_can_delegate_direct_roles sample_cfg sample_db sample_env ''alice'' [?r] = Inr ()"
    and "''user:list'' \<in> set (role_permission_names_for_context sample_cfg sample_db ?r None)"
    and "direct_role_grant_context sample_cfg ?r = Some ''org''" and "cfg_hierarchy sample_cfg"
    by code_simp+
  from delegated_roles_are_contained [OF this(1) _ this(2)] this(3,4)
  have "sample_check sample_db ''user:list'' (Some ''org'') = Inr True" by (simp add: sample_check_def)
  moreover have "require_can_delegate_direct_roles sample_cfg sample_db sample_env ''alice'' [sample_role ''lister'' (Some ''rival'')] \<noteq> Inr ()"
    by code_simp
  ultimately show ?thesis by simp
qed

end
